(* ===== verification/Prelude.thy ===== *)
theory Prelude
  imports "HOL-Library.Word"
begin

text \<open>
  Vocabulary shared by every component of the pg-proto development: machine integers and byte
  strings, Rust's \<open>io::Error\<close> and \<open>Result\<close>, the operations of the \<open>bytes\<close> crate the sources use on
  \<open>Bytes\<close> and \<open>BytesMut\<close> (big-endian integers, splitting, appending), parsers (a mutable \<open>Bytes\<close>
  read with \<open>?\<close>) and writers (a mutable \<open>BytesMut\<close> appended to with \<open>?\<close>), and the generic lemmas on
  them.  A \<open>usize\<close> is a \<^typ>\<open>nat\<close>; the checked operations compare against the 64-bit bound.
\<close>

named_theorems reader_iff \<open>when a reader succeeds, and what it consumed\<close>
named_theorems writer_simps \<open>what a writer that succeeds appended\<close>

named_theorems eval_defs \<open>definitions to unfold when a concrete input is evaluated\<close>

section \<open>Integers and byte strings\<close>

type_synonym u8 = "8 word"
type_synonym u16 = "16 word"
type_synonym u32 = "32 word"
type_synonym u64 = "64 word"

text \<open>Signed integers are kept as their two's complement bit pattern; \<open>sint\<close> reads the value.\<close>

type_synonym i16 = "16 word"
type_synonym i32 = "32 word"
type_synonym i64 = "64 word"

type_synonym bytes = "u8 list"

text \<open>The byte literal \<open>b'P'\<close> and the byte-string literal \<open>b"PQ"\<close>.\<close>

abbreviation byte :: "char \<Rightarrow> u8" where
  "byte c \<equiv> of_char c"

definition bstr :: "string \<Rightarrow> bytes" where
  "bstr s = map byte s"

definition usize_max :: nat where
  "usize_max = 2 ^ 64 - 1"

definition u64_max :: nat where
  "u64_max = 2 ^ 64 - 1"

definition i32_max :: nat where
  "i32_max = 2 ^ 31 - 1"

definition checked_add :: "nat \<Rightarrow> nat \<Rightarrow> nat option" where
  "checked_add a b = (if a + b \<le> usize_max then Some (a + b) else None)"

definition checked_mul :: "nat \<Rightarrow> nat \<Rightarrow> nat option" where
  "checked_mul a b = (if a * b \<le> usize_max then Some (a * b) else None)"

definition saturating_add :: "nat \<Rightarrow> nat \<Rightarrow> nat" where
  "saturating_add a b = min (a + b) usize_max"

text \<open>\<open>u64::saturating_add(1)\<close> on the counters of the ledger and the demultiplexer.\<close>

definition saturating_inc :: "u64 \<Rightarrow> u64" where
  "saturating_inc n = (if n = - 1 then n else n + 1)"

lemma unat_lt: "unat (w :: 'a::len word) < 2 ^ LENGTH('a)"
  by simp

lemma unat_of_nat_u16: "n < 2 ^ 16 \<Longrightarrow> unat (word_of_nat n :: u16) = n"
  by (simp add: unat_of_nat)

lemma unat_of_nat_u32: "n < 2 ^ 32 \<Longrightarrow> unat (word_of_nat n :: u32) = n"
  by (simp add: unat_of_nat)

lemma unat_all_ones: "unat (- 1 :: u64) = u64_max"
  by (simp add: u64_max_def unsigned_minus_1_eq_mask mask_eq_exp_minus_1)

lemma saturating_inc_unat: "unat (saturating_inc n) = min (unat n + 1) u64_max"
proof (cases "n = - 1")
  case True
  then show ?thesis
    by (simp add: saturating_inc_def unat_all_ones)
next
  case False
  then have "unat n \<noteq> unat (- 1 :: u64)"
    using word_unat_eq_iff by metis
  with unat_lt [of n] have lt: "unat n < u64_max"
    unfolding unat_all_ones by (simp add: u64_max_def)
  then have "unat (n + 1) = unat n + 1"
    by (simp add: unat_word_ariths u64_max_def)
  with False lt show ?thesis by (simp add: saturating_inc_def)
qed

section \<open>Errors and results\<close>

datatype io_error_kind =
    InvalidInput | InvalidData | UnexpectedEof | WriteZero | PermissionDenied | ConnectionAborted

datatype io_error = IoError (error_kind: io_error_kind) (error_text: string)

type_synonym 'a io_result = "io_error + 'a"

text \<open>\<open>Result::map\<close>: the error passes through.\<close>

abbreviation result_map :: "('a \<Rightarrow> 'b) \<Rightarrow> 'e + 'a \<Rightarrow> 'e + 'b" where
  "result_map f r \<equiv> map_sum id f r"

lemma result_map_Inr_iff [simp]: "(result_map f r = Inr y) = (\<exists>x. r = Inr x \<and> y = f x)"
  by (cases r) auto

lemma result_map_Inl_iff [simp]: "(result_map f r = Inl e) = (r = Inl e)"
  by (cases r) auto

text \<open>The \<open>?\<close> operator: an error returns early, a success continues.\<close>

lemma question_mark_Inr_iff [simp]:
  "((case r of Inl e \<Rightarrow> Inl e | Inr x \<Rightarrow> f x) = Inr y) = (\<exists>x. r = Inr x \<and> f x = Inr y)"
  by (cases r) auto

definition is_ok :: "'e + 'a \<Rightarrow> bool" where
  "is_ok r = (case r of Inl _ \<Rightarrow> False | Inr _ \<Rightarrow> True)"

lemma is_ok_simps [simp]: "is_ok (Inl e) = False" "is_ok (Inr x) = True"
  by (simp_all add: is_ok_def)

lemma is_ok_iff: "is_ok r = (\<exists>x. r = Inr x)"
  by (cases r) auto

text \<open>A computation that may reach a \<open>panic!\<close>, \<open>expect\<close>, \<open>unreachable!\<close> or failed \<open>assert!\<close>.\<close>

datatype 'a exec = Panic | Done 'a

section \<open>Readers: a \<open>&mut Bytes\<close> and the \<open>?\<close> operator\<close>

type_synonym 'a reader = "bytes \<Rightarrow> io_error + 'a \<times> bytes"

definition rbind :: "'a reader \<Rightarrow> ('a \<Rightarrow> bytes \<Rightarrow> io_error + 'b) \<Rightarrow> bytes \<Rightarrow> io_error + 'b" where
  "rbind p f body = (case p body of Inl e \<Rightarrow> Inl e | Inr (x, rest) \<Rightarrow> f x rest)"

lemma rbind_Inr_iff [simp, reader_iff]:
  "(rbind p f body = Inr y) = (\<exists>x rest. p body = Inr (x, rest) \<and> f x rest = Inr y)"
  by (auto simp: rbind_def split: sum.splits)

lemma rbind_cong [fundef_cong]:
  assumes "body = body'" and "p body' = p' body'"
    and "\<And>x rest. p' body' = Inr (x, rest) \<Longrightarrow> f x rest = f' x rest"
  shows "rbind p f body = rbind p' f' body'"
  using assms by (auto simp: rbind_def split: sum.splits)

lemma rbind_Inr: "p body = Inr (x, rest) \<Longrightarrow> rbind p f body = f x rest"
  by (simp add: rbind_def)

lemma rbind_Inl: "p body = Inl e \<Longrightarrow> rbind p f body = Inl e"
  by (simp add: rbind_def)

definition rreturn :: "'a \<Rightarrow> 'a reader" where
  "rreturn x body = Inr (x, body)"

lemma rreturn_iff [simp, reader_iff]: "(rreturn x body = Inr (y, rest)) = (y = x \<and> rest = body)"
  by (auto simp: rreturn_def)

text \<open>\<open>for _ in 0..count { items.push(item(body)?) }\<close>\<close>

fun take_n :: "nat \<Rightarrow> 'a reader \<Rightarrow> 'a list reader" where
  "take_n 0 item = rreturn []"
| "take_n (Suc n) item = rbind item (\<lambda>x. rbind (take_n n item) (\<lambda>xs. rreturn (x # xs)))"

lemma take_n_length: "take_n n item body = Inr (xs, rest) \<Longrightarrow> length xs = n"
  by (induction n arbitrary: body xs rest) auto

section \<open>Writers: a \<open>&mut BytesMut\<close> and the \<open>?\<close> operator\<close>

type_synonym writer = "bytes \<Rightarrow> io_error + bytes"

text \<open>A sequence of statements \<open>put(..., &mut body)?;\<close>.\<close>

fun writes :: "writer list \<Rightarrow> writer" where
  "writes [] body = Inr body"
| "writes (w # ws) body = (case w body of Inl e \<Rightarrow> Inl e | Inr body' \<Rightarrow> writes ws body')"

text \<open>\<open>for x in xs { put(x, &mut body)?; }\<close>\<close>

abbreviation put_all :: "('a \<Rightarrow> writer) \<Rightarrow> 'a list \<Rightarrow> writer" where
  "put_all put xs \<equiv> writes (map put xs)"

text \<open>A writer only appends: what it does to a body is what it does to the empty one, appended.\<close>

definition appends :: "writer \<Rightarrow> bool" where
  "appends w = (\<forall>body. w body = result_map (\<lambda>p. body @ p) (w []))"

lemma appendsI: "(\<And>body. w body = result_map (\<lambda>p. body @ p) (w [])) \<Longrightarrow> appends w"
  unfolding appends_def by blast

lemma appendsD: "appends w \<Longrightarrow> w body = result_map (\<lambda>p. body @ p) (w [])"
  unfolding appends_def by blast

lemma writes_append:
  assumes "list_all appends ws"
  shows "writes ws body = result_map (\<lambda>p. body @ p) (writes ws [])"
  using assms
proof (induction ws arbitrary: body)
  case Nil
  then show ?case by simp
next
  case (Cons w ws)
  then have w: "w body = result_map (\<lambda>p. body @ p) (w [])" and ws: "list_all appends ws"
    by (simp_all add: appendsD [of w body])
  show ?case
  proof (cases "w []")
    case (Inl e)
    with w show ?thesis by simp
  next
    case (Inr p)
    have "writes ws (body @ p) = result_map (\<lambda>q. (body @ p) @ q) (writes ws [])"
      and "writes ws p = result_map (\<lambda>q. p @ q) (writes ws [])"
      by (rule Cons.IH [OF ws])+
    with Inr w show ?thesis by (cases "writes ws []") simp_all
  qed
qed

lemma appends_writes [simp]: "list_all appends ws \<Longrightarrow> appends (writes ws)"
  by (rule appendsI) (rule writes_append)

lemma writes_Nil_iff [writer_simps]: "(writes [] [] = Inr p) = (p = [])"
  by auto

lemma writes_Cons_iff [writer_simps]:
  assumes "list_all appends ws"
  shows "(writes (w # ws) [] = Inr p) =
    (\<exists>p1 p2. w [] = Inr p1 \<and> writes ws [] = Inr p2 \<and> p = p1 @ p2)"
proof (cases "w []")
  case (Inr p1)
  have "writes ws p1 = result_map (\<lambda>q. p1 @ q) (writes ws [])"
    by (rule writes_append [OF assms])
  with Inr show ?thesis by auto
qed simp

section \<open>Big-endian integers\<close>

fun to_be :: "nat \<Rightarrow> nat \<Rightarrow> bytes" where
  "to_be 0 x = []"
| "to_be (Suc n) x = to_be n (x div 256) @ [word_of_nat x]"

fun of_be_acc :: "nat \<Rightarrow> bytes \<Rightarrow> nat" where
  "of_be_acc acc [] = acc"
| "of_be_acc acc (b # bs) = of_be_acc (acc * 256 + unat b) bs"

definition of_be :: "bytes \<Rightarrow> nat" where
  "of_be bs = of_be_acc 0 bs"

lemma to_be_numeral [simp]:
  "to_be (numeral k) x = to_be (pred_numeral k) (x div 256) @ [word_of_nat x]"
  by (simp add: numeral_eq_Suc [of k])

lemma length_to_be [simp]: "length (to_be n x) = n"
  by (induction n arbitrary: x) auto

lemma of_be_acc_append: "of_be_acc acc (xs @ ys) = of_be_acc (of_be_acc acc xs) ys"
  by (induction xs arbitrary: acc) auto

lemma of_be_snoc: "of_be (xs @ [b]) = of_be xs * 256 + unat b"
  by (simp add: of_be_def of_be_acc_append)

lemma of_be_Nil [simp]: "of_be [] = 0"
  by (simp add: of_be_def)

lemma unat_byte_lt: "unat (b :: u8) < 256"
  using unat_lt [of b] by simp

lemma byte_mult_256 [simp]: "(x :: u8) * 256 = 0"
proof -
  have "(256 :: u8) = 0" by simp
  then show ?thesis by (simp only: mult_zero_right)
qed

lemma of_be_lt: "of_be bs < 256 ^ length bs"
proof (induction bs rule: rev_induct)
  case Nil
  then show ?case by simp
next
  case (snoc b bs)
  then have "of_be bs + 1 \<le> 256 ^ length bs" by simp
  then have "(of_be bs + 1) * 256 \<le> 256 ^ length bs * 256" by (rule mult_right_mono) simp
  with unat_byte_lt [of b] show ?case by (simp add: of_be_snoc)
qed

lemma of_be_to_be: "x < 256 ^ n \<Longrightarrow> of_be (to_be n x) = x"
proof (induction n arbitrary: x)
  case 0
  then show ?case by simp
next
  case (Suc n)
  then have "x div 256 < 256 ^ n" by (simp add: less_mult_imp_div_less mult.commute)
  with Suc.IH have "of_be (to_be n (x div 256)) = x div 256" by blast
  then show ?case by (simp add: of_be_snoc unat_of_nat)
qed

lemma to_be_of_be: "length bs = n \<Longrightarrow> to_be n (of_be bs) = bs"
proof (induction bs arbitrary: n rule: rev_induct)
  case Nil
  then show ?case by simp
next
  case (snoc b bs)
  have "(of_be bs * 256 + unat b) div 256 = of_be bs"
    using unat_byte_lt [of b] by simp
  moreover have "(word_of_nat (of_be bs * 256 + unat b) :: u8) = b"
    by simp
  ultimately show ?case using snoc by (auto simp: of_be_snoc)
qed

text \<open>\<open>put_u16\<close>, \<open>put_u32\<close>, \<open>put_u64\<close> write these bytes; \<open>get_u16\<close>, \<open>get_u32\<close>, \<open>get_u64\<close> read them back.\<close>

definition be16 :: "u16 \<Rightarrow> bytes" where
  "be16 w = to_be 2 (unat w)"

definition be32 :: "u32 \<Rightarrow> bytes" where
  "be32 w = to_be 4 (unat w)"

definition be64 :: "u64 \<Rightarrow> bytes" where
  "be64 w = to_be 8 (unat w)"

definition of_be16 :: "bytes \<Rightarrow> u16" where
  "of_be16 bs = word_of_nat (of_be bs)"

definition of_be32 :: "bytes \<Rightarrow> u32" where
  "of_be32 bs = word_of_nat (of_be bs)"

definition of_be64 :: "bytes \<Rightarrow> u64" where
  "of_be64 bs = word_of_nat (of_be bs)"

lemma length_be [simp]: "length (be16 a) = 2" "length (be32 b) = 4" "length (be64 c) = 8"
  by (simp_all add: be16_def be32_def be64_def del: to_be_numeral)

lemma of_be16_be16 [simp]: "of_be16 (be16 w) = w"
  using unat_lt [of w] by (simp add: be16_def of_be16_def of_be_to_be del: to_be_numeral)

lemma of_be32_be32 [simp]: "of_be32 (be32 w) = w"
  using unat_lt [of w] by (simp add: be32_def of_be32_def of_be_to_be del: to_be_numeral)

lemma of_be64_be64 [simp]: "of_be64 (be64 w) = w"
  using unat_lt [of w] by (simp add: be64_def of_be64_def of_be_to_be del: to_be_numeral)

lemma unat_of_be16: "length bs = 2 \<Longrightarrow> unat (of_be16 bs) = of_be bs"
  using of_be_lt [of bs] by (simp add: of_be16_def unat_of_nat)

lemma unat_of_be32: "length bs = 4 \<Longrightarrow> unat (of_be32 bs) = of_be bs"
  using of_be_lt [of bs] by (simp add: of_be32_def unat_of_nat)

lemma unat_of_be64: "length bs = 8 \<Longrightarrow> unat (of_be64 bs) = of_be bs"
  using of_be_lt [of bs] by (simp add: of_be64_def unat_of_nat)

lemma be16_of_be16: "length bs = 2 \<Longrightarrow> be16 (of_be16 bs) = bs"
  by (simp add: be16_def unat_of_be16 to_be_of_be del: to_be_numeral)

lemma be32_of_be32: "length bs = 4 \<Longrightarrow> be32 (of_be32 bs) = bs"
  by (simp add: be32_def unat_of_be32 to_be_of_be del: to_be_numeral)

lemma be64_of_be64: "length bs = 8 \<Longrightarrow> be64 (of_be64 bs) = bs"
  by (simp add: be64_def unat_of_be64 to_be_of_be del: to_be_numeral)

text \<open>\<open>iter().position(p)\<close>: the index of the first element that satisfies \<open>p\<close>.\<close>

fun position :: "('a \<Rightarrow> bool) \<Rightarrow> 'a list \<Rightarrow> nat option" where
  "position p [] = None"
| "position p (x # xs) = (if p x then Some 0 else map_option Suc (position p xs))"

lemma position_append [simp]:
  "(\<And>x. x \<in> set xs \<Longrightarrow> \<not> p x) \<Longrightarrow> p y \<Longrightarrow> position p (xs @ y # ys) = Some (length xs)"
  by (induction xs) auto

lemma position_Some_iff:
  "(position p xs = Some n) =
    (\<exists>us y vs. xs = us @ y # vs \<and> n = length us \<and> p y \<and> (\<forall>x \<in> set us. \<not> p x))"
proof
  assume "position p xs = Some n"
  then show "\<exists>us y vs. xs = us @ y # vs \<and> n = length us \<and> p y \<and> (\<forall>x \<in> set us. \<not> p x)"
  proof (induction xs arbitrary: n)
    case Nil
    then show ?case by simp
  next
    case (Cons x xs)
    show ?case
    proof (cases "p x")
      case True
      with Cons.prems have "x # xs = [] @ x # xs \<and> n = length [] \<and> p x" by simp
      then show ?thesis by (metis emptyE empty_set)
    next
      case False
      with Cons.prems obtain m where "position p xs = Some m" and n: "n = Suc m" by auto
      from Cons.IH [OF this(1)] obtain us y vs
        where "xs = us @ y # vs" "m = length us" "p y" "\<forall>x \<in> set us. \<not> p x" by blast
      with False n have "x # xs = (x # us) @ y # vs \<and> n = length (x # us) \<and> p y
          \<and> (\<forall>z \<in> set (x # us). \<not> p z)" by simp
      then show ?thesis by blast
    qed
  qed
qed auto

lemma position_None_iff: "(position p xs = None) = (\<forall>x \<in> set xs. \<not> p x)"
  by (induction xs) auto

text \<open>\<open>Bytes::split_to\<close>: the first \<open>n\<close> bytes and the rest; callers check the length first.\<close>

definition split_to :: "nat \<Rightarrow> bytes \<Rightarrow> bytes \<times> bytes" where
  "split_to n bs = (take n bs, drop n bs)"

lemma split_to_append [simp]: "length p = n \<Longrightarrow> split_to n (p @ rest) = (p, rest)"
  by (simp add: split_to_def)

lemma take_drop_eqI: "n \<le> length bs \<Longrightarrow> \<exists>p rest. bs = p @ rest \<and> length p = n"
  by (rule exI [of _ "take n bs"], rule exI [of _ "drop n bs"]) simp

declare bstr_def [eval_defs] usize_max_def [eval_defs] i32_max_def [eval_defs] checked_add_def [eval_defs]
  checked_mul_def [eval_defs] rbind_def [eval_defs] rreturn_def [eval_defs] be16_def [eval_defs]
  be32_def [eval_defs] be64_def [eval_defs] of_be16_def [eval_defs] of_be32_def [eval_defs]
  of_be64_def [eval_defs] of_be_def [eval_defs] split_to_def [eval_defs] Let_def [eval_defs]

end
