(* ===== verification/Fsm.thy ===== *)
theory Fsm
  imports Prelude
begin

text \<open>
  The meaning of the \<open>protocol!\<close> macro of \<open>pg-proto-fsm\<close>: the grammar it parses as data, the checks of
  its \<open>validate\<close>, and the runtime code it generates from a grammar (the transition table, the two
  projections, \<open>transition\<close> and the \<open>RuntimeFsm\<close>) as functions of the grammar.  A projection pattern is
  the predicate it matches.  Phases and events are type parameters: a grammar instantiates them with
  the enums \<open>RuntimeState\<close> and \<open>Event\<close> the macro generates for it.  Every grammar here declares its message
  types.  Payload types, method bodies and the association lanes (with their checks) only shape Rust types
  and have no runtime meaning.
\<close>

section \<open>Grammars as data\<close>

datatype ChoiceKind = Internal | External | Mixed

datatype Cleanliness = Pristine | Dirty

text \<open>The pattern after \<open><=\<close>: over the internal or the external message type.\<close>

datatype ('i, 'x) projection = On_internal "'i \<Rightarrow> bool" | On_external "'x \<Rightarrow> bool"

record ('s, 'e, 'i, 'x) Transition =
  t_choice :: "ChoiceKind option"
  t_event :: 'e
  t_method :: string
  t_target :: 's
  t_cleanliness :: "Cleanliness option"
  t_projection :: "('i, 'x) projection option"

record ('s, 'e, 'i, 'x) State =
  st_name :: 's
  st_choice :: ChoiceKind
  st_transitions :: "('s, 'e, 'i, 'x) Transition list"

record ('s, 'e, 'i, 'x) Protocol =
  p_initial :: 's
  p_states :: "('s, 'e, 'i, 'x) State list"

text \<open>\<open>transition.choice.unwrap_or(state.choice)\<close>\<close>

definition choice_of :: "('s, 'e, 'i, 'x) State \<Rightarrow> ('s, 'e, 'i, 'x) Transition \<Rightarrow> ChoiceKind" where
  "choice_of st t = (case t_choice t of None \<Rightarrow> st_choice st | Some c \<Rightarrow> c)"

section \<open>The checks of \<open>validate\<close>\<close>

fun validate_transitions ::
  "'s list \<Rightarrow> string list \<Rightarrow> ('s, 'e, 'i, 'x) Transition list \<Rightarrow> string + unit" where
  "validate_transitions names methods [] = Inr ()"
| "validate_transitions names methods (t # ts) =
     (if t_target t \<notin> set names then Inl ''transition target is not declared''
      else if t_method t \<in> set methods then Inl ''duplicate transition method in state''
      else validate_transitions names (t_method t # methods) ts)"

definition validate_state :: "'s list \<Rightarrow> ('s, 'e, 'i, 'x) State \<Rightarrow> string + unit" where
  "validate_state names st =
     (if st_choice st = Mixed \<and> list_ex (\<lambda>t. t_choice t = None) (st_transitions st)
      then Inl ''every transition in a mixed state needs `internal` or `external`''
      else if st_choice st \<noteq> Mixed \<and> list_ex (\<lambda>t. t_choice t \<noteq> None) (st_transitions st)
      then Inl ''transition directions are only valid in a mixed state''
      else validate_transitions names [] (st_transitions st))"

fun validate_states :: "'s list \<Rightarrow> ('s, 'e, 'i, 'x) State list \<Rightarrow> string + unit" where
  "validate_states names [] = Inr ()"
| "validate_states names (st # sts) =
     (case validate_state names st of Inl e \<Rightarrow> Inl e | Inr _ \<Rightarrow> validate_states names sts)"

definition validate :: "('s, 'e, 'i, 'x) Protocol \<Rightarrow> string + unit" where
  "validate p = (let names = map st_name (p_states p) in
     if p_initial p \<notin> set names then Inl ''initial state is not declared''
     else validate_states names (p_states p))"

section \<open>The generated runtime\<close>

record ('s, 'e) RuntimeTransition =
  rt_source :: 's
  rt_event :: 'e
  rt_target :: 's
  rt_choice :: ChoiceKind

definition descriptor ::
  "('s, 'e, 'i, 'x) State \<Rightarrow> ('s, 'e, 'i, 'x) Transition \<Rightarrow> ('s, 'e) RuntimeTransition" where
  "descriptor st t = \<lparr>rt_source = st_name st, rt_event = t_event t, rt_target = t_target t,
     rt_choice = choice_of st t\<rparr>"

lemma descriptor_simps [simp]:
  "rt_source (descriptor st t) = st_name st" "rt_event (descriptor st t) = t_event t"
  "rt_target (descriptor st t) = t_target t" "rt_choice (descriptor st t) = choice_of st t"
  by (simp_all add: descriptor_def)

definition TRANSITIONS :: "('s, 'e, 'i, 'x) Protocol \<Rightarrow> ('s, 'e) RuntimeTransition list" where
  "TRANSITIONS p = concat (map (\<lambda>st. map (descriptor st) (st_transitions st)) (p_states p))"

definition transition :: "('s, 'e, 'i, 'x) Protocol \<Rightarrow> 's \<Rightarrow> 'e \<Rightarrow> ('s, 'e) RuntimeTransition option" where
  "transition p state event = find (\<lambda>t. rt_source t = state \<and> rt_event t = event) (TRANSITIONS p)"

text \<open>
  The arms \<open>(RuntimeState::source, pattern) => Some(Event::event)\<close> of a projection, in order; the first
  that matches gives the event.
\<close>

definition internal_arms :: "('s, 'e, 'i, 'x) State \<Rightarrow> (('i \<Rightarrow> bool) \<times> 'e) list" where
  "internal_arms st = concat (map (\<lambda>t.
     (case (choice_of st t, t_projection t) of
        (Internal, Some (On_internal pat)) \<Rightarrow> [(pat, t_event t)] | _ \<Rightarrow> [])) (st_transitions st))"

definition external_arms :: "('s, 'e, 'i, 'x) State \<Rightarrow> (('x \<Rightarrow> bool) \<times> 'e) list" where
  "external_arms st = concat (map (\<lambda>t.
     (case (choice_of st t, t_projection t) of
        (External, Some (On_external pat)) \<Rightarrow> [(pat, t_event t)] | _ \<Rightarrow> [])) (st_transitions st))"

fun first_arm :: "(('m \<Rightarrow> bool) \<times> 'e) list \<Rightarrow> 'm \<Rightarrow> 'e option" where
  "first_arm [] m = None"
| "first_arm ((pat, event) # arms) m = (if pat m then Some event else first_arm arms m)"

definition project_internal :: "('s, 'e, 'i, 'x) Protocol \<Rightarrow> 's \<Rightarrow> 'i \<Rightarrow> 'e option" where
  "project_internal p state message =
     first_arm (concat (map internal_arms (filter (\<lambda>st. st_name st = state) (p_states p)))) message"

definition project_external :: "('s, 'e, 'i, 'x) Protocol \<Rightarrow> 's \<Rightarrow> 'x \<Rightarrow> 'e option" where
  "project_external p state message =
     first_arm (concat (map external_arms (filter (\<lambda>st. st_name st = state) (p_states p)))) message"

text \<open>\<open>RuntimeFsm\<close>: its one field is the phase.\<close>

definition fsm_new :: "('s, 'e, 'i, 'x) Protocol \<Rightarrow> 's" where
  "fsm_new p = p_initial p"

definition fsm_choice :: "('s, 'e, 'i, 'x) Protocol \<Rightarrow> 's \<Rightarrow> ChoiceKind option" where
  "fsm_choice p state = map_option st_choice (find (\<lambda>st. st_name st = state) (p_states p))"

fun dual :: "ChoiceKind \<Rightarrow> ChoiceKind" where
  "dual Internal = External"
| "dual External = Internal"
| "dual Mixed = Mixed"

lemma dual_dual [simp]: "dual (dual c) = c"
  by (cases c) simp_all

definition event_choice :: "('s, 'e, 'i, 'x) Protocol \<Rightarrow> 's \<Rightarrow> 'e \<Rightarrow> ChoiceKind option" where
  "event_choice p state event = map_option rt_choice (transition p state event)"

definition dual_event_choice :: "('s, 'e, 'i, 'x) Protocol \<Rightarrow> 's \<Rightarrow> 'e \<Rightarrow> ChoiceKind option" where
  "dual_event_choice p state event =
     (case event_choice p state event of Some c \<Rightarrow> Some (dual c) | None \<Rightarrow> None)"

text \<open>\<open>step\<close>: the result and the phase afterwards; \<open>TransitionError\<close> carries the phase and the event.\<close>

definition step :: "('s, 'e, 'i, 'x) Protocol \<Rightarrow> 's \<Rightarrow> 'e \<Rightarrow> (('s \<times> 'e) + unit) \<times> 's" where
  "step p state event = (case transition p state event of
       Some t \<Rightarrow> (Inr (), rt_target t)
     | None \<Rightarrow> (Inl (state, event), state))"

definition step_projected ::
  "('s, 'e, 'i, 'x) Protocol \<Rightarrow> ('s \<Rightarrow> 'm \<Rightarrow> 'e option) \<Rightarrow> 's \<Rightarrow> 'm \<Rightarrow> ('s + 'e) \<times> 's" where
  "step_projected p project state message = (case project state message of
       None \<Rightarrow> (Inl state, state)
     | Some event \<Rightarrow> (case step p state event of
         (Inr _, state') \<Rightarrow> (Inr event, state')
       | (Inl _, state') \<Rightarrow> (Inl state, state')))"

section \<open>Runs\<close>

text \<open>The phases the runtime FSM can reach, one event at a time.\<close>

inductive fsm_reachable :: "('s, 'e, 'i, 'x) Protocol \<Rightarrow> 's \<Rightarrow> bool" for p where
  initial: "fsm_reachable p (fsm_new p)"
| event: "fsm_reachable p s \<Longrightarrow> step p s e = (Inr (), s') \<Longrightarrow> fsm_reachable p s'"

inductive_cases fsm_reachableE: "fsm_reachable p s"

inductive leads_to :: "('s, 'e, 'i, 'x) Protocol \<Rightarrow> 's \<Rightarrow> 's \<Rightarrow> bool" for p where
  refl: "leads_to p s s"
| step: "step p s e = (Inr (), s') \<Longrightarrow> leads_to p s' s'' \<Longrightarrow> leads_to p s s''"

lemma step_Inr_iff: "(step p s e = (Inr (), s')) = (\<exists>t. transition p s e = Some t \<and> s' = rt_target t)"
  by (auto simp: step_def split: option.splits)

lemma step_Inl: "step p s e = (Inl err, s') \<Longrightarrow> s' = s \<and> err = (s, e) \<and> transition p s e = None"
  by (auto simp: step_def split: option.splits)

lemma find_Some_in: "find P xs = Some x \<Longrightarrow> x \<in> set xs \<and> P x"
  by (induction xs) (auto split: if_splits)

lemma transition_in_table:
  "transition p s e = Some t \<Longrightarrow> t \<in> set (TRANSITIONS p) \<and> rt_source t = s \<and> rt_event t = e"
  unfolding transition_def by (auto dest: find_Some_in)

lemma TRANSITIONS_iff:
  "t \<in> set (TRANSITIONS p) \<longleftrightarrow>
    (\<exists>st \<in> set (p_states p). \<exists>u \<in> set (st_transitions st). t = descriptor st u)"
  by (auto simp: TRANSITIONS_def)

lemma first_arm_Some: "first_arm arms m = Some e \<Longrightarrow> \<exists>pat. (pat, e) \<in> set arms \<and> pat m"
  by (induction arms m rule: first_arm.induct) (auto split: if_splits)

lemma first_arm_None: "(first_arm arms m = None) = (\<forall>(pat, e) \<in> set arms. \<not> pat m)"
  by (induction arms m rule: first_arm.induct) auto

lemma validate_transitions_iff:
  "(validate_transitions names methods ts = Inr ()) =
    ((\<forall>t \<in> set ts. t_target t \<in> set names) \<and> distinct (map t_method ts) \<and>
     set (map t_method ts) \<inter> set methods = {})"
  by (induction names methods ts rule: validate_transitions.induct) auto

lemma validate_state_iff:
  "(validate_state names st = Inr ()) =
    ((st_choice st = Mixed \<longrightarrow> (\<forall>t \<in> set (st_transitions st). t_choice t \<noteq> None)) \<and>
     (st_choice st \<noteq> Mixed \<longrightarrow> (\<forall>t \<in> set (st_transitions st). t_choice t = None)) \<and>
     (\<forall>t \<in> set (st_transitions st). t_target t \<in> set names) \<and>
     distinct (map t_method (st_transitions st)))"
  unfolding validate_state_def list_ex_iff
  by (cases "st_choice st = Mixed") (auto simp: validate_transitions_iff)

text \<open>With one declaration per phase, projections and transitions only look at that declaration.\<close>

lemma project_lookup:
  assumes "filter (\<lambda>st. st_name st = s) (p_states p) = [st]"
  shows "project_internal p s m = first_arm (internal_arms st) m"
    and "project_external p s n = first_arm (external_arms st) n"
  using assms by (simp_all add: project_internal_def project_external_def)

lemma find_append_skip: "\<forall>x \<in> set xs. \<not> P x \<Longrightarrow> find P (xs @ ys) = find P ys"
  by (induction xs) auto

lemma find_append_cong: "find P ys = find P zs \<Longrightarrow> find P (xs @ ys) = find P (xs @ zs)"
  by (induction xs) auto

lemma find_table:
  "find (\<lambda>t. rt_source t = s \<and> rt_event t = e) (concat (map (\<lambda>st. map (descriptor st) (st_transitions st)) sts)) =
   find (\<lambda>t. rt_source t = s \<and> rt_event t = e)
     (concat (map (\<lambda>st. map (descriptor st) (st_transitions st)) (filter (\<lambda>st. st_name st = s) sts)))"
proof (induction sts)
  case (Cons st sts)
  let ?P = "\<lambda>t. rt_source t = s \<and> rt_event t = e"
  show ?case
  proof (cases "st_name st = s")
    case True
    with find_append_cong [OF Cons, of "map (descriptor st) (st_transitions st)"] show ?thesis by simp
  next
    case False
    then have "\<forall>x \<in> set (map (descriptor st) (st_transitions st)). \<not> ?P x" by auto
    from find_append_skip [OF this] Cons False show ?thesis by simp
  qed
qed simp

lemma find_descriptor:
  "st_name st = s \<Longrightarrow> find (\<lambda>t. rt_source t = s \<and> rt_event t = e) (map (descriptor st) ts) =
    map_option (descriptor st) (find (\<lambda>t. t_event t = e) ts)"
  by (induction ts) auto

lemma transition_lookup:
  assumes "filter (\<lambda>st. st_name st = s) (p_states p) = [st]"
  shows "transition p s e = map_option (descriptor st) (find (\<lambda>t. t_event t = e) (st_transitions st))"
proof -
  have "st \<in> set (filter (\<lambda>st. st_name st = s) (p_states p))" using assms by simp
  then have "st_name st = s" by simp
  then show ?thesis
    using assms by (simp add: transition_def TRANSITIONS_def find_table [of s e] find_descriptor)
qed

section \<open>Two roles in lock step\<close>

text \<open>
  A set of phase pairs in which two roles stay in step: whatever either can send in its phase the other
  accepts in its own, and the two targets are again a pair.
\<close>

definition next_phase :: "('s, 'e, 'i, 'x) Protocol \<Rightarrow> 's \<Rightarrow> 'e \<Rightarrow> 's" where
  "next_phase p s e = snd (step p s e)"

definition follows ::
  "('s, 'e, 'm, 'x) Protocol \<Rightarrow> ('t, 'f, 'y, 'm) Protocol \<Rightarrow> ('s \<times> 't) list \<Rightarrow> 's \<times> 't \<Rightarrow> 'm \<Rightarrow> bool" where
  "follows p q R st m = (case project_internal p (fst st) m of
       None \<Rightarrow> True
     | Some e \<Rightarrow> (case project_external q (snd st) m of
         None \<Rightarrow> False
       | Some f \<Rightarrow> (next_phase p (fst st) e, next_phase q (snd st) f) \<in> set R))"

text \<open>The pairs of phases two roles reach by exchanging wire messages.\<close>

inductive exchange ::
  "('s, 'e, 'm, 'n) Protocol \<Rightarrow> ('t, 'f, 'n, 'm) Protocol \<Rightarrow> 's \<Rightarrow> 't \<Rightarrow> bool" for p q where
  start: "exchange p q (fsm_new p) (fsm_new q)"
| send: "exchange p q s t \<Longrightarrow> project_internal p s m = Some e \<Longrightarrow> project_external q t m = Some f \<Longrightarrow>
    exchange p q (next_phase p s e) (next_phase q t f)"
| receive: "exchange p q s t \<Longrightarrow> project_internal q t n = Some f \<Longrightarrow> project_external p s n = Some e \<Longrightarrow>
    exchange p q (next_phase p s e) (next_phase q t f)"

inductive_cases exchangeE: "exchange p q s t"

lemma exchange_in:
  assumes start: "(fsm_new p, fsm_new q) \<in> set R"
    and send: "\<And>s t m. (s, t) \<in> set R \<Longrightarrow> follows p q R (s, t) m"
    and receive: "\<And>s t n. (s, t) \<in> set R \<Longrightarrow> follows q p (map prod.swap R) (t, s) n"
    and run: "exchange p q s t"
  shows "(s, t) \<in> set R"
  using run
proof (induction rule: exchange.induct)
  case start
  then show ?case by (rule assms(1))
next
  case (send s t m e f)
  with assms(2) [of s t m] show ?case by (simp add: follows_def)
next
  case (receive s t n f e)
  with assms(3) [of s t n] show ?case by (auto simp: follows_def)
qed

lemma exchange_lockstep:
  assumes "(fsm_new p, fsm_new q) \<in> set R"
    and "\<And>m. list_all (\<lambda>st. follows p q R st m) R"
    and "\<And>n. list_all (\<lambda>ts. follows q p (map prod.swap R) ts n) (map prod.swap R)"
    and "exchange p q s t"
  shows "(project_internal p s m = None \<or> project_external q t m \<noteq> None) \<and>
    (project_internal q t n = None \<or> project_external p s n \<noteq> None)"
proof -
  have send: "follows p q R (s, t) m" if "(s, t) \<in> set R" for s t m
    using assms(2) [of m] that by (auto simp: list_all_iff)
  have receive: "follows q p (map prod.swap R) (t, s) n" if "(s, t) \<in> set R" for s t n
    using assms(3) [of n] that by (force simp: list_all_iff)
  have "(s, t) \<in> set R" using exchange_in [OF assms(1) send receive assms(4)] .
  from send [OF this, of m] receive [OF this, of n] show ?thesis
    by (auto simp: follows_def split: option.splits)
qed

text \<open>
  An exchange in which either role may also take a step of its own that no message stands for, and a
  message moves both roles only if both accept it.
\<close>

definition local_targets :: "('s, 'e, 'i, 'x) Protocol \<Rightarrow> 's \<Rightarrow> 's list" where
  "local_targets p s = concat (map (\<lambda>st.
     map t_target (filter (\<lambda>t. t_projection t = None) (st_transitions st)))
     (filter (\<lambda>st. st_name st = s) (p_states p)))"

inductive conversation ::
  "('s, 'e, 'm, 'n) Protocol \<Rightarrow> ('t, 'f, 'n, 'm) Protocol \<Rightarrow> 's \<Rightarrow> 't \<Rightarrow> bool" for p q where
  start: "conversation p q (fsm_new p) (fsm_new q)"
| send: "conversation p q s t \<Longrightarrow> project_internal p s m = Some e \<Longrightarrow> project_external q t m = Some f \<Longrightarrow>
    conversation p q (next_phase p s e) (next_phase q t f)"
| receive: "conversation p q s t \<Longrightarrow> project_internal q t n = Some f \<Longrightarrow> project_external p s n = Some e \<Longrightarrow>
    conversation p q (next_phase p s e) (next_phase q t f)"
| local_left: "conversation p q s t \<Longrightarrow> s' \<in> set (local_targets p s) \<Longrightarrow> conversation p q s' t"
| local_right: "conversation p q s t \<Longrightarrow> t' \<in> set (local_targets q t) \<Longrightarrow> conversation p q s t'"

text \<open>Pairs that a message both roles accept keeps in the set.\<close>

definition joint_ok ::
  "('s, 'e, 'm, 'x) Protocol \<Rightarrow> ('t, 'f, 'y, 'm) Protocol \<Rightarrow> ('s \<times> 't) list \<Rightarrow> 's \<times> 't \<Rightarrow> 'm \<Rightarrow> bool" where
  "joint_ok p q R st m = (case (project_internal p (fst st) m, project_external q (snd st) m) of
       (Some e, Some f) \<Rightarrow> (next_phase p (fst st) e, next_phase q (snd st) f) \<in> set R
     | _ \<Rightarrow> True)"

lemma conversation_in:
  assumes "(fsm_new p, fsm_new q) \<in> set R"
    and send: "\<And>m. list_all (\<lambda>st. joint_ok p q R st m) R"
    and receive: "\<And>n. list_all (\<lambda>ts. joint_ok q p (map prod.swap R) ts n) (map prod.swap R)"
    and left: "list_all (\<lambda>(s, t). list_all (\<lambda>s'. (s', t) \<in> set R) (local_targets p s)) R"
    and right: "list_all (\<lambda>(s, t). list_all (\<lambda>t'. (s, t') \<in> set R) (local_targets q t)) R"
    and "conversation p q s t"
  shows "(s, t) \<in> set R"
  using assms(6)
proof (induction rule: conversation.induct)
  case start
  then show ?case by (rule assms(1))
next
  case (send s t m e f)
  then have "joint_ok p q R (s, t) m" using assms(2) [of m] by (auto simp: list_all_iff)
  with send show ?case by (simp add: joint_ok_def)
next
  case (receive s t n f e)
  then have "joint_ok q p (map prod.swap R) (t, s) n" using assms(3) [of n] by (force simp: list_all_iff)
  with receive show ?case by (auto simp: joint_ok_def)
next
  case (local_left s t s')
  with left show ?case by (auto simp: list_all_iff)
next
  case (local_right s t t')
  with right show ?case by (auto simp: list_all_iff)
qed

section \<open>Validated grammars\<close>

text \<open>
  What the macro guarantees of a grammar it accepts.  \<open>events_distinct\<close> is what the generated lookup
  relies on and \<open>validate\<close> does not check: it compares method names, not events.
\<close>

definition events_distinct :: "('s, 'e, 'i, 'x) Protocol \<Rightarrow> bool" where
  "events_distinct p = distinct (map (\<lambda>t. (rt_source t, rt_event t)) (TRANSITIONS p))"

locale grammar =
  fixes p :: "('s, 'e, 'i, 'x) Protocol"
  assumes valid: "validate p = Inr ()"
    and distinct_events: "events_distinct p"
begin

lemma validate_states_Inr:
  "validate_states names sts = Inr () \<Longrightarrow> st \<in> set sts \<Longrightarrow> validate_state names st = Inr ()"
  by (induction names sts rule: validate_states.induct) (auto split: sum.splits)

lemma states_valid: "st \<in> set (p_states p) \<Longrightarrow> validate_state (map st_name (p_states p)) st = Inr ()"
  using valid validate_states_Inr by (auto simp: validate_def Let_def split: if_splits)

lemma initial_declared: "p_initial p \<in> st_name ` set (p_states p)"
  using valid by (auto simp: validate_def Let_def split: if_splits)

lemma target_declared: "t \<in> set (TRANSITIONS p) \<Longrightarrow> rt_target t \<in> st_name ` set (p_states p)"
  using states_valid unfolding TRANSITIONS_iff validate_state_iff by (auto simp: descriptor_def)

text \<open>
  A transition of a phase that is not mixed takes the direction of the phase; a direction of its own
  is there exactly in a mixed phase.
\<close>

lemma transition_direction:
  assumes "st \<in> set (p_states p)" "t \<in> set (st_transitions st)"
  shows "if st_choice st = Mixed then t_choice t = Some (choice_of st t) else choice_of st t = st_choice st"
  using states_valid [OF assms(1)] assms(2) unfolding validate_state_iff by (auto simp: choice_of_def)

lemma find_distinct:
  "distinct (map f xs) \<Longrightarrow> x \<in> set xs \<Longrightarrow> find (\<lambda>y. f y = f x) xs = Some x"
  by (induction xs) (auto simp: image_iff)

lemma transition_complete:
  assumes "t \<in> set (TRANSITIONS p)"
  shows "transition p (rt_source t) (rt_event t) = Some t"
  using find_distinct [OF distinct_events [unfolded events_distinct_def] assms]
  by (simp add: transition_def)

lemma transition_iff:
  "(transition p s e = Some t) = (t \<in> set (TRANSITIONS p) \<and> rt_source t = s \<and> rt_event t = e)"
  using transition_complete transition_in_table by metis

lemma reachable_declared: "fsm_reachable p s \<Longrightarrow> s \<in> st_name ` set (p_states p)"
proof (induction rule: fsm_reachable.induct)
  case initial
  then show ?case using initial_declared by (simp add: fsm_new_def)
next
  case (event s e s')
  then show ?case
    using target_declared by (auto simp: step_Inr_iff dest: transition_in_table)
qed

text \<open>An arm of a projection always names a transition of the same phase and direction.\<close>

lemma project_internal_transition:
  assumes "project_internal p s m = Some e"
  obtains t where "transition p s e = Some t" "rt_choice t = Internal"
proof -
  from assms obtain st u where st: "st \<in> set (p_states p)" "st_name st = s" "u \<in> set (st_transitions st)"
    "choice_of st u = Internal" and e: "t_event u = e"
    unfolding project_internal_def
    by (force dest!: first_arm_Some simp: internal_arms_def split: ChoiceKind.splits option.splits projection.splits)
  then have "transition p s e = Some (descriptor st u)"
    by (metis (no_types, lifting) transition_iff TRANSITIONS_iff descriptor_simps(1,2))
  with \<open>choice_of st u = Internal\<close> show thesis by (intro that [of "descriptor st u"]) simp_all
qed

lemma project_external_transition:
  assumes "project_external p s m = Some e"
  obtains t where "transition p s e = Some t" "rt_choice t = External"
proof -
  from assms obtain st u where st: "st \<in> set (p_states p)" "st_name st = s" "u \<in> set (st_transitions st)"
    "choice_of st u = External" and e: "t_event u = e"
    unfolding project_external_def
    by (force dest!: first_arm_Some simp: external_arms_def split: ChoiceKind.splits option.splits projection.splits)
  then have "transition p s e = Some (descriptor st u)"
    by (metis (no_types, lifting) transition_iff TRANSITIONS_iff descriptor_simps(1,2))
  with \<open>choice_of st u = External\<close> show thesis by (intro that [of "descriptor st u"]) simp_all
qed

text \<open>Hence a projected message never fails in \<open>step\<close>: \<open>step_projected\<close> fails only in the projection.\<close>

lemma step_projected_internal:
  "step_projected p (project_internal p) s m =
    (case project_internal p s m of
       None \<Rightarrow> (Inl s, s)
     | Some e \<Rightarrow> (Inr e, rt_target (the (transition p s e))))"
proof (cases "project_internal p s m")
  case (Some e)
  then obtain t where "transition p s e = Some t" by (rule project_internal_transition)
  with Some show ?thesis by (simp add: step_projected_def step_def)
qed (simp add: step_projected_def)

lemma step_projected_external:
  "step_projected p (project_external p) s m =
    (case project_external p s m of
       None \<Rightarrow> (Inl s, s)
     | Some e \<Rightarrow> (Inr e, rt_target (the (transition p s e))))"
proof (cases "project_external p s m")
  case (Some e)
  then obtain t where "transition p s e = Some t" by (rule project_external_transition)
  with Some show ?thesis by (simp add: step_projected_def step_def)
qed (simp add: step_projected_def)

end

end
