(* ===== verification/Wire.thy ===== *)
theory Wire
  imports Prelude
begin

text \<open>
  The field-level primitives of \<open>src/codec.rs\<close>: the \<open>take_*\<close> readers, the \<open>put_*\<close> writers, and the
  checks and error constructors they use.  The locale \<open>wire_item\<close> is the contract between a writer
  and its reader (the reader accepts exactly what the writer produces); the laws of counted
  sequences are proved once inside it and it is interpreted for every field type of the codec.
\<close>

section \<open>Error constructors\<close>

definition invalid :: "string \<Rightarrow> io_error" where
  "invalid message = IoError InvalidData message"

definition invalid_input :: "string \<Rightarrow> io_error" where
  "invalid_input message = IoError InvalidInput message"

text \<open>The format directive \<open>{tag:02x}\<close>.\<close>

definition hex_digit :: "nat \<Rightarrow> char" where
  "hex_digit n = (''0123456789abcdef'' ! n)"

definition hex2 :: "u8 \<Rightarrow> string" where
  "hex2 b = [hex_digit (unat b div 16), hex_digit (unat b mod 16)]"

definition unknown_tag :: "string \<Rightarrow> u8 \<Rightarrow> io_error" where
  "unknown_tag direction tag =
     IoError InvalidData (''unknown '' @ direction @ '' message tag 0x'' @ hex2 tag)"

section \<open>Readers\<close>

definition require :: "bytes \<Rightarrow> nat \<Rightarrow> io_error + unit" where
  "require body len =
     (if length body < len then Inl (invalid ''truncated message body'') else Inr ())"

definition require_empty :: "bytes \<Rightarrow> io_error + unit" where
  "require_empty body =
     (if body = [] then Inr () else Inl (invalid ''trailing message bytes''))"

text \<open>\<open>require_empty(&body)?; Ok(value)\<close>, the last two statements of every body decoder.\<close>

definition finish :: "'a \<Rightarrow> bytes \<Rightarrow> io_error + 'a" where
  "finish x body = (case require_empty body of Inl e \<Rightarrow> Inl e | Inr _ \<Rightarrow> Inr x)"

definition take_u8 :: "u8 reader" where
  "take_u8 body = (case require body 1 of Inl e \<Rightarrow> Inl e | Inr _ \<Rightarrow> Inr (hd body, tl body))"

definition take_u16 :: "u16 reader" where
  "take_u16 body = (case require body 2 of Inl e \<Rightarrow> Inl e
     | Inr _ \<Rightarrow> Inr (of_be16 (take 2 body), drop 2 body))"

definition take_i16 :: "i16 reader" where
  "take_i16 body = (case require body 2 of Inl e \<Rightarrow> Inl e
     | Inr _ \<Rightarrow> Inr (of_be16 (take 2 body), drop 2 body))"

definition take_u32 :: "u32 reader" where
  "take_u32 body = (case require body 4 of Inl e \<Rightarrow> Inl e
     | Inr _ \<Rightarrow> Inr (of_be32 (take 4 body), drop 4 body))"

definition take_i32 :: "i32 reader" where
  "take_i32 body = (case require body 4 of Inl e \<Rightarrow> Inl e
     | Inr _ \<Rightarrow> Inr (of_be32 (take 4 body), drop 4 body))"

text \<open>
  \<open>codec.rs\<close> and \<open>startup.rs\<close> have the same \<open>take_cstr\<close> and \<open>put_cstr\<close> with their own error texts.
\<close>

definition cstr_reader :: "string \<Rightarrow> bytes reader" where
  "cstr_reader unterminated body = (case position (\<lambda>byte. byte = 0) body of
       None \<Rightarrow> Inl (invalid unterminated)
     | Some end_ \<Rightarrow> (let (value, rest) = split_to end_ body in Inr (value, drop 1 rest)))"

definition take_cstr :: "bytes reader" where
  "take_cstr = cstr_reader ''unterminated string''"

text \<open>
  The body of \<open>take_nullable\<close>; \<open>decode_bind\<close> has the same statements inline, with its own text for
  the negative length.
\<close>

definition nullable_reader :: "string \<Rightarrow> bytes option reader" where
  "nullable_reader negative = rbind take_i32 (\<lambda>len body.
     if len = - 1 then Inr (None, body)
     else if sint len < 0 then Inl (invalid negative)
     else (case require body (nat (sint len)) of Inl e \<Rightarrow> Inl e
       | Inr _ \<Rightarrow> (let (value, rest) = split_to (nat (sint len)) body in Inr (Some value, rest))))"

definition take_nullable :: "bytes option reader" where
  "take_nullable = nullable_reader ''negative value length''"

definition require_collection_bytes :: "nat \<Rightarrow> nat \<Rightarrow> nat \<Rightarrow> string \<Rightarrow> io_error + unit" where
  "require_collection_bytes count remaining minimum_item_len description =
     (case checked_mul count minimum_item_len of
        None \<Rightarrow> Inl (IoError InvalidData (description @ '' overflows message size''))
      | Some minimum_len \<Rightarrow>
          if minimum_len > remaining
          then Inl (IoError InvalidData (description @ '' exceeds remaining message body''))
          else Inr ())"

text \<open>
  A sequence with a \<open>u16\<close> count: \<open>take_u16\<close>, \<open>require_collection_bytes\<close> before anything is allocated,
  then one item per count.  The statements stand inline in every decoder of a counted message.
\<close>

definition take_counted :: "nat \<Rightarrow> string \<Rightarrow> 'a reader \<Rightarrow> 'a list reader" where
  "take_counted minimum_item_len description item = rbind take_u16 (\<lambda>count body.
     case require_collection_bytes (unat count) (length body) minimum_item_len description of
       Inl e \<Rightarrow> Inl e
     | Inr _ \<Rightarrow> take_n (unat count) item body)"

definition take_i16_vec :: "i16 list reader" where
  "take_i16_vec = take_counted 2 ''format count'' take_i16"

section \<open>Writers\<close>

definition put_u8 :: "u8 \<Rightarrow> writer" where
  "put_u8 value body = Inr (body @ [value])"

definition put_u16 :: "u16 \<Rightarrow> writer" where
  "put_u16 value body = Inr (body @ be16 value)"

definition put_i16 :: "i16 \<Rightarrow> writer" where
  "put_i16 value body = Inr (body @ be16 value)"

definition put_u32 :: "u32 \<Rightarrow> writer" where
  "put_u32 value body = Inr (body @ be32 value)"

definition put_i32 :: "i32 \<Rightarrow> writer" where
  "put_i32 value body = Inr (body @ be32 value)"

text \<open>\<open>extend_from_slice\<close>\<close>

definition put_slice :: "bytes \<Rightarrow> writer" where
  "put_slice value body = Inr (body @ value)"

definition cstr_writer :: "string \<Rightarrow> bytes \<Rightarrow> writer" where
  "cstr_writer contains_nul value body =
     (if 0 \<in> set value then Inl (invalid_input contains_nul) else Inr (body @ value @ [0]))"

definition put_cstr :: "bytes \<Rightarrow> writer" where
  "put_cstr = cstr_writer ''message string contains a NUL byte''"

definition put_count :: "nat \<Rightarrow> writer" where
  "put_count count body =
     (if count < 2 ^ 16 then put_u16 (word_of_nat count) body
      else Inl (invalid_input ''message item count exceeds u16''))"

definition nullable_writer :: "string \<Rightarrow> bytes option \<Rightarrow> writer" where
  "nullable_writer too_large value body = (case value of
       None \<Rightarrow> put_i32 (- 1) body
     | Some value \<Rightarrow>
         if length value \<le> i32_max
         then writes [put_i32 (word_of_nat (length value)), put_slice value] body
         else Inl (invalid_input too_large))"

definition put_nullable :: "bytes option \<Rightarrow> writer" where
  "put_nullable = nullable_writer ''value is too large''"

text \<open>\<open>put_count\<close> followed by the loop over the items.\<close>

definition put_counted :: "('a \<Rightarrow> writer) \<Rightarrow> 'a list \<Rightarrow> writer" where
  "put_counted put items = writes [put_count (length items), put_all put items]"

definition put_i16_vec :: "i16 list \<Rightarrow> writer" where
  "put_i16_vec = put_counted put_i16"

declare invalid_def [eval_defs] invalid_input_def [eval_defs] hex_digit_def [eval_defs]
  hex2_def [eval_defs] unknown_tag_def [eval_defs] require_def [eval_defs]
  require_empty_def [eval_defs] finish_def [eval_defs] take_u8_def [eval_defs]
  take_u16_def [eval_defs] take_i16_def [eval_defs] take_u32_def [eval_defs]
  take_i32_def [eval_defs] cstr_reader_def [eval_defs] take_cstr_def [eval_defs]
  nullable_reader_def [eval_defs] take_nullable_def [eval_defs] require_collection_bytes_def [eval_defs]
  take_counted_def [eval_defs] take_i16_vec_def [eval_defs] put_u8_def [eval_defs]
  put_u16_def [eval_defs] put_i16_def [eval_defs] put_u32_def [eval_defs]
  put_i32_def [eval_defs] put_slice_def [eval_defs] cstr_writer_def [eval_defs]
  put_cstr_def [eval_defs] put_count_def [eval_defs] nullable_writer_def [eval_defs]
  put_nullable_def [eval_defs] put_counted_def [eval_defs] put_i16_vec_def [eval_defs]

section \<open>What the primitives accept and produce\<close>

lemma require_Inr_iff [simp, reader_iff]: "(require body n = Inr u) = (n \<le> length body)"
  by (auto simp: require_def)

lemma require_empty_Inr_iff [simp]: "(require_empty body = Inr u) = (body = [])"
  by (auto simp: require_empty_def)

lemma finish_Inr_iff [simp, reader_iff]: "(finish x body = Inr y) = (body = [] \<and> y = x)"
  by (auto simp: finish_def require_empty_def)

lemma require_case [simp]:
  "n \<le> length body \<Longrightarrow> (case require body n of Inl e \<Rightarrow> f e | Inr u \<Rightarrow> g u) = g ()"
  by (simp add: require_def)

lemma require_case_Inr:
  "((case require body n of Inl e \<Rightarrow> Inl e | Inr u \<Rightarrow> g u) = Inr y) = (n \<le> length body \<and> g () = Inr y)"
  by (auto simp: require_def)

lemma take_u8_iff [reader_iff]: "(take_u8 bs = Inr (x, r)) = (bs = x # r)"
  by (cases bs) (auto simp: take_u8_def require_def)

lemma fixed_read_iff:
  assumes "\<And>w. length (enc w) = n" and "\<And>w. dec (enc w) = w"
    and "\<And>p. length p = n \<Longrightarrow> enc (dec p) = p"
  shows "((case require bs n of Inl e \<Rightarrow> Inl e | Inr _ \<Rightarrow> Inr (dec (take n bs), drop n bs)) = Inr (x, r))
    = (bs = enc x @ r)"
proof
  assume "(case require bs n of Inl e \<Rightarrow> Inl e | Inr _ \<Rightarrow> Inr (dec (take n bs), drop n bs)) = Inr (x, r)"
  then have "n \<le> length bs" "x = dec (take n bs)" "r = drop n bs"
    by (auto simp: require_def split: if_splits)
  with assms(3) [of "take n bs"] show "bs = enc x @ r" by simp
next
  assume "bs = enc x @ r"
  with assms(1,2) show "(case require bs n of Inl e \<Rightarrow> Inl e | Inr _ \<Rightarrow> Inr (dec (take n bs), drop n bs)) = Inr (x, r)"
    by (simp add: require_def)
qed

lemma take_u16_iff [reader_iff]: "(take_u16 bs = Inr (x, r)) = (bs = be16 x @ r)"
  unfolding take_u16_def by (rule fixed_read_iff) (simp_all add: be16_of_be16)

lemma take_i16_iff [reader_iff]: "(take_i16 bs = Inr (x, r)) = (bs = be16 x @ r)"
  unfolding take_i16_def by (rule fixed_read_iff) (simp_all add: be16_of_be16)

lemma take_u32_iff [reader_iff]: "(take_u32 bs = Inr (x, r)) = (bs = be32 x @ r)"
  unfolding take_u32_def by (rule fixed_read_iff) (simp_all add: be32_of_be32)

lemma take_i32_iff [reader_iff]: "(take_i32 bs = Inr (x, r)) = (bs = be32 x @ r)"
  unfolding take_i32_def by (rule fixed_read_iff) (simp_all add: be32_of_be32)

lemma cstr_reader_iff [reader_iff]: "(cstr_reader m bs = Inr (v, r)) = (0 \<notin> set v \<and> bs = v @ 0 # r)"
proof
  assume "cstr_reader m bs = Inr (v, r)"
  then obtain n where n: "position (\<lambda>b. b = 0) bs = Some n"
    and v: "v = take n bs" and r: "r = drop 1 (drop n bs)"
    by (auto simp: cstr_reader_def split_to_def split: option.splits)
  from n [unfolded position_Some_iff] obtain us vs
    where "bs = us @ 0 # vs" "n = length us" "\<forall>x \<in> set us. x \<noteq> 0" by blast
  with v r show "0 \<notin> set v \<and> bs = v @ 0 # r" by auto
next
  assume a: "0 \<notin> set v \<and> bs = v @ 0 # r"
  then have "position (\<lambda>b. b = 0) bs = Some (length v)"
    by (auto intro!: position_append)
  with a show "cstr_reader m bs = Inr (v, r)" by (simp add: cstr_reader_def)
qed

lemma take_cstr_iff [reader_iff]: "(take_cstr bs = Inr (v, r)) = (0 \<notin> set v \<and> bs = v @ 0 # r)"
  by (simp add: take_cstr_def cstr_reader_iff)

lemma cstr_reader_shorter: "cstr_reader m bs = Inr (v, r) \<Longrightarrow> length r < length bs"
  by (auto simp: cstr_reader_iff)

lemma take_cstr_shorter: "take_cstr bs = Inr (v, r) \<Longrightarrow> length r < length bs"
  by (auto simp: take_cstr_iff)

lemma put_simps [writer_simps]:
  "(put_u8 b [] = Inr p) = (p = [b])"
  "(put_u16 a [] = Inr p) = (p = be16 a)"
  "(put_i16 a [] = Inr p) = (p = be16 a)"
  "(put_u32 c [] = Inr p) = (p = be32 c)"
  "(put_i32 c [] = Inr p) = (p = be32 c)"
  "(put_slice v [] = Inr p) = (p = v)"
  "(cstr_writer m v [] = Inr p) = (0 \<notin> set v \<and> p = v @ [0])"
  "(put_cstr v [] = Inr p) = (0 \<notin> set v \<and> p = v @ [0])"
  "(put_count n [] = Inr p) = (n < 2 ^ 16 \<and> p = be16 (word_of_nat n))"
  by (auto simp: put_u8_def put_u16_def put_i16_def put_u32_def put_i32_def put_slice_def
      cstr_writer_def put_cstr_def put_count_def)

lemma appends_puts [simp]:
  "appends (put_u8 b)" "appends (put_u16 a)" "appends (put_i16 a)" "appends (put_u32 c)"
  "appends (put_i32 c)" "appends (put_slice v)" "appends (cstr_writer m v)" "appends (put_cstr v)" "appends (put_count n)"
  by (auto simp: appends_def put_u8_def put_u16_def put_i16_def put_u32_def put_i32_def
      put_slice_def cstr_writer_def put_cstr_def put_count_def)

lemma appends_nullable_writer [simp]: "appends (nullable_writer m v)"
  by (auto simp: appends_def nullable_writer_def put_i32_def put_slice_def split: option.splits)

lemma appends_put_nullable [simp]: "appends (put_nullable v)"
  by (simp add: put_nullable_def)

lemma list_all_map_appends [simp]: "(\<And>x. appends (put x)) \<Longrightarrow> list_all appends (map put xs)"
  by (induction xs) auto

lemma appends_put_counted [simp]: "(\<And>x. appends (put x)) \<Longrightarrow> appends (put_counted put xs)"
  unfolding put_counted_def by (rule appends_writes) simp

lemma appends_put_i16_vec [simp]: "appends (put_i16_vec xs)"
  by (simp add: put_i16_vec_def)

section \<open>The contract between a writer and its reader\<close>

text \<open>
  A reader and a writer of one field type fit when the writer only appends and the reader, on any
  input, succeeds exactly with the values whose encoding is a prefix of the input.  The law gives
  both round trips, injectivity and unique parsing; sequences inherit it.  \<open>least\<close> is the size the
  decoder of a counted sequence assumes for one item before it allocates.
\<close>

locale wire_item =
  fixes put :: "'a \<Rightarrow> writer"
    and get :: "'a reader"
    and least :: nat
  assumes put_appends: "appends (put x)"
    and get_iff: "(get bs = Inr (x, r)) = (\<exists>p. put x [] = Inr p \<and> bs = p @ r)"
    and put_least: "put x [] = Inr p \<Longrightarrow> least \<le> length p"
begin

lemma get_put: "put x [] = Inr p \<Longrightarrow> get (p @ r) = Inr (x, r)"
  by (simp add: get_iff)

lemma put_get: "get bs = Inr (x, r) \<Longrightarrow> \<exists>p. put x [] = Inr p \<and> bs = p @ r"
  by (simp add: get_iff)

lemma put_inject: "put x [] = Inr p \<Longrightarrow> put y [] = Inr p \<Longrightarrow> x = y"
  using get_put [of x p "[]"] get_put [of y p "[]"] by simp

lemma put_prefix_free:
  "put x [] = Inr p \<Longrightarrow> put y [] = Inr q \<Longrightarrow> p @ r = q @ s \<Longrightarrow> x = y \<and> r = s"
  using get_put [of x p r] get_put [of y q s] by simp

lemma put_all_appends: "list_all appends (map put xs)"
  by (simp add: put_appends)

lemma take_n_iff:
  "(take_n n get bs = Inr (xs, r)) = (length xs = n \<and> (\<exists>p. put_all put xs [] = Inr p \<and> bs = p @ r))"
proof (induction n arbitrary: bs xs)
  case 0
  then show ?case by auto
next
  case (Suc n)
  show ?case
  proof (cases xs)
    case Nil
    then show ?thesis by auto
  next
    case (Cons y ys)
    have "(take_n (Suc n) get bs = Inr (y # ys, r)) =
      (\<exists>b. get bs = Inr (y, b) \<and> take_n n get b = Inr (ys, r))"
      by auto
    also have "\<dots> = (length ys = n \<and>
      (\<exists>p1 p2. put y [] = Inr p1 \<and> put_all put ys [] = Inr p2 \<and> bs = p1 @ p2 @ r))"
      by (auto simp: get_iff Suc.IH)
    also have "\<dots> = (length (y # ys) = Suc n \<and> (\<exists>p. put_all put (y # ys) [] = Inr p \<and> bs = p @ r))"
      by (simp add: writes_Cons_iff [OF put_all_appends] del: writes.simps) (auto simp del: writes.simps)
    finally show ?thesis by (simp add: Cons)
  qed
qed

lemma put_all_least: "put_all put xs [] = Inr p \<Longrightarrow> length xs * least \<le> length p"
proof (induction xs arbitrary: p)
  case Nil
  then show ?case by simp
next
  case (Cons x xs)
  then obtain p1 p2 where "put x [] = Inr p1" "put_all put xs [] = Inr p2" "p = p1 @ p2"
    by (auto simp: writes_Cons_iff [OF put_all_appends] simp del: writes.simps)
  with Cons.IH [of p2] put_least [of x p1] show ?case by simp
qed

lemma require_collection_ok:
  assumes "put_all put xs [] = Inr p" and "length p \<le> k" and "length xs * least \<le> usize_max"
  shows "require_collection_bytes (length xs) k least d = Inr ()"
  using put_all_least [OF assms(1)] assms(2,3)
  by (simp add: require_collection_bytes_def checked_mul_def)

lemma put_counted_iff:
  "(put_counted put xs [] = Inr p) =
    (length xs < 2 ^ 16 \<and> (\<exists>q. put_all put xs [] = Inr q \<and> p = be16 (word_of_nat (length xs)) @ q))"
  unfolding put_counted_def
  by (simp add: writes_Cons_iff put_all_appends writer_simps del: writes.simps)

text \<open>A counted sequence of items obeys the law of its items.\<close>

lemma take_counted_iff:
  assumes small: "2 ^ 16 * least \<le> usize_max"
  shows "(take_counted least d get bs = Inr (xs, r)) = (\<exists>p. put_counted put xs [] = Inr p \<and> bs = p @ r)"
proof
  assume "take_counted least d get bs = Inr (xs, r)"
  then obtain count body where bs: "bs = be16 count @ body"
    and "take_n (unat count) get body = Inr (xs, r)"
    by (auto simp: take_counted_def take_u16_iff)
  then obtain q where "length xs = unat count" "put_all put xs [] = Inr q" "body = q @ r"
    by (auto simp: take_n_iff simp del: writes.simps)
  with bs unat_lt [of count] show "\<exists>p. put_counted put xs [] = Inr p \<and> bs = p @ r"
    by (simp add: put_counted_iff)
next
  assume "\<exists>p. put_counted put xs [] = Inr p \<and> bs = p @ r"
  then obtain q where len: "length xs < 2 ^ 16" and q: "put_all put xs [] = Inr q"
    and bs: "bs = be16 (word_of_nat (length xs)) @ q @ r"
    by (auto simp: put_counted_iff)
  let ?count = "word_of_nat (length xs) :: u16"
  have count: "unat ?count = length xs"
    using len by (simp add: unat_of_nat)
  have "length xs * least \<le> 2 ^ 16 * least"
    using len by (intro mult_right_mono) simp_all
  then have "length xs * least \<le> usize_max"
    using small by (rule order_trans)
  then have "require_collection_bytes (unat ?count) (length (q @ r)) least d = Inr ()"
    unfolding count by (intro require_collection_ok [OF q]) simp_all
  moreover have "take_n (unat ?count) get (q @ r) = Inr (xs, r)"
    unfolding count using q by (simp add: take_n_iff)
  moreover have "take_u16 bs = Inr (?count, q @ r)"
    using bs by (simp add: take_u16_iff)
  ultimately show "take_counted least d get bs = Inr (xs, r)"
    unfolding take_counted_def by (simp add: rbind_Inr)
qed

end

section \<open>The field types of the codec\<close>

lemma usize_counted: "2 ^ 16 * (n :: nat) \<le> usize_max" if "n \<le> 2 ^ 16"
proof -
  have "2 ^ 16 * n \<le> 2 ^ 16 * 2 ^ 16" using that by (rule mult_left_mono) simp
  then show ?thesis by (simp add: usize_max_def)
qed

lemma i32_length_word:
  assumes "n \<le> i32_max"
  shows "sint (word_of_nat n :: i32) = int n" and "(word_of_nat n :: i32) \<noteq> - 1"
proof -
  have small: "int n < 2 ^ 31" using assms by (simp add: i32_max_def)
  have "sint (word_of_nat n :: i32) = signed_take_bit 31 (int n)"
    by (simp add: signed_of_nat)
  also have "\<dots> = int n"
    using small by (intro signed_take_bit_int_eq_self) auto
  finally show s: "sint (word_of_nat n :: i32) = int n" .
  show "(word_of_nat n :: i32) \<noteq> - 1"
  proof
    assume "(word_of_nat n :: i32) = - 1"
    then have "sint (word_of_nat n :: i32) = - 1" by simp
    with s show False by simp
  qed
qed

lemma i32_word_length:
  fixes w :: i32
  assumes "0 \<le> sint w"
  shows "word_of_nat (nat (sint w)) = w" and "nat (sint w) \<le> i32_max"
proof -
  show "word_of_nat (nat (sint w)) = w"
    using assms by (simp add: of_nat_nat)
  have "sint w < 2 ^ 31" using sint_lt [of w] by simp
  then show "nat (sint w) \<le> i32_max" by (simp add: i32_max_def)
qed

lemma nullable_writer_None [writer_simps]:
  "(nullable_writer m None [] = Inr p) = (p = be32 (- 1))"
  by (simp add: nullable_writer_def writer_simps)

lemma nullable_writer_Some [writer_simps]:
  "(nullable_writer m (Some v) [] = Inr p) =
    (length v \<le> i32_max \<and> p = be32 (word_of_nat (length v)) @ v)"
  by (auto simp: nullable_writer_def put_i32_def put_slice_def)

lemma nullable_reader_Some:
  assumes "length v \<le> i32_max"
  shows "nullable_reader m (be32 (word_of_nat (length v)) @ v @ r) = Inr (Some v, r)"
proof -
  have "take_i32 (be32 (word_of_nat (length v)) @ v @ r) = Inr (word_of_nat (length v), v @ r)"
    by (simp add: take_i32_iff)
  with i32_length_word [OF assms] show ?thesis
    by (simp add: nullable_reader_def rbind_def)
qed

lemma nullable_iff:
  "(nullable_reader m bs = Inr (x, r)) = (\<exists>p. nullable_writer m' x [] = Inr p \<and> bs = p @ r)"
proof
  assume "nullable_reader m bs = Inr (x, r)"
  then obtain len body where bs: "bs = be32 len @ body"
    and x: "len = - 1 \<and> x = None \<and> r = body \<or>
      len \<noteq> - 1 \<and> 0 \<le> sint len \<and> nat (sint len) \<le> length body \<and>
      x = Some (take (nat (sint len)) body) \<and> r = drop (nat (sint len)) body"
    by (auto simp: nullable_reader_def take_i32_iff split_to_def split: if_splits)
  from x show "\<exists>p. nullable_writer m' x [] = Inr p \<and> bs = p @ r"
  proof (elim disjE conjE)
    assume "len = - 1" "x = None" "r = body"
    with bs show ?thesis by (simp add: writer_simps)
  next
    assume "0 \<le> sint len" and l: "nat (sint len) \<le> length body"
      and "x = Some (take (nat (sint len)) body)" "r = drop (nat (sint len)) body"
    moreover from i32_word_length [OF \<open>0 \<le> sint len\<close>] l
    have "word_of_nat (length (take (nat (sint len)) body)) = len"
      and "length (take (nat (sint len)) body) \<le> i32_max" by (simp_all add: min_absorb2)
    ultimately show ?thesis using bs by (simp add: writer_simps)
  qed
next
  assume "\<exists>p. nullable_writer m' x [] = Inr p \<and> bs = p @ r"
  then show "nullable_reader m bs = Inr (x, r)"
  proof (cases x)
    case None
    with \<open>\<exists>p. _\<close> have "bs = be32 (- 1) @ r" by (simp add: writer_simps)
    then have "take_i32 bs = Inr (- 1, r)" by (simp add: take_i32_iff)
    with None show ?thesis by (simp add: nullable_reader_def rbind_def)
  next
    case (Some v)
    with \<open>\<exists>p. _\<close> show ?thesis by (auto simp: writer_simps nullable_reader_Some)
  qed
qed

lemma nullable_least: "nullable_writer m x [] = Inr p \<Longrightarrow> 4 \<le> length p"
  by (cases x) (auto simp: writer_simps)

interpretation u32_item: wire_item put_u32 take_u32 4
  by unfold_locales (auto simp: writer_simps reader_iff)

interpretation i16_item: wire_item put_i16 take_i16 2
  by unfold_locales (auto simp: writer_simps reader_iff)

interpretation cstr_item: wire_item put_cstr take_cstr 1
  by unfold_locales (auto simp: writer_simps reader_iff)

interpretation nullable_item: wire_item put_nullable take_nullable 4
  by unfold_locales (auto simp: put_nullable_def take_nullable_def nullable_iff nullable_least)

interpretation bind_parameter: wire_item "nullable_writer too_large" "nullable_reader negative" 4
  for too_large negative :: string
  by unfold_locales (auto simp: nullable_iff nullable_least)

lemma take_i16_vec_iff [reader_iff]:
  "(take_i16_vec bs = Inr (xs, r)) = (\<exists>p. put_i16_vec xs [] = Inr p \<and> bs = p @ r)"
  unfolding take_i16_vec_def put_i16_vec_def
  by (rule i16_item.take_counted_iff) (rule usize_counted, simp)

interpretation i16_vec_item: wire_item put_i16_vec take_i16_vec 2
proof unfold_locales
  fix xs p
  assume "put_i16_vec xs [] = Inr p"
  then show "2 \<le> length p"
    by (auto simp: put_i16_vec_def i16_item.put_counted_iff)
qed (simp_all add: take_i16_vec_iff)

lemmas counted_u32_iff [reader_iff] =
  u32_item.take_counted_iff [OF usize_counted, simplified]

lemmas counted_nullable_iff [reader_iff] =
  nullable_item.take_counted_iff [OF usize_counted, simplified]

lemma counted_parameter_iff:
  "(take_counted 4 d (nullable_reader negative) bs = Inr (xs, r)) =
    (\<exists>p. put_counted (nullable_writer too_large) xs [] = Inr p \<and> bs = p @ r)"
  by (rule bind_parameter.take_counted_iff) (rule usize_counted, simp)

end
