(* ===== verification/Codec_Frontend.thy ===== *)
theory Codec_Frontend
  imports Wire
begin

text \<open>
  The frontend half of \<open>src/codec.rs\<close>: the structured frontend messages, their \<open>to_frame\<close> encoders
  and the body decoders behind \<open>Direction::decode\<close> for \<open>Frontend\<close>.  The constructors of
  \<open>FrontendMessage\<close> carry the prefix the sources use for the enum (\<open>F::Query\<close> is \<open>F_Query\<close>).  The main
  result is that the decoder accepts a frame exactly when the encoder produces it.
\<close>

section \<open>Frames and messages\<close>

record Frame =
  frame_tag :: u8
  frame_body :: bytes

record Parse =
  parse_statement :: bytes
  parse_query :: bytes
  parse_parameter_types :: "u32 list"

record Bind =
  bind_portal :: bytes
  bind_statement :: bytes
  bind_parameter_formats :: "i16 list"
  bind_parameters :: "bytes option list"
  bind_result_formats :: "i16 list"

datatype DescribeTarget = Statement | Portal

record Describe =
  describe_target :: DescribeTarget
  describe_name :: bytes

record Close =
  close_target :: DescribeTarget
  close_name :: bytes

record Execute =
  execute_portal :: bytes
  execute_max_rows :: i32

record FunctionCall =
  function_oid :: u32
  function_argument_formats :: "i16 list"
  function_arguments :: "bytes option list"
  function_result_format :: i16

datatype (discs_sels, plugins only: code) FrontendMessage =
    F_Parse Parse
  | F_Bind Bind
  | F_Describe Describe
  | F_Close Close
  | F_Execute Execute
  | F_FunctionCall FunctionCall
  | F_Query bytes
  | F_Flush
  | F_Sync
  | F_Terminate
  | F_CopyData bytes
  | F_CopyDone
  | F_CopyFail bytes
  | F_PasswordResponse bytes

section \<open>Encoding\<close>

abbreviation frame :: "u8 \<Rightarrow> bytes \<Rightarrow> Frame" where
  "frame tag body \<equiv> \<lparr>frame_tag = tag, frame_body = body\<rparr>"

text \<open>\<open>let mut body = BytesMut::new(); ...; Ok(Frame { tag, body: body.freeze() })\<close>\<close>

definition frame_of :: "u8 \<Rightarrow> writer \<Rightarrow> io_error + Frame" where
  "frame_of tag w = result_map (frame tag) (w [])"

definition target_byte :: "DescribeTarget \<Rightarrow> u8" where
  "target_byte target = (case target of Statement \<Rightarrow> byte CHR ''S'' | Portal \<Rightarrow> byte CHR ''P'')"

definition named_target_frame :: "u8 \<Rightarrow> DescribeTarget \<Rightarrow> bytes \<Rightarrow> io_error + Frame" where
  "named_target_frame tag target name =
     frame_of tag (writes [put_u8 (target_byte target), put_cstr name])"

definition cstr_message :: "u8 \<Rightarrow> bytes \<Rightarrow> io_error + Frame" where
  "cstr_message tag value = frame_of tag (writes [put_cstr value])"

definition empty_message :: "u8 \<Rightarrow> Frame" where
  "empty_message tag = frame tag []"

definition Parse_to_frame :: "Parse \<Rightarrow> io_error + Frame" where
  "Parse_to_frame m = frame_of (byte CHR ''P'') (writes
     [put_cstr (parse_statement m),
      put_cstr (parse_query m),
      put_counted put_u32 (parse_parameter_types m)])"

definition Bind_to_frame :: "Bind \<Rightarrow> io_error + Frame" where
  "Bind_to_frame m = frame_of (byte CHR ''B'') (writes
     [put_cstr (bind_portal m),
      put_cstr (bind_statement m),
      put_i16_vec (bind_parameter_formats m),
      put_counted (nullable_writer ''Bind parameter is too large'') (bind_parameters m),
      put_i16_vec (bind_result_formats m)])"

definition Describe_to_frame :: "Describe \<Rightarrow> io_error + Frame" where
  "Describe_to_frame m = frame_of (byte CHR ''D'') (writes
     [put_u8 (target_byte (describe_target m)), put_cstr (describe_name m)])"

definition Close_to_frame :: "Close \<Rightarrow> io_error + Frame" where
  "Close_to_frame m = named_target_frame (byte CHR ''C'') (close_target m) (close_name m)"

definition Execute_to_frame :: "Execute \<Rightarrow> io_error + Frame" where
  "Execute_to_frame m = frame_of (byte CHR ''E'') (writes
     [put_cstr (execute_portal m), put_i32 (execute_max_rows m)])"

definition FunctionCall_to_frame :: "FunctionCall \<Rightarrow> io_error + Frame" where
  "FunctionCall_to_frame m = frame_of (byte CHR ''F'') (writes
     [put_u32 (function_oid m),
      put_i16_vec (function_argument_formats m),
      put_counted put_nullable (function_arguments m),
      put_i16 (function_result_format m)])"

fun FrontendMessage_to_frame :: "FrontendMessage \<Rightarrow> io_error + Frame" where
  "FrontendMessage_to_frame (F_Parse m) = Parse_to_frame m"
| "FrontendMessage_to_frame (F_Bind m) = Bind_to_frame m"
| "FrontendMessage_to_frame (F_Describe m) = Describe_to_frame m"
| "FrontendMessage_to_frame (F_Close m) = Close_to_frame m"
| "FrontendMessage_to_frame (F_Execute m) = Execute_to_frame m"
| "FrontendMessage_to_frame (F_FunctionCall m) = FunctionCall_to_frame m"
| "FrontendMessage_to_frame (F_Query query) = cstr_message (byte CHR ''Q'') query"
| "FrontendMessage_to_frame F_Flush = Inr (empty_message (byte CHR ''H''))"
| "FrontendMessage_to_frame F_Sync = Inr (empty_message (byte CHR ''S''))"
| "FrontendMessage_to_frame F_Terminate = Inr (empty_message (byte CHR ''X''))"
| "FrontendMessage_to_frame (F_CopyData data) = Inr (frame (byte CHR ''d'') data)"
| "FrontendMessage_to_frame F_CopyDone = Inr (empty_message (byte CHR ''c''))"
| "FrontendMessage_to_frame (F_CopyFail message) = cstr_message (byte CHR ''f'') message"
| "FrontendMessage_to_frame (F_PasswordResponse data) = Inr (frame (byte CHR ''p'') data)"

section \<open>Decoding\<close>

definition take_target :: "DescribeTarget reader" where
  "take_target = rbind take_u8 (\<lambda>b body.
     if b = byte CHR ''S'' then Inr (Statement, body)
     else if b = byte CHR ''P'' then Inr (Portal, body)
     else Inl (invalid ''invalid statement or portal target''))"

definition decode_empty :: "bytes \<Rightarrow> io_error + unit" where
  "decode_empty body = require_empty body"

definition decode_cstr_body :: "bytes \<Rightarrow> io_error + bytes" where
  "decode_cstr_body = rbind take_cstr finish"

definition decode_parse :: "bytes \<Rightarrow> io_error + Parse" where
  "decode_parse =
     rbind take_cstr (\<lambda>statement.
     rbind take_cstr (\<lambda>query.
     rbind (take_counted 4 ''parameter type count'' take_u32) (\<lambda>parameter_types.
     finish \<lparr>parse_statement = statement, parse_query = query,
             parse_parameter_types = parameter_types\<rparr>)))"

definition decode_bind :: "bytes \<Rightarrow> io_error + Bind" where
  "decode_bind =
     rbind take_cstr (\<lambda>portal.
     rbind take_cstr (\<lambda>statement.
     rbind take_i16_vec (\<lambda>parameter_formats.
     rbind (take_counted 4 ''parameter count'' (nullable_reader ''negative parameter length''))
       (\<lambda>parameters.
     rbind take_i16_vec (\<lambda>result_formats.
     finish \<lparr>bind_portal = portal, bind_statement = statement,
             bind_parameter_formats = parameter_formats, bind_parameters = parameters,
             bind_result_formats = result_formats\<rparr>)))))"

definition decode_describe :: "bytes \<Rightarrow> io_error + Describe" where
  "decode_describe =
     rbind take_target (\<lambda>target.
     rbind take_cstr (\<lambda>name.
     finish \<lparr>describe_target = target, describe_name = name\<rparr>))"

definition decode_close :: "bytes \<Rightarrow> io_error + Close" where
  "decode_close =
     rbind take_target (\<lambda>target.
     rbind take_cstr (\<lambda>name.
     finish \<lparr>close_target = target, close_name = name\<rparr>))"

definition decode_execute :: "bytes \<Rightarrow> io_error + Execute" where
  "decode_execute =
     rbind take_cstr (\<lambda>portal.
     rbind take_i32 (\<lambda>max_rows.
     finish \<lparr>execute_portal = portal, execute_max_rows = max_rows\<rparr>))"

definition decode_function_call :: "bytes \<Rightarrow> io_error + FunctionCall" where
  "decode_function_call =
     rbind take_u32 (\<lambda>oid.
     rbind take_i16_vec (\<lambda>argument_formats.
     rbind (take_counted 4 ''argument count'' take_nullable) (\<lambda>arguments.
     rbind take_i16 (\<lambda>result_format.
     finish \<lparr>function_oid = oid, function_argument_formats = argument_formats,
             function_arguments = arguments, function_result_format = result_format\<rparr>))))"

definition Frontend_decode :: "Frame \<Rightarrow> io_error + FrontendMessage" where
  "Frontend_decode f = (let tag = frame_tag f; body = frame_body f in
     if tag = byte CHR ''P'' then result_map F_Parse (decode_parse body)
     else if tag = byte CHR ''B'' then result_map F_Bind (decode_bind body)
     else if tag = byte CHR ''D'' then result_map F_Describe (decode_describe body)
     else if tag = byte CHR ''C'' then result_map F_Close (decode_close body)
     else if tag = byte CHR ''E'' then result_map F_Execute (decode_execute body)
     else if tag = byte CHR ''F'' then result_map F_FunctionCall (decode_function_call body)
     else if tag = byte CHR ''H'' then result_map (\<lambda>_. F_Flush) (decode_empty body)
     else if tag = byte CHR ''Q'' then result_map F_Query (decode_cstr_body body)
     else if tag = byte CHR ''S'' then result_map (\<lambda>_. F_Sync) (decode_empty body)
     else if tag = byte CHR ''X'' then result_map (\<lambda>_. F_Terminate) (decode_empty body)
     else if tag = byte CHR ''c'' then result_map (\<lambda>_. F_CopyDone) (decode_empty body)
     else if tag = byte CHR ''d'' then Inr (F_CopyData body)
     else if tag = byte CHR ''f'' then result_map F_CopyFail (decode_cstr_body body)
     else if tag = byte CHR ''p'' then Inr (F_PasswordResponse body)
     else Inl (unknown_tag ''frontend'' tag))"

declare frame_of_def [eval_defs] target_byte_def [eval_defs] named_target_frame_def [eval_defs]
  cstr_message_def [eval_defs] empty_message_def [eval_defs] Parse_to_frame_def [eval_defs]
  Bind_to_frame_def [eval_defs] Describe_to_frame_def [eval_defs] Close_to_frame_def [eval_defs]
  Execute_to_frame_def [eval_defs] FunctionCall_to_frame_def [eval_defs] take_target_def [eval_defs]
  decode_empty_def [eval_defs] decode_cstr_body_def [eval_defs] decode_parse_def [eval_defs]
  decode_bind_def [eval_defs] decode_describe_def [eval_defs] decode_close_def [eval_defs]
  decode_execute_def [eval_defs] decode_function_call_def [eval_defs] Frontend_decode_def [eval_defs]

section \<open>Each body decoder inverts its encoder\<close>

lemma frame_of_Inr_iff [simp]: "(frame_of tag w = Inr f) = (frame_tag f = tag \<and> w [] = Inr (frame_body f))"
  by (cases f) (auto simp: frame_of_def)

lemma take_target_iff [reader_iff]: "(take_target bs = Inr (t, r)) = (bs = target_byte t # r)"
  by (cases t; cases bs) (auto simp: take_target_def rbind_def take_u8_def target_byte_def split: if_splits)

lemma decode_empty_iff: "(decode_empty body = Inr u) = (body = [])"
  by (simp add: decode_empty_def)

lemma decode_cstr_body_iff: "(decode_cstr_body body = Inr v) = (0 \<notin> set v \<and> body = v @ [0])"
  by (auto simp: decode_cstr_body_def reader_iff)

lemma cstr_message_iff:
  "(cstr_message tag v = Inr f) = (frame_tag f = tag \<and> 0 \<notin> set v \<and> frame_body f = v @ [0])"
  by (auto simp: cstr_message_def writer_simps simp del: writes.simps)

lemmas frontend_codec_defs =
  Parse_to_frame_def Bind_to_frame_def Describe_to_frame_def Close_to_frame_def
  named_target_frame_def Execute_to_frame_def FunctionCall_to_frame_def cstr_message_def
  decode_parse_def decode_bind_def decode_describe_def decode_close_def decode_execute_def
  decode_function_call_def

lemmas bind_parameters_iff [reader_iff] =
  counted_parameter_iff [where too_large = "''Bind parameter is too large''"]

lemma decode_parse_iff:
  "(decode_parse body = Inr m) = (Parse_to_frame m = Inr (frame (byte CHR ''P'') body))"
  by (cases m) (auto simp: frontend_codec_defs reader_iff writer_simps simp del: writes.simps)

lemma decode_bind_iff:
  "(decode_bind body = Inr m) = (Bind_to_frame m = Inr (frame (byte CHR ''B'') body))"
  by (cases m) (auto simp: frontend_codec_defs reader_iff writer_simps simp del: writes.simps)

lemma decode_describe_iff:
  "(decode_describe body = Inr m) = (Describe_to_frame m = Inr (frame (byte CHR ''D'') body))"
  by (cases m) (auto simp: frontend_codec_defs reader_iff writer_simps simp del: writes.simps)

lemma decode_close_iff:
  "(decode_close body = Inr m) = (Close_to_frame m = Inr (frame (byte CHR ''C'') body))"
  by (cases m) (auto simp: frontend_codec_defs reader_iff writer_simps simp del: writes.simps)

lemma decode_execute_iff:
  "(decode_execute body = Inr m) = (Execute_to_frame m = Inr (frame (byte CHR ''E'') body))"
  by (cases m) (auto simp: frontend_codec_defs reader_iff writer_simps simp del: writes.simps)

lemma decode_function_call_iff:
  "(decode_function_call body = Inr m) =
    (FunctionCall_to_frame m = Inr (frame (byte CHR ''F'') body))"
  by (cases m) (auto simp: frontend_codec_defs reader_iff writer_simps simp del: writes.simps)

section \<open>The frontend direction\<close>

text \<open>Every encoder stamps its own tag.\<close>

fun frontend_tag :: "FrontendMessage \<Rightarrow> u8" where
  "frontend_tag (F_Parse _) = byte CHR ''P''"
| "frontend_tag (F_Bind _) = byte CHR ''B''"
| "frontend_tag (F_Describe _) = byte CHR ''D''"
| "frontend_tag (F_Close _) = byte CHR ''C''"
| "frontend_tag (F_Execute _) = byte CHR ''E''"
| "frontend_tag (F_FunctionCall _) = byte CHR ''F''"
| "frontend_tag (F_Query _) = byte CHR ''Q''"
| "frontend_tag F_Flush = byte CHR ''H''"
| "frontend_tag F_Sync = byte CHR ''S''"
| "frontend_tag F_Terminate = byte CHR ''X''"
| "frontend_tag (F_CopyData _) = byte CHR ''d''"
| "frontend_tag F_CopyDone = byte CHR ''c''"
| "frontend_tag (F_CopyFail _) = byte CHR ''f''"
| "frontend_tag (F_PasswordResponse _) = byte CHR ''p''"

lemma FrontendMessage_to_frame_tag: "FrontendMessage_to_frame m = Inr f \<Longrightarrow> frame_tag f = frontend_tag m"
  by (cases m) (auto simp: frontend_codec_defs empty_message_def)

lemma Frontend_decode_tag: "Frontend_decode f = Inr m \<Longrightarrow> frame_tag f = frontend_tag m"
  by (auto simp: Frontend_decode_def Let_def split: if_splits)

lemma frame_eqI: "frame_tag f = tag \<Longrightarrow> frame tag (frame_body f) = f"
  by (cases f) simp

lemma Frontend_decode_iff: "(Frontend_decode f = Inr m) = (FrontendMessage_to_frame m = Inr f)"
proof (cases "frame_tag f = frontend_tag m")
  case True
  obtain tag body where f: "f = frame tag body" by (cases f) auto
  show ?thesis
    using True unfolding f
    by (cases m) (auto simp: Frontend_decode_def empty_message_def decode_empty_iff
        decode_parse_iff decode_bind_iff decode_describe_iff decode_close_iff decode_execute_iff
        decode_function_call_iff decode_cstr_body_iff cstr_message_iff)
next
  case False
  then show ?thesis using FrontendMessage_to_frame_tag [of m f] Frontend_decode_tag [of f m] by auto
qed

section \<open>Properties\<close>

text \<open>
  C38. The frontend codec is exact: a frame decodes to a message precisely when that message encodes to
  the frame.  In one statement: every message that encodes round-trips, every frame that decodes is
  re-encoded to the same bytes, the encoding is injective, and malformed bodies (truncated, trailing
  bytes, unterminated strings, wrong counts, unknown tags) are all refused.
\<close>

theorem frontend_codec_exact:
  "(Frontend_decode f = Inr m) = (FrontendMessage_to_frame m = Inr f)"
  by (rule Frontend_decode_iff)

end
