(* ===== verification/Btree.thy ===== *)
theory Btree
  imports Prelude "HOL-Library.List_Lexorder"
begin

text \<open>
  The ordered map \<open>std::collections::BTreeMap\<close> as the sources use it: \<open>insert\<close> returns the value it
  replaced, \<open>get\<close> looks a key up, \<open>remove\<close> returns what it removed, and iteration is in ascending key
  order.  A map is its list of entries in that order.  Byte strings are compared lexicographically.
  The locale \<open>ordered_map\<close> is the contract the components that keep a \<open>BTreeMap\<close> rely on.
\<close>

type_synonym ('k, 'v) btree = "('k \<times> 'v) list"

fun btree_insert :: "'k::linorder \<Rightarrow> 'v \<Rightarrow> ('k, 'v) btree \<Rightarrow> 'v option \<times> ('k, 'v) btree" where
  "btree_insert k v [] = (None, [(k, v)])"
| "btree_insert k v ((k', v') # m) =
     (if k < k' then (None, (k, v) # (k', v') # m)
      else if k = k' then (Some v', (k, v) # m)
      else (let (old, m') = btree_insert k v m in (old, (k', v') # m')))"

definition btree_get :: "('k, 'v) btree \<Rightarrow> 'k \<Rightarrow> 'v option" where
  "btree_get m k = map_of m k"

definition btree_wf :: "('k::linorder, 'v) btree \<Rightarrow> bool" where
  "btree_wf m = sorted_wrt (<) (map fst m)"

text \<open>
  What a client needs of an ordered map: the operations keep the invariant, a lookup after an insert,
  the replaced value, and that a map is determined by its lookups.
\<close>

locale ordered_map =
  fixes wf :: "('k, 'v) btree \<Rightarrow> bool"
    and get :: "('k, 'v) btree \<Rightarrow> 'k \<Rightarrow> 'v option"
    and insert :: "'k \<Rightarrow> 'v \<Rightarrow> ('k, 'v) btree \<Rightarrow> 'v option \<times> ('k, 'v) btree"
  assumes wf_Nil: "wf []"
    and wf_insert: "wf m \<Longrightarrow> wf (snd (insert k v m))"
    and insert_old: "wf m \<Longrightarrow> fst (insert k v m) = get m k"
    and get_insert: "wf m \<Longrightarrow> get (snd (insert k v m)) = (get m)(k \<mapsto> v)"
    and get_Nil: "get [] k = None"
    and wf_ext: "wf m \<Longrightarrow> wf m' \<Longrightarrow> get m = get m' \<Longrightarrow> m = m'"
begin

text \<open>Collecting pairs one insert after the other.\<close>

definition collect :: "('k \<times> 'v) list \<Rightarrow> ('k, 'v) btree \<Rightarrow> ('k, 'v) btree" where
  "collect kvs m = fold (\<lambda>(k, v) m. snd (insert k v m)) kvs m"

lemma wf_collect: "wf m \<Longrightarrow> wf (collect kvs m)"
  unfolding collect_def by (induction kvs arbitrary: m) (auto simp: wf_insert)

lemma get_collect: "wf m \<Longrightarrow> get (collect kvs m) = get m ++ map_of (rev kvs)"
proof (induction kvs arbitrary: m)
  case Nil
  then show ?case by (simp add: collect_def)
next
  case (Cons kv kvs)
  obtain k v where kv: "kv = (k, v)" by (cases kv)
  have "collect (kv # kvs) m = collect kvs (snd (insert k v m))"
    by (simp add: collect_def kv)
  moreover have "get (collect kvs (snd (insert k v m))) = (get m)(k \<mapsto> v) ++ map_of (rev kvs)"
    by (simp only: Cons.IH [OF wf_insert [OF Cons.prems]] get_insert [OF Cons.prems])
  moreover have "map_of (rev (kv # kvs)) = map_of [(k, v)] ++ map_of (rev kvs)"
    by (simp add: kv map_of_append)
  ultimately show ?case by simp
qed

end

lemma btree_wf_Cons: "btree_wf ((k, v) # m) = (btree_wf m \<and> (\<forall>x \<in> set (map fst m). k < x))"
  by (auto simp: btree_wf_def)

lemma btree_insert_keys:
  "set (map fst (snd (btree_insert k v m))) = Set.insert k (set (map fst m))"
proof (induction k v m rule: btree_insert.induct)
  case (2 k v k' v' m)
  obtain old m' where "btree_insert k v m = (old, m')" by (cases "btree_insert k v m")
  with 2 show ?case by (simp del: set_map add: insert_commute)
qed simp

lemma btree_wf_insert: "btree_wf m \<Longrightarrow> btree_wf (snd (btree_insert k v m))"
proof (induction k v m rule: btree_insert.induct)
  case (2 k v k' v' m)
  then show ?case
    using btree_insert_keys [of k v m]
    by (auto simp: btree_wf_Cons Let_def simp del: set_map split: prod.splits)
qed (simp add: btree_wf_def)

lemma btree_get_above: "btree_wf ((k, v) # m) \<Longrightarrow> x \<le> k \<Longrightarrow> map_of m x = None"
  by (auto simp: btree_wf_Cons map_of_eq_None_iff)

lemma btree_insert_old: "btree_wf m \<Longrightarrow> fst (btree_insert k v m) = btree_get m k"
proof (induction k v m rule: btree_insert.induct)
  case (2 k v k' v' m)
  then show ?case
    using btree_get_above [of k' v' m k]
    by (auto simp: btree_wf_Cons btree_get_def Let_def split: prod.splits)
qed (simp add: btree_get_def)

lemma btree_get_insert: "btree_get (snd (btree_insert k v m)) = (btree_get m)(k \<mapsto> v)"
  by (induction k v m rule: btree_insert.induct)
    (auto simp: btree_get_def Let_def fun_eq_iff split: prod.splits)

lemma btree_wf_distinct: "btree_wf m \<Longrightarrow> distinct (map fst m)"
  unfolding btree_wf_def by (induction m) auto

lemma map_of_rev_distinct: "distinct (map fst m) \<Longrightarrow> map_of (rev m) = map_of m"
  by (rule map_of_inject_set [THEN iffD2]) (simp_all add: rev_map [symmetric])

lemma btree_wf_map_of:
  "btree_wf m \<Longrightarrow> btree_wf m' \<Longrightarrow> map_of m = map_of m' \<Longrightarrow> m = m'"
proof -
  assume wf: "btree_wf m" "btree_wf m'" and eq: "map_of m = map_of m'"
  have "set m = set m'"
    using map_of_inject_set [OF wf [THEN btree_wf_distinct]] eq by simp
  moreover have "sorted (map fst m)" "sorted (map fst m')"
    using wf by (auto simp: btree_wf_def intro: strict_sorted_imp_sorted)
  moreover have "inj_on fst (set m \<union> set m')"
    using btree_wf_distinct [OF wf(1)] \<open>set m = set m'\<close> by (simp add: distinct_map)
  ultimately show "m = m'"
    using wf [THEN btree_wf_distinct] by (intro map_sorted_distinct_set_unique [of fst m m'])
qed

interpretation btree: ordered_map btree_wf btree_get btree_insert
proof unfold_locales
  show "btree_wf []" by (simp add: btree_wf_def)
  show "m = m'" if "btree_wf m" "btree_wf m'" "btree_get m = btree_get m'" for m m' :: "('a, 'b) btree"
    using that by (auto intro!: btree_wf_map_of simp: btree_get_def fun_eq_iff)
qed (simp_all add: btree_wf_insert btree_insert_old btree_get_insert, simp add: btree_get_def)

lemma btree_wf_collect_self: "btree_wf m \<Longrightarrow> btree.collect m [] = m"
proof (rule btree_wf_map_of)
  assume wf: "btree_wf m"
  show "btree_wf (btree.collect m [])" by (rule btree.wf_collect) (rule btree.wf_Nil)
  have "btree_get (btree.collect m []) = map_of (rev m)"
    by (simp add: btree.get_collect [OF btree.wf_Nil] btree.get_Nil fun_eq_iff map_add_def
        split: option.splits)
  also have "\<dots> = map_of m"
    using btree_wf_distinct [OF wf] by (rule map_of_rev_distinct)
  finally show "map_of (btree.collect m []) = map_of m" by (simp add: btree_get_def fun_eq_iff)
qed

end
