(* ===== verification/Startup.thy ===== *)
theory Startup
  imports Wire Btree "HOL-Library.Multiset"
begin

text \<open>
  \<open>src/startup.rs\<close>: the untagged startup packet.  The parameters are a \<open>BTreeMap\<close>, so the encoder
  writes them in ascending order of their names and the decoder accepts them in any order but refuses
  a repeated name.
\<close>

section \<open>Data\<close>

record ProtocolVersion =
  major :: u16
  minor :: u16

definition V3_0 :: ProtocolVersion where "V3_0 = \<lparr>major = 3, minor = 0\<rparr>"
definition V3_1 :: ProtocolVersion where "V3_1 = \<lparr>major = 3, minor = 1\<rparr>"
definition V3_2 :: ProtocolVersion where "V3_2 = \<lparr>major = 3, minor = 2\<rparr>"

record StartupMessage =
  startup_version :: ProtocolVersion
  startup_parameters :: "(bytes, bytes) btree"

section \<open>Encoding and decoding\<close>

definition startup_put_cstr :: "bytes \<Rightarrow> writer" where
  "startup_put_cstr = cstr_writer ''startup parameter contains a NUL byte''"

definition startup_take_cstr :: "bytes reader" where
  "startup_take_cstr = cstr_reader ''unterminated startup parameter''"

definition put_parameter :: "bytes \<times> bytes \<Rightarrow> writer" where
  "put_parameter = (\<lambda>(name, value). writes [startup_put_cstr name, startup_put_cstr value])"

definition StartupMessage_encode :: "StartupMessage \<Rightarrow> io_error + bytes" where
  "StartupMessage_encode m =
     (case writes [put_slice [0, 0, 0, 0],
                   put_u16 (major (startup_version m)),
                   put_u16 (minor (startup_version m)),
                   put_all put_parameter (startup_parameters m),
                   put_u8 0] [] of
        Inl e \<Rightarrow> Inl e
      | Inr output \<Rightarrow>
          if length output \<le> i32_max
          then Inr (be32 (word_of_nat (length output)) @ drop 4 output)
          else Inl (invalid_input ''startup packet too large''))"

text \<open>The loop of \<open>decode\<close> over the parameters; every iteration consumes at least one byte.\<close>

function take_parameters :: "(bytes, bytes) btree \<Rightarrow> (bytes, bytes) btree reader" where
  "take_parameters parameters packet =
     (if packet = [] then Inl (invalid ''startup parameters have no final terminator'')
      else if hd packet = 0 then Inr (parameters, tl packet)
      else rbind startup_take_cstr (\<lambda>name.
           rbind startup_take_cstr (\<lambda>value packet.
             case btree_insert name value parameters of
               (Some _, _) \<Rightarrow> Inl (invalid ''duplicate startup parameter'')
             | (None, parameters) \<Rightarrow> take_parameters parameters packet)) packet)"
  by pat_completeness auto
termination
  by (relation "measure (length \<circ> snd)")
    (auto simp: startup_take_cstr_def dest!: cstr_reader_shorter)

definition StartupMessage_decode :: "bytes \<Rightarrow> io_error + StartupMessage" where
  "StartupMessage_decode packet =
     (if length packet < 8 then Inl (invalid ''startup packet is shorter than 8 bytes'')
      else
        let declared = unat (of_be32 (take 4 packet)); packet = drop 4 packet in
        if declared \<noteq> length packet + 4
        then Inl (invalid ''startup packet length does not match its bytes'')
        else
          let v = \<lparr>major = of_be16 (take 2 packet), minor = of_be16 (take 2 (drop 2 packet))\<rparr> in
          (case take_parameters [] (drop 4 packet) of
             Inl e \<Rightarrow> Inl e
           | Inr (parameters, packet) \<Rightarrow>
               if packet \<noteq> [] then Inl (invalid ''startup packet has trailing bytes'')
               else Inr \<lparr>startup_version = v, startup_parameters = parameters\<rparr>))"

declare V3_0_def [eval_defs] V3_1_def [eval_defs] V3_2_def [eval_defs]
  startup_put_cstr_def [eval_defs] startup_take_cstr_def [eval_defs] put_parameter_def [eval_defs]
  StartupMessage_encode_def [eval_defs] StartupMessage_decode_def [eval_defs]

section \<open>The parameter list on the wire\<close>

context wire_item
begin

text \<open>The order of the items changes neither whether a sequence can be written nor its length.\<close>

lemma put_all_pieces:
  "(put_all put xs [] = Inr p) = (\<exists>ps. list_all2 (\<lambda>x q. put x [] = Inr q) xs ps \<and> p = concat ps)"
proof (induction xs arbitrary: p)
  case Nil
  then show ?case by auto
next
  case (Cons x xs)
  have "(put_all put (x # xs) [] = Inr p) =
    (\<exists>p1 ps. put x [] = Inr p1 \<and> list_all2 (\<lambda>x q. put x [] = Inr q) xs ps \<and> p = p1 @ concat ps)"
    by (simp add: writes_Cons_iff [OF put_all_appends] Cons.IH del: writes.simps) blast
  also have "\<dots> = (\<exists>ps. list_all2 (\<lambda>x q. put x [] = Inr q) (x # xs) ps \<and> p = concat ps)"
    unfolding list_all2_Cons1 by (metis (no_types, lifting) concat.simps(2))
  finally show ?case .
qed

lemma put_all_perm:
  assumes "put_all put xs [] = Inr p" and "mset xs = mset ys"
  shows "\<exists>q. put_all put ys [] = Inr q \<and> length q = length p"
proof -
  from assms(1) obtain ps where ps: "list_all2 (\<lambda>x q. put x [] = Inr q) xs ps" "p = concat ps"
    by (auto simp: put_all_pieces)
  obtain qs where qs: "list_all2 (\<lambda>x q. put x [] = Inr q) ys qs" "mset qs = mset ps"
    using list_all2_reorder_left_invariance [OF ps(1) assms(2) [symmetric]] by blast
  have "length (concat qs) = length (concat ps)"
    using arg_cong [OF qs(2), of "\<lambda>M. sum_mset (image_mset length M)"]
    by (simp add: length_concat sum_mset_sum_list flip: mset_map)
  with qs(1) ps(2) show ?thesis unfolding put_all_pieces by blast
qed

end

definition take_parameter :: "(bytes \<times> bytes) reader" where
  "take_parameter = rbind startup_take_cstr (\<lambda>name. rbind startup_take_cstr (\<lambda>value. rreturn (name, value)))"

lemma startup_cstr_simps [simp]: "appends (startup_put_cstr v)"
  by (simp add: startup_put_cstr_def)

lemma startup_cstr_iff [reader_iff, writer_simps]:
  "(startup_take_cstr bs = Inr (v, r)) = (0 \<notin> set v \<and> bs = v @ 0 # r)"
  "(startup_put_cstr v [] = Inr p) = (0 \<notin> set v \<and> p = v @ [0])"
  by (simp_all add: startup_take_cstr_def startup_put_cstr_def cstr_reader_iff writer_simps)

lemma put_parameter_iff [writer_simps]:
  "(put_parameter (n, v) [] = Inr p) = (0 \<notin> set n \<and> 0 \<notin> set v \<and> p = n @ 0 # v @ [0])"
  by (auto simp: put_parameter_def writer_simps simp del: writes.simps)

lemma appends_put_parameter [simp]: "appends (put_parameter nv)"
  by (cases nv) (simp add: put_parameter_def)

interpretation parameter_item: wire_item put_parameter take_parameter 2
proof unfold_locales
  fix x bs r p
  show "(take_parameter bs = Inr (x, r)) = (\<exists>p. put_parameter x [] = Inr p \<and> bs = p @ r)"
    by (cases x) (auto simp: take_parameter_def reader_iff put_parameter_iff)
  show "2 \<le> length p" if "put_parameter x [] = Inr p"
    using that by (cases x) (auto simp: put_parameter_iff)
qed simp

text \<open>
  What the loop accepts: encoded pairs with non-empty, pairwise different names that the map does not
  have yet, then the terminator.
\<close>

definition fresh_parameters :: "(bytes \<times> bytes) list \<Rightarrow> (bytes, bytes) btree \<Rightarrow> bool" where
  "fresh_parameters kvs m = (distinct (map fst kvs) \<and>
     (\<forall>k \<in> set (map fst kvs). k \<noteq> [] \<and> btree_get m k = None))"

lemma fresh_parameters_Cons:
  assumes "btree_wf m"
  shows "fresh_parameters ((n, v) # kvs) m =
    (n \<noteq> [] \<and> btree_get m n = None \<and> fresh_parameters kvs (snd (btree_insert n v m)))"
  using assms by (auto simp: fresh_parameters_def btree.get_insert)

declare take_parameters.simps [simp del]

lemma take_parameters_step:
  assumes "n \<noteq> []" "0 \<notin> set n" "0 \<notin> set v"
  shows "take_parameters m (n @ 0 # v @ 0 # bs) =
    (case btree_insert n v m of
       (Some _, _) \<Rightarrow> Inl (invalid ''duplicate startup parameter'')
     | (None, m') \<Rightarrow> take_parameters m' bs)"
proof -
  have "hd (n @ 0 # v @ 0 # bs) \<noteq> 0" using assms(1,2) by (cases n) auto
  moreover have "startup_take_cstr (n @ 0 # v @ 0 # bs) = Inr (n, v @ 0 # bs)"
    and "startup_take_cstr (v @ 0 # bs) = Inr (v, bs)"
    using assms by (simp_all add: reader_iff)
  ultimately show ?thesis
    by (subst take_parameters.simps) (simp add: rbind_def)
qed

lemma take_parameters_complete:
  assumes "btree_wf m" "put_all put_parameter kvs [] = Inr p" "fresh_parameters kvs m"
  shows "take_parameters m (p @ 0 # r) = Inr (btree.collect kvs m, r)"
  using assms
proof (induction kvs arbitrary: m p)
  case Nil
  then show ?case by (simp add: take_parameters.simps btree.collect_def)
next
  case (Cons nv kvs)
  obtain n v where nv: "nv = (n, v)" by (cases nv)
  from Cons.prems obtain q where q: "put_all put_parameter kvs [] = Inr q"
    and p: "p = n @ 0 # v @ 0 # q" and nul: "0 \<notin> set n" "0 \<notin> set v"
    by (auto simp: nv writer_simps simp del: writes.simps)
  from Cons.prems have fresh: "n \<noteq> []" "btree_get m n = None"
    "fresh_parameters kvs (snd (btree_insert n v m))"
    by (simp_all add: nv fresh_parameters_Cons)
  obtain m' where m': "btree_insert n v m = (None, m')"
    using fresh(2) btree.insert_old [OF Cons.prems(1), of n v]
    by (cases "btree_insert n v m") simp
  have "take_parameters m' (q @ 0 # r) = Inr (btree.collect kvs m', r)"
    using Cons.IH [of m' q] btree.wf_insert [OF Cons.prems(1), of n v] fresh(3) q m' by simp
  then show ?case
    using take_parameters_step [OF fresh(1) nul, of m "q @ 0 # r"] m'
    by (simp add: p nv btree.collect_def)
qed

lemma take_parameters_sound:
  assumes "take_parameters m bs = Inr (m', r)" "btree_wf m"
  shows "\<exists>kvs p. put_all put_parameter kvs [] = Inr p \<and> bs = p @ 0 # r \<and> fresh_parameters kvs m \<and>
    m' = btree.collect kvs m"
  using assms
proof (induction m bs arbitrary: m' r rule: take_parameters.induct)
  case (1 m bs)
  show ?case
  proof (cases "bs \<noteq> [] \<and> hd bs = 0")
    case True
    then have "take_parameters m bs = Inr (m, tl bs)" by (simp add: take_parameters.simps)
    with 1(2) True have "bs = [] @ 0 # r" "m' = btree.collect [] m"
      by (cases bs; simp add: btree.collect_def)+
    moreover have "put_all put_parameter [] [] = Inr []" "fresh_parameters [] m"
      by (simp_all add: fresh_parameters_def)
    ultimately show ?thesis by blast
  next
    case False
    with 1(2) have ne: "bs \<noteq> []" "hd bs \<noteq> 0"
      using take_parameters.simps [of m bs] by auto
    then obtain n bs1 v q where take: "startup_take_cstr bs = Inr (n, bs1)" "startup_take_cstr bs1 = Inr (v, q)"
      and loop: "(case btree_insert n v m of
           (Some _, _) \<Rightarrow> Inl (invalid ''duplicate startup parameter'')
         | (None, m1) \<Rightarrow> take_parameters m1 q) = Inr (m', r)"
      using 1(2) take_parameters.simps [of m bs] by auto
    obtain old m1 where "btree_insert n v m = (old, m1)" by (cases "btree_insert n v m")
    with loop have ins: "btree_insert n v m = (None, m1)" and rest: "take_parameters m1 q = Inr (m', r)"
      by (cases old; simp)+
    from take have bs: "bs = n @ 0 # v @ 0 # q" and nul: "0 \<notin> set n" "0 \<notin> set v"
      by (auto simp: reader_iff)
    have wf: "btree_wf m1" using btree.wf_insert [OF 1(3), of n v] ins by simp
    have "n \<noteq> []" using ne(2) bs by (cases n) auto
    from 1(1) [OF ne take ins [symmetric] refl rest wf]
    obtain kvs p where "put_all put_parameter kvs [] = Inr p" "q = p @ 0 # r"
      "fresh_parameters kvs m1" "m' = btree.collect kvs m1" by blast
    moreover have "btree_get m n = None"
      using btree.insert_old [OF 1(3), of n v] ins by simp
    ultimately have "put_all put_parameter ((n, v) # kvs) [] = Inr (n @ 0 # v @ 0 # p)"
      "bs = (n @ 0 # v @ 0 # p) @ 0 # r" "fresh_parameters ((n, v) # kvs) m"
      "m' = btree.collect ((n, v) # kvs) m"
      using bs nul ins \<open>n \<noteq> []\<close>
      by (simp_all add: fresh_parameters_Cons [OF 1(3)] btree.collect_def writer_simps del: writes.simps)
    then show ?thesis by blast
  qed
qed

section \<open>The packet\<close>

text \<open>The bytes of a packet whose encoded parameters are \<open>q\<close>.\<close>

definition startup_packet :: "ProtocolVersion \<Rightarrow> bytes \<Rightarrow> bytes" where
  "startup_packet v q = be32 (word_of_nat (length q + 9)) @ be16 (major v) @ be16 (minor v) @ q @ [0]"

definition startup_wf :: "StartupMessage \<Rightarrow> bool" where
  "startup_wf m = (btree_wf (startup_parameters m) \<and> [] \<notin> set (map fst (startup_parameters m)))"

lemma length_startup_packet [simp]: "length (startup_packet v q) = length q + 9"
  by (simp add: startup_packet_def)

lemma StartupMessage_encode_iff:
  "(StartupMessage_encode m = Inr p) =
    (\<exists>q. put_all put_parameter (startup_parameters m) [] = Inr q \<and> length q + 9 \<le> i32_max \<and>
      p = startup_packet (startup_version m) q)"
proof -
  have "(writes [put_slice [0, 0, 0, 0], put_u16 (major (startup_version m)),
      put_u16 (minor (startup_version m)), put_all put_parameter (startup_parameters m), put_u8 0] [] = Inr out) =
    (\<exists>q. put_all put_parameter (startup_parameters m) [] = Inr q \<and>
      out = [0, 0, 0, 0] @ be16 (major (startup_version m)) @ be16 (minor (startup_version m)) @ q @ [0])" for out
    by (auto simp: writer_simps simp del: writes.simps)
  then show ?thesis
    by (auto simp: StartupMessage_encode_def startup_packet_def algebra_simps simp del: writes.simps
        split: if_splits)
qed

lemma StartupMessage_decode_body:
  "(StartupMessage_decode p = Inr m) =
    (\<exists>rest. p = be32 (word_of_nat (length rest + 8)) @ be16 (major (startup_version m)) @
        be16 (minor (startup_version m)) @ rest \<and> length rest + 8 < 2 ^ 32 \<and>
      take_parameters [] rest = Inr (startup_parameters m, []))"
proof
  assume ok: "StartupMessage_decode p = Inr m"
  then have len: "8 \<le> length p" and declared: "unat (of_be32 (take 4 p)) = length p"
    and v: "startup_version m = \<lparr>major = of_be16 (take 2 (drop 4 p)), minor = of_be16 (take 2 (drop 6 p))\<rparr>"
    and params: "take_parameters [] (drop 8 p) = Inr (startup_parameters m, [])"
    by (auto simp: StartupMessage_decode_def Let_def split: if_splits prod.splits sum.splits)
  have "word_of_nat (length p) = of_be32 (take 4 p)"
    by (simp add: declared [symmetric])
  then have "be32 (word_of_nat (length p)) = take 4 p"
    using len by (simp add: be32_of_be32)
  moreover have "be16 (major (startup_version m)) = take 2 (drop 4 p)"
    "be16 (minor (startup_version m)) = take 2 (drop 6 p)"
    using len by (simp_all add: v be16_of_be16)
  moreover have "drop 6 p = drop 2 (drop 4 p)" "drop 8 p = drop 2 (drop 6 p)" by simp_all
  then have "p = take 4 p @ take 2 (drop 4 p) @ take 2 (drop 6 p) @ drop 8 p"
    by (simp only: append_take_drop_id)
  ultimately have "p = be32 (word_of_nat (length (drop 8 p) + 8)) @ be16 (major (startup_version m)) @
      be16 (minor (startup_version m)) @ drop 8 p"
    using len by simp
  moreover have "length (drop 8 p) + 8 < 2 ^ 32"
    using len declared unat_lt [of "of_be32 (take 4 p)"] by simp
  ultimately show "\<exists>rest. p = be32 (word_of_nat (length rest + 8)) @ be16 (major (startup_version m)) @
        be16 (minor (startup_version m)) @ rest \<and> length rest + 8 < 2 ^ 32 \<and>
      take_parameters [] rest = Inr (startup_parameters m, [])"
    using params by blast
next
  assume "\<exists>rest. p = be32 (word_of_nat (length rest + 8)) @ be16 (major (startup_version m)) @
        be16 (minor (startup_version m)) @ rest \<and> length rest + 8 < 2 ^ 32 \<and>
      take_parameters [] rest = Inr (startup_parameters m, [])"
  then obtain rest d where p: "p = be32 d @ be16 (major (startup_version m)) @
        be16 (minor (startup_version m)) @ rest" and d: "unat d = length rest + 8"
      and "take_parameters [] rest = Inr (startup_parameters m, [])"
    by (metis unat_of_nat_u32)
  then show "StartupMessage_decode p = Inr m"
    by (cases m) (simp add: StartupMessage_decode_def Let_def)
qed

text \<open>The packets the decoder accepts, and the map it returns.\<close>

lemma StartupMessage_decode_iff:
  "(StartupMessage_decode p = Inr m) =
    (\<exists>kvs q. put_all put_parameter kvs [] = Inr q \<and> fresh_parameters kvs [] \<and>
      length q + 9 < 2 ^ 32 \<and> p = startup_packet (startup_version m) q \<and>
      startup_parameters m = btree.collect kvs [])"
proof
  assume "StartupMessage_decode p = Inr m"
  then obtain rest where p: "p = be32 (word_of_nat (length rest + 8)) @ be16 (major (startup_version m)) @
        be16 (minor (startup_version m)) @ rest" and len: "length rest + 8 < 2 ^ 32"
    and "take_parameters [] rest = Inr (startup_parameters m, [])"
    by (auto simp: StartupMessage_decode_body)
  with take_parameters_sound [OF this(3) btree.wf_Nil] obtain kvs q
    where "put_all put_parameter kvs [] = Inr q" "rest = q @ [0]" "fresh_parameters kvs []"
      "startup_parameters m = btree.collect kvs []" by auto
  moreover from this(2) p len have "p = startup_packet (startup_version m) q" "length q + 9 < 2 ^ 32"
    by (simp_all add: startup_packet_def add.commute)
  ultimately show "\<exists>kvs q. put_all put_parameter kvs [] = Inr q \<and> fresh_parameters kvs [] \<and>
      length q + 9 < 2 ^ 32 \<and> p = startup_packet (startup_version m) q \<and>
      startup_parameters m = btree.collect kvs []" by blast
next
  assume "\<exists>kvs q. put_all put_parameter kvs [] = Inr q \<and> fresh_parameters kvs [] \<and>
      length q + 9 < 2 ^ 32 \<and> p = startup_packet (startup_version m) q \<and>
      startup_parameters m = btree.collect kvs []"
  then obtain kvs q where kvs: "put_all put_parameter kvs [] = Inr q" "fresh_parameters kvs []"
    and len: "length q + 9 < 2 ^ 32" and p: "p = startup_packet (startup_version m) q"
    and m: "startup_parameters m = btree.collect kvs []" by blast
  have "take_parameters [] (q @ [0]) = Inr (startup_parameters m, [])"
    using take_parameters_complete [OF btree.wf_Nil kvs] m by simp
  then show "StartupMessage_decode p = Inr m"
    using len p unfolding StartupMessage_decode_body startup_packet_def
    by (intro exI [of _ "q @ [0]"]) (simp add: add.commute)
qed

lemma fresh_parameters_wf: "startup_wf m \<Longrightarrow> fresh_parameters (startup_parameters m) []"
  by (auto simp: startup_wf_def fresh_parameters_def btree_get_def simp del: set_map dest: btree_wf_distinct)

lemma StartupMessage_decode_encode:
  assumes "startup_wf m" "StartupMessage_encode m = Inr p"
  shows "StartupMessage_decode p = Inr m"
proof -
  from assms(2) obtain q where "put_all put_parameter (startup_parameters m) [] = Inr q"
    "length q + 9 \<le> i32_max" "p = startup_packet (startup_version m) q"
    by (auto simp: StartupMessage_encode_iff)
  moreover have "startup_parameters m = btree.collect (startup_parameters m) []"
    using assms(1) by (simp add: startup_wf_def btree_wf_collect_self)
  ultimately show ?thesis
    using fresh_parameters_wf [OF assms(1)] unfolding StartupMessage_decode_iff
    by (intro exI [of _ "startup_parameters m"] exI [of _ q]) (simp add: i32_max_def)
qed

text \<open>
  A decoded packet re-encodes, up to the order of its parameters, to a packet of the same length, as
  long as that fits the \<open>i32\<close> the encoder allows.
\<close>

lemma collect_mset:
  assumes "fresh_parameters kvs []"
  shows "mset (btree.collect kvs []) = mset kvs"
proof -
  let ?m = "btree.collect kvs []"
  have wf: "btree_wf ?m" by (rule btree.wf_collect) (rule btree.wf_Nil)
  have d: "distinct (map fst kvs)" using assms by (simp add: fresh_parameters_def)
  have "btree_get ?m = map_of kvs"
    using map_of_rev_distinct [OF d]
    by (simp add: btree.get_collect [OF btree.wf_Nil] btree.get_Nil fun_eq_iff map_add_def split: option.splits)
  then have "map_of ?m = map_of kvs" by (simp add: btree_get_def fun_eq_iff)
  then have "set ?m = set kvs"
    using map_of_inject_set [OF btree_wf_distinct [OF wf] d] by simp
  then show ?thesis
    using btree_wf_distinct [OF wf] d by (simp add: set_eq_iff_mset_eq_distinct distinct_map)
qed

lemma StartupMessage_decode_wf: "StartupMessage_decode p = Inr m \<Longrightarrow> startup_wf m"
proof -
  assume "StartupMessage_decode p = Inr m"
  then obtain kvs where kvs: "fresh_parameters kvs []" "startup_parameters m = btree.collect kvs []"
    by (auto simp: StartupMessage_decode_iff)
  have "set (map fst (startup_parameters m)) = set (map fst kvs)"
    using collect_mset [OF kvs(1)] kvs(2) by (metis mset_map set_mset_mset)
  with kvs show "startup_wf m"
    using btree.wf_collect [OF btree.wf_Nil, of kvs] by (auto simp: startup_wf_def fresh_parameters_def simp del: set_map)
qed

lemma StartupMessage_reencode:
  assumes "StartupMessage_decode p = Inr m" "length p \<le> i32_max"
  obtains p' where "StartupMessage_encode m = Inr p'" "length p' = length p"
proof -
  from assms(1) obtain kvs q where kvs: "put_all put_parameter kvs [] = Inr q" "fresh_parameters kvs []"
    "p = startup_packet (startup_version m) q" "startup_parameters m = btree.collect kvs []"
    by (auto simp: StartupMessage_decode_iff)
  have "mset kvs = mset (startup_parameters m)" using collect_mset [OF kvs(2)] kvs(4) by simp
  from parameter_item.put_all_perm [OF kvs(1) this] obtain q'
    where "put_all put_parameter (startup_parameters m) [] = Inr q'" "length q' = length q" by blast
  with assms(2) kvs(3) have "StartupMessage_encode m = Inr (startup_packet (startup_version m) q')"
    unfolding StartupMessage_encode_iff by simp
  with \<open>length q' = length q\<close> kvs(3) show thesis
    by (intro that [of "startup_packet (startup_version m) q'"]) simp_all
qed

section \<open>Properties\<close>

text \<open>
  A startup message whose parameters are a map without an empty name decodes back from the packet
  it encodes to.
\<close>

theorem startup_round_trip:
  assumes "startup_wf m" and "StartupMessage_encode m = Inr packet"
  shows "StartupMessage_decode packet = Inr m"
  using assms by (rule StartupMessage_decode_encode)

definition sample_startup :: StartupMessage where
  "sample_startup = \<lparr>startup_version = V3_2, startup_parameters = [([100, 98], [120]), ([117], [97])]\<rparr>"

theorem startup_round_trip_witness:
  "StartupMessage_decode
     [0, 0, 0, 18, 0, 3, 0, 2, 100, 98, 0, 120, 0, 117, 0, 97, 0, 0] = Inr sample_startup"
  by (rule startup_round_trip) (simp_all add: eval_defs sample_startup_def startup_wf_def btree_wf_def)

text \<open>
  Whatever order a packet lists its parameters in, the decoded message is a well-formed map that
  re-encodes to a packet of the same length, which decodes to the same message; the length bound is
  the encoder's \<open>i32\<close> limit.
\<close>

theorem startup_canonical:
  assumes "StartupMessage_decode packet = Inr m" and "length packet \<le> i32_max"
  shows "\<exists>packet'. StartupMessage_encode m = Inr packet' \<and> length packet' = length packet \<and>
    StartupMessage_decode packet' = Inr m"
proof -
  obtain packet' where "StartupMessage_encode m = Inr packet'" "length packet' = length packet"
    using assms by (rule StartupMessage_reencode)
  with StartupMessage_decode_encode [OF StartupMessage_decode_wf [OF assms(1)]] show ?thesis by blast
qed

definition sample_packet :: bytes where
  "sample_packet = [0, 0, 0, 18, 0, 3, 0, 2, 117, 0, 97, 0, 100, 98, 0, 120, 0, 0]"

theorem startup_canonical_witness:
  "\<exists>packet'. StartupMessage_encode sample_startup = Inr packet' \<and> length packet' = length sample_packet \<and>
    StartupMessage_decode packet' = Inr sample_startup"
proof (rule startup_canonical)
  show "StartupMessage_decode sample_packet = Inr sample_startup"
    by (simp add: eval_defs take_parameters.simps sample_startup_def sample_packet_def)
  show "length sample_packet \<le> i32_max" by (simp add: sample_packet_def i32_max_def)
qed

text \<open>
  A startup message with an empty parameter name encodes, but its packet does not decode: the empty
  name is read as the terminator of the parameter list.
\<close>

theorem startup_empty_name_lost:
  "StartupMessage_encode \<lparr>startup_version = V3_0, startup_parameters = [([], [97])]\<rparr> =
     Inr [0, 0, 0, 12, 0, 3, 0, 0, 0, 97, 0, 0] \<and>
   StartupMessage_decode [0, 0, 0, 12, 0, 3, 0, 0, 0, 97, 0, 0] =
     Inl (invalid ''startup packet has trailing bytes'')"
  by (simp add: eval_defs take_parameters.simps)

end
