(* ===== verification/Codec_Backend.thy ===== *)
theory Codec_Backend
  imports Codec_Frontend Startup
begin

unbundle bit_operations_syntax

text \<open>
  The backend half of \<open>src/codec.rs\<close>: the structured backend messages, their \<open>to_frame\<close> encoders and
  the body decoders behind \<open>Direction::decode\<close> for \<open>Backend\<close>.  The constructors of \<open>BackendMessage\<close>
  carry the prefix the sources use for the enum (\<open>B::NoData\<close> is \<open>B_NoData\<close>).
\<close>

section \<open>Messages\<close>

record FieldDescription =
  field_name :: bytes
  field_table_oid :: u32
  field_column :: i16
  field_type_oid :: u32
  field_type_size :: i16
  field_type_modifier :: i32
  field_format :: i16

record RowDescription =
  row_fields :: "FieldDescription list"

datatype (discs_sels) Authentication =
    Auth_Ok
  | Auth_KerberosV5
  | Auth_CleartextPassword
  | Auth_Md5Password "u8 \<times> u8 \<times> u8 \<times> u8"
  | Auth_Gss
  | Auth_GssContinue bytes
  | Auth_Sspi
  | Auth_Sasl "bytes list"
  | Auth_SaslContinue bytes
  | Auth_SaslFinal bytes

datatype TransactionStatus = Idle | InTransaction | FailedTransaction

record NegotiateProtocolVersion =
  newest :: ProtocolVersion
  unsupported_options :: "bytes list"

record DiagnosticField =
  diagnostic_code :: u8
  diagnostic_value :: bytes

record DiagnosticResponse =
  diagnostic_fields :: "DiagnosticField list"

record CopyResponse =
  overall_format :: u8
  column_formats :: "i16 list"

record DataRow =
  row_columns :: "bytes option list"

datatype (discs_sels, plugins only: code) BackendMessage =
    B_RowDescription RowDescription
  | B_Authentication Authentication
  | B_ParseComplete
  | B_BindComplete
  | B_CloseComplete
  | B_CommandComplete bytes
  | B_CopyData bytes
  | B_CopyDone
  | B_CopyInResponse CopyResponse
  | B_CopyOutResponse CopyResponse
  | B_CopyBothResponse CopyResponse
  | B_DataRow DataRow
  | B_EmptyQueryResponse
  | B_ErrorResponse DiagnosticResponse
  | B_NoData
  | B_ParameterStatus bytes bytes
  | B_NoticeResponse DiagnosticResponse
  | B_NotificationResponse u32 bytes bytes
  | B_BackendKeyData u32 bytes
  | B_ReadyForQuery TransactionStatus
  | B_ParameterDescription "u32 list"
  | B_PortalSuspended
  | B_FunctionCallResponse bytes
  | B_NegotiateProtocolVersion NegotiateProtocolVersion

section \<open>Encoding\<close>

definition put_field :: "FieldDescription \<Rightarrow> writer" where
  "put_field f = writes
     [put_cstr (field_name f),
      put_u32 (field_table_oid f),
      put_i16 (field_column f),
      put_u32 (field_type_oid f),
      put_i16 (field_type_size f),
      put_i32 (field_type_modifier f),
      put_i16 (field_format f)]"

definition RowDescription_to_frame :: "RowDescription \<Rightarrow> io_error + Frame" where
  "RowDescription_to_frame m = frame_of (byte CHR ''T'') (writes [put_counted put_field (row_fields m)])"

definition put_salt :: "u8 \<times> u8 \<times> u8 \<times> u8 \<Rightarrow> writer" where
  "put_salt = (\<lambda>(a, b, c, d). put_slice [a, b, c, d])"

fun authentication_body :: "Authentication \<Rightarrow> writer" where
  "authentication_body Auth_Ok = writes [put_u32 0]"
| "authentication_body Auth_KerberosV5 = writes [put_u32 2]"
| "authentication_body Auth_CleartextPassword = writes [put_u32 3]"
| "authentication_body (Auth_Md5Password salt) = writes [put_u32 5, put_salt salt]"
| "authentication_body Auth_Gss = writes [put_u32 7]"
| "authentication_body (Auth_GssContinue data) = writes [put_u32 8, put_slice data]"
| "authentication_body Auth_Sspi = writes [put_u32 9]"
| "authentication_body (Auth_Sasl mechanisms) =
     writes [put_u32 10, put_all put_cstr mechanisms, put_u8 0]"
| "authentication_body (Auth_SaslContinue data) = writes [put_u32 11, put_slice data]"
| "authentication_body (Auth_SaslFinal data) = writes [put_u32 12, put_slice data]"

definition authentication_frame :: "Authentication \<Rightarrow> io_error + Frame" where
  "authentication_frame m = frame_of (byte CHR ''R'') (authentication_body m)"

definition as_byte :: "TransactionStatus \<Rightarrow> u8" where
  "as_byte status = (case status of
       Idle \<Rightarrow> byte CHR ''I'' | InTransaction \<Rightarrow> byte CHR ''T'' | FailedTransaction \<Rightarrow> byte CHR ''E'')"

text \<open>\<open>(u32::from(major) << 16) | u32::from(minor)\<close>\<close>

definition version_word :: "ProtocolVersion \<Rightarrow> u32" where
  "version_word v = push_bit 16 (ucast (major v)) OR ucast (minor v)"

definition put_option_count :: "nat \<Rightarrow> writer" where
  "put_option_count n body =
     (if n < 2 ^ 32 then put_u32 (word_of_nat n) body
      else Inl (invalid_input ''unsupported option count exceeds u32''))"

definition NegotiateProtocolVersion_to_frame :: "NegotiateProtocolVersion \<Rightarrow> io_error + Frame" where
  "NegotiateProtocolVersion_to_frame m = frame_of (byte CHR ''v'') (writes
     [put_u32 (version_word (newest m)),
      put_option_count (length (unsupported_options m)),
      put_all put_cstr (unsupported_options m)])"

definition DataRow_to_frame :: "DataRow \<Rightarrow> io_error + Frame" where
  "DataRow_to_frame m = frame_of (byte CHR ''D'') (writes [put_counted put_nullable (row_columns m)])"

definition put_diagnostic :: "DiagnosticField \<Rightarrow> writer" where
  "put_diagnostic f body =
     (if diagnostic_code f = 0 then Inl (invalid_input ''diagnostic field code cannot be zero'')
      else writes [put_u8 (diagnostic_code f), put_cstr (diagnostic_value f)] body)"

definition diagnostic_frame :: "u8 \<Rightarrow> DiagnosticResponse \<Rightarrow> io_error + Frame" where
  "diagnostic_frame tag m =
     frame_of tag (writes [put_all put_diagnostic (diagnostic_fields m), put_u8 0])"

definition copy_response_frame :: "u8 \<Rightarrow> CopyResponse \<Rightarrow> io_error + Frame" where
  "copy_response_frame tag m =
     frame_of tag (writes [put_u8 (overall_format m), put_i16_vec (column_formats m)])"

fun BackendMessage_to_frame :: "BackendMessage \<Rightarrow> io_error + Frame" where
  "BackendMessage_to_frame (B_RowDescription m) = RowDescription_to_frame m"
| "BackendMessage_to_frame (B_Authentication m) = authentication_frame m"
| "BackendMessage_to_frame B_ParseComplete = Inr (empty_message (byte CHR ''1''))"
| "BackendMessage_to_frame B_BindComplete = Inr (empty_message (byte CHR ''2''))"
| "BackendMessage_to_frame B_CloseComplete = Inr (empty_message (byte CHR ''3''))"
| "BackendMessage_to_frame (B_CommandComplete tag) = cstr_message (byte CHR ''C'') tag"
| "BackendMessage_to_frame (B_CopyData data) = Inr (frame (byte CHR ''d'') data)"
| "BackendMessage_to_frame B_CopyDone = Inr (empty_message (byte CHR ''c''))"
| "BackendMessage_to_frame (B_CopyInResponse m) = copy_response_frame (byte CHR ''G'') m"
| "BackendMessage_to_frame (B_CopyOutResponse m) = copy_response_frame (byte CHR ''H'') m"
| "BackendMessage_to_frame (B_CopyBothResponse m) = copy_response_frame (byte CHR ''W'') m"
| "BackendMessage_to_frame (B_DataRow m) = DataRow_to_frame m"
| "BackendMessage_to_frame B_EmptyQueryResponse = Inr (empty_message (byte CHR ''I''))"
| "BackendMessage_to_frame (B_ErrorResponse m) = diagnostic_frame (byte CHR ''E'') m"
| "BackendMessage_to_frame B_NoData = Inr (empty_message (byte CHR ''n''))"
| "BackendMessage_to_frame (B_ParameterStatus name value) =
     frame_of (byte CHR ''S'') (writes [put_cstr name, put_cstr value])"
| "BackendMessage_to_frame (B_NoticeResponse m) = diagnostic_frame (byte CHR ''N'') m"
| "BackendMessage_to_frame (B_NotificationResponse process_id channel payload) =
     frame_of (byte CHR ''A'') (writes [put_u32 process_id, put_cstr channel, put_cstr payload])"
| "BackendMessage_to_frame (B_BackendKeyData process_id secret_key) =
     (if \<not> (4 \<le> length secret_key \<and> length secret_key \<le> 256)
      then Inl (invalid_input ''cancellation key length is outside 4..=256'')
      else frame_of (byte CHR ''K'') (writes [put_u32 process_id, put_slice secret_key]))"
| "BackendMessage_to_frame (B_ReadyForQuery status) = Inr (frame (byte CHR ''Z'') [as_byte status])"
| "BackendMessage_to_frame (B_ParameterDescription types) =
     frame_of (byte CHR ''t'') (writes [put_counted put_u32 types])"
| "BackendMessage_to_frame B_PortalSuspended = Inr (empty_message (byte CHR ''s''))"
| "BackendMessage_to_frame (B_FunctionCallResponse data) = Inr (frame (byte CHR ''V'') data)"
| "BackendMessage_to_frame (B_NegotiateProtocolVersion m) = NegotiateProtocolVersion_to_frame m"

section \<open>Decoding\<close>

definition take_field :: "FieldDescription reader" where
  "take_field =
     rbind take_cstr (\<lambda>name.
     rbind take_u32 (\<lambda>table_oid.
     rbind take_i16 (\<lambda>column.
     rbind take_u32 (\<lambda>type_oid.
     rbind take_i16 (\<lambda>type_size.
     rbind take_i32 (\<lambda>type_modifier.
     rbind take_i16 (\<lambda>format.
     rreturn \<lparr>field_name = name, field_table_oid = table_oid, field_column = column,
              field_type_oid = type_oid, field_type_size = type_size,
              field_type_modifier = type_modifier, field_format = format\<rparr>)))))))"

definition decode_row_description :: "bytes \<Rightarrow> io_error + RowDescription" where
  "decode_row_description =
     rbind (take_counted 19 ''field count'' take_field) (\<lambda>fields. finish \<lparr>row_fields = fields\<rparr>)"

text \<open>\<open>while !body.is_empty() && body[0] != 0 { mechanisms.push(take_cstr(&mut body)?) }\<close>\<close>

function take_mechanisms :: "bytes list reader" where
  "take_mechanisms body =
     (if body \<noteq> [] \<and> hd body \<noteq> 0
      then rbind take_cstr (\<lambda>mechanism.
           rbind take_mechanisms (\<lambda>mechanisms. rreturn (mechanism # mechanisms))) body
      else Inr ([], body))"
  by pat_completeness auto
termination
  by (relation "measure length") (auto dest!: take_cstr_shorter)

definition take_salt :: "(u8 \<times> u8 \<times> u8 \<times> u8) reader" where
  "take_salt body = (case require body 4 of Inl e \<Rightarrow> Inl e
     | Inr _ \<Rightarrow> Inr ((body ! 0, body ! 1, body ! 2, body ! 3), drop 4 body))"

definition take_rest :: "bytes reader" where
  "take_rest body = Inr (split_to (length body) body)"

definition decode_authentication :: "bytes \<Rightarrow> io_error + Authentication" where
  "decode_authentication = rbind take_u32 (\<lambda>kind.
     if kind = 0 then finish Auth_Ok
     else if kind = 2 then finish Auth_KerberosV5
     else if kind = 3 then finish Auth_CleartextPassword
     else if kind = 5 then rbind take_salt (\<lambda>salt. finish (Auth_Md5Password salt))
     else if kind = 7 then finish Auth_Gss
     else if kind = 8 then rbind take_rest (\<lambda>data. finish (Auth_GssContinue data))
     else if kind = 9 then finish Auth_Sspi
     else if kind = 10 then
       rbind take_mechanisms (\<lambda>mechanisms. rbind take_u8 (\<lambda>_. finish (Auth_Sasl mechanisms)))
     else if kind = 11 then rbind take_rest (\<lambda>data. finish (Auth_SaslContinue data))
     else if kind = 12 then rbind take_rest (\<lambda>data. finish (Auth_SaslFinal data))
     else (\<lambda>_. Inl (invalid ''unknown authentication request'')))"

definition decode_parameter_status :: "bytes \<Rightarrow> io_error + BackendMessage" where
  "decode_parameter_status =
     rbind take_cstr (\<lambda>name. rbind take_cstr (\<lambda>value. finish (B_ParameterStatus name value)))"

definition decode_notification :: "bytes \<Rightarrow> io_error + BackendMessage" where
  "decode_notification =
     rbind take_u32 (\<lambda>process_id.
     rbind take_cstr (\<lambda>channel.
     rbind take_cstr (\<lambda>payload. finish (B_NotificationResponse process_id channel payload))))"

definition decode_backend_key_data :: "bytes \<Rightarrow> io_error + BackendMessage" where
  "decode_backend_key_data = rbind take_u32 (\<lambda>process_id body.
     if \<not> (4 \<le> length body \<and> length body \<le> 256)
     then Inl (invalid ''cancellation key length is outside 4..=256'')
     else Inr (B_BackendKeyData process_id body))"

definition decode_ready :: "bytes \<Rightarrow> io_error + BackendMessage" where
  "decode_ready = rbind take_u8 (\<lambda>b.
     if b = byte CHR ''I'' then finish (B_ReadyForQuery Idle)
     else if b = byte CHR ''T'' then finish (B_ReadyForQuery InTransaction)
     else if b = byte CHR ''E'' then finish (B_ReadyForQuery FailedTransaction)
     else (\<lambda>_. Inl (invalid ''unknown transaction status'')))"

text \<open>\<open>u16::try_from(newest >> 16)\<close> and \<open>u16::try_from(newest & 0xffff)\<close>, with their error arms.\<close>

definition u16_try_from :: "u32 \<Rightarrow> string \<Rightarrow> io_error + u16" where
  "u16_try_from w e = (if unat w < 2 ^ 16 then Inr (ucast w) else Inl (invalid e))"

definition decode_negotiate_protocol_version :: "bytes \<Rightarrow> io_error + BackendMessage" where
  "decode_negotiate_protocol_version = rbind take_u32 (\<lambda>nw body.
     case u16_try_from (drop_bit 16 nw) ''protocol major overflow'' of
       Inl e \<Rightarrow> Inl e
     | Inr mj \<Rightarrow>
     (case u16_try_from (nw AND 0xffff) ''protocol minor overflow'' of
        Inl e \<Rightarrow> Inl e
      | Inr mn \<Rightarrow> rbind take_u32 (\<lambda>capacity body.
          case require_collection_bytes (unat capacity) (length body) 1 ''unsupported option count'' of
            Inl e \<Rightarrow> Inl e
          | Inr _ \<Rightarrow> rbind (take_n (unat capacity) take_cstr) (\<lambda>options.
              finish (B_NegotiateProtocolVersion
                \<lparr>newest = \<lparr>major = mj, minor = mn\<rparr>, unsupported_options = options\<rparr>)) body) body))"

definition decode_data_row :: "bytes \<Rightarrow> io_error + DataRow" where
  "decode_data_row =
     rbind (take_counted 4 ''column count'' take_nullable) (\<lambda>columns. finish \<lparr>row_columns = columns\<rparr>)"

text \<open>The \<open>loop\<close> of \<open>decode_diagnostic\<close>: fields up to the zero code.\<close>

function take_diagnostics :: "DiagnosticField list reader" where
  "take_diagnostics body = rbind take_u8 (\<lambda>code body.
     if code = 0 then Inr ([], body)
     else rbind take_cstr (\<lambda>value.
          rbind take_diagnostics (\<lambda>fields.
          rreturn (\<lparr>diagnostic_code = code, diagnostic_value = value\<rparr> # fields))) body) body"
  by pat_completeness auto
termination
  by (relation "measure length") (auto simp: take_u8_iff dest!: take_cstr_shorter)

definition decode_diagnostic :: "bytes \<Rightarrow> io_error + DiagnosticResponse" where
  "decode_diagnostic = rbind take_diagnostics (\<lambda>fields. finish \<lparr>diagnostic_fields = fields\<rparr>)"

definition decode_copy_response :: "bytes \<Rightarrow> io_error + CopyResponse" where
  "decode_copy_response =
     rbind take_u8 (\<lambda>overall.
     rbind take_i16_vec (\<lambda>columns.
     finish \<lparr>overall_format = overall, column_formats = columns\<rparr>))"

definition decode_parameter_description :: "bytes \<Rightarrow> io_error + u32 list" where
  "decode_parameter_description = rbind (take_counted 4 ''parameter type count'' take_u32) finish"

definition Backend_decode :: "Frame \<Rightarrow> io_error + BackendMessage" where
  "Backend_decode f = (let tag = frame_tag f; body = frame_body f in
     if tag = byte CHR ''1'' then result_map (\<lambda>_. B_ParseComplete) (decode_empty body)
     else if tag = byte CHR ''2'' then result_map (\<lambda>_. B_BindComplete) (decode_empty body)
     else if tag = byte CHR ''3'' then result_map (\<lambda>_. B_CloseComplete) (decode_empty body)
     else if tag = byte CHR ''C'' then result_map B_CommandComplete (decode_cstr_body body)
     else if tag = byte CHR ''c'' then result_map (\<lambda>_. B_CopyDone) (decode_empty body)
     else if tag = byte CHR ''d'' then Inr (B_CopyData body)
     else if tag = byte CHR ''D'' then result_map B_DataRow (decode_data_row body)
     else if tag = byte CHR ''E'' then result_map B_ErrorResponse (decode_diagnostic body)
     else if tag = byte CHR ''G'' then result_map B_CopyInResponse (decode_copy_response body)
     else if tag = byte CHR ''H'' then result_map B_CopyOutResponse (decode_copy_response body)
     else if tag = byte CHR ''I'' then result_map (\<lambda>_. B_EmptyQueryResponse) (decode_empty body)
     else if tag = byte CHR ''n'' then result_map (\<lambda>_. B_NoData) (decode_empty body)
     else if tag = byte CHR ''s'' then result_map (\<lambda>_. B_PortalSuspended) (decode_empty body)
     else if tag = byte CHR ''t'' then
       result_map B_ParameterDescription (decode_parameter_description body)
     else if tag = byte CHR ''T'' then result_map B_RowDescription (decode_row_description body)
     else if tag = byte CHR ''V'' then Inr (B_FunctionCallResponse body)
     else if tag = byte CHR ''W'' then result_map B_CopyBothResponse (decode_copy_response body)
     else if tag = byte CHR ''R'' then result_map B_Authentication (decode_authentication body)
     else if tag = byte CHR ''S'' then decode_parameter_status body
     else if tag = byte CHR ''N'' then result_map B_NoticeResponse (decode_diagnostic body)
     else if tag = byte CHR ''A'' then decode_notification body
     else if tag = byte CHR ''K'' then decode_backend_key_data body
     else if tag = byte CHR ''Z'' then decode_ready body
     else if tag = byte CHR ''v'' then decode_negotiate_protocol_version body
     else Inl (unknown_tag ''backend'' tag))"

declare put_field_def [eval_defs] RowDescription_to_frame_def [eval_defs] put_salt_def [eval_defs]
  authentication_frame_def [eval_defs] as_byte_def [eval_defs] version_word_def [eval_defs]
  put_option_count_def [eval_defs] NegotiateProtocolVersion_to_frame_def [eval_defs] DataRow_to_frame_def [eval_defs]
  put_diagnostic_def [eval_defs] diagnostic_frame_def [eval_defs] copy_response_frame_def [eval_defs]
  take_field_def [eval_defs] decode_row_description_def [eval_defs] take_salt_def [eval_defs]
  take_rest_def [eval_defs] decode_authentication_def [eval_defs] decode_parameter_status_def [eval_defs]
  decode_notification_def [eval_defs] decode_backend_key_data_def [eval_defs] decode_ready_def [eval_defs]
  u16_try_from_def [eval_defs] decode_negotiate_protocol_version_def [eval_defs] decode_data_row_def [eval_defs]
  decode_diagnostic_def [eval_defs] decode_copy_response_def [eval_defs] decode_parameter_description_def [eval_defs]
  Backend_decode_def [eval_defs]

section \<open>Each body decoder inverts its encoder\<close>

lemma appends_put_field [simp]: "appends (put_field f)"
  by (simp add: put_field_def)

interpretation field_item: wire_item put_field take_field 19
proof unfold_locales
  fix x bs r p
  show "(take_field bs = Inr (x, r)) = (\<exists>p. put_field x [] = Inr p \<and> bs = p @ r)"
    by (cases x) (auto simp: take_field_def put_field_def reader_iff writer_simps simp del: writes.simps)
  show "19 \<le> length p" if "put_field x [] = Inr p"
    using that by (auto simp: put_field_def writer_simps simp del: writes.simps)
qed simp

lemmas counted_field_iff [reader_iff] =
  field_item.take_counted_iff [OF usize_counted, simplified]

lemma four_bytes: "4 \<le> length bs \<Longrightarrow> \<exists>a b c d r. bs = a # b # c # d # r"
  by (auto simp: Suc_le_length_iff eval_nat_numeral)

lemma take_salt_iff [reader_iff]:
  "(take_salt bs = Inr ((a, b, c, d), r)) = (bs = [a, b, c, d] @ r)"
proof (cases "4 \<le> length bs")
  case True
  then obtain a' b' c' d' r' where "bs = a' # b' # c' # d' # r'" using four_bytes by blast
  then show ?thesis by (auto simp: take_salt_def)
qed (auto simp: take_salt_def require_def)

lemma take_rest_iff [reader_iff]: "(take_rest bs = Inr (v, r)) = (v = bs \<and> r = [])"
  by (auto simp: take_rest_def split_to_def)

declare take_mechanisms.simps [simp del] take_diagnostics.simps [simp del]

lemma take_mechanisms_iff [reader_iff]:
  "(take_mechanisms bs = Inr (ms, r)) =
    ([] \<notin> set ms \<and> (r = [] \<or> hd r = 0) \<and> (\<exists>p. put_all put_cstr ms [] = Inr p \<and> bs = p @ r))"
proof (induction bs arbitrary: ms rule: take_mechanisms.induct)
  case (1 bs)
  show ?case
  proof (cases "bs \<noteq> [] \<and> hd bs \<noteq> 0")
    case False
    then have "take_mechanisms bs = Inr ([], bs)" by (simp add: take_mechanisms.simps)
    moreover have "hd (n @ 0 # q) \<noteq> 0" if "n \<noteq> []" "0 \<notin> set n" for n q :: bytes
      using that by (cases n) auto
    ultimately show ?thesis
      using False by (cases ms) (auto simp: writer_simps simp del: writes.simps)
  next
    case True
    have ne: "n \<noteq> []" if "take_cstr bs = Inr (n, q)" for n q
      using that True by (cases n) (auto simp: take_cstr_iff)
    have "(take_mechanisms bs = Inr (ms, r)) =
      (\<exists>n q ns. take_cstr bs = Inr (n, q) \<and> take_mechanisms q = Inr (ns, r) \<and> ms = n # ns)"
      using True by (auto simp: take_mechanisms.simps [of bs])
    also have "\<dots> = (\<exists>n q ns. take_cstr bs = Inr (n, q) \<and> n \<noteq> [] \<and> ms = n # ns \<and>
        [] \<notin> set ns \<and> (r = [] \<or> hd r = 0) \<and> (\<exists>p. put_all put_cstr ns [] = Inr p \<and> q = p @ r))"
      using ne by (simp add: 1 [OF True] cong: conj_cong) blast
    also have "\<dots> = ([] \<notin> set ms \<and> (r = [] \<or> hd r = 0) \<and> (\<exists>p. put_all put_cstr ms [] = Inr p \<and> bs = p @ r))"
      using True by (cases ms) (auto simp: take_cstr_iff writer_simps simp del: writes.simps)
    finally show ?thesis .
  qed
qed

lemma put_diagnostic_iff [writer_simps]:
  "(put_diagnostic f [] = Inr p) = (diagnostic_code f \<noteq> 0 \<and> 0 \<notin> set (diagnostic_value f) \<and>
    p = diagnostic_code f # diagnostic_value f @ [0])"
  by (auto simp: put_diagnostic_def writer_simps simp del: writes.simps)

lemma appends_put_diagnostic [simp]: "appends (put_diagnostic f)"
  by (rule appendsI) (auto simp: put_diagnostic_def put_u8_def put_cstr_def cstr_writer_def)

lemma take_diagnostics_iff [reader_iff]:
  "(take_diagnostics bs = Inr (fs, r)) = (\<exists>p. put_all put_diagnostic fs [] = Inr p \<and> bs = p @ 0 # r)"
proof (induction bs arbitrary: fs rule: take_diagnostics.induct)
  case (1 bs)
  show ?case
  proof (cases "bs = [] \<or> hd bs = 0")
    case True
    then have "take_diagnostics bs = (if bs = [] then Inl (invalid ''truncated message body'') else Inr ([], tl bs))"
      by (subst take_diagnostics.simps, cases bs) (auto simp: rbind_def take_u8_def require_def)
    with True show ?thesis
      by (cases fs; cases bs) (auto simp: writer_simps simp del: writes.simps)
  next
    case False
    then obtain c q where bs: "bs = c # q" "c \<noteq> 0" by (cases bs) auto
    then have u8: "take_u8 bs = Inr (c, q)" by (simp add: take_u8_iff)
    have "(take_diagnostics bs = Inr (fs, r)) = (\<exists>v q' gs. take_cstr q = Inr (v, q') \<and>
        take_diagnostics q' = Inr (gs, r) \<and> fs = \<lparr>diagnostic_code = c, diagnostic_value = v\<rparr> # gs)"
      using bs(2) by (auto simp: take_diagnostics.simps [of bs] u8)
    also have "\<dots> = (\<exists>v q' gs. take_cstr q = Inr (v, q') \<and>
        (\<exists>p. put_all put_diagnostic gs [] = Inr p \<and> q' = p @ 0 # r) \<and>
        fs = \<lparr>diagnostic_code = c, diagnostic_value = v\<rparr> # gs)"
      by (simp add: 1 [OF u8 bs(2)] cong: conj_cong)
    also have "\<dots> = (\<exists>p. put_all put_diagnostic fs [] = Inr p \<and> bs = p @ 0 # r)"
      using bs by (cases fs) (auto simp: take_cstr_iff writer_simps simp del: writes.simps)
    finally show ?thesis .
  qed
qed

text \<open>The protocol version survives the packing into one word; the error arms are dead.\<close>

lemma low_half: "w AND 0xffff = take_bit 16 (w :: u32)"
  by (simp add: take_bit_eq_mask mask_eq_exp_minus_1)

lemma low_half_small: "unat (w AND 0xffff :: u32) < 2 ^ 16"
  unfolding low_half unsigned_take_bit_eq by (rule take_bit_nat_less_exp)

lemma high_half_small: "unat (drop_bit 16 (w :: u32)) < 2 ^ 16"
proof -
  have "unat w < 2 ^ 32" using unat_lt [of w] by simp
  then have "unat w div 2 ^ 16 < 2 ^ 16" by (simp add: less_mult_imp_div_less)
  then show ?thesis by (simp add: drop_bit_eq_div unat_div)
qed

lemma version_word_halves:
  "ucast (drop_bit 16 (version_word v)) = major v" "ucast (version_word v AND 0xffff) = minor v"
  unfolding version_word_def low_half
  by (rule bit_word_eqI, auto simp: bit_simps dest: bit_imp_le_length)+

lemma version_word_of_halves:
  "version_word \<lparr>major = ucast (drop_bit 16 w), minor = ucast (w AND 0xffff)\<rparr> = w"
  unfolding version_word_def low_half
  by (rule bit_word_eqI) (auto simp: bit_simps dest: bit_imp_le_length)

lemma u16_try_from_halves [simp]:
  "u16_try_from (drop_bit 16 w) e = Inr (ucast (drop_bit 16 w))"
  "u16_try_from (w AND 0xffff) e = Inr (ucast (w AND 0xffff))"
  using low_half_small [of w] high_half_small [of w] by (simp_all add: u16_try_from_def)

lemma version_word_eq_iff:
  "(version_word v = w) = (v = \<lparr>major = ucast (drop_bit 16 w), minor = ucast (w AND 0xffff)\<rparr>)"
  using version_word_halves [of v] version_word_of_halves [of w] by (cases v) auto

lemmas backend_codec_defs =
  RowDescription_to_frame_def authentication_frame_def NegotiateProtocolVersion_to_frame_def
  DataRow_to_frame_def diagnostic_frame_def copy_response_frame_def cstr_message_def
  decode_row_description_def decode_data_row_def decode_diagnostic_def decode_copy_response_def
  decode_parameter_description_def decode_parameter_status_def decode_notification_def
  decode_backend_key_data_def decode_ready_def

lemma decode_row_description_iff:
  "(decode_row_description body = Inr m) = (RowDescription_to_frame m = Inr (frame (byte CHR ''T'') body))"
  by (cases m) (auto simp: backend_codec_defs reader_iff writer_simps simp del: writes.simps)

lemma decode_data_row_iff:
  "(decode_data_row body = Inr m) = (DataRow_to_frame m = Inr (frame (byte CHR ''D'') body))"
  by (cases m) (auto simp: backend_codec_defs reader_iff writer_simps simp del: writes.simps)

lemma decode_diagnostic_iff:
  "(decode_diagnostic body = Inr m) = (diagnostic_frame tag m = Inr (frame tag body))"
  by (cases m) (auto simp: backend_codec_defs reader_iff writer_simps simp del: writes.simps)

lemma decode_copy_response_iff:
  "(decode_copy_response body = Inr m) = (copy_response_frame tag m = Inr (frame tag body))"
  by (cases m) (auto simp: backend_codec_defs reader_iff writer_simps simp del: writes.simps)

text \<open>The SASL offer is the one message whose encoder accepts more than the decoder reads back.\<close>

fun sasl_names_nonempty :: "BackendMessage \<Rightarrow> bool" where
  "sasl_names_nonempty (B_Authentication (Auth_Sasl mechanisms)) = ([] \<notin> set mechanisms)"
| "sasl_names_nonempty _ = True"

lemma appends_put_salt [simp]: "appends (put_salt salt)"
  by (cases salt) (simp add: put_salt_def)

lemma put_salt_iff [writer_simps]: "(put_salt (a, b, c, d) [] = Inr p) = (p = [a, b, c, d])"
  by (simp add: put_salt_def writer_simps)

lemma decode_authentication_prefix:
  assumes "decode_authentication body = Inr m"
  obtains kind rest where "body = be32 kind @ rest"
proof -
  from assms obtain kind rest where "take_u32 body = Inr (kind, rest)"
    unfolding decode_authentication_def rbind_Inr_iff by blast
  then show thesis by (intro that) (simp add: take_u32_iff)
qed

lemma decode_authentication_step:
  "decode_authentication (be32 kind @ rest) =
    (if kind = 0 then finish Auth_Ok rest
     else if kind = 2 then finish Auth_KerberosV5 rest
     else if kind = 3 then finish Auth_CleartextPassword rest
     else if kind = 5 then rbind take_salt (\<lambda>salt. finish (Auth_Md5Password salt)) rest
     else if kind = 7 then finish Auth_Gss rest
     else if kind = 8 then rbind take_rest (\<lambda>data. finish (Auth_GssContinue data)) rest
     else if kind = 9 then finish Auth_Sspi rest
     else if kind = 10 then
       rbind take_mechanisms (\<lambda>mechanisms. rbind take_u8 (\<lambda>_. finish (Auth_Sasl mechanisms))) rest
     else if kind = 11 then rbind take_rest (\<lambda>data. finish (Auth_SaslContinue data)) rest
     else if kind = 12 then rbind take_rest (\<lambda>data. finish (Auth_SaslFinal data)) rest
     else Inl (invalid ''unknown authentication request''))"
proof -
  have "take_u32 (be32 kind @ rest) = Inr (kind, rest)" by (simp add: take_u32_iff)
  then show ?thesis by (simp add: decode_authentication_def rbind_def)
qed

fun authentication_kind :: "Authentication \<Rightarrow> u32" where
  "authentication_kind Auth_Ok = 0"
| "authentication_kind Auth_KerberosV5 = 2"
| "authentication_kind Auth_CleartextPassword = 3"
| "authentication_kind (Auth_Md5Password _) = 5"
| "authentication_kind Auth_Gss = 7"
| "authentication_kind (Auth_GssContinue _) = 8"
| "authentication_kind Auth_Sspi = 9"
| "authentication_kind (Auth_Sasl _) = 10"
| "authentication_kind (Auth_SaslContinue _) = 11"
| "authentication_kind (Auth_SaslFinal _) = 12"

lemma decode_authentication_kind:
  "decode_authentication (be32 kind @ rest) = Inr m \<Longrightarrow> kind = authentication_kind m"
  by (auto simp: decode_authentication_step split: if_splits)

lemma authentication_body_kind:
  "authentication_body m [] = Inr p \<Longrightarrow> \<exists>rest. p = be32 (authentication_kind m) @ rest"
  by (cases m) (auto simp: writer_simps simp del: writes.simps)

lemma decode_authentication_iff:
  "(decode_authentication body = Inr m) =
    (sasl_names_nonempty (B_Authentication m) \<and> authentication_frame m = Inr (frame (byte CHR ''R'') body))"
proof (cases "\<exists>rest. body = be32 (authentication_kind m) @ rest")
  case True
  then obtain rest where body: "body = be32 (authentication_kind m) @ rest" by blast
  show ?thesis
    by (cases m) (auto simp: body authentication_frame_def decode_authentication_step reader_iff writer_simps
        simp del: writes.simps)
next
  case False
  then show ?thesis
    using decode_authentication_prefix [of body m] decode_authentication_kind authentication_body_kind [of m body]
    by (metis authentication_frame_def frame_of_Inr_iff Frame.select_convs(2))
qed

lemma put_option_count_iff [writer_simps]:
  "(put_option_count n [] = Inr p) = (n < 2 ^ 32 \<and> p = be32 (word_of_nat n))"
  by (simp add: put_option_count_def writer_simps)

lemma appends_put_option_count [simp]: "appends (put_option_count n)"
  by (rule appendsI) (simp add: put_option_count_def put_u32_def)

lemma options_fit:
  assumes "put_all put_cstr xs [] = Inr p" "length xs < 2 ^ 32"
  shows "require_collection_bytes (length xs) (length p) 1 d = Inr ()"
  using assms by (intro cstr_item.require_collection_ok [of xs p]) (simp_all add: usize_max_def)

lemma decode_negotiate_iff:
  "(decode_negotiate_protocol_version body = Inr m) =
    (\<exists>n. m = B_NegotiateProtocolVersion n \<and>
      NegotiateProtocolVersion_to_frame n = Inr (frame (byte CHR ''v'') body))"
proof
  assume "decode_negotiate_protocol_version body = Inr m"
  then obtain w k xs rest where "body = be32 w @ be32 k @ rest"
    "take_n (unat k) take_cstr rest = Inr (xs, [])"
    "m = B_NegotiateProtocolVersion
      \<lparr>newest = \<lparr>major = ucast (drop_bit 16 w), minor = ucast (w AND 0xffff)\<rparr>, unsupported_options = xs\<rparr>"
    by (auto simp: decode_negotiate_protocol_version_def reader_iff)
  then show "\<exists>n. m = B_NegotiateProtocolVersion n \<and>
      NegotiateProtocolVersion_to_frame n = Inr (frame (byte CHR ''v'') body)"
    using unat_lt [of k] version_word_of_halves [of w]
    by (auto simp: NegotiateProtocolVersion_to_frame_def cstr_item.take_n_iff writer_simps
        simp del: writes.simps)
next
  assume "\<exists>n. m = B_NegotiateProtocolVersion n \<and>
      NegotiateProtocolVersion_to_frame n = Inr (frame (byte CHR ''v'') body)"
  then obtain n q where m: "m = B_NegotiateProtocolVersion n"
    and len: "length (unsupported_options n) < 2 ^ 32"
    and q: "put_all put_cstr (unsupported_options n) [] = Inr q"
    and body: "body = be32 (version_word (newest n)) @ be32 (word_of_nat (length (unsupported_options n))) @ q"
    by (auto simp: NegotiateProtocolVersion_to_frame_def writer_simps simp del: writes.simps)
  let ?k = "word_of_nat (length (unsupported_options n)) :: u32"
  have k: "unat ?k = length (unsupported_options n)" using len by (rule unat_of_nat_u32)
  have "take_u32 body = Inr (version_word (newest n), be32 ?k @ q)" "take_u32 (be32 ?k @ q) = Inr (?k, q)"
    by (simp_all add: body take_u32_iff)
  moreover have "take_n (unat ?k) take_cstr q = Inr (unsupported_options n, [])"
    unfolding k using q by (simp add: cstr_item.take_n_iff)
  ultimately show "decode_negotiate_protocol_version body = Inr m"
    using options_fit [OF q len] version_word_halves [of "newest n"]
    by (simp add: decode_negotiate_protocol_version_def rbind_def k m)
qed

section \<open>The backend direction\<close>

fun backend_tag :: "BackendMessage \<Rightarrow> u8" where
  "backend_tag (B_RowDescription _) = byte CHR ''T''"
| "backend_tag (B_Authentication _) = byte CHR ''R''"
| "backend_tag B_ParseComplete = byte CHR ''1''"
| "backend_tag B_BindComplete = byte CHR ''2''"
| "backend_tag B_CloseComplete = byte CHR ''3''"
| "backend_tag (B_CommandComplete _) = byte CHR ''C''"
| "backend_tag (B_CopyData _) = byte CHR ''d''"
| "backend_tag B_CopyDone = byte CHR ''c''"
| "backend_tag (B_CopyInResponse _) = byte CHR ''G''"
| "backend_tag (B_CopyOutResponse _) = byte CHR ''H''"
| "backend_tag (B_CopyBothResponse _) = byte CHR ''W''"
| "backend_tag (B_DataRow _) = byte CHR ''D''"
| "backend_tag B_EmptyQueryResponse = byte CHR ''I''"
| "backend_tag (B_ErrorResponse _) = byte CHR ''E''"
| "backend_tag B_NoData = byte CHR ''n''"
| "backend_tag (B_ParameterStatus _ _) = byte CHR ''S''"
| "backend_tag (B_NoticeResponse _) = byte CHR ''N''"
| "backend_tag (B_NotificationResponse _ _ _) = byte CHR ''A''"
| "backend_tag (B_BackendKeyData _ _) = byte CHR ''K''"
| "backend_tag (B_ReadyForQuery _) = byte CHR ''Z''"
| "backend_tag (B_ParameterDescription _) = byte CHR ''t''"
| "backend_tag B_PortalSuspended = byte CHR ''s''"
| "backend_tag (B_FunctionCallResponse _) = byte CHR ''V''"
| "backend_tag (B_NegotiateProtocolVersion _) = byte CHR ''v''"

lemma BackendMessage_to_frame_tag: "BackendMessage_to_frame m = Inr f \<Longrightarrow> frame_tag f = backend_tag m"
  by (cases m) (auto simp: backend_codec_defs empty_message_def split: if_splits)

lemma decode_ready_iff:
  "(decode_ready body = Inr m) = (\<exists>status. m = B_ReadyForQuery status \<and> body = [as_byte status])"
proof
  assume "decode_ready body = Inr m"
  then show "\<exists>status. m = B_ReadyForQuery status \<and> body = [as_byte status]"
    by (cases body) (auto simp: decode_ready_def rbind_def take_u8_def as_byte_def split: if_splits
        intro: exI [of _ Idle] exI [of _ InTransaction] exI [of _ FailedTransaction])
next
  assume "\<exists>status. m = B_ReadyForQuery status \<and> body = [as_byte status]"
  then obtain status where "m = B_ReadyForQuery status" "body = [as_byte status]" by blast
  then show "decode_ready body = Inr m"
    by (cases status) (auto simp: decode_ready_def rbind_def take_u8_def as_byte_def finish_def require_empty_def)
qed

lemma decode_key_data_iff:
  "(decode_backend_key_data body = Inr m) =
    (\<exists>pid key. m = B_BackendKeyData pid key \<and> 4 \<le> length key \<and> length key \<le> 256 \<and> body = be32 pid @ key)"
  by (auto simp: decode_backend_key_data_def take_u32_iff split: if_splits)

lemma Backend_decode_tag: "Backend_decode f = Inr m \<Longrightarrow> frame_tag f = backend_tag m"
  by (auto simp: Backend_decode_def Let_def decode_ready_iff decode_key_data_iff decode_negotiate_iff
      decode_parameter_status_def decode_notification_def split: if_splits)

lemma Backend_decode_iff:
  "(Backend_decode f = Inr m) = (sasl_names_nonempty m \<and> BackendMessage_to_frame m = Inr f)"
proof (cases "frame_tag f = backend_tag m")
  case True
  obtain tag body where f: "f = frame tag body" by (cases f) auto
  note iffs = decode_empty_iff decode_cstr_body_iff cstr_message_iff decode_row_description_iff
    decode_data_row_iff decode_authentication_iff decode_negotiate_iff decode_ready_iff decode_key_data_iff
    decode_diagnostic_iff [of _ _ "backend_tag m"] decode_copy_response_iff [of _ _ "backend_tag m"]
  show ?thesis
    using True unfolding f
    by (cases m) (auto simp: Backend_decode_def empty_message_def iffs decode_parameter_description_def
        decode_parameter_status_def decode_notification_def reader_iff writer_simps simp del: writes.simps)
next
  case False
  then show ?thesis using BackendMessage_to_frame_tag [of m f] Backend_decode_tag [of f m] by auto
qed

section \<open>Properties\<close>

text \<open>
  C39. The backend codec is exact on every message except a SASL offer with an empty mechanism name: a
  frame decodes to a message precisely when the message encodes to the frame and offers no empty name.
\<close>

theorem backend_codec_exact:
  "(Backend_decode f = Inr m) = (sasl_names_nonempty m \<and> BackendMessage_to_frame m = Inr f)"
  by (rule Backend_decode_iff)

text \<open>
  A SASL offer with an empty mechanism name encodes, but the frame it encodes to does not decode:
  the empty name is read as the terminator of the list and the rest as trailing bytes.
\<close>

theorem sasl_empty_mechanism_lost:
  "BackendMessage_to_frame (B_Authentication (Auth_Sasl [[]])) =
     Inr (frame (byte CHR ''R'') [0, 0, 0, 10, 0, 0]) \<and>
   Backend_decode (frame (byte CHR ''R'') [0, 0, 0, 10, 0, 0]) =
     Inl (invalid ''trailing message bytes'')"
  by (simp add: eval_defs take_mechanisms.simps)

end
