(* ===== verification/Pre_Startup.thy ===== *)
theory Pre_Startup
  imports Startup
begin

text \<open>
  \<open>src/pre_startup.rs\<close>: the untagged packets before normal framing, their incremental decoder with its
  size limit, the one-byte encryption reply, the libpq SSL modes, and the typed pre-startup operations.
  A typed connection is its transport together with the phase its type names; each operation is
  defined on the phases its \<open>impl\<close> block is for.
\<close>

section \<open>Packets\<close>

definition SSL_REQUEST_CODE :: u32 where "SSL_REQUEST_CODE = 80877103"
definition GSSENC_REQUEST_CODE :: u32 where "GSSENC_REQUEST_CODE = 80877104"
definition CANCEL_REQUEST_CODE :: u32 where "CANCEL_REQUEST_CODE = 80877102"

definition DEFAULT_MAX_PRE_STARTUP_PACKET_LEN :: nat where
  "DEFAULT_MAX_PRE_STARTUP_PACKET_LEN = 10000"

datatype EncryptionReply = Accepted | Rejected | LegacyError

definition reply_byte :: "EncryptionReply \<Rightarrow> u8" where
  "reply_byte r = (case r of
     Accepted \<Rightarrow> byte CHR ''S'' | Rejected \<Rightarrow> byte CHR ''N'' | LegacyError \<Rightarrow> byte CHR ''E'')"

text \<open>\<open>TryFrom<u8>\<close>; the error \<open>InvalidEncryptionReply\<close> carries the byte.\<close>

definition reply_try_from :: "u8 \<Rightarrow> u8 + EncryptionReply" where
  "reply_try_from b =
     (if b = byte CHR ''S'' then Inr Accepted
      else if b = byte CHR ''N'' then Inr Rejected
      else if b = byte CHR ''E'' then Inr LegacyError
      else Inl b)"

datatype (discs_sels) PreStartupMessage =
    P_SslRequest
  | P_GssEncRequest
  | P_CancelRequest u32 bytes
  | P_Startup StartupMessage

definition request_packet :: "u32 \<Rightarrow> bytes" where
  "request_packet code = be32 8 @ be32 code"

definition ssl_request_packet :: bytes where
  "ssl_request_packet = request_packet SSL_REQUEST_CODE"

definition gssenc_request_packet :: bytes where
  "gssenc_request_packet = request_packet GSSENC_REQUEST_CODE"

definition cancel_packet :: "u32 \<Rightarrow> bytes \<Rightarrow> io_error + bytes" where
  "cancel_packet process_id secret_key =
     (if \<not> (4 \<le> length secret_key \<and> length secret_key \<le> 256)
      then Inl (invalid_input ''cancellation key length is outside 4..=256'')
      else Inr (be32 (12 + word_of_nat (length secret_key)) @ be32 CANCEL_REQUEST_CODE @
                be32 process_id @ secret_key))"

fun to_packet :: "PreStartupMessage \<Rightarrow> io_error + bytes" where
  "to_packet P_SslRequest = Inr (request_packet SSL_REQUEST_CODE)"
| "to_packet P_GssEncRequest = Inr (request_packet GSSENC_REQUEST_CODE)"
| "to_packet (P_CancelRequest process_id secret_key) = cancel_packet process_id secret_key"
| "to_packet (P_Startup message) = StartupMessage_encode message"

definition decode_packet :: "bytes \<Rightarrow> io_error + PreStartupMessage option" where
  "decode_packet packet =
     (let code = of_be32 (take 4 (drop 4 packet)) in
      if code = SSL_REQUEST_CODE \<and> length packet = 8 then Inr (Some P_SslRequest)
      else if code = GSSENC_REQUEST_CODE \<and> length packet = 8 then Inr (Some P_GssEncRequest)
      else if code = CANCEL_REQUEST_CODE then
        if \<not> (16 \<le> length packet \<and> length packet \<le> 268)
        then Inl (invalid ''invalid CancelRequest length'')
        else Inr (Some (P_CancelRequest (of_be32 (take 4 (drop 8 packet))) (drop 12 packet)))
      else result_map (Some \<circ> P_Startup) (StartupMessage_decode packet))"

definition decode_pre_startup_with_limit ::
  "bytes \<Rightarrow> nat \<Rightarrow> (io_error + PreStartupMessage option) \<times> bytes" where
  "decode_pre_startup_with_limit input max_packet_len =
     (if \<not> (8 \<le> max_packet_len \<and> max_packet_len \<le> i32_max)
      then (Inl (invalid ''pre-startup packet limit must be between 8 and i32::MAX bytes''), input)
      else if length input < 4 then (Inr None, input)
      else
        let len = unat (of_be32 (take 4 input)) in
        if len < 8 then (Inl (invalid ''pre-startup packet is shorter than 8 bytes''), input)
        else if len > i32_max then (Inl (invalid ''pre-startup packet length exceeds i32::MAX''), input)
        else if len > max_packet_len
        then (Inl (invalid ''pre-startup packet exceeds configured limit''), input)
        else if length input < len then (Inr None, input)
        else (let (packet, input) = split_to len input in (decode_packet packet, input)))"

definition decode_pre_startup :: "bytes \<Rightarrow> (io_error + PreStartupMessage option) \<times> bytes" where
  "decode_pre_startup input = decode_pre_startup_with_limit input DEFAULT_MAX_PRE_STARTUP_PACKET_LEN"

section \<open>SSL modes\<close>

datatype SslMode = Disable | Allow | Prefer | Require | VerifyCa | VerifyFull

datatype CertificateVerification = NoVerification | CertificateAuthority | CertificateAuthorityAndHost

record SslStrategy =
  request_on_first_connection :: bool
  retry_with_ssl_after_plaintext_failure :: bool
  allow_server_rejection :: bool
  verification :: CertificateVerification

fun strategy :: "SslMode \<Rightarrow> SslStrategy" where
  "strategy Disable = \<lparr>request_on_first_connection = False, retry_with_ssl_after_plaintext_failure = False,
     allow_server_rejection = True, verification = NoVerification\<rparr>"
| "strategy Allow = \<lparr>request_on_first_connection = False, retry_with_ssl_after_plaintext_failure = True,
     allow_server_rejection = True, verification = NoVerification\<rparr>"
| "strategy Prefer = \<lparr>request_on_first_connection = True, retry_with_ssl_after_plaintext_failure = False,
     allow_server_rejection = True, verification = NoVerification\<rparr>"
| "strategy Require = \<lparr>request_on_first_connection = True, retry_with_ssl_after_plaintext_failure = False,
     allow_server_rejection = False, verification = NoVerification\<rparr>"
| "strategy VerifyCa = \<lparr>request_on_first_connection = True, retry_with_ssl_after_plaintext_failure = False,
     allow_server_rejection = False, verification = CertificateAuthority\<rparr>"
| "strategy VerifyFull = \<lparr>request_on_first_connection = True, retry_with_ssl_after_plaintext_failure = False,
     allow_server_rejection = False, verification = CertificateAuthorityAndHost\<rparr>"

section \<open>Typed pre-startup connections\<close>

datatype pre_phase =
    PreStartup | StartupPhase | AwaitingSslReply | AwaitingGssReply | TlsHandshake | GssHandshake
  | TerminatedPhase | ServerSslDecision | ServerGssDecision

record 's Conn =
  conn_transport :: 's
  conn_phase :: pre_phase

text \<open>\<open>self.transition()\<close>: the transport is kept, the phase is the one of the result type.\<close>

definition to_phase :: "'s Conn \<Rightarrow> pre_phase \<Rightarrow> 's Conn" where
  "to_phase c phase = \<lparr>conn_transport = conn_transport c, conn_phase = phase\<rparr>"

definition Conn_new :: "'s \<Rightarrow> 's Conn" where
  "Conn_new transport = \<lparr>conn_transport = transport, conn_phase = PreStartup\<rparr>"

definition ssl_request :: "'s Conn \<Rightarrow> 's Conn \<times> bytes" where
  "ssl_request c = (to_phase c AwaitingSslReply, ssl_request_packet)"

definition gssenc_request :: "'s Conn \<Rightarrow> 's Conn \<times> bytes" where
  "gssenc_request c = (to_phase c AwaitingGssReply, gssenc_request_packet)"

definition startup :: "'s Conn \<Rightarrow> StartupMessage \<Rightarrow> io_error + 's Conn \<times> bytes" where
  "startup c message = result_map (\<lambda>packet. (to_phase c StartupPhase, packet)) (StartupMessage_encode message)"

definition cancel_request :: "'s Conn \<Rightarrow> u32 \<Rightarrow> bytes \<Rightarrow> io_error + 's Conn \<times> bytes" where
  "cancel_request c process_id secret_key =
     (if \<not> (4 \<le> length secret_key \<and> length secret_key \<le> 256)
      then Inl (invalid_input ''cancellation key length is outside 4..=256'')
      else result_map (\<lambda>packet. (to_phase c TerminatedPhase, packet)) (cancel_packet process_id secret_key))"

datatype 's PreStartupOffer =
    Offer_Ssl "'s Conn"
  | Offer_Gss "'s Conn"
  | Offer_Cancel "'s Conn" u32 bytes
  | Offer_Startup "'s Conn" StartupMessage

fun offer_pre_startup :: "'s Conn \<Rightarrow> PreStartupMessage \<Rightarrow> 's PreStartupOffer" where
  "offer_pre_startup c P_SslRequest = Offer_Ssl (to_phase c ServerSslDecision)"
| "offer_pre_startup c P_GssEncRequest = Offer_Gss (to_phase c ServerGssDecision)"
| "offer_pre_startup c (P_CancelRequest process_id secret_key) =
     Offer_Cancel (to_phase c TerminatedPhase) process_id secret_key"
| "offer_pre_startup c (P_Startup message) = Offer_Startup (to_phase c StartupPhase) message"

definition reject_ssl :: "'s Conn \<Rightarrow> 's Conn \<times> u8" where
  "reject_ssl c = (to_phase c PreStartup, reply_byte Rejected)"

definition accept_ssl :: "'s Conn \<Rightarrow> 's Conn \<times> u8" where
  "accept_ssl c = (to_phase c TlsHandshake, reply_byte Accepted)"

definition legacy_ssl_error :: "'s Conn \<Rightarrow> 's Conn \<times> u8" where
  "legacy_ssl_error c = (to_phase c TerminatedPhase, reply_byte LegacyError)"

definition reject_gss :: "'s Conn \<Rightarrow> 's Conn \<times> u8" where
  "reject_gss c = (to_phase c PreStartup, reply_byte Rejected)"

definition accept_gss :: "'s Conn \<Rightarrow> 's Conn \<times> u8" where
  "accept_gss c = (to_phase c GssHandshake, reply_byte Accepted)"

definition legacy_gss_error :: "'s Conn \<Rightarrow> 's Conn \<times> u8" where
  "legacy_gss_error c = (to_phase c TerminatedPhase, reply_byte LegacyError)"

datatype 's Negotiation =
    Negotiation_Accepted "'s Conn" | Negotiation_Rejected "'s Conn" | Negotiation_LegacyError "'s Conn"

fun receive_ssl_reply :: "'s Conn \<Rightarrow> EncryptionReply \<Rightarrow> 's Negotiation" where
  "receive_ssl_reply c Accepted = Negotiation_Accepted (to_phase c TlsHandshake)"
| "receive_ssl_reply c Rejected = Negotiation_Rejected (to_phase c PreStartup)"
| "receive_ssl_reply c LegacyError = Negotiation_LegacyError (to_phase c TerminatedPhase)"

fun receive_gss_reply :: "'s Conn \<Rightarrow> EncryptionReply \<Rightarrow> 's Negotiation" where
  "receive_gss_reply c Accepted = Negotiation_Accepted (to_phase c GssHandshake)"
| "receive_gss_reply c Rejected = Negotiation_Rejected (to_phase c PreStartup)"
| "receive_gss_reply c LegacyError = Negotiation_LegacyError (to_phase c TerminatedPhase)"

datatype 's SslModeNegotiation =
    Ssl_Accepted "'s Conn"
  | Ssl_Plaintext "'s Conn"
  | Ssl_RequiredRejected "'s Conn" SslMode
  | Ssl_LegacyError "'s Conn"

definition apply_ssl_reply :: "'s Conn \<Rightarrow> EncryptionReply \<Rightarrow> SslMode \<Rightarrow> 's SslModeNegotiation" where
  "apply_ssl_reply c reply mode = (case reply of
       Accepted \<Rightarrow> Ssl_Accepted (to_phase c TlsHandshake)
     | Rejected \<Rightarrow>
         if allow_server_rejection (strategy mode) then Ssl_Plaintext (to_phase c PreStartup)
         else Ssl_RequiredRejected (to_phase c TerminatedPhase) mode
     | LegacyError \<Rightarrow> Ssl_LegacyError (to_phase c TerminatedPhase))"

definition finish_tls :: "('s \<Rightarrow> 't) \<Rightarrow> 's Conn \<Rightarrow> 't Conn" where
  "finish_tls upgrade c = \<lparr>conn_transport = upgrade (conn_transport c), conn_phase = PreStartup\<rparr>"

definition finish_gss :: "('s \<Rightarrow> 't) \<Rightarrow> 's Conn \<Rightarrow> 't Conn" where
  "finish_gss upgrade c = Conn_new (upgrade (conn_transport c))"

section \<open>Packets round-trip\<close>

lemma reply_try_from_iff: "(reply_try_from b = Inr r) = (b = reply_byte r)"
  by (cases r) (auto simp: reply_try_from_def reply_byte_def)

text \<open>A message that the decoder can give back: no empty parameter name, not the cancel code as version.\<close>

definition version_code :: "ProtocolVersion \<Rightarrow> u32" where
  "version_code v = of_be32 (be16 (major v) @ be16 (minor v))"

fun pre_startup_wf :: "PreStartupMessage \<Rightarrow> bool" where
  "pre_startup_wf (P_Startup m) = (startup_wf m \<and> version_code (startup_version m) \<noteq> CANCEL_REQUEST_CODE)"
| "pre_startup_wf _ = True"

text \<open>Every packet starts with its own length.\<close>

lemma to_packet_length:
  assumes "to_packet m = Inr packet"
  shows "8 \<le> length packet" "length packet \<le> i32_max" "take 4 packet = be32 (word_of_nat (length packet))"
proof -
  have "8 \<le> length packet \<and> length packet \<le> i32_max \<and> take 4 packet = be32 (word_of_nat (length packet))"
    using assms
    by (cases m) (auto simp: request_packet_def cancel_packet_def StartupMessage_encode_iff startup_packet_def
        i32_max_def add.commute split: if_splits)
  then show "8 \<le> length packet" "length packet \<le> i32_max" "take 4 packet = be32 (word_of_nat (length packet))"
    by auto
qed

lemma decode_packet_to_packet:
  assumes "to_packet m = Inr packet" "pre_startup_wf m"
  shows "decode_packet packet = Inr (Some m)"
proof (cases m)
  case (P_CancelRequest pid key)
  with assms(1) show ?thesis
    by (auto simp: cancel_packet_def decode_packet_def SSL_REQUEST_CODE_def GSSENC_REQUEST_CODE_def
        CANCEL_REQUEST_CODE_def split: if_splits)
next
  case (P_Startup s)
  then obtain q where enc: "StartupMessage_encode s = Inr packet" and p: "packet = startup_packet (startup_version s) q"
    and len: "9 \<le> length packet"
    using assms(1) by (auto simp: StartupMessage_encode_iff)
  have "take 4 (drop 4 packet) = be16 (major (startup_version s)) @ be16 (minor (startup_version s))"
    by (simp add: p startup_packet_def)
  then have "of_be32 (take 4 (drop 4 packet)) = version_code (startup_version s)"
    by (simp add: version_code_def)
  moreover have "StartupMessage_decode packet = Inr s"
    using assms(2) P_Startup enc by (simp add: StartupMessage_decode_encode)
  ultimately show ?thesis
    using assms(2) P_Startup len by (simp add: decode_packet_def)
qed (use assms(1) in \<open>auto simp: request_packet_def decode_packet_def SSL_REQUEST_CODE_def
    GSSENC_REQUEST_CODE_def CANCEL_REQUEST_CODE_def\<close>)

lemma decode_pre_startup_packet:
  assumes "to_packet m = Inr packet" "8 \<le> limit" "limit \<le> i32_max" "length packet \<le> limit"
  shows "decode_pre_startup_with_limit (packet @ rest) limit = (decode_packet packet, rest)"
proof -
  note len = to_packet_length [OF assms(1)]
  have "take 4 (packet @ rest) = be32 (word_of_nat (length packet))" using len by simp
  moreover have "unat (word_of_nat (length packet) :: u32) = length packet"
    using len by (intro unat_of_nat_u32) (simp add: i32_max_def)
  ultimately show ?thesis
    using len assms(2-4) by (simp add: decode_pre_startup_with_limit_def)
qed

text \<open>Like framing, a pre-startup decision is final and a partial packet is left alone.\<close>

lemma decode_pre_startup_partial:
  assumes "to_packet m = Inr (part @ ext)" "ext \<noteq> []" "8 \<le> limit" "limit \<le> i32_max"
    "length (part @ ext) \<le> limit"
  shows "decode_pre_startup_with_limit part limit = (Inr None, part)"
proof (cases "length part < 4")
  case True
  with assms(3,4) show ?thesis by (simp add: decode_pre_startup_with_limit_def)
next
  case False
  note len = to_packet_length [OF assms(1)]
  have "take 4 part = be32 (word_of_nat (length (part @ ext)))" using len(3) False by simp
  moreover have "unat (word_of_nat (length (part @ ext)) :: u32) = length (part @ ext)"
    using len(2) by (intro unat_of_nat_u32) (simp add: i32_max_def)
  ultimately show ?thesis
    using len(1,2) assms(2-5) False by (simp add: decode_pre_startup_with_limit_def)
qed

section \<open>Properties\<close>

text \<open>
  A pre-startup packet is decoded from any arrival of its bytes: every proper prefix asks for more
  input and is left in the buffer, and the whole packet, whatever follows it, decodes to the message
  and leaves the rest.  The message must fit the limit, have no empty parameter name and not carry
  the cancellation code as its protocol version.
\<close>

theorem pre_startup_incremental:
  assumes "to_packet m = Inr packet" and "pre_startup_wf m"
    and "8 \<le> limit" and "limit \<le> i32_max" and "length packet \<le> limit"
  shows "decode_pre_startup_with_limit (packet @ rest) limit = (Inr (Some m), rest) \<and>
    (k < length packet \<longrightarrow>
      decode_pre_startup_with_limit (take k packet) limit = (Inr None, take k packet))"
proof (intro conjI impI)
  show "decode_pre_startup_with_limit (packet @ rest) limit = (Inr (Some m), rest)"
    using decode_pre_startup_packet [OF assms(1,3,4,5)] decode_packet_to_packet [OF assms(1,2)] by simp
  show "decode_pre_startup_with_limit (take k packet) limit = (Inr None, take k packet)"
    if "k < length packet"
    using decode_pre_startup_partial [of m "take k packet" "drop k packet" limit] assms that by simp
qed

theorem pre_startup_incremental_witness:
  "decode_pre_startup_with_limit ([0, 0, 0, 8, 4, 210, 22, 47] @ [1, 2]) 10000 = (Inr (Some P_SslRequest), [1, 2]) \<and>
   decode_pre_startup_with_limit (take 5 [0, 0, 0, 8, 4, 210, 22, 47]) 10000 = (Inr None, [0, 0, 0, 8, 4])"
proof -
  have p: "to_packet P_SslRequest = Inr [0, 0, 0, 8, 4, 210, 22, 47]"
    by (simp add: request_packet_def SSL_REQUEST_CODE_def be32_def)
  show ?thesis
    using pre_startup_incremental [OF p, of 10000 "[1, 2]" 5]
    by (simp add: i32_max_def)
qed

text \<open>
  A startup message whose protocol version is 1234.5678, the cancellation code, encodes without
  error, and its packet decodes as a cancellation request for another message.
\<close>

theorem startup_version_cancel_confusion:
  "to_packet (P_Startup \<lparr>startup_version = \<lparr>major = 1234, minor = 5678\<rparr>,
      startup_parameters = [([117], [97, 98, 99, 100])]\<rparr>) =
     Inr [0, 0, 0, 16, 4, 210, 22, 46, 117, 0, 97, 98, 99, 100, 0, 0] \<and>
   decode_pre_startup [0, 0, 0, 16, 4, 210, 22, 46, 117, 0, 97, 98, 99, 100, 0, 0] =
     (Inr (Some (P_CancelRequest 1962959202 [99, 100, 0, 0])), [])"
  by (simp add: eval_defs decode_pre_startup_def DEFAULT_MAX_PRE_STARTUP_PACKET_LEN_def
      decode_pre_startup_with_limit_def decode_packet_def SSL_REQUEST_CODE_def GSSENC_REQUEST_CODE_def
      CANCEL_REQUEST_CODE_def)



end
