(* ===== verification/Grammar.thy ===== *)
theory Grammar
  imports Fsm Codec_Backend Pre_Startup
begin

text \<open>
  The six grammars of \<open>src/grammar.rs\<close> as data of the grammar type, phase by phase and transition by
  transition.  The enums are the \<open>RuntimeState\<close> and \<open>Event\<close> the macro generates for each grammar; their
  constructors carry a prefix per grammar.
\<close>

section \<open>Notation of the grammar files\<close>

definition phase :: "'s \<Rightarrow> ChoiceKind \<Rightarrow> ('s, 'e, 'i, 'x) Transition list \<Rightarrow> ('s, 'e, 'i, 'x) State" where
  "phase name choice ts = \<lparr>st_name = name, st_choice = choice, st_transitions = ts\<rparr>"

definition edge ::
  "'e \<Rightarrow> string \<Rightarrow> 's \<Rightarrow> Cleanliness option \<Rightarrow> ('i, 'x) projection option \<Rightarrow> ('s, 'e, 'i, 'x) Transition" where
  "edge event method target cleanliness projection =
     \<lparr>t_choice = None, t_event = event, t_method = method, t_target = target,
      t_cleanliness = cleanliness, t_projection = projection\<rparr>"

definition internal_edge ::
  "'e \<Rightarrow> string \<Rightarrow> 's \<Rightarrow> Cleanliness option \<Rightarrow> ('i, 'x) projection option \<Rightarrow> ('s, 'e, 'i, 'x) Transition" where
  "internal_edge event method target cleanliness projection =
     (edge event method target cleanliness projection)\<lparr>t_choice := Some Internal\<rparr>"

definition external_edge ::
  "'e \<Rightarrow> string \<Rightarrow> 's \<Rightarrow> Cleanliness option \<Rightarrow> ('i, 'x) projection option \<Rightarrow> ('s, 'e, 'i, 'x) Transition" where
  "external_edge event method target cleanliness projection =
     (edge event method target cleanliness projection)\<lparr>t_choice := Some External\<rparr>"

lemmas grammar_defs = phase_def edge_def internal_edge_def external_edge_def

text \<open>The pattern \<open>BackendMessage::Authentication(pattern)\<close>.\<close>

definition authentication_is :: "(Authentication \<Rightarrow> bool) \<Rightarrow> BackendMessage \<Rightarrow> bool" where
  "authentication_is pat m = (case m of B_Authentication a \<Rightarrow> pat a | _ \<Rightarrow> False)"

section \<open>\<open>frontend\<close>\<close>

datatype (plugins only: code) frontend_state =
    Fe_Ready | Fe_FunctionCalling | Fe_Simple | Fe_Building | Fe_BoundBuilding | Fe_AwaitingReady
    | Fe_CopyIn | Fe_CopyOut | Fe_CopyBoth | Fe_CopyBothClientDone | Fe_CopyBothServerDone
    | Fe_Draining | Fe_Resetting | Fe_ResetComplete | Fe_Terminated

datatype (plugins only: code) frontend_event =
    FeE_Query | FeE_BeginExtended | FeE_FunctionCall | FeE_Reset | FeE_Terminate
    | FeE_FunctionResponse | FeE_Error | FeE_Continue | FeE_CopyIn | FeE_CopyOut | FeE_CopyBoth
    | FeE_Ready | FeE_Parse | FeE_Describe | FeE_Bind | FeE_Close | FeE_Flush | FeE_Sync
    | FeE_Execute | FeE_CopyData | FeE_CopyDone | FeE_CopyFail | FeE_SendCopyData
    | FeE_ReceiveCopyData | FeE_SendCopyDone | FeE_ReceiveCopyDone | FeE_DiscardComplete
    | FeE_ReadyClean | FeE_ReadyDirty

definition frontend_Ready_phase :: "(frontend_state, frontend_event, FrontendMessage, BackendMessage) State" where
  "frontend_Ready_phase = phase Fe_Ready Internal
       [edge FeE_Query ''query'' Fe_Simple (Some Dirty)
         (Some (On_internal is_F_Query)),
        edge FeE_BeginExtended ''begin_extended'' Fe_Building None
         None,
        edge FeE_FunctionCall ''function_call'' Fe_FunctionCalling (Some Dirty)
         (Some (On_internal is_F_FunctionCall)),
        edge FeE_Reset ''reset'' Fe_Resetting (Some Dirty)
         None,
        edge FeE_Terminate ''terminate'' Fe_Terminated None
         (Some (On_internal (\<lambda>m. m = F_Terminate)))]"

definition frontend_FunctionCalling_phase :: "(frontend_state, frontend_event, FrontendMessage, BackendMessage) State" where
  "frontend_FunctionCalling_phase = phase Fe_FunctionCalling External
       [edge FeE_FunctionResponse ''function_response'' Fe_AwaitingReady None
         (Some (On_external is_B_FunctionCallResponse)),
        edge FeE_Error ''error'' Fe_Draining None
         (Some (On_external is_B_ErrorResponse))]"

definition frontend_Simple_phase :: "(frontend_state, frontend_event, FrontendMessage, BackendMessage) State" where
  "frontend_Simple_phase = phase Fe_Simple External
       [edge FeE_Continue ''continue_response'' Fe_Simple None
         (Some (On_external (\<lambda>m. is_B_RowDescription m \<or>
            is_B_DataRow m \<or>
            is_B_CommandComplete m \<or>
            m = B_EmptyQueryResponse))),
        edge FeE_CopyIn ''enter_copy_in'' Fe_CopyIn None
         (Some (On_external is_B_CopyInResponse)),
        edge FeE_CopyOut ''enter_copy_out'' Fe_CopyOut None
         (Some (On_external is_B_CopyOutResponse)),
        edge FeE_CopyBoth ''enter_copy_both'' Fe_CopyBoth None
         (Some (On_external is_B_CopyBothResponse)),
        edge FeE_Ready ''ready'' Fe_Ready None
         (Some (On_external is_B_ReadyForQuery)),
        edge FeE_Error ''error'' Fe_Draining None
         (Some (On_external is_B_ErrorResponse))]"

definition frontend_Building_phase :: "(frontend_state, frontend_event, FrontendMessage, BackendMessage) State" where
  "frontend_Building_phase = phase Fe_Building Internal
       [edge FeE_Parse ''parse'' Fe_Building (Some Dirty)
         (Some (On_internal is_F_Parse)),
        edge FeE_Describe ''describe'' Fe_Building None
         (Some (On_internal is_F_Describe)),
        edge FeE_Bind ''bind'' Fe_BoundBuilding (Some Dirty)
         (Some (On_internal is_F_Bind)),
        edge FeE_Close ''close'' Fe_Building None
         (Some (On_internal is_F_Close)),
        edge FeE_Flush ''flush'' Fe_Building None
         (Some (On_internal (\<lambda>m. m = F_Flush))),
        edge FeE_Sync ''sync'' Fe_AwaitingReady None
         (Some (On_internal (\<lambda>m. m = F_Sync)))]"

definition frontend_BoundBuilding_phase :: "(frontend_state, frontend_event, FrontendMessage, BackendMessage) State" where
  "frontend_BoundBuilding_phase = phase Fe_BoundBuilding Internal
       [edge FeE_Parse ''parse'' Fe_BoundBuilding (Some Dirty)
         (Some (On_internal is_F_Parse)),
        edge FeE_Describe ''describe'' Fe_BoundBuilding None
         (Some (On_internal is_F_Describe)),
        edge FeE_Bind ''bind'' Fe_BoundBuilding (Some Dirty)
         (Some (On_internal is_F_Bind)),
        edge FeE_Execute ''execute'' Fe_BoundBuilding None
         (Some (On_internal is_F_Execute)),
        edge FeE_Close ''close'' Fe_BoundBuilding None
         (Some (On_internal is_F_Close)),
        edge FeE_Flush ''flush'' Fe_BoundBuilding None
         (Some (On_internal (\<lambda>m. m = F_Flush))),
        edge FeE_Sync ''sync'' Fe_AwaitingReady None
         (Some (On_internal (\<lambda>m. m = F_Sync)))]"

definition frontend_AwaitingReady_phase :: "(frontend_state, frontend_event, FrontendMessage, BackendMessage) State" where
  "frontend_AwaitingReady_phase = phase Fe_AwaitingReady External
       [edge FeE_Continue ''continue_response'' Fe_AwaitingReady None
         (Some (On_external (\<lambda>m. m = B_ParseComplete \<or>
            m = B_BindComplete \<or>
            m = B_CloseComplete \<or>
            is_B_RowDescription m \<or>
            m = B_NoData \<or>
            is_B_ParameterDescription m \<or>
            is_B_DataRow m \<or>
            is_B_CommandComplete m \<or>
            m = B_PortalSuspended \<or>
            m = B_EmptyQueryResponse))),
        edge FeE_Ready ''ready'' Fe_Ready None
         (Some (On_external is_B_ReadyForQuery)),
        edge FeE_Error ''error'' Fe_Draining None
         (Some (On_external is_B_ErrorResponse))]"

definition frontend_CopyIn_phase :: "(frontend_state, frontend_event, FrontendMessage, BackendMessage) State" where
  "frontend_CopyIn_phase = phase Fe_CopyIn Mixed
       [internal_edge FeE_CopyData ''copy_data'' Fe_CopyIn None
         (Some (On_internal is_F_CopyData)),
        internal_edge FeE_CopyDone ''copy_done'' Fe_AwaitingReady None
         (Some (On_internal (\<lambda>m. m = F_CopyDone))),
        internal_edge FeE_CopyFail ''copy_fail'' Fe_AwaitingReady None
         (Some (On_internal is_F_CopyFail)),
        external_edge FeE_Error ''error'' Fe_Draining None
         (Some (On_external is_B_ErrorResponse))]"

definition frontend_CopyOut_phase :: "(frontend_state, frontend_event, FrontendMessage, BackendMessage) State" where
  "frontend_CopyOut_phase = phase Fe_CopyOut External
       [edge FeE_CopyData ''copy_data'' Fe_CopyOut None
         (Some (On_external is_B_CopyData)),
        edge FeE_CopyDone ''copy_done'' Fe_AwaitingReady None
         (Some (On_external (\<lambda>m. m = B_CopyDone))),
        edge FeE_Error ''error'' Fe_Draining None
         (Some (On_external is_B_ErrorResponse))]"

definition frontend_CopyBoth_phase :: "(frontend_state, frontend_event, FrontendMessage, BackendMessage) State" where
  "frontend_CopyBoth_phase = phase Fe_CopyBoth Mixed
       [internal_edge FeE_SendCopyData ''send_copy_data'' Fe_CopyBoth None
         (Some (On_internal is_F_CopyData)),
        external_edge FeE_ReceiveCopyData ''receive_copy_data'' Fe_CopyBoth None
         (Some (On_external is_B_CopyData)),
        internal_edge FeE_SendCopyDone ''send_copy_done'' Fe_CopyBothClientDone None
         (Some (On_internal (\<lambda>m. m = F_CopyDone))),
        external_edge FeE_ReceiveCopyDone ''receive_copy_done'' Fe_CopyBothServerDone None
         (Some (On_external (\<lambda>m. m = B_CopyDone))),
        external_edge FeE_Error ''error'' Fe_Draining None
         (Some (On_external is_B_ErrorResponse))]"

definition frontend_CopyBothClientDone_phase :: "(frontend_state, frontend_event, FrontendMessage, BackendMessage) State" where
  "frontend_CopyBothClientDone_phase = phase Fe_CopyBothClientDone External
       [edge FeE_ReceiveCopyData ''receive_copy_data'' Fe_CopyBothClientDone None
         (Some (On_external is_B_CopyData)),
        edge FeE_ReceiveCopyDone ''receive_copy_done'' Fe_AwaitingReady None
         (Some (On_external (\<lambda>m. m = B_CopyDone))),
        edge FeE_Error ''error'' Fe_Draining None
         (Some (On_external is_B_ErrorResponse))]"

definition frontend_CopyBothServerDone_phase :: "(frontend_state, frontend_event, FrontendMessage, BackendMessage) State" where
  "frontend_CopyBothServerDone_phase = phase Fe_CopyBothServerDone Internal
       [edge FeE_SendCopyData ''send_copy_data'' Fe_CopyBothServerDone None
         (Some (On_internal is_F_CopyData)),
        edge FeE_SendCopyDone ''send_copy_done'' Fe_AwaitingReady None
         (Some (On_internal (\<lambda>m. m = F_CopyDone)))]"

definition frontend_Draining_phase :: "(frontend_state, frontend_event, FrontendMessage, BackendMessage) State" where
  "frontend_Draining_phase = phase Fe_Draining External
       [edge FeE_Continue ''continue_response'' Fe_Draining None
         (Some (On_external (\<lambda>m. is_B_RowDescription m \<or>
            is_B_DataRow m \<or>
            is_B_CommandComplete m \<or>
            m = B_EmptyQueryResponse \<or>
            m = B_ParseComplete \<or>
            m = B_BindComplete \<or>
            m = B_CloseComplete \<or>
            m = B_NoData \<or>
            is_B_ParameterDescription m \<or>
            m = B_PortalSuspended))),
        edge FeE_Ready ''ready'' Fe_Ready None
         (Some (On_external is_B_ReadyForQuery))]"

definition frontend_Resetting_phase :: "(frontend_state, frontend_event, FrontendMessage, BackendMessage) State" where
  "frontend_Resetting_phase = phase Fe_Resetting External
       [edge FeE_Continue ''continue_reset'' Fe_Resetting None
         (Some (On_external (\<lambda>m. is_B_RowDescription m \<or>
            is_B_DataRow m \<or>
            m = B_EmptyQueryResponse))),
        edge FeE_DiscardComplete ''discard_complete'' Fe_ResetComplete None
         (Some (On_external is_B_CommandComplete)),
        edge FeE_Error ''error'' Fe_Draining None
         (Some (On_external is_B_ErrorResponse))]"

definition frontend_ResetComplete_phase :: "(frontend_state, frontend_event, FrontendMessage, BackendMessage) State" where
  "frontend_ResetComplete_phase = phase Fe_ResetComplete External
       [edge FeE_Continue ''continue_reset'' Fe_ResetComplete None
         (Some (On_external (\<lambda>m. is_B_RowDescription m \<or>
            is_B_DataRow m \<or>
            is_B_CommandComplete m \<or>
            m = B_EmptyQueryResponse))),
        edge FeE_ReadyClean ''ready_clean'' Fe_Ready (Some Pristine)
         (Some (On_external (\<lambda>m. m = B_ReadyForQuery Idle))),
        edge FeE_ReadyDirty ''ready_dirty'' Fe_Ready (Some Dirty)
         (Some (On_external (\<lambda>m. m = B_ReadyForQuery InTransaction \<or>
            m = B_ReadyForQuery FailedTransaction))),
        edge FeE_Error ''error'' Fe_Draining None
         (Some (On_external is_B_ErrorResponse))]"

definition frontend_Terminated_phase :: "(frontend_state, frontend_event, FrontendMessage, BackendMessage) State" where
  "frontend_Terminated_phase = phase Fe_Terminated External
       []"

definition frontend :: "(frontend_state, frontend_event, FrontendMessage, BackendMessage) Protocol" where
  "frontend = \<lparr>p_initial = Fe_Ready, p_states =
     [frontend_Ready_phase,
      frontend_FunctionCalling_phase,
      frontend_Simple_phase,
      frontend_Building_phase,
      frontend_BoundBuilding_phase,
      frontend_AwaitingReady_phase,
      frontend_CopyIn_phase,
      frontend_CopyOut_phase,
      frontend_CopyBoth_phase,
      frontend_CopyBothClientDone_phase,
      frontend_CopyBothServerDone_phase,
      frontend_Draining_phase,
      frontend_Resetting_phase,
      frontend_ResetComplete_phase,
      frontend_Terminated_phase]\<rparr>"

fun frontend_phase_of :: "frontend_state \<Rightarrow> (frontend_state, frontend_event, FrontendMessage, BackendMessage) State" where
  "frontend_phase_of Fe_Ready = frontend_Ready_phase"
| "frontend_phase_of Fe_FunctionCalling = frontend_FunctionCalling_phase"
| "frontend_phase_of Fe_Simple = frontend_Simple_phase"
| "frontend_phase_of Fe_Building = frontend_Building_phase"
| "frontend_phase_of Fe_BoundBuilding = frontend_BoundBuilding_phase"
| "frontend_phase_of Fe_AwaitingReady = frontend_AwaitingReady_phase"
| "frontend_phase_of Fe_CopyIn = frontend_CopyIn_phase"
| "frontend_phase_of Fe_CopyOut = frontend_CopyOut_phase"
| "frontend_phase_of Fe_CopyBoth = frontend_CopyBoth_phase"
| "frontend_phase_of Fe_CopyBothClientDone = frontend_CopyBothClientDone_phase"
| "frontend_phase_of Fe_CopyBothServerDone = frontend_CopyBothServerDone_phase"
| "frontend_phase_of Fe_Draining = frontend_Draining_phase"
| "frontend_phase_of Fe_Resetting = frontend_Resetting_phase"
| "frontend_phase_of Fe_ResetComplete = frontend_ResetComplete_phase"
| "frontend_phase_of Fe_Terminated = frontend_Terminated_phase"

lemmas frontend_phase_defs =
  frontend_Ready_phase_def
  frontend_FunctionCalling_phase_def
  frontend_Simple_phase_def
  frontend_Building_phase_def
  frontend_BoundBuilding_phase_def
  frontend_AwaitingReady_phase_def
  frontend_CopyIn_phase_def
  frontend_CopyOut_phase_def
  frontend_CopyBoth_phase_def
  frontend_CopyBothClientDone_phase_def
  frontend_CopyBothServerDone_phase_def
  frontend_Draining_phase_def
  frontend_Resetting_phase_def
  frontend_ResetComplete_phase_def
  frontend_Terminated_phase_def

lemma frontend_lookup: "filter (\<lambda>st. st_name st = s) (p_states frontend) = [frontend_phase_of s]"
  by (cases s) (simp_all add: frontend_def frontend_phase_defs grammar_defs)

lemmas frontend_project = project_lookup [OF frontend_lookup]

lemmas frontend_transition = transition_lookup [OF frontend_lookup]

interpretation frontend_grammar: grammar frontend
  by unfold_locales (code_simp, code_simp)

section \<open>\<open>pre_startup\<close>\<close>

datatype (plugins only: code) pre_startup_state =
    Ps_PreStartup | Ps_AwaitingSslReply | Ps_AwaitingGssReply | Ps_TlsHandshake | Ps_GssHandshake
    | Ps_Auth | Ps_Terminated

datatype (plugins only: code) pre_startup_event =
    PsE_SslRequest | PsE_GssRequest | PsE_Cancel | PsE_Startup | PsE_Accept | PsE_Reject
    | PsE_LegacyError | PsE_HandshakeComplete

definition pre_startup_PreStartup_phase :: "(pre_startup_state, pre_startup_event, PreStartupMessage, EncryptionReply) State" where
  "pre_startup_PreStartup_phase = phase Ps_PreStartup Internal
       [edge PsE_SslRequest ''ssl_request'' Ps_AwaitingSslReply None
         (Some (On_internal (\<lambda>m. m = P_SslRequest))),
        edge PsE_GssRequest ''gss_request'' Ps_AwaitingGssReply None
         (Some (On_internal (\<lambda>m. m = P_GssEncRequest))),
        edge PsE_Cancel ''cancel'' Ps_Terminated None
         (Some (On_internal is_P_CancelRequest)),
        edge PsE_Startup ''startup'' Ps_Auth None
         (Some (On_internal is_P_Startup))]"

definition pre_startup_AwaitingSslReply_phase :: "(pre_startup_state, pre_startup_event, PreStartupMessage, EncryptionReply) State" where
  "pre_startup_AwaitingSslReply_phase = phase Ps_AwaitingSslReply External
       [edge PsE_Accept ''accept'' Ps_TlsHandshake None
         (Some (On_external (\<lambda>m. m = Accepted))),
        edge PsE_Reject ''reject'' Ps_PreStartup None
         (Some (On_external (\<lambda>m. m = Rejected))),
        edge PsE_LegacyError ''legacy_error'' Ps_Terminated None
         (Some (On_external (\<lambda>m. m = LegacyError)))]"

definition pre_startup_AwaitingGssReply_phase :: "(pre_startup_state, pre_startup_event, PreStartupMessage, EncryptionReply) State" where
  "pre_startup_AwaitingGssReply_phase = phase Ps_AwaitingGssReply External
       [edge PsE_Accept ''accept'' Ps_GssHandshake None
         (Some (On_external (\<lambda>m. m = Accepted))),
        edge PsE_Reject ''reject'' Ps_PreStartup None
         (Some (On_external (\<lambda>m. m = Rejected))),
        edge PsE_LegacyError ''legacy_error'' Ps_Terminated None
         (Some (On_external (\<lambda>m. m = LegacyError)))]"

definition pre_startup_TlsHandshake_phase :: "(pre_startup_state, pre_startup_event, PreStartupMessage, EncryptionReply) State" where
  "pre_startup_TlsHandshake_phase = phase Ps_TlsHandshake Internal
       [edge PsE_HandshakeComplete ''complete'' Ps_PreStartup None
         None]"

definition pre_startup_GssHandshake_phase :: "(pre_startup_state, pre_startup_event, PreStartupMessage, EncryptionReply) State" where
  "pre_startup_GssHandshake_phase = phase Ps_GssHandshake Internal
       [edge PsE_HandshakeComplete ''complete'' Ps_PreStartup None
         None]"

definition pre_startup_Auth_phase :: "(pre_startup_state, pre_startup_event, PreStartupMessage, EncryptionReply) State" where
  "pre_startup_Auth_phase = phase Ps_Auth External
       []"

definition pre_startup_Terminated_phase :: "(pre_startup_state, pre_startup_event, PreStartupMessage, EncryptionReply) State" where
  "pre_startup_Terminated_phase = phase Ps_Terminated External
       []"

definition pre_startup :: "(pre_startup_state, pre_startup_event, PreStartupMessage, EncryptionReply) Protocol" where
  "pre_startup = \<lparr>p_initial = Ps_PreStartup, p_states =
     [pre_startup_PreStartup_phase,
      pre_startup_AwaitingSslReply_phase,
      pre_startup_AwaitingGssReply_phase,
      pre_startup_TlsHandshake_phase,
      pre_startup_GssHandshake_phase,
      pre_startup_Auth_phase,
      pre_startup_Terminated_phase]\<rparr>"

fun pre_startup_phase_of :: "pre_startup_state \<Rightarrow> (pre_startup_state, pre_startup_event, PreStartupMessage, EncryptionReply) State" where
  "pre_startup_phase_of Ps_PreStartup = pre_startup_PreStartup_phase"
| "pre_startup_phase_of Ps_AwaitingSslReply = pre_startup_AwaitingSslReply_phase"
| "pre_startup_phase_of Ps_AwaitingGssReply = pre_startup_AwaitingGssReply_phase"
| "pre_startup_phase_of Ps_TlsHandshake = pre_startup_TlsHandshake_phase"
| "pre_startup_phase_of Ps_GssHandshake = pre_startup_GssHandshake_phase"
| "pre_startup_phase_of Ps_Auth = pre_startup_Auth_phase"
| "pre_startup_phase_of Ps_Terminated = pre_startup_Terminated_phase"

lemmas pre_startup_phase_defs =
  pre_startup_PreStartup_phase_def
  pre_startup_AwaitingSslReply_phase_def
  pre_startup_AwaitingGssReply_phase_def
  pre_startup_TlsHandshake_phase_def
  pre_startup_GssHandshake_phase_def
  pre_startup_Auth_phase_def
  pre_startup_Terminated_phase_def

lemma pre_startup_lookup: "filter (\<lambda>st. st_name st = s) (p_states pre_startup) = [pre_startup_phase_of s]"
  by (cases s) (simp_all add: pre_startup_def pre_startup_phase_defs grammar_defs)

lemmas pre_startup_project = project_lookup [OF pre_startup_lookup]

lemmas pre_startup_transition = transition_lookup [OF pre_startup_lookup]

interpretation pre_startup_grammar: grammar pre_startup
  by unfold_locales (code_simp, code_simp)

section \<open>\<open>server_pre_startup\<close>\<close>

datatype (plugins only: code) server_pre_startup_state =
    Sp_PreStartup | Sp_SslDecision | Sp_GssDecision | Sp_TlsHandshake | Sp_GssHandshake | Sp_Auth
    | Sp_Terminated

datatype (plugins only: code) server_pre_startup_event =
    SpE_SslRequest | SpE_GssRequest | SpE_Cancel | SpE_Startup | SpE_Accept | SpE_Reject
    | SpE_LegacyError | SpE_HandshakeComplete

definition server_pre_startup_PreStartup_phase :: "(server_pre_startup_state, server_pre_startup_event, EncryptionReply, PreStartupMessage) State" where
  "server_pre_startup_PreStartup_phase = phase Sp_PreStartup External
       [edge SpE_SslRequest ''ssl_request'' Sp_SslDecision None
         (Some (On_external (\<lambda>m. m = P_SslRequest))),
        edge SpE_GssRequest ''gss_request'' Sp_GssDecision None
         (Some (On_external (\<lambda>m. m = P_GssEncRequest))),
        edge SpE_Cancel ''cancel'' Sp_Terminated None
         (Some (On_external is_P_CancelRequest)),
        edge SpE_Startup ''startup'' Sp_Auth None
         (Some (On_external is_P_Startup))]"

definition server_pre_startup_SslDecision_phase :: "(server_pre_startup_state, server_pre_startup_event, EncryptionReply, PreStartupMessage) State" where
  "server_pre_startup_SslDecision_phase = phase Sp_SslDecision Internal
       [edge SpE_Accept ''accept'' Sp_TlsHandshake None
         (Some (On_internal (\<lambda>m. m = Accepted))),
        edge SpE_Reject ''reject'' Sp_PreStartup None
         (Some (On_internal (\<lambda>m. m = Rejected))),
        edge SpE_LegacyError ''legacy_error'' Sp_Terminated None
         (Some (On_internal (\<lambda>m. m = LegacyError)))]"

definition server_pre_startup_GssDecision_phase :: "(server_pre_startup_state, server_pre_startup_event, EncryptionReply, PreStartupMessage) State" where
  "server_pre_startup_GssDecision_phase = phase Sp_GssDecision Internal
       [edge SpE_Accept ''accept'' Sp_GssHandshake None
         (Some (On_internal (\<lambda>m. m = Accepted))),
        edge SpE_Reject ''reject'' Sp_PreStartup None
         (Some (On_internal (\<lambda>m. m = Rejected))),
        edge SpE_LegacyError ''legacy_error'' Sp_Terminated None
         (Some (On_internal (\<lambda>m. m = LegacyError)))]"

definition server_pre_startup_TlsHandshake_phase :: "(server_pre_startup_state, server_pre_startup_event, EncryptionReply, PreStartupMessage) State" where
  "server_pre_startup_TlsHandshake_phase = phase Sp_TlsHandshake Internal
       [edge SpE_HandshakeComplete ''complete'' Sp_PreStartup None
         None]"

definition server_pre_startup_GssHandshake_phase :: "(server_pre_startup_state, server_pre_startup_event, EncryptionReply, PreStartupMessage) State" where
  "server_pre_startup_GssHandshake_phase = phase Sp_GssHandshake Internal
       [edge SpE_HandshakeComplete ''complete'' Sp_PreStartup None
         None]"

definition server_pre_startup_Auth_phase :: "(server_pre_startup_state, server_pre_startup_event, EncryptionReply, PreStartupMessage) State" where
  "server_pre_startup_Auth_phase = phase Sp_Auth Internal
       []"

definition server_pre_startup_Terminated_phase :: "(server_pre_startup_state, server_pre_startup_event, EncryptionReply, PreStartupMessage) State" where
  "server_pre_startup_Terminated_phase = phase Sp_Terminated Internal
       []"

definition server_pre_startup :: "(server_pre_startup_state, server_pre_startup_event, EncryptionReply, PreStartupMessage) Protocol" where
  "server_pre_startup = \<lparr>p_initial = Sp_PreStartup, p_states =
     [server_pre_startup_PreStartup_phase,
      server_pre_startup_SslDecision_phase,
      server_pre_startup_GssDecision_phase,
      server_pre_startup_TlsHandshake_phase,
      server_pre_startup_GssHandshake_phase,
      server_pre_startup_Auth_phase,
      server_pre_startup_Terminated_phase]\<rparr>"

fun server_pre_startup_phase_of :: "server_pre_startup_state \<Rightarrow> (server_pre_startup_state, server_pre_startup_event, EncryptionReply, PreStartupMessage) State" where
  "server_pre_startup_phase_of Sp_PreStartup = server_pre_startup_PreStartup_phase"
| "server_pre_startup_phase_of Sp_SslDecision = server_pre_startup_SslDecision_phase"
| "server_pre_startup_phase_of Sp_GssDecision = server_pre_startup_GssDecision_phase"
| "server_pre_startup_phase_of Sp_TlsHandshake = server_pre_startup_TlsHandshake_phase"
| "server_pre_startup_phase_of Sp_GssHandshake = server_pre_startup_GssHandshake_phase"
| "server_pre_startup_phase_of Sp_Auth = server_pre_startup_Auth_phase"
| "server_pre_startup_phase_of Sp_Terminated = server_pre_startup_Terminated_phase"

lemmas server_pre_startup_phase_defs =
  server_pre_startup_PreStartup_phase_def
  server_pre_startup_SslDecision_phase_def
  server_pre_startup_GssDecision_phase_def
  server_pre_startup_TlsHandshake_phase_def
  server_pre_startup_GssHandshake_phase_def
  server_pre_startup_Auth_phase_def
  server_pre_startup_Terminated_phase_def

lemma server_pre_startup_lookup: "filter (\<lambda>st. st_name st = s) (p_states server_pre_startup) = [server_pre_startup_phase_of s]"
  by (cases s) (simp_all add: server_pre_startup_def server_pre_startup_phase_defs grammar_defs)

lemmas server_pre_startup_project = project_lookup [OF server_pre_startup_lookup]

lemmas server_pre_startup_transition = transition_lookup [OF server_pre_startup_lookup]

interpretation server_pre_startup_grammar: grammar server_pre_startup
  by unfold_locales (code_simp, code_simp)

section \<open>\<open>authentication\<close>\<close>

datatype (plugins only: code) authentication_state =
    Au_Auth | Au_PasswordResponse | Au_TokenResponse | Au_TokenChallenge | Au_SaslInitial
    | Au_Sasl | Au_SaslChallenge | Au_SaslFinal | Au_AwaitingAuthOk | Au_AwaitingStartupReady
    | Au_Ready | Au_Terminated

datatype (plugins only: code) authentication_event =
    AuE_Negotiate | AuE_Ok | AuE_Cleartext | AuE_Md5 | AuE_Sasl | AuE_Gss | AuE_Sspi
    | AuE_KerberosV5 | AuE_Error | AuE_Password | AuE_Response | AuE_Continue | AuE_Initial
    | AuE_Final | AuE_Verified | AuE_Ready

definition authentication_Auth_phase :: "(authentication_state, authentication_event, FrontendMessage, BackendMessage) State" where
  "authentication_Auth_phase = phase Au_Auth External
       [edge AuE_Negotiate ''negotiate'' Au_Auth None
         (Some (On_external is_B_NegotiateProtocolVersion)),
        edge AuE_Ok ''ok'' Au_AwaitingStartupReady None
         (Some (On_external (\<lambda>m. m = B_Authentication Auth_Ok))),
        edge AuE_Cleartext ''cleartext'' Au_PasswordResponse None
         (Some (On_external (\<lambda>m. m = B_Authentication Auth_CleartextPassword))),
        edge AuE_Md5 ''md5'' Au_PasswordResponse None
         (Some (On_external (\<lambda>m. authentication_is is_Auth_Md5Password m))),
        edge AuE_Sasl ''sasl'' Au_SaslInitial None
         (Some (On_external (\<lambda>m. authentication_is is_Auth_Sasl m))),
        edge AuE_Gss ''gss'' Au_TokenResponse None
         (Some (On_external (\<lambda>m. m = B_Authentication Auth_Gss))),
        edge AuE_Sspi ''sspi'' Au_TokenResponse None
         (Some (On_external (\<lambda>m. m = B_Authentication Auth_Sspi))),
        edge AuE_KerberosV5 ''kerberos_v5'' Au_TokenResponse None
         (Some (On_external (\<lambda>m. m = B_Authentication Auth_KerberosV5))),
        edge AuE_Error ''error'' Au_Terminated None
         (Some (On_external is_B_ErrorResponse))]"

definition authentication_PasswordResponse_phase :: "(authentication_state, authentication_event, FrontendMessage, BackendMessage) State" where
  "authentication_PasswordResponse_phase = phase Au_PasswordResponse Internal
       [edge AuE_Password ''password'' Au_AwaitingAuthOk None
         (Some (On_internal is_F_PasswordResponse))]"

definition authentication_TokenResponse_phase :: "(authentication_state, authentication_event, FrontendMessage, BackendMessage) State" where
  "authentication_TokenResponse_phase = phase Au_TokenResponse Internal
       [edge AuE_Response ''response'' Au_TokenChallenge None
         (Some (On_internal is_F_PasswordResponse))]"

definition authentication_TokenChallenge_phase :: "(authentication_state, authentication_event, FrontendMessage, BackendMessage) State" where
  "authentication_TokenChallenge_phase = phase Au_TokenChallenge External
       [edge AuE_Continue ''continue_token'' Au_TokenResponse None
         (Some (On_external (\<lambda>m. authentication_is is_Auth_GssContinue m))),
        edge AuE_Ok ''ok'' Au_AwaitingStartupReady None
         (Some (On_external (\<lambda>m. m = B_Authentication Auth_Ok))),
        edge AuE_Error ''error'' Au_Terminated None
         (Some (On_external is_B_ErrorResponse))]"

definition authentication_SaslInitial_phase :: "(authentication_state, authentication_event, FrontendMessage, BackendMessage) State" where
  "authentication_SaslInitial_phase = phase Au_SaslInitial Internal
       [edge AuE_Initial ''initial'' Au_Sasl None
         (Some (On_internal is_F_PasswordResponse))]"

definition authentication_Sasl_phase :: "(authentication_state, authentication_event, FrontendMessage, BackendMessage) State" where
  "authentication_Sasl_phase = phase Au_Sasl External
       [edge AuE_Continue ''continue_response'' Au_SaslChallenge None
         (Some (On_external (\<lambda>m. authentication_is is_Auth_SaslContinue m))),
        edge AuE_Final ''final_response'' Au_SaslFinal None
         (Some (On_external (\<lambda>m. authentication_is is_Auth_SaslFinal m))),
        edge AuE_Error ''error'' Au_Terminated None
         (Some (On_external is_B_ErrorResponse))]"

definition authentication_SaslChallenge_phase :: "(authentication_state, authentication_event, FrontendMessage, BackendMessage) State" where
  "authentication_SaslChallenge_phase = phase Au_SaslChallenge Internal
       [edge AuE_Response ''response'' Au_Sasl None
         (Some (On_internal is_F_PasswordResponse))]"

definition authentication_SaslFinal_phase :: "(authentication_state, authentication_event, FrontendMessage, BackendMessage) State" where
  "authentication_SaslFinal_phase = phase Au_SaslFinal Internal
       [edge AuE_Verified ''verified'' Au_AwaitingAuthOk None
         None]"

definition authentication_AwaitingAuthOk_phase :: "(authentication_state, authentication_event, FrontendMessage, BackendMessage) State" where
  "authentication_AwaitingAuthOk_phase = phase Au_AwaitingAuthOk External
       [edge AuE_Ok ''ok'' Au_AwaitingStartupReady None
         (Some (On_external (\<lambda>m. m = B_Authentication Auth_Ok))),
        edge AuE_Error ''error'' Au_Terminated None
         (Some (On_external is_B_ErrorResponse))]"

definition authentication_AwaitingStartupReady_phase :: "(authentication_state, authentication_event, FrontendMessage, BackendMessage) State" where
  "authentication_AwaitingStartupReady_phase = phase Au_AwaitingStartupReady External
       [edge AuE_Ready ''ready'' Au_Ready None
         (Some (On_external is_B_ReadyForQuery))]"

definition authentication_Ready_phase :: "(authentication_state, authentication_event, FrontendMessage, BackendMessage) State" where
  "authentication_Ready_phase = phase Au_Ready External
       []"

definition authentication_Terminated_phase :: "(authentication_state, authentication_event, FrontendMessage, BackendMessage) State" where
  "authentication_Terminated_phase = phase Au_Terminated External
       []"

definition authentication :: "(authentication_state, authentication_event, FrontendMessage, BackendMessage) Protocol" where
  "authentication = \<lparr>p_initial = Au_Auth, p_states =
     [authentication_Auth_phase,
      authentication_PasswordResponse_phase,
      authentication_TokenResponse_phase,
      authentication_TokenChallenge_phase,
      authentication_SaslInitial_phase,
      authentication_Sasl_phase,
      authentication_SaslChallenge_phase,
      authentication_SaslFinal_phase,
      authentication_AwaitingAuthOk_phase,
      authentication_AwaitingStartupReady_phase,
      authentication_Ready_phase,
      authentication_Terminated_phase]\<rparr>"

fun authentication_phase_of :: "authentication_state \<Rightarrow> (authentication_state, authentication_event, FrontendMessage, BackendMessage) State" where
  "authentication_phase_of Au_Auth = authentication_Auth_phase"
| "authentication_phase_of Au_PasswordResponse = authentication_PasswordResponse_phase"
| "authentication_phase_of Au_TokenResponse = authentication_TokenResponse_phase"
| "authentication_phase_of Au_TokenChallenge = authentication_TokenChallenge_phase"
| "authentication_phase_of Au_SaslInitial = authentication_SaslInitial_phase"
| "authentication_phase_of Au_Sasl = authentication_Sasl_phase"
| "authentication_phase_of Au_SaslChallenge = authentication_SaslChallenge_phase"
| "authentication_phase_of Au_SaslFinal = authentication_SaslFinal_phase"
| "authentication_phase_of Au_AwaitingAuthOk = authentication_AwaitingAuthOk_phase"
| "authentication_phase_of Au_AwaitingStartupReady = authentication_AwaitingStartupReady_phase"
| "authentication_phase_of Au_Ready = authentication_Ready_phase"
| "authentication_phase_of Au_Terminated = authentication_Terminated_phase"

lemmas authentication_phase_defs =
  authentication_Auth_phase_def
  authentication_PasswordResponse_phase_def
  authentication_TokenResponse_phase_def
  authentication_TokenChallenge_phase_def
  authentication_SaslInitial_phase_def
  authentication_Sasl_phase_def
  authentication_SaslChallenge_phase_def
  authentication_SaslFinal_phase_def
  authentication_AwaitingAuthOk_phase_def
  authentication_AwaitingStartupReady_phase_def
  authentication_Ready_phase_def
  authentication_Terminated_phase_def

lemma authentication_lookup: "filter (\<lambda>st. st_name st = s) (p_states authentication) = [authentication_phase_of s]"
  by (cases s) (simp_all add: authentication_def authentication_phase_defs grammar_defs)

lemmas authentication_project = project_lookup [OF authentication_lookup]

lemmas authentication_transition = transition_lookup [OF authentication_lookup]

interpretation authentication_grammar: grammar authentication
  by unfold_locales (code_simp, code_simp)

section \<open>\<open>backend\<close>\<close>

datatype (plugins only: code) backend_state =
    Be_Ready | Be_Simple | Be_SimpleError | Be_Building | Be_ParseResponse | Be_BindResponse
    | Be_DescribeResponse | Be_ExecuteResponse | Be_CloseResponse | Be_ExtendedError
    | Be_SyncResponse | Be_FunctionResponse | Be_FunctionReady | Be_SimpleCopyIn
    | Be_SimpleCopyInDone | Be_SimpleCopyInFailed | Be_SimpleCopyOut | Be_SimpleCopyOutDone
    | Be_SimpleCopyReady | Be_ExtendedCopyIn | Be_ExtendedCopyInDone | Be_ExtendedCopyInFailed
    | Be_ExtendedCopyOut | Be_ExtendedCopyOutDone | Be_SimpleCopyBoth
    | Be_SimpleCopyBothClientDone | Be_SimpleCopyBothServerDone | Be_SimpleCopyBothDone
    | Be_SimpleCopyBothFailed | Be_ExtendedCopyBoth | Be_ExtendedCopyBothClientDone
    | Be_ExtendedCopyBothServerDone | Be_ExtendedCopyBothDone | Be_ExtendedCopyBothFailed
    | Be_Terminated

datatype (plugins only: code) backend_event =
    BeE_Query | BeE_Parse | BeE_Bind | BeE_Describe | BeE_Execute | BeE_Close | BeE_FunctionCall
    | BeE_Terminate | BeE_Continue | BeE_CopyIn | BeE_CopyOut | BeE_CopyBoth | BeE_Ready
    | BeE_Error | BeE_Flush | BeE_Sync | BeE_Complete | BeE_ParameterDescription
    | BeE_RowDescription | BeE_NoData | BeE_CommandComplete | BeE_PortalSuspended | BeE_Discard
    | BeE_Result | BeE_Data | BeE_Done | BeE_Fail | BeE_SendData | BeE_ReceiveData | BeE_SendDone
    | BeE_ReceiveDone

definition backend_Ready_phase :: "(backend_state, backend_event, BackendMessage, FrontendMessage) State" where
  "backend_Ready_phase = phase Be_Ready External
       [edge BeE_Query ''query'' Be_Simple (Some Dirty)
         (Some (On_external is_F_Query)),
        edge BeE_Parse ''parse'' Be_ParseResponse (Some Dirty)
         (Some (On_external is_F_Parse)),
        edge BeE_Bind ''bind'' Be_BindResponse (Some Dirty)
         (Some (On_external is_F_Bind)),
        edge BeE_Describe ''describe'' Be_DescribeResponse None
         (Some (On_external is_F_Describe)),
        edge BeE_Execute ''execute'' Be_ExecuteResponse (Some Dirty)
         (Some (On_external is_F_Execute)),
        edge BeE_Close ''close'' Be_CloseResponse None
         (Some (On_external is_F_Close)),
        edge BeE_FunctionCall ''function_call'' Be_FunctionResponse (Some Dirty)
         (Some (On_external is_F_FunctionCall)),
        edge BeE_Terminate ''terminate'' Be_Terminated None
         (Some (On_external (\<lambda>m. m = F_Terminate)))]"

definition backend_Simple_phase :: "(backend_state, backend_event, BackendMessage, FrontendMessage) State" where
  "backend_Simple_phase = phase Be_Simple Internal
       [edge BeE_Continue ''continue_response'' Be_Simple None
         (Some (On_internal (\<lambda>m. is_B_RowDescription m \<or>
            is_B_DataRow m \<or>
            is_B_CommandComplete m \<or>
            m = B_EmptyQueryResponse))),
        edge BeE_CopyIn ''copy_in'' Be_SimpleCopyIn None
         (Some (On_internal is_B_CopyInResponse)),
        edge BeE_CopyOut ''copy_out'' Be_SimpleCopyOut None
         (Some (On_internal is_B_CopyOutResponse)),
        edge BeE_CopyBoth ''copy_both'' Be_SimpleCopyBoth None
         (Some (On_internal is_B_CopyBothResponse)),
        edge BeE_Ready ''ready'' Be_Ready None
         (Some (On_internal is_B_ReadyForQuery)),
        edge BeE_Error ''error'' Be_SimpleError None
         (Some (On_internal is_B_ErrorResponse))]"

definition backend_SimpleError_phase :: "(backend_state, backend_event, BackendMessage, FrontendMessage) State" where
  "backend_SimpleError_phase = phase Be_SimpleError Internal
       [edge BeE_Ready ''ready'' Be_Ready None
         (Some (On_internal is_B_ReadyForQuery))]"

definition backend_Building_phase :: "(backend_state, backend_event, BackendMessage, FrontendMessage) State" where
  "backend_Building_phase = phase Be_Building External
       [edge BeE_Parse ''parse'' Be_ParseResponse (Some Dirty)
         (Some (On_external is_F_Parse)),
        edge BeE_Bind ''bind'' Be_BindResponse (Some Dirty)
         (Some (On_external is_F_Bind)),
        edge BeE_Describe ''describe'' Be_DescribeResponse None
         (Some (On_external is_F_Describe)),
        edge BeE_Execute ''execute'' Be_ExecuteResponse (Some Dirty)
         (Some (On_external is_F_Execute)),
        edge BeE_Close ''close'' Be_CloseResponse None
         (Some (On_external is_F_Close)),
        edge BeE_Flush ''flush'' Be_Building None
         (Some (On_external (\<lambda>m. m = F_Flush))),
        edge BeE_Sync ''sync'' Be_SyncResponse None
         (Some (On_external (\<lambda>m. m = F_Sync)))]"

definition backend_ParseResponse_phase :: "(backend_state, backend_event, BackendMessage, FrontendMessage) State" where
  "backend_ParseResponse_phase = phase Be_ParseResponse Internal
       [edge BeE_Complete ''complete'' Be_Building None
         (Some (On_internal (\<lambda>m. m = B_ParseComplete))),
        edge BeE_Error ''error'' Be_ExtendedError None
         (Some (On_internal is_B_ErrorResponse))]"

definition backend_BindResponse_phase :: "(backend_state, backend_event, BackendMessage, FrontendMessage) State" where
  "backend_BindResponse_phase = phase Be_BindResponse Internal
       [edge BeE_Complete ''complete'' Be_Building None
         (Some (On_internal (\<lambda>m. m = B_BindComplete))),
        edge BeE_Error ''error'' Be_ExtendedError None
         (Some (On_internal is_B_ErrorResponse))]"

definition backend_DescribeResponse_phase :: "(backend_state, backend_event, BackendMessage, FrontendMessage) State" where
  "backend_DescribeResponse_phase = phase Be_DescribeResponse Internal
       [edge BeE_ParameterDescription ''parameter_description'' Be_DescribeResponse None
         (Some (On_internal is_B_ParameterDescription)),
        edge BeE_RowDescription ''row_description'' Be_Building None
         (Some (On_internal is_B_RowDescription)),
        edge BeE_NoData ''no_data'' Be_Building None
         (Some (On_internal (\<lambda>m. m = B_NoData))),
        edge BeE_Error ''error'' Be_ExtendedError None
         (Some (On_internal is_B_ErrorResponse))]"

definition backend_ExecuteResponse_phase :: "(backend_state, backend_event, BackendMessage, FrontendMessage) State" where
  "backend_ExecuteResponse_phase = phase Be_ExecuteResponse Internal
       [edge BeE_Continue ''continue_response'' Be_ExecuteResponse None
         (Some (On_internal (\<lambda>m. is_B_RowDescription m \<or>
            is_B_DataRow m \<or>
            m = B_EmptyQueryResponse))),
        edge BeE_CopyIn ''copy_in'' Be_ExtendedCopyIn None
         (Some (On_internal is_B_CopyInResponse)),
        edge BeE_CopyOut ''copy_out'' Be_ExtendedCopyOut None
         (Some (On_internal is_B_CopyOutResponse)),
        edge BeE_CopyBoth ''copy_both'' Be_ExtendedCopyBoth None
         (Some (On_internal is_B_CopyBothResponse)),
        edge BeE_CommandComplete ''command_complete'' Be_Building None
         (Some (On_internal is_B_CommandComplete)),
        edge BeE_PortalSuspended ''portal_suspended'' Be_Building None
         (Some (On_internal (\<lambda>m. m = B_PortalSuspended))),
        edge BeE_Error ''error'' Be_ExtendedError None
         (Some (On_internal is_B_ErrorResponse))]"

definition backend_CloseResponse_phase :: "(backend_state, backend_event, BackendMessage, FrontendMessage) State" where
  "backend_CloseResponse_phase = phase Be_CloseResponse Internal
       [edge BeE_Complete ''complete'' Be_Building None
         (Some (On_internal (\<lambda>m. m = B_CloseComplete))),
        edge BeE_Error ''error'' Be_ExtendedError None
         (Some (On_internal is_B_ErrorResponse))]"

definition backend_ExtendedError_phase :: "(backend_state, backend_event, BackendMessage, FrontendMessage) State" where
  "backend_ExtendedError_phase = phase Be_ExtendedError External
       [edge BeE_Discard ''discard'' Be_ExtendedError None
         (Some (On_external (\<lambda>m. is_F_Parse m \<or>
            is_F_Bind m \<or>
            is_F_Describe m \<or>
            is_F_Execute m \<or>
            is_F_Close m \<or>
            m = F_Flush \<or>
            is_F_Query m \<or>
            is_F_FunctionCall m \<or>
            m = F_Terminate \<or>
            is_F_CopyData m \<or>
            m = F_CopyDone \<or>
            is_F_CopyFail m \<or>
            is_F_PasswordResponse m))),
        edge BeE_Sync ''sync'' Be_SyncResponse None
         (Some (On_external (\<lambda>m. m = F_Sync)))]"

definition backend_SyncResponse_phase :: "(backend_state, backend_event, BackendMessage, FrontendMessage) State" where
  "backend_SyncResponse_phase = phase Be_SyncResponse Internal
       [edge BeE_Ready ''ready'' Be_Ready None
         (Some (On_internal is_B_ReadyForQuery))]"

definition backend_FunctionResponse_phase :: "(backend_state, backend_event, BackendMessage, FrontendMessage) State" where
  "backend_FunctionResponse_phase = phase Be_FunctionResponse Internal
       [edge BeE_Result ''result'' Be_FunctionReady None
         (Some (On_internal is_B_FunctionCallResponse)),
        edge BeE_Error ''error'' Be_FunctionReady None
         (Some (On_internal is_B_ErrorResponse))]"

definition backend_FunctionReady_phase :: "(backend_state, backend_event, BackendMessage, FrontendMessage) State" where
  "backend_FunctionReady_phase = phase Be_FunctionReady Internal
       [edge BeE_Ready ''ready'' Be_Ready None
         (Some (On_internal is_B_ReadyForQuery))]"

definition backend_SimpleCopyIn_phase :: "(backend_state, backend_event, BackendMessage, FrontendMessage) State" where
  "backend_SimpleCopyIn_phase = phase Be_SimpleCopyIn External
       [edge BeE_Data ''data'' Be_SimpleCopyIn None
         (Some (On_external is_F_CopyData)),
        edge BeE_Done ''done'' Be_SimpleCopyInDone None
         (Some (On_external (\<lambda>m. m = F_CopyDone))),
        edge BeE_Fail ''fail'' Be_SimpleCopyInFailed None
         (Some (On_external is_F_CopyFail))]"

definition backend_SimpleCopyInDone_phase :: "(backend_state, backend_event, BackendMessage, FrontendMessage) State" where
  "backend_SimpleCopyInDone_phase = phase Be_SimpleCopyInDone Internal
       [edge BeE_CommandComplete ''command_complete'' Be_SimpleCopyReady None
         (Some (On_internal is_B_CommandComplete)),
        edge BeE_Error ''error'' Be_SimpleCopyReady None
         (Some (On_internal is_B_ErrorResponse))]"

definition backend_SimpleCopyInFailed_phase :: "(backend_state, backend_event, BackendMessage, FrontendMessage) State" where
  "backend_SimpleCopyInFailed_phase = phase Be_SimpleCopyInFailed Internal
       [edge BeE_Error ''error'' Be_SimpleCopyReady None
         (Some (On_internal is_B_ErrorResponse))]"

definition backend_SimpleCopyOut_phase :: "(backend_state, backend_event, BackendMessage, FrontendMessage) State" where
  "backend_SimpleCopyOut_phase = phase Be_SimpleCopyOut Internal
       [edge BeE_Data ''data'' Be_SimpleCopyOut None
         (Some (On_internal is_B_CopyData)),
        edge BeE_Done ''done'' Be_SimpleCopyOutDone None
         (Some (On_internal (\<lambda>m. m = B_CopyDone))),
        edge BeE_Error ''error'' Be_SimpleCopyReady None
         (Some (On_internal is_B_ErrorResponse))]"

definition backend_SimpleCopyOutDone_phase :: "(backend_state, backend_event, BackendMessage, FrontendMessage) State" where
  "backend_SimpleCopyOutDone_phase = phase Be_SimpleCopyOutDone Internal
       [edge BeE_CommandComplete ''command_complete'' Be_SimpleCopyReady None
         (Some (On_internal is_B_CommandComplete))]"

definition backend_SimpleCopyReady_phase :: "(backend_state, backend_event, BackendMessage, FrontendMessage) State" where
  "backend_SimpleCopyReady_phase = phase Be_SimpleCopyReady Internal
       [edge BeE_Ready ''ready'' Be_Ready None
         (Some (On_internal is_B_ReadyForQuery))]"

definition backend_ExtendedCopyIn_phase :: "(backend_state, backend_event, BackendMessage, FrontendMessage) State" where
  "backend_ExtendedCopyIn_phase = phase Be_ExtendedCopyIn External
       [edge BeE_Data ''data'' Be_ExtendedCopyIn None
         (Some (On_external is_F_CopyData)),
        edge BeE_Done ''done'' Be_ExtendedCopyInDone None
         (Some (On_external (\<lambda>m. m = F_CopyDone))),
        edge BeE_Fail ''fail'' Be_ExtendedCopyInFailed None
         (Some (On_external is_F_CopyFail))]"

definition backend_ExtendedCopyInDone_phase :: "(backend_state, backend_event, BackendMessage, FrontendMessage) State" where
  "backend_ExtendedCopyInDone_phase = phase Be_ExtendedCopyInDone Internal
       [edge BeE_CommandComplete ''command_complete'' Be_Building None
         (Some (On_internal is_B_CommandComplete)),
        edge BeE_Error ''error'' Be_ExtendedError None
         (Some (On_internal is_B_ErrorResponse))]"

definition backend_ExtendedCopyInFailed_phase :: "(backend_state, backend_event, BackendMessage, FrontendMessage) State" where
  "backend_ExtendedCopyInFailed_phase = phase Be_ExtendedCopyInFailed Internal
       [edge BeE_Error ''error'' Be_ExtendedError None
         (Some (On_internal is_B_ErrorResponse))]"

definition backend_ExtendedCopyOut_phase :: "(backend_state, backend_event, BackendMessage, FrontendMessage) State" where
  "backend_ExtendedCopyOut_phase = phase Be_ExtendedCopyOut Internal
       [edge BeE_Data ''data'' Be_ExtendedCopyOut None
         (Some (On_internal is_B_CopyData)),
        edge BeE_Done ''done'' Be_ExtendedCopyOutDone None
         (Some (On_internal (\<lambda>m. m = B_CopyDone))),
        edge BeE_Error ''error'' Be_ExtendedError None
         (Some (On_internal is_B_ErrorResponse))]"

definition backend_ExtendedCopyOutDone_phase :: "(backend_state, backend_event, BackendMessage, FrontendMessage) State" where
  "backend_ExtendedCopyOutDone_phase = phase Be_ExtendedCopyOutDone Internal
       [edge BeE_CommandComplete ''command_complete'' Be_Building None
         (Some (On_internal is_B_CommandComplete))]"

definition backend_SimpleCopyBoth_phase :: "(backend_state, backend_event, BackendMessage, FrontendMessage) State" where
  "backend_SimpleCopyBoth_phase = phase Be_SimpleCopyBoth Mixed
       [internal_edge BeE_SendData ''send_data'' Be_SimpleCopyBoth None
         (Some (On_internal is_B_CopyData)),
        external_edge BeE_ReceiveData ''receive_data'' Be_SimpleCopyBoth None
         (Some (On_external is_F_CopyData)),
        internal_edge BeE_SendDone ''send_done'' Be_SimpleCopyBothServerDone None
         (Some (On_internal (\<lambda>m. m = B_CopyDone))),
        external_edge BeE_ReceiveDone ''receive_done'' Be_SimpleCopyBothClientDone None
         (Some (On_external (\<lambda>m. m = F_CopyDone))),
        external_edge BeE_Fail ''fail'' Be_SimpleCopyBothFailed None
         (Some (On_external is_F_CopyFail)),
        internal_edge BeE_Error ''error'' Be_SimpleCopyReady None
         (Some (On_internal is_B_ErrorResponse))]"

definition backend_SimpleCopyBothClientDone_phase :: "(backend_state, backend_event, BackendMessage, FrontendMessage) State" where
  "backend_SimpleCopyBothClientDone_phase = phase Be_SimpleCopyBothClientDone Internal
       [edge BeE_SendData ''send_data'' Be_SimpleCopyBothClientDone None
         (Some (On_internal is_B_CopyData)),
        edge BeE_SendDone ''send_done'' Be_SimpleCopyBothDone None
         (Some (On_internal (\<lambda>m. m = B_CopyDone))),
        edge BeE_Error ''error'' Be_SimpleCopyReady None
         (Some (On_internal is_B_ErrorResponse))]"

definition backend_SimpleCopyBothServerDone_phase :: "(backend_state, backend_event, BackendMessage, FrontendMessage) State" where
  "backend_SimpleCopyBothServerDone_phase = phase Be_SimpleCopyBothServerDone External
       [edge BeE_ReceiveData ''receive_data'' Be_SimpleCopyBothServerDone None
         (Some (On_external is_F_CopyData)),
        edge BeE_ReceiveDone ''receive_done'' Be_SimpleCopyBothDone None
         (Some (On_external (\<lambda>m. m = F_CopyDone))),
        edge BeE_Fail ''fail'' Be_SimpleCopyBothFailed None
         (Some (On_external is_F_CopyFail))]"

definition backend_SimpleCopyBothDone_phase :: "(backend_state, backend_event, BackendMessage, FrontendMessage) State" where
  "backend_SimpleCopyBothDone_phase = phase Be_SimpleCopyBothDone Internal
       [edge BeE_CommandComplete ''command_complete'' Be_SimpleCopyReady None
         (Some (On_internal is_B_CommandComplete))]"

definition backend_SimpleCopyBothFailed_phase :: "(backend_state, backend_event, BackendMessage, FrontendMessage) State" where
  "backend_SimpleCopyBothFailed_phase = phase Be_SimpleCopyBothFailed Internal
       [edge BeE_Error ''error'' Be_SimpleCopyReady None
         (Some (On_internal is_B_ErrorResponse))]"

definition backend_ExtendedCopyBoth_phase :: "(backend_state, backend_event, BackendMessage, FrontendMessage) State" where
  "backend_ExtendedCopyBoth_phase = phase Be_ExtendedCopyBoth Mixed
       [internal_edge BeE_SendData ''send_data'' Be_ExtendedCopyBoth None
         (Some (On_internal is_B_CopyData)),
        external_edge BeE_ReceiveData ''receive_data'' Be_ExtendedCopyBoth None
         (Some (On_external is_F_CopyData)),
        internal_edge BeE_SendDone ''send_done'' Be_ExtendedCopyBothServerDone None
         (Some (On_internal (\<lambda>m. m = B_CopyDone))),
        external_edge BeE_ReceiveDone ''receive_done'' Be_ExtendedCopyBothClientDone None
         (Some (On_external (\<lambda>m. m = F_CopyDone))),
        external_edge BeE_Fail ''fail'' Be_ExtendedCopyBothFailed None
         (Some (On_external is_F_CopyFail)),
        internal_edge BeE_Error ''error'' Be_ExtendedError None
         (Some (On_internal is_B_ErrorResponse))]"

definition backend_ExtendedCopyBothClientDone_phase :: "(backend_state, backend_event, BackendMessage, FrontendMessage) State" where
  "backend_ExtendedCopyBothClientDone_phase = phase Be_ExtendedCopyBothClientDone Internal
       [edge BeE_SendData ''send_data'' Be_ExtendedCopyBothClientDone None
         (Some (On_internal is_B_CopyData)),
        edge BeE_SendDone ''send_done'' Be_ExtendedCopyBothDone None
         (Some (On_internal (\<lambda>m. m = B_CopyDone))),
        edge BeE_Error ''error'' Be_ExtendedError None
         (Some (On_internal is_B_ErrorResponse))]"

definition backend_ExtendedCopyBothServerDone_phase :: "(backend_state, backend_event, BackendMessage, FrontendMessage) State" where
  "backend_ExtendedCopyBothServerDone_phase = phase Be_ExtendedCopyBothServerDone External
       [edge BeE_ReceiveData ''receive_data'' Be_ExtendedCopyBothServerDone None
         (Some (On_external is_F_CopyData)),
        edge BeE_ReceiveDone ''receive_done'' Be_ExtendedCopyBothDone None
         (Some (On_external (\<lambda>m. m = F_CopyDone))),
        edge BeE_Fail ''fail'' Be_ExtendedCopyBothFailed None
         (Some (On_external is_F_CopyFail))]"

definition backend_ExtendedCopyBothDone_phase :: "(backend_state, backend_event, BackendMessage, FrontendMessage) State" where
  "backend_ExtendedCopyBothDone_phase = phase Be_ExtendedCopyBothDone Internal
       [edge BeE_CommandComplete ''command_complete'' Be_Building None
         (Some (On_internal is_B_CommandComplete))]"

definition backend_ExtendedCopyBothFailed_phase :: "(backend_state, backend_event, BackendMessage, FrontendMessage) State" where
  "backend_ExtendedCopyBothFailed_phase = phase Be_ExtendedCopyBothFailed Internal
       [edge BeE_Error ''error'' Be_ExtendedError None
         (Some (On_internal is_B_ErrorResponse))]"

definition backend_Terminated_phase :: "(backend_state, backend_event, BackendMessage, FrontendMessage) State" where
  "backend_Terminated_phase = phase Be_Terminated External
       []"

definition backend :: "(backend_state, backend_event, BackendMessage, FrontendMessage) Protocol" where
  "backend = \<lparr>p_initial = Be_Ready, p_states =
     [backend_Ready_phase,
      backend_Simple_phase,
      backend_SimpleError_phase,
      backend_Building_phase,
      backend_ParseResponse_phase,
      backend_BindResponse_phase,
      backend_DescribeResponse_phase,
      backend_ExecuteResponse_phase,
      backend_CloseResponse_phase,
      backend_ExtendedError_phase,
      backend_SyncResponse_phase,
      backend_FunctionResponse_phase,
      backend_FunctionReady_phase,
      backend_SimpleCopyIn_phase,
      backend_SimpleCopyInDone_phase,
      backend_SimpleCopyInFailed_phase,
      backend_SimpleCopyOut_phase,
      backend_SimpleCopyOutDone_phase,
      backend_SimpleCopyReady_phase,
      backend_ExtendedCopyIn_phase,
      backend_ExtendedCopyInDone_phase,
      backend_ExtendedCopyInFailed_phase,
      backend_ExtendedCopyOut_phase,
      backend_ExtendedCopyOutDone_phase,
      backend_SimpleCopyBoth_phase,
      backend_SimpleCopyBothClientDone_phase,
      backend_SimpleCopyBothServerDone_phase,
      backend_SimpleCopyBothDone_phase,
      backend_SimpleCopyBothFailed_phase,
      backend_ExtendedCopyBoth_phase,
      backend_ExtendedCopyBothClientDone_phase,
      backend_ExtendedCopyBothServerDone_phase,
      backend_ExtendedCopyBothDone_phase,
      backend_ExtendedCopyBothFailed_phase,
      backend_Terminated_phase]\<rparr>"

fun backend_phase_of :: "backend_state \<Rightarrow> (backend_state, backend_event, BackendMessage, FrontendMessage) State" where
  "backend_phase_of Be_Ready = backend_Ready_phase"
| "backend_phase_of Be_Simple = backend_Simple_phase"
| "backend_phase_of Be_SimpleError = backend_SimpleError_phase"
| "backend_phase_of Be_Building = backend_Building_phase"
| "backend_phase_of Be_ParseResponse = backend_ParseResponse_phase"
| "backend_phase_of Be_BindResponse = backend_BindResponse_phase"
| "backend_phase_of Be_DescribeResponse = backend_DescribeResponse_phase"
| "backend_phase_of Be_ExecuteResponse = backend_ExecuteResponse_phase"
| "backend_phase_of Be_CloseResponse = backend_CloseResponse_phase"
| "backend_phase_of Be_ExtendedError = backend_ExtendedError_phase"
| "backend_phase_of Be_SyncResponse = backend_SyncResponse_phase"
| "backend_phase_of Be_FunctionResponse = backend_FunctionResponse_phase"
| "backend_phase_of Be_FunctionReady = backend_FunctionReady_phase"
| "backend_phase_of Be_SimpleCopyIn = backend_SimpleCopyIn_phase"
| "backend_phase_of Be_SimpleCopyInDone = backend_SimpleCopyInDone_phase"
| "backend_phase_of Be_SimpleCopyInFailed = backend_SimpleCopyInFailed_phase"
| "backend_phase_of Be_SimpleCopyOut = backend_SimpleCopyOut_phase"
| "backend_phase_of Be_SimpleCopyOutDone = backend_SimpleCopyOutDone_phase"
| "backend_phase_of Be_SimpleCopyReady = backend_SimpleCopyReady_phase"
| "backend_phase_of Be_ExtendedCopyIn = backend_ExtendedCopyIn_phase"
| "backend_phase_of Be_ExtendedCopyInDone = backend_ExtendedCopyInDone_phase"
| "backend_phase_of Be_ExtendedCopyInFailed = backend_ExtendedCopyInFailed_phase"
| "backend_phase_of Be_ExtendedCopyOut = backend_ExtendedCopyOut_phase"
| "backend_phase_of Be_ExtendedCopyOutDone = backend_ExtendedCopyOutDone_phase"
| "backend_phase_of Be_SimpleCopyBoth = backend_SimpleCopyBoth_phase"
| "backend_phase_of Be_SimpleCopyBothClientDone = backend_SimpleCopyBothClientDone_phase"
| "backend_phase_of Be_SimpleCopyBothServerDone = backend_SimpleCopyBothServerDone_phase"
| "backend_phase_of Be_SimpleCopyBothDone = backend_SimpleCopyBothDone_phase"
| "backend_phase_of Be_SimpleCopyBothFailed = backend_SimpleCopyBothFailed_phase"
| "backend_phase_of Be_ExtendedCopyBoth = backend_ExtendedCopyBoth_phase"
| "backend_phase_of Be_ExtendedCopyBothClientDone = backend_ExtendedCopyBothClientDone_phase"
| "backend_phase_of Be_ExtendedCopyBothServerDone = backend_ExtendedCopyBothServerDone_phase"
| "backend_phase_of Be_ExtendedCopyBothDone = backend_ExtendedCopyBothDone_phase"
| "backend_phase_of Be_ExtendedCopyBothFailed = backend_ExtendedCopyBothFailed_phase"
| "backend_phase_of Be_Terminated = backend_Terminated_phase"

lemmas backend_phase_defs =
  backend_Ready_phase_def
  backend_Simple_phase_def
  backend_SimpleError_phase_def
  backend_Building_phase_def
  backend_ParseResponse_phase_def
  backend_BindResponse_phase_def
  backend_DescribeResponse_phase_def
  backend_ExecuteResponse_phase_def
  backend_CloseResponse_phase_def
  backend_ExtendedError_phase_def
  backend_SyncResponse_phase_def
  backend_FunctionResponse_phase_def
  backend_FunctionReady_phase_def
  backend_SimpleCopyIn_phase_def
  backend_SimpleCopyInDone_phase_def
  backend_SimpleCopyInFailed_phase_def
  backend_SimpleCopyOut_phase_def
  backend_SimpleCopyOutDone_phase_def
  backend_SimpleCopyReady_phase_def
  backend_ExtendedCopyIn_phase_def
  backend_ExtendedCopyInDone_phase_def
  backend_ExtendedCopyInFailed_phase_def
  backend_ExtendedCopyOut_phase_def
  backend_ExtendedCopyOutDone_phase_def
  backend_SimpleCopyBoth_phase_def
  backend_SimpleCopyBothClientDone_phase_def
  backend_SimpleCopyBothServerDone_phase_def
  backend_SimpleCopyBothDone_phase_def
  backend_SimpleCopyBothFailed_phase_def
  backend_ExtendedCopyBoth_phase_def
  backend_ExtendedCopyBothClientDone_phase_def
  backend_ExtendedCopyBothServerDone_phase_def
  backend_ExtendedCopyBothDone_phase_def
  backend_ExtendedCopyBothFailed_phase_def
  backend_Terminated_phase_def

lemma backend_lookup: "filter (\<lambda>st. st_name st = s) (p_states backend) = [backend_phase_of s]"
  by (cases s) (simp_all add: backend_def backend_phase_defs grammar_defs)

lemmas backend_project = project_lookup [OF backend_lookup]

lemmas backend_transition = transition_lookup [OF backend_lookup]

interpretation backend_grammar: grammar backend
  by unfold_locales (code_simp, code_simp)

section \<open>\<open>server_authentication\<close>\<close>

datatype (plugins only: code) server_authentication_state =
    Sa_Startup | Sa_Auth | Sa_PasswordResponse | Sa_SaslInitial | Sa_Sasl | Sa_SaslResponse
    | Sa_TokenResponse | Sa_TokenPolicy | Sa_StartupReady | Sa_Ready | Sa_Terminated

datatype (plugins only: code) server_authentication_event =
    SaE_Begin | SaE_Reject | SaE_Negotiate | SaE_Cleartext | SaE_Md5 | SaE_Sasl | SaE_Gss
    | SaE_Sspi | SaE_KerberosV5 | SaE_Ok | SaE_Error | SaE_Response | SaE_Initial | SaE_Continue
    | SaE_Final | SaE_Verified | SaE_ParameterStatus | SaE_BackendKeyData | SaE_Ready

definition server_authentication_Startup_phase :: "(server_authentication_state, server_authentication_event, BackendMessage, FrontendMessage) State" where
  "server_authentication_Startup_phase = phase Sa_Startup Internal
       [edge SaE_Begin ''begin'' Sa_Auth None
         None,
        edge SaE_Reject ''reject'' Sa_Terminated None
         (Some (On_internal is_B_ErrorResponse))]"

definition server_authentication_Auth_phase :: "(server_authentication_state, server_authentication_event, BackendMessage, FrontendMessage) State" where
  "server_authentication_Auth_phase = phase Sa_Auth Internal
       [edge SaE_Negotiate ''negotiate'' Sa_Auth None
         (Some (On_internal is_B_NegotiateProtocolVersion)),
        edge SaE_Cleartext ''cleartext'' Sa_PasswordResponse None
         (Some (On_internal (\<lambda>m. m = B_Authentication Auth_CleartextPassword))),
        edge SaE_Md5 ''md5'' Sa_PasswordResponse None
         (Some (On_internal (\<lambda>m. authentication_is is_Auth_Md5Password m))),
        edge SaE_Sasl ''sasl'' Sa_SaslInitial None
         (Some (On_internal (\<lambda>m. authentication_is is_Auth_Sasl m))),
        edge SaE_Gss ''gss'' Sa_TokenResponse None
         (Some (On_internal (\<lambda>m. m = B_Authentication Auth_Gss))),
        edge SaE_Sspi ''sspi'' Sa_TokenResponse None
         (Some (On_internal (\<lambda>m. m = B_Authentication Auth_Sspi))),
        edge SaE_KerberosV5 ''kerberos_v5'' Sa_TokenResponse None
         (Some (On_internal (\<lambda>m. m = B_Authentication Auth_KerberosV5))),
        edge SaE_Ok ''ok'' Sa_StartupReady None
         (Some (On_internal (\<lambda>m. m = B_Authentication Auth_Ok))),
        edge SaE_Error ''error'' Sa_Terminated None
         (Some (On_internal is_B_ErrorResponse))]"

definition server_authentication_PasswordResponse_phase :: "(server_authentication_state, server_authentication_event, BackendMessage, FrontendMessage) State" where
  "server_authentication_PasswordResponse_phase = phase Sa_PasswordResponse External
       [edge SaE_Response ''response'' Sa_Auth None
         (Some (On_external is_F_PasswordResponse))]"

definition server_authentication_SaslInitial_phase :: "(server_authentication_state, server_authentication_event, BackendMessage, FrontendMessage) State" where
  "server_authentication_SaslInitial_phase = phase Sa_SaslInitial External
       [edge SaE_Initial ''initial'' Sa_Sasl None
         (Some (On_external is_F_PasswordResponse))]"

definition server_authentication_Sasl_phase :: "(server_authentication_state, server_authentication_event, BackendMessage, FrontendMessage) State" where
  "server_authentication_Sasl_phase = phase Sa_Sasl Internal
       [edge SaE_Continue ''continue_response'' Sa_SaslResponse None
         (Some (On_internal (\<lambda>m. authentication_is is_Auth_SaslContinue m))),
        edge SaE_Final ''final_response'' Sa_Auth None
         (Some (On_internal (\<lambda>m. authentication_is is_Auth_SaslFinal m))),
        edge SaE_Error ''error'' Sa_Terminated None
         (Some (On_internal is_B_ErrorResponse))]"

definition server_authentication_SaslResponse_phase :: "(server_authentication_state, server_authentication_event, BackendMessage, FrontendMessage) State" where
  "server_authentication_SaslResponse_phase = phase Sa_SaslResponse External
       [edge SaE_Response ''response'' Sa_Sasl None
         (Some (On_external is_F_PasswordResponse))]"

definition server_authentication_TokenResponse_phase :: "(server_authentication_state, server_authentication_event, BackendMessage, FrontendMessage) State" where
  "server_authentication_TokenResponse_phase = phase Sa_TokenResponse External
       [edge SaE_Response ''response'' Sa_TokenPolicy None
         (Some (On_external is_F_PasswordResponse))]"

definition server_authentication_TokenPolicy_phase :: "(server_authentication_state, server_authentication_event, BackendMessage, FrontendMessage) State" where
  "server_authentication_TokenPolicy_phase = phase Sa_TokenPolicy Internal
       [edge SaE_Continue ''continue_token'' Sa_TokenResponse None
         (Some (On_internal (\<lambda>m. authentication_is is_Auth_GssContinue m))),
        edge SaE_Verified ''verified'' Sa_Auth None
         None,
        edge SaE_Error ''error'' Sa_Terminated None
         (Some (On_internal is_B_ErrorResponse))]"

definition server_authentication_StartupReady_phase :: "(server_authentication_state, server_authentication_event, BackendMessage, FrontendMessage) State" where
  "server_authentication_StartupReady_phase = phase Sa_StartupReady Internal
       [edge SaE_ParameterStatus ''parameter_status'' Sa_StartupReady None
         (Some (On_internal is_B_ParameterStatus)),
        edge SaE_BackendKeyData ''backend_key_data'' Sa_StartupReady None
         (Some (On_internal is_B_BackendKeyData)),
        edge SaE_Ready ''ready'' Sa_Ready None
         (Some (On_internal is_B_ReadyForQuery))]"

definition server_authentication_Ready_phase :: "(server_authentication_state, server_authentication_event, BackendMessage, FrontendMessage) State" where
  "server_authentication_Ready_phase = phase Sa_Ready External
       []"

definition server_authentication_Terminated_phase :: "(server_authentication_state, server_authentication_event, BackendMessage, FrontendMessage) State" where
  "server_authentication_Terminated_phase = phase Sa_Terminated External
       []"

definition server_authentication :: "(server_authentication_state, server_authentication_event, BackendMessage, FrontendMessage) Protocol" where
  "server_authentication = \<lparr>p_initial = Sa_Startup, p_states =
     [server_authentication_Startup_phase,
      server_authentication_Auth_phase,
      server_authentication_PasswordResponse_phase,
      server_authentication_SaslInitial_phase,
      server_authentication_Sasl_phase,
      server_authentication_SaslResponse_phase,
      server_authentication_TokenResponse_phase,
      server_authentication_TokenPolicy_phase,
      server_authentication_StartupReady_phase,
      server_authentication_Ready_phase,
      server_authentication_Terminated_phase]\<rparr>"

fun server_authentication_phase_of :: "server_authentication_state \<Rightarrow> (server_authentication_state, server_authentication_event, BackendMessage, FrontendMessage) State" where
  "server_authentication_phase_of Sa_Startup = server_authentication_Startup_phase"
| "server_authentication_phase_of Sa_Auth = server_authentication_Auth_phase"
| "server_authentication_phase_of Sa_PasswordResponse = server_authentication_PasswordResponse_phase"
| "server_authentication_phase_of Sa_SaslInitial = server_authentication_SaslInitial_phase"
| "server_authentication_phase_of Sa_Sasl = server_authentication_Sasl_phase"
| "server_authentication_phase_of Sa_SaslResponse = server_authentication_SaslResponse_phase"
| "server_authentication_phase_of Sa_TokenResponse = server_authentication_TokenResponse_phase"
| "server_authentication_phase_of Sa_TokenPolicy = server_authentication_TokenPolicy_phase"
| "server_authentication_phase_of Sa_StartupReady = server_authentication_StartupReady_phase"
| "server_authentication_phase_of Sa_Ready = server_authentication_Ready_phase"
| "server_authentication_phase_of Sa_Terminated = server_authentication_Terminated_phase"

lemmas server_authentication_phase_defs =
  server_authentication_Startup_phase_def
  server_authentication_Auth_phase_def
  server_authentication_PasswordResponse_phase_def
  server_authentication_SaslInitial_phase_def
  server_authentication_Sasl_phase_def
  server_authentication_SaslResponse_phase_def
  server_authentication_TokenResponse_phase_def
  server_authentication_TokenPolicy_phase_def
  server_authentication_StartupReady_phase_def
  server_authentication_Ready_phase_def
  server_authentication_Terminated_phase_def

lemma server_authentication_lookup: "filter (\<lambda>st. st_name st = s) (p_states server_authentication) = [server_authentication_phase_of s]"
  by (cases s) (simp_all add: server_authentication_def server_authentication_phase_defs grammar_defs)

lemmas server_authentication_project = project_lookup [OF server_authentication_lookup]

lemmas server_authentication_transition = transition_lookup [OF server_authentication_lookup]

interpretation server_authentication_grammar: grammar server_authentication
  by unfold_locales (code_simp, code_simp)

end
