(* ===== verification/Grammar_Laws.thy ===== *)
theory Grammar_Laws
  imports Grammar
begin

text \<open>
  What holds of the six grammars as they are written: each passes the macro's checks and its lookups
  are complete, every wire message denotes at most one event in a phase, no phase is a dead end, and
  the two roles of a sub-protocol stay in step when they exchange messages.
\<close>

section \<open>Unambiguous projections\<close>

definition matching :: "(('m \<Rightarrow> bool) \<times> 'e) list \<Rightarrow> 'm \<Rightarrow> 'e list" where
  "matching arms m = map snd (filter (\<lambda>arm. fst arm m) arms)"

lemma first_arm_matching: "first_arm arms m = (case matching arms m of [] \<Rightarrow> None | e # _ \<Rightarrow> Some e)"
  by (induction arms m rule: first_arm.induct) (auto simp: matching_def)

lemmas arm_eval = internal_arms_def external_arms_def choice_of_def grammar_defs matching_def
  authentication_is_def

lemma frontend_internal_unambiguous: "length (matching (internal_arms (frontend_phase_of s)) m) \<le> 1"
  by (cases s; cases m; simp add: frontend_phase_defs arm_eval)

lemma frontend_external_unambiguous: "length (matching (external_arms (frontend_phase_of s)) m) \<le> 1"
  by (cases s; cases m; simp add: frontend_phase_defs arm_eval)

lemma pre_startup_internal_unambiguous: "length (matching (internal_arms (pre_startup_phase_of s)) m) \<le> 1"
  by (cases s; cases m; simp add: pre_startup_phase_defs arm_eval)

lemma pre_startup_external_unambiguous: "length (matching (external_arms (pre_startup_phase_of s)) m) \<le> 1"
  by (cases s; cases m; simp add: pre_startup_phase_defs arm_eval)

lemma server_pre_startup_internal_unambiguous: "length (matching (internal_arms (server_pre_startup_phase_of s)) m) \<le> 1"
  by (cases s; cases m; simp add: server_pre_startup_phase_defs arm_eval)

lemma server_pre_startup_external_unambiguous: "length (matching (external_arms (server_pre_startup_phase_of s)) m) \<le> 1"
  by (cases s; cases m; simp add: server_pre_startup_phase_defs arm_eval)

lemma authentication_internal_unambiguous: "length (matching (internal_arms (authentication_phase_of s)) m) \<le> 1"
  by (cases s; cases m; simp add: authentication_phase_defs arm_eval)

lemma authentication_external_unambiguous: "length (matching (external_arms (authentication_phase_of s)) m) \<le> 1"
  apply (cases s; cases m; simp add: authentication_phase_defs arm_eval)
  subgoal for a by (cases a) simp_all
  subgoal for a by (cases a) simp_all
  done

lemma backend_internal_unambiguous: "length (matching (internal_arms (backend_phase_of s)) m) \<le> 1"
  by (cases s; cases m; simp add: backend_phase_defs arm_eval)

lemma backend_external_unambiguous: "length (matching (external_arms (backend_phase_of s)) m) \<le> 1"
  by (cases s; cases m; simp add: backend_phase_defs arm_eval)

lemma server_authentication_internal_unambiguous: "length (matching (internal_arms (server_authentication_phase_of s)) m) \<le> 1"
  apply (cases s; cases m; simp add: server_authentication_phase_defs arm_eval)
  subgoal for a by (cases a) simp_all
  subgoal for a by (cases a) simp_all
  done

lemma server_authentication_external_unambiguous: "length (matching (external_arms (server_authentication_phase_of s)) m) \<le> 1"
  by (cases s; cases m; simp add: server_authentication_phase_defs arm_eval)

section \<open>No dead ends\<close>

text \<open>The phases from which a goal is reached in at most \<open>n\<close> events, computed backwards.\<close>

fun coreach :: "('s, 'e, 'i, 'x) Protocol \<Rightarrow> nat \<Rightarrow> 's list \<Rightarrow> 's list" where
  "coreach p 0 goals = goals"
| "coreach p (Suc n) goals =
     coreach p n (remdups (goals @ map rt_source (filter (\<lambda>t. rt_target t \<in> set goals) (TRANSITIONS p))))"

context grammar
begin

lemma coreach_leads_to:
  assumes "\<And>s. s \<in> set goals \<Longrightarrow> leads_to p s goal"
  shows "s \<in> set (coreach p n goals) \<Longrightarrow> leads_to p s goal"
  using assms
proof (induction n arbitrary: goals)
  case 0
  then show ?case by simp
next
  case (Suc n)
  show ?case
  proof (rule Suc.IH)
    show "s \<in> set (coreach p n (remdups (goals @ map rt_source
        (filter (\<lambda>t. rt_target t \<in> set goals) (TRANSITIONS p)))))"
      using Suc.prems(1) by simp
    fix s'
    assume "s' \<in> set (remdups (goals @ map rt_source (filter (\<lambda>t. rt_target t \<in> set goals) (TRANSITIONS p))))"
    then consider "s' \<in> set goals"
      | t where "t \<in> set (TRANSITIONS p)" "rt_target t \<in> set goals" "s' = rt_source t" by auto
    then show "leads_to p s' goal"
    proof cases
      case (2 t)
      then have "step p s' (rt_event t) = (Inr (), rt_target t)"
        using transition_complete by (simp add: step_def)
      with 2 Suc.prems(2) show ?thesis by (auto intro: leads_to.step)
    qed (rule Suc.prems(2))
  qed
qed

lemma coreach_goal: "s \<in> set (coreach p n [goal]) \<Longrightarrow> leads_to p s goal"
  by (rule coreach_leads_to) (auto intro: leads_to.refl)

end

definition no_dead_ends :: "('s, 'e, 'i, 'x) Protocol \<Rightarrow> nat \<Rightarrow> 's \<Rightarrow> 's list \<Rightarrow> bool" where
  "no_dead_ends p n goal ends = (let r = coreach p n [goal] in
     list_all (\<lambda>st. st_name st \<in> set ends \<or> st_name st \<in> set r) (p_states p))"

lemma lookup_declared: "filter (\<lambda>st. st_name st = s) sts = [st] \<Longrightarrow> s \<in> st_name ` set sts"
  by (metis (mono_tags, lifting) filter_eq_ConsD imageI in_set_conv_decomp)

context grammar
begin

lemma live:
  assumes "no_dead_ends p n goal ends" "filter (\<lambda>st. st_name st = s) (p_states p) = [st]"
  shows "s \<in> set ends \<or> leads_to p s goal"
  using assms(1) lookup_declared [OF assms(2)] coreach_goal
  by (auto simp: no_dead_ends_def Let_def list_all_iff)

end

lemma backend_no_dead_ends: "no_dead_ends backend 8 Be_Ready [Be_Terminated]"
  by code_simp

lemma frontend_no_dead_ends: "no_dead_ends frontend 4 Fe_Ready [Fe_Terminated]"
  by code_simp

lemma authentication_no_dead_ends: "no_dead_ends authentication 8 Au_Ready [Au_Terminated]"
  by code_simp

lemma server_authentication_no_dead_ends: "no_dead_ends server_authentication 8 Sa_Ready [Sa_Terminated]"
  by code_simp

lemma pre_startup_no_dead_ends: "no_dead_ends pre_startup 4 Ps_Auth [Ps_Terminated]"
  by code_simp

lemma server_pre_startup_no_dead_ends: "no_dead_ends server_pre_startup 4 Sp_Auth [Sp_Terminated]"
  by code_simp

section \<open>The two roles in step\<close>

lemmas run_eval = follows_def next_phase_def step_def

lemmas frontend_eval = frontend_project frontend_transition frontend_phase_defs
lemmas backend_eval = backend_project backend_transition backend_phase_defs
lemmas pre_startup_eval = pre_startup_project pre_startup_transition pre_startup_phase_defs
lemmas server_pre_startup_eval =
  server_pre_startup_project server_pre_startup_transition server_pre_startup_phase_defs

text \<open>Corresponding phases of a client and a server outside the extended-query protocol.\<close>

definition session_pairs :: "(frontend_state \<times> backend_state) list" where
  "session_pairs =
     [(Fe_Ready, Be_Ready), (Fe_Terminated, Be_Terminated),
      (Fe_Simple, Be_Simple), (Fe_Draining, Be_SimpleError),
      (Fe_FunctionCalling, Be_FunctionResponse), (Fe_AwaitingReady, Be_FunctionReady),
      (Fe_Draining, Be_FunctionReady),
      (Fe_CopyIn, Be_SimpleCopyIn), (Fe_AwaitingReady, Be_SimpleCopyInDone),
      (Fe_AwaitingReady, Be_SimpleCopyInFailed), (Fe_AwaitingReady, Be_SimpleCopyReady),
      (Fe_Draining, Be_SimpleCopyReady),
      (Fe_CopyOut, Be_SimpleCopyOut), (Fe_AwaitingReady, Be_SimpleCopyOutDone),
      (Fe_CopyBoth, Be_SimpleCopyBoth), (Fe_CopyBothClientDone, Be_SimpleCopyBothClientDone),
      (Fe_CopyBothServerDone, Be_SimpleCopyBothServerDone), (Fe_AwaitingReady, Be_SimpleCopyBothDone)]"

lemma session_sends: "list_all (\<lambda>st. follows frontend backend session_pairs st m) session_pairs"
  by (cases m) (simp_all add: session_pairs_def run_eval frontend_eval backend_eval arm_eval)

lemma session_receives:
  "list_all (\<lambda>ts. follows backend frontend (map prod.swap session_pairs) ts n) (map prod.swap session_pairs)"
  by (cases n) (simp_all add: session_pairs_def run_eval frontend_eval backend_eval arm_eval)

definition pre_startup_pairs :: "(pre_startup_state \<times> server_pre_startup_state) list" where
  "pre_startup_pairs =
     [(Ps_PreStartup, Sp_PreStartup), (Ps_AwaitingSslReply, Sp_SslDecision),
      (Ps_AwaitingGssReply, Sp_GssDecision), (Ps_TlsHandshake, Sp_TlsHandshake),
      (Ps_GssHandshake, Sp_GssHandshake), (Ps_Auth, Sp_Auth), (Ps_Terminated, Sp_Terminated)]"

lemma pre_startup_sends:
  "list_all (\<lambda>st. follows pre_startup server_pre_startup pre_startup_pairs st m) pre_startup_pairs"
  by (cases m) (simp_all add: pre_startup_pairs_def run_eval pre_startup_eval server_pre_startup_eval arm_eval)

lemma pre_startup_receives:
  "list_all (\<lambda>ts. follows server_pre_startup pre_startup (map prod.swap pre_startup_pairs) ts n)
     (map prod.swap pre_startup_pairs)"
  by (cases n) (simp_all add: pre_startup_pairs_def run_eval pre_startup_eval server_pre_startup_eval arm_eval)

text \<open>The phases a client and a server can be in together while they authenticate.\<close>

definition auth_pairs :: "(authentication_state \<times> server_authentication_state) list" where
  "auth_pairs =
     [(Au_Auth, Sa_Startup), (Au_Auth, Sa_Auth), (Au_PasswordResponse, Sa_PasswordResponse),
      (Au_SaslInitial, Sa_SaslInitial), (Au_TokenResponse, Sa_TokenResponse),
      (Au_AwaitingStartupReady, Sa_StartupReady), (Au_Terminated, Sa_Terminated),
      (Au_AwaitingAuthOk, Sa_Auth), (Au_Sasl, Sa_Sasl), (Au_SaslChallenge, Sa_SaslResponse),
      (Au_SaslFinal, Sa_Auth), (Au_TokenChallenge, Sa_TokenPolicy), (Au_TokenChallenge, Sa_Auth),
      (Au_Ready, Sa_Ready)]"

lemmas auth_eval = authentication_project authentication_transition authentication_phase_defs
  server_authentication_project server_authentication_transition server_authentication_phase_defs

lemma auth_sends: "list_all (\<lambda>st. follows authentication server_authentication auth_pairs st m) auth_pairs"
  by (cases m) (simp_all add: auth_pairs_def run_eval auth_eval arm_eval)

lemma auth_receives_wire:
  "list_all (\<lambda>ts. joint_ok server_authentication authentication (map prod.swap auth_pairs) ts n)
     (map prod.swap auth_pairs)"
proof (cases n)
  case (B_Authentication a)
  then show ?thesis
    by (cases a) (simp_all add: auth_pairs_def joint_ok_def next_phase_def step_def auth_eval arm_eval)
qed (simp_all add: auth_pairs_def joint_ok_def next_phase_def step_def auth_eval arm_eval)

lemma auth_sends_wire: "list_all (\<lambda>st. joint_ok authentication server_authentication auth_pairs st m) auth_pairs"
  using auth_sends [of m] by (auto simp: list_all_iff joint_ok_def follows_def split: option.splits)

lemma auth_local:
  "list_all (\<lambda>(s, t). list_all (\<lambda>s'. (s', t) \<in> set auth_pairs) (local_targets authentication s)) auth_pairs"
  "list_all (\<lambda>(s, t). list_all (\<lambda>t'. (s, t') \<in> set auth_pairs) (local_targets server_authentication t)) auth_pairs"
  by code_simp+

lemma auth_conversation: "conversation authentication server_authentication s t \<Longrightarrow> (s, t) \<in> set auth_pairs"
  using conversation_in [OF _ auth_sends_wire auth_receives_wire auth_local]
  by (simp add: fsm_new_def authentication_def server_authentication_def auth_pairs_def)

section \<open>Properties\<close>


text \<open>
  Projection never strands the machine: in every phase a frontend message that the backend
  grammar projects moves the runtime FSM to the target of an external transition, and one it does not
  project leaves the phase unchanged with an error; likewise for the messages the backend sends.
\<close>

theorem backend_projection_total:
  "step_projected backend (project_external backend) s m =
     (case project_external backend s m of
        None \<Rightarrow> (Inl s, s) | Some e \<Rightarrow> (Inr e, rt_target (the (transition backend s e)))) \<and>
   step_projected backend (project_internal backend) s n =
     (case project_internal backend s n of
        None \<Rightarrow> (Inl s, s) | Some e \<Rightarrow> (Inr e, rt_target (the (transition backend s e)))) \<and>
   (case project_external backend s m of None \<Rightarrow> True | Some e \<Rightarrow> event_choice backend s e = Some External) \<and>
   (case project_internal backend s n of None \<Rightarrow> True | Some e \<Rightarrow> event_choice backend s e = Some Internal)"
  by (auto simp: backend_grammar.step_projected_external backend_grammar.step_projected_internal
      event_choice_def split: option.split
      elim: backend_grammar.project_external_transition backend_grammar.project_internal_transition)

text \<open>
  A wire message denotes at most one event: in every phase of every grammar at most one arm of
  the projection matches a given message, so the order of the arms does not matter.
\<close>

theorem projections_unambiguous:
  "length (matching (internal_arms (frontend_phase_of s1)) f) \<le> 1 \<and>
   length (matching (external_arms (frontend_phase_of s1)) b) \<le> 1 \<and>
   length (matching (internal_arms (backend_phase_of s2)) b) \<le> 1 \<and>
   length (matching (external_arms (backend_phase_of s2)) f) \<le> 1 \<and>
   length (matching (internal_arms (authentication_phase_of s3)) f) \<le> 1 \<and>
   length (matching (external_arms (authentication_phase_of s3)) b) \<le> 1 \<and>
   length (matching (internal_arms (server_authentication_phase_of s4)) b) \<le> 1 \<and>
   length (matching (external_arms (server_authentication_phase_of s4)) f) \<le> 1 \<and>
   length (matching (internal_arms (pre_startup_phase_of s5)) q) \<le> 1 \<and>
   length (matching (external_arms (pre_startup_phase_of s5)) r) \<le> 1 \<and>
   length (matching (internal_arms (server_pre_startup_phase_of s6)) r) \<le> 1 \<and>
   length (matching (external_arms (server_pre_startup_phase_of s6)) q) \<le> 1"
  by (intro conjI frontend_internal_unambiguous frontend_external_unambiguous
      backend_internal_unambiguous backend_external_unambiguous
      authentication_internal_unambiguous authentication_external_unambiguous
      server_authentication_internal_unambiguous server_authentication_external_unambiguous
      pre_startup_internal_unambiguous pre_startup_external_unambiguous
      server_pre_startup_internal_unambiguous server_pre_startup_external_unambiguous)

text \<open>
  No phase is a dead end: from every phase but termination a session can get back to \<open>Ready\<close> in
  either role, authentication can still complete, and pre-startup can still reach startup.
\<close>

theorem grammars_live:
  "(sf = Fe_Terminated \<or> leads_to frontend sf Fe_Ready) \<and>
   (sb = Be_Terminated \<or> leads_to backend sb Be_Ready) \<and>
   (sa = Au_Terminated \<or> leads_to authentication sa Au_Ready) \<and>
   (ss = Sa_Terminated \<or> leads_to server_authentication ss Sa_Ready) \<and>
   (sp = Ps_Terminated \<or> leads_to pre_startup sp Ps_Auth) \<and>
   (sq = Sp_Terminated \<or> leads_to server_pre_startup sq Sp_Auth)"
  using frontend_grammar.live [OF frontend_no_dead_ends frontend_lookup, of sf]
    backend_grammar.live [OF backend_no_dead_ends backend_lookup, of sb]
    authentication_grammar.live [OF authentication_no_dead_ends authentication_lookup, of sa]
    server_authentication_grammar.live [OF server_authentication_no_dead_ends server_authentication_lookup, of ss]
    pre_startup_grammar.live [OF pre_startup_no_dead_ends pre_startup_lookup, of sp]
    server_pre_startup_grammar.live [OF server_pre_startup_no_dead_ends server_pre_startup_lookup, of sq]
  by simp



text \<open>
  The two pre-startup roles are duals: from every pair of corresponding phases, a message that
  either role may send is accepted by the other and leads to corresponding phases again.
\<close>

theorem pre_startup_roles_dual:
  "list_all (\<lambda>st. follows pre_startup server_pre_startup pre_startup_pairs st m) pre_startup_pairs \<and>
   list_all (\<lambda>ts. follows server_pre_startup pre_startup (map prod.swap pre_startup_pairs) ts n)
     (map prod.swap pre_startup_pairs) \<and>
   (fsm_new pre_startup, fsm_new server_pre_startup) \<in> set pre_startup_pairs"
  using pre_startup_sends [of m] pre_startup_receives [of n]
  by (simp add: fsm_new_def pre_startup_def server_pre_startup_def pre_startup_pairs_def)

text \<open>
  While a client and a server authenticate, with their local steps in any order, the server
  accepts every message the client may send, and the client is ready only when the server is.
\<close>

theorem authentication_client_accepted:
  assumes "conversation authentication server_authentication s t"
  shows "(project_internal authentication s m = None \<or> project_external server_authentication t m \<noteq> None) \<and>
    (s = Au_Ready) = (t = Sa_Ready)"
proof -
  have pair: "(s, t) \<in> set auth_pairs" using assms by (rule auth_conversation)
  then have "follows authentication server_authentication auth_pairs (s, t) m"
    using auth_sends [of m] by (auto simp: list_all_iff)
  moreover have "(s = Au_Ready) = (t = Sa_Ready)" using pair by (auto simp: auth_pairs_def)
  ultimately show ?thesis by (auto simp: follows_def split: option.splits)
qed

theorem authentication_client_accepted_witness:
  "project_internal authentication Au_PasswordResponse (F_PasswordResponse []) \<noteq> None \<and>
   project_external server_authentication Sa_PasswordResponse (F_PasswordResponse []) \<noteq> None"
proof -
  let ?m = "B_Authentication Auth_CleartextPassword"
  have "conversation authentication server_authentication Au_Auth Sa_Startup"
    using conversation.start [of authentication server_authentication]
    by (simp add: fsm_new_def authentication_def server_authentication_def)
  moreover have "Sa_Auth \<in> set (local_targets server_authentication Sa_Startup)" by code_simp
  ultimately have "conversation authentication server_authentication Au_Auth Sa_Auth"
    by (rule conversation.local_right)
  moreover have "project_internal server_authentication Sa_Auth ?m = Some SaE_Cleartext"
    "project_external authentication Au_Auth ?m = Some AuE_Cleartext"
    by (simp_all add: auth_eval arm_eval)
  ultimately have "conversation authentication server_authentication
      (next_phase authentication Au_Auth AuE_Cleartext) (next_phase server_authentication Sa_Auth SaE_Cleartext)"
    by (rule conversation.receive)
  then have "conversation authentication server_authentication Au_PasswordResponse Sa_PasswordResponse"
    by (simp add: next_phase_def step_def auth_eval grammar_defs)
  from authentication_client_accepted [OF this, of "F_PasswordResponse []"]
  show ?thesis by (simp add: auth_eval arm_eval)
qed

end
