(* ===== verification/Demux.thy ===== *)
theory Demux
  imports Codec_Backend
begin

text \<open>
  \<open>src/demux.rs\<close>: the projection from decoded backend messages to the session stream.  \<open>route\<close> consumes
  the messages that are causally independent of the session (notices, parameter updates, notifications)
  and returns the others, with the notices of a command attached to its completion.  Queues are lists,
  front first; the parameter maps are ordered maps.
\<close>

section \<open>State\<close>

type_synonym CommandIndex = u64

record TaggedNotice =
  notice_command :: CommandIndex
  notice_fields :: DiagnosticResponse

record Notification =
  notification_process_id :: u32
  notification_channel :: bytes
  notification_payload :: bytes

record ParameterStatus =
  status_name :: bytes
  status_value :: bytes

datatype AsyncEvent =
    Async_Notice TaggedNotice
  | Async_ParameterStatus ParameterStatus
  | Async_Notification Notification

record OrderedAsyncEvent =
  async_sequence :: u64
  async_command :: CommandIndex
  async_event :: AsyncEvent

record CancelKey =
  key_process_id :: u32
  key_secret :: bytes

datatype SessionItem =
    Item_Message BackendMessage
  | Item_ReadyForQuery TransactionStatus bool
  | Item_CommandComplete bytes CommandIndex "TaggedNotice list"

fun into_backend_message :: "SessionItem \<Rightarrow> BackendMessage" where
  "into_backend_message (Item_Message m) = m"
| "into_backend_message (Item_ReadyForQuery status _) = B_ReadyForQuery status"
| "into_backend_message (Item_CommandComplete tag _ _) = B_CommandComplete tag"

record Demux =
  dx_command :: CommandIndex
  dx_pending_notices :: "TaggedNotice list"
  dx_notices :: "TaggedNotice list"
  dx_notifications :: "Notification list"
  dx_parameter_statuses :: "ParameterStatus list"
  dx_async_events :: "OrderedAsyncEvent list"
  dx_next_async_sequence :: u64
  dx_parameters :: "(bytes, bytes) btree"
  dx_startup_parameters :: "(bytes, bytes) btree option"
  dx_parameters_changed :: bool
  dx_cancel_key :: "CancelKey option"
  dx_transaction_status :: "TransactionStatus option"

definition Demux_default :: Demux where
  "Demux_default = \<lparr>dx_command = 0, dx_pending_notices = [], dx_notices = [], dx_notifications = [],
     dx_parameter_statuses = [], dx_async_events = [], dx_next_async_sequence = 0, dx_parameters = [],
     dx_startup_parameters = None, dx_parameters_changed = False, dx_cancel_key = None,
     dx_transaction_status = None\<rparr>"

lemma Demux_default_simps [simp]:
  "dx_async_events Demux_default = []" "dx_pending_notices Demux_default = []" "dx_parameters Demux_default = []"
  by (simp_all add: Demux_default_def)

section \<open>Operations\<close>

fun is_asynchronous :: "BackendMessage \<Rightarrow> bool" where
  "is_asynchronous (B_NoticeResponse _) = True"
| "is_asynchronous (B_ParameterStatus _ _) = True"
| "is_asynchronous (B_NotificationResponse _ _ _) = True"
| "is_asynchronous (B_BackendKeyData _ _) = True"
| "is_asynchronous _ = False"

definition push_async :: "AsyncEvent \<Rightarrow> Demux \<Rightarrow> Demux" where
  "push_async event d = d\<lparr>dx_next_async_sequence := saturating_inc (dx_next_async_sequence d),
     dx_async_events := dx_async_events d @
       [\<lparr>async_sequence = dx_next_async_sequence d, async_command = dx_command d, async_event = event\<rparr>]\<rparr>"

fun route :: "Demux \<Rightarrow> BackendMessage \<Rightarrow> SessionItem option \<times> Demux" where
  "route d (B_NoticeResponse diagnostic) =
     (let notice = \<lparr>notice_command = dx_command d, notice_fields = diagnostic\<rparr>;
          d = d\<lparr>dx_pending_notices := dx_pending_notices d @ [notice]\<rparr>;
          d = d\<lparr>dx_notices := dx_notices d @ [notice]\<rparr>
      in (None, push_async (Async_Notice notice) d))"
| "route d (B_ParameterStatus name value) =
     (let d = d\<lparr>dx_parameters := snd (btree_insert name value (dx_parameters d))\<rparr>;
          status = \<lparr>status_name = name, status_value = value\<rparr>;
          d = d\<lparr>dx_parameter_statuses := dx_parameter_statuses d @ [status]\<rparr>;
          d = push_async (Async_ParameterStatus status) d;
          d = (case dx_startup_parameters d of
                 None \<Rightarrow> d
               | Some startup \<Rightarrow> d\<lparr>dx_parameters_changed := (dx_parameters d \<noteq> startup)\<rparr>)
      in (None, d))"
| "route d (B_NotificationResponse process_id channel payload) =
     (let notification = \<lparr>notification_process_id = process_id, notification_channel = channel,
            notification_payload = payload\<rparr>;
          d = d\<lparr>dx_notifications := dx_notifications d @ [notification]\<rparr>
      in (None, push_async (Async_Notification notification) d))"
| "route d (B_BackendKeyData process_id secret_key) =
     (Some (Item_Message (B_BackendKeyData process_id secret_key)),
      d\<lparr>dx_cancel_key := Some \<lparr>key_process_id = process_id, key_secret = secret_key\<rparr>\<rparr>)"
| "route d (B_ReadyForQuery status) =
     (let d = d\<lparr>dx_transaction_status := Some status\<rparr>;
          d = (if dx_startup_parameters d = None
               then d\<lparr>dx_startup_parameters := Some (dx_parameters d)\<rparr> else d)
      in (Some (Item_ReadyForQuery status (dx_parameters_changed d)), d))"
| "route d (B_CommandComplete tag) =
     (Some (Item_CommandComplete tag (dx_command d) (dx_pending_notices d)),
      d\<lparr>dx_pending_notices := [], dx_command := saturating_inc (dx_command d)\<rparr>)"
| "route d message = (Some (Item_Message message), d)"

text \<open>\<open>VecDeque::pop_front\<close>\<close>

fun pop_front :: "'a list \<Rightarrow> 'a option \<times> 'a list" where
  "pop_front [] = (None, [])"
| "pop_front (x # xs) = (Some x, xs)"

definition pop_notification :: "Demux \<Rightarrow> Notification option \<times> Demux" where
  "pop_notification d = (let (x, q) = pop_front (dx_notifications d) in (x, d\<lparr>dx_notifications := q\<rparr>))"

definition pop_notice :: "Demux \<Rightarrow> TaggedNotice option \<times> Demux" where
  "pop_notice d = (let (x, q) = pop_front (dx_notices d) in (x, d\<lparr>dx_notices := q\<rparr>))"

definition pop_parameter_status :: "Demux \<Rightarrow> ParameterStatus option \<times> Demux" where
  "pop_parameter_status d =
     (let (x, q) = pop_front (dx_parameter_statuses d) in (x, d\<lparr>dx_parameter_statuses := q\<rparr>))"

definition pop_async_event :: "Demux \<Rightarrow> OrderedAsyncEvent option \<times> Demux" where
  "pop_async_event d = (let (x, q) = pop_front (dx_async_events d) in (x, d\<lparr>dx_async_events := q\<rparr>))"

text \<open>The stream: every received message through \<open>route\<close>, the returned items in order.\<close>

fun route_all :: "Demux \<Rightarrow> BackendMessage list \<Rightarrow> SessionItem list \<times> Demux" where
  "route_all d [] = ([], d)"
| "route_all d (m # ms) =
     (let (item, d') = route d m; (items, d'') = route_all d' ms in
      (case item of None \<Rightarrow> items | Some i \<Rightarrow> i # items, d''))"

lemma route_all_Cons [simp]:
  "fst (route_all d (m # ms)) =
     (case fst (route d m) of None \<Rightarrow> [] | Some i \<Rightarrow> [i]) @ fst (route_all (snd (route d m)) ms)"
  "snd (route_all d (m # ms)) = snd (route_all (snd (route d m)) ms)"
  by (simp_all add: Let_def split: prod.splits option.splits)

declare route_all.simps(2) [simp del]

section \<open>What \<open>route\<close> consumes\<close>

definition consumed :: "BackendMessage \<Rightarrow> bool" where
  "consumed m = (is_B_NoticeResponse m \<or> is_B_ParameterStatus m \<or> is_B_NotificationResponse m)"

lemma push_async_simps [simp]:
  "dx_command (push_async e d) = dx_command d"
  "dx_pending_notices (push_async e d) = dx_pending_notices d"
  "dx_notices (push_async e d) = dx_notices d"
  "dx_parameters (push_async e d) = dx_parameters d"
  "dx_startup_parameters (push_async e d) = dx_startup_parameters d"
  "dx_parameters_changed (push_async e d) = dx_parameters_changed d"
  by (simp_all add: push_async_def)

lemma route_None_iff: "(fst (route d m) = None) = consumed m"
  by (cases m) (auto simp: consumed_def Let_def)

lemma route_Some: "fst (route d m) = Some i \<Longrightarrow> into_backend_message i = m"
  by (cases m) (auto simp: Let_def)

lemma route_cases: "(case fst (route d m) of None \<Rightarrow> consumed m | Some i \<Rightarrow> \<not> consumed m \<and> into_backend_message i = m)"
  using route_None_iff [of d m] route_Some [of d m] by (cases "fst (route d m)") auto

lemma route_all_fst: "map into_backend_message (fst (route_all d ms)) = filter (\<lambda>m. \<not> consumed m) ms"
proof (induction ms arbitrary: d)
  case (Cons m ms)
  then show ?case using route_cases [of m d] by (auto split: option.splits)
qed simp

section \<open>Notices\<close>

fun item_notices :: "SessionItem \<Rightarrow> TaggedNotice list" where
  "item_notices (Item_CommandComplete _ _ notices) = notices"
| "item_notices _ = []"

fun message_notices :: "BackendMessage \<Rightarrow> DiagnosticResponse list" where
  "message_notices (B_NoticeResponse diagnostic) = [diagnostic]"
| "message_notices _ = []"

lemma route_notices:
  "map notice_fields ((case fst (route d m) of None \<Rightarrow> [] | Some i \<Rightarrow> item_notices i) @ dx_pending_notices (snd (route d m))) =
   map notice_fields (dx_pending_notices d) @ message_notices m"
  by (cases m) (auto simp: Let_def split: option.splits)

lemma route_all_notices:
  "map notice_fields (concat (map item_notices (fst (route_all d ms))) @ dx_pending_notices (snd (route_all d ms))) =
   map notice_fields (dx_pending_notices d) @ concat (map message_notices ms)"
proof (induction ms arbitrary: d)
  case (Cons m ms)
  then show ?case
    using route_notices [of d m] by (auto split: option.splits)
qed simp

section \<open>Parameters\<close>

definition demux_inv :: "Demux \<Rightarrow> bool" where
  "demux_inv d = (btree_wf (dx_parameters d) \<and>
     (case dx_startup_parameters d of
        None \<Rightarrow> \<not> dx_parameters_changed d
      | Some startup \<Rightarrow> btree_wf startup \<and> dx_parameters_changed d = (dx_parameters d \<noteq> startup)) \<and>
     list_all (\<lambda>n. notice_command n = dx_command d) (dx_pending_notices d))"

lemma demux_inv_default: "demux_inv Demux_default"
  by (simp add: demux_inv_def Demux_default_def btree.wf_Nil)

lemma demux_inv_route: "demux_inv d \<Longrightarrow> demux_inv (snd (route d m))"
  by (cases m) (auto simp: demux_inv_def Let_def btree.wf_insert split: option.splits)

lemma demux_inv_pops:
  "demux_inv d \<Longrightarrow> demux_inv (snd (pop_notification d))"
  "demux_inv d \<Longrightarrow> demux_inv (snd (pop_notice d))"
  "demux_inv d \<Longrightarrow> demux_inv (snd (pop_parameter_status d))"
  "demux_inv d \<Longrightarrow> demux_inv (snd (pop_async_event d))"
  by (simp_all add: demux_inv_def pop_notification_def pop_notice_def pop_parameter_status_def
      pop_async_event_def split: prod.splits option.splits)

fun message_status :: "BackendMessage \<Rightarrow> (bytes \<times> bytes) list" where
  "message_status (B_ParameterStatus name value) = [(name, value)]"
| "message_status _ = []"

lemma route_parameters:
  "demux_inv d \<Longrightarrow> btree_get (dx_parameters (snd (route d m))) = btree_get (dx_parameters d) ++ map_of (message_status m)"
  by (cases m) (auto simp: demux_inv_def Let_def btree.get_insert fun_eq_iff split: option.splits)

lemma route_all_inv: "demux_inv d \<Longrightarrow> demux_inv (snd (route_all d ms))"
proof (induction ms arbitrary: d)
  case (Cons m ms)
  then show ?case using demux_inv_route [of d m] by simp
qed simp

lemma route_all_parameters:
  "demux_inv d \<Longrightarrow> btree_get (dx_parameters (snd (route_all d ms))) =
     btree_get (dx_parameters d) ++ map_of (rev (concat (map message_status ms)))"
proof (induction ms arbitrary: d)
  case (Cons m ms)
  have rev1: "rev (message_status m) = message_status m" by (cases m) simp_all
  show ?case
    using Cons.IH [OF demux_inv_route [OF Cons.prems, of m]] route_parameters [OF Cons.prems, of m]
    by (simp add: rev1 map_of_append)
qed simp

section \<open>Order of the asynchronous events\<close>

text \<open>The wire message an event was made from.\<close>

fun event_message :: "AsyncEvent \<Rightarrow> BackendMessage" where
  "event_message (Async_Notice n) = B_NoticeResponse (notice_fields n)"
| "event_message (Async_ParameterStatus st) = B_ParameterStatus (status_name st) (status_value st)"
| "event_message (Async_Notification n) =
     B_NotificationResponse (notification_process_id n) (notification_channel n) (notification_payload n)"

definition sequence_inv :: "Demux \<Rightarrow> bool" where
  "sequence_inv d = (unat (dx_next_async_sequence d) = min (length (dx_async_events d)) u64_max \<and>
     map (unat \<circ> async_sequence) (dx_async_events d) =
       map (\<lambda>i. min i u64_max) [0..<length (dx_async_events d)])"

lemma sequence_inv_default: "sequence_inv Demux_default"
  by (simp add: sequence_inv_def Demux_default_def)

lemma sequence_inv_route: "sequence_inv d \<Longrightarrow> sequence_inv (snd (route d m))"
  by (cases m) (auto simp: sequence_inv_def push_async_def Let_def saturating_inc_unat split: option.splits)

lemma route_events:
  "map (event_message \<circ> async_event) (dx_async_events (snd (route d m))) =
    map (event_message \<circ> async_event) (dx_async_events d) @ filter consumed [m]"
  by (cases m) (auto simp: Let_def push_async_def consumed_def split: option.splits)

lemma route_all_events:
  "map (event_message \<circ> async_event) (dx_async_events (snd (route_all d ms))) =
    map (event_message \<circ> async_event) (dx_async_events d) @ filter consumed ms"
proof (induction ms arbitrary: d)
  case (Cons m ms)
  then show ?case using route_events [of d m] by (auto simp: comp_def)
qed simp

lemma route_all_sequence_inv: "sequence_inv d \<Longrightarrow> sequence_inv (snd (route_all d ms))"
proof (induction ms arbitrary: d)
  case (Cons m ms)
  then show ?case using sequence_inv_route [of d m] by simp
qed simp

section \<open>Command attribution\<close>

fun item_attributed :: "SessionItem \<Rightarrow> bool" where
  "item_attributed (Item_CommandComplete _ command notices) = list_all (\<lambda>n. notice_command n = command) notices"
| "item_attributed _ = True"

lemma route_all_attributed: "demux_inv d \<Longrightarrow> list_all item_attributed (fst (route_all d ms))"
proof (induction ms arbitrary: d)
  case (Cons m ms)
  have "case fst (route d m) of None \<Rightarrow> True | Some i \<Rightarrow> item_attributed i"
    using Cons.prems by (cases m) (auto simp: demux_inv_def Let_def)
  with Cons.IH [OF demux_inv_route [OF Cons.prems, of m]] show ?case
    by (auto split: option.splits)
qed simp

section \<open>Properties\<close>

text \<open>
  The session stream is the wire stream without the asynchronous traffic: whatever the state of the
  demultiplexer, the items returned for a sequence of messages stand for exactly the messages that are
  not notices, parameter updates or notifications, in wire order and without loss.
\<close>

theorem demux_session_stream:
  "map into_backend_message (fst (route_all d ms)) = filter (\<lambda>m. \<not> consumed m) ms"
  by (rule route_all_fst)

text \<open>
  The asynchronous traffic is kept losslessly in wire order: from a fresh demultiplexer the queued
  events stand for exactly the consumed messages, numbered from zero without a gap (the counter
  saturates at the largest \<open>u64\<close>).
\<close>

theorem demux_async_order:
  "let events = dx_async_events (snd (route_all Demux_default ms)) in
     map (event_message \<circ> async_event) events = filter consumed ms \<and>
     map (unat \<circ> async_sequence) events = map (\<lambda>i. min i u64_max) [0..<length (filter consumed ms)]"
proof -
  let ?d = "snd (route_all Demux_default ms)"
  have events: "map (event_message \<circ> async_event) (dx_async_events ?d) = filter consumed ms"
    using route_all_events [of Demux_default ms] by simp
  then have "length (dx_async_events ?d) = length (filter consumed ms)"
    by (metis length_map)
  with events route_all_sequence_inv [OF sequence_inv_default, of ms] show ?thesis
    by (simp add: sequence_inv_def Let_def)
qed

text \<open>
  Notices are delivered exactly once and in order with the command they belong to: the notices
  attached to completed commands followed by the ones still pending are all the notices received, and
  every attached notice carries the index of the command it is attached to.
\<close>

theorem demux_notices_attributed:
  "map notice_fields (concat (map item_notices (fst (route_all Demux_default ms))) @
     dx_pending_notices (snd (route_all Demux_default ms))) = concat (map message_notices ms) \<and>
   list_all item_attributed (fst (route_all Demux_default ms))"
  using route_all_notices [of Demux_default ms] route_all_attributed [OF demux_inv_default, of ms]
  by simp

text \<open>
  The parameter bookkeeping is exact: after any traffic the map holds the last reported value of
  every parameter, and once a first readiness has set the baseline, \<open>parameters_changed\<close> holds exactly
  when some parameter now differs from the baseline.
\<close>

theorem demux_parameters_exact:
  "let d = snd (route_all Demux_default ms) in
     btree_get (dx_parameters d) = map_of (rev (concat (map message_status ms))) \<and>
     (case dx_startup_parameters d of
        None \<Rightarrow> \<not> dx_parameters_changed d
      | Some startup \<Rightarrow> dx_parameters_changed d = (\<exists>k. btree_get (dx_parameters d) k \<noteq> btree_get startup k))"
proof -
  let ?d = "snd (route_all Demux_default ms)"
  have inv: "demux_inv ?d" by (rule route_all_inv) (rule demux_inv_default)
  have "btree_get (dx_parameters ?d) = map_of (rev (concat (map message_status ms)))"
    using route_all_parameters [OF demux_inv_default, of ms]
    by (simp add: btree.get_Nil fun_eq_iff map_add_def split: option.splits)
  moreover have "(dx_parameters ?d \<noteq> startup) = (\<exists>k. btree_get (dx_parameters ?d) k \<noteq> btree_get startup k)"
    if "dx_startup_parameters ?d = Some startup" for startup
    using inv that btree.wf_ext [of "dx_parameters ?d" startup] by (auto simp: demux_inv_def fun_eq_iff)
  ultimately show ?thesis
    using inv by (auto simp: demux_inv_def Let_def split: option.splits)
qed

text \<open>
  \<open>route\<close> consumes exactly the messages that \<open>is_asynchronous\<close> accepts, except \<open>BackendKeyData\<close>, which
  it records and still returns.
\<close>

theorem route_consumes:
  "(fst (route d m) = None) = (is_asynchronous m \<and> \<not> is_B_BackendKeyData m)"
  unfolding route_None_iff by (cases m) (simp_all add: consumed_def)

end
