(* ===== verification/Middleware.thy ===== *)
theory Middleware
  imports Grammar Demux
begin

text \<open>
  \<open>src/middleware.rs\<close>: interception of owned messages.  A handler is a function of the state it may
  mutate (the caller's state and its own) and the message; it returns the message to continue with, or an
  error, and the new state.  Messages of a typed phase are wire messages that the grammar projects in that
  phase, so a typed handler is a handler whose results the phase accepts.
\<close>

section \<open>Messages\<close>

definition frontend_is_reconstructable :: "FrontendMessage \<Rightarrow> bool" where
  "frontend_is_reconstructable message = (case FrontendMessage_to_frame message of Inl _ \<Rightarrow> False | Inr _ \<Rightarrow> True)"

definition backend_is_reconstructable :: "BackendMessage \<Rightarrow> bool" where
  "backend_is_reconstructable message = (case BackendMessage_to_frame message of Inl _ \<Rightarrow> False | Inr _ \<Rightarrow> True)"

definition pre_startup_is_reconstructable :: "PreStartupMessage \<Rightarrow> bool" where
  "pre_startup_is_reconstructable message = (case to_packet message of Inl _ \<Rightarrow> False | Inr _ \<Rightarrow> True)"

definition reply_is_reconstructable :: "EncryptionReply \<Rightarrow> bool" where
  "reply_is_reconstructable reply = True"

text \<open>\<open>AsynchronousBackendMessage::try_from\<close> and \<open>TypedBackendMessage::try_from\<close>; \<open>Inl\<close> returns the message.\<close>

definition asynchronous_try_from :: "BackendMessage \<Rightarrow> BackendMessage + BackendMessage" where
  "asynchronous_try_from message = (if is_asynchronous message then Inr message else Inl message)"

datatype 'm TypedBackendMessage = Typed_Protocol 'm | Typed_Asynchronous BackendMessage

definition typed_backend_try_from ::
  "(BackendMessage \<Rightarrow> BackendMessage + 'm) \<Rightarrow> BackendMessage \<Rightarrow> BackendMessage + 'm TypedBackendMessage" where
  "typed_backend_try_from protocol_try_from message =
     (case asynchronous_try_from message of
        Inr message \<Rightarrow> Inr (Typed_Asynchronous message)
      | Inl message \<Rightarrow> (case protocol_try_from message of
          Inr typed \<Rightarrow> Inr (Typed_Protocol typed) | Inl message \<Rightarrow> Inl message))"

fun typed_backend_into :: "('m \<Rightarrow> BackendMessage) \<Rightarrow> 'm TypedBackendMessage \<Rightarrow> BackendMessage" where
  "typed_backend_into protocol_into (Typed_Protocol typed) = protocol_into typed"
| "typed_backend_into protocol_into (Typed_Asynchronous message) = message"

section \<open>Legality in a runtime state\<close>

definition accepts_internal :: "('s, 'e, 'i, 'x) Protocol \<Rightarrow> 's \<Rightarrow> 'i \<Rightarrow> bool" where
  "accepts_internal p state message = (project_internal p state message \<noteq> None)"

definition accepts_external :: "('s, 'e, 'i, 'x) Protocol \<Rightarrow> 's \<Rightarrow> 'x \<Rightarrow> bool" where
  "accepts_external p state message = (project_external p state message \<noteq> None)"

definition frontend_accepts_backend :: "frontend_state \<Rightarrow> BackendMessage \<Rightarrow> bool" where
  "frontend_accepts_backend state message =
     (is_asynchronous message \<or> project_external frontend state message \<noteq> None)"

definition backend_accepts_backend :: "backend_state \<Rightarrow> BackendMessage \<Rightarrow> bool" where
  "backend_accepts_backend state message =
     (is_asynchronous message \<or> project_internal backend state message \<noteq> None)"

section \<open>Handlers\<close>

type_synonym ('st, 'm, 'e) handler = "'st \<Rightarrow> 'm \<Rightarrow> ('e + 'm) \<times> 'st"

definition Identity :: "('st, 'm, 'e) handler" where
  "Identity state message = (Inr message, state)"

datatype ('a, 'b) ChainError = Chain_First 'a | Chain_Second 'b

definition Then :: "('st, 'm, 'a) handler \<Rightarrow> ('st, 'm, 'b) handler \<Rightarrow> ('st, 'm, ('a, 'b) ChainError) handler" where
  "Then first second state message =
     (case first state message of
        (Inl e, state) \<Rightarrow> (Inl (Chain_First e), state)
      | (Inr message, state) \<Rightarrow>
          (case second state message of
             (Inl e, state) \<Rightarrow> (Inl (Chain_Second e), state)
           | (Inr message, state) \<Rightarrow> (Inr message, state)))"

datatype ('e, 'w) WireAdapterError = Adapter_Middleware 'e | IllegalReplacement 'w

text \<open>\<open>WireAdapter\<close>: a handler of wire messages at a typed phase; the result is projected again.\<close>

definition WireAdapter ::
  "('w \<Rightarrow> 'w + 'm) \<Rightarrow> ('m \<Rightarrow> 'w) \<Rightarrow> ('st, 'w, 'e) handler \<Rightarrow> ('st, 'm, ('e, 'w) WireAdapterError) handler" where
  "WireAdapter try_from into handler state message =
     (case handler state (into message) of
        (Inl e, state) \<Rightarrow> (Inl (Adapter_Middleware e), state)
      | (Inr replacement, state) \<Rightarrow>
          (case try_from replacement of
             Inr typed \<Rightarrow> (Inr typed, state)
           | Inl wire \<Rightarrow> (Inl (IllegalReplacement wire), state)))"

record ('st, 'm, 'e) Middleware =
  mw_state :: 'st
  mw_handler :: "('st, 'm, 'e) handler"

definition intercept :: "('st, 'm, 'e) Middleware \<Rightarrow> 'm \<Rightarrow> ('e + 'm) \<times> ('st, 'm, 'e) Middleware" where
  "intercept mw message =
     (case mw_handler mw (mw_state mw) message of (result, state) \<Rightarrow> (result, mw\<lparr>mw_state := state\<rparr>))"

datatype ('e, 'm) InterceptError = Intercept_Middleware 'e | Intercept_Invalid 'm

definition intercept_checked ::
  "('m \<Rightarrow> bool) \<Rightarrow> ('m \<Rightarrow> bool) \<Rightarrow> ('st, 'm, 'e) Middleware \<Rightarrow> 'm
    \<Rightarrow> (('e, 'm) InterceptError + 'm) \<times> ('st, 'm, 'e) Middleware" where
  "intercept_checked is_reconstructable accepts mw message =
     (case intercept mw message of
        (Inl e, mw) \<Rightarrow> (Inl (Intercept_Middleware e), mw)
      | (Inr message, mw) \<Rightarrow>
          (if is_reconstructable message \<and> accepts message then Inr message else Inl (Intercept_Invalid message), mw))"

datatype ('e, 'w) TypedReceiveError =
    Typed_Io io_error | Typed_Illegal 'w | Typed_Middleware 'e | Typed_InvalidWire 'w

definition intercept_outbound_typed ::
  "('w \<Rightarrow> bool) \<Rightarrow> ('m \<Rightarrow> 'w) \<Rightarrow> ('st, 'm, 'e) Middleware \<Rightarrow> 'm
    \<Rightarrow> (('e, 'w) TypedReceiveError + 'm) \<times> ('st, 'm, 'e) Middleware" where
  "intercept_outbound_typed is_reconstructable into mw message =
     (case intercept mw message of
        (Inl e, mw) \<Rightarrow> (Inl (Typed_Middleware e), mw)
      | (Inr message, mw) \<Rightarrow>
          (if is_reconstructable (into message) then Inr message else Inl (Typed_InvalidWire (into message)), mw))"

section \<open>Laws\<close>

text \<open>The typed views of a backend message: the conversion back undoes the projection, and nothing is lost.\<close>

lemma typed_backend_round_trip:
  assumes "\<And>m t. protocol_try_from m = Inr t \<Longrightarrow> protocol_into t = m"
  shows "typed_backend_try_from protocol_try_from m = Inr t \<Longrightarrow> typed_backend_into protocol_into t = m"
  using assms by (auto simp: typed_backend_try_from_def asynchronous_try_from_def split: if_splits sum.splits)

text \<open>Errors of a chain, without the stage they come from.\<close>

fun chain_error :: "('e, 'e) ChainError \<Rightarrow> 'e" where
  "chain_error (Chain_First e) = e"
| "chain_error (Chain_Second e) = e"

definition relabel :: "('a \<Rightarrow> 'b) \<Rightarrow> ('st, 'm, 'a) handler \<Rightarrow> ('st, 'm, 'b) handler" where
  "relabel f h state message = (case h state message of (r, state) \<Rightarrow> (map_sum f id r, state))"

text \<open>
  Chaining middleware is a monoid up to the labels that name the failing stage: the identity is neutral
  on both sides and the grouping of a chain does not matter, for the messages, the errors and the state.
\<close>

theorem chain_monoid:
  fixes a b c :: "('st, 'm, 'e) handler"
  shows "relabel chain_error (Then Identity a) = a \<and> relabel chain_error (Then a Identity) = a \<and>
    relabel chain_error (Then (relabel chain_error (Then a b)) c) =
    relabel chain_error (Then a (relabel chain_error (Then b c)))"
  by (auto simp: fun_eq_iff relabel_def Then_def Identity_def split: prod.splits sum.splits)

text \<open>
  Checked interception lets a message through exactly when the handler returned it, it has a wire
  form, and the state accepts it; in every case the middleware keeps its handler and takes the handler's
  state.
\<close>

lemma intercept_checked_exact:
  "(intercept_checked rec acc mw m = (Inr m', mw')) =
    (\<exists>st. mw_handler mw (mw_state mw) m = (Inr m', st) \<and> mw' = mw\<lparr>mw_state := st\<rparr> \<and> rec m' \<and> acc m')"
  by (auto simp: intercept_checked_def intercept_def split: prod.splits sum.splits)

end
