(* ===== verification/Pipeline.thy ===== *)
theory Pipeline
  imports Middleware
begin

text \<open>
  \<open>src/pipeline.rs\<close>: the ledger of an intermediary.  It records one operation per accepted frontend
  message, projects frontend messages against the \<open>backend\<close> grammar, and lets a backend message through
  only when it belongs to the operation at the head.  Calls to \<open>expect\<close> and \<open>unreachable!\<close> are \<open>Panic\<close>.
  The \<open>Notify\<close> handle is the number of times waiters were notified.
\<close>

section \<open>Configuration\<close>

type_synonym OperationId = u64

datatype PipelinePolicy = NoPipeline | BoundedPipeline nat

definition BoundedPipeline_new :: "nat \<Rightarrow> PipelinePolicy option" where
  "BoundedPipeline_new max_operations =
     (if max_operations = 0 then None else Some (BoundedPipeline max_operations))"

fun operation_limit :: "PipelinePolicy \<Rightarrow> nat" where
  "operation_limit NoPipeline = 1"
| "operation_limit (BoundedPipeline max_operations) = max_operations"

section \<open>State\<close>

datatype FrontendHandling = Forward | Local

datatype FrontendAction = Action_Forward OperationId FrontendMessage | Action_Discard OperationId

datatype FrontendAdmission = Immediate FrontendAction | Waiting FrontendAction

fun into_action :: "FrontendAdmission \<Rightarrow> FrontendAction" where
  "into_action (Immediate action) = action"
| "into_action (Waiting action) = action"

datatype PipelineState =
    PS_Ready | PS_Extended | PS_ExtendedError | PS_CopyIn | PS_CopyOut | PS_CopyBoth | PS_Terminated

datatype FrontendProjectionError =
    Capacity FrontendMessage
  | Frontend_Illegal PipelineState FrontendMessage

datatype BackendAction = Emit BackendMessage | Deferred BackendMessage

datatype BackendProjectionError = Backend_Illegal PipelineState BackendMessage

datatype BackendSequenceError =
    Cardinality nat nat
  | Source BackendMessage
  | Replacement BackendMessage
  | DifferentSpan

datatype RequestState =
    RS_Ready | RS_Extended bool | RS_ExtendedError | RS_CopyIn | RS_CopyOut | RS_CopyBoth | RS_Terminated

fun public :: "RequestState \<Rightarrow> PipelineState" where
  "public RS_Ready = PS_Ready"
| "public (RS_Extended _) = PS_Extended"
| "public RS_ExtendedError = PS_ExtendedError"
| "public RS_CopyIn = PS_CopyIn"
| "public RS_CopyOut = PS_CopyOut"
| "public RS_CopyBoth = PS_CopyBoth"
| "public RS_Terminated = PS_Terminated"

datatype Origin = Origin_Forwarded | Origin_Local

datatype OperationKind =
    O_Query | O_FunctionCall | O_Parse | O_Bind | O_Describe | O_Execute | O_Close | O_Flush | O_Sync
  | O_CopyData | O_CopyDone | O_CopyFail | O_Terminate

record Operation =
  op_id :: OperationId
  op_kind :: OperationKind
  op_origin :: Origin
  op_discarded :: bool
  op_response_state :: backend_state

datatype PreparedResponse =
    Prepared_Asynchronous
  | Prepared_Emit Operation backend_state
  | Prepared_Deferred
  | Prepared_Illegal

datatype FrontendPhase =
    FP_Ready | FP_Building | FP_ExtendedError | FP_SimpleCopyIn | FP_ExtendedCopyIn
  | FP_SimpleCopyBoth | FP_ExtendedCopyBoth

record PreparedFrontend =
  prepared_phase :: FrontendPhase
  prepared_request_state :: RequestState

record Pipeline =
  pl_policy :: PipelinePolicy
  pl_operations :: "Operation list"
  pl_request_state :: RequestState
  pl_response_state :: "PipelineState option"
  pl_next_id :: u64
  pl_changed :: nat

definition Pipeline_new :: "PipelinePolicy \<Rightarrow> Pipeline" where
  "Pipeline_new policy = \<lparr>pl_policy = policy, pl_operations = [], pl_request_state = RS_Ready,
     pl_response_state = None, pl_next_id = 0, pl_changed = 0\<rparr>"

definition pipeline_state :: "Pipeline \<Rightarrow> PipelineState" where
  "pipeline_state p = (case pl_response_state p of Some s \<Rightarrow> s | None \<Rightarrow> public (pl_request_state p))"

definition next_operation_id :: "Pipeline \<Rightarrow> OperationId" where
  "next_operation_id p = pl_next_id p"

definition notify_waiters :: "Pipeline \<Rightarrow> Pipeline" where
  "notify_waiters p = p\<lparr>pl_changed := pl_changed p + 1\<rparr>"

section \<open>Classification\<close>

fun generated_request_state :: "RequestState \<Rightarrow> backend_state" where
  "generated_request_state RS_Ready = Be_Ready"
| "generated_request_state (RS_Extended _) = Be_Building"
| "generated_request_state RS_ExtendedError = Be_ExtendedError"
| "generated_request_state RS_CopyIn = Be_ExtendedCopyIn"
| "generated_request_state RS_CopyOut = Be_ExtendedCopyOut"
| "generated_request_state RS_CopyBoth = Be_ExtendedCopyBoth"
| "generated_request_state RS_Terminated = Be_Terminated"

text \<open>\<open>Sync\<close> is \<open>unreachable!\<close> here; \<open>classify_frontend\<close> matches it before.\<close>

fun classify_discard :: "FrontendMessage \<Rightarrow> OperationKind option" where
  "classify_discard (F_Parse _) = Some O_Parse"
| "classify_discard (F_Bind _) = Some O_Bind"
| "classify_discard (F_Describe _) = Some O_Describe"
| "classify_discard (F_Execute _) = Some O_Execute"
| "classify_discard (F_Close _) = Some O_Close"
| "classify_discard F_Flush = Some O_Flush"
| "classify_discard (F_Query _) = Some O_Query"
| "classify_discard (F_FunctionCall _) = Some O_FunctionCall"
| "classify_discard (F_CopyData _) = Some O_CopyData"
| "classify_discard F_CopyDone = Some O_CopyDone"
| "classify_discard (F_CopyFail _) = Some O_CopyFail"
| "classify_discard F_Terminate = Some O_Terminate"
| "classify_discard (F_PasswordResponse _) = None"
| "classify_discard F_Sync = None"

definition classify_frontend ::
  "RequestState \<Rightarrow> FrontendMessage \<Rightarrow> (OperationKind \<times> RequestState) option" where
  "classify_frontend state message = (case state of
       RS_Ready \<Rightarrow> (case message of
           F_Query _ \<Rightarrow> Some (O_Query, RS_Ready)
         | F_FunctionCall _ \<Rightarrow> Some (O_FunctionCall, RS_Ready)
         | F_Parse _ \<Rightarrow> Some (O_Parse, RS_Extended False)
         | F_Bind _ \<Rightarrow> Some (O_Bind, RS_Extended True)
         | F_Describe _ \<Rightarrow> Some (O_Describe, RS_Extended False)
         | F_Execute _ \<Rightarrow> Some (O_Execute, RS_Extended True)
         | F_Close _ \<Rightarrow> Some (O_Close, RS_Extended False)
         | F_Terminate \<Rightarrow> Some (O_Terminate, RS_Terminated)
         | _ \<Rightarrow> None)
     | RS_Extended bound \<Rightarrow> (case message of
           F_Bind _ \<Rightarrow> Some (O_Bind, RS_Extended True)
         | F_Execute _ \<Rightarrow> Some (O_Execute, RS_Extended True)
         | F_Parse _ \<Rightarrow> Some (O_Parse, RS_Extended bound)
         | F_Describe _ \<Rightarrow> Some (O_Describe, RS_Extended bound)
         | F_Close _ \<Rightarrow> Some (O_Close, RS_Extended bound)
         | F_Flush \<Rightarrow> Some (O_Flush, RS_Extended bound)
         | F_Sync \<Rightarrow> Some (O_Sync, RS_Ready)
         | _ \<Rightarrow> None)
     | RS_ExtendedError \<Rightarrow> (case message of
           F_Sync \<Rightarrow> Some (O_Sync, RS_Ready)
         | _ \<Rightarrow> map_option (\<lambda>kind. (kind, RS_ExtendedError)) (classify_discard message))
     | RS_CopyIn \<Rightarrow> (case message of
           F_CopyData _ \<Rightarrow> Some (O_CopyData, RS_CopyIn)
         | F_CopyDone \<Rightarrow> Some (O_CopyDone, RS_Extended True)
         | F_CopyFail _ \<Rightarrow> Some (O_CopyFail, RS_ExtendedError)
         | _ \<Rightarrow> None)
     | RS_CopyBoth \<Rightarrow> (case message of
           F_CopyData _ \<Rightarrow> Some (O_CopyData, RS_CopyBoth)
         | F_CopyDone \<Rightarrow> Some (O_CopyDone, RS_CopyBoth)
         | _ \<Rightarrow> None)
     | RS_CopyOut \<Rightarrow> None
     | RS_Terminated \<Rightarrow> None)"

definition project_frontend ::
  "RequestState \<Rightarrow> FrontendMessage \<Rightarrow> (OperationKind \<times> RequestState) option" where
  "project_frontend state message =
     (case project_external backend (generated_request_state state) message of
        None \<Rightarrow> None
      | Some _ \<Rightarrow> classify_frontend state message)"

definition frontend_phase :: "RequestState \<Rightarrow> OperationKind option \<Rightarrow> FrontendPhase exec" where
  "frontend_phase state response_head = (case state of
       RS_Ready \<Rightarrow> Done FP_Ready
     | RS_Extended _ \<Rightarrow> Done FP_Building
     | RS_ExtendedError \<Rightarrow> Done FP_ExtendedError
     | RS_CopyIn \<Rightarrow>
         if response_head = Some O_Query then Done FP_SimpleCopyIn
         else if response_head = Some O_Execute then Done FP_ExtendedCopyIn
         else Panic
     | RS_CopyBoth \<Rightarrow>
         if response_head = Some O_Query then Done FP_SimpleCopyBoth
         else if response_head = Some O_Execute then Done FP_ExtendedCopyBoth
         else Panic
     | RS_CopyOut \<Rightarrow> Panic
     | RS_Terminated \<Rightarrow> Panic)"

fun initial_response_state :: "OperationKind \<Rightarrow> backend_state" where
  "initial_response_state O_Query = Be_Simple"
| "initial_response_state O_FunctionCall = Be_FunctionResponse"
| "initial_response_state O_Parse = Be_ParseResponse"
| "initial_response_state O_Bind = Be_BindResponse"
| "initial_response_state O_Describe = Be_DescribeResponse"
| "initial_response_state O_Execute = Be_ExecuteResponse"
| "initial_response_state O_Close = Be_CloseResponse"
| "initial_response_state O_Sync = Be_SyncResponse"
| "initial_response_state O_Flush = Be_Terminated"
| "initial_response_state O_CopyData = Be_Terminated"
| "initial_response_state O_CopyDone = Be_Terminated"
| "initial_response_state O_CopyFail = Be_Terminated"
| "initial_response_state O_Terminate = Be_Terminated"

definition response_fits :: "Operation \<Rightarrow> BackendMessage \<Rightarrow> bool" where
  "response_fits operation message = (project_internal backend (op_response_state operation) message \<noteq> None)"

definition response_is_terminal :: "OperationKind \<Rightarrow> BackendMessage \<Rightarrow> bool" where
  "response_is_terminal kind message = (case kind of
       O_Query \<Rightarrow> is_B_ReadyForQuery message
     | O_FunctionCall \<Rightarrow> is_B_ReadyForQuery message
     | O_Sync \<Rightarrow> is_B_ReadyForQuery message
     | O_Parse \<Rightarrow> message = B_ParseComplete \<or> is_B_ErrorResponse message
     | O_Bind \<Rightarrow> message = B_BindComplete \<or> is_B_ErrorResponse message
     | O_Describe \<Rightarrow> is_B_RowDescription message \<or> message = B_NoData \<or> is_B_ErrorResponse message
     | O_Execute \<Rightarrow>
         is_B_CommandComplete message \<or> message = B_PortalSuspended \<or> is_B_ErrorResponse message
     | O_Close \<Rightarrow> message = B_CloseComplete \<or> is_B_ErrorResponse message
     | O_CopyDone \<Rightarrow> message = B_CopyDone \<or> is_B_CommandComplete message \<or> is_B_ErrorResponse message
     | O_CopyFail \<Rightarrow> is_B_ErrorResponse message
     | O_Flush \<Rightarrow> True
     | O_CopyData \<Rightarrow> True
     | O_Terminate \<Rightarrow> True)"

definition is_extended_kind :: "OperationKind \<Rightarrow> bool" where
  "is_extended_kind kind = (\<not> (kind = O_Query \<or> kind = O_FunctionCall \<or> kind = O_Terminate))"

definition response_copy_state :: "backend_state \<Rightarrow> RequestState option" where
  "response_copy_state state =
     (if state = Be_SimpleCopyIn \<or> state = Be_ExtendedCopyIn then Some RS_CopyIn
      else if state = Be_SimpleCopyOut \<or> state = Be_ExtendedCopyOut then Some RS_CopyOut
      else if state = Be_SimpleCopyBoth \<or> state = Be_SimpleCopyBothClientDone
           \<or> state = Be_SimpleCopyBothServerDone \<or> state = Be_ExtendedCopyBoth
           \<or> state = Be_ExtendedCopyBothClientDone \<or> state = Be_ExtendedCopyBothServerDone
      then Some RS_CopyBoth
      else None)"

section \<open>Frontend messages\<close>

definition inert :: "Operation \<Rightarrow> bool" where
  "inert operation =
     (op_kind operation = O_Flush \<or> op_kind operation = O_CopyData \<or> op_kind operation = O_CopyDone
      \<or> op_kind operation = O_CopyFail \<or> op_kind operation = O_Terminate \<or> op_discarded operation)"

definition remove_inert_heads :: "Pipeline \<Rightarrow> Pipeline" where
  "remove_inert_heads p =
     (let previous_len = length (pl_operations p);
          p = p\<lparr>pl_operations := dropWhile inert (pl_operations p)\<rparr>
      in if length (pl_operations p) \<noteq> previous_len then notify_waiters p else p)"

definition front_kind :: "Pipeline \<Rightarrow> OperationKind option" where
  "front_kind p = (case pl_operations p of [] \<Rightarrow> None | head # _ \<Rightarrow> Some (op_kind head))"

definition prepare_frontend ::
  "Pipeline \<Rightarrow> FrontendMessage \<Rightarrow> (FrontendProjectionError + PreparedFrontend) exec" where
  "prepare_frontend p message =
     (if length (pl_operations p) = operation_limit (pl_policy p)
         \<and> \<not> (pl_request_state p = RS_CopyIn \<or> pl_request_state p = RS_CopyBoth)
      then Done (Inl (Capacity message))
      else if project_frontend (pl_request_state p) message = None
      then Done (Inl (Frontend_Illegal (pipeline_state p) message))
      else (case frontend_phase (pl_request_state p) (front_kind p) of
              Panic \<Rightarrow> Panic
            | Done entered \<Rightarrow>
                Done (Inr \<lparr>prepared_phase = entered, prepared_request_state = pl_request_state p\<rparr>)))"

text \<open>\<open>operations.iter_mut().rev().find(..)\<close> and \<open>sync.discarded = true\<close>.\<close>

fun discard_first_sync :: "Operation list \<Rightarrow> Operation list" where
  "discard_first_sync [] = []"
| "discard_first_sync (o1 # os) =
     (if op_kind o1 = O_Sync \<and> \<not> op_discarded o1 then o1\<lparr>op_discarded := True\<rparr> # os
      else o1 # discard_first_sync os)"

definition discard_last_sync :: "Operation list \<Rightarrow> Operation list" where
  "discard_last_sync os = rev (discard_first_sync (rev os))"

text \<open>The head follows a frontend message that its own response phase accepts (COPY data).\<close>

definition advance_head :: "FrontendMessage \<Rightarrow> Operation list \<Rightarrow> Operation list" where
  "advance_head message os = (case os of
       [] \<Rightarrow> []
     | head # rest \<Rightarrow> (case project_external backend (op_response_state head) message of
         None \<Rightarrow> os
       | Some event \<Rightarrow> (case transition backend (op_response_state head) event of
           None \<Rightarrow> os
         | Some t \<Rightarrow> head\<lparr>op_response_state := rt_target t\<rparr> # rest)))"

definition commit_frontend ::
  "Pipeline \<Rightarrow> PreparedFrontend \<Rightarrow> FrontendMessage \<Rightarrow> FrontendHandling \<Rightarrow> (FrontendAdmission \<times> Pipeline) exec" where
  "commit_frontend p prepared message handling =
     (case classify_frontend (prepared_request_state prepared) message of
        None \<Rightarrow> Panic
      | Some (kind, next_state) \<Rightarrow>
          let p = (if prepared_request_state prepared = RS_CopyIn \<and> (kind = O_CopyDone \<or> kind = O_CopyFail)
                   then p\<lparr>pl_operations := discard_last_sync (pl_operations p)\<rparr> else p);
              waiting = (pl_operations p \<noteq> []);
              oid = pl_next_id p;
              p = p\<lparr>pl_next_id := saturating_inc (pl_next_id p), pl_request_state := next_state\<rparr>;
              origin = (case handling of Forward \<Rightarrow> Origin_Forwarded | Local \<Rightarrow> Origin_Local);
              p = p\<lparr>pl_operations := advance_head message (pl_operations p)\<rparr>;
              discarded = (pl_request_state p = RS_ExtendedError \<and> kind \<noteq> O_Sync);
              p = p\<lparr>pl_operations := pl_operations p @
                [\<lparr>op_id = oid, op_kind = kind, op_origin = origin, op_discarded = discarded,
                  op_response_state = initial_response_state kind\<rparr>]\<rparr>;
              action = (if handling = Forward \<and> \<not> discarded then Action_Forward oid message else Action_Discard oid);
              admission = (if waiting then Waiting action else Immediate action)
          in Done (admission, remove_inert_heads p))"

definition accept_frontend ::
  "Pipeline \<Rightarrow> FrontendMessage \<Rightarrow> FrontendHandling \<Rightarrow> ((FrontendProjectionError + FrontendAdmission) \<times> Pipeline) exec" where
  "accept_frontend p message handling =
     (case prepare_frontend p message of
        Panic \<Rightarrow> Panic
      | Done (Inl e) \<Rightarrow> Done (Inl e, p)
      | Done (Inr prepared) \<Rightarrow>
          (case commit_frontend p prepared message handling of
             Panic \<Rightarrow> Panic
           | Done (admission, p) \<Rightarrow> Done (Inr admission, p)))"

section \<open>Backend messages\<close>

definition prepare_response :: "Pipeline \<Rightarrow> OperationId option \<Rightarrow> BackendMessage \<Rightarrow> PreparedResponse" where
  "prepare_response p local_id message =
     (if is_asynchronous message then Prepared_Asynchronous
      else (case pl_operations p of
        [] \<Rightarrow> Prepared_Illegal
      | head # rest \<Rightarrow>
          (let fits_or_defer =
             (if op_discarded head \<or> \<not> response_fits head message
              then if list_ex (\<lambda>operation. response_fits operation message) rest
                   then Prepared_Deferred else Prepared_Illegal
              else Prepared_Emit head (op_response_state head))
           in case local_id of
                Some oid \<Rightarrow>
                  if op_id head \<noteq> oid then Prepared_Deferred
                  else if op_origin head \<noteq> Origin_Local then Prepared_Illegal
                  else fits_or_defer
              | None \<Rightarrow>
                  if op_origin head = Origin_Local
                  then if list_ex (\<lambda>operation. op_origin operation = Origin_Forwarded
                            \<and> response_fits operation message) rest
                       then Prepared_Deferred else Prepared_Illegal
                  else fits_or_defer)))"

text \<open>Marks every operation before the next \<open>Sync\<close> as discarded; \<open>True\<close> when there is a \<open>Sync\<close>.\<close>

fun discard_to_sync :: "Operation list \<Rightarrow> Operation list \<times> bool" where
  "discard_to_sync [] = ([], False)"
| "discard_to_sync (o1 # os) =
     (if op_kind o1 = O_Sync then (o1 # os, True)
      else (let (os', sync) = discard_to_sync os in (o1\<lparr>op_discarded := True\<rparr> # os', sync)))"

definition project_deferred_local_error :: "Pipeline \<Rightarrow> OperationId \<Rightarrow> Pipeline" where
  "project_deferred_local_error p oid =
     (case position (\<lambda>operation. op_id operation = oid) (pl_operations p) of
        None \<Rightarrow> p
      | Some rejected \<Rightarrow>
          if op_origin (pl_operations p ! rejected) \<noteq> Origin_Local
             \<or> \<not> is_extended_kind (op_kind (pl_operations p ! rejected)) then p
          else
            let (rest, sync_accepted) = discard_to_sync (drop (rejected + 1) (pl_operations p));
                p = p\<lparr>pl_operations := take (rejected + 1) (pl_operations p) @ rest\<rparr>
            in if sync_accepted then p else p\<lparr>pl_request_state := RS_ExtendedError\<rparr>)"

definition enter_extended_error :: "Pipeline \<Rightarrow> Pipeline" where
  "enter_extended_error p =
     (let p = p\<lparr>pl_response_state := None\<rparr>;
          (os, sync_accepted) = discard_to_sync (pl_operations p);
          p = p\<lparr>pl_operations := os\<rparr>
      in if sync_accepted then p else p\<lparr>pl_request_state := RS_ExtendedError\<rparr>)"

text \<open>\<open>front_mut()\<close> and the assignment of its response phase.\<close>

definition set_head_phase :: "backend_state \<Rightarrow> Operation list \<Rightarrow> Operation list" where
  "set_head_phase state os =
     (case os of [] \<Rightarrow> [] | head # rest \<Rightarrow> head\<lparr>op_response_state := state\<rparr> # rest)"

definition commit_emit :: "Pipeline \<Rightarrow> Operation \<Rightarrow> backend_state \<Rightarrow> BackendMessage \<Rightarrow> Pipeline" where
  "commit_emit p head next_response_state message =
     (let terminal = response_is_terminal (op_kind head) message;
          error = is_B_ErrorResponse message;
          copy_state = response_copy_state next_response_state;
          p = (if terminal
               then (let p = p\<lparr>pl_operations := tl (pl_operations p)\<rparr>
                     in if error \<and> is_extended_kind (op_kind head) then enter_extended_error p else p)
               else p\<lparr>pl_operations := set_head_phase next_response_state (pl_operations p)\<rparr>);
          p = (if terminal then p else p\<lparr>pl_response_state := map_option public copy_state\<rparr>);
          p = (case copy_state of
                 Some state \<Rightarrow>
                   if state = RS_CopyIn \<or> state = RS_CopyBoth then p\<lparr>pl_request_state := state\<rparr> else p
               | None \<Rightarrow> p);
          p = (if terminal then p\<lparr>pl_response_state := None\<rparr> else p)
      in notify_waiters (remove_inert_heads p))"

definition commit_response ::
  "Pipeline \<Rightarrow> PreparedResponse \<Rightarrow> BackendMessage \<Rightarrow> ((BackendProjectionError + BackendAction) \<times> Pipeline) exec" where
  "commit_response p prepared message = (case prepared of
       Prepared_Asynchronous \<Rightarrow> Done (Inr (Emit message), p)
     | Prepared_Deferred \<Rightarrow> Done (Inr (Deferred message), p)
     | Prepared_Illegal \<Rightarrow> Done (Inl (Backend_Illegal (pipeline_state p) message), p)
     | Prepared_Emit head response_state \<Rightarrow>
         (case project_internal backend response_state message of
            None \<Rightarrow> Panic
          | Some event \<Rightarrow> (case transition backend response_state event of
              None \<Rightarrow> Panic
            | Some t \<Rightarrow> Done (Inr (Emit message), commit_emit p head (rt_target t) message))))"

definition accept_response ::
  "Pipeline \<Rightarrow> OperationId option \<Rightarrow> BackendMessage \<Rightarrow> ((BackendProjectionError + BackendAction) \<times> Pipeline) exec" where
  "accept_response p local_id message =
     (let prepared = prepare_response p local_id message;
          p = (case local_id of
                 Some oid \<Rightarrow>
                   if prepared = Prepared_Deferred \<and> is_B_ErrorResponse message
                   then project_deferred_local_error p oid else p
               | None \<Rightarrow> p)
      in commit_response p prepared message)"

definition accept_backend ::
  "Pipeline \<Rightarrow> BackendMessage \<Rightarrow> ((BackendProjectionError + BackendAction) \<times> Pipeline) exec" where
  "accept_backend p message = accept_response p None message"

definition try_emit_local ::
  "Pipeline \<Rightarrow> OperationId \<Rightarrow> BackendMessage \<Rightarrow> ((BackendProjectionError + BackendAction) \<times> Pipeline) exec" where
  "try_emit_local p oid message = accept_response p (Some oid) message"

definition backend_operation_id :: "Pipeline \<Rightarrow> BackendMessage \<Rightarrow> OperationId option" where
  "backend_operation_id p message =
     (if is_asynchronous message then None
      else map_option op_id (find (\<lambda>operation. op_origin operation = Origin_Forwarded
        \<and> \<not> op_discarded operation \<and> response_fits operation message) (pl_operations p)))"


section \<open>Spans of messages\<close>

text \<open>
  \<open>frontend_transition_id\<close> and \<open>backend_transition_id\<close> return the identifier of a transition of the
  \<open>backend\<close> grammar; here they return the transition.
\<close>

definition frontend_transition_id ::
  "Pipeline \<Rightarrow> FrontendMessage \<Rightarrow> (backend_state, backend_event) RuntimeTransition option" where
  "frontend_transition_id p message =
     (let state = generated_request_state (pl_request_state p)
      in case project_external backend state message of
           None \<Rightarrow> None
         | Some event \<Rightarrow> transition backend state event)"

definition backend_transition_id ::
  "Pipeline \<Rightarrow> BackendMessage \<Rightarrow> (backend_state, backend_event) RuntimeTransition option" where
  "backend_transition_id p message = (case prepare_response p None message of
       Prepared_Emit _ response_state \<Rightarrow>
         (case project_internal backend response_state message of
            None \<Rightarrow> None
          | Some event \<Rightarrow> transition backend response_state event)
     | _ \<Rightarrow> None)"

fun backend_operation_ids :: "Pipeline \<Rightarrow> BackendMessage list \<Rightarrow> OperationId option list exec" where
  "backend_operation_ids projection [] = Done []"
| "backend_operation_ids projection (message # messages) =
     (case accept_backend projection message of
        Panic \<Rightarrow> Panic
      | Done (_, projection') \<Rightarrow>
          (case backend_operation_ids projection' messages of
             Panic \<Rightarrow> Panic
           | Done ids \<Rightarrow> Done (backend_operation_id projection message # ids)))"

text \<open>The two loops of \<open>prepare_backend_replacements\<close>: \<open>Inl\<close> is the message that is not emitted.\<close>

fun project_sources :: "Pipeline \<Rightarrow> BackendMessage list \<Rightarrow> (BackendMessage + Pipeline) exec" where
  "project_sources projection [] = Done (Inr projection)"
| "project_sources projection (message # messages) =
     (case accept_backend projection message of
        Panic \<Rightarrow> Panic
      | Done (Inr (Emit _), projection') \<Rightarrow> project_sources projection' messages
      | Done (Inr (Deferred message'), _) \<Rightarrow> Done (Inl message')
      | Done (Inl (Backend_Illegal _ message'), _) \<Rightarrow> Done (Inl message'))"

fun project_replacements :: "Pipeline \<Rightarrow> BackendMessage list \<Rightarrow> (BackendMessage + Pipeline) exec" where
  "project_replacements projection [] = Done (Inr projection)"
| "project_replacements projection (message # messages) =
     (if \<not> backend_is_reconstructable message then Done (Inl message)
      else case accept_backend projection message of
        Panic \<Rightarrow> Panic
      | Done (Inr (Emit _), projection') \<Rightarrow> project_replacements projection' messages
      | Done (Inr (Deferred message'), _) \<Rightarrow> Done (Inl message')
      | Done (Inl (Backend_Illegal _ message'), _) \<Rightarrow> Done (Inl message'))"

text \<open>Both projections share the waiters of the ledger, so the second counts on from the first.\<close>

definition prepare_backend_replacements ::
  "Pipeline \<Rightarrow> BackendMessage list \<Rightarrow> BackendMessage list \<Rightarrow> (BackendSequenceError + Pipeline) exec" where
  "prepare_backend_replacements p sources replacements =
     (if length sources \<noteq> length replacements
      then Done (Inl (Cardinality (length sources) (length replacements)))
      else case project_sources p sources of
        Panic \<Rightarrow> Panic
      | Done (Inl message) \<Rightarrow> Done (Inl (Source message))
      | Done (Inr source_projection) \<Rightarrow>
          (case project_replacements (p\<lparr>pl_changed := pl_changed source_projection\<rparr>) replacements of
             Panic \<Rightarrow> Panic
           | Done (Inl message) \<Rightarrow> Done (Inl (Replacement message))
           | Done (Inr replacement_projection) \<Rightarrow>
               if pl_operations source_projection \<noteq> pl_operations replacement_projection
                  \<or> pl_request_state source_projection \<noteq> pl_request_state replacement_projection
                  \<or> pl_response_state source_projection \<noteq> pl_response_state replacement_projection
               then Done (Inl DifferentSpan)
               else Done (Inr replacement_projection)))"

record FrontendSequenceItem =
  item_transition :: "(backend_state, backend_event) RuntimeTransition option"
  item_admission :: FrontendAdmission

record PreparedFrontendSequence =
  sequence_pipeline :: Pipeline
  sequence_items :: "FrontendSequenceItem list"

fun prepare_frontend_items ::
  "Pipeline \<Rightarrow> FrontendMessage list \<Rightarrow> FrontendHandling \<Rightarrow> FrontendSequenceItem list
    \<Rightarrow> (FrontendProjectionError + PreparedFrontendSequence) exec" where
  "prepare_frontend_items p [] handling items =
     Done (Inr \<lparr>sequence_pipeline = p, sequence_items = items\<rparr>)"
| "prepare_frontend_items p (message # messages) handling items =
     (if \<not> frontend_is_reconstructable message
      then Done (Inl (Frontend_Illegal (pipeline_state p) message))
      else case accept_frontend p message handling of
        Panic \<Rightarrow> Panic
      | Done (Inl e, _) \<Rightarrow> Done (Inl e)
      | Done (Inr admission, p') \<Rightarrow>
          prepare_frontend_items p' messages handling
            (items @ [\<lparr>item_transition = frontend_transition_id p message, item_admission = admission\<rparr>]))"

text \<open>The private copy has waiters of its own; the commit keeps those of the live ledger.\<close>

definition prepare_frontend_sequence ::
  "Pipeline \<Rightarrow> FrontendMessage list \<Rightarrow> FrontendHandling
    \<Rightarrow> (FrontendProjectionError + PreparedFrontendSequence) exec" where
  "prepare_frontend_sequence p messages handling =
     prepare_frontend_items (p\<lparr>pl_changed := 0\<rparr>) messages handling []"

definition commit_frontend_sequence ::
  "Pipeline \<Rightarrow> PreparedFrontendSequence \<Rightarrow> FrontendSequenceItem list \<times> Pipeline" where
  "commit_frontend_sequence p prepared =
     (sequence_items prepared, (sequence_pipeline prepared)\<lparr>pl_changed := pl_changed p\<rparr>)"

end
