(* ===== verification/Respond.thy ===== *)
theory Respond
  imports Grammar
begin

text \<open>
  The \<open>backend\<close> grammar as two functions on its phases: \<open>respond\<close> follows a message of the server and
  \<open>receive\<close> a message of the client, projection and transition in one step.  Their tables, one equation
  per phase, are what the proofs about the ledger and the sessions compute with.
\<close>

definition respond :: "backend_state \<Rightarrow> BackendMessage \<Rightarrow> backend_state option" where
  "respond s m = (case project_internal backend s m of
     None \<Rightarrow> None | Some event \<Rightarrow> map_option rt_target (transition backend s event))"

definition receive :: "backend_state \<Rightarrow> FrontendMessage \<Rightarrow> backend_state option" where
  "receive s m = (case project_external backend s m of
     None \<Rightarrow> None | Some event \<Rightarrow> map_option rt_target (transition backend s event))"

lemma respond_None_iff: "(respond s m = None) = (project_internal backend s m = None)"
  by (cases "project_internal backend s m")
    (auto simp: respond_def elim: backend_grammar.project_internal_transition)

lemma receive_None_iff: "(receive s m = None) = (project_external backend s m = None)"
  by (cases "project_external backend s m")
    (auto simp: receive_def elim: backend_grammar.project_external_transition)

text \<open>Both as the first arm of a phase that matches, paired with its target.\<close>

definition arm_target :: "backend_state \<Rightarrow> backend_event \<Rightarrow> backend_state" where
  "arm_target s event = rt_target (the (transition backend s event))"

lemma first_arm_map: "first_arm (map (\<lambda>(pat, e). (pat, f e)) arms) m = map_option f (first_arm arms m)"
  by (induction arms) auto

lemma respond_arms:
  "respond s m = first_arm (map (\<lambda>(pat, e). (pat, arm_target s e)) (internal_arms (backend_phase_of s))) m"
proof (cases "project_internal backend s m")
  case (Some e)
  then obtain t where "transition backend s e = Some t" by (rule backend_grammar.project_internal_transition)
  with Some show ?thesis by (simp add: respond_def first_arm_map backend_project arm_target_def)
qed (simp add: respond_def first_arm_map backend_project)

lemma receive_arms:
  "receive s m = first_arm (map (\<lambda>(pat, e). (pat, arm_target s e)) (external_arms (backend_phase_of s))) m"
proof (cases "project_external backend s m")
  case (Some e)
  then obtain t where "transition backend s e = Some t" by (rule backend_grammar.project_external_transition)
  with Some show ?thesis by (simp add: receive_def first_arm_map backend_project arm_target_def)
qed (simp add: receive_def first_arm_map backend_project)

lemmas message_discs = is_B_RowDescription_def is_B_DataRow_def is_B_CommandComplete_def is_B_CopyInResponse_def
  is_B_CopyOutResponse_def is_B_CopyBothResponse_def is_B_ReadyForQuery_def is_B_ErrorResponse_def
  is_B_CopyData_def is_B_FunctionCallResponse_def is_B_ParameterDescription_def

lemmas arm_table = arm_target_def backend_transition backend_phase_defs internal_arms_def external_arms_def
  choice_of_def grammar_defs

lemma respond_table [simp]:
  "respond Be_Ready m = None"
  "respond Be_Simple m = (if is_B_RowDescription m \<or>
         is_B_DataRow m \<or>
         is_B_CommandComplete m \<or>
         m = B_EmptyQueryResponse
       then Some Be_Simple
     else if is_B_CopyInResponse m
       then Some Be_SimpleCopyIn
     else if is_B_CopyOutResponse m
       then Some Be_SimpleCopyOut
     else if is_B_CopyBothResponse m
       then Some Be_SimpleCopyBoth
     else if is_B_ReadyForQuery m
       then Some Be_Ready
     else if is_B_ErrorResponse m
       then Some Be_SimpleError
     else None)"
  "respond Be_SimpleError m = (if is_B_ReadyForQuery m
       then Some Be_Ready
     else None)"
  "respond Be_Building m = None"
  "respond Be_ParseResponse m = (if m = B_ParseComplete
       then Some Be_Building
     else if is_B_ErrorResponse m
       then Some Be_ExtendedError
     else None)"
  "respond Be_BindResponse m = (if m = B_BindComplete
       then Some Be_Building
     else if is_B_ErrorResponse m
       then Some Be_ExtendedError
     else None)"
  "respond Be_DescribeResponse m = (if is_B_ParameterDescription m
       then Some Be_DescribeResponse
     else if is_B_RowDescription m
       then Some Be_Building
     else if m = B_NoData
       then Some Be_Building
     else if is_B_ErrorResponse m
       then Some Be_ExtendedError
     else None)"
  "respond Be_ExecuteResponse m = (if is_B_RowDescription m \<or> is_B_DataRow m \<or> m = B_EmptyQueryResponse
       then Some Be_ExecuteResponse
     else if is_B_CopyInResponse m
       then Some Be_ExtendedCopyIn
     else if is_B_CopyOutResponse m
       then Some Be_ExtendedCopyOut
     else if is_B_CopyBothResponse m
       then Some Be_ExtendedCopyBoth
     else if is_B_CommandComplete m
       then Some Be_Building
     else if m = B_PortalSuspended
       then Some Be_Building
     else if is_B_ErrorResponse m
       then Some Be_ExtendedError
     else None)"
  "respond Be_CloseResponse m = (if m = B_CloseComplete
       then Some Be_Building
     else if is_B_ErrorResponse m
       then Some Be_ExtendedError
     else None)"
  "respond Be_ExtendedError m = None"
  "respond Be_SyncResponse m = (if is_B_ReadyForQuery m
       then Some Be_Ready
     else None)"
  "respond Be_FunctionResponse m = (if is_B_FunctionCallResponse m
       then Some Be_FunctionReady
     else if is_B_ErrorResponse m
       then Some Be_FunctionReady
     else None)"
  "respond Be_FunctionReady m = (if is_B_ReadyForQuery m
       then Some Be_Ready
     else None)"
  "respond Be_SimpleCopyIn m = None"
  "respond Be_SimpleCopyInDone m = (if is_B_CommandComplete m
       then Some Be_SimpleCopyReady
     else if is_B_ErrorResponse m
       then Some Be_SimpleCopyReady
     else None)"
  "respond Be_SimpleCopyInFailed m = (if is_B_ErrorResponse m
       then Some Be_SimpleCopyReady
     else None)"
  "respond Be_SimpleCopyOut m = (if is_B_CopyData m
       then Some Be_SimpleCopyOut
     else if m = B_CopyDone
       then Some Be_SimpleCopyOutDone
     else if is_B_ErrorResponse m
       then Some Be_SimpleCopyReady
     else None)"
  "respond Be_SimpleCopyOutDone m = (if is_B_CommandComplete m
       then Some Be_SimpleCopyReady
     else None)"
  "respond Be_SimpleCopyReady m = (if is_B_ReadyForQuery m
       then Some Be_Ready
     else None)"
  "respond Be_ExtendedCopyIn m = None"
  "respond Be_ExtendedCopyInDone m = (if is_B_CommandComplete m
       then Some Be_Building
     else if is_B_ErrorResponse m
       then Some Be_ExtendedError
     else None)"
  "respond Be_ExtendedCopyInFailed m = (if is_B_ErrorResponse m
       then Some Be_ExtendedError
     else None)"
  "respond Be_ExtendedCopyOut m = (if is_B_CopyData m
       then Some Be_ExtendedCopyOut
     else if m = B_CopyDone
       then Some Be_ExtendedCopyOutDone
     else if is_B_ErrorResponse m
       then Some Be_ExtendedError
     else None)"
  "respond Be_ExtendedCopyOutDone m = (if is_B_CommandComplete m
       then Some Be_Building
     else None)"
  "respond Be_SimpleCopyBoth m = (if is_B_CopyData m
       then Some Be_SimpleCopyBoth
     else if m = B_CopyDone
       then Some Be_SimpleCopyBothServerDone
     else if is_B_ErrorResponse m
       then Some Be_SimpleCopyReady
     else None)"
  "respond Be_SimpleCopyBothClientDone m = (if is_B_CopyData m
       then Some Be_SimpleCopyBothClientDone
     else if m = B_CopyDone
       then Some Be_SimpleCopyBothDone
     else if is_B_ErrorResponse m
       then Some Be_SimpleCopyReady
     else None)"
  "respond Be_SimpleCopyBothServerDone m = None"
  "respond Be_SimpleCopyBothDone m = (if is_B_CommandComplete m
       then Some Be_SimpleCopyReady
     else None)"
  "respond Be_SimpleCopyBothFailed m = (if is_B_ErrorResponse m
       then Some Be_SimpleCopyReady
     else None)"
  "respond Be_ExtendedCopyBoth m = (if is_B_CopyData m
       then Some Be_ExtendedCopyBoth
     else if m = B_CopyDone
       then Some Be_ExtendedCopyBothServerDone
     else if is_B_ErrorResponse m
       then Some Be_ExtendedError
     else None)"
  "respond Be_ExtendedCopyBothClientDone m = (if is_B_CopyData m
       then Some Be_ExtendedCopyBothClientDone
     else if m = B_CopyDone
       then Some Be_ExtendedCopyBothDone
     else if is_B_ErrorResponse m
       then Some Be_ExtendedError
     else None)"
  "respond Be_ExtendedCopyBothServerDone m = None"
  "respond Be_ExtendedCopyBothDone m = (if is_B_CommandComplete m
       then Some Be_Building
     else None)"
  "respond Be_ExtendedCopyBothFailed m = (if is_B_ErrorResponse m
       then Some Be_ExtendedError
     else None)"
  "respond Be_Terminated m = None"
  by (simp_all add: respond_arms arm_table)

lemma receive_table [simp]:
  "receive Be_Ready m = (if is_F_Query m
       then Some Be_Simple
     else if is_F_Parse m
       then Some Be_ParseResponse
     else if is_F_Bind m
       then Some Be_BindResponse
     else if is_F_Describe m
       then Some Be_DescribeResponse
     else if is_F_Execute m
       then Some Be_ExecuteResponse
     else if is_F_Close m
       then Some Be_CloseResponse
     else if is_F_FunctionCall m
       then Some Be_FunctionResponse
     else if m = F_Terminate
       then Some Be_Terminated
     else None)"
  "receive Be_Simple m = None"
  "receive Be_SimpleError m = None"
  "receive Be_Building m = (if is_F_Parse m
       then Some Be_ParseResponse
     else if is_F_Bind m
       then Some Be_BindResponse
     else if is_F_Describe m
       then Some Be_DescribeResponse
     else if is_F_Execute m
       then Some Be_ExecuteResponse
     else if is_F_Close m
       then Some Be_CloseResponse
     else if m = F_Flush
       then Some Be_Building
     else if m = F_Sync
       then Some Be_SyncResponse
     else None)"
  "receive Be_ParseResponse m = None"
  "receive Be_BindResponse m = None"
  "receive Be_DescribeResponse m = None"
  "receive Be_ExecuteResponse m = None"
  "receive Be_CloseResponse m = None"
  "receive Be_ExtendedError m = (if is_F_Parse m \<or>
         is_F_Bind m \<or>
         is_F_Describe m \<or>
         is_F_Execute m \<or>
         is_F_Close m \<or>
         m = F_Flush \<or>
         is_F_Query m \<or>
         is_F_FunctionCall m \<or>
         m = F_Terminate \<or>
         is_F_CopyData m \<or>
         m = F_CopyDone \<or>
         is_F_CopyFail m \<or>
         is_F_PasswordResponse m
       then Some Be_ExtendedError
     else if m = F_Sync
       then Some Be_SyncResponse
     else None)"
  "receive Be_SyncResponse m = None"
  "receive Be_FunctionResponse m = None"
  "receive Be_FunctionReady m = None"
  "receive Be_SimpleCopyIn m = (if is_F_CopyData m
       then Some Be_SimpleCopyIn
     else if m = F_CopyDone
       then Some Be_SimpleCopyInDone
     else if is_F_CopyFail m
       then Some Be_SimpleCopyInFailed
     else None)"
  "receive Be_SimpleCopyInDone m = None"
  "receive Be_SimpleCopyInFailed m = None"
  "receive Be_SimpleCopyOut m = None"
  "receive Be_SimpleCopyOutDone m = None"
  "receive Be_SimpleCopyReady m = None"
  "receive Be_ExtendedCopyIn m = (if is_F_CopyData m
       then Some Be_ExtendedCopyIn
     else if m = F_CopyDone
       then Some Be_ExtendedCopyInDone
     else if is_F_CopyFail m
       then Some Be_ExtendedCopyInFailed
     else None)"
  "receive Be_ExtendedCopyInDone m = None"
  "receive Be_ExtendedCopyInFailed m = None"
  "receive Be_ExtendedCopyOut m = None"
  "receive Be_ExtendedCopyOutDone m = None"
  "receive Be_SimpleCopyBoth m = (if is_F_CopyData m
       then Some Be_SimpleCopyBoth
     else if m = F_CopyDone
       then Some Be_SimpleCopyBothClientDone
     else if is_F_CopyFail m
       then Some Be_SimpleCopyBothFailed
     else None)"
  "receive Be_SimpleCopyBothClientDone m = None"
  "receive Be_SimpleCopyBothServerDone m = (if is_F_CopyData m
       then Some Be_SimpleCopyBothServerDone
     else if m = F_CopyDone
       then Some Be_SimpleCopyBothDone
     else if is_F_CopyFail m
       then Some Be_SimpleCopyBothFailed
     else None)"
  "receive Be_SimpleCopyBothDone m = None"
  "receive Be_SimpleCopyBothFailed m = None"
  "receive Be_ExtendedCopyBoth m = (if is_F_CopyData m
       then Some Be_ExtendedCopyBoth
     else if m = F_CopyDone
       then Some Be_ExtendedCopyBothClientDone
     else if is_F_CopyFail m
       then Some Be_ExtendedCopyBothFailed
     else None)"
  "receive Be_ExtendedCopyBothClientDone m = None"
  "receive Be_ExtendedCopyBothServerDone m = (if is_F_CopyData m
       then Some Be_ExtendedCopyBothServerDone
     else if m = F_CopyDone
       then Some Be_ExtendedCopyBothDone
     else if is_F_CopyFail m
       then Some Be_ExtendedCopyBothFailed
     else None)"
  "receive Be_ExtendedCopyBothDone m = None"
  "receive Be_ExtendedCopyBothFailed m = None"
  "receive Be_Terminated m = None"
  by (simp_all add: receive_arms arm_table)

end
