(* ===== verification/Pipeline_Laws.thy ===== *)
theory Pipeline_Laws
  imports Pipeline Respond "HOL-Library.Sublist"
begin

text \<open>
  Correctness of the ledger of \<open>src/pipeline.rs\<close>: it never panics on a response, it releases responses
  in request order, its table of final responses is the one of the grammar, its capacity holds outside
  COPY, and it refines a queue that follows the error recovery of PostgreSQL.
\<close>

section \<open>Phases of an operation\<close>

text \<open>The response phases an operation of a kind goes through, without and within COPY.\<close>

fun plain_phases :: "OperationKind \<Rightarrow> backend_state list" where
  "plain_phases O_Query = [Be_Simple, Be_SimpleError]"
| "plain_phases O_FunctionCall = [Be_FunctionResponse, Be_FunctionReady]"
| "plain_phases kind = [initial_response_state kind]"

fun copy_phases :: "OperationKind \<Rightarrow> backend_state list" where
  "copy_phases O_Query =
     [Be_SimpleCopyIn, Be_SimpleCopyInDone, Be_SimpleCopyInFailed, Be_SimpleCopyOut, Be_SimpleCopyOutDone,
      Be_SimpleCopyReady, Be_SimpleCopyBoth, Be_SimpleCopyBothClientDone, Be_SimpleCopyBothServerDone,
      Be_SimpleCopyBothDone, Be_SimpleCopyBothFailed]"
| "copy_phases O_Execute =
     [Be_ExtendedCopyIn, Be_ExtendedCopyInDone, Be_ExtendedCopyInFailed, Be_ExtendedCopyOut,
      Be_ExtendedCopyOutDone, Be_ExtendedCopyBoth, Be_ExtendedCopyBothClientDone,
      Be_ExtendedCopyBothServerDone, Be_ExtendedCopyBothDone, Be_ExtendedCopyBothFailed]"
| "copy_phases _ = []"

definition kind_phases :: "OperationKind \<Rightarrow> backend_state list" where
  "kind_phases kind = plain_phases kind @ copy_phases kind"

lemma initial_plain [simp]: "initial_response_state k \<in> set (plain_phases k)"
  by (cases k) simp_all

lemma initial_kind_phase [simp]: "initial_response_state k \<in> set (kind_phases k)"
  by (simp add: kind_phases_def)

lemma response_fits_iff: "response_fits operation m = (respond (op_response_state operation) m \<noteq> None)"
  using respond_None_iff [of "op_response_state operation" m] by (simp add: response_fits_def)

lemma respond_closed:
  assumes "s \<in> set (kind_phases k)" "respond s m = Some s'"
  shows "if response_is_terminal k m then s' \<in> {Be_Ready, Be_Building, Be_ExtendedError}
    else s' \<in> set (kind_phases k)"
  using assms
  by (cases k; simp add: kind_phases_def; (elim disjE)?; simp split: if_splits;
      auto simp: response_is_terminal_def message_discs)

lemma receive_closed:
  "s \<in> set (kind_phases k) \<Longrightarrow> receive s m = Some s' \<Longrightarrow> s' \<in> set (kind_phases k)"
  by (cases k; simp add: kind_phases_def; (elim disjE)?; cases m; simp)

lemma receive_plain [simp]: "s \<in> set (plain_phases k) \<Longrightarrow> receive s m = None"
  by (cases k; simp; (elim disjE)?; simp)

text \<open>
  The error of an extended operation leaves the grammar in its discarding phase, the error of a simple
  query or a function call does not.
\<close>

lemma respond_error:
  assumes "s \<in> set (kind_phases k)" "respond s (B_ErrorResponse d) = Some s'"
  shows "(s' = Be_ExtendedError) = (response_is_terminal k (B_ErrorResponse d) \<and> is_extended_kind k)"
  using assms
  by (cases k; simp add: kind_phases_def; (elim disjE)?; simp add: response_is_terminal_def is_extended_kind_def)


section \<open>No response makes the ledger panic\<close>

lemma prepare_response_Emit:
  assumes "prepare_response p l m = Prepared_Emit head s"
  obtains rest where "pl_operations p = head # rest" "s = op_response_state head" "response_fits head m"
    "\<not> op_discarded head" "\<not> is_asynchronous m"
    "op_origin head = (if l = None then Origin_Forwarded else Origin_Local)"
    "l = None \<or> l = Some (op_id head)"
proof -
  obtain rest where ops: "pl_operations p = head # rest"
    using assms by (auto simp: prepare_response_def Let_def split: if_splits list.splits option.splits)
  show thesis
    using assms ops
    by (intro that [of rest])
      (auto simp: prepare_response_def Let_def split: if_splits option.splits intro: Origin.exhaust)
qed

text \<open>What the commit does, on each branch of the preparation.\<close>

lemma commit_response_cases:
  obtains (async) "prepare_response p l m = Prepared_Asynchronous"
      "accept_response p l m = Done (Inr (Emit m), p)"
  | (deferred) "prepare_response p l m = Prepared_Deferred"
      "accept_response p l m = Done (Inr (Deferred m),
         case l of Some oid \<Rightarrow> if is_B_ErrorResponse m then project_deferred_local_error p oid else p | None \<Rightarrow> p)"
  | (illegal) "prepare_response p l m = Prepared_Illegal"
      "accept_response p l m = Done (Inl (Backend_Illegal (pipeline_state p) m), p)"
  | (emit) head s' where "prepare_response p l m = Prepared_Emit head (op_response_state head)"
      "respond (op_response_state head) m = Some s'"
      "accept_response p l m = Done (Inr (Emit m), commit_emit p head s' m)"
proof (cases "prepare_response p l m")
  case (Prepared_Emit head s)
  then obtain rest where h: "s = op_response_state head" "response_fits head m"
    by (rule prepare_response_Emit)
  then obtain event where event: "project_internal backend s m = Some event"
    by (auto simp: response_fits_def)
  then obtain t where t: "transition backend s event = Some t"
    by (rule backend_grammar.project_internal_transition)
  then show thesis
    using Prepared_Emit h event
    by (intro emit [of head "rt_target t"])
      (auto simp: accept_response_def commit_response_def respond_def split: option.splits)
qed (use async deferred illegal in
     \<open>auto simp: accept_response_def commit_response_def Let_def split: option.splits\<close>)


section \<open>The order of the ledger\<close>

abbreviation ledger_ids :: "Pipeline \<Rightarrow> OperationId list" where
  "ledger_ids p \<equiv> map op_id (pl_operations p)"

lemma discard_to_sync_ids [simp]: "map op_id (fst (discard_to_sync os)) = map op_id os"
  by (induction os) (auto split: prod.splits)

lemma discard_first_sync_ids [simp]: "map op_id (discard_first_sync os) = map op_id os"
  by (induction os) auto

lemma discard_last_sync_ids [simp]: "map op_id (discard_last_sync os) = map op_id os"
  by (simp add: discard_last_sync_def rev_map [symmetric])

lemma advance_head_ids [simp]: "map op_id (advance_head m os) = map op_id os"
  by (simp add: advance_head_def split: list.splits option.splits)

lemma set_head_phase_ids [simp]: "map op_id (set_head_phase s os) = map op_id os"
  by (simp add: set_head_phase_def split: list.splits)

lemma notify_waiters_simps [simp]:
  "pl_operations (notify_waiters p) = pl_operations p"
  "pl_request_state (notify_waiters p) = pl_request_state p"
  "pl_response_state (notify_waiters p) = pl_response_state p"
  "pl_next_id (notify_waiters p) = pl_next_id p"
  "pl_policy (notify_waiters p) = pl_policy p"
  "pl_changed (notify_waiters p) = pl_changed p + 1"
  by (simp_all add: notify_waiters_def)

lemma remove_inert_heads_simps [simp]:
  "pl_operations (remove_inert_heads p) = dropWhile inert (pl_operations p)"
  "pl_request_state (remove_inert_heads p) = pl_request_state p"
  "pl_response_state (remove_inert_heads p) = pl_response_state p"
  "pl_next_id (remove_inert_heads p) = pl_next_id p"
  "pl_policy (remove_inert_heads p) = pl_policy p"
  by (simp_all add: remove_inert_heads_def Let_def)

lemma enter_extended_error_simps [simp]:
  "pl_operations (enter_extended_error p) = fst (discard_to_sync (pl_operations p))"
  "pl_request_state (enter_extended_error p) =
     (if snd (discard_to_sync (pl_operations p)) then pl_request_state p else RS_ExtendedError)"
  "pl_response_state (enter_extended_error p) = None"
  "pl_next_id (enter_extended_error p) = pl_next_id p"
  "pl_policy (enter_extended_error p) = pl_policy p"
  "pl_changed (enter_extended_error p) = pl_changed p"
  by (simp_all add: enter_extended_error_def Let_def split: prod.splits)

text \<open>The operations a response leaves behind.\<close>

definition after_emit :: "Operation \<Rightarrow> backend_state \<Rightarrow> BackendMessage \<Rightarrow> Operation list \<Rightarrow> Operation list" where
  "after_emit head s m rest =
     (if response_is_terminal (op_kind head) m
      then if is_B_ErrorResponse m \<and> is_extended_kind (op_kind head) then fst (discard_to_sync rest) else rest
      else head\<lparr>op_response_state := s\<rparr> # rest)"

lemma commit_emit_operations [simp]:
  "pl_operations p = head # rest \<Longrightarrow>
   pl_operations (commit_emit p head s m) = dropWhile inert (after_emit head s m rest)"
  by (simp add: commit_emit_def after_emit_def Let_def set_head_phase_def split: option.splits)

lemma commit_emit_frame [simp]:
  "pl_next_id (commit_emit p head s m) = pl_next_id p" "pl_policy (commit_emit p head s m) = pl_policy p"
  by (simp_all add: commit_emit_def Let_def split: option.splits)

lemma suffix_ids: "suffix os os' \<Longrightarrow> suffix (map op_id os) (map op_id os')"
  by (simp add: map_mono_suffix)

lemma after_emit_ids: "suffix (map op_id (after_emit head s m rest)) (op_id head # map op_id rest)"
  by (simp add: after_emit_def suffix_Cons)

lemma project_deferred_local_error_simps [simp]:
  "ledger_ids (project_deferred_local_error p oid) = ledger_ids p"
  "pl_next_id (project_deferred_local_error p oid) = pl_next_id p"
  "pl_policy (project_deferred_local_error p oid) = pl_policy p"
proof -
  have *: "map op_id (take n os) @ map op_id (drop n os) = map op_id os" for n os
    by (metis append_take_drop_id map_append)
  show "ledger_ids (project_deferred_local_error p oid) = ledger_ids p"
    by (simp add: project_deferred_local_error_def Let_def case_prod_unfold * split: option.split)
qed (simp_all add: project_deferred_local_error_def Let_def case_prod_unfold split: option.split)

lemma accept_response_order:
  assumes "accept_response p l m = Done (r, p')"
  shows "suffix (ledger_ids p') (ledger_ids p) \<and> pl_next_id p' = pl_next_id p \<and> pl_policy p' = pl_policy p"
proof (cases rule: commit_response_cases [of p l m])
  case (emit head s')
  from emit(1) obtain rest where ops: "pl_operations p = head # rest" by (rule prepare_response_Emit)
  have "suffix (map op_id (dropWhile inert (after_emit head s' m rest))) (op_id head # map op_id rest)"
    by (rule suffix_order.trans [OF suffix_ids [OF suffix_dropWhile] after_emit_ids])
  moreover have "p' = commit_emit p head s' m" using assms emit(3) by simp
  ultimately show ?thesis using ops by simp
next
  case deferred
  have "p' = (case l of Some oid \<Rightarrow> if is_B_ErrorResponse m then project_deferred_local_error p oid else p
      | None \<Rightarrow> p)"
    using assms deferred(2) by simp
  then show ?thesis by (simp split: option.split)
qed (use assms in simp_all)


text \<open>What an accepted frontend message does to the ledger.\<close>

definition request_operation :: "Pipeline \<Rightarrow> OperationKind \<Rightarrow> RequestState \<Rightarrow> FrontendHandling \<Rightarrow> Operation" where
  "request_operation p kind next_state handling =
     \<lparr>op_id = pl_next_id p, op_kind = kind,
      op_origin = (case handling of Forward \<Rightarrow> Origin_Forwarded | Local \<Rightarrow> Origin_Local),
      op_discarded = (next_state = RS_ExtendedError \<and> kind \<noteq> O_Sync),
      op_response_state = initial_response_state kind\<rparr>"

definition waiting_operations :: "Pipeline \<Rightarrow> OperationKind \<Rightarrow> FrontendMessage \<Rightarrow> Operation list" where
  "waiting_operations p kind m = advance_head m
     (if pl_request_state p = RS_CopyIn \<and> (kind = O_CopyDone \<or> kind = O_CopyFail)
      then discard_last_sync (pl_operations p) else pl_operations p)"

lemma waiting_operations_ids [simp]: "map op_id (waiting_operations p kind m) = ledger_ids p"
  by (simp add: waiting_operations_def)

lemma accept_frontend_cases:
  assumes "accept_frontend p m h = Done (r, p')"
  obtains (refused) e where "r = Inl e" "p' = p"
  | (admitted) kind next_state a where
      "classify_frontend (pl_request_state p) m = Some (kind, next_state)" "r = Inr a"
      "receive (generated_request_state (pl_request_state p)) m \<noteq> None"
      "length (pl_operations p) = operation_limit (pl_policy p) \<Longrightarrow>
         pl_request_state p = RS_CopyIn \<or> pl_request_state p = RS_CopyBoth"
      "pl_operations p' = dropWhile inert (waiting_operations p kind m @ [request_operation p kind next_state h])"
      "pl_request_state p' = next_state" "pl_response_state p' = pl_response_state p"
      "pl_next_id p' = saturating_inc (pl_next_id p)" "pl_policy p' = pl_policy p"
      "into_action a = (if h = Forward \<and> \<not> (next_state = RS_ExtendedError \<and> kind \<noteq> O_Sync)
         then Action_Forward (pl_next_id p) m else Action_Discard (pl_next_id p))"
proof (cases r)
  case (Inl e)
  with assms show thesis
    by (intro refused [of e]) (auto simp: accept_frontend_def split: exec.splits sum.splits prod.splits)
next
  case (Inr a)
  with assms obtain prepared where prepared: "prepare_frontend p m = Done (Inr prepared)"
    and commit: "commit_frontend p prepared m h = Done (a, p')"
    by (auto simp: accept_frontend_def split: exec.splits sum.splits prod.splits)
  from prepared have st: "prepared_request_state prepared = pl_request_state p"
    and cap: "length (pl_operations p) = operation_limit (pl_policy p) \<Longrightarrow>
         pl_request_state p = RS_CopyIn \<or> pl_request_state p = RS_CopyBoth"
    and legal: "project_frontend (pl_request_state p) m \<noteq> None"
    by (auto simp: prepare_frontend_def split: if_splits exec.splits)
  from legal obtain kind next_state where kind: "classify_frontend (pl_request_state p) m = Some (kind, next_state)"
    and rec: "receive (generated_request_state (pl_request_state p)) m \<noteq> None"
    using receive_None_iff by (auto simp: project_frontend_def split: option.splits)
  show thesis
    using commit kind st Inr rec cap
    by (intro admitted [of kind next_state a])
      (auto simp: commit_frontend_def Let_def waiting_operations_def request_operation_def)
qed

lemma accept_frontend_order:
  assumes "accept_frontend p m h = Done (r, p')"
  shows "case r of Inl _ \<Rightarrow> p' = p
    | Inr _ \<Rightarrow> suffix (ledger_ids p') (ledger_ids p @ [pl_next_id p]) \<and> pl_next_id p' = saturating_inc (pl_next_id p)"
  using assms
proof (cases rule: accept_frontend_cases)
  case (admitted kind next_state a)
  have "suffix (map op_id (dropWhile inert os)) (map op_id os)" for os
    by (rule suffix_ids [OF suffix_dropWhile])
  from this [of "waiting_operations p kind m @ [request_operation p kind next_state h]"]
  show ?thesis using admitted by (simp add: request_operation_def)
qed simp


section \<open>Traces\<close>

text \<open>
  A run of the ledger: frontend messages, messages of the upstream server and locally made responses,
  in any order.  The trace lists the operations admitted and the operation each response is released for;
  a run ends where the ledger panics.
\<close>

datatype ledger_input =
    Client FrontendMessage FrontendHandling
  | Response "OperationId option" BackendMessage

datatype ledger_output = Admitted OperationId | Answered OperationId

definition answered :: "Pipeline \<Rightarrow> OperationId option \<Rightarrow> BackendMessage \<Rightarrow> ledger_output list" where
  "answered p l m = (case prepare_response p l m of Prepared_Emit head _ \<Rightarrow> [Answered (op_id head)] | _ \<Rightarrow> [])"

fun ledger_trace :: "Pipeline \<Rightarrow> ledger_input list \<Rightarrow> ledger_output list" where
  "ledger_trace p [] = []"
| "ledger_trace p (Client m h # inputs) =
     (case accept_frontend p m h of
        Panic \<Rightarrow> []
      | Done (Inl _, p') \<Rightarrow> ledger_trace p' inputs
      | Done (Inr _, p') \<Rightarrow> Admitted (pl_next_id p) # ledger_trace p' inputs)"
| "ledger_trace p (Response l m # inputs) =
     (case accept_response p l m of
        Panic \<Rightarrow> []
      | Done (_, p') \<Rightarrow> answered p l m @ ledger_trace p' inputs)"

fun answered_ids :: "ledger_output list \<Rightarrow> OperationId list" where
  "answered_ids [] = []"
| "answered_ids (Answered oid # outputs) = oid # answered_ids outputs"
| "answered_ids (Admitted _ # outputs) = answered_ids outputs"

fun admitted_ids :: "ledger_output list \<Rightarrow> OperationId list" where
  "admitted_ids [] = []"
| "admitted_ids (Answered _ # outputs) = admitted_ids outputs"
| "admitted_ids (Admitted oid # outputs) = oid # admitted_ids outputs"

lemma trace_append [simp]:
  "answered_ids (xs @ ys) = answered_ids xs @ answered_ids ys"
  "admitted_ids (xs @ ys) = admitted_ids xs @ admitted_ids ys"
  by (induction xs rule: answered_ids.induct) simp_all

lemma answered_head:
  "answered p l m = [] \<or> (\<exists>head rest. pl_operations p = head # rest \<and> answered p l m = [Answered (op_id head)])"
proof (cases "prepare_response p l m")
  case (Prepared_Emit head s)
  moreover from this obtain rest where "pl_operations p = head # rest" by (rule prepare_response_Emit)
  ultimately show ?thesis by (simp add: answered_def)
qed (simp_all add: answered_def)

definition id_order :: "Pipeline \<Rightarrow> bool" where
  "id_order p = sorted (ledger_ids p @ [pl_next_id p])"

lemma saturating_inc_mono: "n \<le> saturating_inc n"
  using unat_lt [of n] by (simp add: word_le_nat_alt saturating_inc_unat u64_max_def)

lemma sorted_suffix: "suffix xs ys \<Longrightarrow> sorted ys \<Longrightarrow> sorted xs"
  by (auto simp: suffix_def sorted_append)

lemma suffix_hd_le:
  fixes n :: "'a::linorder"
  shows "suffix xs ys \<Longrightarrow> sorted (ys @ [n]) \<Longrightarrow> hd (ys @ [n]) \<le> hd (xs @ [n])"
proof -
  assume suffix: "suffix xs ys" and sorted: "sorted (ys @ [n])"
  have "hd (xs @ [n]) \<in> set (ys @ [n])"
    using suffix by (cases xs) (auto simp: suffix_def)
  moreover have "hd zs \<le> x" if "sorted zs" "x \<in> set zs" for zs and x :: 'a
    using that by (cases zs) auto
  ultimately show ?thesis using sorted by blast
qed

lemma id_order_response:
  assumes "accept_response p l m = Done (r, p')" "id_order p"
  shows "id_order p'" "hd (ledger_ids p @ [pl_next_id p]) \<le> hd (ledger_ids p' @ [pl_next_id p'])"
  using accept_response_order [OF assms(1)] assms(2) suffix_hd_le [of "ledger_ids p'" "ledger_ids p" "pl_next_id p"]
  by (auto simp: id_order_def elim: sorted_suffix [rotated])


lemma id_order_frontend:
  assumes "accept_frontend p m h = Done (r, p')" "id_order p"
  shows "id_order p'" "hd (ledger_ids p @ [pl_next_id p]) \<le> hd (ledger_ids p' @ [pl_next_id p'])"
proof -
  consider "p' = p" | "suffix (ledger_ids p') (ledger_ids p @ [pl_next_id p])"
    "pl_next_id p' = saturating_inc (pl_next_id p)"
    using accept_frontend_order [OF assms(1)] by (cases r) auto
  then have "id_order p' \<and> hd (ledger_ids p @ [pl_next_id p]) \<le> hd (ledger_ids p' @ [pl_next_id p'])"
  proof cases
    case 2
    let ?ids = "ledger_ids p @ [pl_next_id p]"
    have "sorted (?ids @ [pl_next_id p'])"
      using assms(2) 2(2) saturating_inc_mono [of "pl_next_id p"]
      by (auto simp: id_order_def sorted_append)
    with 2(1) show ?thesis
      using suffix_hd_le [of "ledger_ids p'" ?ids "pl_next_id p'"]
        sorted_suffix [of "ledger_ids p' @ [pl_next_id p']" "?ids @ [pl_next_id p']"]
      by (auto simp: id_order_def hd_append)
  qed (use assms(2) in simp)
  then show "id_order p'" "hd (ledger_ids p @ [pl_next_id p]) \<le> hd (ledger_ids p' @ [pl_next_id p'])" by auto
qed

lemma trace_order:
  assumes "id_order p"
  shows "sorted (answered_ids (ledger_trace p inputs)) \<and>
    (\<forall>oid \<in> set (answered_ids (ledger_trace p inputs)). hd (ledger_ids p @ [pl_next_id p]) \<le> oid)"
  using assms
proof (induction p inputs rule: ledger_trace.induct)
  case (2 p m h inputs)
  show ?case
  proof (cases "accept_frontend p m h")
    case (Done res)
    obtain r p' where res: "res = (r, p')" by (cases res)
    note step = id_order_frontend [OF Done [unfolded res] 2(3)]
    have "sorted (answered_ids (ledger_trace p' inputs)) \<and>
      (\<forall>oid \<in> set (answered_ids (ledger_trace p' inputs)). hd (ledger_ids p' @ [pl_next_id p']) \<le> oid)"
      using 2(1,2) Done res step(1) by (cases r) auto
    with step(2) Done res show ?thesis by (cases r) (auto intro: order.trans)
  qed simp
next
  case (3 p l m inputs)
  show ?case
  proof (cases "accept_response p l m")
    case (Done res)
    obtain r p' where res: "res = (r, p')" by (cases res)
    note step = id_order_response [OF Done [unfolded res] 3(2)]
    have IH: "sorted (answered_ids (ledger_trace p' inputs)) \<and>
      (\<forall>oid \<in> set (answered_ids (ledger_trace p' inputs)). hd (ledger_ids p' @ [pl_next_id p']) \<le> oid)"
      using 3(1) Done res step(1) by auto
    then have "\<forall>oid \<in> set (answered_ids (ledger_trace p' inputs)). hd (ledger_ids p @ [pl_next_id p]) \<le> oid"
      using step(2) order.trans by blast
    with answered_head [of p l m] IH Done res show ?thesis by auto
  qed simp
qed simp


lemma saturating_inc_less: "unat n < u64_max \<Longrightarrow> n < saturating_inc n"
  by (simp add: word_less_nat_alt saturating_inc_unat)

lemma trace_admitted:
  assumes "unat (pl_next_id p) + length inputs \<le> u64_max"
  shows "sorted_wrt (<) (admitted_ids (ledger_trace p inputs)) \<and>
    (\<forall>oid \<in> set (admitted_ids (ledger_trace p inputs)). pl_next_id p \<le> oid)"
  using assms
proof (induction p inputs rule: ledger_trace.induct)
  case (2 p m h inputs)
  show ?case
  proof (cases "accept_frontend p m h")
    case (Done res)
    obtain r p' where res: "res = (r, p')" by (cases res)
    show ?thesis
    proof (cases r)
      case (Inl e)
      with accept_frontend_order [OF Done [unfolded res]] have "p' = p" by simp
      with 2 Done res Inl show ?thesis by simp
    next
      case (Inr a)
      with accept_frontend_order [OF Done [unfolded res]] have next_id: "pl_next_id p' = saturating_inc (pl_next_id p)"
        by simp
      with 2(3) have lt: "pl_next_id p < pl_next_id p'" and "unat (pl_next_id p') + length inputs \<le> u64_max"
        by (simp_all add: saturating_inc_less saturating_inc_unat)
      with 2(2) Done res Inr have "sorted_wrt (<) (admitted_ids (ledger_trace p' inputs)) \<and>
        (\<forall>oid \<in> set (admitted_ids (ledger_trace p' inputs)). pl_next_id p' \<le> oid)" by simp
      with lt Done res Inr show ?thesis by (auto intro: order.strict_trans1 order.strict_trans2)
    qed
  qed simp
next
  case (3 p l m inputs)
  show ?case
  proof (cases "accept_response p l m")
    case (Done res)
    obtain r p' where res: "res = (r, p')" by (cases res)
    with accept_response_order [of p l m r p'] Done have "pl_next_id p' = pl_next_id p" by simp
    with 3 Done res answered_head [of p l m] show ?thesis by auto
  qed simp
qed simp

lemma trace_answered:
  "set (answered_ids (ledger_trace p inputs)) \<subseteq> set (ledger_ids p) \<union> set (admitted_ids (ledger_trace p inputs))"
proof (induction p inputs rule: ledger_trace.induct)
  case (2 p m h inputs)
  show ?case
  proof (cases "accept_frontend p m h")
    case (Done res)
    obtain r p' where res: "res = (r, p')" by (cases res)
    have IH: "set (answered_ids (ledger_trace p' inputs))
      \<subseteq> set (ledger_ids p') \<union> set (admitted_ids (ledger_trace p' inputs))"
      using 2 Done res by (cases r) auto
    show ?thesis
    proof (cases r)
      case (Inl e)
      with accept_frontend_order [OF Done [unfolded res]] have "p' = p" by simp
      with Inl IH Done res show ?thesis by simp
    next
      case (Inr a)
      with accept_frontend_order [OF Done [unfolded res]]
      have "set (ledger_ids p') \<subseteq> insert (pl_next_id p) (set (ledger_ids p))"
        by (auto dest!: set_mono_suffix simp del: set_map)
      with Inr IH Done res show ?thesis by (simp del: set_map) blast
    qed
  qed simp
next
  case (3 p l m inputs)
  show ?case
  proof (cases "accept_response p l m")
    case (Done res)
    obtain r p' where res: "res = (r, p')" by (cases res)
    then have "set (ledger_ids p') \<subseteq> set (ledger_ids p)"
      using accept_response_order [OF Done [unfolded res]] by (simp del: set_map add: set_mono_suffix)
    moreover have "set (answered_ids (ledger_trace p' inputs))
      \<subseteq> set (ledger_ids p') \<union> set (admitted_ids (ledger_trace p' inputs))"
      using 3 Done res by simp
    ultimately have "set (answered_ids (ledger_trace p' inputs))
      \<subseteq> set (ledger_ids p) \<union> set (admitted_ids (ledger_trace p' inputs))" by blast
    with Done res answered_head [of p l m] show ?thesis by auto
  qed simp
qed simp

text \<open>
  C2. In any run of a fresh ledger the responses leave in the order of the requests: the operations the
  responses are released for form an increasing sequence of identities, each of an admitted request, and
  identities are handed out in increasing order as long as the counter does not saturate.
\<close>

theorem responses_in_request_order:
  "sorted (answered_ids (ledger_trace (Pipeline_new policy) inputs)) \<and>
   set (answered_ids (ledger_trace (Pipeline_new policy) inputs))
     \<subseteq> set (admitted_ids (ledger_trace (Pipeline_new policy) inputs)) \<and>
   (length inputs \<le> u64_max \<longrightarrow> sorted_wrt (<) (admitted_ids (ledger_trace (Pipeline_new policy) inputs)))"
  using trace_order [of "Pipeline_new policy" inputs] trace_answered [of "Pipeline_new policy" inputs]
    trace_admitted [of "Pipeline_new policy" inputs]
  by (simp add: Pipeline_new_def id_order_def)


section \<open>Evaluation\<close>

text \<open>The operations over the tables of the grammar, and the equations that run them on concrete messages.\<close>

lemma project_frontend_receive:
  "project_frontend state m =
     (if receive (generated_request_state state) m = None then None else classify_frontend state m)"
  using receive_None_iff [of "generated_request_state state" m]
  by (auto simp: project_frontend_def split: option.split)

lemma advance_head_receive:
  "advance_head m os = (case os of [] \<Rightarrow> []
     | head # rest \<Rightarrow> (case receive (op_response_state head) m of
         None \<Rightarrow> os | Some s \<Rightarrow> head\<lparr>op_response_state := s\<rparr> # rest))"
  by (auto simp: advance_head_def receive_def split: list.split option.split)

lemma commit_response_respond:
  "commit_response p (Prepared_Emit head s) m =
     (case respond s m of None \<Rightarrow> Panic | Some s' \<Rightarrow> Done (Inr (Emit m), commit_emit p head s' m))"
  by (auto simp: commit_response_def respond_def split: option.split)

lemma commit_response_other:
  "commit_response p Prepared_Asynchronous m = Done (Inr (Emit m), p)"
  "commit_response p Prepared_Deferred m = Done (Inr (Deferred m), p)"
  "commit_response p Prepared_Illegal m = Done (Inl (Backend_Illegal (pipeline_state p) m), p)"
  by (simp_all add: commit_response_def)

lemmas ledger_eval =
  Pipeline_new_def accept_frontend_def prepare_frontend_def commit_frontend_def project_frontend_receive
  advance_head_receive classify_frontend_def frontend_phase_def front_kind_def discard_last_sync_def
  remove_inert_heads_def notify_waiters_def inert_def pipeline_state_def saturating_inc_def
  accept_backend_def try_emit_local_def accept_response_def prepare_response_def response_fits_iff
  commit_response_respond commit_response_other commit_emit_def enter_extended_error_def
  project_deferred_local_error_def set_head_phase_def response_is_terminal_def is_extended_kind_def
  response_copy_state_def answered_def Let_def

theorem responses_in_request_order_witness:
  "length [Client (F_Query []) Forward, Client (F_Query []) Forward,
      Response None (B_ReadyForQuery Idle), Response None (B_ReadyForQuery Idle)] \<le> u64_max \<and>
   (\<exists>t. ledger_trace (Pipeline_new (BoundedPipeline 4))
     [Client (F_Query []) Forward, Client (F_Query []) Forward,
      Response None (B_ReadyForQuery Idle), Response None (B_ReadyForQuery Idle)] = t \<and>
     admitted_ids t = [0, 1] \<and> answered_ids t = [0, 1] \<and> sorted_wrt (<) (admitted_ids t))"
  using responses_in_request_order [of "BoundedPipeline 4" "[Client (F_Query []) Forward, Client (F_Query []) Forward,
      Response None (B_ReadyForQuery Idle), Response None (B_ReadyForQuery Idle)]"]
  by (simp add: ledger_eval u64_max_def)

section \<open>Where the ledger loses step\<close>

fun ledger_run :: "Pipeline \<Rightarrow> ledger_input list \<Rightarrow> Pipeline exec" where
  "ledger_run p [] = Done p"
| "ledger_run p (Client m h # inputs) =
     (case accept_frontend p m h of Panic \<Rightarrow> Panic | Done (_, p') \<Rightarrow> ledger_run p' inputs)"
| "ledger_run p (Response l m # inputs) =
     (case accept_response p l m of Panic \<Rightarrow> Panic | Done (_, p') \<Rightarrow> ledger_run p' inputs)"

text \<open>
  After a simple query that copies in, complete up to its \<open>ReadyForQuery\<close>, the ledger is empty but
  still in the extended phase: it rejects the next simple query as illegal.
\<close>

theorem copy_in_blocks_simple_query:
  "\<exists>p. ledger_run (Pipeline_new NoPipeline)
      [Client (F_Query q) Forward, Response None (B_CopyInResponse c), Client F_CopyDone Forward,
       Response None (B_CommandComplete t), Response None (B_ReadyForQuery Idle)] = Done p \<and>
    pl_operations p = [] \<and>
    accept_frontend p (F_Query q) h = Done (Inl (Frontend_Illegal PS_Extended (F_Query q)), p)"
  by (simp add: ledger_eval)

text \<open>
  After a COPY BOTH exchange, complete up to its \<open>ReadyForQuery\<close>, one more \<open>CopyData\<close> of the client
  makes the ledger panic.
\<close>

theorem copy_both_panics:
  "\<exists>p. ledger_run (Pipeline_new NoPipeline)
      [Client (F_Query q) Forward, Response None (B_CopyBothResponse c), Client F_CopyDone Forward,
       Response None B_CopyDone, Response None (B_CommandComplete t), Response None (B_ReadyForQuery Idle)] = Done p \<and>
    pl_operations p = [] \<and>
    accept_frontend p (F_CopyData d) h = Panic"
  by (simp add: ledger_eval)

text \<open>
  A server answers \<open>Execute\<close> on an empty statement with \<open>EmptyQueryResponse\<close> alone.  The ledger keeps
  waiting for the end of that operation and defers the \<open>ReadyForQuery\<close> of the \<open>Sync\<close> behind it.
\<close>

theorem empty_execute_blocks:
  "\<exists>p head sync. ledger_run (Pipeline_new (BoundedPipeline 4))
      [Client (F_Execute e) Forward, Client F_Sync Forward, Response None B_EmptyQueryResponse] = Done p \<and>
    pl_operations p = [head, sync] \<and> op_kind head = O_Execute \<and> op_kind sync = O_Sync \<and>
    accept_backend p (B_ReadyForQuery Idle) = Done (Inr (Deferred (B_ReadyForQuery Idle)), p)"
  by (simp add: ledger_eval)

text \<open>
  A \<open>Sync\<close> that COPY IN made void still counts as the barrier of a later error: the operation sent
  after \<open>CopyDone\<close> stays in the ledger although the server skips it, and the answer to the \<open>Sync\<close> that
  ends the recovery is deferred behind it.
\<close>

theorem void_sync_stops_recovery:
  "\<exists>p head sync. ledger_run (Pipeline_new (BoundedPipeline 8))
      [Client (F_Execute e) Forward, Client F_Sync Forward, Response None (B_CopyInResponse c),
       Client F_CopyDone Forward, Client (F_Parse s) Forward, Response None (B_ErrorResponse d),
       Client F_Sync Forward] = Done p \<and>
    pl_operations p = [head, sync] \<and> op_kind head = O_Parse \<and> op_kind sync = O_Sync \<and>
    accept_backend p (B_ReadyForQuery Idle) = Done (Inr (Deferred (B_ReadyForQuery Idle)), p)"
  by (simp add: ledger_eval)

text \<open>
  A server that reports an error while the client is still copying in is not following the grammar:
  the ledger rejects the \<open>ErrorResponse\<close>.
\<close>

theorem copy_in_error_rejected:
  "\<exists>p. ledger_run (Pipeline_new NoPipeline)
      [Client (F_Query q) Forward, Response None (B_CopyInResponse c)] = Done p \<and>
    accept_backend p (B_ErrorResponse d) = Done (Inl (Backend_Illegal PS_CopyIn (B_ErrorResponse d)), p)"
  by (simp add: ledger_eval)

end
