(* ===== verification/Pipeline_Queue.thy ===== *)
theory Pipeline_Queue
  imports Pipeline_Laws
begin

text \<open>
  Outside COPY the ledger of \<open>src/pipeline.rs\<close> refines a queue that follows a PostgreSQL server: one entry
  per operation that will be answered, answered front first along the \<open>backend\<close> grammar, and after an
  error of the extended protocol everything is skipped up to the next \<open>Sync\<close>.  The queue takes the end of
  an operation from the grammar; the ledger takes it from a table of its own.
\<close>

section \<open>The queue of a server\<close>

type_synonym response_queue = "(OperationKind \<times> backend_state) list \<times> bool"

definition silent :: "OperationKind \<Rightarrow> bool" where
  "silent kind = (kind = O_Flush \<or> kind = O_CopyData \<or> kind = O_CopyDone \<or> kind = O_CopyFail \<or> kind = O_Terminate)"

fun queue_request :: "OperationKind \<Rightarrow> response_queue \<Rightarrow> response_queue" where
  "queue_request kind (q, skipping) =
     (if kind = O_Sync then (q @ [(kind, initial_response_state kind)], False)
      else if skipping \<or> silent kind then (q, skipping)
      else (q @ [(kind, initial_response_state kind)], skipping))"

definition skip_to_sync :: "(OperationKind \<times> backend_state) list \<Rightarrow> bool \<Rightarrow> response_queue" where
  "skip_to_sync q skipping =
     (let q' = dropWhile (\<lambda>(kind, _). kind \<noteq> O_Sync) q in (q', if q' = [] then True else skipping))"

fun queue_response :: "BackendMessage \<Rightarrow> response_queue \<Rightarrow> response_queue option" where
  "queue_response m ([], skipping) = None"
| "queue_response m ((kind, s) # q, skipping) =
     (case respond s m of
        None \<Rightarrow> None
      | Some s' \<Rightarrow>
          if s' = Be_ExtendedError then Some (skip_to_sync q skipping)
          else if s' = Be_Ready \<or> s' = Be_Building then Some (q, skipping)
          else Some ((kind, s') # q, skipping))"

section \<open>Abstraction\<close>

definition queue_of :: "Pipeline \<Rightarrow> response_queue" where
  "queue_of p = (map (\<lambda>operation. (op_kind operation, op_response_state operation))
       (filter (\<lambda>operation. \<not> inert operation) (pl_operations p)),
     pl_request_state p = RS_ExtendedError)"

text \<open>Ledgers that are not in COPY: the state in which the refinement holds.\<close>

definition plain_operation :: "Operation \<Rightarrow> bool" where
  "plain_operation operation = (op_response_state operation \<in> set (plain_phases (op_kind operation))
     \<and> (op_kind operation = O_Sync \<longrightarrow> \<not> op_discarded operation))"

definition plain_ledger :: "Pipeline \<Rightarrow> bool" where
  "plain_ledger p = (list_all plain_operation (pl_operations p)
     \<and> \<not> (pl_request_state p = RS_CopyIn \<or> pl_request_state p = RS_CopyOut \<or> pl_request_state p = RS_CopyBoth)
     \<and> (case pl_operations p of [] \<Rightarrow> True | head # _ \<Rightarrow> \<not> inert head))"

definition starts_copy :: "BackendMessage \<Rightarrow> bool" where
  "starts_copy m = (is_B_CopyInResponse m \<or> is_B_CopyOutResponse m \<or> is_B_CopyBothResponse m)"

lemma plain_new: "plain_ledger (Pipeline_new policy)"
  by (simp add: plain_ledger_def Pipeline_new_def)

lemma filter_dropWhile [simp]: "filter (\<lambda>x. \<not> P x) (dropWhile P xs) = filter (\<lambda>x. \<not> P x) xs"
  by (induction xs) auto

lemma list_all_dropWhile: "list_all P xs \<Longrightarrow> list_all P (dropWhile Q xs)"
  by (induction xs) auto

lemma hd_dropWhile_case: "case dropWhile P xs of [] \<Rightarrow> True | x # _ \<Rightarrow> \<not> P x"
  by (induction xs) auto

lemma inert_discard [simp]: "inert (operation\<lparr>op_discarded := True\<rparr>)"
  by (simp add: inert_def)

lemma inert_sync: "op_kind operation = O_Sync \<Longrightarrow> inert operation = op_discarded operation"
  by (simp add: inert_def)

lemma discard_to_sync_Cons:
  "fst (discard_to_sync (o1 # os)) =
     (if op_kind o1 = O_Sync then o1 # os else o1\<lparr>op_discarded := True\<rparr> # fst (discard_to_sync os))"
  "snd (discard_to_sync (o1 # os)) = (op_kind o1 = O_Sync \<or> snd (discard_to_sync os))"
  by (simp_all add: Let_def case_prod_unfold)

declare discard_to_sync.simps(2) [simp del] discard_to_sync_Cons [simp]

lemma filter_discard_to_sync:
  "list_all plain_operation os \<Longrightarrow>
   filter (\<lambda>operation. \<not> inert operation) (fst (discard_to_sync os)) =
   dropWhile (\<lambda>operation. op_kind operation \<noteq> O_Sync) (filter (\<lambda>operation. \<not> inert operation) os)"
  by (induction os) (auto simp: plain_operation_def inert_sync)

lemma sync_in_discard:
  "list_all plain_operation os \<Longrightarrow>
   snd (discard_to_sync os) =
   (dropWhile (\<lambda>operation. op_kind operation \<noteq> O_Sync) (filter (\<lambda>operation. \<not> inert operation) os) \<noteq> [])"
  by (induction os) (auto simp: plain_operation_def inert_sync)

lemma plain_discard_to_sync: "list_all plain_operation os \<Longrightarrow> list_all plain_operation (fst (discard_to_sync os))"
  by (induction os) (auto simp: plain_operation_def)

section \<open>Responses\<close>

lemma respond_plain:
  assumes "s \<in> set (plain_phases k)" "respond s m = Some s'" "\<not> starts_copy m"
  shows "response_copy_state s' = None"
    and "response_is_terminal k m = (s' = Be_Ready \<or> s' = Be_Building \<or> s' = Be_ExtendedError)"
    and "\<not> response_is_terminal k m \<Longrightarrow> s' \<in> set (plain_phases k)"
    and "(response_is_terminal k m \<and> is_B_ErrorResponse m \<and> is_extended_kind k) = (s' = Be_ExtendedError)"
  using assms
  by (cases k; simp; (elim disjE)?; simp split: if_splits;
      auto simp: response_is_terminal_def response_copy_state_def starts_copy_def is_extended_kind_def message_discs)+

text \<open>Who answers the head: the upstream server, or the intermediary itself.\<close>

definition answerer :: "Pipeline \<Rightarrow> OperationId option" where
  "answerer p = (case pl_operations p of
     [] \<Rightarrow> None
   | head # _ \<Rightarrow> if op_origin head = Origin_Local then Some (op_id head) else None)"

lemma prepare_answer:
  assumes "pl_operations p = head # rest" "\<not> inert head" "\<not> is_asynchronous m"
    "respond (op_response_state head) m = Some s'"
  shows "prepare_response p (answerer p) m = Prepared_Emit head (op_response_state head)"
  using assms by (auto simp: prepare_response_def answerer_def response_fits_iff inert_def)

lemma accept_answer:
  assumes "pl_operations p = head # rest" "\<not> inert head" "\<not> is_asynchronous m"
    "respond (op_response_state head) m = Some s'"
  shows "accept_response p (answerer p) m = Done (Inr (Emit m), commit_emit p head s' m)"
  using prepare_answer [OF assms] assms(4)
  by (simp add: accept_response_def commit_response_respond split: option.split)

lemma prepare_async_iff: "(prepare_response p l m = Prepared_Asynchronous) = is_asynchronous m"
  by (simp add: prepare_response_def Let_def split: list.split option.split)

lemma emit_inversion:
  assumes "accept_response p l m = Done (Inr (Emit m), p')" "\<not> is_asynchronous m"
  obtains head rest s' where "pl_operations p = head # rest" "respond (op_response_state head) m = Some s'"
    "p' = commit_emit p head s' m"
proof (cases rule: commit_response_cases [of p l m])
  case async
  with assms(2) show thesis by (simp add: prepare_async_iff)
next
  case (emit head s')
  from emit(1) obtain rest where "pl_operations p = head # rest" by (rule prepare_response_Emit)
  then show thesis using that [of head rest s'] emit assms(1) by simp
qed (use assms(1) in simp_all)

lemma commit_emit_request:
  assumes "pl_operations p = head # rest" "response_copy_state s = None"
  shows "pl_request_state (commit_emit p head s m) =
    (if response_is_terminal (op_kind head) m \<and> is_B_ErrorResponse m \<and> is_extended_kind (op_kind head)
        \<and> \<not> snd (discard_to_sync rest)
     then RS_ExtendedError else pl_request_state p)"
  using assms by (simp add: commit_emit_def Let_def)

lemma queue_of_emit:
  assumes plain: "plain_ledger p" and ops: "pl_operations p = head # rest"
    and resp: "respond (op_response_state head) m = Some s'" and copy: "\<not> starts_copy m"
  shows "plain_ledger (commit_emit p head s' m) \<and> queue_response m (queue_of p) = Some (queue_of (commit_emit p head s' m))"
proof -
  let ?p' = "commit_emit p head s' m" and ?live = "filter (\<lambda>operation. \<not> inert operation)"
  have head: "plain_operation head" "\<not> inert head" and rest: "list_all plain_operation rest"
    and st: "\<not> (pl_request_state p = RS_CopyIn \<or> pl_request_state p = RS_CopyOut \<or> pl_request_state p = RS_CopyBoth)"
    using plain ops by (simp_all add: plain_ledger_def)
  from head(1) have phase: "op_response_state head \<in> set (plain_phases (op_kind head))"
    by (simp add: plain_operation_def)
  note none = respond_plain(1) [OF phase resp copy] and terminal = respond_plain(2) [OF phase resp copy]
    and closed = respond_plain(3) [OF phase resp copy] and recovery = respond_plain(4) [OF phase resp copy]
  have request: "pl_request_state ?p' = (if s' = Be_ExtendedError \<and> \<not> snd (discard_to_sync rest)
      then RS_ExtendedError else pl_request_state p)"
    unfolding commit_emit_request [OF ops none] recovery [symmetric] by (simp add: conj_assoc)
  have after: "after_emit head s' m rest =
      (if s' = Be_ExtendedError then fst (discard_to_sync rest)
       else if s' = Be_Ready \<or> s' = Be_Building then rest else head\<lparr>op_response_state := s'\<rparr> # rest)"
    using recovery terminal by (auto simp: after_emit_def)
  have "list_all plain_operation (after_emit head s' m rest)"
    using after rest plain_discard_to_sync [OF rest] closed terminal head(1)
    by (simp add: plain_operation_def)
  from list_all_dropWhile [OF this, of inert] have "plain_ledger ?p'"
    using st ops request by (simp add: plain_ledger_def hd_dropWhile_case)
  moreover have "queue_response m (queue_of p) = Some (queue_of ?p')"
  proof (cases "s' = Be_ExtendedError")
    case True
    with after have "queue_of ?p' = skip_to_sync (map (\<lambda>operation. (op_kind operation, op_response_state operation)) (?live rest))
        (pl_request_state p = RS_ExtendedError)"
      using ops request filter_discard_to_sync [OF rest] sync_in_discard [OF rest]
      by (simp add: queue_of_def skip_to_sync_def dropWhile_map comp_def Let_def del: dropWhile_eq_Nil_conv)
    with True show ?thesis using ops head(2) resp by (simp add: queue_of_def)
  next
    case False
    have "\<not> inert (head\<lparr>op_response_state := s'\<rparr>)" using head(2) by (simp add: inert_def)
    with False after show ?thesis using ops head(2) resp request by (simp add: queue_of_def)
  qed
  ultimately show ?thesis by blast
qed


section \<open>Requests\<close>

lemma classify_plain:
  assumes "classify_frontend st m = Some (kind, next_state)" "\<not> (st = RS_CopyIn \<or> st = RS_CopyOut \<or> st = RS_CopyBoth)"
  shows "(next_state = RS_ExtendedError) = (st = RS_ExtendedError \<and> kind \<noteq> O_Sync)"
    and "\<not> (next_state = RS_CopyIn \<or> next_state = RS_CopyOut \<or> next_state = RS_CopyBoth)"
  using assms by (cases st; cases m; auto simp: classify_frontend_def)+

lemma advance_head_plain: "list_all plain_operation os \<Longrightarrow> advance_head m os = os"
  by (cases os) (auto simp: advance_head_receive plain_operation_def)

lemma queue_of_request:
  assumes plain: "plain_ledger p" and accept: "accept_frontend p m h = Done (Inr a, p')"
  shows "plain_ledger p' \<and> (\<exists>kind next_state. classify_frontend (pl_request_state p) m = Some (kind, next_state)
    \<and> queue_of p' = queue_request kind (queue_of p))"
  using accept
proof (cases rule: accept_frontend_cases)
  case (admitted kind next_state a')
  let ?new = "request_operation p kind next_state h"
  have ops: "list_all plain_operation (pl_operations p)"
    and st: "\<not> (pl_request_state p = RS_CopyIn \<or> pl_request_state p = RS_CopyOut \<or> pl_request_state p = RS_CopyBoth)"
    using plain by (simp_all add: plain_ledger_def)
  note next_error = classify_plain(1) [OF admitted(1) st] and next_plain = classify_plain(2) [OF admitted(1) st]
  have "waiting_operations p kind m = pl_operations p"
    using st ops by (simp add: waiting_operations_def advance_head_plain)
  with admitted(5) have ops': "pl_operations p' = dropWhile inert (pl_operations p @ [?new])" by simp
  have "plain_operation ?new" by (simp add: request_operation_def plain_operation_def)
  with ops list_all_dropWhile [of plain_operation "pl_operations p @ [?new]" inert]
  have "plain_ledger p'"
    using ops' next_plain admitted(6) by (simp add: plain_ledger_def hd_dropWhile_case)
  moreover have "inert ?new = (silent kind \<or> pl_request_state p = RS_ExtendedError \<and> kind \<noteq> O_Sync)"
    using next_error by (auto simp: request_operation_def inert_def silent_def)
  then have "queue_of p' = queue_request kind (queue_of p)"
    using ops' next_error admitted(6) by (auto simp: queue_of_def request_operation_def silent_def)
  ultimately show ?thesis using admitted(1) by blast
qed simp




section \<open>Runs outside COPY\<close>

lemma plain_deferred_error: "plain_ledger p \<Longrightarrow> plain_ledger (project_deferred_local_error p oid)"
proof -
  assume plain: "plain_ledger p"
  show ?thesis
  proof (cases "position (\<lambda>operation. op_id operation = oid) (pl_operations p)")
    case (Some n)
    let ?os = "pl_operations p"
    have "list_all plain_operation ?os" using plain by (simp add: plain_ledger_def)
    then have "list_all plain_operation (take (n + 1) ?os @ fst (discard_to_sync (drop (n + 1) ?os)))"
      by (intro list_all_append [THEN iffD2] conjI plain_discard_to_sync)
        (auto simp: list_all_iff dest: in_set_takeD in_set_dropD)
    moreover have "(case take (n + 1) ?os @ fst (discard_to_sync (drop (n + 1) ?os)) of [] \<Rightarrow> True | head # _ \<Rightarrow> \<not> inert head)"
      using plain Some by (cases ?os) (auto simp: plain_ledger_def)
    ultimately show ?thesis
      using plain Some
      by (simp add: project_deferred_local_error_def plain_ledger_def Let_def case_prod_unfold)
  qed (simp add: project_deferred_local_error_def plain)
qed

lemma length_accept_response:
  assumes "accept_response p l m = Done (r, p')"
  shows "length (pl_operations p') \<le> length (pl_operations p)"
  using accept_response_order [OF assms] suffix_length_le [of "ledger_ids p'" "ledger_ids p"] by simp

lemma plain_response:
  assumes "plain_ledger p" "\<not> starts_copy m"
  obtains r p' where "accept_response p l m = Done (r, p')" "plain_ledger p'"
    "length (pl_operations p') \<le> length (pl_operations p)" "pl_policy p' = pl_policy p"
proof -
  have "\<exists>r p'. accept_response p l m = Done (r, p') \<and> plain_ledger p'"
  proof (cases rule: commit_response_cases [of p l m])
    case (emit head s')
    from emit(1) obtain rest where "pl_operations p = head # rest" by (rule prepare_response_Emit)
    from queue_of_emit [OF assms(1) this emit(2) assms(2)] emit(3) show ?thesis by blast
  qed (use assms(1) plain_deferred_error [OF assms(1)] in \<open>auto split: option.split\<close>)
  then obtain r p' where res: "accept_response p l m = Done (r, p')" "plain_ledger p'" by blast
  with that length_accept_response accept_response_order show thesis by blast
qed

lemma length_waiting: "length (waiting_operations p kind m) = length (pl_operations p)"
  using waiting_operations_ids [of p kind m] by (metis length_map)

lemma plain_frontend:
  assumes "plain_ledger p"
  obtains r p' where "accept_frontend p m h = Done (r, p')" "plain_ledger p'" "pl_policy p' = pl_policy p"
    "length (pl_operations p) \<le> operation_limit (pl_policy p) \<longrightarrow>
       length (pl_operations p') \<le> operation_limit (pl_policy p)"
proof -
  have st: "\<not> (pl_request_state p = RS_CopyIn \<or> pl_request_state p = RS_CopyOut \<or> pl_request_state p = RS_CopyBoth)"
    using assms by (simp add: plain_ledger_def)
  have "accept_frontend p m h \<noteq> Panic"
  proof (cases "project_frontend (pl_request_state p) m")
    case None
    then show ?thesis by (simp add: accept_frontend_def prepare_frontend_def)
  next
    case (Some result)
    then have "frontend_phase (pl_request_state p) k \<noteq> Panic" for k
      using st by (cases "pl_request_state p") (simp_all add: frontend_phase_def project_frontend_receive classify_frontend_def)
    moreover have "classify_frontend (pl_request_state p) m \<noteq> None"
      using Some by (simp add: project_frontend_receive split: if_splits)
    moreover from calculation have "commit_frontend p \<lparr>prepared_phase = entered, prepared_request_state = pl_request_state p\<rparr> m h
        \<noteq> Panic" for entered
      by (auto simp: commit_frontend_def Let_def)
    ultimately show ?thesis
      using Some by (simp add: accept_frontend_def prepare_frontend_def split: exec.split prod.split)
  qed
  then obtain r p' where res: "accept_frontend p m h = Done (r, p')" by (cases "accept_frontend p m h") auto
  have "plain_ledger p' \<and> pl_policy p' = pl_policy p \<and> (length (pl_operations p) \<le> operation_limit (pl_policy p)
      \<longrightarrow> length (pl_operations p') \<le> operation_limit (pl_policy p))"
  proof (cases rule: accept_frontend_cases [OF res])
    case (2 kind next_state a)
    have "length (pl_operations p') \<le> length (pl_operations p) + 1"
      using length_dropWhile_le [of inert "waiting_operations p kind m @ [request_operation p kind next_state h]"] 2(5)
      by (simp add: length_waiting)
    moreover have "length (pl_operations p) \<noteq> operation_limit (pl_policy p)" using 2(4) st by blast
    ultimately have "length (pl_operations p) \<le> operation_limit (pl_policy p)
        \<longrightarrow> length (pl_operations p') \<le> operation_limit (pl_policy p)" by linarith
    with queue_of_request [OF assms] res 2(2,9) show ?thesis by blast
  qed (use assms in simp)
  with res that show thesis by blast
qed


fun copy_free :: "ledger_input \<Rightarrow> bool" where
  "copy_free (Client _ _) = True"
| "copy_free (Response _ m) = (\<not> starts_copy m)"

lemma plain_run:
  assumes "plain_ledger p" "length (pl_operations p) \<le> operation_limit (pl_policy p)" "list_all copy_free inputs"
  shows "\<exists>p'. ledger_run p inputs = Done p' \<and> plain_ledger p' \<and>
    length (pl_operations p') \<le> operation_limit (pl_policy p)"
  using assms
proof (induction inputs arbitrary: p)
  case (Cons input inputs)
  show ?case
  proof (cases input)
    case (Client m h)
    obtain r p' where step: "accept_frontend p m h = Done (r, p')" and p': "plain_ledger p'" "pl_policy p' = pl_policy p"
      and len: "length (pl_operations p) \<le> operation_limit (pl_policy p) \<longrightarrow>
        length (pl_operations p') \<le> operation_limit (pl_policy p)"
      by (rule plain_frontend [where m = m and h = h, OF Cons.prems(1)])
    from Cons.IH [of p'] p' len Cons.prems(2,3) step Client show ?thesis by simp
  next
    case (Response l m)
    with Cons.prems(3) have "\<not> starts_copy m" by simp
    obtain r p' where step: "accept_response p l m = Done (r, p')" and p': "plain_ledger p'"
      and len: "length (pl_operations p') \<le> length (pl_operations p)" and policy: "pl_policy p' = pl_policy p"
      by (rule plain_response [where l = l, OF Cons.prems(1) \<open>\<not> starts_copy m\<close>])
    from Cons.IH [of p'] p' len policy Cons.prems(2,3) step Response show ?thesis by simp
  qed
qed simp

text \<open>
  C3. As long as no response starts COPY, no sequence of frontend and backend messages makes a fresh
  ledger panic, and the number of outstanding operations never exceeds the capacity of the policy.
\<close>

theorem copy_free_runs_bounded:
  assumes "list_all copy_free inputs"
  shows "\<exists>p. ledger_run (Pipeline_new policy) inputs = Done p \<and> plain_ledger p \<and>
    length (pl_operations p) \<le> operation_limit policy"
  using plain_run [OF plain_new _ assms, of policy] by (simp add: Pipeline_new_def)

theorem copy_free_runs_bounded_witness:
  "list_all copy_free [Client (F_Query []) Forward, Client (F_Query []) Forward, Response None B_EmptyQueryResponse] \<and>
   (\<exists>p. ledger_run (Pipeline_new (BoundedPipeline 1))
      [Client (F_Query []) Forward, Client (F_Query []) Forward, Response None B_EmptyQueryResponse] = Done p \<and>
    length (pl_operations p) \<le> 1)"
  using copy_free_runs_bounded
    [of "[Client (F_Query []) Forward, Client (F_Query []) Forward, Response None B_EmptyQueryResponse]" "BoundedPipeline 1"]
  by (auto simp: starts_copy_def)

text \<open>
  During COPY the capacity does not hold: every \<open>CopyData\<close> of a COPY IN adds an operation behind the
  query that is copying, so under \<open>NoPipeline\<close>, whose limit is one, the ledger holds \<open>n + 1\<close> operations
  after \<open>n\<close> messages.
\<close>

theorem copy_in_grows_ledger:
  "\<exists>p. ledger_run (Pipeline_new NoPipeline)
      ([Client (F_Query q) Forward, Response None (B_CopyInResponse c)] @ replicate n (Client (F_CopyData d) Forward)) = Done p \<and>
    operation_limit (pl_policy p) = 1 \<and> length (pl_operations p) = n + 1"
proof -
  have grow: "\<exists>p'. ledger_run p (replicate n (Client (F_CopyData d) Forward)) = Done p' \<and>
      pl_policy p' = pl_policy p \<and> length (pl_operations p') = length (pl_operations p) + n"
    if "pl_request_state p = RS_CopyIn" "pl_operations p = head # rest" "op_kind head = O_Query" "\<not> op_discarded head"
      "op_response_state head = Be_SimpleCopyIn" for n p head rest
    using that
  proof (induction n arbitrary: p head rest)
    case (Suc n)
    let ?p = "p\<lparr>pl_next_id := saturating_inc (pl_next_id p), pl_operations := head # rest @
      [\<lparr>op_id = pl_next_id p, op_kind = O_CopyData, op_origin = Origin_Forwarded, op_discarded = False,
        op_response_state = Be_Terminated\<rparr>]\<rparr>"
    have "\<exists>a. accept_frontend p (F_CopyData d) Forward = Done (Inr a, ?p)"
      using Suc.prems
      by (simp add: accept_frontend_def prepare_frontend_def project_frontend_receive classify_frontend_def
        frontend_phase_def front_kind_def commit_frontend_def advance_head_receive remove_inert_heads_def inert_def Let_def)
    moreover from Suc.prems have "\<exists>p'. ledger_run ?p (replicate n (Client (F_CopyData d) Forward)) = Done p' \<and>
      pl_policy p' = pl_policy ?p \<and> length (pl_operations p') = length (pl_operations ?p) + n"
      by (intro Suc.IH) simp_all
    ultimately show ?case using Suc.prems(2) by auto
  qed simp
  let ?head = "\<lparr>op_id = 0, op_kind = O_Query, op_origin = Origin_Forwarded,
      op_discarded = False, op_response_state = Be_SimpleCopyIn\<rparr> :: Operation"
  let ?p = "\<lparr>pl_policy = NoPipeline, pl_operations = [?head], pl_request_state = RS_CopyIn,
      pl_response_state = Some PS_CopyIn, pl_next_id = 1, pl_changed = 1\<rparr>"
  have "ledger_run (Pipeline_new NoPipeline) ([Client (F_Query q) Forward, Response None (B_CopyInResponse c)] @ xs)
      = ledger_run ?p xs" for xs
    by (simp add: ledger_eval)
  moreover obtain p' where "ledger_run ?p (replicate n (Client (F_CopyData d) Forward)) = Done p'"
    "pl_policy p' = NoPipeline" "length (pl_operations p') = n + 1"
    using grow [of ?p ?head "[]" n] by auto
  ultimately show ?thesis by simp
qed

end
