(* ===== verification/Framing.thy ===== *)
theory Framing
  imports Codec_Backend
begin

text \<open>
  The framing half of \<open>src/codec.rs\<close>: \<open>PgCodec\<close> with its frame limit, the incremental \<open>decode_frame\<close>,
  and the \<open>Decoder\<close> and \<open>Encoder\<close> implementations.  A call that mutates the source buffer returns the
  result and the buffer it leaves.  The locale \<open>message_codec\<close> is what the framing layer relies on
  in a \<open>Direction\<close>; it is interpreted for the frontend and the backend direction.
\<close>

section \<open>The codec\<close>

record PgCodec =
  max_frame_len :: nat

definition MAX_PROTOCOL_FRAME_LEN :: nat where
  "MAX_PROTOCOL_FRAME_LEN = i32_max + 1"

definition DEFAULT_MAX_FRAME_LEN :: nat where
  "DEFAULT_MAX_FRAME_LEN = 16 * 1024 * 1024"

definition PgCodec_default :: PgCodec where
  "PgCodec_default = \<lparr>max_frame_len = DEFAULT_MAX_FRAME_LEN\<rparr>"

definition with_max_frame_len :: "nat \<Rightarrow> io_error + PgCodec" where
  "with_max_frame_len n =
     (if \<not> (5 \<le> n \<and> n \<le> MAX_PROTOCOL_FRAME_LEN)
      then Inl (invalid_input ''frame limit is outside PostgreSQL's tagged-frame range'')
      else Inr \<lparr>max_frame_len = n\<rparr>)"

definition decode_frame :: "bytes \<Rightarrow> nat \<Rightarrow> (io_error + Frame option) \<times> bytes" where
  "decode_frame source max_len =
     (if length source < 5 then (Inr None, source)
      else
        let len = unat (of_be32 (take 4 (drop 1 source))) in
        if len < 4
        then (Inl (invalid ''message length is smaller than its length field''), source)
        else (case checked_add len 1 of
          None \<Rightarrow> (Inl (invalid ''message length overflow''), source)
        | Some frame_length \<Rightarrow>
            if frame_length > MAX_PROTOCOL_FRAME_LEN
            then (Inl (invalid ''message length exceeds PostgreSQL's signed int32 range''), source)
            else if frame_length > max_len
            then (Inl (invalid ''message exceeds configured frame limit''), source)
            else if length source < frame_length then (Inr None, source)
            else
              let tag = source ! 0; (bytes, source) = split_to frame_length source in
              (Inr (Some \<lparr>frame_tag = tag, frame_body = drop 5 bytes\<rparr>), source)))"

definition PgCodec_decode ::
  "(Frame \<Rightarrow> io_error + 'm) \<Rightarrow> PgCodec \<Rightarrow> bytes \<Rightarrow> (io_error + 'm option) \<times> bytes" where
  "PgCodec_decode D codec source =
     (case decode_frame source (max_frame_len codec) of
        (Inl e, source) \<Rightarrow> (Inl e, source)
      | (Inr None, source) \<Rightarrow> (Inr None, source)
      | (Inr (Some f), source) \<Rightarrow>
          ((case D f of
              Inr m \<Rightarrow> Inr (Some m)
            | Inl error \<Rightarrow> Inl (IoError (error_kind error)
                (''message tag 0x'' @ hex2 (frame_tag f) @ '': '' @ error_text error))), source))"

definition PgCodec_encode :: "PgCodec \<Rightarrow> Frame \<Rightarrow> bytes \<Rightarrow> io_error + bytes" where
  "PgCodec_encode codec item destination =
     (case checked_add (length (frame_body item)) 5 of
        None \<Rightarrow> Inl (invalid_input ''frame too large'')
      | Some frame_len \<Rightarrow>
          if frame_len > max_frame_len codec
          then Inl (invalid_input ''frame exceeds configured limit'')
          else (case checked_add (length (frame_body item)) 4 of
            None \<Rightarrow> Inl (invalid_input ''frame too large'')
          | Some len \<Rightarrow>
              if len < 2 ^ 32
              then writes [put_u8 (frame_tag item), put_u32 (word_of_nat len),
                           put_slice (frame_body item)] destination
              else Inl (invalid_input ''frame too large'')))"

section \<open>Frames on the wire\<close>

definition wire :: "Frame \<Rightarrow> bytes" where
  "wire f = frame_tag f # be32 (word_of_nat (length (frame_body f) + 4)) @ frame_body f"

definition codec_wf :: "PgCodec \<Rightarrow> bool" where
  "codec_wf codec = (5 \<le> max_frame_len codec \<and> max_frame_len codec \<le> MAX_PROTOCOL_FRAME_LEN)"

definition fits :: "PgCodec \<Rightarrow> Frame \<Rightarrow> bool" where
  "fits codec f = (length (frame_body f) + 5 \<le> max_frame_len codec)"

declare MAX_PROTOCOL_FRAME_LEN_def [eval_defs] DEFAULT_MAX_FRAME_LEN_def [eval_defs] PgCodec_default_def [eval_defs]
  with_max_frame_len_def [eval_defs] decode_frame_def [eval_defs] PgCodec_decode_def [eval_defs]
  PgCodec_encode_def [eval_defs] wire_def [eval_defs] codec_wf_def [eval_defs]
  fits_def [eval_defs]

lemma length_wire [simp]: "length (wire f) = length (frame_body f) + 5"
  by (simp add: wire_def)

lemma with_max_frame_len_wf: "with_max_frame_len n = Inr codec \<Longrightarrow> codec_wf codec"
  by (auto simp: with_max_frame_len_def codec_wf_def split: if_splits)

lemma PgCodec_default_wf: "codec_wf PgCodec_default"
  by (simp add: PgCodec_default_def codec_wf_def DEFAULT_MAX_FRAME_LEN_def
      MAX_PROTOCOL_FRAME_LEN_def i32_max_def)

lemma PgCodec_encode_iff:
  assumes "codec_wf codec"
  shows "(PgCodec_encode codec f destination = Inr out) = (fits codec f \<and> out = destination @ wire f)"
  using assms
  by (auto simp: PgCodec_encode_def fits_def codec_wf_def MAX_PROTOCOL_FRAME_LEN_def i32_max_def
      checked_add_def usize_max_def put_u8_def put_u32_def put_slice_def wire_def)

text \<open>The length field of a buffer that holds a frame header.\<close>

lemma decode_frame_header:
  assumes "length p = 4"
  shows "decode_frame (t # p @ q) n =
    (let len = of_be p in
     if len < 4 then (Inl (invalid ''message length is smaller than its length field''), t # p @ q)
     else if len + 1 > MAX_PROTOCOL_FRAME_LEN
     then (Inl (invalid ''message length exceeds PostgreSQL's signed int32 range''), t # p @ q)
     else if len + 1 > n then (Inl (invalid ''message exceeds configured frame limit''), t # p @ q)
     else if length q + 4 < len then (Inr None, t # p @ q)
     else (Inr (Some (frame t (take (len - 4) q))), drop (len - 4) q))"
proof -
  have len: "of_be p < 2 ^ 32" using of_be_lt [of p] assms by simp
  then have add: "checked_add (of_be p) 1 = Some (of_be p + 1)"
    by (simp add: checked_add_def usize_max_def)
  have split: "split_to (of_be p + 1) (t # p @ q) = (t # p @ take (of_be p - 4) q, drop (of_be p - 4) q)"
    if "\<not> of_be p < 4" using that assms by (simp add: split_to_def)
  show ?thesis
    using assms add split by (simp add: decode_frame_def unat_of_be32 Let_def)
qed

lemma header_cases:
  assumes "5 \<le> length source"
  obtains t p q where "source = t # p @ q" "length p = 4"
proof -
  obtain t rest where "source = t # rest" "4 \<le> length rest" using assms by (cases source) auto
  moreover then obtain p q where "rest = p @ q" "length p = 4" using take_drop_eqI [of 4 rest] by blast
  ultimately show thesis using that by blast
qed

lemma wire_header:
  assumes "length (frame_body f) + 4 < 2 ^ 32"
  obtains p where "wire f = frame_tag f # p @ frame_body f" "length p = 4"
    "of_be p = length (frame_body f) + 4"
  using that [of "be32 (word_of_nat (length (frame_body f) + 4))"] assms
    unat_of_be32 [of "be32 (word_of_nat (length (frame_body f) + 4))"] unat_of_nat_u32 [OF assms]
  by (simp add: wire_def)

text \<open>\<open>decode_frame\<close> returns a frame exactly when the buffer starts with its wire form.\<close>

lemma decode_frame_Some_iff:
  "(decode_frame source n = (Inr (Some f), rest)) =
    (source = wire f @ rest \<and> length (frame_body f) + 5 \<le> min n MAX_PROTOCOL_FRAME_LEN)"
proof
  assume ok: "decode_frame source n = (Inr (Some f), rest)"
  then have "5 \<le> length source" by (auto simp: decode_frame_def split: if_splits)
  then obtain t p q where src: "source = t # p @ q" and p: "length p = 4" by (rule header_cases)
  from ok p have len: "4 \<le> of_be p" "of_be p + 1 \<le> MAX_PROTOCOL_FRAME_LEN" "of_be p + 1 \<le> n" "of_be p \<le> length q + 4"
    and f: "f = frame t (take (of_be p - 4) q)" and rest: "rest = drop (of_be p - 4) q"
    by (auto simp: src decode_frame_header Let_def split: if_splits)
  have "length (frame_body f) + 4 = of_be p" using f len by simp
  moreover have "be32 (word_of_nat (of_be p)) = p"
    using p be32_of_be32 [of p] by (simp add: of_be32_def)
  ultimately show "source = wire f @ rest \<and> length (frame_body f) + 5 \<le> min n MAX_PROTOCOL_FRAME_LEN"
    using src f rest len by (simp add: wire_def)
next
  assume a: "source = wire f @ rest \<and> length (frame_body f) + 5 \<le> min n MAX_PROTOCOL_FRAME_LEN"
  then have "length (frame_body f) + 4 < 2 ^ 32"
    by (simp add: MAX_PROTOCOL_FRAME_LEN_def i32_max_def)
  then obtain p where p: "wire f = frame_tag f # p @ frame_body f" "length p = 4"
    "of_be p = length (frame_body f) + 4" by (rule wire_header)
  with a show "decode_frame source n = (Inr (Some f), rest)"
    by (simp add: decode_frame_header)
qed

text \<open>
  A buffer that does not yet hold a whole frame is left as it is, and every outcome is final: ext
  input never changes a frame or an error already reported.
\<close>

lemma decode_frame_other: "decode_frame source n = (r, rest) \<Longrightarrow> (\<forall>f. r \<noteq> Inr (Some f)) \<Longrightarrow> rest = source"
  by (auto simp: decode_frame_def Let_def split_to_def split: if_splits option.splits)

lemma decode_frame_error_extend:
  assumes "decode_frame source n = (Inl e, rest)"
  shows "decode_frame (source @ ext) n = (Inl e, source @ ext)"
proof -
  from assms have "5 \<le> length source" by (auto simp: decode_frame_def split: if_splits)
  then obtain t p q where src: "source = t # p @ q" and p: "length p = 4" by (rule header_cases)
  from assms show ?thesis
    using decode_frame_header [OF p, of t q n] decode_frame_header [OF p, of t "q @ ext" n]
    by (auto simp: src Let_def split: if_splits)
qed

lemma decode_frame_Some_extend:
  "decode_frame source n = (Inr (Some f), rest) \<Longrightarrow>
    decode_frame (source @ ext) n = (Inr (Some f), rest @ ext)"
  by (auto simp: decode_frame_Some_iff)

lemma decode_frame_partial:
  assumes "wire f = source @ ext" "ext \<noteq> []" "length (frame_body f) + 5 \<le> min n MAX_PROTOCOL_FRAME_LEN"
  shows "decode_frame source n = (Inr None, source)"
proof (cases "decode_frame source n")
  case (Pair r rest)
  have whole: "decode_frame (source @ ext) n = (Inr (Some f), [])"
    using assms by (simp add: decode_frame_Some_iff flip: assms(1))
  show ?thesis
  proof (cases r)
    case (Inl e)
    with Pair whole decode_frame_error_extend [of source n e rest ext] show ?thesis by simp
  next
    case (Inr fo)
    with Pair whole assms(2) decode_frame_Some_extend [of source n _ rest ext]
    have "fo = None" by (cases fo) fastforce+
    with Inr Pair decode_frame_other [OF Pair] show ?thesis by simp
  qed
qed

section \<open>The contract of a direction\<close>

text \<open>
  What the framing layer relies on in a \<open>Direction\<close>: the body decoder accepts a frame exactly when the
  encoder produces it from an encodable message.
\<close>

locale message_codec =
  fixes to_frame :: "'m \<Rightarrow> io_error + Frame"
    and decode :: "Frame \<Rightarrow> io_error + 'm"
    and ok :: "'m \<Rightarrow> bool"
  assumes decode_iff: "(decode f = Inr m) = (ok m \<and> to_frame m = Inr f)"
begin

lemma to_frame_inject: "ok m \<Longrightarrow> ok m' \<Longrightarrow> to_frame m = Inr f \<Longrightarrow> to_frame m' = Inr f \<Longrightarrow> m = m'"
  using decode_iff [of f m] decode_iff [of f m'] by simp

text \<open>A message is decoded exactly when its wire form starts the buffer.\<close>

lemma PgCodec_decode_Some_iff:
  assumes "codec_wf codec"
  shows "(PgCodec_decode decode codec source = (Inr (Some m), rest)) =
    (\<exists>f. ok m \<and> to_frame m = Inr f \<and> fits codec f \<and> source = wire f @ rest)"
proof -
  have lim: "min (max_frame_len codec) MAX_PROTOCOL_FRAME_LEN = max_frame_len codec"
    using assms by (simp add: codec_wf_def)
  have "(PgCodec_decode decode codec source = (Inr (Some m), rest)) =
    (\<exists>f. decode_frame source (max_frame_len codec) = (Inr (Some f), rest) \<and> decode f = Inr m)"
    unfolding PgCodec_decode_def by (auto split: prod.splits sum.splits option.splits)
  then show ?thesis
    by (auto simp: decode_frame_Some_iff lim fits_def decode_iff)
qed

lemma PgCodec_decode_partial:
  assumes "codec_wf codec" "fits codec f" "wire f = source @ ext" "ext \<noteq> []"
  shows "PgCodec_decode decode codec source = (Inr None, source)"
  using decode_frame_partial [OF assms(3,4), of "max_frame_len codec"] assms(1,2)
  by (simp add: PgCodec_decode_def codec_wf_def fits_def)

text \<open>Whatever the buffer, a decoded message consumed at least the five header bytes.\<close>

lemma PgCodec_decode_consumes:
  "PgCodec_decode decode codec source = (Inr (Some m), rest) \<Longrightarrow> length rest + 5 \<le> length source"
  unfolding PgCodec_decode_def
  by (auto simp: decode_frame_Some_iff split: prod.splits sum.splits option.splits)

end

interpretation frontend_codec: message_codec FrontendMessage_to_frame Frontend_decode "\<lambda>_. True"
  by unfold_locales (simp add: Frontend_decode_iff)

interpretation backend_codec: message_codec BackendMessage_to_frame Backend_decode sasl_names_nonempty
  by unfold_locales (rule Backend_decode_iff)

section \<open>Properties\<close>

text \<open>
  C40. \<open>decode_frame\<close> returns a frame exactly when the buffer starts with that frame's wire form and the
  whole frame is within the codec's limit and the protocol's \<open>i32\<close> limit; what follows stays buffered.
\<close>

theorem decode_frame_exact:
  "(decode_frame source limit = (Inr (Some f), rest)) =
    (source = wire f @ rest \<and> length (wire f) \<le> min limit MAX_PROTOCOL_FRAME_LEN)"
  unfolding length_wire by (rule decode_frame_Some_iff)

text \<open>
  Incremental framing: of an encoded frame, every proper prefix asks for more input and leaves the
  buffer untouched, and the whole is decoded to the frame.
\<close>

theorem decode_frame_incremental:
  assumes "codec_wf codec" and "PgCodec_encode codec f [] = Inr out"
  shows "decode_frame (take k out) (max_frame_len codec) =
    (if k < length out then (Inr None, take k out) else (Inr (Some f), []))"
proof -
  from assms have out: "out = wire f"
    and fit: "length (frame_body f) + 5 \<le> min (max_frame_len codec) MAX_PROTOCOL_FRAME_LEN"
    by (auto simp: PgCodec_encode_iff fits_def codec_wf_def)
  show ?thesis
  proof (cases "k < length out")
    case True
    then have "wire f = take k out @ drop k out" "drop k out \<noteq> []" by (simp_all add: out)
    from decode_frame_partial [OF this fit] True show ?thesis by simp
  next
    case False
    with fit show ?thesis by (simp add: out decode_frame_Some_iff)
  qed
qed

theorem decode_frame_incremental_witness:
  "decode_frame (take 6 [81, 0, 0, 0, 6, 97, 0]) 16 = (Inr None, [81, 0, 0, 0, 6, 97]) \<and>
   decode_frame (take 7 [81, 0, 0, 0, 6, 97, 0]) 16 = (Inr (Some (frame 81 [97, 0])), [])"
proof -
  have "codec_wf \<lparr>max_frame_len = 16\<rparr>" by (simp add: eval_defs)
  moreover have "PgCodec_encode \<lparr>max_frame_len = 16\<rparr> (frame 81 [97, 0]) [] = Inr [81, 0, 0, 0, 6, 97, 0]"
    by (simp add: eval_defs)
  ultimately show ?thesis
    using decode_frame_incremental [of "\<lparr>max_frame_len = 16\<rparr>" "frame 81 [97, 0]" "[81, 0, 0, 0, 6, 97, 0]" 6]
      decode_frame_incremental [of "\<lparr>max_frame_len = 16\<rparr>" "frame 81 [97, 0]" "[81, 0, 0, 0, 6, 97, 0]" 7]
    by simp
qed

text \<open>
  Framing decisions are final: input that arrives later changes neither a frame already complete
  nor an error already reported, and a call that returns no frame consumes nothing.
\<close>

theorem decode_frame_final:
  assumes "decode_frame source limit = (r, rest)" and "r \<noteq> Inr None"
  shows "fst (decode_frame (source @ ext) limit) = r \<and>
    snd (decode_frame (source @ ext) limit) = rest @ ext"
proof (cases r)
  case (Inl e)
  with assms(1) decode_frame_error_extend [of source limit e rest ext] decode_frame_other [OF assms(1)]
  show ?thesis by simp
next
  case (Inr fo)
  with assms obtain f where "r = Inr (Some f)" by (cases fo) auto
  with assms(1) decode_frame_Some_extend [of source limit f rest ext] show ?thesis by simp
qed

theorem decode_frame_final_witness:
  "fst (decode_frame ([83, 0, 0, 0, 4] @ [80, 0]) 16) = Inr (Some (frame 83 [])) \<and>
   snd (decode_frame ([83, 0, 0, 0, 4] @ [80, 0]) 16) = [] @ [80, 0]"
  by (rule decode_frame_final) (simp_all add: eval_defs)

end
