(* ===== verification/Transport.thy ===== *)
theory Transport
  imports Framing Middleware
begin

text \<open>
  \<open>src/transport.rs\<close>: the buffered transport.  The byte stream below it is a script: what each read and
  each write of the stream returns, in order, and the bytes it has taken.  An \<open>async\<close> operation is \<open>Pending\<close>
  when the script ends before it can return; its effects up to there are kept, as they are when the caller
  drops the future.
\<close>

section \<open>The stream\<close>

text \<open>
  A read returns bytes (none at the end of the stream) or an error.  A write takes some of the bytes it is
  offered, as \<open>AsyncWrite\<close> promises, and returns how many.
\<close>

record io =
  io_reads :: "(io_error + bytes) list"
  io_writes :: "(io_error + nat) list"
  io_flushes :: "(io_error + unit) list"
  io_sent :: bytes

datatype 'a poll = Pending | Returned 'a

section \<open>The buffered transport\<close>

record 'io Buffered =
  bf_io :: 'io
  bf_outbound :: bytes
  bf_inbound :: bytes
  bf_inbound_codec :: PgCodec
  bf_max_pre_startup_packet_len :: nat
  bf_demux :: Demux

definition buffered :: "'io \<Rightarrow> PgCodec \<Rightarrow> nat \<Rightarrow> 'io Buffered" where
  "buffered stream codec max_packet_len =
     \<lparr>bf_io = stream, bf_outbound = [], bf_inbound = [], bf_inbound_codec = codec,
      bf_max_pre_startup_packet_len = max_packet_len, bf_demux = Demux_default\<rparr>"

definition Buffered_new :: "'io \<Rightarrow> 'io Buffered" where
  "Buffered_new stream = buffered stream PgCodec_default DEFAULT_MAX_PRE_STARTUP_PACKET_LEN"

definition Buffered_with_max_frame_len :: "'io \<Rightarrow> nat \<Rightarrow> io_error + 'io Buffered" where
  "Buffered_with_max_frame_len stream max_len =
     result_map (\<lambda>codec. buffered stream codec DEFAULT_MAX_PRE_STARTUP_PACKET_LEN) (with_max_frame_len max_len)"

definition with_limits_frontend :: "'io \<Rightarrow> nat \<Rightarrow> nat \<Rightarrow> io_error + 'io Buffered" where
  "with_limits_frontend stream max_len max_pre_startup_packet_len =
     (if \<not> (8 \<le> max_pre_startup_packet_len \<and> max_pre_startup_packet_len \<le> i32_max)
      then Inl (invalid_input ''pre-startup packet limit must be between 8 and i32::MAX bytes'')
      else result_map (\<lambda>codec. buffered stream codec max_pre_startup_packet_len) (with_max_frame_len max_len))"

definition with_max_frame_len_frontend :: "'io \<Rightarrow> nat \<Rightarrow> io_error + 'io Buffered" where
  "with_max_frame_len_frontend stream max_len =
     with_limits_frontend stream max_len DEFAULT_MAX_PRE_STARTUP_PACKET_LEN"

definition push :: "'io Buffered \<Rightarrow> Frame \<Rightarrow> (io_error + unit) \<times> 'io Buffered" where
  "push b item = (case PgCodec_encode (bf_inbound_codec b) item (bf_outbound b) of
     Inl e \<Rightarrow> (Inl e, b) | Inr outbound \<Rightarrow> (Inr (), b\<lparr>bf_outbound := outbound\<rparr>))"

definition push_raw :: "'io Buffered \<Rightarrow> bytes \<Rightarrow> 'io Buffered" where
  "push_raw b bytes = b\<lparr>bf_outbound := bf_outbound b @ bytes\<rparr>"

text \<open>The TLS handshake is a parameter; it replaces the stream.\<close>

definition upgrade_tls :: "('io \<Rightarrow> io_error + 'tls) \<Rightarrow> 'io Buffered \<Rightarrow> io_error + 'tls Buffered" where
  "upgrade_tls handshake b =
     (if bf_outbound b \<noteq> [] \<or> bf_inbound b \<noteq> []
      then Inl (invalid_input ''TLS upgrade requires empty plaintext buffers'')
      else result_map (\<lambda>stream.
        \<lparr>bf_io = stream, bf_outbound = bf_outbound b, bf_inbound = bf_inbound b,
         bf_inbound_codec = bf_inbound_codec b,
         bf_max_pre_startup_packet_len = bf_max_pre_startup_packet_len b, bf_demux = bf_demux b\<rparr>)
        (handshake (bf_io b)))"

section \<open>Writing\<close>

fun flush_loop :: "(io_error + nat) list \<Rightarrow> bytes \<Rightarrow> bytes \<Rightarrow> (io_error + unit) poll \<times> (io_error + nat) list \<times> bytes \<times> bytes" where
  "flush_loop ws [] sent = (Returned (Inr ()), ws, [], sent)"
| "flush_loop [] outbound sent = (Pending, [], outbound, sent)"
| "flush_loop (Inl e # ws) outbound sent = (Returned (Inl e), ws, outbound, sent)"
| "flush_loop (Inr n # ws) outbound sent =
     (let written = min n (length outbound) in
      if written = 0
      then (Returned (Inl (IoError WriteZero ''transport wrote zero buffered bytes'')), ws, outbound, sent)
      else flush_loop ws (drop written outbound) (sent @ take written outbound))"

definition flush :: "io Buffered \<Rightarrow> (io_error + unit) poll \<times> io Buffered" where
  "flush b = (case flush_loop (io_writes (bf_io b)) (bf_outbound b) (io_sent (bf_io b)) of
     (r, ws, outbound, sent) \<Rightarrow>
       let b = b\<lparr>bf_io := (bf_io b)\<lparr>io_writes := ws, io_sent := sent\<rparr>, bf_outbound := outbound\<rparr> in
       (case r of
          Returned (Inr _) \<Rightarrow>
            (case io_flushes (bf_io b) of
               [] \<Rightarrow> (Pending, b)
             | f # flushes \<Rightarrow> (Returned f, b\<lparr>bf_io := (bf_io b)\<lparr>io_flushes := flushes\<rparr>\<rparr>))
        | _ \<Rightarrow> (r, b)))"

section \<open>Reading\<close>

text \<open>The loop of \<open>receive_wire\<close> and \<open>receive_pre_startup\<close>: decode, else read more.\<close>

fun receive_loop ::
  "(bytes \<Rightarrow> (io_error + 'm option) \<times> bytes) \<Rightarrow> io_error \<Rightarrow> (io_error + bytes) list \<Rightarrow> bytes
    \<Rightarrow> (io_error + 'm) poll \<times> (io_error + bytes) list \<times> bytes" where
  "receive_loop decode eof [] inbound =
     (case decode inbound of
        (Inl e, inbound) \<Rightarrow> (Returned (Inl e), [], inbound)
      | (Inr (Some m), inbound) \<Rightarrow> (Returned (Inr m), [], inbound)
      | (Inr None, inbound) \<Rightarrow> (Pending, [], inbound))"
| "receive_loop decode eof (r # reads) inbound =
     (case decode inbound of
        (Inl e, inbound) \<Rightarrow> (Returned (Inl e), r # reads, inbound)
      | (Inr (Some m), inbound) \<Rightarrow> (Returned (Inr m), r # reads, inbound)
      | (Inr None, inbound) \<Rightarrow>
          (case r of
             Inl e \<Rightarrow> (Returned (Inl e), reads, inbound)
           | Inr bytes \<Rightarrow>
               if bytes = [] then (Returned (Inl eof), reads, inbound)
               else receive_loop decode eof reads (inbound @ bytes)))"

definition receive_with ::
  "(bytes \<Rightarrow> (io_error + 'm option) \<times> bytes) \<Rightarrow> io_error \<Rightarrow> io Buffered \<Rightarrow> (io_error + 'm) poll \<times> io Buffered" where
  "receive_with decode eof b = (case receive_loop decode eof (io_reads (bf_io b)) (bf_inbound b) of
     (r, reads, inbound) \<Rightarrow> (r, b\<lparr>bf_io := (bf_io b)\<lparr>io_reads := reads\<rparr>, bf_inbound := inbound\<rparr>))"

definition eof_message :: io_error where
  "eof_message = IoError UnexpectedEof ''peer closed with no complete message''"

definition receive_wire :: "(Frame \<Rightarrow> io_error + 'm) \<Rightarrow> io Buffered \<Rightarrow> (io_error + 'm) poll \<times> io Buffered" where
  "receive_wire D b = receive_with (PgCodec_decode D (bf_inbound_codec b)) eof_message b"

definition receive_pre_startup :: "io Buffered \<Rightarrow> (io_error + PreStartupMessage) poll \<times> io Buffered" where
  "receive_pre_startup b =
     receive_with (\<lambda>inbound. decode_pre_startup_with_limit inbound (bf_max_pre_startup_packet_len b))
       (IoError UnexpectedEof ''client closed with no complete pre-startup packet'') b"

text \<open>\<open>read_u8\<close> takes one byte of the stream, past the inbound buffer.\<close>

fun read_u8 :: "(io_error + bytes) list \<Rightarrow> (io_error + u8) poll \<times> (io_error + bytes) list" where
  "read_u8 [] = (Pending, [])"
| "read_u8 (Inl e # reads) = (Returned (Inl e), reads)"
| "read_u8 (Inr [] # reads) = (Returned (Inl (IoError UnexpectedEof ''early eof'')), reads)"
| "read_u8 (Inr [v] # reads) = (Returned (Inr v), reads)"
| "read_u8 (Inr (v # rest) # reads) = (Returned (Inr v), Inr rest # reads)"

definition receive_encryption_reply :: "io Buffered \<Rightarrow> (io_error + EncryptionReply) poll \<times> io Buffered" where
  "receive_encryption_reply b = (case read_u8 (io_reads (bf_io b)) of
     (r, reads) \<Rightarrow>
       ((case r of
           Pending \<Rightarrow> Pending
         | Returned (Inl e) \<Rightarrow> Returned (Inl e)
         | Returned (Inr v) \<Rightarrow> (case reply_try_from v of
             Inl _ \<Rightarrow> Returned (Inl (invalid ''invalid encryption reply''))
           | Inr reply \<Rightarrow> Returned (Inr reply))),
        b\<lparr>bf_io := (bf_io b)\<lparr>io_reads := reads\<rparr>\<rparr>))"

definition project_backend :: "'io Buffered \<Rightarrow> BackendMessage \<Rightarrow> SessionItem option \<times> 'io Buffered" where
  "project_backend b message = (case route (bf_demux b) message of (item, demux) \<Rightarrow> (item, b\<lparr>bf_demux := demux\<rparr>))"


section \<open>Incremental decoders\<close>

text \<open>What the receive loops rely on: asking for more input leaves the buffer alone, a message consumes some of it.\<close>

definition script_bytes :: "(io_error + bytes) list \<Rightarrow> nat" where
  "script_bytes reads = sum_list (map (\<lambda>r. case r of Inl _ \<Rightarrow> 0 | Inr bytes \<Rightarrow> length bytes) reads)"

lemma script_bytes_simps [simp]:
  "script_bytes [] = 0" "script_bytes (Inl e # reads) = script_bytes reads"
  "script_bytes (Inr bytes # reads) = length bytes + script_bytes reads"
  by (simp_all add: script_bytes_def)

locale incremental_decoder =
  fixes decode :: "bytes \<Rightarrow> (io_error + 'm option) \<times> bytes"
  assumes unchanged: "decode source = (Inr None, rest) \<Longrightarrow> rest = source"
    and progress: "decode source = (Inr (Some m), rest) \<Longrightarrow> length rest < length source"
begin

lemma loop_cases:
  obtains (error) e rest where "decode inbound = (Inl e, rest)"
    "\<And>eof reads. receive_loop decode eof reads inbound = (Returned (Inl e), reads, rest)"
  | (message) m rest where "decode inbound = (Inr (Some m), rest)"
    "\<And>eof reads. receive_loop decode eof reads inbound = (Returned (Inr m), reads, rest)"
  | (more) "decode inbound = (Inr None, inbound)"
    "\<And>eof. receive_loop decode eof [] inbound = (Pending, [], inbound)"
    "\<And>eof e reads. receive_loop decode eof (Inl e # reads) inbound = (Returned (Inl e), reads, inbound)"
    "\<And>eof reads. receive_loop decode eof (Inr [] # reads) inbound = (Returned (Inl eof), reads, inbound)"
    "\<And>eof bytes reads. bytes \<noteq> [] \<Longrightarrow>
       receive_loop decode eof (Inr bytes # reads) inbound = receive_loop decode eof reads (inbound @ bytes)"
proof (cases "decode inbound")
  case (Pair r rest)
  have list: "P reads" if "P []" "\<And>r rs. P (r # rs)" for P and reads :: "(io_error + bytes) list"
    using that by (cases reads) auto
  show thesis
  proof (cases r)
    case (Inl e)
    with Pair show thesis by (intro error [of e rest]) (auto intro: list)
  next
    case (Inr o')
    show thesis
    proof (cases o')
      case None
      with Pair Inr unchanged have "decode inbound = (Inr None, inbound)" by blast
      then show thesis by (intro more) simp_all
    next
      case (Some m)
      with Pair Inr show thesis by (intro message [of m rest]) (auto intro: list)
    qed
  qed
qed

text \<open>A receive that was dropped while pending and tried again later continues where it was.\<close>

lemma receive_resume:
  "receive_loop decode eof (reads @ later) inbound =
    (case receive_loop decode eof reads inbound of
       (Pending, _, inbound') \<Rightarrow> receive_loop decode eof later inbound'
     | (Returned r, reads', inbound') \<Rightarrow> (Returned r, reads' @ later, inbound'))"
proof (induction reads arbitrary: inbound)
  case Nil
  show ?case by (cases inbound rule: loop_cases) simp_all
next
  case (Cons r reads)
  show ?case
  proof (cases inbound rule: loop_cases)
    case more
    then show ?thesis by (cases r) (simp_all add: Cons)
  qed simp_all
qed

lemma receive_shorter:
  "receive_loop decode eof reads inbound = (Returned (Inr m), reads', inbound') \<Longrightarrow>
    length inbound' + script_bytes reads' < length inbound + script_bytes reads"
proof (induction reads arbitrary: inbound)
  case Nil
  then show ?case by (cases inbound rule: loop_cases) (auto dest: progress)
next
  case (Cons r reads)
  show ?case
  proof (cases inbound rule: loop_cases)
    case more
    show ?thesis
    proof (cases r)
      case (Inr bytes)
      with Cons more(4,5) show ?thesis by (cases "bytes = []") fastforce+
    qed (use Cons.prems more(3) in simp)
  qed (use Cons.prems in \<open>auto dest: progress\<close>)
qed

end

text \<open>
  A decoder of a stream of encoded messages: a whole message decodes whatever follows it, a proper prefix
  of one asks for more.
\<close>

lemma append_longer: "xs @ ys = us @ vs \<Longrightarrow> length us \<le> length xs \<Longrightarrow> \<exists>x. xs = us @ x \<and> vs = x @ ys"
  by (auto simp: append_eq_append_conv2)

lemma append_shorter: "xs @ ys = us @ vs \<Longrightarrow> length xs < length us \<Longrightarrow> \<exists>z. us = xs @ z \<and> z \<noteq> []"
  by (auto simp: append_eq_append_conv2)

locale framed_decoder = incremental_decoder +
  fixes encode :: "'a \<Rightarrow> bytes" and legal :: "'a \<Rightarrow> bool"
  assumes complete: "legal m \<Longrightarrow> decode (encode m @ rest) = (Inr (Some m), rest)"
    and partial: "legal m \<Longrightarrow> encode m = part @ ext \<Longrightarrow> ext \<noteq> [] \<Longrightarrow> decode part = (Inr None, part)"
begin

lemma receive_chunks:
  assumes "legal m" "inbound @ concat chunks = encode m @ tail" "[] \<notin> set chunks"
  shows "\<exists>chunks' inbound'. receive_loop decode eof (map Inr chunks) inbound = (Returned (Inr m), map Inr chunks', inbound')
    \<and> inbound' @ concat chunks' = tail \<and> set chunks' \<subseteq> set chunks"
  using assms(2,3)
proof (induction chunks arbitrary: inbound)
  case Nil
  with complete [OF assms(1), of tail] have "decode inbound = (Inr (Some m), tail)" by simp
  then show ?case by (intro exI [of _ "[]"] exI [of _ tail]) simp
next
  case (Cons c cs)
  show ?case
  proof (cases "length (encode m) \<le> length inbound")
    case True
    with Cons.prems(1) obtain x where x: "inbound = encode m @ x" "tail = x @ concat (c # cs)"
      using append_longer by blast
    with complete [OF assms(1), of x] show ?thesis
      by (intro exI [of _ "c # cs"] exI [of _ x]) simp
  next
    case False
    with Cons.prems(1) obtain ext where "encode m = inbound @ ext" "ext \<noteq> []"
      using append_shorter by (metis not_le)
    with partial [OF assms(1)] have more: "decode inbound = (Inr None, inbound)" by blast
    from Cons.IH [of "inbound @ c"] Cons.prems obtain chunks' inbound' where
      "receive_loop decode eof (map Inr cs) (inbound @ c) = (Returned (Inr m), map Inr chunks', inbound')"
      "inbound' @ concat chunks' = tail" "set chunks' \<subseteq> set cs" by auto
    with more Cons.prems(2) show ?thesis by (intro exI [of _ chunks'] exI [of _ inbound']) auto
  qed
qed

end

section \<open>The decoders of the transport\<close>

lemma PgCodec_decode_unchanged: "PgCodec_decode D codec source = (Inr None, rest) \<Longrightarrow> rest = source"
  unfolding PgCodec_decode_def
  by (auto dest: decode_frame_other split: prod.splits sum.splits option.splits)

lemma PgCodec_decode_progress: "PgCodec_decode D codec source = (Inr (Some m), rest) \<Longrightarrow> length rest < length source"
  unfolding PgCodec_decode_def
  by (auto simp: decode_frame_Some_iff split: prod.splits sum.splits option.splits)

interpretation tagged: incremental_decoder "PgCodec_decode D codec" for D codec
  by unfold_locales (fact PgCodec_decode_unchanged PgCodec_decode_progress)+

lemma decode_pre_startup_unchanged:
  "decode_pre_startup_with_limit source limit = (Inr None, rest) \<Longrightarrow> rest = source"
  by (auto simp: decode_pre_startup_with_limit_def decode_packet_def Let_def split_to_def split: if_splits)

lemma decode_pre_startup_progress:
  "decode_pre_startup_with_limit source limit = (Inr (Some m), rest) \<Longrightarrow> length rest < length source"
  by (auto simp: decode_pre_startup_with_limit_def Let_def split_to_def split: if_splits)

interpretation untagged: incremental_decoder "\<lambda>source. decode_pre_startup_with_limit source limit" for limit
  by unfold_locales (fact decode_pre_startup_unchanged decode_pre_startup_progress)+

text \<open>The wire form of a message and the messages that fit the codec.\<close>

definition frontend_wire :: "FrontendMessage \<Rightarrow> bytes" where
  "frontend_wire m = (case FrontendMessage_to_frame m of Inl _ \<Rightarrow> [] | Inr f \<Rightarrow> wire f)"

definition frontend_legal :: "PgCodec \<Rightarrow> FrontendMessage \<Rightarrow> bool" where
  "frontend_legal codec m = (codec_wf codec \<and> (case FrontendMessage_to_frame m of Inl _ \<Rightarrow> False | Inr f \<Rightarrow> fits codec f))"

definition backend_wire :: "BackendMessage \<Rightarrow> bytes" where
  "backend_wire m = (case BackendMessage_to_frame m of Inl _ \<Rightarrow> [] | Inr f \<Rightarrow> wire f)"

definition backend_legal :: "PgCodec \<Rightarrow> BackendMessage \<Rightarrow> bool" where
  "backend_legal codec m = (codec_wf codec \<and> sasl_names_nonempty m
     \<and> (case BackendMessage_to_frame m of Inl _ \<Rightarrow> False | Inr f \<Rightarrow> fits codec f))"

definition packet_legal :: "nat \<Rightarrow> PreStartupMessage \<Rightarrow> bool" where
  "packet_legal limit m = (8 \<le> limit \<and> limit \<le> i32_max \<and> pre_startup_wf m
     \<and> (case to_packet m of Inl _ \<Rightarrow> False | Inr packet \<Rightarrow> length packet \<le> limit))"

definition packet_bytes :: "PreStartupMessage \<Rightarrow> bytes" where
  "packet_bytes m = (case to_packet m of Inl _ \<Rightarrow> [] | Inr packet \<Rightarrow> packet)"

interpretation frontend_stream: framed_decoder "PgCodec_decode Frontend_decode codec" frontend_wire "frontend_legal codec"
  for codec
proof unfold_locales
  show "PgCodec_decode Frontend_decode codec (frontend_wire m @ rest) = (Inr (Some m), rest)"
    if "frontend_legal codec m" for m rest
    using that frontend_codec.PgCodec_decode_Some_iff
    by (auto simp: frontend_legal_def frontend_wire_def split: sum.splits)
  show "PgCodec_decode Frontend_decode codec part = (Inr None, part)"
    if "frontend_legal codec m" "frontend_wire m = part @ ext" "ext \<noteq> []" for m part ext
    using that frontend_codec.PgCodec_decode_partial
    by (auto simp: frontend_legal_def frontend_wire_def split: sum.splits)
qed

interpretation backend_stream: framed_decoder "PgCodec_decode Backend_decode codec" backend_wire "backend_legal codec"
  for codec
proof unfold_locales
  show "PgCodec_decode Backend_decode codec (backend_wire m @ rest) = (Inr (Some m), rest)"
    if "backend_legal codec m" for m rest
    using that backend_codec.PgCodec_decode_Some_iff
    by (auto simp: backend_legal_def backend_wire_def split: sum.splits)
  show "PgCodec_decode Backend_decode codec part = (Inr None, part)"
    if "backend_legal codec m" "backend_wire m = part @ ext" "ext \<noteq> []" for m part ext
    using that backend_codec.PgCodec_decode_partial
    by (auto simp: backend_legal_def backend_wire_def split: sum.splits)
qed

interpretation packet_stream: framed_decoder "\<lambda>source. decode_pre_startup_with_limit source limit" packet_bytes
  "packet_legal limit" for limit
proof unfold_locales
  show "decode_pre_startup_with_limit (packet_bytes m @ rest) limit = (Inr (Some m), rest)"
    if "packet_legal limit m" for m rest
    using that decode_pre_startup_packet decode_packet_to_packet
    by (auto simp: packet_legal_def packet_bytes_def split: sum.splits)
  show "decode_pre_startup_with_limit part limit = (Inr None, part)"
    if "packet_legal limit m" "packet_bytes m = part @ ext" "ext \<noteq> []" for m part ext
    using that decode_pre_startup_partial
    by (auto simp: packet_legal_def packet_bytes_def split: sum.splits)
qed

section \<open>The session stream\<close>

text \<open>
  \<open>receive_session\<close> and its variants with middleware: receive a message, let \<open>post\<close> inspect or replace it
  (\<open>io\<close> wraps an error of the transport), and continue until one belongs to the session.  Every round
  consumes a frame of the input.
\<close>

definition input_bytes :: "io Buffered \<Rightarrow> nat" where
  "input_bytes b = length (bf_inbound b) + script_bytes (io_reads (bf_io b))"

lemma receive_wire_shorter:
  "receive_wire D b = (Returned (Inr m), b') \<Longrightarrow> input_bytes b' < input_bytes b"
  unfolding receive_wire_def receive_with_def
  by (auto simp: input_bytes_def split: prod.splits dest!: tagged.receive_shorter)

function receive_projected ::
  "(io_error \<Rightarrow> 'e) \<Rightarrow> ('st \<Rightarrow> BackendMessage \<Rightarrow> ('e + BackendMessage) \<times> 'st) \<Rightarrow> 'st \<Rightarrow> io Buffered
    \<Rightarrow> ('e + SessionItem) poll \<times> 'st \<times> io Buffered" where
  "receive_projected io post state b =
     (case receive_wire Backend_decode b of
        (Pending, b) \<Rightarrow> (Pending, state, b)
      | (Returned (Inl e), b) \<Rightarrow> (Returned (Inl (io e)), state, b)
      | (Returned (Inr message), b) \<Rightarrow>
          (case post state message of
             (Inl e, state) \<Rightarrow> (Returned (Inl e), state, b)
           | (Inr message, state) \<Rightarrow>
               (case project_backend b message of
                  (Some item, b) \<Rightarrow> (Returned (Inr item), state, b)
                | (None, b) \<Rightarrow> receive_projected io post state b)))"
  by pat_completeness auto

lemma input_bytes_project [simp]: "project_backend b m = (item, b') \<Longrightarrow> input_bytes b' = input_bytes b"
  by (auto simp: project_backend_def input_bytes_def split: prod.splits)

termination receive_projected
proof (relation "measure (\<lambda>(_, _, _, b). input_bytes b)")
  show "wf (measure (\<lambda>(_, _, _, b). input_bytes b))" by simp
qed (auto, metis input_bytes_project receive_wire_shorter)

declare receive_projected.simps [simp del]

definition receive_session :: "io Buffered \<Rightarrow> (io_error + SessionItem) poll \<times> io Buffered" where
  "receive_session b = (case receive_projected id (\<lambda>_ m. (Inr m, ())) () b of (r, _, b) \<Rightarrow> (r, b))"

section \<open>Receiving through middleware\<close>

definition typed_step ::
  "('w \<Rightarrow> bool) \<Rightarrow> ('w \<Rightarrow> 'w + 'm) \<Rightarrow> ('m \<Rightarrow> 'w) \<Rightarrow> ('st, 'm, 'e) Middleware \<Rightarrow> 'w
    \<Rightarrow> (('e, 'w) TypedReceiveError + 'm) \<times> ('st, 'm, 'e) Middleware" where
  "typed_step is_reconstructable try_from into mw message =
     (case try_from message of
        Inl illegal \<Rightarrow> (Inl (Typed_Illegal illegal), mw)
      | Inr message \<Rightarrow> (case intercept mw message of
          (Inl e, mw) \<Rightarrow> (Inl (Typed_Middleware e), mw)
        | (Inr message, mw) \<Rightarrow>
            (if is_reconstructable (into message) then Inr message else Inl (Typed_InvalidWire (into message)), mw)))"

datatype ('e, 'm) ReceiveError = Receive_Io io_error | Receive_Intercept "('e, 'm) InterceptError"

definition checked_step ::
  "('m \<Rightarrow> bool) \<Rightarrow> ('m \<Rightarrow> bool) \<Rightarrow> ('st, 'm, 'e) Middleware \<Rightarrow> 'm
    \<Rightarrow> (('e, 'm) ReceiveError + 'm) \<times> ('st, 'm, 'e) Middleware" where
  "checked_step is_reconstructable accepts mw message =
     (case intercept_checked is_reconstructable accepts mw message of (r, mw) \<Rightarrow> (map_sum Receive_Intercept id r, mw))"

text \<open>\<open>receive_typed\<close> and \<open>receive_checked\<close> over a future \<open>read\<close>; a pending read leaves the middleware alone.\<close>

fun receive_through ::
  "(io_error \<Rightarrow> 'e) \<Rightarrow> ('mw \<Rightarrow> 'w \<Rightarrow> ('e + 'm) \<times> 'mw) \<Rightarrow> 'mw \<Rightarrow> (io_error + 'w) poll \<times> 'b \<Rightarrow> ('e + 'm) poll \<times> 'mw \<times> 'b" where
  "receive_through io inspect mw (Pending, b) = (Pending, mw, b)"
| "receive_through io inspect mw (Returned (Inl e), b) = (Returned (Inl (io e)), mw, b)"
| "receive_through io inspect mw (Returned (Inr message), b) =
     (case inspect mw message of (r, mw) \<Rightarrow> (Returned r, mw, b))"

definition receive_frontend_typed where
  "receive_frontend_typed try_from into mw b =
     receive_through Typed_Io (typed_step frontend_is_reconstructable try_from into) mw (receive_wire Frontend_decode b)"

definition receive_backend_typed where
  "receive_backend_typed try_from into mw b =
     receive_through Typed_Io (typed_step backend_is_reconstructable try_from into) mw (receive_wire Backend_decode b)"

definition receive_pre_startup_typed where
  "receive_pre_startup_typed try_from into mw b =
     receive_through Typed_Io (typed_step pre_startup_is_reconstructable try_from into) mw (receive_pre_startup b)"

definition receive_encryption_reply_typed where
  "receive_encryption_reply_typed try_from into mw b =
     receive_through Typed_Io (typed_step reply_is_reconstructable try_from into) mw (receive_encryption_reply b)"

definition receive_frontend_wire_with_middleware where
  "receive_frontend_wire_with_middleware accepts mw b =
     receive_through Receive_Io (checked_step frontend_is_reconstructable accepts) mw (receive_wire Frontend_decode b)"

definition receive_backend_wire_with_middleware where
  "receive_backend_wire_with_middleware accepts mw b =
     receive_through Receive_Io (checked_step backend_is_reconstructable accepts) mw (receive_wire Backend_decode b)"

definition receive_pre_startup_wire_with_middleware where
  "receive_pre_startup_wire_with_middleware accepts mw b =
     receive_through Receive_Io (checked_step pre_startup_is_reconstructable accepts) mw (receive_pre_startup b)"

definition receive_typed where
  "receive_typed try_from into mw b =
     receive_projected Typed_Io (\<lambda>mw m. case typed_step backend_is_reconstructable try_from into mw m of
       (r, mw) \<Rightarrow> (map_sum id into r, mw)) mw b"

definition receive_with_middleware where
  "receive_with_middleware accepts mw b =
     receive_projected Receive_Io (checked_step backend_is_reconstructable accepts) mw b"

section \<open>Pre-startup on the transport\<close>

definition map_transport :: "('s \<Rightarrow> 's) \<Rightarrow> 's Conn \<Rightarrow> 's Conn" where
  "map_transport f c = c\<lparr>conn_transport := f (conn_transport c)\<rparr>"

definition request_ssl :: "'io Buffered Conn \<Rightarrow> 'io Buffered Conn" where
  "request_ssl c = to_phase (map_transport (\<lambda>b. push_raw b ssl_request_packet) c) AwaitingSslReply"

definition request_gss :: "'io Buffered Conn \<Rightarrow> 'io Buffered Conn" where
  "request_gss c = to_phase (map_transport (\<lambda>b. push_raw b gssenc_request_packet) c) AwaitingGssReply"

definition approve_ssl :: "'io Buffered Conn \<Rightarrow> 'io Buffered Conn" where
  "approve_ssl c = to_phase (map_transport (\<lambda>b. push_raw b [byte CHR ''S'']) c) TlsHandshake"

definition decline_ssl :: "'io Buffered Conn \<Rightarrow> 'io Buffered Conn" where
  "decline_ssl c = to_phase (map_transport (\<lambda>b. push_raw b [byte CHR ''N'']) c) PreStartup"

definition reject_ssl_with_legacy_error :: "'io Buffered Conn \<Rightarrow> 'io Buffered Conn" where
  "reject_ssl_with_legacy_error c = to_phase (map_transport (\<lambda>b. push_raw b [byte CHR ''E'']) c) TerminatedPhase"

definition approve_gss :: "'io Buffered Conn \<Rightarrow> 'io Buffered Conn" where
  "approve_gss c = to_phase (map_transport (\<lambda>b. push_raw b [byte CHR ''S'']) c) GssHandshake"

definition decline_gss :: "'io Buffered Conn \<Rightarrow> 'io Buffered Conn" where
  "decline_gss c = to_phase (map_transport (\<lambda>b. push_raw b [byte CHR ''N'']) c) PreStartup"

definition reject_gss_with_legacy_error :: "'io Buffered Conn \<Rightarrow> 'io Buffered Conn" where
  "reject_gss_with_legacy_error c = to_phase (map_transport (\<lambda>b. push_raw b [byte CHR ''E'']) c) TerminatedPhase"

text \<open>The connection is lost with an error of the stream.\<close>

definition reply_negotiation ::
  "('io Buffered Conn \<Rightarrow> EncryptionReply \<Rightarrow> 'r) \<Rightarrow> 'io Buffered Conn \<Rightarrow> (io_error + EncryptionReply) poll \<times> 'io Buffered
    \<Rightarrow> (io_error + 'r) poll" where
  "reply_negotiation apply_reply c result = (case result of
       (Pending, _) \<Rightarrow> Pending
     | (Returned (Inl e), _) \<Rightarrow> Returned (Inl e)
     | (Returned (Inr reply), b) \<Rightarrow> Returned (Inr (apply_reply (c\<lparr>conn_transport := b\<rparr>) reply)))"

definition conn_receive_ssl_reply :: "io Buffered Conn \<Rightarrow> (io_error + io Buffered Negotiation) poll" where
  "conn_receive_ssl_reply c =
     reply_negotiation receive_ssl_reply c (receive_encryption_reply (conn_transport c))"

definition receive_ssl_reply_for_mode :: "io Buffered Conn \<Rightarrow> SslMode \<Rightarrow> (io_error + io Buffered SslModeNegotiation) poll" where
  "receive_ssl_reply_for_mode c mode =
     reply_negotiation (\<lambda>c reply. apply_ssl_reply c reply mode) c (receive_encryption_reply (conn_transport c))"

definition conn_receive_gss_reply :: "io Buffered Conn \<Rightarrow> (io_error + io Buffered Negotiation) poll" where
  "conn_receive_gss_reply c =
     reply_negotiation receive_gss_reply c (receive_encryption_reply (conn_transport c))"

definition conn_upgrade_tls ::
  "('io \<Rightarrow> io_error + 'tls) \<Rightarrow> 'io Buffered Conn \<Rightarrow> io_error + 'tls Buffered Conn" where
  "conn_upgrade_tls handshake c = result_map Conn_new (upgrade_tls handshake (conn_transport c))"

definition push_startup_packet :: "'io Buffered Conn \<Rightarrow> bytes \<Rightarrow> 'io Buffered Conn" where
  "push_startup_packet c packet = map_transport (\<lambda>b. b\<lparr>bf_outbound := bf_outbound b @ packet\<rparr>) c"

end
