(* ===== verification/Transport_Laws.thy ===== *)
theory Transport_Laws
  imports Transport
begin

text \<open>
  What the transport promises: output is written exactly once and in order, a receive can be dropped and
  tried again, what a peer pushes and flushes is what the other one receives however the stream cuts it,
  and nothing received in plaintext survives a TLS upgrade.
\<close>

section \<open>Runs of the transport\<close>

text \<open>The same buffers over a stream with other input, and a receive tried again after it was dropped.\<close>

definition with_reads :: "io Buffered \<Rightarrow> (io_error + bytes) list \<Rightarrow> io Buffered" where
  "with_reads b reads = b\<lparr>bf_io := (bf_io b)\<lparr>io_reads := reads\<rparr>\<rparr>"

definition resumed :: "(io Buffered \<Rightarrow> 'r poll \<times> io Buffered) \<Rightarrow> io Buffered \<Rightarrow> (io_error + bytes) list \<Rightarrow> (io_error + bytes) list \<Rightarrow> 'r poll \<times> io Buffered" where
  "resumed op b reads later = (case op (with_reads b reads) of
     (Pending, b') \<Rightarrow> op (with_reads b' later)
   | (Returned r, b') \<Rightarrow> (Returned r, with_reads b' (io_reads (bf_io b') @ later)))"

text \<open>Consecutive calls of \<open>push\<close>, and of a receive until it does not give a message.\<close>

fun push_all :: "'io Buffered \<Rightarrow> Frame list \<Rightarrow> (io_error + unit) \<times> 'io Buffered" where
  "push_all b [] = (Inr (), b)"
| "push_all b (f # fs) = (case push b f of (Inl e, b') \<Rightarrow> (Inl e, b') | (Inr _, b') \<Rightarrow> push_all b' fs)"

fun receive_times :: "('b \<Rightarrow> ('e + 'm) poll \<times> 'b) \<Rightarrow> nat \<Rightarrow> 'b \<Rightarrow> 'm list \<times> 'b" where
  "receive_times op 0 b = ([], b)"
| "receive_times op (Suc n) b = (case op b of
     (Returned (Inr m), b') \<Rightarrow> (case receive_times op n b' of (ms, b'') \<Rightarrow> (m # ms, b''))
   | (_, b') \<Rightarrow> ([], b'))"

text \<open>A transport whose buffer and stream hold exactly the wire form of some messages.\<close>

definition streams :: "('m \<Rightarrow> bytes) \<Rightarrow> (PgCodec \<Rightarrow> 'm \<Rightarrow> bool) \<Rightarrow> io Buffered \<Rightarrow> 'm list \<Rightarrow> bool" where
  "streams encode legal b ms = (\<exists>chunks. io_reads (bf_io b) = map Inr chunks \<and> [] \<notin> set chunks \<and>
     bf_inbound b @ concat chunks = concat (map encode ms) \<and> list_all (legal (bf_inbound_codec b)) ms)"

text \<open>The stream of \<open>r\<close> delivers what the stream of \<open>s\<close> has taken, cut anyhow.\<close>

definition delivers :: "io Buffered \<Rightarrow> io Buffered \<Rightarrow> bool" where
  "delivers s r = (\<exists>chunks. io_reads (bf_io r) = map Inr chunks \<and> [] \<notin> set chunks \<and>
     bf_inbound r @ concat chunks = io_sent (bf_io s))"

text \<open>A sender over a stream that takes what the script says, and a receiver over one that delivers chunks.\<close>

definition sample_sender :: "io Buffered" where
  "sample_sender = Buffered_new \<lparr>io_reads = [], io_writes = [Inr 3, Inr 20], io_flushes = [Inr ()], io_sent = []\<rparr>"

definition sample_receiver :: "bytes list \<Rightarrow> io Buffered" where
  "sample_receiver chunks = Buffered_new \<lparr>io_reads = map Inr chunks, io_writes = [], io_flushes = [], io_sent = []\<rparr>"

section \<open>Writing\<close>

lemma poll_result_cases:
  fixes r :: "('e + unit) poll"
  obtains "r = Pending" | e where "r = Returned (Inl e)" | "r = Returned (Inr ())"
  by (metis old.unit.exhaust poll.exhaust sum.exhaust)

lemma flush_loop_cases:
  "flush_loop ws outbound sent = (r, ws', outbound', sent') \<Longrightarrow>
    sent' @ outbound' = sent @ outbound \<and> (r = Returned (Inr ()) \<longrightarrow> outbound' = [])"
proof (induction ws outbound sent rule: flush_loop.induct)
  case (4 n ws o1 os sent)
  let ?w = "min n (length (o1 # os))"
  have split: "take ?w (o1 # os) @ drop ?w (o1 # os) = o1 # os" by (rule append_take_drop_id)
  show ?case
  proof (cases "?w = 0")
    case True
    with 4(2) show ?thesis by (auto simp: Let_def)
  next
    case False
    from 4(2) have "flush_loop ws (drop ?w (o1 # os)) (sent @ take ?w (o1 # os)) = (r, ws', outbound', sent')"
      unfolding flush_loop.simps Let_def if_not_P [OF False] .
    from 4(1) [OF _ False this] split show ?thesis by (simp del: take_Suc_Cons drop_Suc_Cons)
  qed
qed auto

lemma flush_loop_completes:
  "length outbound \<le> length ns \<Longrightarrow> list_all (\<lambda>n. 0 < n) ns \<Longrightarrow>
    \<exists>ws'. flush_loop (map Inr ns) outbound sent = (Returned (Inr ()), ws', [], sent @ outbound)"
proof (induction ns arbitrary: outbound sent)
  case (Cons n ns)
  show ?case
  proof (cases outbound)
    case (Cons o1 os)
    with Cons.prems have "length (drop (min n (length outbound)) outbound) \<le> length ns" by auto
    from Cons.IH [OF this, of "sent @ take (min n (length outbound)) outbound"] Cons.prems Cons
    show ?thesis by (auto simp: Let_def simp del: take_Suc_Cons drop_Suc_Cons)
  qed simp
qed simp

lemma flush_conserves:
  assumes "flush b = (r, b')"
  shows "io_sent (bf_io b') @ bf_outbound b' = io_sent (bf_io b) @ bf_outbound b \<and>
      (r = Returned (Inr ()) \<longrightarrow> bf_outbound b' = []) \<and> bf_inbound b' = bf_inbound b \<and>
      io_reads (bf_io b') = io_reads (bf_io b)"
proof -
  obtain r1 ws outbound sent where loop:
    "flush_loop (io_writes (bf_io b)) (bf_outbound b) (io_sent (bf_io b)) = (r1, ws, outbound, sent)"
    by (metis prod_cases4)
  note facts = flush_loop_cases [OF loop]
  show ?thesis
  proof (cases "r1 = Returned (Inr ())")
    case True
    with facts loop assms show ?thesis by (cases "io_flushes (bf_io b)") (auto simp: flush_def Let_def)
  next
    case False
    with loop have "flush b = (r1, b\<lparr>bf_io := (bf_io b)\<lparr>io_writes := ws, io_sent := sent\<rparr>, bf_outbound := outbound\<rparr>)"
      by (cases r1 rule: poll_result_cases) (simp_all add: flush_def Let_def)
    with facts False assms show ?thesis by auto
  qed
qed

lemma flush_result:
  assumes "flush b = (Returned (Inr ()), b')"
  shows "io_sent (bf_io b') = io_sent (bf_io b) @ bf_outbound b" "bf_outbound b' = []" "bf_inbound b' = bf_inbound b"
  using flush_conserves [OF assms] by auto

lemma flush_completes:
  assumes "io_writes (bf_io b) = map Inr ns" "length (bf_outbound b) \<le> length ns" "list_all (\<lambda>n. 0 < n) ns"
    "io_flushes (bf_io b) = Inr () # flushes"
  shows "fst (flush b) = Returned (Inr ())"
  using flush_loop_completes [OF assms(2,3), of "io_sent (bf_io b)"] assms by (auto simp: flush_def Let_def)

text \<open>
  Flushing loses, duplicates and reorders nothing: whether it returns, fails or is dropped while
  pending, the bytes the stream has taken followed by those still buffered are the bytes there were
  before; success leaves nothing buffered; and a stream whose writes make progress is flushed completely.
\<close>

theorem flush_exact:
  "(let (r, b') = flush b in
      io_sent (bf_io b') @ bf_outbound b' = io_sent (bf_io b) @ bf_outbound b \<and>
      (r = Returned (Inr ()) \<longrightarrow> bf_outbound b' = []) \<and> bf_inbound b' = bf_inbound b \<and>
      io_reads (bf_io b') = io_reads (bf_io b)) \<and>
   (io_writes (bf_io b) = map Inr ns \<and> length (bf_outbound b) \<le> length ns \<and> list_all (\<lambda>n. 0 < n) ns \<and>
      io_flushes (bf_io b) = Inr () # flushes \<longrightarrow> fst (flush b) = Returned (Inr ()))"
  using flush_conserves [of b] flush_completes [of b ns flushes] by (cases "flush b") simp

theorem flush_exact_witness:
  "\<exists>b. bf_outbound b = [1, 2, 3] \<and> io_writes (bf_io b) = map Inr [2, 5, 1] \<and>
     fst (flush b) = Returned (Inr ()) \<and> io_sent (bf_io (snd (flush b))) = [1, 2, 3]"
proof -
  let ?b = "push_raw (Buffered_new \<lparr>io_reads = [], io_writes = map Inr [2, 5, 1], io_flushes = [Inr ()], io_sent = []\<rparr>) [1, 2, 3]"
  have out: "bf_outbound ?b = [1, 2, 3]" "io_sent (bf_io ?b) = []"
    by (simp_all add: push_raw_def Buffered_new_def buffered_def)
  obtain r b' where f: "flush ?b = (r, b')" by (cases "flush ?b")
  have "fst (flush ?b) = Returned (Inr ())"
    using flush_exact [of ?b "[2, 5, 1]" "[]"] by (simp add: push_raw_def Buffered_new_def buffered_def)
  with f flush_exact [of ?b "[]" "[]"] out have "io_sent (bf_io b') = [1, 2, 3]" by auto
  with f \<open>fst (flush ?b) = _\<close> out show ?thesis
    by (intro exI [of _ ?b]) (simp add: push_raw_def Buffered_new_def buffered_def)
qed

lemma receive_with_resumed:
  assumes "incremental_decoder decode"
  shows "receive_with decode eof (with_reads b (reads @ later)) = resumed (receive_with decode eof) b reads later"
proof -
  obtain r reads' inbound' where loop: "receive_loop decode eof reads (bf_inbound b) = (r, reads', inbound')"
    by (metis prod_cases3)
  show ?thesis
    using incremental_decoder.receive_resume [OF assms, of eof reads later "bf_inbound b"] loop
    by (cases r) (simp_all add: resumed_def receive_with_def with_reads_def split: prod.split)
qed

lemma receive_with_limits:
  "bf_inbound_codec (snd (receive_with decode eof b)) = bf_inbound_codec b"
  "bf_max_pre_startup_packet_len (snd (receive_with decode eof b)) = bf_max_pre_startup_packet_len b"
  by (simp_all add: receive_with_def split: prod.split)

lemma with_reads_limits [simp]:
  "bf_inbound_codec (with_reads b reads) = bf_inbound_codec b"
  "bf_max_pre_startup_packet_len (with_reads b reads) = bf_max_pre_startup_packet_len b"
  by (simp_all add: with_reads_def)

lemma resumed_cong:
  assumes "\<And>reads. op (with_reads b reads) = op' (with_reads b reads)"
    and "\<And>reads. op (with_reads (snd (op' (with_reads b reads'))) reads) = op' (with_reads (snd (op' (with_reads b reads'))) reads)"
  shows "resumed op b reads' later = resumed op' b reads' later"
  using assms(1) assms(2) [of later]
  by (cases "op' (with_reads b reads')") (auto simp: resumed_def split: poll.split)

lemma receive_wire_resumed:
  "receive_wire D (with_reads b (reads @ later)) = resumed (receive_wire D) b reads later"
proof -
  let ?decode = "PgCodec_decode D (bf_inbound_codec b)"
  have "resumed (receive_wire D) b reads later = resumed (receive_with ?decode eof_message) b reads later"
    by (rule resumed_cong) (simp_all add: receive_wire_def receive_with_limits)
  then show ?thesis
    by (simp add: receive_wire_def receive_with_resumed [OF tagged.incremental_decoder_axioms])
qed

lemma receive_pre_startup_resumed:
  "receive_pre_startup (with_reads b (reads @ later)) = resumed receive_pre_startup b reads later"
proof -
  let ?decode = "\<lambda>inbound. decode_pre_startup_with_limit inbound (bf_max_pre_startup_packet_len b)"
  let ?eof = "IoError UnexpectedEof ''client closed with no complete pre-startup packet''"
  have "resumed receive_pre_startup b reads later = resumed (receive_with ?decode ?eof) b reads later"
    by (rule resumed_cong) (simp_all add: receive_pre_startup_def receive_with_limits)
  then show ?thesis
    by (simp add: receive_pre_startup_def receive_with_resumed [OF untagged.incremental_decoder_axioms])
qed

text \<open>
  C14. Receiving is cancellation safe: a receive that is dropped while it waits for the peer and tried again
  when more input has arrived gives the same message and leaves the same buffers as one that waited.  This
  holds for tagged messages in both directions and for the packets before startup.
\<close>

theorem receive_cancellation_safe:
  "receive_wire Frontend_decode (with_reads b (reads @ later)) = resumed (receive_wire Frontend_decode) b reads later \<and>
   receive_wire Backend_decode (with_reads b (reads @ later)) = resumed (receive_wire Backend_decode) b reads later \<and>
   receive_pre_startup (with_reads b (reads @ later)) = resumed receive_pre_startup b reads later"
  by (intro conjI receive_wire_resumed receive_pre_startup_resumed)

section \<open>End to end\<close>

lemma push_all_outbound:
  "codec_wf (bf_inbound_codec b) \<Longrightarrow> push_all b fs = (Inr (), b') \<Longrightarrow>
    b' = b\<lparr>bf_outbound := bf_outbound b @ concat (map wire fs)\<rparr> \<and> list_all (fits (bf_inbound_codec b)) fs"
proof (induction fs arbitrary: b)
  case (Cons f fs)
  then have enc: "PgCodec_encode (bf_inbound_codec b) f (bf_outbound b) = Inr (bf_outbound b @ wire f)"
    and fit: "fits (bf_inbound_codec b) f"
    and rest: "push_all (b\<lparr>bf_outbound := bf_outbound b @ wire f\<rparr>) fs = (Inr (), b')"
    by (auto simp: push_def PgCodec_encode_iff split: sum.splits)
  from Cons.IH [OF _ rest] Cons.prems(1) fit show ?case by simp
qed simp

lemma streams_Nil:
  assumes "framed_decoder (PgCodec_decode D (bf_inbound_codec b)) encode (legal (bf_inbound_codec b))"
    and "streams encode legal b []"
  shows "receive_wire D b = (Pending, b)" "bf_inbound b = []" "io_reads (bf_io b) = []"
proof -
  from assms(2) obtain chunks where "io_reads (bf_io b) = map Inr chunks" "[] \<notin> set chunks"
    "bf_inbound b = []" "concat chunks = []" by (auto simp: streams_def)
  moreover from this have "chunks = []" by (cases chunks) auto
  ultimately show empty: "bf_inbound b = []" "io_reads (bf_io b) = []" by simp_all
  then show "receive_wire D b = (Pending, b)"
    by (simp add: receive_wire_def receive_with_def PgCodec_decode_def decode_frame_def)
qed

lemma streams_Cons:
  assumes "framed_decoder (PgCodec_decode D (bf_inbound_codec b)) encode (legal (bf_inbound_codec b))"
    and "streams encode legal b (m # ms)"
  obtains b' where "receive_wire D b = (Returned (Inr m), b')" "streams encode legal b' ms"
    "bf_inbound_codec b' = bf_inbound_codec b" "bf_demux b' = bf_demux b"
proof -
  from assms(2) obtain chunks where chunks: "io_reads (bf_io b) = map Inr chunks" "[] \<notin> set chunks"
    "bf_inbound b @ concat chunks = encode m @ concat (map encode ms)"
    and legal: "legal (bf_inbound_codec b) m" "list_all (legal (bf_inbound_codec b)) ms"
    by (auto simp: streams_def)
  from framed_decoder.receive_chunks [OF assms(1) legal(1) chunks(3,2)] obtain chunks' inbound' where
    "receive_loop (PgCodec_decode D (bf_inbound_codec b)) eof_message (map Inr chunks) (bf_inbound b) =
      (Returned (Inr m), map Inr chunks', inbound')"
    "inbound' @ concat chunks' = concat (map encode ms)" "set chunks' \<subseteq> set chunks" by blast
  with chunks(1,2) legal(2) show thesis
    by (intro that [of "b\<lparr>bf_io := (bf_io b)\<lparr>io_reads := map Inr chunks'\<rparr>, bf_inbound := inbound'\<rparr>"])
      (auto simp: receive_wire_def receive_with_def streams_def)
qed

lemma streams_receive_all:
  assumes "\<And>codec. framed_decoder (PgCodec_decode D codec) encode (legal codec)"
    and "streams encode legal b ms"
  shows "\<exists>b'. receive_times (receive_wire D) (length ms) b = (ms, b') \<and> receive_wire D b' = (Pending, b')
    \<and> bf_inbound b' = [] \<and> io_reads (bf_io b') = []"
  using assms(2)
proof (induction ms arbitrary: b)
  case Nil
  with streams_Nil [where legal = legal, OF assms(1)] show ?case by auto
next
  case (Cons m ms)
  from streams_Cons [where legal = legal, OF assms(1) Cons.prems] obtain b1 where
    "receive_wire D b = (Returned (Inr m), b1)" "streams encode legal b1 ms" .
  with Cons.IH [of b1] show ?case by auto
qed

text \<open>The messages that were pushed and flushed are what the stream of the receiver holds.\<close>

lemma sent_streams:
  assumes "codec_wf (bf_inbound_codec s)" "bf_outbound s = []" "io_sent (bf_io s) = []"
    and "push_all s fs = (Inr (), s1)" "flush s1 = (Returned (Inr ()), s2)"
  shows "io_sent (bf_io s2) = concat (map wire fs)" "list_all (fits (bf_inbound_codec s)) fs"
proof -
  from push_all_outbound [OF assms(1,4)] have s1: "s1 = s\<lparr>bf_outbound := concat (map wire fs)\<rparr>"
    and "list_all (fits (bf_inbound_codec s)) fs" using assms(2) by simp_all
  then show "list_all (fits (bf_inbound_codec s)) fs" by simp
  from flush_result [OF assms(5)] s1 assms(3) show "io_sent (bf_io s2) = concat (map wire fs)" by simp
qed

lemma delivered_streams:
  assumes sent: "codec_wf (bf_inbound_codec s)" "bf_outbound s = []" "io_sent (bf_io s) = []"
    "push_all s fs = (Inr (), s1)" "flush s1 = (Returned (Inr ()), s2)"
    and "delivers s2 r" "max_frame_len (bf_inbound_codec s) \<le> max_frame_len (bf_inbound_codec r)"
    and "list_all2 (\<lambda>m f. encode m = wire f \<and> (fits (bf_inbound_codec r) f \<longrightarrow> legal (bf_inbound_codec r) m)) ms fs"
  shows "streams encode legal r ms"
proof -
  note sent = sent_streams [OF sent]
  from assms(8) have "map encode ms = map wire fs" by (induction rule: list_all2_induct) simp_all
  moreover from assms(8) sent(2) assms(7) have "list_all (legal (bf_inbound_codec r)) ms"
    by (induction rule: list_all2_induct) (auto simp: fits_def)
  ultimately show ?thesis using assms(6) sent(1) by (simp add: streams_def delivers_def)
qed

text \<open>
  C12. End to end, client to server: when the frames of some frontend messages are pushed and flushed and the
  server's stream delivers the bytes, however they are cut into reads, the server receives exactly those
  messages in order and then waits with empty buffers, provided its frame limit is no smaller.
\<close>

theorem frontend_end_to_end:
  assumes "codec_wf (bf_inbound_codec s)" "bf_outbound s = []" "io_sent (bf_io s) = []"
    and "map FrontendMessage_to_frame ms = map Inr fs"
    and "push_all s fs = (Inr (), s1)" "flush s1 = (Returned (Inr ()), s2)" "delivers s2 r"
    and "codec_wf (bf_inbound_codec r)" "max_frame_len (bf_inbound_codec s) \<le> max_frame_len (bf_inbound_codec r)"
  shows "\<exists>r'. receive_times (receive_wire Frontend_decode) (length ms) r = (ms, r')
    \<and> receive_wire Frontend_decode r' = (Pending, r') \<and> bf_inbound r' = [] \<and> io_reads (bf_io r') = []"
proof (rule streams_receive_all [OF frontend_stream.framed_decoder_axioms])
  from assms(4) have "list_all2 (\<lambda>m f. FrontendMessage_to_frame m = Inr f) ms fs"
    by (simp add: list_all2_conv_all_nth list_eq_iff_nth_eq)
  then have "list_all2 (\<lambda>m f. frontend_wire m = wire f \<and>
      (fits (bf_inbound_codec r) f \<longrightarrow> frontend_legal (bf_inbound_codec r) m)) ms fs"
    by (rule list_all2_mono) (simp add: frontend_wire_def frontend_legal_def assms(8))
  from delivered_streams [where legal = frontend_legal, OF assms(1,2,3,5,6,7,9) this]
  show "streams frontend_wire frontend_legal r ms" .
qed

lemmas sample_defs = sample_sender_def sample_receiver_def Buffered_new_def buffered_def

lemma sample_codec [simp]:
  "codec_wf (bf_inbound_codec sample_sender)" "codec_wf (bf_inbound_codec (sample_receiver chunks))"
  "bf_inbound_codec (sample_receiver chunks) = bf_inbound_codec sample_sender"
  "bf_outbound sample_sender = []" "io_sent (bf_io sample_sender) = []"
  by (simp_all add: sample_defs codec_wf_def PgCodec_default_def DEFAULT_MAX_FRAME_LEN_def MAX_PROTOCOL_FRAME_LEN_def i32_max_def)

theorem frontend_end_to_end_witness:
  "\<exists>r'. receive_times (receive_wire Frontend_decode) 2
      (sample_receiver [[100, 0], [0, 0, 5, 7, 83], [0, 0, 0, 4]]) = ([F_CopyData [7], F_Sync], r')
    \<and> receive_wire Frontend_decode r' = (Pending, r') \<and> bf_inbound r' = [] \<and> io_reads (bf_io r') = []"
proof -
  let ?fs = "[frame 100 [7], frame 83 []]" and ?sent = "[100, 0, 0, 0, 5, 7, 83, 0, 0, 0, 4] :: bytes"
  let ?s1 = "sample_sender\<lparr>bf_outbound := ?sent\<rparr>" and ?r = "sample_receiver [[100, 0], [0, 0, 5, 7, 83], [0, 0, 0, 4]]"
  have push: "push_all sample_sender ?fs = (Inr (), ?s1)"
    by (simp add: push_def sample_defs eval_defs put_u8_def put_u32_def put_slice_def)
  have flushed: "flush ?s1 = (Returned (Inr ()), snd (flush ?s1))" "io_sent (bf_io (snd (flush ?s1))) = ?sent"
    by (simp_all add: flush_def sample_defs Let_def)
  then have delivered: "delivers (snd (flush ?s1)) ?r"
    unfolding delivers_def by (intro exI [of _ "[[100, 0], [0, 0, 5, 7, 83], [0, 0, 0, 4]]"]) (simp add: sample_defs)
  have frames: "map FrontendMessage_to_frame [F_CopyData [7], F_Sync] = map Inr ?fs" by (simp add: empty_message_def)
  show ?thesis
    using frontend_end_to_end [OF sample_codec(1,4,5) frames push flushed(1) delivered sample_codec(2)]
    by (simp add: numeral_2_eq_2 del: receive_times.simps)
qed

lemma receive_session_Pending:
  "receive_wire Backend_decode b = (Pending, b') \<Longrightarrow> receive_session b = (Pending, b')"
  by (simp add: receive_session_def receive_projected.simps)

lemma receive_session_message:
  "receive_wire Backend_decode b = (Returned (Inr m), b') \<Longrightarrow>
    receive_session b = (case route (bf_demux b') m of
       (Some item, d) \<Rightarrow> (Returned (Inr item), b'\<lparr>bf_demux := d\<rparr>)
     | (None, d) \<Rightarrow> receive_session (b'\<lparr>bf_demux := d\<rparr>))"
  by (simp add: receive_session_def receive_projected.simps [of id _ _ b] project_backend_def split: prod.split option.split)

lemma streams_demux [simp]: "streams encode legal (b\<lparr>bf_demux := d\<rparr>) ms = streams encode legal b ms"
  by (simp add: streams_def)

lemma streams_receive_session:
  "streams backend_wire backend_legal b ms \<Longrightarrow>
    \<exists>b'. receive_times receive_session (Suc (length (fst (route_all (bf_demux b) ms)))) b = (fst (route_all (bf_demux b) ms), b')
      \<and> bf_demux b' = snd (route_all (bf_demux b) ms) \<and> bf_inbound b' = [] \<and> io_reads (bf_io b') = []"
proof (induction ms arbitrary: b)
  case Nil
  note empty = streams_Nil [where legal = backend_legal, OF backend_stream.framed_decoder_axioms Nil]
  from receive_session_Pending [OF empty(1)] empty(2,3) show ?case by simp
next
  case (Cons m ms)
  from streams_Cons [where legal = backend_legal, OF backend_stream.framed_decoder_axioms Cons.prems] obtain b1 where
    b1: "receive_wire Backend_decode b = (Returned (Inr m), b1)" "streams backend_wire backend_legal b1 ms"
    "bf_demux b1 = bf_demux b" .
  obtain item d where route: "route (bf_demux b) m = (item, d)" by (cases "route (bf_demux b) m")
  from Cons.IH [of "b1\<lparr>bf_demux := d\<rparr>"] b1(2) obtain b' where IH:
    "receive_times receive_session (Suc (length (fst (route_all d ms)))) (b1\<lparr>bf_demux := d\<rparr>) = (fst (route_all d ms), b')"
    "bf_demux b' = snd (route_all d ms)" "bf_inbound b' = []" "io_reads (bf_io b') = []" by auto
  from receive_session_message [OF b1(1)] b1(3) route
  have session: "receive_session b = (case item of Some i \<Rightarrow> (Returned (Inr i), b1\<lparr>bf_demux := d\<rparr>)
    | None \<Rightarrow> receive_session (b1\<lparr>bf_demux := d\<rparr>))" by (simp split: option.split)
  show ?case
  proof (cases item)
    case None
    with session IH route show ?thesis by simp
  next
    case (Some i)
    with session IH(2,3,4) route show ?thesis
      by (simp del: receive_times.simps(2) add: receive_times.simps(2) [of _ "Suc _"] IH(1))
  qed
qed

text \<open>
  C11. End to end, server to client: the items that the client's session receives, however the stream cuts
  the server's output, are exactly those of the demultiplexer over the messages the server flushed, in
  order; after the last one the client waits, with every asynchronous message in its demultiplexer.
\<close>

theorem session_end_to_end:
  assumes "codec_wf (bf_inbound_codec s)" "bf_outbound s = []" "io_sent (bf_io s) = []"
    and "map BackendMessage_to_frame ms = map Inr fs" "list_all sasl_names_nonempty ms"
    and "push_all s fs = (Inr (), s1)" "flush s1 = (Returned (Inr ()), s2)" "delivers s2 r"
    and "codec_wf (bf_inbound_codec r)" "max_frame_len (bf_inbound_codec s) \<le> max_frame_len (bf_inbound_codec r)"
    and "route_all (bf_demux r) ms = (items, d)"
  shows "\<exists>r'. receive_times receive_session (Suc (length items)) r = (items, r')
    \<and> bf_demux r' = d \<and> bf_inbound r' = [] \<and> io_reads (bf_io r') = []"
proof -
  from assms(4,5) have "list_all2 (\<lambda>m f. BackendMessage_to_frame m = Inr f \<and> sasl_names_nonempty m) ms fs"
    by (auto simp: list_all2_conv_all_nth list_eq_iff_nth_eq list_all_length)
  then have "list_all2 (\<lambda>m f. backend_wire m = wire f \<and>
      (fits (bf_inbound_codec r) f \<longrightarrow> backend_legal (bf_inbound_codec r) m)) ms fs"
    by (rule list_all2_mono) (simp add: backend_wire_def backend_legal_def assms(9))
  from delivered_streams [where legal = backend_legal, OF assms(1,2,3,6,7,8,10) this]
  have "streams backend_wire backend_legal r ms" .
  from streams_receive_session [OF this] assms(11) show ?thesis by simp
qed

theorem session_end_to_end_witness:
  "\<exists>r'. receive_times receive_session 2
      (sample_receiver [[83, 0, 0], [0, 8, 97, 0, 98, 0, 90], [0, 0, 0, 5, 73]]) = ([Item_ReadyForQuery Idle False], r')
    \<and> dx_parameters (bf_demux r') = [([97], [98])] \<and> bf_inbound r' = [] \<and> io_reads (bf_io r') = []"
proof -
  let ?fs = "[frame 83 [97, 0, 98, 0], frame 90 [73]]" and ?sent = "[83, 0, 0, 0, 8, 97, 0, 98, 0, 90, 0, 0, 0, 5, 73] :: bytes"
  let ?s1 = "sample_sender\<lparr>bf_outbound := ?sent\<rparr>" and ?r = "sample_receiver [[83, 0, 0], [0, 8, 97, 0, 98, 0, 90], [0, 0, 0, 5, 73]]"
  have push: "push_all sample_sender ?fs = (Inr (), ?s1)"
    by (simp add: push_def sample_defs eval_defs put_u8_def put_u32_def put_slice_def)
  have flushed: "flush ?s1 = (Returned (Inr ()), snd (flush ?s1))" "io_sent (bf_io (snd (flush ?s1))) = ?sent"
    by (simp_all add: flush_def sample_defs Let_def)
  then have delivered: "delivers (snd (flush ?s1)) ?r"
    unfolding delivers_def by (intro exI [of _ "[[83, 0, 0], [0, 8, 97, 0, 98, 0, 90], [0, 0, 0, 5, 73]]"]) (simp add: sample_defs)
  let ?ms = "[B_ParameterStatus [97] [98], B_ReadyForQuery Idle]"
  have frames: "map BackendMessage_to_frame ?ms = map Inr ?fs" by (simp add: eval_defs)
  have items: "fst (route_all (bf_demux ?r) ?ms) = [Item_ReadyForQuery Idle False]"
    "dx_parameters (snd (route_all (bf_demux ?r) ?ms)) = [([97], [98])]"
    by (simp_all add: sample_defs push_async_def Demux_default_def Let_def)
  obtain items d where routed: "route_all (bf_demux ?r) ?ms = (items, d)" by (cases "route_all (bf_demux ?r) ?ms")
  have "list_all sasl_names_nonempty ?ms" by simp
  from session_end_to_end [OF sample_codec(1,4,5) frames this push flushed(1) delivered sample_codec(2) _ routed] items routed
  show ?thesis by (auto simp: numeral_2_eq_2 simp del: receive_times.simps)
qed

section \<open>TLS upgrades\<close>

lemma upgrade_tls_Inr_iff:
  "upgrade_tls handshake b = Inr b' \<longleftrightarrow>
     bf_outbound b = [] \<and> bf_inbound b = [] \<and> handshake (bf_io b) = Inr (bf_io b') \<and>
     b' = (buffered (bf_io b') (bf_inbound_codec b) (bf_max_pre_startup_packet_len b))\<lparr>bf_demux := bf_demux b\<rparr>"
  by (cases b') (auto simp: upgrade_tls_def buffered_def)

lemma packet_legal_ssl: "8 \<le> limit \<Longrightarrow> limit \<le> i32_max \<Longrightarrow> packet_legal limit P_SslRequest"
  by (simp add: packet_legal_def ssl_request_packet_def request_packet_def)

lemma packet_bytes_ssl: "packet_bytes P_SslRequest = ssl_request_packet"
  by (simp add: packet_bytes_def ssl_request_packet_def)

lemma receive_pre_startup_buffered:
  assumes "packet_legal (bf_max_pre_startup_packet_len b) m" "bf_inbound b = packet_bytes m @ extra"
  shows "receive_pre_startup b = (Returned (Inr m), b\<lparr>bf_inbound := extra\<rparr>)"
proof -
  note decoded = packet_stream.complete [OF assms(1), of extra]
  show ?thesis
    by (cases "io_reads (bf_io b)") (simp_all add: receive_pre_startup_def receive_with_def assms(2) decoded)
qed

text \<open>
  C13. A server cannot be made to treat plaintext as if it had come through TLS: when a client's \<open>SSLRequest\<close> is
  answered with \<open>S\<close> and flushed, the upgrade succeeds exactly when nothing followed the request in the
  buffer and the handshake succeeds, and then starts with empty buffers on the stream of the handshake.
\<close>

theorem server_tls_no_injection:
  assumes "8 \<le> bf_max_pre_startup_packet_len b" "bf_max_pre_startup_packet_len b \<le> i32_max"
    and "bf_inbound b = ssl_request_packet @ extra" "bf_outbound b = []"
    and "receive_pre_startup b = (r, b1)"
    and "flush (conn_transport (approve_ssl \<lparr>conn_transport = b1, conn_phase = ServerSslDecision\<rparr>)) = (Returned (Inr ()), b2)"
  shows "r = Returned (Inr P_SslRequest) \<and> io_sent (bf_io b2) = io_sent (bf_io b) @ [reply_byte Accepted] \<and>
    (upgrade_tls handshake b2 = Inr b3 \<longleftrightarrow>
       extra = [] \<and> handshake (bf_io b2) = Inr (bf_io b3) \<and>
       b3 = (buffered (bf_io b3) (bf_inbound_codec b2) (bf_max_pre_startup_packet_len b2))\<lparr>bf_demux := bf_demux b2\<rparr>)"
proof -
  from assms(5) receive_pre_startup_buffered [OF packet_legal_ssl [OF assms(1,2)], of extra] assms(3)
  have r: "r = Returned (Inr P_SslRequest)" "b1 = b\<lparr>bf_inbound := extra\<rparr>" by (simp_all add: packet_bytes_ssl)
  from flush_result [OF assms(6)] r(2) assms(4) show ?thesis
    by (auto simp: r(1) upgrade_tls_Inr_iff approve_ssl_def map_transport_def push_raw_def reply_byte_def to_phase_def)
qed

theorem server_tls_no_injection_witness:
  "\<exists>b1 b2. receive_pre_startup (sample_sender\<lparr>bf_inbound := ssl_request_packet @ [88]\<rparr>) = (Returned (Inr P_SslRequest), b1)
    \<and> flush (conn_transport (approve_ssl \<lparr>conn_transport = b1, conn_phase = ServerSslDecision\<rparr>)) = (Returned (Inr ()), b2)
    \<and> (\<forall>b3. upgrade_tls Inr b2 \<noteq> Inr b3)"
proof -
  let ?b = "sample_sender\<lparr>bf_inbound := ssl_request_packet @ [88]\<rparr>"
  let ?b1 = "snd (receive_pre_startup ?b)"
  let ?c = "approve_ssl \<lparr>conn_transport = ?b1, conn_phase = ServerSslDecision\<rparr>"
  have limits: "8 \<le> bf_max_pre_startup_packet_len ?b" "bf_max_pre_startup_packet_len ?b \<le> i32_max"
    by (simp_all add: sample_defs DEFAULT_MAX_PRE_STARTUP_PACKET_LEN_def i32_max_def)
  have b1: "?b1 = sample_sender\<lparr>bf_inbound := [88]\<rparr>"
    using receive_pre_startup_buffered [OF packet_legal_ssl [OF limits], of "[88]"] by (simp add: packet_bytes_ssl)
  have "flush (conn_transport ?c) = (Returned (Inr ()), snd (flush (conn_transport ?c)))"
    unfolding b1
    by (simp add: approve_ssl_def map_transport_def push_raw_def to_phase_def sample_defs flush_def Let_def)
  with server_tls_no_injection [OF limits, of "[88]" _ ?b1 "snd (flush (conn_transport ?c))" Inr] show ?thesis
    by (intro exI [of _ ?b1] exI [of _ "snd (flush (conn_transport ?c))"]) (cases "receive_pre_startup ?b", simp)
qed

text \<open>
  A client takes exactly one byte of the stream for the server's answer to an encryption request: the
  bytes behind it stay on the stream, where the handshake reads them, and none reaches the inbound buffer.
\<close>

theorem client_reply_exact:
  assumes "io_reads (bf_io b) = map Inr chunks" "[] \<notin> set chunks" "concat chunks = v # rest"
  shows "\<exists>chunks'. receive_encryption_reply b =
      (Returned (case reply_try_from v of Inl _ \<Rightarrow> Inl (invalid ''invalid encryption reply'') | Inr reply \<Rightarrow> Inr reply),
       with_reads b (map Inr chunks'))
    \<and> concat chunks' = rest \<and> [] \<notin> set chunks'"
proof -
  from assms obtain c cs where chunks: "chunks = (v # c) # cs" "rest = c @ concat cs"
    by (cases chunks; cases "hd chunks") auto
  show ?thesis
  proof (cases c)
    case Nil
    with chunks assms show ?thesis
      by (intro exI [of _ cs]) (auto simp: receive_encryption_reply_def with_reads_def split: sum.split)
  next
    case (Cons c1 c2)
    with chunks assms show ?thesis
      by (intro exI [of _ "c # cs"]) (auto simp: receive_encryption_reply_def with_reads_def split: sum.split)
  qed
qed

theorem client_reply_exact_witness:
  "\<exists>chunks'. receive_encryption_reply (sample_receiver [[83, 22], [3]]) =
     (Returned (Inr Accepted), with_reads (sample_receiver [[83, 22], [3]]) (map Inr chunks')) \<and> concat chunks' = [22, 3]"
proof -
  have "io_reads (bf_io (sample_receiver [[83, 22], [3]])) = map Inr [[83, 22], [3]]" by (simp add: sample_defs)
  from client_reply_exact [OF this, of 83 "[22, 3]"] show ?thesis
    by (auto simp: reply_try_from_def)
qed

end
