(* ===== verification/Frontend_Tables.thy ===== *)
theory Frontend_Tables
  imports Grammar
begin

text \<open>
  The \<open>frontend\<close> grammar as tables, one equation per phase: the event a message projects to, and the phase it
  leads to, for the messages the client sends (\<open>client_send\<close>) and receives (\<open>client_receive\<close>).
\<close>

definition client_send :: "frontend_state \<Rightarrow> FrontendMessage \<Rightarrow> frontend_state option" where
  "client_send s m = (case project_internal frontend s m of
     None \<Rightarrow> None | Some event \<Rightarrow> map_option rt_target (transition frontend s event))"

definition client_receive :: "frontend_state \<Rightarrow> BackendMessage \<Rightarrow> frontend_state option" where
  "client_receive s m = (case project_external frontend s m of
     None \<Rightarrow> None | Some event \<Rightarrow> map_option rt_target (transition frontend s event))"

lemmas frontend_table_defs = frontend_project frontend_phase_defs internal_arms_def external_arms_def choice_of_def grammar_defs

lemma frontend_internal_table [simp]:
  "project_internal frontend Fe_Ready m = (if is_F_Query m
       then Some FeE_Query
     else if is_F_FunctionCall m
       then Some FeE_FunctionCall
     else if m = F_Terminate
       then Some FeE_Terminate
     else None)"
  "project_internal frontend Fe_FunctionCalling m = None"
  "project_internal frontend Fe_Simple m = None"
  "project_internal frontend Fe_Building m = (if is_F_Parse m
       then Some FeE_Parse
     else if is_F_Describe m
       then Some FeE_Describe
     else if is_F_Bind m
       then Some FeE_Bind
     else if is_F_Close m
       then Some FeE_Close
     else if m = F_Flush
       then Some FeE_Flush
     else if m = F_Sync
       then Some FeE_Sync
     else None)"
  "project_internal frontend Fe_BoundBuilding m = (if is_F_Parse m
       then Some FeE_Parse
     else if is_F_Describe m
       then Some FeE_Describe
     else if is_F_Bind m
       then Some FeE_Bind
     else if is_F_Execute m
       then Some FeE_Execute
     else if is_F_Close m
       then Some FeE_Close
     else if m = F_Flush
       then Some FeE_Flush
     else if m = F_Sync
       then Some FeE_Sync
     else None)"
  "project_internal frontend Fe_AwaitingReady m = None"
  "project_internal frontend Fe_CopyIn m = (if is_F_CopyData m
       then Some FeE_CopyData
     else if m = F_CopyDone
       then Some FeE_CopyDone
     else if is_F_CopyFail m
       then Some FeE_CopyFail
     else None)"
  "project_internal frontend Fe_CopyOut m = None"
  "project_internal frontend Fe_CopyBoth m = (if is_F_CopyData m
       then Some FeE_SendCopyData
     else if m = F_CopyDone
       then Some FeE_SendCopyDone
     else None)"
  "project_internal frontend Fe_CopyBothClientDone m = None"
  "project_internal frontend Fe_CopyBothServerDone m = (if is_F_CopyData m
       then Some FeE_SendCopyData
     else if m = F_CopyDone
       then Some FeE_SendCopyDone
     else None)"
  "project_internal frontend Fe_Draining m = None"
  "project_internal frontend Fe_Resetting m = None"
  "project_internal frontend Fe_ResetComplete m = None"
  "project_internal frontend Fe_Terminated m = None"
  by (simp_all add: frontend_table_defs)

lemma frontend_external_table [simp]:
  "project_external frontend Fe_Ready m = None"
  "project_external frontend Fe_FunctionCalling m = (if is_B_FunctionCallResponse m
       then Some FeE_FunctionResponse
     else if is_B_ErrorResponse m
       then Some FeE_Error
     else None)"
  "project_external frontend Fe_Simple m = (if is_B_RowDescription m \<or>
         is_B_DataRow m \<or>
         is_B_CommandComplete m \<or>
         m = B_EmptyQueryResponse
       then Some FeE_Continue
     else if is_B_CopyInResponse m
       then Some FeE_CopyIn
     else if is_B_CopyOutResponse m
       then Some FeE_CopyOut
     else if is_B_CopyBothResponse m
       then Some FeE_CopyBoth
     else if is_B_ReadyForQuery m
       then Some FeE_Ready
     else if is_B_ErrorResponse m
       then Some FeE_Error
     else None)"
  "project_external frontend Fe_Building m = None"
  "project_external frontend Fe_BoundBuilding m = None"
  "project_external frontend Fe_AwaitingReady m = (if m = B_ParseComplete \<or>
         m = B_BindComplete \<or>
         m = B_CloseComplete \<or>
         is_B_RowDescription m \<or>
         m = B_NoData \<or>
         is_B_ParameterDescription m \<or>
         is_B_DataRow m \<or>
         is_B_CommandComplete m \<or>
         m = B_PortalSuspended \<or>
         m = B_EmptyQueryResponse
       then Some FeE_Continue
     else if is_B_ReadyForQuery m
       then Some FeE_Ready
     else if is_B_ErrorResponse m
       then Some FeE_Error
     else None)"
  "project_external frontend Fe_CopyIn m = (if is_B_ErrorResponse m
       then Some FeE_Error
     else None)"
  "project_external frontend Fe_CopyOut m = (if is_B_CopyData m
       then Some FeE_CopyData
     else if m = B_CopyDone
       then Some FeE_CopyDone
     else if is_B_ErrorResponse m
       then Some FeE_Error
     else None)"
  "project_external frontend Fe_CopyBoth m = (if is_B_CopyData m
       then Some FeE_ReceiveCopyData
     else if m = B_CopyDone
       then Some FeE_ReceiveCopyDone
     else if is_B_ErrorResponse m
       then Some FeE_Error
     else None)"
  "project_external frontend Fe_CopyBothClientDone m = (if is_B_CopyData m
       then Some FeE_ReceiveCopyData
     else if m = B_CopyDone
       then Some FeE_ReceiveCopyDone
     else if is_B_ErrorResponse m
       then Some FeE_Error
     else None)"
  "project_external frontend Fe_CopyBothServerDone m = None"
  "project_external frontend Fe_Draining m = (if is_B_RowDescription m \<or>
         is_B_DataRow m \<or>
         is_B_CommandComplete m \<or>
         m = B_EmptyQueryResponse \<or>
         m = B_ParseComplete \<or>
         m = B_BindComplete \<or>
         m = B_CloseComplete \<or>
         m = B_NoData \<or>
         is_B_ParameterDescription m \<or>
         m = B_PortalSuspended
       then Some FeE_Continue
     else if is_B_ReadyForQuery m
       then Some FeE_Ready
     else None)"
  "project_external frontend Fe_Resetting m = (if is_B_RowDescription m \<or> is_B_DataRow m \<or> m = B_EmptyQueryResponse
       then Some FeE_Continue
     else if is_B_CommandComplete m
       then Some FeE_DiscardComplete
     else if is_B_ErrorResponse m
       then Some FeE_Error
     else None)"
  "project_external frontend Fe_ResetComplete m = (if is_B_RowDescription m \<or>
         is_B_DataRow m \<or>
         is_B_CommandComplete m \<or>
         m = B_EmptyQueryResponse
       then Some FeE_Continue
     else if m = B_ReadyForQuery Idle
       then Some FeE_ReadyClean
     else if m = B_ReadyForQuery InTransaction \<or> m = B_ReadyForQuery FailedTransaction
       then Some FeE_ReadyDirty
     else if is_B_ErrorResponse m
       then Some FeE_Error
     else None)"
  "project_external frontend Fe_Terminated m = None"
  by (simp_all add: frontend_table_defs)

lemma client_send_table [simp]:
  "client_send Fe_Ready m = (if is_F_Query m
       then Some Fe_Simple
     else if is_F_FunctionCall m
       then Some Fe_FunctionCalling
     else if m = F_Terminate
       then Some Fe_Terminated
     else None)"
  "client_send Fe_FunctionCalling m = None"
  "client_send Fe_Simple m = None"
  "client_send Fe_Building m = (if is_F_Parse m
       then Some Fe_Building
     else if is_F_Describe m
       then Some Fe_Building
     else if is_F_Bind m
       then Some Fe_BoundBuilding
     else if is_F_Close m
       then Some Fe_Building
     else if m = F_Flush
       then Some Fe_Building
     else if m = F_Sync
       then Some Fe_AwaitingReady
     else None)"
  "client_send Fe_BoundBuilding m = (if is_F_Parse m
       then Some Fe_BoundBuilding
     else if is_F_Describe m
       then Some Fe_BoundBuilding
     else if is_F_Bind m
       then Some Fe_BoundBuilding
     else if is_F_Execute m
       then Some Fe_BoundBuilding
     else if is_F_Close m
       then Some Fe_BoundBuilding
     else if m = F_Flush
       then Some Fe_BoundBuilding
     else if m = F_Sync
       then Some Fe_AwaitingReady
     else None)"
  "client_send Fe_AwaitingReady m = None"
  "client_send Fe_CopyIn m = (if is_F_CopyData m
       then Some Fe_CopyIn
     else if m = F_CopyDone
       then Some Fe_AwaitingReady
     else if is_F_CopyFail m
       then Some Fe_AwaitingReady
     else None)"
  "client_send Fe_CopyOut m = None"
  "client_send Fe_CopyBoth m = (if is_F_CopyData m
       then Some Fe_CopyBoth
     else if m = F_CopyDone
       then Some Fe_CopyBothClientDone
     else None)"
  "client_send Fe_CopyBothClientDone m = None"
  "client_send Fe_CopyBothServerDone m = (if is_F_CopyData m
       then Some Fe_CopyBothServerDone
     else if m = F_CopyDone
       then Some Fe_AwaitingReady
     else None)"
  "client_send Fe_Draining m = None"
  "client_send Fe_Resetting m = None"
  "client_send Fe_ResetComplete m = None"
  "client_send Fe_Terminated m = None"
  by (simp_all add: client_send_def frontend_transition frontend_phase_defs grammar_defs)

lemma client_receive_table [simp]:
  "client_receive Fe_Ready m = None"
  "client_receive Fe_FunctionCalling m = (if is_B_FunctionCallResponse m
       then Some Fe_AwaitingReady
     else if is_B_ErrorResponse m
       then Some Fe_Draining
     else None)"
  "client_receive Fe_Simple m = (if is_B_RowDescription m \<or>
         is_B_DataRow m \<or>
         is_B_CommandComplete m \<or>
         m = B_EmptyQueryResponse
       then Some Fe_Simple
     else if is_B_CopyInResponse m
       then Some Fe_CopyIn
     else if is_B_CopyOutResponse m
       then Some Fe_CopyOut
     else if is_B_CopyBothResponse m
       then Some Fe_CopyBoth
     else if is_B_ReadyForQuery m
       then Some Fe_Ready
     else if is_B_ErrorResponse m
       then Some Fe_Draining
     else None)"
  "client_receive Fe_Building m = None"
  "client_receive Fe_BoundBuilding m = None"
  "client_receive Fe_AwaitingReady m = (if m = B_ParseComplete \<or>
         m = B_BindComplete \<or>
         m = B_CloseComplete \<or>
         is_B_RowDescription m \<or>
         m = B_NoData \<or>
         is_B_ParameterDescription m \<or>
         is_B_DataRow m \<or>
         is_B_CommandComplete m \<or>
         m = B_PortalSuspended \<or>
         m = B_EmptyQueryResponse
       then Some Fe_AwaitingReady
     else if is_B_ReadyForQuery m
       then Some Fe_Ready
     else if is_B_ErrorResponse m
       then Some Fe_Draining
     else None)"
  "client_receive Fe_CopyIn m = (if is_B_ErrorResponse m
       then Some Fe_Draining
     else None)"
  "client_receive Fe_CopyOut m = (if is_B_CopyData m
       then Some Fe_CopyOut
     else if m = B_CopyDone
       then Some Fe_AwaitingReady
     else if is_B_ErrorResponse m
       then Some Fe_Draining
     else None)"
  "client_receive Fe_CopyBoth m = (if is_B_CopyData m
       then Some Fe_CopyBoth
     else if m = B_CopyDone
       then Some Fe_CopyBothServerDone
     else if is_B_ErrorResponse m
       then Some Fe_Draining
     else None)"
  "client_receive Fe_CopyBothClientDone m = (if is_B_CopyData m
       then Some Fe_CopyBothClientDone
     else if m = B_CopyDone
       then Some Fe_AwaitingReady
     else if is_B_ErrorResponse m
       then Some Fe_Draining
     else None)"
  "client_receive Fe_CopyBothServerDone m = None"
  "client_receive Fe_Draining m = (if is_B_RowDescription m \<or>
         is_B_DataRow m \<or>
         is_B_CommandComplete m \<or>
         m = B_EmptyQueryResponse \<or>
         m = B_ParseComplete \<or>
         m = B_BindComplete \<or>
         m = B_CloseComplete \<or>
         m = B_NoData \<or>
         is_B_ParameterDescription m \<or>
         m = B_PortalSuspended
       then Some Fe_Draining
     else if is_B_ReadyForQuery m
       then Some Fe_Ready
     else None)"
  "client_receive Fe_Resetting m = (if is_B_RowDescription m \<or> is_B_DataRow m \<or> m = B_EmptyQueryResponse
       then Some Fe_Resetting
     else if is_B_CommandComplete m
       then Some Fe_ResetComplete
     else if is_B_ErrorResponse m
       then Some Fe_Draining
     else None)"
  "client_receive Fe_ResetComplete m = (if is_B_RowDescription m \<or>
         is_B_DataRow m \<or>
         is_B_CommandComplete m \<or>
         m = B_EmptyQueryResponse
       then Some Fe_ResetComplete
     else if m = B_ReadyForQuery Idle
       then Some Fe_Ready
     else if m = B_ReadyForQuery InTransaction \<or> m = B_ReadyForQuery FailedTransaction
       then Some Fe_Ready
     else if is_B_ErrorResponse m
       then Some Fe_Draining
     else None)"
  "client_receive Fe_Terminated m = None"
  by (simp_all add: client_receive_def frontend_transition frontend_phase_defs grammar_defs)

end
