(* ===== verification/Replication.thy ===== *)
theory Replication
  imports Wire
begin

text \<open>
  \<open>src/replication.rs\<close>: the payloads of walsender \<open>CopyData\<close> messages in both directions.  A decoder takes the
  payload apart with the \<open>get_*\<close> readers of the \<open>bytes\<close> crate, which its length checks keep in range.
\<close>

section \<open>Messages\<close>

datatype BackendReplication =
    XLogData u64 u64 i64 bytes
  | PrimaryKeepalive u64 i64 bool
  | Backend_Unknown u8 bytes

datatype FrontendReplication =
    StandbyStatus u64 u64 u64 i64 bool
  | HotStandbyFeedback i64 u32 u32 u32 u32
  | Frontend_Unknown u8 bytes

section \<open>Readers\<close>

definition get_u8 :: "bytes \<Rightarrow> u8 \<times> bytes" where
  "get_u8 payload = (payload ! 0, drop 1 payload)"

definition get_u32 :: "bytes \<Rightarrow> u32 \<times> bytes" where
  "get_u32 payload = (of_be32 (take 4 payload), drop 4 payload)"

definition get_u64 :: "bytes \<Rightarrow> u64 \<times> bytes" where
  "get_u64 payload = (of_be64 (take 8 payload), drop 8 payload)"

definition take_tag :: "bytes \<Rightarrow> io_error + u8 \<times> bytes" where
  "take_tag payload = (if payload = [] then Inl (invalid ''empty replication payload'') else Inr (get_u8 payload))"

definition take_bool :: "u8 \<Rightarrow> io_error + bool" where
  "take_bool v = (if v = 0 then Inr False else if v = 1 then Inr True else Inl (invalid ''invalid replication Boolean''))"

definition require_at_least :: "bytes \<Rightarrow> nat \<Rightarrow> string \<Rightarrow> io_error + unit" where
  "require_at_least payload least message = (if length payload < least then Inl (invalid message) else Inr ())"

definition require_exact :: "bytes \<Rightarrow> nat \<Rightarrow> string \<Rightarrow> io_error + unit" where
  "require_exact payload len message = (if length payload = len then Inr () else Inl (invalid message))"

section \<open>Decoding\<close>

definition decode_xlog_data :: "bytes \<Rightarrow> io_error + BackendReplication" where
  "decode_xlog_data payload = (case require_at_least payload 24 ''truncated XLogData'' of
     Inl e \<Rightarrow> Inl e
   | Inr _ \<Rightarrow>
       (let (wal_start, payload) = get_u64 payload; (wal_end, payload) = get_u64 payload;
            (server_time, payload) = get_u64 payload
        in Inr (XLogData wal_start wal_end server_time payload)))"

definition decode_keepalive :: "bytes \<Rightarrow> io_error + BackendReplication" where
  "decode_keepalive payload = (case require_exact payload 17 ''invalid primary keepalive length'' of
     Inl e \<Rightarrow> Inl e
   | Inr _ \<Rightarrow>
       (let (wal_end, payload) = get_u64 payload; (server_time, payload) = get_u64 payload;
            (reply, payload) = get_u8 payload
        in result_map (PrimaryKeepalive wal_end server_time) (take_bool reply)))"

definition BackendReplication_decode :: "bytes \<Rightarrow> io_error + BackendReplication" where
  "BackendReplication_decode payload = (case take_tag payload of
     Inl e \<Rightarrow> Inl e
   | Inr (tag, payload) \<Rightarrow>
       if tag = byte CHR ''w'' then decode_xlog_data payload
       else if tag = byte CHR ''k'' then decode_keepalive payload
       else Inr (Backend_Unknown tag payload))"

definition decode_standby_status :: "bytes \<Rightarrow> io_error + FrontendReplication" where
  "decode_standby_status payload = (case require_exact payload 33 ''invalid standby status length'' of
     Inl e \<Rightarrow> Inl e
   | Inr _ \<Rightarrow>
       (let (written, payload) = get_u64 payload; (flushed, payload) = get_u64 payload;
            (applied, payload) = get_u64 payload; (client_time, payload) = get_u64 payload;
            (reply, payload) = get_u8 payload
        in result_map (StandbyStatus written flushed applied client_time) (take_bool reply)))"

definition decode_hot_standby :: "bytes \<Rightarrow> io_error + FrontendReplication" where
  "decode_hot_standby payload = (case require_exact payload 24 ''invalid hot standby feedback length'' of
     Inl e \<Rightarrow> Inl e
   | Inr _ \<Rightarrow>
       (let (client_time, payload) = get_u64 payload; (xmin, payload) = get_u32 payload;
            (xmin_epoch, payload) = get_u32 payload; (catalog_xmin, payload) = get_u32 payload;
            (catalog_xmin_epoch, payload) = get_u32 payload
        in Inr (HotStandbyFeedback client_time xmin xmin_epoch catalog_xmin catalog_xmin_epoch)))"

definition FrontendReplication_decode :: "bytes \<Rightarrow> io_error + FrontendReplication" where
  "FrontendReplication_decode payload = (case take_tag payload of
     Inl e \<Rightarrow> Inl e
   | Inr (tag, payload) \<Rightarrow>
       if tag = byte CHR ''r'' then decode_standby_status payload
       else if tag = byte CHR ''h'' then decode_hot_standby payload
       else Inr (Frontend_Unknown tag payload))"

section \<open>Encoding\<close>

definition bool_byte :: "bool \<Rightarrow> u8" where
  "bool_byte b = (if b then 1 else 0)"

fun BackendReplication_encode :: "BackendReplication \<Rightarrow> bytes" where
  "BackendReplication_encode (XLogData wal_start wal_end server_time data) =
     [byte CHR ''w''] @ be64 wal_start @ be64 wal_end @ be64 server_time @ data"
| "BackendReplication_encode (PrimaryKeepalive wal_end server_time reply_requested) =
     [byte CHR ''k''] @ be64 wal_end @ be64 server_time @ [bool_byte reply_requested]"
| "BackendReplication_encode (Backend_Unknown tag body) = [tag] @ body"

fun FrontendReplication_encode :: "FrontendReplication \<Rightarrow> bytes" where
  "FrontendReplication_encode (StandbyStatus written flushed applied client_time reply_requested) =
     [byte CHR ''r''] @ be64 written @ be64 flushed @ be64 applied @ be64 client_time @ [bool_byte reply_requested]"
| "FrontendReplication_encode (HotStandbyFeedback client_time xmin xmin_epoch catalog_xmin catalog_xmin_epoch) =
     [byte CHR ''h''] @ be64 client_time @ be32 xmin @ be32 xmin_epoch @ be32 catalog_xmin @ be32 catalog_xmin_epoch"
| "FrontendReplication_encode (Frontend_Unknown tag body) = [tag] @ body"

section \<open>Laws\<close>

text \<open>An extension message has a tag of its own.\<close>

fun backend_extension_ok :: "BackendReplication \<Rightarrow> bool" where
  "backend_extension_ok (Backend_Unknown tag _) = (tag \<notin> {byte CHR ''w'', byte CHR ''k''})"
| "backend_extension_ok _ = True"

fun frontend_extension_ok :: "FrontendReplication \<Rightarrow> bool" where
  "frontend_extension_ok (Frontend_Unknown tag _) = (tag \<notin> {byte CHR ''r'', byte CHR ''h''})"
| "frontend_extension_ok _ = True"

lemma get_simps [simp]:
  "get_u64 (be64 v @ rest) = (v, rest)" "get_u32 (be32 w @ rest) = (w, rest)" "get_u32 (be32 w) = (w, [])"
  "get_u8 (b # rest) = (b, rest)"
  by (simp_all add: get_u64_def get_u32_def get_u8_def)

lemma split_u64: "8 \<le> length p \<Longrightarrow> \<exists>v rest. p = be64 v @ rest \<and> length p = 8 + length rest"
  by (intro exI [of _ "of_be64 (take 8 p)"] exI [of _ "drop 8 p"]) (simp add: be64_of_be64)

lemma split_u32: "4 \<le> length p \<Longrightarrow> \<exists>v rest. p = be32 v @ rest \<and> length p = 4 + length rest"
  by (intro exI [of _ "of_be32 (take 4 p)"] exI [of _ "drop 4 p"]) (simp add: be32_of_be32)

lemma take_bool_iff [simp]: "(take_bool v = Inr b) = (v = bool_byte b)"
  by (auto simp: take_bool_def bool_byte_def split: if_splits)

lemma be_inject [simp]: "(be64 a = be64 b) = (a = b)" "(be32 c = be32 d) = (c = d)"
  by (metis of_be64_be64, metis of_be32_be32)

lemma shape_8x3: "24 \<le> length p \<Longrightarrow> \<exists>a b c rest. p = be64 a @ be64 b @ be64 c @ rest"
proof -
  assume "24 \<le> length p"
  then obtain a p1 where "p = be64 a @ p1" "16 \<le> length p1" using split_u64 [of p] by auto
  moreover from this(2) obtain b p2 where "p1 = be64 b @ p2" "8 \<le> length p2" using split_u64 [of p1] by auto
  moreover from this(2) obtain c p3 where "p2 = be64 c @ p3" using split_u64 [of p2] by auto
  ultimately show ?thesis by simp
qed

lemma decode_xlog_data_iff:
  "(decode_xlog_data p = Inr m) = (\<exists>a b c rest. m = XLogData a b c rest \<and> p = be64 a @ be64 b @ be64 c @ rest)"
  using shape_8x3 [of p] by (cases "24 \<le> length p") (auto simp: decode_xlog_data_def require_at_least_def)

lemma decode_keepalive_iff:
  "(decode_keepalive p = Inr m) = (\<exists>a b r. m = PrimaryKeepalive a b r \<and> p = be64 a @ be64 b @ [bool_byte r])"
proof (cases "length p = 17")
  case True
  then obtain a p1 where "p = be64 a @ p1" "length p1 = 9" using split_u64 [of p] by auto
  moreover from this(2) obtain b p2 where "p1 = be64 b @ p2" "length p2 = 1" using split_u64 [of p1] by auto
  moreover from this(2) obtain v where "p2 = [v]" by (cases p2) auto
  ultimately show ?thesis by (auto simp: decode_keepalive_def require_exact_def)
qed (auto simp: decode_keepalive_def require_exact_def)

lemma decode_standby_status_iff:
  "(decode_standby_status p = Inr m) =
    (\<exists>a b c d r. m = StandbyStatus a b c d r \<and> p = be64 a @ be64 b @ be64 c @ be64 d @ [bool_byte r])"
proof (cases "length p = 33")
  case True
  then obtain a b c p3 where "p = be64 a @ be64 b @ be64 c @ p3" using shape_8x3 [of p] by auto
  moreover from this True have "length p3 = 9" by simp
  then obtain d p4 where "p3 = be64 d @ p4" "length p4 = 1" using split_u64 [of p3] by auto
  moreover from this(2) obtain v where "p4 = [v]" by (cases p4) auto
  ultimately show ?thesis by (auto simp: decode_standby_status_def require_exact_def)
qed (auto simp: decode_standby_status_def require_exact_def)

lemma decode_hot_standby_iff:
  "(decode_hot_standby p = Inr m) =
    (\<exists>a b c d e. m = HotStandbyFeedback a b c d e \<and> p = be64 a @ be32 b @ be32 c @ be32 d @ be32 e)"
proof (cases "length p = 24")
  case True
  then obtain a p1 where "p = be64 a @ p1" "length p1 = 16" using split_u64 [of p] by auto
  moreover from this(2) obtain b p2 where "p1 = be32 b @ p2" "length p2 = 12" using split_u32 [of p1] by auto
  moreover from this(2) obtain c p3 where "p2 = be32 c @ p3" "length p3 = 8" using split_u32 [of p2] by auto
  moreover from this(2) obtain d p4 where "p3 = be32 d @ p4" "length p4 = 4" using split_u32 [of p3] by auto
  moreover from this(2) obtain e where "p4 = be32 e" using split_u32 [of p4] by auto
  ultimately show ?thesis by (auto simp: decode_hot_standby_def require_exact_def)
qed (auto simp: decode_hot_standby_def require_exact_def)

text \<open>
  C21. The replication decoders accept a payload with a message exactly when the message encodes to that
  payload and is not an extension message under a tag of a known one: round trips in both directions,
  injectivity, and rejection of every truncated or overlong known message and of every invalid Boolean.
\<close>

theorem replication_exact:
  "(BackendReplication_decode p = Inr bm) = (BackendReplication_encode bm = p \<and> backend_extension_ok bm) \<and>
   (FrontendReplication_decode p = Inr fm) = (FrontendReplication_encode fm = p \<and> frontend_extension_ok fm)"
proof (cases p)
  case Nil
  then show ?thesis
    by (cases bm; cases fm) (simp_all add: BackendReplication_decode_def FrontendReplication_decode_def take_tag_def)
next
  case (Cons tag body)
  have "(BackendReplication_decode p = Inr bm) = (BackendReplication_encode bm = p \<and> backend_extension_ok bm)"
    by (cases bm) (auto simp: Cons BackendReplication_decode_def take_tag_def decode_xlog_data_iff decode_keepalive_iff)
  moreover have "(FrontendReplication_decode p = Inr fm) = (FrontendReplication_encode fm = p \<and> frontend_extension_ok fm)"
    by (cases fm) (auto simp: Cons FrontendReplication_decode_def take_tag_def decode_standby_status_iff decode_hot_standby_iff)
  ultimately show ?thesis by blast
qed

text \<open>An extension message under a known tag encodes, but does not decode to itself.\<close>

lemma replication_extension_lost:
  "BackendReplication_decode (BackendReplication_encode (Backend_Unknown (byte CHR ''k'') [])) =
    Inl (invalid ''invalid primary keepalive length'')"
  by (simp add: BackendReplication_decode_def take_tag_def decode_keepalive_def require_exact_def)

end
