(* ===== verification/Session.thy ===== *)
theory Session
  imports Frontend_Tables Demux Replication
begin

text \<open>
  \<open>src/session.rs\<close>: the client side of an established session.  A connection is its transport, its phase and
  its cleanliness; in the source the last two are type parameters, so each operation exists for the phases
  of its \<open>impl\<close> block only.  The phases are those of the \<open>frontend\<close> grammar (\<open>SimpleQuery\<close> is \<open>Simple\<close> there).
\<close>

section \<open>Connections\<close>

record 's SessionConn =
  sc_transport :: 's
  sc_phase :: frontend_state
  sc_cleanliness :: Cleanliness

text \<open>\<open>self.transition()\<close>, to another phase with the same or with another cleanliness.\<close>

definition keep :: "'s SessionConn \<Rightarrow> frontend_state \<Rightarrow> 's SessionConn" where
  "keep c entered = c\<lparr>sc_phase := entered\<rparr>"

definition enter :: "'s SessionConn \<Rightarrow> frontend_state \<Rightarrow> Cleanliness \<Rightarrow> 's SessionConn" where
  "enter c entered cleanliness = c\<lparr>sc_phase := entered, sc_cleanliness := cleanliness\<rparr>"

lemma conn_simps [simp]:
  "sc_phase (keep c entered) = entered" "sc_cleanliness (keep c entered) = sc_cleanliness c"
  "sc_phase (enter c entered cl) = entered" "sc_cleanliness (enter c entered cl) = cl"
  "sc_transport (keep c entered) = sc_transport c" "sc_transport (enter c entered cl) = sc_transport c"
  by (simp_all add: keep_def enter_def)

section \<open>Sending\<close>

definition cstr_frame :: "u8 \<Rightarrow> bytes \<Rightarrow> io_error + Frame" where
  "cstr_frame tag v =
     (if 0 \<in> set v then Inl (invalid_input ''message string contains a NUL byte'') else Inr (frame tag (v @ [0])))"

definition empty_frame :: "u8 \<Rightarrow> Frame" where
  "empty_frame tag = frame tag []"

text \<open>\<open>Ready\<close>\<close>

definition push_terminate :: "'s SessionConn \<Rightarrow> 's SessionConn \<times> Frame" where
  "push_terminate c = (keep c Fe_Terminated, empty_frame (byte CHR ''X''))"

definition push_query :: "'s SessionConn \<Rightarrow> bytes \<Rightarrow> io_error + 's SessionConn \<times> Frame" where
  "push_query c query = result_map (\<lambda>f. (enter c Fe_Simple Dirty, f)) (cstr_frame (byte CHR ''Q'') query)"

definition push_stateless_query :: "'s SessionConn \<Rightarrow> bytes \<Rightarrow> io_error + 's SessionConn \<times> Frame" where
  "push_stateless_query c query = result_map (\<lambda>f. (keep c Fe_Simple, f)) (cstr_frame (byte CHR ''Q'') query)"

definition push_function_call :: "'s SessionConn \<Rightarrow> FunctionCall \<Rightarrow> io_error + 's SessionConn \<times> Frame" where
  "push_function_call c m = result_map (\<lambda>f. (enter c Fe_FunctionCalling Dirty, f)) (FunctionCall_to_frame m)"

definition push_stateless_function_call :: "'s SessionConn \<Rightarrow> FunctionCall \<Rightarrow> io_error + 's SessionConn \<times> Frame" where
  "push_stateless_function_call c m = result_map (\<lambda>f. (keep c Fe_FunctionCalling, f)) (FunctionCall_to_frame m)"

definition begin_extended :: "'s SessionConn \<Rightarrow> 's SessionConn" where
  "begin_extended c = keep c Fe_Building"

definition release :: "'s SessionConn \<Rightarrow> 's" where
  "release c = sc_transport c"

definition begin_reset :: "'s SessionConn \<Rightarrow> io_error + 's SessionConn \<times> Frame" where
  "begin_reset c = result_map (\<lambda>f. (enter c Fe_Resetting Dirty, f))
     (cstr_frame (byte CHR ''Q'') (bstr ''ROLLBACK; DISCARD ALL''))"

text \<open>\<open>Building\<close>\<close>

definition push_parse :: "'s SessionConn \<Rightarrow> Parse \<Rightarrow> io_error + 's SessionConn \<times> Frame" where
  "push_parse c m = result_map (\<lambda>f. (enter c Fe_Building Dirty, f)) (Parse_to_frame m)"

definition push_describe :: "'s SessionConn \<Rightarrow> Describe \<Rightarrow> io_error + 's SessionConn \<times> Frame" where
  "push_describe c m = result_map (\<lambda>f. (c, f)) (Describe_to_frame m)"

definition push_bind :: "'s SessionConn \<Rightarrow> Bind \<Rightarrow> io_error + 's SessionConn \<times> Frame" where
  "push_bind c m = result_map (\<lambda>f. (enter c Fe_BoundBuilding Dirty, f)) (Bind_to_frame m)"

definition push_close :: "'s SessionConn \<Rightarrow> Close \<Rightarrow> io_error + 's SessionConn \<times> Frame" where
  "push_close c m = result_map (\<lambda>f. (c, f)) (Close_to_frame m)"

definition push_flush :: "'s SessionConn \<Rightarrow> 's SessionConn \<times> Frame" where
  "push_flush c = (c, empty_frame (byte CHR ''H''))"

definition push_sync :: "'s SessionConn \<Rightarrow> 's SessionConn \<times> Frame" where
  "push_sync c = (keep c Fe_AwaitingReady, empty_frame (byte CHR ''S''))"

text \<open>\<open>BoundBuilding\<close>; its \<open>push_bind\<close>, \<open>push_describe\<close>, \<open>push_close\<close>, \<open>push_flush\<close> and \<open>push_sync\<close> are as above.\<close>

definition bound_push_parse :: "'s SessionConn \<Rightarrow> Parse \<Rightarrow> io_error + 's SessionConn \<times> Frame" where
  "bound_push_parse c m = result_map (\<lambda>f. (enter c Fe_BoundBuilding Dirty, f)) (Parse_to_frame m)"

definition push_execute :: "'s SessionConn \<Rightarrow> Execute \<Rightarrow> io_error + 's SessionConn \<times> Frame" where
  "push_execute c m = result_map (\<lambda>f. (c, f)) (Execute_to_frame m)"

text \<open>The COPY phases\<close>

definition push_copy_data :: "'s SessionConn \<Rightarrow> bytes \<Rightarrow> 's SessionConn \<times> Frame" where
  "push_copy_data c data = (c, frame (byte CHR ''d'') data)"

definition push_copy_done :: "'s SessionConn \<Rightarrow> 's SessionConn \<times> Frame" where
  "push_copy_done c = (keep c Fe_AwaitingReady, empty_frame (byte CHR ''c''))"

definition push_copy_fail :: "'s SessionConn \<Rightarrow> bytes \<Rightarrow> io_error + 's SessionConn \<times> Frame" where
  "push_copy_fail c message = result_map (\<lambda>f. (keep c Fe_AwaitingReady, f)) (cstr_frame (byte CHR ''f'') message)"

definition push_replication :: "'s SessionConn \<Rightarrow> FrontendReplication \<Rightarrow> 's SessionConn \<times> Frame" where
  "push_replication c message = push_copy_data c (FrontendReplication_encode message)"

definition copy_both_push_copy_done :: "'s SessionConn \<Rightarrow> 's SessionConn \<times> Frame" where
  "copy_both_push_copy_done c = (keep c Fe_CopyBothClientDone, empty_frame (byte CHR ''c''))"

definition mark_dirty :: "'s SessionConn \<Rightarrow> 's SessionConn" where
  "mark_dirty c = enter c (sc_phase c) Dirty"

section \<open>Receiving\<close>

text \<open>\<open>ReadyState\<close> and the branches of the \<open>offer\<close> operations.\<close>

datatype 's ReadyState =
    Ready_Clean "'s SessionConn"
  | Ready_Dirty "'s SessionConn" TransactionStatus bool

datatype 's SimpleTransition =
    Simple_Continue "'s SessionConn" SessionItem
  | Simple_CopyIn "'s SessionConn" CopyResponse
  | Simple_CopyOut "'s SessionConn" CopyResponse
  | Simple_CopyBoth "'s SessionConn" CopyResponse
  | Simple_Ready "'s ReadyState"
  | Simple_Error "'s SessionConn" DiagnosticResponse

datatype 's AwaitingReadyTransition =
    Awaiting_Continue "'s SessionConn" SessionItem
  | Awaiting_Ready "'s ReadyState"
  | Awaiting_Error "'s SessionConn" DiagnosticResponse

datatype 's FunctionCallTransition =
    Function_Response "'s SessionConn" bytes
  | Function_Error "'s SessionConn" DiagnosticResponse

datatype 's DrainingTransition =
    Draining_Continue "'s SessionConn" SessionItem
  | Draining_Ready "'s ReadyState"

text \<open>\<open>CopyOutTransition\<close>, \<open>CopyBothReceive\<close> and \<open>CopyBothClientDoneReceive\<close>\<close>

datatype 's CopyReceive =
    Copy_Data "'s SessionConn" bytes
  | Copy_Done "'s SessionConn"
  | Copy_Error "'s SessionConn" DiagnosticResponse

datatype 's ResettingTransition =
    Resetting_Continue "'s SessionConn" SessionItem
  | Resetting_Complete "'s SessionConn"
  | Resetting_Error "'s SessionConn" DiagnosticResponse

datatype 's ResetCompleteTransition =
    ResetComplete_Continue "'s SessionConn" SessionItem
  | ResetComplete_Ready "'s SessionConn"
  | ResetComplete_Dirty "'s SessionConn" TransactionStatus bool
  | ResetComplete_Error "'s SessionConn" DiagnosticResponse

definition project_session_item :: "frontend_state \<Rightarrow> SessionItem \<Rightarrow> frontend_event option" where
  "project_session_item state item = (case item of
     Item_Message message \<Rightarrow> project_external frontend state message
   | Item_CommandComplete tag _ _ \<Rightarrow> project_external frontend state (B_CommandComplete tag)
   | Item_ReadyForQuery status _ \<Rightarrow> project_external frontend state (B_ReadyForQuery status))"

definition ready_state :: "'s SessionConn \<Rightarrow> TransactionStatus \<Rightarrow> bool \<Rightarrow> 's ReadyState" where
  "ready_state c status parameters_changed =
     (if status = Idle \<and> \<not> parameters_changed then Ready_Clean (keep c Fe_Ready)
      else Ready_Dirty (enter c Fe_Ready Dirty) status parameters_changed)"

text \<open>\<open>Err((self, item))\<close> unless the projected event is the one of the arm.\<close>

definition when_event :: "frontend_event option \<Rightarrow> frontend_event \<Rightarrow> 'err \<Rightarrow> 'ok \<Rightarrow> 'err + 'ok" where
  "when_event projected event err ok = (if projected = Some event then Inr ok else Inl err)"

definition function_offer :: "'s SessionConn \<Rightarrow> BackendMessage \<Rightarrow> 's SessionConn \<times> BackendMessage + 's FunctionCallTransition" where
  "function_offer c message = (let e = project_external frontend Fe_FunctionCalling message; err = (c, message) in
     case message of
       B_FunctionCallResponse v \<Rightarrow> when_event e FeE_FunctionResponse err (Function_Response (keep c Fe_AwaitingReady) v)
     | B_ErrorResponse error \<Rightarrow> when_event e FeE_Error err (Function_Error (keep c Fe_Draining) error)
     | _ \<Rightarrow> Inl err)"

definition simple_offer :: "'s SessionConn \<Rightarrow> SessionItem \<Rightarrow> 's SessionConn \<times> SessionItem + 's SimpleTransition" where
  "simple_offer c item = (let e = project_session_item Fe_Simple item; err = (c, item) in
     case item of
       Item_Message (B_CopyInResponse response) \<Rightarrow> when_event e FeE_CopyIn err (Simple_CopyIn (keep c Fe_CopyIn) response)
     | Item_Message (B_CopyOutResponse response) \<Rightarrow> when_event e FeE_CopyOut err (Simple_CopyOut (keep c Fe_CopyOut) response)
     | Item_Message (B_CopyBothResponse response) \<Rightarrow> when_event e FeE_CopyBoth err (Simple_CopyBoth (keep c Fe_CopyBoth) response)
     | Item_ReadyForQuery status changed \<Rightarrow> when_event e FeE_Ready err (Simple_Ready (ready_state c status changed))
     | Item_Message (B_ErrorResponse error) \<Rightarrow> when_event e FeE_Error err (Simple_Error (keep c Fe_Draining) error)
     | Item_CommandComplete _ _ _ \<Rightarrow> when_event e FeE_Continue err (Simple_Continue c item)
     | Item_Message (B_RowDescription _) \<Rightarrow> when_event e FeE_Continue err (Simple_Continue c item)
     | Item_Message (B_DataRow _) \<Rightarrow> when_event e FeE_Continue err (Simple_Continue c item)
     | Item_Message B_EmptyQueryResponse \<Rightarrow> when_event e FeE_Continue err (Simple_Continue c item)
     | _ \<Rightarrow> Inl err)"

text \<open>\<open>CopyInTransition\<close> has the one branch \<open>Error\<close>.\<close>

definition copy_in_offer :: "'s SessionConn \<Rightarrow> SessionItem \<Rightarrow> 's SessionConn \<times> SessionItem + 's SessionConn \<times> DiagnosticResponse" where
  "copy_in_offer c item = (let e = project_session_item Fe_CopyIn item; err = (c, item) in
     case item of
       Item_Message (B_ErrorResponse error) \<Rightarrow> when_event e FeE_Error err (keep c Fe_Draining, error)
     | _ \<Rightarrow> Inl err)"

definition copy_out_offer :: "'s SessionConn \<Rightarrow> SessionItem \<Rightarrow> 's SessionConn \<times> SessionItem + 's CopyReceive" where
  "copy_out_offer c item = (let e = project_session_item Fe_CopyOut item; err = (c, item) in
     case item of
       Item_Message (B_CopyData data) \<Rightarrow> when_event e FeE_CopyData err (Copy_Data c data)
     | Item_Message B_CopyDone \<Rightarrow> when_event e FeE_CopyDone err (Copy_Done (keep c Fe_AwaitingReady))
     | Item_Message (B_ErrorResponse error) \<Rightarrow> when_event e FeE_Error err (Copy_Error (keep c Fe_Draining) error)
     | _ \<Rightarrow> Inl err)"

definition copy_both_offer :: "'s SessionConn \<Rightarrow> SessionItem \<Rightarrow> 's SessionConn \<times> SessionItem + 's CopyReceive" where
  "copy_both_offer c item = (let e = project_session_item Fe_CopyBoth item; err = (c, item) in
     case item of
       Item_Message (B_CopyData data) \<Rightarrow> when_event e FeE_ReceiveCopyData err (Copy_Data c data)
     | Item_Message B_CopyDone \<Rightarrow> when_event e FeE_ReceiveCopyDone err (Copy_Done (keep c Fe_CopyBothServerDone))
     | Item_Message (B_ErrorResponse error) \<Rightarrow> when_event e FeE_Error err (Copy_Error (keep c Fe_Draining) error)
     | _ \<Rightarrow> Inl err)"

definition client_done_offer :: "'s SessionConn \<Rightarrow> SessionItem \<Rightarrow> 's SessionConn \<times> SessionItem + 's CopyReceive" where
  "client_done_offer c item = (let e = project_session_item Fe_CopyBothClientDone item; err = (c, item) in
     case item of
       Item_Message (B_CopyData data) \<Rightarrow> when_event e FeE_ReceiveCopyData err (Copy_Data c data)
     | Item_Message B_CopyDone \<Rightarrow> when_event e FeE_ReceiveCopyDone err (Copy_Done (keep c Fe_AwaitingReady))
     | Item_Message (B_ErrorResponse error) \<Rightarrow> when_event e FeE_Error err (Copy_Error (keep c Fe_Draining) error)
     | _ \<Rightarrow> Inl err)"

text \<open>\<open>ReplicationReceive\<close> and \<open>ReplicationClientDoneReceive\<close>; a payload that does not decode keeps the connection.\<close>

datatype 's ReplicationReceive =
    Replication_Message "'s SessionConn" BackendReplication
  | Replication_Done "'s SessionConn"
  | Replication_Error "'s SessionConn" DiagnosticResponse

fun decode_replication :: "'s CopyReceive \<Rightarrow> 's SessionConn \<times> io_error + 's ReplicationReceive" where
  "decode_replication (Copy_Data c data) = (case BackendReplication_decode data of
     Inr message \<Rightarrow> Inr (Replication_Message c message) | Inl error \<Rightarrow> Inl (c, error))"
| "decode_replication (Copy_Done c) = Inr (Replication_Done c)"
| "decode_replication (Copy_Error c error) = Inr (Replication_Error c error)"

definition draining_offer :: "'s SessionConn \<Rightarrow> SessionItem \<Rightarrow> 's DrainingTransition" where
  "draining_offer c item = (let e = project_session_item Fe_Draining item in
     case item of
       Item_ReadyForQuery status changed \<Rightarrow>
         if e = Some FeE_Ready then Draining_Ready (ready_state c status changed) else Draining_Continue c item
     | _ \<Rightarrow> Draining_Continue c item)"

definition awaiting_ready_offer :: "'s SessionConn \<Rightarrow> SessionItem \<Rightarrow> 's AwaitingReadyTransition" where
  "awaiting_ready_offer c item = (let e = project_session_item Fe_AwaitingReady item in
     case item of
       Item_ReadyForQuery status changed \<Rightarrow>
         if e = Some FeE_Ready then Awaiting_Ready (ready_state c status changed) else Awaiting_Continue c item
     | Item_Message (B_ErrorResponse error) \<Rightarrow>
         if e = Some FeE_Error then Awaiting_Error (keep c Fe_Draining) error else Awaiting_Continue c item
     | _ \<Rightarrow> Awaiting_Continue c item)"

definition resetting_offer :: "'s SessionConn \<Rightarrow> SessionItem \<Rightarrow> 's ResettingTransition" where
  "resetting_offer c item = (let e = project_session_item Fe_Resetting item in
     case item of
       Item_CommandComplete tag _ _ \<Rightarrow>
         if e = Some FeE_DiscardComplete \<and> tag = bstr ''DISCARD ALL'' then Resetting_Complete (keep c Fe_ResetComplete)
         else Resetting_Continue c item
     | Item_Message (B_ErrorResponse error) \<Rightarrow>
         if e = Some FeE_Error then Resetting_Error (keep c Fe_Draining) error else Resetting_Continue c item
     | _ \<Rightarrow> Resetting_Continue c item)"

definition reset_complete_offer :: "'s SessionConn \<Rightarrow> SessionItem \<Rightarrow> 's ResetCompleteTransition" where
  "reset_complete_offer c item = (let e = project_session_item Fe_ResetComplete item in
     case item of
       Item_ReadyForQuery status changed \<Rightarrow>
         if e = Some FeE_ReadyClean \<and> status = Idle \<and> \<not> changed then ResetComplete_Ready (enter c Fe_Ready Pristine)
         else if e = Some FeE_ReadyClean \<or> e = Some FeE_ReadyDirty
         then ResetComplete_Dirty (enter c Fe_Ready Dirty) status changed
         else ResetComplete_Continue c item
     | Item_Message (B_ErrorResponse error) \<Rightarrow>
         if e = Some FeE_Error then ResetComplete_Error (keep c Fe_Draining) error else ResetComplete_Continue c item
     | _ \<Rightarrow> ResetComplete_Continue c item)"

end
