(* ===== verification/Session_Laws.thy ===== *)
theory Session_Laws
  imports Session
begin

text \<open>
  The typed client session against the \<open>frontend\<close> grammar: what its operations can send is exactly what the
  grammar lets a client send, what it accepts is what the grammar accepts, up to the phases that let
  everything else pass, and only a connection without session state can be released to a pool.
\<close>

section \<open>The operations by phase\<close>

datatype client_call =
    Do_terminate | Do_query bytes | Do_stateless_query bytes | Do_function_call FunctionCall
  | Do_stateless_function_call FunctionCall | Do_begin_extended | Do_reset
  | Do_parse Parse | Do_describe Describe | Do_bind Bind | Do_execute Execute | Do_close Close | Do_flush | Do_sync
  | Do_copy_data bytes | Do_copy_done | Do_copy_fail bytes | Do_replication FrontendReplication | Do_mark_dirty

abbreviation sending :: "io_error + 's SessionConn \<times> Frame \<Rightarrow> (io_error + 's SessionConn \<times> Frame option) option" where
  "sending r \<equiv> Some (result_map (\<lambda>(c, f). (c, Some f)) r)"

text \<open>The operation of the \<open>impl\<close> block for the phase; \<open>None\<close> when there is none, which does not type-check.\<close>

fun session_call :: "'s SessionConn \<Rightarrow> client_call \<Rightarrow> (io_error + 's SessionConn \<times> Frame option) option" where
  "session_call c Do_terminate = (if sc_phase c = Fe_Ready then sending (Inr (push_terminate c)) else None)"
| "session_call c (Do_query q) = (if sc_phase c = Fe_Ready then sending (push_query c q) else None)"
| "session_call c (Do_stateless_query q) = (if sc_phase c = Fe_Ready then sending (push_stateless_query c q) else None)"
| "session_call c (Do_function_call m) = (if sc_phase c = Fe_Ready then sending (push_function_call c m) else None)"
| "session_call c (Do_stateless_function_call m) =
     (if sc_phase c = Fe_Ready then sending (push_stateless_function_call c m) else None)"
| "session_call c Do_begin_extended = (if sc_phase c = Fe_Ready then Some (Inr (begin_extended c, None)) else None)"
| "session_call c Do_reset =
     (if sc_phase c = Fe_Ready \<and> sc_cleanliness c = Dirty then sending (begin_reset c) else None)"
| "session_call c (Do_parse m) = (case sc_phase c of
     Fe_Building \<Rightarrow> sending (push_parse c m) | Fe_BoundBuilding \<Rightarrow> sending (bound_push_parse c m) | _ \<Rightarrow> None)"
| "session_call c (Do_describe m) =
     (if sc_phase c = Fe_Building \<or> sc_phase c = Fe_BoundBuilding then sending (push_describe c m) else None)"
| "session_call c (Do_bind m) =
     (if sc_phase c = Fe_Building \<or> sc_phase c = Fe_BoundBuilding then sending (push_bind c m) else None)"
| "session_call c (Do_execute m) = (if sc_phase c = Fe_BoundBuilding then sending (push_execute c m) else None)"
| "session_call c (Do_close m) =
     (if sc_phase c = Fe_Building \<or> sc_phase c = Fe_BoundBuilding then sending (push_close c m) else None)"
| "session_call c Do_flush =
     (if sc_phase c = Fe_Building \<or> sc_phase c = Fe_BoundBuilding then sending (Inr (push_flush c)) else None)"
| "session_call c Do_sync =
     (if sc_phase c = Fe_Building \<or> sc_phase c = Fe_BoundBuilding then sending (Inr (push_sync c)) else None)"
| "session_call c (Do_copy_data data) =
     (if sc_phase c = Fe_CopyIn \<or> sc_phase c = Fe_CopyBoth \<or> sc_phase c = Fe_CopyBothServerDone
      then sending (Inr (push_copy_data c data)) else None)"
| "session_call c Do_copy_done = (case sc_phase c of
     Fe_CopyIn \<Rightarrow> sending (Inr (push_copy_done c))
   | Fe_CopyBothServerDone \<Rightarrow> sending (Inr (push_copy_done c))
   | Fe_CopyBoth \<Rightarrow> sending (Inr (copy_both_push_copy_done c))
   | _ \<Rightarrow> None)"
| "session_call c (Do_copy_fail message) = (if sc_phase c = Fe_CopyIn then sending (push_copy_fail c message) else None)"
| "session_call c (Do_replication message) =
     (if sc_phase c = Fe_CopyBoth \<or> sc_phase c = Fe_CopyBothServerDone
      then sending (Inr (push_replication c message)) else None)"
| "session_call c Do_mark_dirty = (if sc_cleanliness c = Pristine then Some (Inr (mark_dirty c, None)) else None)"

text \<open>The connection in a branch of a transition.\<close>

fun ready_conn :: "'s ReadyState \<Rightarrow> 's SessionConn" where
  "ready_conn (Ready_Clean c) = c" | "ready_conn (Ready_Dirty c _ _) = c"

fun simple_conn :: "'s SimpleTransition \<Rightarrow> 's SessionConn" where
  "simple_conn (Simple_Continue c _) = c" | "simple_conn (Simple_CopyIn c _) = c"
| "simple_conn (Simple_CopyOut c _) = c" | "simple_conn (Simple_CopyBoth c _) = c"
| "simple_conn (Simple_Ready r) = ready_conn r" | "simple_conn (Simple_Error c _) = c"

fun awaiting_conn :: "'s AwaitingReadyTransition \<Rightarrow> 's SessionConn" where
  "awaiting_conn (Awaiting_Continue c _) = c" | "awaiting_conn (Awaiting_Ready r) = ready_conn r"
| "awaiting_conn (Awaiting_Error c _) = c"

fun function_conn :: "'s FunctionCallTransition \<Rightarrow> 's SessionConn" where
  "function_conn (Function_Response c _) = c" | "function_conn (Function_Error c _) = c"

fun draining_conn :: "'s DrainingTransition \<Rightarrow> 's SessionConn" where
  "draining_conn (Draining_Continue c _) = c" | "draining_conn (Draining_Ready r) = ready_conn r"

fun copy_conn :: "'s CopyReceive \<Rightarrow> 's SessionConn" where
  "copy_conn (Copy_Data c _) = c" | "copy_conn (Copy_Done c) = c" | "copy_conn (Copy_Error c _) = c"

fun resetting_conn :: "'s ResettingTransition \<Rightarrow> 's SessionConn" where
  "resetting_conn (Resetting_Continue c _) = c" | "resetting_conn (Resetting_Complete c) = c"
| "resetting_conn (Resetting_Error c _) = c"

fun reset_complete_conn :: "'s ResetCompleteTransition \<Rightarrow> 's SessionConn" where
  "reset_complete_conn (ResetComplete_Continue c _) = c" | "reset_complete_conn (ResetComplete_Ready c) = c"
| "reset_complete_conn (ResetComplete_Dirty c _ _) = c" | "reset_complete_conn (ResetComplete_Error c _) = c"

abbreviation accepted :: "('t \<Rightarrow> 's SessionConn) \<Rightarrow> 'err + 't \<Rightarrow> 's SessionConn option" where
  "accepted conn r \<equiv> (case r of Inl _ \<Rightarrow> None | Inr t \<Rightarrow> Some (conn t))"

text \<open>The connection after \<open>offer\<close> of the phase; \<open>None\<close> when the item is returned as illegal.\<close>

definition session_offer :: "'s SessionConn \<Rightarrow> SessionItem \<Rightarrow> 's SessionConn option" where
  "session_offer c item = (case sc_phase c of
     Fe_FunctionCalling \<Rightarrow> accepted function_conn (function_offer c (into_backend_message item))
   | Fe_Simple \<Rightarrow> accepted simple_conn (simple_offer c item)
   | Fe_CopyIn \<Rightarrow> accepted fst (copy_in_offer c item)
   | Fe_CopyOut \<Rightarrow> accepted copy_conn (copy_out_offer c item)
   | Fe_CopyBoth \<Rightarrow> accepted copy_conn (copy_both_offer c item)
   | Fe_CopyBothClientDone \<Rightarrow> accepted copy_conn (client_done_offer c item)
   | Fe_Draining \<Rightarrow> Some (draining_conn (draining_offer c item))
   | Fe_AwaitingReady \<Rightarrow> Some (awaiting_conn (awaiting_ready_offer c item))
   | Fe_Resetting \<Rightarrow> Some (resetting_conn (resetting_offer c item))
   | Fe_ResetComplete \<Rightarrow> Some (reset_complete_conn (reset_complete_offer c item))
   | _ \<Rightarrow> None)"

definition tolerant :: "frontend_state \<Rightarrow> bool" where
  "tolerant s = (s = Fe_AwaitingReady \<or> s = Fe_Draining \<or> s = Fe_Resetting \<or> s = Fe_ResetComplete)"

text \<open>The completion of a statement before \<open>DISCARD ALL\<close> in the reset query.\<close>

definition early_completion :: "frontend_state \<Rightarrow> BackendMessage \<Rightarrow> bool" where
  "early_completion s m = (s = Fe_Resetting \<and> (case m of B_CommandComplete tag \<Rightarrow> tag \<noteq> bstr ''DISCARD ALL'' | _ \<Rightarrow> False))"

section \<open>Sending\<close>

lemma cstr_frame_message: "cstr_frame tag v = cstr_message tag v"
  by (simp add: cstr_frame_def cstr_message_def frame_of_def put_cstr_def cstr_writer_def)

text \<open>The message an operation sends, and the operation for a message.\<close>

fun call_message :: "client_call \<Rightarrow> FrontendMessage option" where
  "call_message Do_terminate = Some F_Terminate"
| "call_message (Do_query q) = Some (F_Query q)"
| "call_message (Do_stateless_query q) = Some (F_Query q)"
| "call_message (Do_function_call m) = Some (F_FunctionCall m)"
| "call_message (Do_stateless_function_call m) = Some (F_FunctionCall m)"
| "call_message Do_begin_extended = None"
| "call_message Do_reset = Some (F_Query (bstr ''ROLLBACK; DISCARD ALL''))"
| "call_message (Do_parse m) = Some (F_Parse m)"
| "call_message (Do_describe m) = Some (F_Describe m)"
| "call_message (Do_bind m) = Some (F_Bind m)"
| "call_message (Do_execute m) = Some (F_Execute m)"
| "call_message (Do_close m) = Some (F_Close m)"
| "call_message Do_flush = Some F_Flush"
| "call_message Do_sync = Some F_Sync"
| "call_message (Do_copy_data data) = Some (F_CopyData data)"
| "call_message Do_copy_done = Some F_CopyDone"
| "call_message (Do_copy_fail message) = Some (F_CopyFail message)"
| "call_message (Do_replication message) = Some (F_CopyData (FrontendReplication_encode message))"
| "call_message Do_mark_dirty = None"

fun message_call :: "FrontendMessage \<Rightarrow> client_call" where
  "message_call (F_Parse m) = Do_parse m"
| "message_call (F_Bind m) = Do_bind m"
| "message_call (F_Describe m) = Do_describe m"
| "message_call (F_Close m) = Do_close m"
| "message_call (F_Execute m) = Do_execute m"
| "message_call (F_FunctionCall m) = Do_function_call m"
| "message_call (F_Query query) = Do_query query"
| "message_call F_Flush = Do_flush"
| "message_call F_Sync = Do_sync"
| "message_call F_Terminate = Do_terminate"
| "message_call (F_CopyData data) = Do_copy_data data"
| "message_call F_CopyDone = Do_copy_done"
| "message_call (F_CopyFail message) = Do_copy_fail message"
| "message_call (F_PasswordResponse data) = Do_mark_dirty"

lemmas push_defs = push_terminate_def push_query_def push_stateless_query_def push_function_call_def
  push_stateless_function_call_def begin_extended_def begin_reset_def push_parse_def push_describe_def push_bind_def
  push_close_def push_flush_def push_sync_def bound_push_parse_def push_execute_def push_copy_data_def
  push_copy_done_def push_copy_fail_def push_replication_def copy_both_push_copy_done_def mark_dirty_def
  empty_frame_def cstr_frame_message empty_message_def

lemma call_sends:
  "session_call c call = Some (Inr (c', Some f)) \<Longrightarrow> call \<noteq> Do_reset \<Longrightarrow>
    \<exists>m. call_message call = Some m \<and> FrontendMessage_to_frame m = Inr f \<and> client_send (sc_phase c) m = Some (sc_phase c')"
  by (cases call) (auto simp: push_defs split: if_splits frontend_state.splits)

lemma message_sent:
  "client_send (sc_phase c) m = Some s' \<Longrightarrow> FrontendMessage_to_frame m = Inr f \<Longrightarrow>
    \<exists>c'. session_call c (message_call m) = Some (Inr (c', Some f)) \<and> sc_phase c' = s' \<and> message_call m \<noteq> Do_reset"
  by (cases m; cases "sc_phase c") (auto simp: push_defs)

section \<open>Receiving\<close>

lemma route_item_cases:
  assumes "fst (route d m) = Some item"
  obtains tag k notices where "item = Item_CommandComplete tag k notices" "m = B_CommandComplete tag"
  | status changed where "item = Item_ReadyForQuery status changed" "m = B_ReadyForQuery status"
  | "item = Item_Message m" "\<not> is_B_CommandComplete m" "\<not> is_B_ReadyForQuery m"
  using assms by (cases m) (auto simp: Let_def)

lemmas offer_defs = function_offer_def simple_offer_def copy_in_offer_def copy_out_offer_def copy_both_offer_def
  client_done_offer_def draining_offer_def awaiting_ready_offer_def resetting_offer_def reset_complete_offer_def
  project_session_item_def when_event_def ready_state_def Let_def

lemma ready_state_phase [simp]: "sc_phase (ready_conn (ready_state c status changed)) = Fe_Ready"
  by (simp add: ready_state_def)

definition grammar_phase :: "frontend_state \<Rightarrow> BackendMessage \<Rightarrow> frontend_state option" where
  "grammar_phase s m = (if early_completion s m then Some s
     else case client_receive s m of Some s' \<Rightarrow> Some s' | None \<Rightarrow> if tolerant s then Some s else None)"

lemma offer_message:
  assumes "\<not> is_B_CommandComplete m" "\<not> is_B_ReadyForQuery m"
  shows "map_option sc_phase (session_offer c (Item_Message m)) = grammar_phase (sc_phase c) m"
  using assms
  by (cases m; cases "sc_phase c") (simp_all add: session_offer_def offer_defs grammar_phase_def early_completion_def tolerant_def)

lemma offer_complete:
  "map_option sc_phase (session_offer c (Item_CommandComplete tag k notices)) = grammar_phase (sc_phase c) (B_CommandComplete tag)"
  by (cases "sc_phase c") (simp_all add: session_offer_def offer_defs grammar_phase_def early_completion_def tolerant_def)

lemma offer_ready:
  "map_option sc_phase (session_offer c (Item_ReadyForQuery status changed)) = grammar_phase (sc_phase c) (B_ReadyForQuery status)"
  by (cases "sc_phase c"; cases status)
    (simp_all add: session_offer_def offer_defs grammar_phase_def early_completion_def tolerant_def)

section \<open>Session state and pools\<close>

text \<open>
  Whether the server may hold session state for the connection: after an operation that is not declared
  stateless, or when the server reports an open transaction or changed parameters, until \<open>DISCARD ALL\<close>
  completes.
\<close>

fun leaves_state :: "client_call \<Rightarrow> bool" where
  "leaves_state (Do_query _) = True" | "leaves_state (Do_function_call _) = True"
| "leaves_state (Do_parse _) = True" | "leaves_state (Do_bind _) = True" | "leaves_state Do_mark_dirty = True"
| "leaves_state _ = False"

fun state_after :: "bool \<Rightarrow> SessionItem \<Rightarrow> bool" where
  "state_after held (Item_CommandComplete tag _ _) = (held \<and> tag \<noteq> bstr ''DISCARD ALL'')"
| "state_after held (Item_ReadyForQuery status changed) = (held \<or> status \<noteq> Idle \<or> changed)"
| "state_after held (Item_Message _) = held"

text \<open>The runs of a session from authentication on.\<close>

inductive session_run :: "'s \<Rightarrow> bool \<Rightarrow> 's SessionConn \<Rightarrow> bool" for transport where
  start: "session_run transport False \<lparr>sc_transport = transport, sc_phase = Fe_Ready, sc_cleanliness = Pristine\<rparr>"
| call: "session_run transport held c \<Longrightarrow> session_call c call = Some (Inr (c', f)) \<Longrightarrow>
    session_run transport (held \<or> leaves_state call) c'"
| item: "session_run transport held c \<Longrightarrow> session_offer c item = Some c' \<Longrightarrow>
    session_run transport (state_after held item) c'"

inductive_cases session_runE: "session_run transport held c"

definition releasable :: "'s SessionConn \<Rightarrow> bool" where
  "releasable c = (sc_phase c = Fe_Ready \<and> sc_cleanliness c = Pristine)"

definition pool_inv :: "bool \<Rightarrow> 's SessionConn \<Rightarrow> bool" where
  "pool_inv held c = ((sc_cleanliness c = Pristine \<longrightarrow> \<not> held) \<and>
     (sc_phase c = Fe_ResetComplete \<longrightarrow> \<not> held) \<and>
     (sc_phase c = Fe_Resetting \<or> sc_phase c = Fe_ResetComplete \<longrightarrow> sc_cleanliness c = Dirty))"

lemma pool_inv_call:
  "pool_inv held c \<Longrightarrow> session_call c call = Some (Inr (c', f)) \<Longrightarrow> pool_inv (held \<or> leaves_state call) c'"
  by (cases call) (auto simp: push_defs pool_inv_def split: if_splits frontend_state.splits)

lemma pool_inv_item:
  assumes "pool_inv held c" "session_offer c item = Some c'"
  shows "pool_inv (state_after held item) c'"
proof (cases item)
  case (Item_Message m)
  with assms show ?thesis
    by (cases "sc_phase c"; cases m) (auto simp: session_offer_def offer_defs pool_inv_def)
next
  case (Item_ReadyForQuery status changed)
  with assms show ?thesis
    by (cases "sc_phase c"; cases status) (auto simp: session_offer_def offer_defs pool_inv_def split: if_splits)
next
  case (Item_CommandComplete tag k notices)
  with assms show ?thesis
    by (cases "sc_phase c") (auto simp: session_offer_def offer_defs pool_inv_def split: if_splits)
qed

lemma session_run_inv: "session_run transport held c \<Longrightarrow> pool_inv held c"
proof (induction rule: session_run.induct)
  case start
  then show ?case by (simp add: pool_inv_def)
next
  case (call held c call c' f)
  then show ?case by (metis pool_inv_call)
next
  case (item held c item c')
  then show ?case by (metis pool_inv_item)
qed

section \<open>Properties\<close>


text \<open>
  C16. The typed session follows the grammar on everything the demultiplexer delivers: an item moves the
  session to the phase the grammar gives for its message, with one exception, a completion before the one
  of \<open>DISCARD ALL\<close> during a reset, which the grammar takes for the end of the reset.  An item the grammar has
  no transition for is returned as illegal, except in the four phases that wait for \<open>ReadyForQuery\<close>, which
  let it pass.
\<close>

theorem session_offers_exact:
  assumes "fst (route d m) = Some item"
  shows "map_option sc_phase (session_offer c item) =
    (if early_completion (sc_phase c) m then Some (sc_phase c)
     else case client_receive (sc_phase c) m of
       Some s' \<Rightarrow> Some s'
     | None \<Rightarrow> if tolerant (sc_phase c) then Some (sc_phase c) else None)"
  using assms unfolding grammar_phase_def [symmetric]
  by (cases rule: route_item_cases) (simp_all add: offer_message offer_complete offer_ready)

theorem session_offers_exact_witness:
  "map_option sc_phase (session_offer \<lparr>sc_transport = (), sc_phase = Fe_Resetting, sc_cleanliness = Dirty\<rparr>
      (Item_CommandComplete (bstr ''ROLLBACK'') 0 [])) = Some Fe_Resetting \<and>
   client_receive Fe_Resetting (B_CommandComplete (bstr ''ROLLBACK'')) = Some Fe_ResetComplete"
  using session_offers_exact [of Demux_default "B_CommandComplete (bstr ''ROLLBACK'')" "Item_CommandComplete (bstr ''ROLLBACK'') 0 []"
      "\<lparr>sc_transport = (), sc_phase = Fe_Resetting, sc_cleanliness = Dirty\<rparr>"]
  by (simp add: Demux_default_def early_completion_def bstr_def)

text \<open>
  C17. Only a connection without session state can be released to a pool: in every run of a session, when
  \<open>release\<close> is available the server holds no state of an earlier operation, reported no open transaction and
  no changed parameter, or has completed \<open>DISCARD ALL\<close> since.
\<close>

theorem pool_release_clean:
  assumes "session_run transport held c" "releasable c"
  shows "\<not> held"
  using session_run_inv [OF assms(1)] assms(2) by (simp add: pool_inv_def releasable_def)

lemma reset_run:
  "\<exists>c. session_run () False c \<and> releasable c \<and> (\<exists>c1. session_run () True c1)"
proof -
  let ?c = "\<lambda>s cl. \<lparr>sc_transport = (), sc_phase = s, sc_cleanliness = cl\<rparr>"
  note run = session_run.start [of "()"]
  note run = session_run.call [OF run, of "Do_query (bstr ''SET x = 1'')" "?c Fe_Simple Dirty" "Some (frame 81 (bstr ''SET x = 1'' @ [0]))"]
  have run: "session_run () True (?c Fe_Simple Dirty)"
    using run by (simp add: push_query_def begin_reset_def enter_def cstr_frame_def bstr_def)
  note ready = session_run.item [OF run, of "Item_ReadyForQuery Idle False" "?c Fe_Ready Dirty"]
  have ready: "session_run () True (?c Fe_Ready Dirty)"
    using ready by (simp add: session_offer_def offer_defs keep_def)
  note reset = session_run.call [OF ready, of Do_reset "?c Fe_Resetting Dirty" "Some (frame 81 (bstr ''ROLLBACK; DISCARD ALL'' @ [0]))"]
  have reset: "session_run () True (?c Fe_Resetting Dirty)"
    using reset by (simp add: push_query_def begin_reset_def enter_def cstr_frame_def bstr_def)
  note discarded = session_run.item [OF reset, of "Item_CommandComplete (bstr ''DISCARD ALL'') 0 []" "?c Fe_ResetComplete Dirty"]
  have discarded: "session_run () False (?c Fe_ResetComplete Dirty)"
    using discarded by (simp add: session_offer_def offer_defs keep_def)
  note clean = session_run.item [OF discarded, of "Item_ReadyForQuery Idle False" "?c Fe_Ready Pristine"]
  have "session_run () False (?c Fe_Ready Pristine)"
    using clean by (simp add: session_offer_def offer_defs enter_def)
  with run show ?thesis by (intro exI [of _ "?c Fe_Ready Pristine"]) (auto simp: releasable_def)
qed

theorem pool_release_clean_witness:
  "\<exists>c. session_run () False c \<and> releasable c \<and> \<not> session_run () True c"
proof -
  from reset_run obtain c where "session_run () False c" "releasable c" by blast
  moreover from pool_release_clean [of "()" True c] this(2) have "\<not> session_run () True c" by blast
  ultimately show ?thesis by blast
qed

end
