(* ===== verification/Utf8.thy ===== *)
theory Utf8
  imports Prelude
begin

text \<open>Well-formed UTF-8, which the components that make a Rust \<open>str\<close> of bytes check.\<close>

text \<open>\<open>str::from_utf8\<close> succeeds on well-formed UTF-8: no overlong form, no surrogate, nothing above U+10FFFF.\<close>

definition continuation :: "u8 \<Rightarrow> bool" where
  "continuation b = (0x80 \<le> b \<and> b \<le> 0xBF)"

definition second_of_three :: "u8 \<Rightarrow> u8 \<Rightarrow> bool" where
  "second_of_three a b = (continuation b \<and> (a = 0xE0 \<longrightarrow> 0xA0 \<le> b) \<and> (a = 0xED \<longrightarrow> b \<le> 0x9F))"

definition second_of_four :: "u8 \<Rightarrow> u8 \<Rightarrow> bool" where
  "second_of_four a b = (continuation b \<and> (a = 0xF0 \<longrightarrow> 0x90 \<le> b) \<and> (a = 0xF4 \<longrightarrow> b \<le> 0x8F))"

text \<open>The length of the character that a leading byte starts, 0 for none.\<close>

definition utf8_width :: "u8 \<Rightarrow> nat" where
  "utf8_width a =
     (if a < 0x80 then 1 else if 0xC2 \<le> a \<and> a \<le> 0xDF then 2 else if 0xE0 \<le> a \<and> a \<le> 0xEF then 3
      else if 0xF0 \<le> a \<and> a \<le> 0xF4 then 4 else 0)"

fun utf8_char :: "bytes \<Rightarrow> bool" where
  "utf8_char [a] = (utf8_width a = 1)"
| "utf8_char [a, b] = (utf8_width a = 2 \<and> continuation b)"
| "utf8_char [a, b, c] = (utf8_width a = 3 \<and> second_of_three a b \<and> continuation c)"
| "utf8_char [a, b, c, d] = (utf8_width a = 4 \<and> second_of_four a b \<and> continuation c \<and> continuation d)"
| "utf8_char _ = False"

fun utf8 :: "bytes \<Rightarrow> bool" where
  "utf8 [] = True"
| "utf8 (a # xs) = (let n = utf8_width a in n \<noteq> 0 \<and> utf8_char (take n (a # xs)) \<and> utf8 (drop (n - 1) xs))"

end
