(* ===== verification/Scram.thy ===== *)
theory Scram
  imports Wire Utf8
begin

text \<open>
  \<open>src/scram.rs\<close>: the server side of SCRAM-SHA-256 and SCRAM-SHA-256-PLUS.  A Rust \<open>str\<close> is its UTF-8
  bytes.  The primitives of other crates (HMAC, SHA-256, base64, SASLprep) are the record \<open>primitives\<close>,
  an argument of the operations; the random numbers are arguments as well.
\<close>

section \<open>Results\<close>

text \<open>The operator \<open>?\<close> and \<open>Option::ok_or\<close>.\<close>

definition and_then :: "'e + 'a \<Rightarrow> ('a \<Rightarrow> 'e + 'b) \<Rightarrow> 'e + 'b" where
  "and_then r f = (case r of Inl e \<Rightarrow> Inl e | Inr x \<Rightarrow> f x)"

definition ok_or :: "'a option \<Rightarrow> 'e \<Rightarrow> 'e + 'a" where
  "ok_or r e = (case r of None \<Rightarrow> Inl e | Some x \<Rightarrow> Inr x)"

lemma and_then_Inr_iff [simp]: "(and_then r f = Inr y) = (\<exists>x. r = Inr x \<and> f x = Inr y)"
  by (cases r) (simp_all add: and_then_def)

lemma and_then_simps [simp]: "and_then (Inr x) f = f x" "and_then (Inl e) f = Inl e"
  by (simp_all add: and_then_def)

lemma ok_or_Inr_iff [simp]: "(ok_or r e = Inr x) = (r = Some x)"
  by (cases r) (simp_all add: ok_or_def)

section \<open>Strings\<close>

text \<open>\<open>str::from_utf8\<close> with its error as an \<open>io::Error\<close>.\<close>

definition from_utf8 :: "bytes \<Rightarrow> io_error + bytes" where
  "from_utf8 s = (if utf8 s then Inr s else Inl (invalid_input ''invalid utf-8 sequence''))"

text \<open>The byte \<open>b','\<close>.\<close>

abbreviation comma :: u8 where
  "comma \<equiv> 44"

text \<open>\<open>str::split(',')\<close>\<close>

fun split_commas :: "bytes \<Rightarrow> bytes list" where
  "split_commas [] = [[]]"
| "split_commas (x # xs) =
     (if x = comma then [] # split_commas xs
      else (case split_commas xs of [] \<Rightarrow> [[x]] | p # ps \<Rightarrow> (x # p) # ps))"

text \<open>\<open>str::rfind\<close>: the start of the last occurrence.\<close>

fun rfind :: "bytes \<Rightarrow> bytes \<Rightarrow> nat option" where
  "rfind pattern [] = (if pattern = [] then Some 0 else None)"
| "rfind pattern (x # xs) = (case rfind pattern xs of
     Some n \<Rightarrow> Some (Suc n)
   | None \<Rightarrow> if take (length pattern) (x # xs) = pattern then Some 0 else None)"

text \<open>\<open>{}\<close> of an unsigned integer.\<close>

fun decimal :: "nat \<Rightarrow> bytes" where
  "decimal n = (if n < 10 then [] else decimal (n div 10)) @ [word_of_nat (48 + n mod 10)]"

declare decimal.simps [simp del]

section \<open>Primitives\<close>

record primitives =
  hmac :: "bytes \<Rightarrow> bytes \<Rightarrow> bytes"
  sha256 :: "bytes \<Rightarrow> bytes"
  base64_encode :: "bytes \<Rightarrow> bytes"
  base64_decode :: "bytes \<Rightarrow> io_error + bytes"
  saslprep :: "bytes \<Rightarrow> bytes option"

text \<open>
  What their crates document: digests have 32 bytes, and the standard base64 alphabet is ASCII without a
  comma and decodes to what was encoded.
\<close>

definition primitives_ok :: "primitives \<Rightarrow> bool" where
  "primitives_ok cr = (
     (\<forall>key input. length (hmac cr key input) = 32) \<and>
     (\<forall>input. length (sha256 cr input) = 32) \<and>
     (\<forall>input. base64_decode cr (base64_encode cr input) = Inr input) \<and>
     (\<forall>input. list_all (\<lambda>b. b < 0x80 \<and> b \<noteq> comma) (base64_encode cr input)))"

section \<open>State\<close>

definition SCRAM_SHA_256 :: bytes where
  "SCRAM_SHA_256 = bstr ''SCRAM-SHA-256''"

definition SCRAM_SHA_256_PLUS :: bytes where
  "SCRAM_SHA_256_PLUS = bstr ''SCRAM-SHA-256-PLUS''"

definition DEFAULT_ITERATIONS :: u32 where
  "DEFAULT_ITERATIONS = 4096"

datatype ServerChannelBinding = NoBinding | TlsServerEndPoint bytes

record ScramServer =
  sv_password :: bytes
  sv_salt :: bytes
  sv_iterations :: u32
  sv_channel_binding :: ServerChannelBinding

record ScramExchange =
  ex_salted_password :: bytes
  ex_client_first_bare :: bytes
  ex_server_first :: bytes
  ex_combined_nonce :: bytes
  ex_expected_channel_binding :: bytes

section \<open>Parsing\<close>

definition split_gs2 :: "bytes \<Rightarrow> io_error + bytes \<times> bytes" where
  "split_gs2 message = (case position (\<lambda>b. b = comma) message of
     None \<Rightarrow> Inl (invalid_input ''malformed SCRAM GS2 header'')
   | Some first \<Rightarrow> (case position (\<lambda>b. b = comma) (drop (first + 1) message) of
       None \<Rightarrow> Inl (invalid_input ''malformed SCRAM GS2 header'')
     | Some p \<Rightarrow> let second = first + 1 + p in Inr (take (second + 1) message, drop (second + 1) message)))"

definition is_ascii_alphabetic :: "u8 \<Rightarrow> bool" where
  "is_ascii_alphabetic b = (byte CHR ''A'' \<le> b \<and> b \<le> byte CHR ''Z'' \<or> byte CHR ''a'' \<le> b \<and> b \<le> byte CHR ''z'')"

fun attributes_loop :: "(u8 \<times> bytes) list \<Rightarrow> bytes list \<Rightarrow> io_error + (u8 \<times> bytes) list" where
  "attributes_loop output [] = Inr output"
| "attributes_loop output (attribute # rest) =
     (if length attribute < 2 \<or> attribute ! 1 \<noteq> byte CHR ''='' \<or> \<not> is_ascii_alphabetic (attribute ! 0)
      then Inl (invalid_input ''malformed SCRAM attribute'')
      else if list_ex (\<lambda>(name, _). name = attribute ! 0) output
      then Inl (invalid_input ''duplicate SCRAM attribute'')
      else attributes_loop (output @ [(attribute ! 0, drop 2 attribute)]) rest)"

definition attributes :: "bytes \<Rightarrow> io_error + (u8 \<times> bytes) list" where
  "attributes message = attributes_loop [] (split_commas message)"

definition required :: "(u8 \<times> bytes) list \<Rightarrow> u8 \<Rightarrow> io_error + bytes" where
  "required attrs name = (case find (\<lambda>(candidate, _). candidate = name) attrs of
     None \<Rightarrow> Inl (invalid_input ''required SCRAM attribute is missing'')
   | Some (_, value) \<Rightarrow> Inr value)"

definition reject_mandatory_extension :: "(u8 \<times> bytes) list \<Rightarrow> io_error + unit" where
  "reject_mandatory_extension attrs =
     (if list_ex (\<lambda>(name, _). name = byte CHR ''m'') attrs
      then Inl (invalid_input ''unsupported mandatory SCRAM extension'') else Inr ())"

definition validate_nonce :: "bytes \<Rightarrow> io_error + unit" where
  "validate_nonce nonce =
     (if nonce \<noteq> [] \<and> list_all (\<lambda>b. 0x21 \<le> b \<and> b \<le> 0x2b \<or> 0x2d \<le> b \<and> b \<le> 0x7e) nonce
      then Inr () else Inl (invalid_input ''invalid SCRAM nonce''))"

text \<open>The 24 numbers that \<open>random_range(0x21..0x7f)\<close> returned.\<close>

definition random_nonce :: "bytes \<Rightarrow> bytes" where
  "random_nonce rng = map (\<lambda>b. if b = comma then byte CHR ''~'' else b) rng"

definition rng_ok :: "bytes \<Rightarrow> bool" where
  "rng_ok rng = (length rng = 24 \<and> list_all (\<lambda>b. 0x21 \<le> b \<and> b < 0x7f) rng)"

section \<open>Keys\<close>

definition normalize :: "primitives \<Rightarrow> bytes \<Rightarrow> bytes" where
  "normalize cr password =
     (if utf8 password then (case saslprep cr password of None \<Rightarrow> password | Some normalised \<Rightarrow> normalised)
      else password)"

fun hi_loop :: "primitives \<Rightarrow> bytes \<Rightarrow> nat \<Rightarrow> bytes \<Rightarrow> bytes \<Rightarrow> bytes" where
  "hi_loop cr password 0 previous output = output"
| "hi_loop cr password (Suc n) previous output =
     (let previous = hmac cr password previous in hi_loop cr password n previous (map2 xor output previous))"

definition hi :: "primitives \<Rightarrow> bytes \<Rightarrow> bytes \<Rightarrow> u32 \<Rightarrow> bytes" where
  "hi cr password salt iterations =
     (let previous = hmac cr password (salt @ [0, 0, 0, 1])
      in hi_loop cr password (unat iterations - 1) previous previous)"

section \<open>Operations\<close>

definition ScramServer_new :: "primitives \<Rightarrow> bytes \<Rightarrow> bytes \<Rightarrow> ServerChannelBinding \<Rightarrow> ScramServer" where
  "ScramServer_new cr random_salt password channel_binding =
     \<lparr>sv_password = normalize cr password, sv_salt = random_salt, sv_iterations = DEFAULT_ITERATIONS,
      sv_channel_binding = channel_binding\<rparr>"

definition with_parameters :: "primitives \<Rightarrow> bytes \<Rightarrow> bytes \<Rightarrow> u32 \<Rightarrow> ServerChannelBinding \<Rightarrow> io_error + ScramServer" where
  "with_parameters cr password salt iterations channel_binding =
     (if iterations < DEFAULT_ITERATIONS then Inl (invalid_input ''SCRAM iteration count is below 4096'')
      else Inr \<lparr>sv_password = normalize cr password, sv_salt = salt, sv_iterations = iterations,
                sv_channel_binding = channel_binding\<rparr>)"

definition expected_binding :: "ScramServer \<Rightarrow> bool \<Rightarrow> bytes \<Rightarrow> io_error + bytes" where
  "expected_binding sv is_plus gs2_header =
     (if is_plus then
        (case sv_channel_binding sv of
           TlsServerEndPoint binding \<Rightarrow>
             if gs2_header = bstr ''p=tls-server-end-point,,'' then Inr (gs2_header @ binding)
             else Inl (invalid_input ''SCRAM-PLUS channel binding is unavailable or invalid'')
         | NoBinding \<Rightarrow> Inl (invalid_input ''SCRAM-PLUS channel binding is unavailable or invalid''))
      else if sv_channel_binding sv \<noteq> NoBinding \<and> gs2_header = bstr ''y,,''
      then Inl (invalid_input ''SCRAM channel-binding downgrade detected'')
      else if gs2_header = bstr ''n,,'' \<or> gs2_header = bstr ''y,,'' then Inr gs2_header
      else Inl (invalid_input ''channel binding used with SCRAM-SHA-256''))"

definition mechanism_plus :: "bytes \<Rightarrow> io_error + bool" where
  "mechanism_plus mechanism =
     (if mechanism = SCRAM_SHA_256 then Inr False
      else if mechanism = SCRAM_SHA_256_PLUS then Inr True
      else Inl (invalid_input ''unsupported SCRAM mechanism''))"

definition server_first_message :: "primitives \<Rightarrow> ScramServer \<Rightarrow> bytes \<Rightarrow> bytes" where
  "server_first_message cr sv combined_nonce =
     bstr ''r='' @ combined_nonce @ bstr '',s='' @ base64_encode cr (sv_salt sv) @ bstr '',i='' @ decimal (unat (sv_iterations sv))"

definition start :: "primitives \<Rightarrow> ScramServer \<Rightarrow> bytes \<Rightarrow> bytes \<Rightarrow> bytes \<Rightarrow> io_error + ScramExchange \<times> bytes" where
  "start cr sv rng mechanism client_first =
     and_then (from_utf8 client_first) (\<lambda>client_first.
     and_then (split_gs2 client_first) (\<lambda>(gs2_header, client_first_bare).
     and_then (mechanism_plus mechanism) (\<lambda>is_plus.
     and_then (expected_binding sv is_plus gs2_header) (\<lambda>expected_channel_binding.
     and_then (attributes client_first_bare) (\<lambda>attrs.
     and_then (reject_mandatory_extension attrs) (\<lambda>_.
     and_then (required attrs (byte CHR ''r'')) (\<lambda>client_nonce.
     and_then (validate_nonce client_nonce) (\<lambda>_.
     and_then (required attrs (byte CHR ''n'')) (\<lambda>_.
       let combined_nonce = client_nonce @ random_nonce rng;
           server_first = server_first_message cr sv combined_nonce
       in Inr (\<lparr>ex_salted_password = hi cr (sv_password sv) (sv_salt sv) (sv_iterations sv),
                ex_client_first_bare = client_first_bare,
                ex_server_first = server_first,
                ex_combined_nonce = combined_nonce,
                ex_expected_channel_binding = expected_channel_binding\<rparr>, server_first))))))))))"

definition verify :: "primitives \<Rightarrow> ScramExchange \<Rightarrow> bytes \<Rightarrow> bytes \<Rightarrow> io_error + bytes" where
  "verify cr ex without_proof proof_bytes =
     (let auth_message = ex_client_first_bare ex @ [comma] @ ex_server_first ex @ [comma] @ without_proof;
          client_key = hmac cr (ex_salted_password ex) (bstr ''Client Key'');
          stored_key = sha256 cr client_key;
          client_signature = hmac cr stored_key auth_message;
          recovered_key = map2 xor proof_bytes client_signature;
          recovered_stored_key = sha256 cr recovered_key
      in if recovered_stored_key \<noteq> stored_key then Inl (invalid_input ''invalid SCRAM client proof'')
         else
           let server_key = hmac cr (ex_salted_password ex) (bstr ''Server Key'');
               server_signature = hmac cr server_key auth_message
           in Inr (bstr ''v='' @ base64_encode cr server_signature))"

definition finish_exchange :: "primitives \<Rightarrow> ScramExchange \<Rightarrow> bytes \<Rightarrow> io_error + bytes" where
  "finish_exchange cr ex client_final =
     and_then (from_utf8 client_final) (\<lambda>client_final.
     and_then (ok_or (rfind (bstr '',p='') client_final) (invalid_input ''SCRAM client-final has no proof'')) (\<lambda>proof_marker.
     and_then (attributes client_final) (\<lambda>attrs.
     and_then (reject_mandatory_extension attrs) (\<lambda>_.
     and_then (required attrs (byte CHR ''r'')) (\<lambda>nonce.
     if nonce \<noteq> ex_combined_nonce ex then Inl (invalid_input ''SCRAM nonce mismatch'') else
     and_then (required attrs (byte CHR ''c'')) (\<lambda>encoded_binding.
     and_then (base64_decode cr encoded_binding) (\<lambda>channel_binding.
     if channel_binding \<noteq> ex_expected_channel_binding ex
     then Inl (invalid_input ''SCRAM channel binding mismatch'') else
     and_then (required attrs (byte CHR ''p'')) (\<lambda>encoded_proof.
     if proof_marker + 3 + length encoded_proof \<noteq> length client_final
     then Inl (invalid_input ''SCRAM proof is not the final attribute'') else
     and_then (base64_decode cr encoded_proof) (\<lambda>proof_bytes.
     if length proof_bytes \<noteq> 32 then Inl (invalid_input ''SCRAM proof is not 32 bytes'')
     else verify cr ex (take proof_marker client_final) proof_bytes)))))))))"

end
