(* ===== verification/Scram_Laws.thy ===== *)
theory Scram_Laws
  imports Scram
begin

text \<open>
  What the SCRAM exchange guarantees: a client that follows RFC 5802 with the same password is accepted and
  gets the signature it expects; a message is accepted only with a proof over the nonces and the channel
  binding of this exchange; no message is accepted by two exchanges; no downgrade from channel binding.
\<close>

section \<open>The client of RFC 5802\<close>

definition rfc_first_bare :: "bytes \<Rightarrow> bytes \<Rightarrow> bytes" where
  "rfc_first_bare user nonce = bstr ''n='' @ user @ [comma] @ bstr ''r='' @ nonce"

definition rfc_final_bare :: "primitives \<Rightarrow> bytes \<Rightarrow> bytes \<Rightarrow> bytes \<Rightarrow> bytes" where
  "rfc_final_bare cr header binding nonce =
     bstr ''c='' @ base64_encode cr (header @ binding) @ [comma] @ bstr ''r='' @ nonce"

definition rfc_auth_message :: "bytes \<Rightarrow> bytes \<Rightarrow> bytes \<Rightarrow> bytes" where
  "rfc_auth_message first_bare server_first final_bare = first_bare @ [comma] @ server_first @ [comma] @ final_bare"

definition rfc_proof :: "primitives \<Rightarrow> bytes \<Rightarrow> bytes \<Rightarrow> bytes" where
  "rfc_proof cr salted_password auth_message =
     (let client_key = hmac cr salted_password (bstr ''Client Key'')
      in map2 xor client_key (hmac cr (sha256 cr client_key) auth_message))"

definition rfc_server_signature :: "primitives \<Rightarrow> bytes \<Rightarrow> bytes \<Rightarrow> bytes" where
  "rfc_server_signature cr salted_password auth_message =
     hmac cr (hmac cr salted_password (bstr ''Server Key'')) auth_message"

text \<open>The mechanism, header and binding data a client may choose for the server's channel binding.\<close>

definition rfc_choice :: "ServerChannelBinding \<Rightarrow> bytes \<Rightarrow> bytes \<Rightarrow> bytes \<Rightarrow> bool" where
  "rfc_choice server mechanism header binding =
     (if mechanism = SCRAM_SHA_256_PLUS
      then server = TlsServerEndPoint binding \<and> header = bstr ''p=tls-server-end-point,,''
      else mechanism = SCRAM_SHA_256 \<and> binding = [] \<and>
        (header = bstr ''n,,'' \<or> header = bstr ''y,,'' \<and> server = NoBinding))"

text \<open>An encoding with two letters for a byte, for a concrete exchange.\<close>

definition letter :: "nat \<Rightarrow> u8" where
  "letter n = word_of_nat (65 + n)"

fun letters :: "bytes \<Rightarrow> bytes" where
  "letters [] = []"
| "letters (x # xs) = letter (unat x div 16) # letter (unat x mod 16) # letters xs"

fun unletters :: "bytes \<Rightarrow> bytes" where
  "unletters (a # b # xs) = word_of_nat ((unat a - 65) * 16 + (unat b - 65)) # unletters xs"
| "unletters _ = []"

section \<open>Strings\<close>

lemma bstr_simps [simp]: "bstr [] = []" "bstr (c # cs) = byte c # bstr cs"
  by (simp_all add: bstr_def)

lemma utf8_char_length: "utf8_char s \<Longrightarrow> length s = utf8_width (hd s)"
  by (induction s rule: utf8_char.induct) auto

lemma utf8_append [simp]: "utf8 xs \<Longrightarrow> utf8 ys \<Longrightarrow> utf8 (xs @ ys)"
proof (induction xs rule: utf8.induct)
  case (2 a xs)
  let ?n = "utf8_width a"
  from 2 have first: "?n \<noteq> 0" "utf8_char (take ?n (a # xs))" "utf8 (drop (?n - 1) xs)" by (simp_all add: Let_def)
  with utf8_char_length [of "take ?n (a # xs)"] have "?n \<le> length (a # xs)" by (cases ?n) auto
  then have "take ?n (a # xs @ ys) = take ?n (a # xs)" "drop (?n - 1) (xs @ ys) = drop (?n - 1) xs @ ys"
    by (cases ?n; simp)+
  with 2 first show ?case by (simp add: Let_def)
qed simp

lemma utf8_ascii: "list_all (\<lambda>b. b < 0x80) xs \<Longrightarrow> utf8 xs"
  by (induction xs) (auto simp: utf8_width_def)

lemma split_commas_plain: "comma \<notin> set xs \<Longrightarrow> split_commas xs = [xs]"
  by (induction xs) auto

lemma split_commas_nonempty: "split_commas xs \<noteq> []"
  by (cases xs) (auto split: list.split)

lemma split_commas_append: "split_commas (xs @ comma # ys) = split_commas xs @ split_commas ys"
proof (induction xs)
  case (Cons x xs)
  with split_commas_nonempty [of xs] show ?case by (auto split: list.splits)
qed simp

lemma hd_split_commas: "hd (split_commas xs) = takeWhile (\<lambda>b. b \<noteq> comma) xs"
  using split_commas_nonempty by (induction xs) (auto split: list.splits)

declare split_commas.simps [simp del]

lemma part_in_split:
  assumes "comma \<notin> set p"
  shows "p @ takeWhile (\<lambda>b. b \<noteq> comma) s \<in> set (split_commas (a @ comma # p @ s))"
proof -
  have "hd (split_commas (p @ s)) \<in> set (split_commas (a @ comma # p @ s))"
    by (simp add: split_commas_append split_commas_nonempty)
  moreover from assms have "takeWhile (\<lambda>b. b \<noteq> comma) (p @ s) = p @ takeWhile (\<lambda>b. b \<noteq> comma) s"
    by (intro takeWhile_append2) auto
  ultimately show ?thesis by (simp add: hd_split_commas)
qed

lemma rfind_None: "comma \<notin> set xs \<Longrightarrow> rfind (comma # p) xs = None"
  by (induction xs) auto

lemma rfind_append: "rfind p ys = Some n \<Longrightarrow> rfind p (xs @ ys) = Some (length xs + n)"
  by (induction xs) auto

lemma rfind_last: "comma \<notin> set p \<Longrightarrow> comma \<notin> set xs \<Longrightarrow> rfind (comma # p) (ys @ comma # p @ xs) = Some (length ys)"
  using rfind_append [of "comma # p" "comma # p @ xs" 0 ys] rfind_None [of "p @ xs" p] by simp

lemma rfind_Some: "rfind p xs = Some n \<Longrightarrow> take (length p) (drop n xs) = p \<and> n \<le> length xs"
  by (induction xs arbitrary: n) (auto split: option.splits if_splits)

lemma rfind_split:
  assumes "rfind p xs = Some n"
  obtains front suffix where "xs = front @ p @ suffix" "n = length front"
proof -
  from rfind_Some [OF assms] have p: "take (length p) (drop n xs) = p" and n: "n \<le> length xs" by simp_all
  have "drop n xs = p @ drop (length p) (drop n xs)" by (metis p append_take_drop_id)
  then have "xs = take n xs @ p @ drop (length p) (drop n xs)" by (metis append_take_drop_id)
  with n show thesis by (intro that [of "take n xs"]) simp_all
qed

section \<open>Attributes\<close>

definition attribute_of :: "bytes \<Rightarrow> u8 \<times> bytes" where
  "attribute_of part = (part ! 0, drop 2 part)"

definition attribute_wf :: "bytes \<Rightarrow> bool" where
  "attribute_wf part = (2 \<le> length part \<and> part ! 1 = byte CHR ''='' \<and> is_ascii_alphabetic (part ! 0))"

lemma attributes_loop_iff:
  "distinct (map fst out) \<Longrightarrow>
    (attributes_loop out parts = Inr attrs) =
    (attrs = out @ map attribute_of parts \<and> list_all attribute_wf parts \<and> distinct (map fst attrs))"
proof (induction parts arbitrary: out)
  case (Cons part parts)
  have fresh: "list_ex (\<lambda>(name, _). name = part ! 0) out = (part ! 0 \<in> fst ` set out)"
    by (force simp: list_ex_iff)
  show ?case
  proof (cases "attribute_wf part \<and> part ! 0 \<notin> fst ` set out")
    case True
    with Cons.prems have "distinct (map fst (out @ [attribute_of part]))" by (auto simp: attribute_of_def)
    from Cons.IH [OF this] True fresh show ?thesis
      by (auto simp: attribute_wf_def attribute_of_def)
  next
    case False
    then show ?thesis by (auto simp: fresh attribute_wf_def attribute_of_def)
  qed
qed auto

lemma attributes_iff:
  "(attributes message = Inr attrs) =
    (attrs = map attribute_of (split_commas message) \<and> list_all attribute_wf (split_commas message) \<and> distinct (map fst attrs))"
  by (simp add: attributes_def attributes_loop_iff)

lemma required_iff: "distinct (map fst attrs) \<Longrightarrow> (required attrs name = Inr v) = ((name, v) \<in> set attrs)"
  unfolding required_def
  by (induction attrs) (auto split: option.splits simp: image_iff)

lemma reject_extension_iff:
  "(reject_mandatory_extension attrs = Inr u) = (byte CHR ''m'' \<notin> fst ` set attrs)"
  by (force simp: reject_mandatory_extension_def list_ex_iff)

section \<open>Acceptance\<close>

text \<open>The attribute at the marker is the only \<open>p\<close>, so its length tells that it is the last one.\<close>

lemma proof_is_last:
  assumes "rfind (bstr '',p='') m = Some n" "attributes m = Inr attrs" "required attrs (byte CHR ''p'') = Inr enc"
    and "n + 3 + length enc = length m"
  obtains front where "m = front @ bstr '',p='' @ enc" "n = length front" "comma \<notin> set enc"
proof -
  from rfind_split [OF assms(1)] obtain front suffix
    where m: "m = front @ bstr '',p='' @ suffix" and n: "n = length front" .
  with assms(4) have len: "length enc = length suffix" by simp
  from assms(2) have attrs: "attrs = map attribute_of (split_commas m)" and dist: "distinct (map fst attrs)"
    unfolding attributes_iff by blast+
  let ?content = "takeWhile (\<lambda>b. b \<noteq> comma) suffix"
  have "bstr ''p='' @ ?content \<in> set (split_commas m)"
    using part_in_split [of "bstr ''p=''" suffix front] by (simp add: m)
  then have "attribute_of (bstr ''p='' @ ?content) \<in> set attrs" unfolding attrs by simp
  then have "(byte CHR ''p'', ?content) \<in> set attrs" by (simp add: attribute_of_def)
  with assms(3) have enc: "enc = ?content"
    using eq_key_imp_eq_value [OF dist] required_iff [OF dist] by blast
  with len have "enc = suffix" by (metis takeWhile_eq_take take_all order_refl)
  moreover from enc have "comma \<notin> set enc" by (auto dest: set_takeWhileD)
  ultimately show thesis using m n by (intro that [of front]) simp_all
qed

text \<open>The attributes of a message and what the server reads from them.\<close>

definition carries :: "bytes \<Rightarrow> u8 \<Rightarrow> bytes \<Rightarrow> bool" where
  "carries m name v = (\<exists>attrs. attributes m = Inr attrs \<and> (name, v) \<in> set attrs)"

lemma carries_required:
  "attributes m = Inr attrs \<Longrightarrow> (required attrs name = Inr v) = carries m name v"
  using required_iff by (auto simp: carries_def attributes_iff)

lemma carries_unique: "carries m name v \<Longrightarrow> carries m name w \<Longrightarrow> v = w"
  unfolding carries_def attributes_iff by (metis eq_key_imp_eq_value)

lemma finish_accepts:
  assumes "finish_exchange cr ex m = Inr out"
  obtains front enc proof_bytes binding where "m = front @ bstr '',p='' @ enc" "comma \<notin> set enc"
    "carries m (byte CHR ''r'') (ex_combined_nonce ex)" "carries m (byte CHR ''c'') binding"
    "base64_decode cr binding = Inr (ex_expected_channel_binding ex)"
    "base64_decode cr enc = Inr proof_bytes" "length proof_bytes = 32" "verify cr ex front proof_bytes = Inr out"
proof -
  from assms obtain n attrs binding enc proof_bytes where
    n: "rfind (bstr '',p='') m = Some n" and attrs: "attributes m = Inr attrs"
    and r: "required attrs (byte CHR ''r'') = Inr (ex_combined_nonce ex)"
    and c: "required attrs (byte CHR ''c'') = Inr binding"
    and bound: "base64_decode cr binding = Inr (ex_expected_channel_binding ex)"
    and p: "required attrs (byte CHR ''p'') = Inr enc" and len: "n + 3 + length enc = length m"
    and dec: "base64_decode cr enc = Inr proof_bytes" "length proof_bytes = 32"
    and ver: "verify cr ex (take n m) proof_bytes = Inr out"
    by (auto simp: finish_exchange_def from_utf8_def simp del: bstr_simps split: if_splits)
  from proof_is_last [OF n attrs p len] obtain front where
    "m = front @ bstr '',p='' @ enc" "n = length front" "comma \<notin> set enc" .
  with ver r c bound dec attrs show thesis
    by (intro that [of front enc binding proof_bytes]) (simp_all add: carries_required [symmetric])
qed

lemma verify_iff:
  "(verify cr ex front proof_bytes = Inr out) =
    (let auth = rfc_auth_message (ex_client_first_bare ex) (ex_server_first ex) front;
         stored = sha256 cr (hmac cr (ex_salted_password ex) (bstr ''Client Key''))
     in sha256 cr (map2 xor proof_bytes (hmac cr stored auth)) = stored \<and>
        out = bstr ''v='' @ base64_encode cr (rfc_server_signature cr (ex_salted_password ex) auth))"
  by (auto simp: verify_def Let_def rfc_auth_message_def rfc_server_signature_def)

section \<open>Evaluating the honest client\<close>

lemma split_gs2_header:
  assumes "comma \<notin> set a"
  shows "split_gs2 (a @ comma # comma # rest) = Inr (a @ [comma, comma], rest)"
proof -
  have "position (\<lambda>b. b = comma) (a @ comma # comma # rest) = Some (length a)"
    using assms by (intro position_append) auto
  then show ?thesis by (simp add: split_gs2_def Let_def)
qed

lemma valid_nonce:
  assumes "validate_nonce nonce = Inr u"
  shows "comma \<notin> set nonce" "list_all (\<lambda>b. b < 0x80) nonce"
proof -
  from assms have range: "list_all (\<lambda>b. 0x21 \<le> b \<and> b \<le> 0x2b \<or> 0x2d \<le> b \<and> b \<le> 0x7e) nonce"
    by (simp add: validate_nonce_def split: if_splits)
  then show "comma \<notin> set nonce" by (force simp: list_all_iff)
  from range show "list_all (\<lambda>b. b < 0x80) nonce"
    by (rule list.pred_mono_strong) (auto elim: order.strict_trans1)
qed

lemma random_nonce_plain:
  assumes "rng_ok rng"
  shows "comma \<notin> set (random_nonce rng)" "list_all (\<lambda>b. b < 0x80) (random_nonce rng)" "length (random_nonce rng) = 24"
proof -
  from assms have range: "list_all (\<lambda>b. 0x21 \<le> b \<and> b < 0x7f) rng" "length rng = 24" by (simp_all add: rng_ok_def)
  then show "length (random_nonce rng) = 24" by (simp add: random_nonce_def)
  show "comma \<notin> set (random_nonce rng)" by (auto simp: random_nonce_def)
  from range(1) show "list_all (\<lambda>b. b < 0x80) (random_nonce rng)"
    unfolding random_nonce_def list.pred_map by (rule list.pred_mono_strong) (auto elim: order.strict_trans)
qed

lemma xor_cancel: "length a = length b \<Longrightarrow> map2 xor (map2 xor a b) b = a"
  by (induction a b rule: list_induct2) (simp_all add: xor.assoc)

lemma first_attributes:
  assumes "comma \<notin> set user" "comma \<notin> set nonce"
  shows "attributes (rfc_first_bare user nonce) = Inr [(byte CHR ''n'', user), (byte CHR ''r'', nonce)]"
proof -
  have "split_commas (rfc_first_bare user nonce) = [bstr ''n='' @ user, bstr ''r='' @ nonce]"
    using split_commas_append [of "bstr ''n='' @ user" "bstr ''r='' @ nonce"] assms
    by (simp add: rfc_first_bare_def split_commas_plain)
  then show ?thesis
    by (simp add: attributes_iff attribute_of_def attribute_wf_def is_ascii_alphabetic_def)
qed

lemma final_attributes:
  assumes "comma \<notin> set binding" "comma \<notin> set nonce" "comma \<notin> set enc"
  shows "attributes (bstr ''c='' @ binding @ [comma] @ bstr ''r='' @ nonce @ bstr '',p='' @ enc) =
    Inr [(byte CHR ''c'', binding), (byte CHR ''r'', nonce), (byte CHR ''p'', enc)]"
proof -
  have "split_commas (bstr ''c='' @ binding @ [comma] @ bstr ''r='' @ nonce @ bstr '',p='' @ enc) =
      [bstr ''c='' @ binding, bstr ''r='' @ nonce, bstr ''p='' @ enc]"
    using split_commas_append [of "bstr ''c='' @ binding" "bstr ''r='' @ nonce @ bstr '',p='' @ enc"]
      split_commas_append [of "bstr ''r='' @ nonce" "bstr ''p='' @ enc"] assms
    by (simp add: split_commas_plain)
  then show ?thesis
    by (simp add: attributes_iff attribute_of_def attribute_wf_def is_ascii_alphabetic_def)
qed

lemma choice_accepted:
  assumes "rfc_choice (sv_channel_binding sv) mechanism header binding"
  obtains is_plus where "mechanism_plus mechanism = Inr is_plus"
    "expected_binding sv is_plus header = Inr (header @ binding)"
    "split_gs2 (header @ rest) = Inr (header, rest)" "list_all (\<lambda>b. b < 0x80) header"
proof (cases "mechanism = SCRAM_SHA_256_PLUS")
  case True
  with assms have choice: "sv_channel_binding sv = TlsServerEndPoint binding" "header = bstr ''p=tls-server-end-point,,''"
    by (simp_all add: rfc_choice_def)
  from split_gs2_header [of "bstr ''p=tls-server-end-point''" rest] choice True show thesis
    by (intro that [of True])
      (simp_all add: mechanism_plus_def expected_binding_def SCRAM_SHA_256_def SCRAM_SHA_256_PLUS_def)
next
  case False
  with assms have choice: "mechanism = SCRAM_SHA_256" "binding = []"
    "header = bstr ''n,,'' \<or> header = bstr ''y,,'' \<and> sv_channel_binding sv = NoBinding"
    by (simp_all add: rfc_choice_def)
  from choice(3) split_gs2_header [of "bstr ''n''" rest] split_gs2_header [of "bstr ''y''" rest] choice(1,2) show thesis
    by (intro that [of False]) (auto simp: mechanism_plus_def expected_binding_def)
qed

lemma length_bstr [simp]: "length (bstr s) = length s"
  by (simp add: bstr_def)

lemma honest_finish:
  assumes ok: "primitives_ok cr" and nonce: "comma \<notin> set (ex_combined_nonce ex)" "list_all (\<lambda>b. b < 0x80) (ex_combined_nonce ex)"
    and "ex_expected_channel_binding ex = header @ binding"
    and final_bare: "final_bare = rfc_final_bare cr header binding (ex_combined_nonce ex)"
    and auth: "auth = rfc_auth_message (ex_client_first_bare ex) (ex_server_first ex) final_bare"
  shows "finish_exchange cr ex (final_bare @ bstr '',p='' @ base64_encode cr (rfc_proof cr (ex_salted_password ex) auth)) =
    Inr (bstr ''v='' @ base64_encode cr (rfc_server_signature cr (ex_salted_password ex) auth))"
proof -
  let ?proof = "rfc_proof cr (ex_salted_password ex) auth"
  let ?final = "final_bare @ bstr '',p='' @ base64_encode cr ?proof"
  from ok have b64: "comma \<notin> set (base64_encode cr x)" "list_all (\<lambda>b. b < 0x80) (base64_encode cr x)"
    "base64_decode cr (base64_encode cr x) = Inr x" for x
    by (auto simp: primitives_ok_def list_all_iff)
  have attrs: "attributes ?final = Inr [(byte CHR ''c'', base64_encode cr (header @ binding)),
      (byte CHR ''r'', ex_combined_nonce ex), (byte CHR ''p'', base64_encode cr ?proof)]"
    using final_attributes [OF b64(1) nonce(1) b64(1)] by (simp add: final_bare rfc_final_bare_def)
  have utf: "utf8 ?final"
    using nonce(2) b64(2) by (intro utf8_ascii) (simp add: final_bare rfc_final_bare_def)
  have marker: "rfind (bstr '',p='') ?final = Some (length final_bare)"
    using rfind_last [of "bstr ''p=''" "base64_encode cr ?proof" final_bare] b64(1) by simp
  have len: "length ?proof = 32" using ok by (simp add: rfc_proof_def Let_def primitives_ok_def)
  have "verify cr ex final_bare ?proof = Inr (bstr ''v='' @ base64_encode cr (rfc_server_signature cr (ex_salted_password ex) auth))"
    using ok auth by (simp add: verify_iff rfc_proof_def Let_def xor_cancel primitives_ok_def)
  with attrs utf marker len b64(3) assms(4) show ?thesis
    by (simp add: finish_exchange_def from_utf8_def reject_mandatory_extension_def required_def ok_or_def del: bstr_simps)
qed

lemma start_accepts:
  assumes "start cr sv rng mechanism client_first = Inr (ex, out)"
  obtains header bare is_plus client_nonce where "mechanism_plus mechanism = Inr is_plus"
    "split_gs2 client_first = Inr (header, bare)"
    "expected_binding sv is_plus header = Inr (ex_expected_channel_binding ex)"
    "ex_combined_nonce ex = client_nonce @ random_nonce rng" "ex_client_first_bare ex = bare"
  using assms by (auto simp: start_def from_utf8_def Let_def split: if_splits)

definition rfc_exchange :: "primitives \<Rightarrow> ScramServer \<Rightarrow> bytes \<Rightarrow> bytes \<Rightarrow> bytes \<Rightarrow> bytes \<Rightarrow> ScramExchange" where
  "rfc_exchange cr sv rng user client_nonce expected =
     (let nonce = client_nonce @ random_nonce rng in
      \<lparr>ex_salted_password = hi cr (sv_password sv) (sv_salt sv) (sv_iterations sv),
       ex_client_first_bare = rfc_first_bare user client_nonce, ex_server_first = server_first_message cr sv nonce,
       ex_combined_nonce = nonce, ex_expected_channel_binding = expected\<rparr>)"

lemma honest_start:
  assumes "rfc_choice (sv_channel_binding sv) mechanism header binding"
    and "utf8 user" "comma \<notin> set user" "validate_nonce client_nonce = Inr ()"
  shows "start cr sv rng mechanism (header @ rfc_first_bare user client_nonce) =
    Inr (rfc_exchange cr sv rng user client_nonce (header @ binding), server_first_message cr sv (client_nonce @ random_nonce rng))"
proof -
  obtain is_plus where choice: "mechanism_plus mechanism = Inr is_plus"
    "expected_binding sv is_plus header = Inr (header @ binding)"
    "split_gs2 (header @ rfc_first_bare user client_nonce) = Inr (header, rfc_first_bare user client_nonce)"
    "list_all (\<lambda>b. b < 0x80) header"
    using choice_accepted [OF assms(1)] by blast
  have "utf8 (header @ rfc_first_bare user client_nonce)"
    using choice(4) valid_nonce(2) [OF assms(4)] assms(2)
    by (simp add: rfc_first_bare_def utf8_ascii utf8_width_def)
  then show ?thesis
    using choice(1,2,3) assms(4) first_attributes [OF assms(3) valid_nonce(1) [OF assms(4)]]
    by (simp add: start_def from_utf8_def reject_mandatory_extension_def required_def rfc_exchange_def Let_def)
qed

lemma rfc_exchange_nonce:
  assumes "rng_ok rng" "validate_nonce client_nonce = Inr ()"
  shows "comma \<notin> set (ex_combined_nonce (rfc_exchange cr sv rng user client_nonce expected))"
    "list_all (\<lambda>b. b < 0x80) (ex_combined_nonce (rfc_exchange cr sv rng user client_nonce expected))"
  using valid_nonce [OF assms(2)] random_nonce_plain [OF assms(1)] by (simp_all add: rfc_exchange_def Let_def)

section \<open>A sample exchange\<close>

text \<open>Primitives with the documented laws: sums for digests, two letters for a byte.\<close>

definition sample_primitives :: primitives where
  "sample_primitives =
     \<lparr>hmac = (\<lambda>key input. replicate 32 (sum_list key + 3 * sum_list input)),
      sha256 = (\<lambda>input. replicate 32 (5 * sum_list input + 1)),
      base64_encode = letters, base64_decode = (\<lambda>s. Inr (unletters s)), saslprep = Some\<rparr>"

definition sample_server :: ScramServer where
  "sample_server = ScramServer_new sample_primitives [7] (bstr ''secret'') (TlsServerEndPoint [1, 2])"

definition sample_exchange :: ScramExchange where
  "sample_exchange = rfc_exchange sample_primitives sample_server (replicate 24 65) (bstr ''u'') (bstr ''abc'')
     (bstr ''p=tls-server-end-point,,'' @ [1, 2])"

lemma letters_laws:
  "unletters (letters xs) = xs" "list_all (\<lambda>b. b < 0x80 \<and> b \<noteq> comma) (letters xs)"
proof -
  have letter: "unat (letter n) = 65 + n" if "n < 16" for n
    using that unfolding letter_def by (subst unat_of_nat) (simp del: of_nat_add)
  show "unletters (letters xs) = xs"
  proof (induction xs)
    case (Cons x xs)
    have "unat x < 256" using unat_lt [of x] by simp
    then have "unat x div 16 < 16" "unat x mod 16 < 16" by simp_all
    with Cons letter show ?case by simp
  qed simp
  have "letter n < 0x80 \<and> letter n \<noteq> comma" if "n < 16" for n
    using letter [OF that] that by (auto simp: word_less_nat_alt)
  moreover have "unat x div 16 < 16" "unat x mod 16 < 16" for x :: u8
    using unat_lt [of x] by simp_all
  ultimately show "list_all (\<lambda>b. b < 0x80 \<and> b \<noteq> comma) (letters xs)" by (induction xs) auto
qed

lemma sample_ok: "primitives_ok sample_primitives"
  using letters_laws by (simp add: primitives_ok_def sample_primitives_def)

lemma sample_rng:
  "rng_ok (replicate 24 65)" "rng_ok (replicate 24 66)" "random_nonce (replicate 24 65) \<noteq> random_nonce (replicate 24 66)"
  by (simp_all add: rng_ok_def random_nonce_def list_all_iff)

lemma sample_nonce: "random_nonce (replicate 24 65) = replicate 24 65"
  by (simp add: random_nonce_def)

lemma sample_choice: "rfc_choice (sv_channel_binding sample_server) SCRAM_SHA_256_PLUS (bstr ''p=tls-server-end-point,,'') [1, 2]"
  by (simp add: rfc_choice_def sample_server_def ScramServer_new_def del: bstr_simps)

lemma sample_client: "utf8 (bstr ''u'')" "comma \<notin> set (bstr ''u'')" "validate_nonce (bstr ''abc'') = Inr ()"
  by (simp_all add: utf8_width_def validate_nonce_def)

lemma sample_finish: "\<exists>m out. finish_exchange sample_primitives sample_exchange m = Inr out"
  using honest_finish [OF sample_ok rfc_exchange_nonce [OF sample_rng(1) sample_client(3)]]
  by (fastforce simp: sample_exchange_def rfc_exchange_def Let_def simp del: bstr_simps)

section \<open>Properties\<close>



text \<open>
  C19. Only a proof over this exchange is accepted: a client-final message that \<open>finish\<close> accepts ends in the
  proof, carries the combined nonce and the channel binding this exchange expects, and its proof, combined
  with the signature of the whole exchange under the stored key, hashes to the stored key; the answer is
  the server signature over the same exchange.
\<close>

theorem scram_sound:
  assumes "finish_exchange cr ex m = Inr out"
    and "stored = sha256 cr (hmac cr (ex_salted_password ex) (bstr ''Client Key''))"
  shows "\<exists>front enc proof_bytes binding. m = front @ bstr '',p='' @ enc \<and>
    carries m (byte CHR ''r'') (ex_combined_nonce ex) \<and>
    carries m (byte CHR ''c'') binding \<and> base64_decode cr binding = Inr (ex_expected_channel_binding ex) \<and>
    base64_decode cr enc = Inr proof_bytes \<and> length proof_bytes = 32 \<and>
    (let auth = rfc_auth_message (ex_client_first_bare ex) (ex_server_first ex) front in
     sha256 cr (map2 xor proof_bytes (hmac cr stored auth)) = stored \<and>
     out = bstr ''v='' @ base64_encode cr (rfc_server_signature cr (ex_salted_password ex) auth))"
proof -
  from finish_accepts [OF assms(1)] obtain front enc proof_bytes binding where
    "m = front @ bstr '',p='' @ enc" "comma \<notin> set enc"
    "carries m (byte CHR ''r'') (ex_combined_nonce ex)" "carries m (byte CHR ''c'') binding"
    "base64_decode cr binding = Inr (ex_expected_channel_binding ex)"
    "base64_decode cr enc = Inr proof_bytes" "length proof_bytes = 32" "verify cr ex front proof_bytes = Inr out" .
  then show ?thesis unfolding verify_iff assms(2) [symmetric] by (metis (no_types))
qed

theorem scram_sound_witness:
  "\<exists>m out. finish_exchange sample_primitives sample_exchange m = Inr out \<and>
    carries m (byte CHR ''r'') (bstr ''abc'' @ replicate 24 65)"
proof -
  from sample_finish obtain m out where "finish_exchange sample_primitives sample_exchange m = Inr out" by blast
  with scram_sound [OF this refl] show ?thesis
    by (auto simp: sample_exchange_def rfc_exchange_def sample_nonce Let_def simp del: bstr_simps)
qed

text \<open>
  C20. No replay: a client-final message that one exchange accepted is refused by every exchange whose server
  nonce differs, whatever the servers, passwords and client messages of the two exchanges are.
\<close>

theorem scram_no_replay:
  assumes "start cr sv rng mechanism client_first = Inr (ex, out)" "finish_exchange cr ex m = Inr answer"
    and "start cr' sv' rng' mechanism' client_first' = Inr (ex', out')"
    and "rng_ok rng" "rng_ok rng'" "random_nonce rng \<noteq> random_nonce rng'"
  shows "\<not> is_ok (finish_exchange cr' ex' m)"
proof
  assume "is_ok (finish_exchange cr' ex' m)"
  then obtain answer' where "finish_exchange cr' ex' m = Inr answer'" by (auto simp: is_ok_iff)
  with assms(2) have "ex_combined_nonce ex = ex_combined_nonce ex'"
    by (metis finish_accepts carries_unique)
  moreover from assms(1,3) obtain c c' where
    "ex_combined_nonce ex = c @ random_nonce rng" "ex_combined_nonce ex' = c' @ random_nonce rng'"
    by (metis start_accepts)
  ultimately show False
    using assms(4-6) random_nonce_plain(3) by (metis append_eq_append_conv)
qed

theorem scram_no_replay_witness:
  "\<exists>m ex'. is_ok (finish_exchange sample_primitives sample_exchange m) \<and>
    is_ok (start sample_primitives sample_server (replicate 24 66) SCRAM_SHA_256_PLUS (bstr ''p=tls-server-end-point,,'' @ rfc_first_bare (bstr ''u'') (bstr ''abc''))) \<and>
    \<not> is_ok (finish_exchange sample_primitives (rfc_exchange sample_primitives sample_server (replicate 24 66) (bstr ''u'') (bstr ''abc'') (bstr ''p=tls-server-end-point,,'' @ [1, 2])) m)"
proof -
  note started = honest_start [OF sample_choice sample_client, of sample_primitives]
  from sample_finish obtain m out where m: "finish_exchange sample_primitives sample_exchange m = Inr out" by blast
  from scram_no_replay [OF started [of "replicate 24 65", folded sample_exchange_def] m started [of "replicate 24 66"] sample_rng]
  have "\<not> is_ok (finish_exchange sample_primitives (rfc_exchange sample_primitives sample_server (replicate 24 66)
      (bstr ''u'') (bstr ''abc'') (bstr ''p=tls-server-end-point,,'' @ [1, 2])) m)"
    by (simp add: random_nonce_def del: bstr_simps)
  with m started [of "replicate 24 66"] show ?thesis by (auto simp: is_ok_iff simp del: bstr_simps)
qed

text \<open>
  No downgrade: a server with channel binding starts an exchange only when the client chose
  SCRAM-SHA-256-PLUS, which then binds the exchange to the server's own endpoint data, or declared that it
  does not support channel binding; a server without it never starts SCRAM-SHA-256-PLUS.
\<close>

theorem scram_no_downgrade:
  assumes "start cr sv rng mechanism client_first = Inr (ex, out)"
  shows "case sv_channel_binding sv of
      TlsServerEndPoint binding \<Rightarrow>
        (mechanism = SCRAM_SHA_256_PLUS \<and> ex_expected_channel_binding ex = bstr ''p=tls-server-end-point,,'' @ binding
         \<or> mechanism = SCRAM_SHA_256 \<and> ex_expected_channel_binding ex = bstr ''n,,'')
    | NoBinding \<Rightarrow> mechanism = SCRAM_SHA_256 \<and> ex_expected_channel_binding ex \<in> {bstr ''n,,'', bstr ''y,,''}"
proof -
  from start_accepts [OF assms] obtain header is_plus where "mechanism_plus mechanism = Inr is_plus"
    "expected_binding sv is_plus header = Inr (ex_expected_channel_binding ex)" by metis
  then show ?thesis
    by (auto simp: mechanism_plus_def expected_binding_def simp del: bstr_simps
        split: ServerChannelBinding.splits if_splits)
qed

theorem scram_no_downgrade_witness:
  "ex_expected_channel_binding sample_exchange = bstr ''p=tls-server-end-point,,'' @ [1, 2]"
  using scram_no_downgrade [OF honest_start [OF sample_choice sample_client, of sample_primitives "replicate 24 65"]]
  by (simp add: sample_server_def sample_exchange_def ScramServer_new_def SCRAM_SHA_256_def SCRAM_SHA_256_PLUS_def)

end
