(* ===== verification/Cancel.thy ===== *)
theory Cancel
  imports Demux
begin

text \<open>
  \<open>src/cancel.rs\<close>: the translation of client-facing cancellation keys to upstream ones.  The locale
  \<open>cancel_key_registry\<close> is the contract of the trait \<open>CancelKeyRegistry\<close>, interpreted on \<open>CancelKeyMap\<close>; a
  \<open>HashMap\<close> is a map.
\<close>

section \<open>The registry\<close>

datatype RegisterError =
    InvalidClientKeyLength nat | InvalidUpstreamKeyLength nat | ClientKeyCollision

type_synonym CancelKeyMap = "CancelKey \<Rightarrow> CancelKey option"

definition CancelKeyMap_new :: CancelKeyMap where
  "CancelKeyMap_new = (\<lambda>_. None)"

definition validate_key :: "CancelKey \<Rightarrow> nat + unit" where
  "validate_key key =
     (if 4 \<le> length (key_secret key) \<and> length (key_secret key) \<le> 256 then Inr () else Inl (length (key_secret key)))"

definition register :: "CancelKeyMap \<Rightarrow> CancelKey \<Rightarrow> CancelKey \<Rightarrow> (RegisterError + unit) \<times> CancelKeyMap" where
  "register mappings client upstream = (case validate_key client of
     Inl len \<Rightarrow> (Inl (InvalidClientKeyLength len), mappings)
   | Inr _ \<Rightarrow> (case validate_key upstream of
       Inl len \<Rightarrow> (Inl (InvalidUpstreamKeyLength len), mappings)
     | Inr _ \<Rightarrow>
         if mappings client \<noteq> None then (Inl ClientKeyCollision, mappings)
         else (Inr (), mappings(client \<mapsto> upstream))))"

definition resolve :: "CancelKeyMap \<Rightarrow> u32 \<Rightarrow> bytes \<Rightarrow> CancelKey option" where
  "resolve mappings process_id secret_key = mappings \<lparr>key_process_id = process_id, key_secret = secret_key\<rparr>"

definition remove :: "CancelKeyMap \<Rightarrow> CancelKey \<Rightarrow> CancelKey option \<times> CancelKeyMap" where
  "remove mappings client = (mappings client, mappings(client := None))"

definition resolve_cancel_key :: "CancelKeyMap \<Rightarrow> CancelKey \<Rightarrow> CancelKey option" where
  "resolve_cancel_key mappings client = mappings client"

section \<open>The contract\<close>

text \<open>What a proxy does with a registry, in order.\<close>

datatype registry_call = Register CancelKey CancelKey | Remove CancelKey

fun perform ::
  "('r \<Rightarrow> CancelKey \<Rightarrow> CancelKey \<Rightarrow> ('e + unit) \<times> 'r) \<Rightarrow> ('r \<Rightarrow> CancelKey \<Rightarrow> CancelKey option \<times> 'r)
    \<Rightarrow> 'r \<Rightarrow> registry_call list \<Rightarrow> 'r" where
  "perform add drop_key r [] = r"
| "perform add drop_key r (Register c u # calls) = perform add drop_key (snd (add r c u)) calls"
| "perform add drop_key r (Remove c # calls) = perform add drop_key (snd (drop_key r c)) calls"

locale cancel_key_registry =
  fixes add :: "'r \<Rightarrow> CancelKey \<Rightarrow> CancelKey \<Rightarrow> ('e + unit) \<times> 'r"
    and find_key :: "'r \<Rightarrow> CancelKey \<Rightarrow> CancelKey option"
    and drop_key :: "'r \<Rightarrow> CancelKey \<Rightarrow> CancelKey option \<times> 'r"
    and usable :: "CancelKey \<Rightarrow> bool"
  assumes add_ok: "fst (add r c u) = Inr () \<longleftrightarrow> usable c \<and> usable u \<and> find_key r c = None"
    and find_added: "fst (add r c u) = Inr () \<Longrightarrow> find_key (snd (add r c u)) k = (if k = c then Some u else find_key r k)"
    and add_failed: "fst (add r c u) \<noteq> Inr () \<Longrightarrow> snd (add r c u) = r"
    and find_dropped: "find_key (snd (drop_key r c)) k = (if k = c then None else find_key r k)"
    and dropped: "fst (drop_key r c) = find_key r c"
begin

lemma registered_until_removed:
  "find_key r c = Some u \<Longrightarrow> Remove c \<notin> set calls \<Longrightarrow> find_key (perform add drop_key r calls) c = Some u"
proof (induction calls arbitrary: r)
  case (Cons call calls)
  show ?case
  proof (cases call)
    case (Register k v)
    have "find_key (snd (add r k v)) c = Some u"
    proof (cases "fst (add r k v) = Inr ()")
      case True
      with add_ok [of r k v] Cons.prems(1) have "k \<noteq> c" by auto
      with find_added [OF True] Cons.prems(1) show ?thesis by simp
    qed (use add_failed Cons.prems(1) in simp)
    with Register Cons show ?thesis by simp
  next
    case (Remove k)
    with Cons.prems have "find_key (snd (drop_key r k)) c = Some u" by (auto simp: find_dropped)
    with Remove Cons show ?thesis by simp
  qed
qed simp

lemma resolves_only_registered:
  "find_key (perform add drop_key r calls) c = Some u \<Longrightarrow> find_key r c = Some u \<or> Register c u \<in> set calls \<and> usable c \<and> usable u"
proof (induction calls arbitrary: r)
  case (Cons call calls)
  show ?case
  proof (cases call)
    case (Register k v)
    with Cons have "find_key (snd (add r k v)) c = Some u \<or> Register c u \<in> set calls \<and> usable c \<and> usable u" by auto
    moreover have "find_key (snd (add r k v)) c = Some u \<Longrightarrow> find_key r c = Some u \<or> k = c \<and> v = u \<and> usable c \<and> usable u"
    proof (cases "fst (add r k v) = Inr ()")
      case True
      assume "find_key (snd (add r k v)) c = Some u"
      with find_added [OF True] True add_ok [of r k v] show ?thesis by (auto split: if_splits)
    qed (simp add: add_failed)
    ultimately show ?thesis using Register by auto
  next
    case (Remove k)
    with Cons have "find_key (snd (drop_key r k)) c = Some u \<or> Register c u \<in> set calls \<and> usable c \<and> usable u" by auto
    with Remove find_dropped show ?thesis by (auto split: if_splits)
  qed
qed simp

end

definition valid_key :: "CancelKey \<Rightarrow> bool" where
  "valid_key key = is_ok (validate_key key)"

interpretation key_map: cancel_key_registry register resolve_cancel_key remove valid_key
  by unfold_locales
    (auto simp: register_def remove_def resolve_cancel_key_def valid_key_def is_ok_iff validate_key_def split: if_splits)

section \<open>Properties\<close>

text \<open>
  A cancellation reaches the session it is meant for: whatever a proxy registers and removes, a client
  key resolves only to an upstream key registered for exactly that client key with both keys of legal
  length, and a registration that succeeded resolves until that client key is removed, whatever else is
  registered or refused meanwhile.
\<close>

theorem cancel_key_routing:
  "(resolve (perform register remove CancelKeyMap_new calls) pid secret = Some upstream \<longrightarrow>
     Register \<lparr>key_process_id = pid, key_secret = secret\<rparr> upstream \<in> set calls \<and>
     4 \<le> length secret \<and> length secret \<le> 256) \<and>
   (register mappings client upstream = (Inr (), mappings') \<and> Remove client \<notin> set calls \<longrightarrow>
     resolve (perform register remove mappings' calls) (key_process_id client) (key_secret client) = Some upstream)"
proof (intro conjI impI; (elim conjE)?)
  let ?client = "\<lparr>key_process_id = pid, key_secret = secret\<rparr>"
  assume "resolve (perform register remove CancelKeyMap_new calls) pid secret = Some upstream"
  then have "Register ?client upstream \<in> set calls \<and> valid_key ?client"
    using key_map.resolves_only_registered [of CancelKeyMap_new calls ?client upstream]
    by (auto simp: resolve_def resolve_cancel_key_def CancelKeyMap_new_def)
  then show "Register ?client upstream \<in> set calls" "4 \<le> length secret" "length secret \<le> 256"
    by (auto simp: valid_key_def is_ok_iff validate_key_def split: if_splits)
next
  assume reg: "register mappings client upstream = (Inr (), mappings')" and kept: "Remove client \<notin> set calls"
  from reg have "resolve_cancel_key mappings' client = Some upstream"
    using key_map.find_added [of mappings client upstream client] by simp
  from key_map.registered_until_removed [OF this kept]
  show "resolve (perform register remove mappings' calls) (key_process_id client) (key_secret client) = Some upstream"
    by (cases client) (simp add: resolve_def resolve_cancel_key_def)
qed

theorem cancel_key_routing_witness:
  "resolve (perform register remove CancelKeyMap_new
      [Register \<lparr>key_process_id = 1, key_secret = [1, 2, 3, 4]\<rparr> \<lparr>key_process_id = 2, key_secret = [5, 6, 7, 8]\<rparr>])
    1 [1, 2, 3, 4] = Some \<lparr>key_process_id = 2, key_secret = [5, 6, 7, 8]\<rparr>"
  using cancel_key_routing [of "[]" _ _ _ CancelKeyMap_new "\<lparr>key_process_id = 1, key_secret = [1, 2, 3, 4]\<rparr>"
      "snd (register CancelKeyMap_new \<lparr>key_process_id = 1, key_secret = [1, 2, 3, 4]\<rparr> \<lparr>key_process_id = 2, key_secret = [5, 6, 7, 8]\<rparr>)"]
  by (simp add: register_def validate_key_def CancelKeyMap_new_def)

end
