(* ===== verification/Backend_Hold.thy ===== *)
theory Backend_Hold
  imports Codec_Backend "HOL-Library.Multiset"
begin

text \<open>
  \<open>src/backend_hold.rs\<close>: the backend messages an intermediary holds back, with at most one whose fate is not
  decided yet, and the bytes they account for.  A failed assertion is \<open>Panic\<close>.
\<close>

section \<open>Operations\<close>

record BackendHold =
  bh_pending :: "(BackendMessage \<times> nat) option"
  bh_held :: "BackendMessage list"
  bh_held_bytes :: nat

definition BackendHold_default :: BackendHold where
  "BackendHold_default = \<lparr>bh_pending = None, bh_held = [], bh_held_bytes = 0\<rparr>"

definition retained_bytes :: "BackendMessage \<Rightarrow> nat" where
  "retained_bytes message = (case BackendMessage_to_frame message of
     Inl _ \<Rightarrow> 0 | Inr f \<Rightarrow> saturating_add (length (frame_body f)) 5)"

definition set_pending :: "BackendHold \<Rightarrow> BackendMessage \<Rightarrow> BackendHold exec" where
  "set_pending h message =
     (if bh_pending h \<noteq> None then Panic else Done (h\<lparr>bh_pending := Some (message, retained_bytes message)\<rparr>))"

definition pending :: "BackendHold \<Rightarrow> BackendMessage option" where
  "pending h = map_option fst (bh_pending h)"

definition take_pending :: "BackendHold \<Rightarrow> BackendMessage option \<times> BackendHold" where
  "take_pending h = (map_option fst (bh_pending h), h\<lparr>bh_pending := None\<rparr>)"

definition hold_pending :: "BackendHold \<Rightarrow> BackendHold exec" where
  "hold_pending h = (case bh_pending h of
     None \<Rightarrow> Panic
   | Some (message, bytes) \<Rightarrow>
       Done (h\<lparr>bh_pending := None, bh_held := bh_held h @ [message],
               bh_held_bytes := saturating_add (bh_held_bytes h) bytes\<rparr>))"

definition clear_held :: "BackendHold \<Rightarrow> BackendMessage list \<times> BackendHold" where
  "clear_held h = (bh_held h, h\<lparr>bh_held_bytes := 0, bh_held := []\<rparr>)"

section \<open>Accounting\<close>

text \<open>The calls of an intermediary, and the messages they release in order.\<close>

datatype hold_call = Set_pending BackendMessage | Take_pending | Hold_pending | Clear

fun hold_step :: "BackendHold \<Rightarrow> hold_call \<Rightarrow> (BackendMessage list \<times> BackendHold) exec" where
  "hold_step h (Set_pending m) = (case set_pending h m of Panic \<Rightarrow> Panic | Done h' \<Rightarrow> Done ([], h'))"
| "hold_step h Take_pending = Done (case take_pending h of (m, h') \<Rightarrow> (case m of None \<Rightarrow> [] | Some m \<Rightarrow> [m], h'))"
| "hold_step h Hold_pending = (case hold_pending h of Panic \<Rightarrow> Panic | Done h' \<Rightarrow> Done ([], h'))"
| "hold_step h Clear = Done (clear_held h)"

definition hold_inv :: "BackendHold \<Rightarrow> bool" where
  "hold_inv h = (bh_held_bytes h = min (sum_list (map retained_bytes (bh_held h))) usize_max \<and>
     (\<forall>m n. bh_pending h = Some (m, n) \<longrightarrow> n = retained_bytes m))"

lemma hold_inv_default: "hold_inv BackendHold_default"
  by (simp add: hold_inv_def BackendHold_default_def)

lemma hold_inv_step: "hold_inv h \<Longrightarrow> hold_step h call = Done (out, h') \<Longrightarrow> hold_inv h'"
  by (cases call)
    (auto simp: hold_inv_def set_pending_def take_pending_def hold_pending_def clear_held_def saturating_add_def
      split: if_splits option.splits)

fun hold_run :: "BackendHold \<Rightarrow> hold_call list \<Rightarrow> (BackendMessage list \<times> BackendHold) exec" where
  "hold_run h [] = Done ([], h)"
| "hold_run h (call # calls) = (case hold_step h call of
     Panic \<Rightarrow> Panic
   | Done (out, h') \<Rightarrow> (case hold_run h' calls of Panic \<Rightarrow> Panic | Done (outs, h'') \<Rightarrow> Done (out @ outs, h'')))"

text \<open>The messages that were set, and those in the store.\<close>

fun set_messages :: "hold_call list \<Rightarrow> BackendMessage list" where
  "set_messages [] = []"
| "set_messages (Set_pending m # calls) = m # set_messages calls"
| "set_messages (_ # calls) = set_messages calls"

definition stored :: "BackendHold \<Rightarrow> BackendMessage list" where
  "stored h = bh_held h @ (case pending h of None \<Rightarrow> [] | Some m \<Rightarrow> [m])"

lemma hold_step_stored:
  "hold_step h call = Done (out, h') \<Longrightarrow>
    mset out + mset (stored h') = mset (stored h) + mset (set_messages [call])"
  by (cases call)
    (auto simp: stored_def pending_def set_pending_def take_pending_def hold_pending_def clear_held_def
      split: if_splits option.splits)

lemma set_messages_Cons: "set_messages (call # calls) = set_messages [call] @ set_messages calls"
  by (cases call) simp_all

lemma hold_run_laws:
  "hold_inv h \<Longrightarrow> hold_run h calls = Done (out, h') \<Longrightarrow>
    hold_inv h' \<and> mset out + mset (stored h') = mset (stored h) + mset (set_messages calls)"
proof (induction calls arbitrary: h out)
  case (Cons call calls)
  from Cons.prems(2) obtain out1 h1 out2 where steps: "hold_step h call = Done (out1, h1)"
    "hold_run h1 calls = Done (out2, h')" "out = out1 @ out2"
    by (auto split: exec.splits prod.splits)
  from Cons.IH [OF hold_inv_step [OF Cons.prems(1) steps(1)] steps(2)] hold_step_stored [OF steps(1)] steps(3)
  show ?case by (subst set_messages_Cons) (simp add: ac_simps)
qed simp

text \<open>
  The backend hold neither loses nor duplicates a message and accounts for it: in every run that does not
  panic, the messages released together with those stored are those that were set, and the byte count is
  the size of the held messages, saturated at the largest \<open>usize\<close>.
\<close>

theorem backend_hold_accounts:
  assumes "hold_run BackendHold_default calls = Done (out, h)"
  shows "mset out + mset (stored h) = mset (set_messages calls) \<and>
    bh_held_bytes h = min (sum_list (map retained_bytes (bh_held h))) usize_max"
proof -
  have "stored BackendHold_default = []" by (simp add: stored_def pending_def BackendHold_default_def)
  with hold_run_laws [OF hold_inv_default assms] show ?thesis by (simp add: hold_inv_def)
qed

theorem backend_hold_accounts_witness:
  "\<exists>out h. hold_run BackendHold_default [Set_pending B_CopyDone, Hold_pending, Set_pending B_NoData, Take_pending] = Done (out, h)
    \<and> out = [B_NoData] \<and> bh_held_bytes h = 5"
proof -
  let ?calls = "[Set_pending B_CopyDone, Hold_pending, Set_pending B_NoData, Take_pending]"
  have run: "hold_run BackendHold_default ?calls =
      Done ([B_NoData], \<lparr>bh_pending = None, bh_held = [B_CopyDone], bh_held_bytes = 5\<rparr>)"
    by (simp add: BackendHold_default_def set_pending_def hold_pending_def take_pending_def retained_bytes_def
        saturating_add_def empty_message_def usize_max_def)
  with backend_hold_accounts [OF run] show ?thesis by simp
qed

end
