(* ===== verification/Resources.thy ===== *)
theory Resources
  imports Session_Laws
begin

text \<open>
  \<open>src/resources.rs\<close>: the statement and portal namespaces of a connection, which rewrite the names a client uses
  to upstream names, and the connection paired with them.  \<open>PreparedStatement\<close> and \<open>Portal\<close> have the same fields;
  the brand \<open>'id\<close> has no run-time content.  A \<open>HashMap\<close> is a map, a \<open>u64\<close> generation keeps its width.
\<close>

section \<open>Namespaces\<close>

record ResourceScope =
  statements :: "bytes \<Rightarrow> u64 option"
  client_statements :: "bytes \<Rightarrow> (bytes \<times> u64) option"
  portals :: "bytes \<Rightarrow> u64 option"
  client_portals :: "bytes \<Rightarrow> (bytes \<times> u64) option"
  next_generation :: u64

record resource_token =
  client_name :: bytes
  upstream_name :: bytes
  generation :: u64

type_synonym PreparedStatement = resource_token
type_synonym PortalToken = resource_token

datatype ResourceError = StatementNameCollision | PortalNameCollision | UnknownStatement | UnknownPortal

definition ResourceScope_new :: ResourceScope where
  "ResourceScope_new = \<lparr>statements = \<lambda>_. None, client_statements = \<lambda>_. None,
     portals = \<lambda>_. None, client_portals = \<lambda>_. None, next_generation = 0\<rparr>"

text \<open>\<open>HashMap::retain\<close>\<close>

definition retain :: "('k \<Rightarrow> 'v option) \<Rightarrow> ('v \<Rightarrow> bool) \<Rightarrow> 'k \<Rightarrow> 'v option" where
  "retain m keeps k = (case m k of None \<Rightarrow> None | Some v \<Rightarrow> if keeps v then Some v else None)"

lemma retain_Some [simp]: "(retain m keeps k = Some v) = (m k = Some v \<and> keeps v)"
  by (auto simp: retain_def split: option.splits)

definition statement_is_live :: "ResourceScope \<Rightarrow> PreparedStatement \<Rightarrow> bool" where
  "statement_is_live s statement = (statements s (upstream_name statement) = Some (generation statement))"

definition portal_is_live :: "ResourceScope \<Rightarrow> PortalToken \<Rightarrow> bool" where
  "portal_is_live s portal = (portals s (upstream_name portal) = Some (generation portal))"

definition simple_query_boundary :: "ResourceScope \<Rightarrow> ResourceScope" where
  "simple_query_boundary s = s\<lparr>statements := (statements s)([] := None),
     client_statements := retain (client_statements s) (\<lambda>(upstream, _). upstream \<noteq> [])\<rparr>"

definition transaction_ended :: "ResourceScope \<Rightarrow> ResourceScope" where
  "transaction_ended s = s\<lparr>portals := (portals s)([] := None),
     client_portals := retain (client_portals s) (\<lambda>(upstream, _). upstream \<noteq> [])\<rparr>"

definition allocate :: "ResourceScope \<Rightarrow> bytes \<Rightarrow> bytes \<Rightarrow> bool \<Rightarrow> (ResourceError + u64) \<times> ResourceScope" where
  "allocate s client upstream is_statement =
     (let (resources, client_resources) =
        (if is_statement then (statements s, client_statements s) else (portals s, client_portals s)) in
      if upstream \<noteq> [] \<and> resources upstream \<noteq> None \<or> client \<noteq> [] \<and> client_resources client \<noteq> None
      then (Inl (if is_statement then StatementNameCollision else PortalNameCollision), s)
      else (Inr (next_generation s), s\<lparr>next_generation := saturating_inc (next_generation s)\<rparr>))"

definition prepare ::
  "ResourceScope \<Rightarrow> bytes \<Rightarrow> bytes \<Rightarrow> bytes \<Rightarrow> u32 list \<Rightarrow> (ResourceError + PreparedStatement \<times> Parse) \<times> ResourceScope" where
  "prepare s client upstream query parameter_types = (case allocate s client upstream True of
     (Inl error, s) \<Rightarrow> (Inl error, s)
   | (Inr g, s) \<Rightarrow>
       let previous = statements s upstream; s = s\<lparr>statements := (statements s)(upstream \<mapsto> g)\<rparr> in
       if previous \<noteq> None \<and> upstream \<noteq> [] then (Inl StatementNameCollision, s)
       else (Inr (\<lparr>client_name = client, upstream_name = upstream, generation = g\<rparr>,
                  \<lparr>parse_statement = upstream, parse_query = query, parse_parameter_types = parameter_types\<rparr>),
             s\<lparr>client_statements := (client_statements s)(client \<mapsto> (upstream, g))\<rparr>))"

definition bind ::
  "ResourceScope \<Rightarrow> PreparedStatement \<Rightarrow> bytes \<Rightarrow> bytes \<Rightarrow> i16 list \<Rightarrow> bytes option list \<Rightarrow> i16 list
    \<Rightarrow> (ResourceError + PortalToken \<times> Bind) \<times> ResourceScope" where
  "bind s statement client upstream parameter_formats parameters result_formats =
     (if statements s (upstream_name statement) \<noteq> Some (generation statement) then (Inl UnknownStatement, s)
      else case allocate s client upstream False of
        (Inl error, s) \<Rightarrow> (Inl error, s)
      | (Inr g, s) \<Rightarrow>
          let previous = portals s upstream; s = s\<lparr>portals := (portals s)(upstream \<mapsto> g)\<rparr> in
          if previous \<noteq> None \<and> upstream \<noteq> [] then (Inl PortalNameCollision, s)
          else (Inr (\<lparr>client_name = client, upstream_name = upstream, generation = g\<rparr>,
                     \<lparr>bind_portal = upstream, bind_statement = upstream_name statement,
                      bind_parameter_formats = parameter_formats, bind_parameters = parameters,
                      bind_result_formats = result_formats\<rparr>),
                s\<lparr>client_portals := (client_portals s)(client \<mapsto> (upstream, g))\<rparr>))"

definition close_statement :: "ResourceScope \<Rightarrow> PreparedStatement \<Rightarrow> (ResourceError + Close) \<times> ResourceScope" where
  "close_statement s statement =
     (if statements s (upstream_name statement) \<noteq> Some (generation statement) then (Inl UnknownStatement, s)
      else (Inr \<lparr>close_target = Statement, close_name = upstream_name statement\<rparr>,
            s\<lparr>statements := (statements s)(upstream_name statement := None),
              client_statements := retain (client_statements s)
                (\<lambda>(upstream, g). upstream \<noteq> upstream_name statement \<or> g \<noteq> generation statement)\<rparr>))"

definition close_portal :: "ResourceScope \<Rightarrow> PortalToken \<Rightarrow> (ResourceError + Close) \<times> ResourceScope" where
  "close_portal s portal =
     (if portals s (upstream_name portal) \<noteq> Some (generation portal) then (Inl UnknownPortal, s)
      else (Inr \<lparr>close_target = Portal, close_name = upstream_name portal\<rparr>,
            s\<lparr>portals := (portals s)(upstream_name portal := None),
              client_portals := retain (client_portals s)
                (\<lambda>(upstream, g). upstream \<noteq> upstream_name portal \<or> g \<noteq> generation portal)\<rparr>))"

definition execute :: "ResourceScope \<Rightarrow> PortalToken \<Rightarrow> i32 \<Rightarrow> ResourceError + Execute" where
  "execute s portal max_rows =
     (if portals s (upstream_name portal) \<noteq> Some (generation portal) then Inl UnknownPortal
      else Inr \<lparr>execute_portal = upstream_name portal, execute_max_rows = max_rows\<rparr>)"

definition describe_portal :: "ResourceScope \<Rightarrow> PortalToken \<Rightarrow> ResourceError + Describe" where
  "describe_portal s portal =
     (if portals s (upstream_name portal) \<noteq> Some (generation portal) then Inl UnknownPortal
      else Inr \<lparr>describe_target = Portal, describe_name = upstream_name portal\<rparr>)"

definition describe_statement :: "ResourceScope \<Rightarrow> PreparedStatement \<Rightarrow> ResourceError + Describe" where
  "describe_statement s statement =
     (if statements s (upstream_name statement) \<noteq> Some (generation statement) then Inl UnknownStatement
      else Inr \<lparr>describe_target = Statement, describe_name = upstream_name statement\<rparr>)"

definition statement :: "ResourceScope \<Rightarrow> bytes \<Rightarrow> PreparedStatement option" where
  "statement s name = map_option (\<lambda>(upstream, g). \<lparr>client_name = name, upstream_name = upstream, generation = g\<rparr>)
     (client_statements s name)"

definition portal :: "ResourceScope \<Rightarrow> bytes \<Rightarrow> PortalToken option" where
  "portal s name = map_option (\<lambda>(upstream, g). \<lparr>client_name = name, upstream_name = upstream, generation = g\<rparr>)
     (client_portals s name)"

section \<open>The connection with its namespaces\<close>

record 's ResourceConnection =
  rc_conn :: "'s SessionConn"
  rc_resources :: ResourceScope

datatype ResourceProtocolError = Resource_Error ResourceError | Wire_Error io_error

definition with_connection_resources :: "'s SessionConn \<Rightarrow> ('s ResourceConnection \<Rightarrow> 'r) \<Rightarrow> 'r" where
  "with_connection_resources c operation = operation \<lparr>rc_conn = c, rc_resources = ResourceScope_new\<rparr>"

text \<open>\<open>let (conn, frame) = conn.push_...(&message)?; Ok((ResourceConnection { conn, resources }, ..., frame))\<close>; an error
  drops the connection, which the operation took by value.\<close>

definition pushed :: "io_error + 's SessionConn \<times> Frame \<Rightarrow> ResourceScope
    \<Rightarrow> ResourceProtocolError + 's ResourceConnection \<times> Frame" where
  "pushed r resources = map_sum Wire_Error (\<lambda>(c, f). (\<lparr>rc_conn = c, rc_resources = resources\<rparr>, f)) r"

definition with_token :: "'t \<Rightarrow> 'e + 'c \<times> Frame \<Rightarrow> 'e + 'c \<times> 't \<times> Frame" where
  "with_token token r = map_sum id (\<lambda>(c, f). (c, token, f)) r"

type_synonym 's token_result = "ResourceProtocolError + 's ResourceConnection \<times> resource_token \<times> Frame"
type_synonym 's frame_result = "ResourceProtocolError + 's ResourceConnection \<times> Frame"

definition rc_prepare :: "'s ResourceConnection \<Rightarrow> bytes \<Rightarrow> bytes \<Rightarrow> bytes \<Rightarrow> u32 list \<Rightarrow> 's token_result" where
  "rc_prepare rc client upstream query types = (case prepare (rc_resources rc) client upstream query types of
     (Inl error, _) \<Rightarrow> Inl (Resource_Error error)
   | (Inr (token, message), resources) \<Rightarrow> with_token token (pushed (push_parse (rc_conn rc) message) resources))"

definition rc_bound_prepare :: "'s ResourceConnection \<Rightarrow> bytes \<Rightarrow> bytes \<Rightarrow> bytes \<Rightarrow> u32 list \<Rightarrow> 's token_result" where
  "rc_bound_prepare rc client upstream query types = (case prepare (rc_resources rc) client upstream query types of
     (Inl error, _) \<Rightarrow> Inl (Resource_Error error)
   | (Inr (token, message), resources) \<Rightarrow> with_token token (pushed (bound_push_parse (rc_conn rc) message) resources))"

definition rc_bind :: "'s ResourceConnection \<Rightarrow> PreparedStatement \<Rightarrow> bytes \<Rightarrow> bytes \<Rightarrow> i16 list \<Rightarrow> bytes option list
    \<Rightarrow> i16 list \<Rightarrow> 's token_result" where
  "rc_bind rc st client upstream formats parameters results =
     (case bind (rc_resources rc) st client upstream formats parameters results of
        (Inl error, _) \<Rightarrow> Inl (Resource_Error error)
      | (Inr (token, message), resources) \<Rightarrow> with_token token (pushed (push_bind (rc_conn rc) message) resources))"

definition rc_describe_statement :: "'s ResourceConnection \<Rightarrow> PreparedStatement \<Rightarrow> 's frame_result" where
  "rc_describe_statement rc st = (case describe_statement (rc_resources rc) st of
     Inl error \<Rightarrow> Inl (Resource_Error error)
   | Inr message \<Rightarrow> pushed (push_describe (rc_conn rc) message) (rc_resources rc))"

definition rc_describe_portal :: "'s ResourceConnection \<Rightarrow> PortalToken \<Rightarrow> 's frame_result" where
  "rc_describe_portal rc po = (case describe_portal (rc_resources rc) po of
     Inl error \<Rightarrow> Inl (Resource_Error error)
   | Inr message \<Rightarrow> pushed (push_describe (rc_conn rc) message) (rc_resources rc))"

definition rc_execute :: "'s ResourceConnection \<Rightarrow> PortalToken \<Rightarrow> i32 \<Rightarrow> 's frame_result" where
  "rc_execute rc po max_rows = (case execute (rc_resources rc) po max_rows of
     Inl error \<Rightarrow> Inl (Resource_Error error)
   | Inr message \<Rightarrow> pushed (push_execute (rc_conn rc) message) (rc_resources rc))"

definition rc_close_statement :: "'s ResourceConnection \<Rightarrow> PreparedStatement \<Rightarrow> 's frame_result" where
  "rc_close_statement rc st = (case close_statement (rc_resources rc) st of
     (Inl error, _) \<Rightarrow> Inl (Resource_Error error)
   | (Inr message, resources) \<Rightarrow> pushed (push_close (rc_conn rc) message) resources)"

definition rc_close_portal :: "'s ResourceConnection \<Rightarrow> PortalToken \<Rightarrow> 's frame_result" where
  "rc_close_portal rc po = (case close_portal (rc_resources rc) po of
     (Inl error, _) \<Rightarrow> Inl (Resource_Error error)
   | (Inr message, resources) \<Rightarrow> pushed (push_close (rc_conn rc) message) resources)"

definition rc_flush :: "'s ResourceConnection \<Rightarrow> 's ResourceConnection \<times> Frame" where
  "rc_flush rc = (let (c, f) = push_flush (rc_conn rc) in (rc\<lparr>rc_conn := c\<rparr>, f))"

definition rc_sync :: "'s ResourceConnection \<Rightarrow> 's ResourceConnection \<times> Frame" where
  "rc_sync rc = (let (c, f) = push_sync (rc_conn rc) in (rc\<lparr>rc_conn := c\<rparr>, f))"

definition rc_begin_extended :: "'s ResourceConnection \<Rightarrow> 's ResourceConnection" where
  "rc_begin_extended rc = rc\<lparr>rc_conn := begin_extended (rc_conn rc)\<rparr>"

definition rc_query :: "'s ResourceConnection \<Rightarrow> bytes \<Rightarrow> 's frame_result" where
  "rc_query rc query = pushed (push_query (rc_conn rc) query) (simple_query_boundary (rc_resources rc))"

datatype 's ResourceReadyState =
    Rc_Clean "'s ResourceConnection"
  | Rc_Dirty "'s ResourceConnection" TransactionStatus bool

datatype 's ResourceAwaitingTransition =
    RcAwaiting_Continue "'s ResourceConnection" SessionItem
  | RcAwaiting_Ready "'s ResourceReadyState"
  | RcAwaiting_Error "'s ResourceConnection" DiagnosticResponse

datatype 's ResourceDrainingTransition =
    RcDraining_Continue "'s ResourceConnection" SessionItem
  | RcDraining_Ready "'s ResourceReadyState"

fun resource_ready :: "ResourceScope \<Rightarrow> 's ReadyState \<Rightarrow> 's ResourceReadyState" where
  "resource_ready resources (Ready_Clean c) =
     Rc_Clean \<lparr>rc_conn = c, rc_resources = transaction_ended resources\<rparr>"
| "resource_ready resources (Ready_Dirty c status parameters_changed) =
     Rc_Dirty \<lparr>rc_conn = c, rc_resources = (if status = Idle then transaction_ended resources else resources)\<rparr>
       status parameters_changed"

definition rc_awaiting_offer :: "'s ResourceConnection \<Rightarrow> SessionItem \<Rightarrow> 's ResourceAwaitingTransition" where
  "rc_awaiting_offer rc item = (case awaiting_ready_offer (rc_conn rc) item of
     Awaiting_Continue c item \<Rightarrow> RcAwaiting_Continue (rc\<lparr>rc_conn := c\<rparr>) item
   | Awaiting_Ready ready \<Rightarrow> RcAwaiting_Ready (resource_ready (rc_resources rc) ready)
   | Awaiting_Error c error \<Rightarrow> RcAwaiting_Error (rc\<lparr>rc_conn := c\<rparr>) error)"

definition rc_draining_offer :: "'s ResourceConnection \<Rightarrow> SessionItem \<Rightarrow> 's ResourceDrainingTransition" where
  "rc_draining_offer rc item = (case draining_offer (rc_conn rc) item of
     Draining_Continue c item \<Rightarrow> RcDraining_Continue (rc\<lparr>rc_conn := c\<rparr>) item
   | Draining_Ready ready \<Rightarrow> RcDraining_Ready (resource_ready (rc_resources rc) ready))"

end
