(* ===== verification/Resources_Laws.thy ===== *)
theory Resources_Laws
  imports Resources
begin

text \<open>
  The namespaces of \<open>src/resources.rs\<close>: how long a token is live, what a client name resolves to, and that the
  names a connection holds are those its frames have created on the server.
\<close>

section \<open>Lifetimes\<close>

datatype scope_call =
    Scope_prepare bytes bytes bytes "u32 list"
  | Scope_bind PreparedStatement bytes bytes "i16 list" "bytes option list" "i16 list"
  | Scope_close_statement PreparedStatement
  | Scope_close_portal PortalToken
  | Scope_simple_query
  | Scope_transaction_ended

fun scope_step :: "ResourceScope \<Rightarrow> scope_call \<Rightarrow> ResourceScope" where
  "scope_step s (Scope_prepare c u query types) = snd (prepare s c u query types)"
| "scope_step s (Scope_bind st c u formats parameters results) = snd (bind s st c u formats parameters results)"
| "scope_step s (Scope_close_statement t) = snd (close_statement s t)"
| "scope_step s (Scope_close_portal t) = snd (close_portal s t)"
| "scope_step s Scope_simple_query = simple_query_boundary s"
| "scope_step s Scope_transaction_ended = transaction_ended s"

definition same_resource :: "resource_token \<Rightarrow> resource_token \<Rightarrow> bool" where
  "same_resource t t' = (upstream_name t = upstream_name t' \<and> generation t = generation t')"

text \<open>The events that end a resource: its own close, and for the unnamed one its replacement and the boundary.\<close>

fun ends_statement :: "ResourceScope \<Rightarrow> resource_token \<Rightarrow> scope_call \<Rightarrow> bool" where
  "ends_statement s t (Scope_close_statement t') = same_resource t t'"
| "ends_statement s t (Scope_prepare c u _ _) = (upstream_name t = [] \<and> u = [] \<and> (c = [] \<or> statement s c = None))"
| "ends_statement s t Scope_simple_query = (upstream_name t = [])"
| "ends_statement s t _ = False"

fun ends_portal :: "ResourceScope \<Rightarrow> resource_token \<Rightarrow> scope_call \<Rightarrow> bool" where
  "ends_portal s t (Scope_close_portal t') = same_resource t t'"
| "ends_portal s t (Scope_bind st c u _ _ _) =
     (upstream_name t = [] \<and> u = [] \<and> statement_is_live s st \<and> (c = [] \<or> portal s c = None))"
| "ends_portal s t Scope_transaction_ended = (upstream_name t = [])"
| "ends_portal s t _ = False"

fun survives :: "('s \<Rightarrow> 'c \<Rightarrow> 's) \<Rightarrow> ('s \<Rightarrow> 't \<Rightarrow> 'c \<Rightarrow> bool) \<Rightarrow> 's \<Rightarrow> 't \<Rightarrow> 'c list \<Rightarrow> bool" where
  "survives act ends s t [] = True"
| "survives act ends s t (c # cs) = (\<not> ends s t c \<and> survives act ends (act s c) t cs)"

definition issued :: "ResourceScope \<Rightarrow> nat" where
  "issued s = unat (next_generation s)"

locale token_lifetime =
  fixes act :: "'s \<Rightarrow> 'c \<Rightarrow> 's"
    and live :: "'s \<Rightarrow> resource_token \<Rightarrow> bool"
    and ends :: "'s \<Rightarrow> resource_token \<Rightarrow> 'c \<Rightarrow> bool"
    and clock :: "'s \<Rightarrow> nat"
    and sound :: "'s \<Rightarrow> bool"
  assumes clock_mono: "clock s \<le> clock (act s c)"
    and sound_step: "sound s \<Longrightarrow> clock (act s c) < u64_max \<Longrightarrow> sound (act s c)"
    and known: "sound s \<Longrightarrow> live s t \<Longrightarrow> unat (generation t) < clock s"
    and kept: "live s t \<Longrightarrow> \<not> ends s t c \<Longrightarrow> live (act s c) t"
    and ended: "sound s \<Longrightarrow> live s t \<Longrightarrow> ends s t c \<Longrightarrow> clock (act s c) < u64_max \<Longrightarrow> \<not> live (act s c) t"
    and fresh: "\<not> live s t \<Longrightarrow> unat (generation t) < clock s \<Longrightarrow> \<not> live (act s c) t"
begin

lemma clock_run: "clock s \<le> clock (foldl act s cs)"
  by (induction cs arbitrary: s) (auto intro: order_trans clock_mono)

lemma sound_run: "sound s \<Longrightarrow> clock (foldl act s cs) < u64_max \<Longrightarrow> sound (foldl act s cs)"
proof (induction cs arbitrary: s)
  case (Cons c cs)
  from clock_run [of "act s c" cs] Cons.prems have "clock (act s c) < u64_max" by simp
  with Cons show ?case by (simp add: sound_step)
qed simp

lemma dead_forever: "\<not> live s t \<Longrightarrow> unat (generation t) < clock s \<Longrightarrow> \<not> live (foldl act s cs) t"
proof (induction cs arbitrary: s)
  case (Cons c cs)
  with clock_mono [of s c] fresh [of s t c] show ?case by simp
qed simp

lemma lifetime:
  "sound s \<Longrightarrow> live s t \<Longrightarrow> clock (foldl act s cs) < u64_max \<Longrightarrow> live (foldl act s cs) t = survives act ends s t cs"
proof (induction cs arbitrary: s)
  case (Cons c cs)
  have lt: "clock (act s c) < u64_max"
    using clock_run [of "act s c" cs] Cons.prems by simp
  show ?case
  proof (cases "ends s t c")
    case True
    with Cons.prems lt have "\<not> live (act s c) t" by (simp add: ended)
    moreover have "unat (generation t) < clock (act s c)"
      using known [of s t] clock_mono [of s c] Cons.prems by simp
    ultimately show ?thesis
      using True dead_forever [of "act s c" t cs] by simp
  next
    case False
    with Cons lt show ?thesis by (simp add: kept sound_step)
  qed
qed simp

end

section \<open>The two namespaces\<close>

text \<open>
  What holds of the names and the client names of one namespace while \<open>n\<close> generations have been issued: the
  generations in use are old, a client name of a named resource refers to a live one, and no two client names
  share a generation.
\<close>

definition namespace_ok :: "nat \<Rightarrow> (bytes \<Rightarrow> u64 option) \<Rightarrow> (bytes \<Rightarrow> (bytes \<times> u64) option) \<Rightarrow> bool" where
  "namespace_ok n names clients =
     ((\<forall>u g. names u = Some g \<longrightarrow> unat g < n) \<and>
      (\<forall>c u g. clients c = Some (u, g) \<longrightarrow> unat g < n \<and> (u \<noteq> [] \<longrightarrow> names u = Some g)) \<and>
      (\<forall>c c' u u' g. clients c = Some (u, g) \<longrightarrow> clients c' = Some (u', g) \<longrightarrow> c = c'))"

lemma namespace_ok_mono: "namespace_ok n names clients \<Longrightarrow> n \<le> n' \<Longrightarrow> namespace_ok n' names clients"
  unfolding namespace_ok_def by (meson order_less_le_trans)

lemma namespace_ok_insert:
  assumes "namespace_ok (unat g) names clients" "u = [] \<or> names u = None" "unat g < n"
  shows "namespace_ok n (names(u \<mapsto> g)) (clients(c \<mapsto> (u, g)))"
proof -
  have old: "names u' = Some g' \<Longrightarrow> unat g' < n" for u' g'
    using assms unfolding namespace_ok_def by (meson less_trans)
  have client: "clients c' = Some (u', g') \<Longrightarrow> unat g' < n \<and> (u' \<noteq> [] \<longrightarrow> names u' = Some g')" for c' u' g'
    using assms unfolding namespace_ok_def by (meson less_trans)
  have other: "clients c' \<noteq> Some (u', g)" for c' u'
    using assms unfolding namespace_ok_def by (metis less_irrefl)
  show ?thesis
    using assms old client other unfolding namespace_ok_def
    by (auto split: if_splits)
qed

lemma namespace_ok_remove:
  "namespace_ok n names clients \<Longrightarrow> names u = Some g \<Longrightarrow>
    namespace_ok n (names(u := None)) (retain clients (\<lambda>(u', g'). u' = u \<longrightarrow> g' \<noteq> g))"
  unfolding namespace_ok_def by (auto split: if_splits) force

lemma namespace_ok_unnamed:
  "namespace_ok n names clients \<Longrightarrow>
    namespace_ok n (names([] := None)) (retain clients (\<lambda>(u', _). u' \<noteq> []))"
  unfolding namespace_ok_def by (auto split: if_splits)

definition scope_ok :: "ResourceScope \<Rightarrow> bool" where
  "scope_ok s = (namespace_ok (issued s) (statements s) (client_statements s) \<and>
     namespace_ok (issued s) (portals s) (client_portals s))"

lemma scope_ok_new: "scope_ok ResourceScope_new"
  by (simp add: scope_ok_def namespace_ok_def ResourceScope_new_def)

lemma issued_inc: "unat (saturating_inc g) = min (unat g + 1) u64_max"
  by (rule saturating_inc_unat)

lemmas scope_defs = prepare_def bind_def close_statement_def close_portal_def simple_query_boundary_def
  transaction_ended_def allocate_def Let_def statement_is_live_def portal_is_live_def issued_def statement_def portal_def

lemma prepare_cases:
  obtains (error) e where "prepare s c u q ts = (Inl e, s)" "e = StatementNameCollision"
      "u \<noteq> [] \<and> statements s u \<noteq> None \<or> c \<noteq> [] \<and> client_statements s c \<noteq> None"
  | (ok) "u = [] \<or> statements s u = None" "c = [] \<or> client_statements s c = None"
      "prepare s c u q ts =
        (Inr (\<lparr>client_name = c, upstream_name = u, generation = next_generation s\<rparr>,
              \<lparr>parse_statement = u, parse_query = q, parse_parameter_types = ts\<rparr>),
         s\<lparr>next_generation := saturating_inc (next_generation s),
           statements := (statements s)(u \<mapsto> next_generation s),
           client_statements := (client_statements s)(c \<mapsto> (u, next_generation s))\<rparr>)"
  by (cases "u \<noteq> [] \<and> statements s u \<noteq> None \<or> c \<noteq> [] \<and> client_statements s c \<noteq> None")
    (auto simp: prepare_def allocate_def Let_def simp del: not_None_eq)

lemma bind_cases:
  obtains (unknown) "bind s st c u f p r = (Inl UnknownStatement, s)" "\<not> statement_is_live s st"
  | (error) "bind s st c u f p r = (Inl PortalNameCollision, s)" "statement_is_live s st"
      "u \<noteq> [] \<and> portals s u \<noteq> None \<or> c \<noteq> [] \<and> client_portals s c \<noteq> None"
  | (ok) "statement_is_live s st" "u = [] \<or> portals s u = None" "c = [] \<or> client_portals s c = None"
      "bind s st c u f p r =
        (Inr (\<lparr>client_name = c, upstream_name = u, generation = next_generation s\<rparr>,
              \<lparr>bind_portal = u, bind_statement = upstream_name st, bind_parameter_formats = f, bind_parameters = p,
               bind_result_formats = r\<rparr>),
         s\<lparr>next_generation := saturating_inc (next_generation s),
           portals := (portals s)(u \<mapsto> next_generation s),
           client_portals := (client_portals s)(c \<mapsto> (u, next_generation s))\<rparr>)"
  by (cases "statement_is_live s st"; cases "u \<noteq> [] \<and> portals s u \<noteq> None \<or> c \<noteq> [] \<and> client_portals s c \<noteq> None")
    (auto simp: bind_def allocate_def Let_def statement_is_live_def simp del: not_None_eq)

lemma issued_mono: "issued s \<le> issued (scope_step s call)"
proof -
  have inc: "unat g \<le> unat (saturating_inc g)" for g
    using unat_lt [of g] by (simp add: issued_inc u64_max_def)
  show ?thesis
    by (cases call) (auto simp: scope_defs inc split: prod.splits sum.splits)
qed

lemma scope_ok_step:
  assumes "scope_ok s" "issued (scope_step s call) < u64_max"
  shows "scope_ok (scope_step s call)"
proof (cases call)
  case (Scope_prepare c u q ts)
  show ?thesis
  proof (cases rule: prepare_cases [of s c u q ts])
    case error
    with assms Scope_prepare show ?thesis by simp
  next
    case ok
    with Scope_prepare assms(2) have "issued s < issued (scope_step s call)"
      by (simp add: issued_def issued_inc)
    with ok Scope_prepare assms(1) show ?thesis
      by (auto simp: scope_ok_def issued_def intro: namespace_ok_insert namespace_ok_mono)
  qed
next
  case (Scope_bind st c u f p r)
  show ?thesis
  proof (cases rule: bind_cases [of s st c u f p r])
    case ok
    with Scope_bind assms(2) have "issued s < issued (scope_step s call)"
      by (simp add: issued_def issued_inc)
    with ok Scope_bind assms(1) show ?thesis
      by (auto simp: scope_ok_def issued_def intro: namespace_ok_insert namespace_ok_mono)
  qed (use assms Scope_bind in simp_all)
qed (use assms in \<open>auto simp: scope_ok_def close_statement_def close_portal_def simple_query_boundary_def
  transaction_ended_def issued_def intro: namespace_ok_remove namespace_ok_unnamed\<close>)

section \<open>Instances\<close>

lemma statements_prepare:
  "statements (snd (prepare s c u q ts)) v =
    (if is_ok (fst (prepare s c u q ts)) \<and> v = u then Some (next_generation s) else statements s v)"
  by (cases rule: prepare_cases [of s c u q ts]) auto

lemma portals_bind:
  "portals (snd (bind s st c u f p r)) v =
    (if is_ok (fst (bind s st c u f p r)) \<and> v = u then Some (next_generation s) else portals s v)"
  by (cases rule: bind_cases [of s st c u f p r]) auto

lemma other_namespace [simp]:
  "portals (snd (prepare s c u q ts)) = portals s" "client_portals (snd (prepare s c u q ts)) = client_portals s"
  "statements (snd (bind s st c u f p r)) = statements s"
  "client_statements (snd (bind s st c u f p r)) = client_statements s"
  by (cases rule: prepare_cases [of s c u q ts]; simp)+ (cases rule: bind_cases [of s st c u f p r]; simp)+

lemma prepare_ok_iff:
  "is_ok (fst (prepare s c u q ts)) = ((u = [] \<or> statements s u = None) \<and> (c = [] \<or> statement s c = None))"
  by (cases rule: prepare_cases [of s c u q ts]) (auto simp: statement_def)

lemma bind_ok_iff:
  "is_ok (fst (bind s st c u f p r)) =
    (statement_is_live s st \<and> (u = [] \<or> portals s u = None) \<and> (c = [] \<or> portal s c = None))"
  by (cases rule: bind_cases [of s st c u f p r]) (auto simp: portal_def)

lemmas live_simps = statements_prepare portals_bind prepare_ok_iff bind_ok_iff

lemma known_statement: "scope_ok s \<Longrightarrow> statement_is_live s t \<Longrightarrow> unat (generation t) < issued s"
  by (simp add: scope_ok_def namespace_ok_def statement_is_live_def)

lemma known_portal: "scope_ok s \<Longrightarrow> portal_is_live s t \<Longrightarrow> unat (generation t) < issued s"
  by (simp add: scope_ok_def namespace_ok_def portal_is_live_def)

lemmas boundary_defs = close_statement_def close_portal_def simple_query_boundary_def transaction_ended_def
  statement_is_live_def portal_is_live_def same_resource_def

interpretation stmts: token_lifetime scope_step statement_is_live ends_statement issued scope_ok
proof
  show "statement_is_live (scope_step s c) t" if "statement_is_live s t" "\<not> ends_statement s t c" for s t c
    using that by (cases c) (auto simp: live_simps boundary_defs)
  show "\<not> statement_is_live (scope_step s c) t"
    if "scope_ok s" "statement_is_live s t" "ends_statement s t c" for s t c
    using that known_statement [of s t] by (cases c) (auto simp: live_simps boundary_defs issued_def)
  show "\<not> statement_is_live (scope_step s c) t"
    if "\<not> statement_is_live s t" "unat (generation t) < issued s" for s t c
    using that by (cases c) (auto simp: live_simps boundary_defs issued_def)
qed (simp_all add: issued_mono scope_ok_step known_statement)

interpretation ports: token_lifetime scope_step portal_is_live ends_portal issued scope_ok
proof
  show "portal_is_live (scope_step s c) t" if "portal_is_live s t" "\<not> ends_portal s t c" for s t c
    using that by (cases c) (auto simp: live_simps boundary_defs)
  show "\<not> portal_is_live (scope_step s c) t"
    if "scope_ok s" "portal_is_live s t" "ends_portal s t c" for s t c
    using that known_portal [of s t] by (cases c) (auto simp: live_simps boundary_defs issued_def)
  show "\<not> portal_is_live (scope_step s c) t"
    if "\<not> portal_is_live s t" "unat (generation t) < issued s" for s t c
    using that by (cases c) (auto simp: live_simps boundary_defs issued_def)
qed (simp_all add: issued_mono scope_ok_step known_portal)

definition scope_run :: "scope_call list \<Rightarrow> ResourceScope" where
  "scope_run calls = foldl scope_step ResourceScope_new calls"

lemma scope_run_ok: "issued (scope_run calls) < u64_max \<Longrightarrow> scope_ok (scope_run calls)"
  unfolding scope_run_def by (rule stmts.sound_run [OF scope_ok_new])

section \<open>The names on the server\<close>

text \<open>Calls on a resource connection: the operation of the \<open>impl\<close> block for the phase, \<open>None\<close> when there is none or
  when it fails, which drops the connection.\<close>

datatype resource_call =
    Rc_prepare bytes bytes bytes "u32 list"
  | Rc_bind PreparedStatement bytes bytes "i16 list" "bytes option list" "i16 list"
  | Rc_describe_statement PreparedStatement
  | Rc_describe_portal PortalToken
  | Rc_execute PortalToken i32
  | Rc_close_statement PreparedStatement
  | Rc_close_portal PortalToken
  | Rc_flush | Rc_sync | Rc_begin_extended
  | Rc_query bytes
  | Rc_offer SessionItem

datatype wire_event = Sent Frame | Received SessionItem | Silent

abbreviation sent :: "'e + 'c \<times> Frame \<Rightarrow> ('c \<times> wire_event) option" where
  "sent r \<equiv> (case r of Inl _ \<Rightarrow> None | Inr (c, f) \<Rightarrow> Some (c, Sent f))"

abbreviation sent_token :: "'e + 'c \<times> 't \<times> Frame \<Rightarrow> ('c \<times> wire_event) option" where
  "sent_token r \<equiv> (case r of Inl _ \<Rightarrow> None | Inr (c, _, f) \<Rightarrow> Some (c, Sent f))"

fun rc_ready_conn :: "'s ResourceReadyState \<Rightarrow> 's ResourceConnection" where
  "rc_ready_conn (Rc_Clean rc) = rc" | "rc_ready_conn (Rc_Dirty rc _ _) = rc"

fun rc_awaiting_conn :: "'s ResourceAwaitingTransition \<Rightarrow> 's ResourceConnection" where
  "rc_awaiting_conn (RcAwaiting_Continue rc _) = rc" | "rc_awaiting_conn (RcAwaiting_Ready r) = rc_ready_conn r"
| "rc_awaiting_conn (RcAwaiting_Error rc _) = rc"

fun rc_draining_conn :: "'s ResourceDrainingTransition \<Rightarrow> 's ResourceConnection" where
  "rc_draining_conn (RcDraining_Continue rc _) = rc" | "rc_draining_conn (RcDraining_Ready r) = rc_ready_conn r"

abbreviation rc_phase :: "'s ResourceConnection \<Rightarrow> frontend_state" where
  "rc_phase rc \<equiv> sc_phase (rc_conn rc)"

abbreviation in_building :: "'s ResourceConnection \<Rightarrow> 'r option \<Rightarrow> 'r option" where
  "in_building rc r \<equiv> (if rc_phase rc = Fe_Building \<or> rc_phase rc = Fe_BoundBuilding then r else None)"

fun resource_step :: "'s ResourceConnection \<Rightarrow> resource_call \<Rightarrow> ('s ResourceConnection \<times> wire_event) option" where
  "resource_step rc (Rc_prepare c u query types) = (case rc_phase rc of
     Fe_Building \<Rightarrow> sent_token (rc_prepare rc c u query types)
   | Fe_BoundBuilding \<Rightarrow> sent_token (rc_bound_prepare rc c u query types)
   | _ \<Rightarrow> None)"
| "resource_step rc (Rc_bind st c u formats parameters results) =
     in_building rc (sent_token (rc_bind rc st c u formats parameters results))"
| "resource_step rc (Rc_describe_statement st) = in_building rc (sent (rc_describe_statement rc st))"
| "resource_step rc (Rc_describe_portal po) =
     (if rc_phase rc = Fe_BoundBuilding then sent (rc_describe_portal rc po) else None)"
| "resource_step rc (Rc_execute po max_rows) =
     (if rc_phase rc = Fe_BoundBuilding then sent (rc_execute rc po max_rows) else None)"
| "resource_step rc (Rc_close_statement st) = in_building rc (sent (rc_close_statement rc st))"
| "resource_step rc (Rc_close_portal po) = in_building rc (sent (rc_close_portal rc po))"
| "resource_step rc Rc_flush = in_building rc (Some (apsnd Sent (rc_flush rc)))"
| "resource_step rc Rc_sync = in_building rc (Some (apsnd Sent (rc_sync rc)))"
| "resource_step rc Rc_begin_extended =
     (if rc_phase rc = Fe_Ready then Some (rc_begin_extended rc, Silent) else None)"
| "resource_step rc (Rc_query query) = (if rc_phase rc = Fe_Ready then sent (rc_query rc query) else None)"
| "resource_step rc (Rc_offer item) = (case rc_phase rc of
     Fe_AwaitingReady \<Rightarrow> Some (rc_awaiting_conn (rc_awaiting_offer rc item), Received item)
   | Fe_Draining \<Rightarrow> Some (rc_draining_conn (rc_draining_offer rc item), Received item)
   | _ \<Rightarrow> None)"

fun resource_run :: "'s ResourceConnection \<Rightarrow> resource_call list \<Rightarrow> ('s ResourceConnection \<times> wire_event list) option" where
  "resource_run rc [] = Some (rc, [])"
| "resource_run rc (call # calls) = (case resource_step rc call of
     None \<Rightarrow> None
   | Some (rc', event) \<Rightarrow> map_option (\<lambda>(last, events). (last, event # events)) (resource_run rc' calls))"

text \<open>
  The statement and portal names a server holds after the frames it decodes; \<open>None\<close> when it refuses one: a
  named resource that exists, or one that does not.
\<close>

type_synonym names = "bytes set \<times> bytes set"

fun server_names :: "names \<Rightarrow> FrontendMessage \<Rightarrow> names option" where
  "server_names (S, P) (F_Parse m) =
     (if parse_statement m \<noteq> [] \<and> parse_statement m \<in> S then None else Some (insert (parse_statement m) S, P))"
| "server_names (S, P) (F_Bind m) =
     (if bind_statement m \<notin> S \<or> bind_portal m \<noteq> [] \<and> bind_portal m \<in> P then None
      else Some (S, insert (bind_portal m) P))"
| "server_names (S, P) (F_Describe m) =
     (if describe_name m \<in> (case describe_target m of Statement \<Rightarrow> S | Portal \<Rightarrow> P) then Some (S, P) else None)"
| "server_names (S, P) (F_Execute m) = (if execute_portal m \<in> P then Some (S, P) else None)"
| "server_names (S, P) (F_Close m) = (case close_target m of
     Statement \<Rightarrow> if close_name m \<in> S then Some (S - {close_name m}, P) else None
   | Portal \<Rightarrow> if close_name m \<in> P then Some (S, P - {close_name m}) else None)"
| "server_names (S, P) (F_Query _) = Some (S - {[]}, P)"
| "server_names N _ = Some N"

fun event_names :: "names \<Rightarrow> wire_event \<Rightarrow> names option" where
  "event_names N (Sent f) = (case Frontend_decode f of Inl _ \<Rightarrow> None | Inr m \<Rightarrow> server_names N m)"
| "event_names (S, P) (Received (Item_ReadyForQuery Idle _)) = Some (S, P - {[]})"
| "event_names N _ = Some N"

fun wire_names :: "names \<Rightarrow> wire_event list \<Rightarrow> names option" where
  "wire_names N [] = Some N"
| "wire_names N (e # es) = (case event_names N e of None \<Rightarrow> None | Some N' \<Rightarrow> wire_names N' es)"

definition scope_names :: "'s ResourceConnection \<Rightarrow> names" where
  "scope_names rc = (dom (statements (rc_resources rc)), dom (portals (rc_resources rc)))"

lemma map_sum_Inr_iff: "(map_sum g f r = Inr y) = (\<exists>x. r = Inr x \<and> y = f x)"
  by (cases r) auto

lemma decode_sent: "FrontendMessage_to_frame m = Inr f \<Longrightarrow> Frontend_decode f = Inr m"
  by (simp add: Frontend_decode_iff)

lemmas decode_pushed = decode_sent [of "F_Parse m" for m, simplified] decode_sent [of "F_Bind m" for m, simplified]
  decode_sent [of "F_Describe m" for m, simplified] decode_sent [of "F_Execute m" for m, simplified]
  decode_sent [of "F_Close m" for m, simplified] decode_sent [of "F_Query m" for m, simplified]

lemma decode_empty_frames:
  "Frontend_decode (frame 72 []) = Inr F_Flush" "Frontend_decode (frame 83 []) = Inr F_Sync"
  by (simp_all add: Frontend_decode_iff empty_message_def)

lemmas rc_defs = rc_prepare_def rc_bound_prepare_def rc_bind_def rc_describe_statement_def rc_describe_portal_def
  rc_execute_def rc_close_statement_def rc_close_portal_def rc_flush_def rc_sync_def rc_begin_extended_def rc_query_def
  pushed_def with_token_def push_defs decode_empty_frames map_sum_Inr_iff

lemmas named_defs = describe_statement_def describe_portal_def execute_def close_statement_def close_portal_def
  simple_query_boundary_def

lemma ready_names:
  "scope_names (rc_ready_conn (resource_ready s (ready_state c status changed))) =
    (dom (statements s), if status = Idle then dom (portals s) - {[]} else dom (portals s))"
  by (auto simp: scope_names_def ready_state_def transaction_ended_def)

lemma offer_names:
  assumes "resource_step rc (Rc_offer item) = Some (rc', e)"
  shows "event_names (scope_names rc) e = Some (scope_names rc')"
proof (cases item)
  case (Item_ReadyForQuery status changed)
  with assms show ?thesis
    by (cases status; cases "rc_phase rc")
      (auto simp: rc_awaiting_offer_def rc_draining_offer_def offer_defs ready_names [unfolded ready_state_def] scope_names_def
        transaction_ended_def)
next
  case (Item_Message m)
  with assms show ?thesis
    by (cases m; cases "rc_phase rc") (auto simp: rc_awaiting_offer_def rc_draining_offer_def offer_defs scope_names_def)
next
  case (Item_CommandComplete tag k notices)
  with assms show ?thesis
    by (cases "rc_phase rc") (auto simp: rc_awaiting_offer_def rc_draining_offer_def offer_defs scope_names_def)
qed

lemma step_names:
  assumes "resource_step rc call = Some (rc', e)"
  shows "event_names (scope_names rc) e = Some (scope_names rc')"
proof (cases call)
  case (Rc_prepare c u q ts)
  with assms show ?thesis
    by (cases rule: prepare_cases [of "rc_resources rc" c u q ts])
      (auto simp: rc_defs scope_names_def split: frontend_state.splits sum.splits dest!: decode_pushed)
next
  case (Rc_bind st c u f p r)
  with assms show ?thesis
    by (cases rule: bind_cases [of "rc_resources rc" st c u f p r])
      (auto simp: rc_defs scope_names_def statement_is_live_def split: if_splits sum.splits dest!: decode_pushed)
next
  case (Rc_offer item)
  with assms show ?thesis by (simp only: offer_names)
qed (use assms in \<open>auto simp: rc_defs named_defs scope_names_def split: if_splits sum.splits dest!: decode_pushed\<close>)

lemma run_names:
  "resource_run rc calls = Some (rc', events) \<Longrightarrow> wire_names (scope_names rc) events = Some (scope_names rc')"
proof (induction calls arbitrary: rc events)
  case (Cons call calls)
  then obtain rc1 e es where step: "resource_step rc call = Some (rc1, e)"
    and rest: "resource_run rc1 calls = Some (rc', es)" and events: "events = e # es"
    by (auto split: option.splits)
  from Cons.IH [OF rest] step_names [OF step] show ?case by (simp add: events)
qed simp

section \<open>Client names\<close>

lemma isolated:
  "namespace_ok n names clients \<Longrightarrow> clients c = Some (u, g) \<Longrightarrow> clients c' = Some (u, g') \<Longrightarrow>
    u \<noteq> [] \<or> g = g' \<Longrightarrow> c = c'"
  unfolding namespace_ok_def by (metis option.inject)

lemma statement_Some: "statement s c = Some t \<Longrightarrow> client_statements s c = Some (upstream_name t, generation t)"
  by (auto simp: statement_def)

lemma portal_Some: "portal s c = Some t \<Longrightarrow> client_portals s c = Some (upstream_name t, generation t)"
  by (auto simp: portal_def)

lemma named_live:
  "scope_ok s \<Longrightarrow> statement s c = Some t \<Longrightarrow> upstream_name t \<noteq> [] \<Longrightarrow> statement_is_live s t"
  "scope_ok s \<Longrightarrow> portal s c = Some t \<Longrightarrow> upstream_name t \<noteq> [] \<Longrightarrow> portal_is_live s t"
  by (auto dest!: statement_Some portal_Some
      simp: scope_ok_def namespace_ok_def statement_is_live_def portal_is_live_def)

text \<open>
  A client name whose unnamed upstream statement has been replaced still resolves, to a token that is not live,
  and cannot be prepared again: the collision is with a statement that no longer exists.
\<close>

lemma stale_client_name:
  assumes "a \<noteq> []" "b \<noteq> a"
    and "s = scope_run [Scope_prepare a [] q [], Scope_prepare b [] q []]"
  shows "\<exists>t. statement s a = Some t \<and> \<not> statement_is_live s t" "fst (prepare s a u q []) = Inl StatementNameCollision"
  using assms by (simp_all add: scope_run_def ResourceScope_new_def prepare_def allocate_def statement_def
      statement_is_live_def saturating_inc_def)

text \<open>At the last generation the counter no longer moves, and a closed token is live again after its name is prepared.\<close>

lemma generation_saturates:
  assumes "next_generation s = - 1" "statements s u = None" "client_statements s c = None"
    and "prepare s c u q ts = (Inr (t, m), s1)" "s2 = snd (close_statement s1 t)" "s3 = snd (prepare s2 c u q ts)"
  shows "\<not> statement_is_live s2 t \<and> statement_is_live s3 t"
proof -
  have "prepare s c u q ts = (Inr (\<lparr>client_name = c, upstream_name = u, generation = - 1\<rparr>,
      \<lparr>parse_statement = u, parse_query = q, parse_parameter_types = ts\<rparr>),
      s\<lparr>statements := (statements s)(u \<mapsto> - 1), client_statements := (client_statements s)(c \<mapsto> (u, - 1))\<rparr>)"
    using assms(1-3) by (simp add: prepare_def allocate_def saturating_inc_def)
  with assms show ?thesis
    by (auto simp: close_statement_def prepare_def allocate_def statement_is_live_def saturating_inc_def retain_def)
qed

section \<open>Properties\<close>

text \<open>
  C34. A token has exactly its resource's lifetime.  A statement that is live stays live through any later calls,
  whatever they do to other resources, until it is closed or, when it is the unnamed one, replaced or passed by
  a simple query; from then on it is refused for ever, also when its name is prepared again.  The same for
  portals, with the end of the transaction.  The 64-bit generations must not be exhausted.
\<close>

theorem token_lifetime_exact:
  assumes "issued (foldl scope_step (scope_run calls) later) < u64_max"
  shows "(statement_is_live (scope_run calls) st \<longrightarrow>
      statement_is_live (foldl scope_step (scope_run calls) later) st =
        survives scope_step ends_statement (scope_run calls) st later) \<and>
    (portal_is_live (scope_run calls) po \<longrightarrow>
      portal_is_live (foldl scope_step (scope_run calls) later) po =
        survives scope_step ends_portal (scope_run calls) po later)"
proof -
  have "issued (scope_run calls) < u64_max"
    using stmts.clock_run [of "scope_run calls" later] assms by simp
  then have "scope_ok (scope_run calls)" by (rule scope_run_ok)
  with assms show ?thesis by (simp add: stmts.lifetime ports.lifetime)
qed

theorem token_lifetime_exact_witness:
  "let calls = [Scope_prepare [97] [112] [] []]; later = [Scope_close_statement \<lparr>client_name = [97], upstream_name = [112], generation = 0\<rparr>,
      Scope_prepare [97] [112] [] []];
      st = \<lparr>client_name = [97], upstream_name = [112], generation = 0\<rparr>
    in statement_is_live (scope_run calls) st \<and> \<not> statement_is_live (foldl scope_step (scope_run calls) later) st"
  using token_lifetime_exact [where calls = "[Scope_prepare [97] [112] [] []]"
      and later = "[Scope_close_statement \<lparr>client_name = [97], upstream_name = [112], generation = 0\<rparr>,
        Scope_prepare [97] [112] [] []]"
      and st = "\<lparr>client_name = [97], upstream_name = [112], generation = 0\<rparr>"]
  by (simp add: scope_run_def ResourceScope_new_def prepare_def allocate_def statement_is_live_def saturating_inc_def
      close_statement_def retain_def issued_def u64_max_def same_resource_def)

text \<open>
  C35. Client names are isolated.  While generations last, a client name that is rewritten to a named upstream
  resource resolves to a live token, and two client names resolve to the same named resource, or to the same
  unnamed one, only when they are equal; so for statements and for portals.
\<close>

theorem client_names_isolated:
  assumes "issued (scope_run calls) < u64_max"
  shows "(statement (scope_run calls) c = Some t \<and> statement (scope_run calls) c' = Some t' \<longrightarrow>
      (upstream_name t \<noteq> [] \<longrightarrow> statement_is_live (scope_run calls) t) \<and>
      (upstream_name t = upstream_name t' \<and> (upstream_name t \<noteq> [] \<or> generation t = generation t') \<longrightarrow> c = c')) \<and>
    (portal (scope_run calls) c = Some t \<and> portal (scope_run calls) c' = Some t' \<longrightarrow>
      (upstream_name t \<noteq> [] \<longrightarrow> portal_is_live (scope_run calls) t) \<and>
      (upstream_name t = upstream_name t' \<and> (upstream_name t \<noteq> [] \<or> generation t = generation t') \<longrightarrow> c = c'))"
proof -
  from assms have ok: "scope_ok (scope_run calls)" by (rule scope_run_ok)
  then have ns: "namespace_ok (issued (scope_run calls)) (statements (scope_run calls)) (client_statements (scope_run calls))"
      "namespace_ok (issued (scope_run calls)) (portals (scope_run calls)) (client_portals (scope_run calls))"
    by (simp_all add: scope_ok_def)
  show ?thesis
    using named_live [OF ok, of c t]
    by (auto dest!: statement_Some portal_Some dest: isolated [OF ns(1)] isolated [OF ns(2)])
qed

theorem client_names_isolated_witness:
  "let s = scope_run [Scope_prepare [97] [112] [] [], Scope_prepare [98] [113] [] []]
    in \<exists>t t'. statement s [97] = Some t \<and> statement s [98] = Some t' \<and> statement_is_live s t \<and> \<not> same_resource t t'"
  using client_names_isolated [where calls = "[Scope_prepare [97] [112] [] [], Scope_prepare [98] [113] [] []]"
      and c = "[97]" and c' = "[98]"
      and t = "\<lparr>client_name = [97], upstream_name = [112], generation = 0\<rparr>"
      and t' = "\<lparr>client_name = [98], upstream_name = [113], generation = 1\<rparr>"]
  by (simp add: scope_run_def ResourceScope_new_def prepare_def allocate_def statement_is_live_def saturating_inc_def
      statement_def issued_def u64_max_def same_resource_def)



end
