(* ===== verification/Auth_Tables.thy ===== *)
theory Auth_Tables
  imports Grammar
begin

text \<open>
  The two authentication grammars as tables, one equation per phase: the event a received message projects to, and
  the phase that a message sent (\<open>sends\<close>) or received (\<open>receives\<close>) leads to.
\<close>

definition sends :: "('s, 'e, 'i, 'x) Protocol \<Rightarrow> 's \<Rightarrow> 'i \<Rightarrow> 's option" where
  "sends p s m = (case project_internal p s m of None \<Rightarrow> None | Some e \<Rightarrow> map_option rt_target (transition p s e))"

definition receives :: "('s, 'e, 'i, 'x) Protocol \<Rightarrow> 's \<Rightarrow> 'x \<Rightarrow> 's option" where
  "receives p s m = (case project_external p s m of None \<Rightarrow> None | Some e \<Rightarrow> map_option rt_target (transition p s e))"

lemmas authentication_table_defs = authentication_project authentication_phase_defs internal_arms_def external_arms_def choice_of_def grammar_defs

lemma authentication_internal_table:
  "project_internal authentication Au_Auth m = None"
  "project_internal authentication Au_PasswordResponse m = (if is_F_PasswordResponse m
       then Some AuE_Password
     else None)"
  "project_internal authentication Au_TokenResponse m = (if is_F_PasswordResponse m
       then Some AuE_Response
     else None)"
  "project_internal authentication Au_TokenChallenge m = None"
  "project_internal authentication Au_SaslInitial m = (if is_F_PasswordResponse m
       then Some AuE_Initial
     else None)"
  "project_internal authentication Au_Sasl m = None"
  "project_internal authentication Au_SaslChallenge m = (if is_F_PasswordResponse m
       then Some AuE_Response
     else None)"
  "project_internal authentication Au_SaslFinal m = None"
  "project_internal authentication Au_AwaitingAuthOk m = None"
  "project_internal authentication Au_AwaitingStartupReady m = None"
  "project_internal authentication Au_Ready m = None"
  "project_internal authentication Au_Terminated m = None"
  by (simp_all add: authentication_table_defs)

lemma authentication_external_table [simp]:
  "project_external authentication Au_Auth m = (if is_B_NegotiateProtocolVersion m
       then Some AuE_Negotiate
     else if m = B_Authentication Auth_Ok
       then Some AuE_Ok
     else if m = B_Authentication Auth_CleartextPassword
       then Some AuE_Cleartext
     else if authentication_is is_Auth_Md5Password m
       then Some AuE_Md5
     else if authentication_is is_Auth_Sasl m
       then Some AuE_Sasl
     else if m = B_Authentication Auth_Gss
       then Some AuE_Gss
     else if m = B_Authentication Auth_Sspi
       then Some AuE_Sspi
     else if m = B_Authentication Auth_KerberosV5
       then Some AuE_KerberosV5
     else if is_B_ErrorResponse m
       then Some AuE_Error
     else None)"
  "project_external authentication Au_PasswordResponse m = None"
  "project_external authentication Au_TokenResponse m = None"
  "project_external authentication Au_TokenChallenge m = (if authentication_is is_Auth_GssContinue m
       then Some AuE_Continue
     else if m = B_Authentication Auth_Ok
       then Some AuE_Ok
     else if is_B_ErrorResponse m
       then Some AuE_Error
     else None)"
  "project_external authentication Au_SaslInitial m = None"
  "project_external authentication Au_Sasl m = (if authentication_is is_Auth_SaslContinue m
       then Some AuE_Continue
     else if authentication_is is_Auth_SaslFinal m
       then Some AuE_Final
     else if is_B_ErrorResponse m
       then Some AuE_Error
     else None)"
  "project_external authentication Au_SaslChallenge m = None"
  "project_external authentication Au_SaslFinal m = None"
  "project_external authentication Au_AwaitingAuthOk m = (if m = B_Authentication Auth_Ok
       then Some AuE_Ok
     else if is_B_ErrorResponse m
       then Some AuE_Error
     else None)"
  "project_external authentication Au_AwaitingStartupReady m = (if is_B_ReadyForQuery m
       then Some AuE_Ready
     else None)"
  "project_external authentication Au_Ready m = None"
  "project_external authentication Au_Terminated m = None"
  by (simp_all add: authentication_table_defs)

lemma authentication_sends [simp]:
  "sends authentication Au_Auth m = None"
  "sends authentication Au_PasswordResponse m = (if is_F_PasswordResponse m
       then Some Au_AwaitingAuthOk
     else None)"
  "sends authentication Au_TokenResponse m = (if is_F_PasswordResponse m
       then Some Au_TokenChallenge
     else None)"
  "sends authentication Au_TokenChallenge m = None"
  "sends authentication Au_SaslInitial m = (if is_F_PasswordResponse m
       then Some Au_Sasl
     else None)"
  "sends authentication Au_Sasl m = None"
  "sends authentication Au_SaslChallenge m = (if is_F_PasswordResponse m
       then Some Au_Sasl
     else None)"
  "sends authentication Au_SaslFinal m = None"
  "sends authentication Au_AwaitingAuthOk m = None"
  "sends authentication Au_AwaitingStartupReady m = None"
  "sends authentication Au_Ready m = None"
  "sends authentication Au_Terminated m = None"
  by (simp_all add: sends_def authentication_internal_table authentication_transition authentication_phase_defs grammar_defs)

lemma authentication_receives [simp]:
  "receives authentication Au_Auth m = (if is_B_NegotiateProtocolVersion m
       then Some Au_Auth
     else if m = B_Authentication Auth_Ok
       then Some Au_AwaitingStartupReady
     else if m = B_Authentication Auth_CleartextPassword
       then Some Au_PasswordResponse
     else if authentication_is is_Auth_Md5Password m
       then Some Au_PasswordResponse
     else if authentication_is is_Auth_Sasl m
       then Some Au_SaslInitial
     else if m = B_Authentication Auth_Gss
       then Some Au_TokenResponse
     else if m = B_Authentication Auth_Sspi
       then Some Au_TokenResponse
     else if m = B_Authentication Auth_KerberosV5
       then Some Au_TokenResponse
     else if is_B_ErrorResponse m
       then Some Au_Terminated
     else None)"
  "receives authentication Au_PasswordResponse m = None"
  "receives authentication Au_TokenResponse m = None"
  "receives authentication Au_TokenChallenge m = (if authentication_is is_Auth_GssContinue m
       then Some Au_TokenResponse
     else if m = B_Authentication Auth_Ok
       then Some Au_AwaitingStartupReady
     else if is_B_ErrorResponse m
       then Some Au_Terminated
     else None)"
  "receives authentication Au_SaslInitial m = None"
  "receives authentication Au_Sasl m = (if authentication_is is_Auth_SaslContinue m
       then Some Au_SaslChallenge
     else if authentication_is is_Auth_SaslFinal m
       then Some Au_SaslFinal
     else if is_B_ErrorResponse m
       then Some Au_Terminated
     else None)"
  "receives authentication Au_SaslChallenge m = None"
  "receives authentication Au_SaslFinal m = None"
  "receives authentication Au_AwaitingAuthOk m = (if m = B_Authentication Auth_Ok
       then Some Au_AwaitingStartupReady
     else if is_B_ErrorResponse m
       then Some Au_Terminated
     else None)"
  "receives authentication Au_AwaitingStartupReady m = (if is_B_ReadyForQuery m
       then Some Au_Ready
     else None)"
  "receives authentication Au_Ready m = None"
  "receives authentication Au_Terminated m = None"
  by (simp_all add: receives_def authentication_transition authentication_phase_defs grammar_defs)

lemmas server_authentication_table_defs = server_authentication_project server_authentication_phase_defs internal_arms_def external_arms_def choice_of_def grammar_defs

lemma server_authentication_internal_table:
  "project_internal server_authentication Sa_Startup m = (if is_B_ErrorResponse m
       then Some SaE_Reject
     else None)"
  "project_internal server_authentication Sa_Auth m = (if is_B_NegotiateProtocolVersion m
       then Some SaE_Negotiate
     else if m = B_Authentication Auth_CleartextPassword
       then Some SaE_Cleartext
     else if authentication_is is_Auth_Md5Password m
       then Some SaE_Md5
     else if authentication_is is_Auth_Sasl m
       then Some SaE_Sasl
     else if m = B_Authentication Auth_Gss
       then Some SaE_Gss
     else if m = B_Authentication Auth_Sspi
       then Some SaE_Sspi
     else if m = B_Authentication Auth_KerberosV5
       then Some SaE_KerberosV5
     else if m = B_Authentication Auth_Ok
       then Some SaE_Ok
     else if is_B_ErrorResponse m
       then Some SaE_Error
     else None)"
  "project_internal server_authentication Sa_PasswordResponse m = None"
  "project_internal server_authentication Sa_SaslInitial m = None"
  "project_internal server_authentication Sa_Sasl m = (if authentication_is is_Auth_SaslContinue m
       then Some SaE_Continue
     else if authentication_is is_Auth_SaslFinal m
       then Some SaE_Final
     else if is_B_ErrorResponse m
       then Some SaE_Error
     else None)"
  "project_internal server_authentication Sa_SaslResponse m = None"
  "project_internal server_authentication Sa_TokenResponse m = None"
  "project_internal server_authentication Sa_TokenPolicy m = (if authentication_is is_Auth_GssContinue m
       then Some SaE_Continue
     else if is_B_ErrorResponse m
       then Some SaE_Error
     else None)"
  "project_internal server_authentication Sa_StartupReady m = (if is_B_ParameterStatus m
       then Some SaE_ParameterStatus
     else if is_B_BackendKeyData m
       then Some SaE_BackendKeyData
     else if is_B_ReadyForQuery m
       then Some SaE_Ready
     else None)"
  "project_internal server_authentication Sa_Ready m = None"
  "project_internal server_authentication Sa_Terminated m = None"
  by (simp_all add: server_authentication_table_defs)

lemma server_authentication_external_table [simp]:
  "project_external server_authentication Sa_Startup m = None"
  "project_external server_authentication Sa_Auth m = None"
  "project_external server_authentication Sa_PasswordResponse m = (if is_F_PasswordResponse m
       then Some SaE_Response
     else None)"
  "project_external server_authentication Sa_SaslInitial m = (if is_F_PasswordResponse m
       then Some SaE_Initial
     else None)"
  "project_external server_authentication Sa_Sasl m = None"
  "project_external server_authentication Sa_SaslResponse m = (if is_F_PasswordResponse m
       then Some SaE_Response
     else None)"
  "project_external server_authentication Sa_TokenResponse m = (if is_F_PasswordResponse m
       then Some SaE_Response
     else None)"
  "project_external server_authentication Sa_TokenPolicy m = None"
  "project_external server_authentication Sa_StartupReady m = None"
  "project_external server_authentication Sa_Ready m = None"
  "project_external server_authentication Sa_Terminated m = None"
  by (simp_all add: server_authentication_table_defs)

lemma server_authentication_sends [simp]:
  "sends server_authentication Sa_Startup m = (if is_B_ErrorResponse m
       then Some Sa_Terminated
     else None)"
  "sends server_authentication Sa_Auth m = (if is_B_NegotiateProtocolVersion m
       then Some Sa_Auth
     else if m = B_Authentication Auth_CleartextPassword
       then Some Sa_PasswordResponse
     else if authentication_is is_Auth_Md5Password m
       then Some Sa_PasswordResponse
     else if authentication_is is_Auth_Sasl m
       then Some Sa_SaslInitial
     else if m = B_Authentication Auth_Gss
       then Some Sa_TokenResponse
     else if m = B_Authentication Auth_Sspi
       then Some Sa_TokenResponse
     else if m = B_Authentication Auth_KerberosV5
       then Some Sa_TokenResponse
     else if m = B_Authentication Auth_Ok
       then Some Sa_StartupReady
     else if is_B_ErrorResponse m
       then Some Sa_Terminated
     else None)"
  "sends server_authentication Sa_PasswordResponse m = None"
  "sends server_authentication Sa_SaslInitial m = None"
  "sends server_authentication Sa_Sasl m = (if authentication_is is_Auth_SaslContinue m
       then Some Sa_SaslResponse
     else if authentication_is is_Auth_SaslFinal m
       then Some Sa_Auth
     else if is_B_ErrorResponse m
       then Some Sa_Terminated
     else None)"
  "sends server_authentication Sa_SaslResponse m = None"
  "sends server_authentication Sa_TokenResponse m = None"
  "sends server_authentication Sa_TokenPolicy m = (if authentication_is is_Auth_GssContinue m
       then Some Sa_TokenResponse
     else if is_B_ErrorResponse m
       then Some Sa_Terminated
     else None)"
  "sends server_authentication Sa_StartupReady m = (if is_B_ParameterStatus m
       then Some Sa_StartupReady
     else if is_B_BackendKeyData m
       then Some Sa_StartupReady
     else if is_B_ReadyForQuery m
       then Some Sa_Ready
     else None)"
  "sends server_authentication Sa_Ready m = None"
  "sends server_authentication Sa_Terminated m = None"
  by (simp_all add: sends_def server_authentication_internal_table server_authentication_transition server_authentication_phase_defs grammar_defs)

lemma server_authentication_receives [simp]:
  "receives server_authentication Sa_Startup m = None"
  "receives server_authentication Sa_Auth m = None"
  "receives server_authentication Sa_PasswordResponse m = (if is_F_PasswordResponse m
       then Some Sa_Auth
     else None)"
  "receives server_authentication Sa_SaslInitial m = (if is_F_PasswordResponse m
       then Some Sa_Sasl
     else None)"
  "receives server_authentication Sa_Sasl m = None"
  "receives server_authentication Sa_SaslResponse m = (if is_F_PasswordResponse m
       then Some Sa_Sasl
     else None)"
  "receives server_authentication Sa_TokenResponse m = (if is_F_PasswordResponse m
       then Some Sa_TokenPolicy
     else None)"
  "receives server_authentication Sa_TokenPolicy m = None"
  "receives server_authentication Sa_StartupReady m = None"
  "receives server_authentication Sa_Ready m = None"
  "receives server_authentication Sa_Terminated m = None"
  by (simp_all add: receives_def server_authentication_transition server_authentication_phase_defs grammar_defs)

end
