(* ===== verification/Auth.thy ===== *)
theory Auth
  imports Auth_Tables Demux
begin

text \<open>
  \<open>src/auth.rs\<close>: the client side of authentication.  The phases are those of the \<open>authentication\<close> grammar, whose
  marker types carry the same names; every connection here is pristine.  \<open>TypedConn\<close> is the connection of
  \<open>src/lib.rs\<close> with its two type parameters as fields.
\<close>

section \<open>Connections\<close>

record ('s, 'p) TypedConn =
  tc_transport :: 's
  tc_phase :: 'p
  tc_cleanliness :: Cleanliness

text \<open>\<open>self.transition()\<close>, which keeps the transport; the cleanliness is that of the result type.\<close>

definition into :: "('s, 'p) TypedConn \<Rightarrow> 'q \<Rightarrow> ('s, 'q) TypedConn" where
  "into c p = \<lparr>tc_transport = tc_transport c, tc_phase = p, tc_cleanliness = tc_cleanliness c\<rparr>"

definition into_dirty :: "('s, 'p) TypedConn \<Rightarrow> 'q \<Rightarrow> ('s, 'q) TypedConn" where
  "into_dirty c p = \<lparr>tc_transport = tc_transport c, tc_phase = p, tc_cleanliness = Dirty\<rparr>"

lemma into_simps [simp]:
  "tc_phase (into c p) = p" "tc_transport (into c p) = tc_transport c" "tc_cleanliness (into c p) = tc_cleanliness c"
  "tc_phase (into_dirty c p) = p" "tc_transport (into_dirty c p) = tc_transport c" "tc_cleanliness (into_dirty c p) = Dirty"
  by (simp_all add: into_def into_dirty_def)

lemma into_same [simp]: "tc_phase c = p \<Longrightarrow> into c p = c"
  by (simp add: into_def)

type_synonym 's AuthConn = "('s, authentication_state) TypedConn"

section \<open>The choices of the server\<close>

datatype 's AuthOffer =
    Offer_Ok "'s AuthConn"
  | Offer_Cleartext "'s AuthConn"
  | Offer_Md5 "'s AuthConn" "u8 \<times> u8 \<times> u8 \<times> u8"
  | Offer_Sasl "'s AuthConn" "bytes list"
  | Offer_Gss "'s AuthConn"
  | Offer_Sspi "'s AuthConn"
  | Offer_KerberosV5 "'s AuthConn"

datatype 's AuthEvent =
    AuthEvent_Authentication "'s AuthOffer"
  | AuthEvent_Negotiate "'s AuthConn" NegotiateProtocolVersion
  | AuthEvent_Error "'s AuthConn" DiagnosticResponse

datatype 's SaslEvent =
    SaslEvent_Continue "'s AuthConn" bytes
  | SaslEvent_Final "'s AuthConn" bytes
  | SaslEvent_Error "'s AuthConn" DiagnosticResponse

datatype 's AuthCompletion =
    AuthCompletion_Ok "'s AuthConn"
  | AuthCompletion_Error "'s AuthConn" DiagnosticResponse

datatype 's TokenAuthEvent =
    TokenEvent_Continue "'s AuthConn" bytes
  | TokenEvent_Ok "'s AuthConn"
  | TokenEvent_Error "'s AuthConn" DiagnosticResponse

section \<open>Operations\<close>

definition project_authentication :: "authentication_state \<Rightarrow> Authentication \<Rightarrow> authentication_event option" where
  "project_authentication state a = project_external authentication state (B_Authentication a)"

definition continuation_error :: io_error where
  "continuation_error = IoError InvalidData ''authentication continuation before mechanism selection''"

definition auth_offer :: "'s AuthConn \<Rightarrow> Authentication \<Rightarrow> io_error + 's AuthOffer" where
  "auth_offer c a = (let e = project_authentication Au_Auth a in
     case a of
       Auth_Ok \<Rightarrow> if e = Some AuE_Ok then Inr (Offer_Ok (into c Au_AwaitingStartupReady)) else Inl continuation_error
     | Auth_CleartextPassword \<Rightarrow>
         if e = Some AuE_Cleartext then Inr (Offer_Cleartext (into c Au_PasswordResponse)) else Inl continuation_error
     | Auth_Md5Password salt \<Rightarrow>
         if e = Some AuE_Md5 then Inr (Offer_Md5 (into c Au_PasswordResponse) salt) else Inl continuation_error
     | Auth_Sasl mechanisms \<Rightarrow>
         if e = Some AuE_Sasl then Inr (Offer_Sasl (into c Au_SaslInitial) mechanisms) else Inl continuation_error
     | Auth_Gss \<Rightarrow> if e = Some AuE_Gss then Inr (Offer_Gss (into c Au_TokenResponse)) else Inl continuation_error
     | Auth_Sspi \<Rightarrow> if e = Some AuE_Sspi then Inr (Offer_Sspi (into c Au_TokenResponse)) else Inl continuation_error
     | Auth_KerberosV5 \<Rightarrow>
         if e = Some AuE_KerberosV5 then Inr (Offer_KerberosV5 (into c Au_TokenResponse)) else Inl continuation_error
     | _ \<Rightarrow> Inl continuation_error)"

text \<open>The \<open>expect\<close> on the inner \<open>offer\<close> is a panic.\<close>

definition auth_offer_backend ::
  "'s AuthConn \<Rightarrow> BackendMessage \<Rightarrow> ('s AuthConn \<times> BackendMessage \<times> io_error option + 's AuthEvent) exec" where
  "auth_offer_backend c message = (case message of
     B_Authentication (Auth_GssContinue _) \<Rightarrow> Done (Inl (c, message, Some continuation_error))
   | B_Authentication (Auth_SaslContinue _) \<Rightarrow> Done (Inl (c, message, Some continuation_error))
   | B_Authentication (Auth_SaslFinal _) \<Rightarrow> Done (Inl (c, message, Some continuation_error))
   | B_Authentication a \<Rightarrow> (case auth_offer c a of
       Inl _ \<Rightarrow> Panic
     | Inr offer \<Rightarrow> Done (Inr (AuthEvent_Authentication offer)))
   | B_NegotiateProtocolVersion n \<Rightarrow> Done (Inr (AuthEvent_Negotiate c n))
   | B_ErrorResponse error \<Rightarrow> Done (Inr (AuthEvent_Error (into c Au_Terminated) error))
   | _ \<Rightarrow> Done (Inl (c, message, None)))"

definition token_respond :: "'s AuthConn \<Rightarrow> bytes \<Rightarrow> 's AuthConn \<times> Frame" where
  "token_respond c token = (into c Au_TokenChallenge, frame (byte CHR ''p'') token)"

definition token_offer :: "'s AuthConn \<Rightarrow> BackendMessage \<Rightarrow> 's AuthConn \<times> BackendMessage + 's TokenAuthEvent" where
  "token_offer c message = (let e = project_external authentication Au_TokenChallenge message in
     case message of
       B_Authentication (Auth_GssContinue token) \<Rightarrow>
         if e = Some AuE_Continue then Inr (TokenEvent_Continue (into c Au_TokenResponse) token) else Inl (c, message)
     | B_Authentication Auth_Ok \<Rightarrow>
         if e = Some AuE_Ok then Inr (TokenEvent_Ok (into c Au_AwaitingStartupReady)) else Inl (c, message)
     | B_ErrorResponse error \<Rightarrow>
         if e = Some AuE_Error then Inr (TokenEvent_Error (into c Au_Terminated) error) else Inl (c, message)
     | _ \<Rightarrow> Inl (c, message))"

definition password :: "'s AuthConn \<Rightarrow> bytes \<Rightarrow> io_error + 's AuthConn \<times> Frame" where
  "password c secret =
     (if 0 \<in> set secret then Inl (invalid_input ''password response contains a NUL byte'')
      else Inr (into c Au_AwaitingAuthOk, frame (byte CHR ''p'') (secret @ [0])))"

definition sasl_initial :: "'s AuthConn \<Rightarrow> bytes \<Rightarrow> bytes \<Rightarrow> io_error + 's AuthConn \<times> Frame" where
  "sasl_initial c mechanism initial =
     (if length initial > i32_max then Inl (invalid_input ''SASL response too large'')
      else Inr (into c Au_Sasl,
        frame (byte CHR ''p'') (mechanism @ [0] @ be32 (word_of_nat (length initial)) @ initial)))"

definition sasl :: "'s AuthConn \<Rightarrow> bytes \<Rightarrow> bytes \<Rightarrow> io_error + 's AuthConn \<times> Frame" where
  "sasl c mechanism initial = sasl_initial c mechanism initial"

definition scram_sha_256 :: "'s AuthConn \<Rightarrow> bytes \<Rightarrow> io_error + 's AuthConn \<times> Frame" where
  "scram_sha_256 c initial = sasl_initial c (bstr ''SCRAM-SHA-256'') initial"

definition scram_sha_256_plus :: "'s AuthConn \<Rightarrow> bytes \<Rightarrow> io_error + 's AuthConn \<times> Frame" where
  "scram_sha_256_plus c initial = sasl_initial c (bstr ''SCRAM-SHA-256-PLUS'') initial"

definition sasl_offer :: "'s AuthConn \<Rightarrow> Authentication \<Rightarrow> 's AuthConn \<times> Authentication + 's SaslEvent" where
  "sasl_offer c a = (let e = project_authentication Au_Sasl a in
     case a of
       Auth_SaslContinue challenge \<Rightarrow>
         if e = Some AuE_Continue then Inr (SaslEvent_Continue (into c Au_SaslChallenge) challenge) else Inl (c, a)
     | Auth_SaslFinal server_final \<Rightarrow>
         if e = Some AuE_Final then Inr (SaslEvent_Final (into c Au_SaslFinal) server_final) else Inl (c, a)
     | _ \<Rightarrow> Inl (c, a))"

definition sasl_offer_backend :: "'s AuthConn \<Rightarrow> BackendMessage \<Rightarrow> 's AuthConn \<times> BackendMessage + 's SaslEvent" where
  "sasl_offer_backend c message = (case message of
     B_Authentication a \<Rightarrow> map_sum (\<lambda>(c, a). (c, B_Authentication a)) id (sasl_offer c a)
   | B_ErrorResponse error \<Rightarrow> Inr (SaslEvent_Error (into c Au_Terminated) error)
   | _ \<Rightarrow> Inl (c, message))"

definition sasl_respond :: "'s AuthConn \<Rightarrow> bytes \<Rightarrow> 's AuthConn \<times> Frame" where
  "sasl_respond c response = (into c Au_Sasl, frame (byte CHR ''p'') response)"

definition sasl_verified :: "'s AuthConn \<Rightarrow> 's AuthConn" where
  "sasl_verified c = into c Au_AwaitingAuthOk"

definition auth_ok_offer :: "'s AuthConn \<Rightarrow> BackendMessage \<Rightarrow> 's AuthConn \<times> BackendMessage + 's AuthCompletion" where
  "auth_ok_offer c message = (let e = project_external authentication Au_AwaitingAuthOk message in
     case message of
       B_Authentication Auth_Ok \<Rightarrow>
         if e = Some AuE_Ok then Inr (AuthCompletion_Ok (into c Au_AwaitingStartupReady)) else Inl (c, message)
     | B_ErrorResponse error \<Rightarrow>
         if e = Some AuE_Error then Inr (AuthCompletion_Error (into c Au_Terminated) error) else Inl (c, message)
     | _ \<Rightarrow> Inl (c, message))"

definition offer_ready :: "'s AuthConn \<Rightarrow> SessionItem \<Rightarrow> 's AuthConn \<times> SessionItem + 's AuthConn" where
  "offer_ready c item =
     (if item = Item_ReadyForQuery Idle False then Inr (into c Au_Ready) else Inl (c, item))"

end
