(* ===== verification/Server_Auth.thy ===== *)
theory Server_Auth
  imports Auth Startup
begin

text \<open>
  \<open>src/server_auth.rs\<close>: the server side of authentication.  A phase is a marker type of the file; \<open>sa_phase\<close> gives the
  phase of the \<open>server_authentication\<close> grammar that its association names.
\<close>

section \<open>Phases and data\<close>

datatype server_auth_phase =
    Sv_Startup | ServerStartupValidated | ServerStartupRejected | ServerAuth | ServerPassword | ServerSaslInitial
  | ServerSasl | ServerSaslResponse | ServerAuthResponse | ServerAuthPolicy | ServerStartupReady | Sv_Ready | Sv_Terminated

type_synonym 's ServerAuthConn = "('s, server_auth_phase) TypedConn"

datatype 's ServerProtocolOffer =
    Protocol_Supported "'s ServerAuthConn" StartupMessage "ProtocolVersion option"
  | Protocol_Rejected "'s ServerAuthConn" StartupMessage

record SaslInitialResponse =
  sir_mechanism :: bytes
  sir_response :: "bytes option"

text \<open>An error returns the connection and the message.\<close>

type_synonym ('t, 's) projected = "'s ServerAuthConn \<times> FrontendMessage + 's ServerAuthConn \<times> 't"

section \<open>Startup\<close>

definition validate_protocol :: "'s ServerAuthConn \<Rightarrow> StartupMessage \<Rightarrow> ProtocolVersion \<Rightarrow> 's ServerProtocolOffer" where
  "validate_protocol c message newest_version =
     (if major (startup_version message) = major newest_version
      then Protocol_Supported (into c ServerStartupValidated) message
        (if minor (startup_version message) > minor newest_version then Some newest_version else None)
      else Protocol_Rejected (into c ServerStartupRejected) message)"

definition begin_server_auth :: "'s ServerAuthConn \<Rightarrow> 's ServerAuthConn" where
  "begin_server_auth c = into c ServerAuth"

definition rejected_error :: "'s ServerAuthConn \<Rightarrow> DiagnosticResponse \<Rightarrow> io_error + 's ServerAuthConn \<times> Frame" where
  "rejected_error c response = result_map (\<lambda>f. (into c Sv_Terminated, f)) (BackendMessage_to_frame (B_ErrorResponse response))"

section \<open>Requests\<close>

definition transition_with_frame :: "'s ServerAuthConn \<Rightarrow> server_auth_phase \<Rightarrow> io_error + Frame
    \<Rightarrow> io_error + 's ServerAuthConn \<times> Frame" where
  "transition_with_frame c entered r = result_map (\<lambda>f. (into c entered, f)) r"

definition auth_frame :: "Authentication \<Rightarrow> io_error + Frame" where
  "auth_frame a = BackendMessage_to_frame (B_Authentication a)"

definition request_cleartext :: "'s ServerAuthConn \<Rightarrow> io_error + 's ServerAuthConn \<times> Frame" where
  "request_cleartext c = transition_with_frame c ServerPassword (auth_frame Auth_CleartextPassword)"

definition request_md5 :: "'s ServerAuthConn \<Rightarrow> u8 \<times> u8 \<times> u8 \<times> u8 \<Rightarrow> io_error + 's ServerAuthConn \<times> Frame" where
  "request_md5 c salt = transition_with_frame c ServerPassword (auth_frame (Auth_Md5Password salt))"

definition request_sasl :: "'s ServerAuthConn \<Rightarrow> bytes list \<Rightarrow> io_error + 's ServerAuthConn \<times> Frame" where
  "request_sasl c mechanisms = transition_with_frame c ServerSaslInitial (auth_frame (Auth_Sasl mechanisms))"

definition request_kerberos_v5 :: "'s ServerAuthConn \<Rightarrow> io_error + 's ServerAuthConn \<times> Frame" where
  "request_kerberos_v5 c = transition_with_frame c ServerAuthResponse (auth_frame Auth_KerberosV5)"

definition request_gss :: "'s ServerAuthConn \<Rightarrow> io_error + 's ServerAuthConn \<times> Frame" where
  "request_gss c = transition_with_frame c ServerAuthResponse (auth_frame Auth_Gss)"

definition request_sspi :: "'s ServerAuthConn \<Rightarrow> io_error + 's ServerAuthConn \<times> Frame" where
  "request_sspi c = transition_with_frame c ServerAuthResponse (auth_frame Auth_Sspi)"

definition authentication_ok :: "'s ServerAuthConn \<Rightarrow> io_error + 's ServerAuthConn \<times> Frame" where
  "authentication_ok c = transition_with_frame c ServerStartupReady (auth_frame Auth_Ok)"

section \<open>Responses\<close>

definition password_body :: "bytes \<Rightarrow> bytes + bytes" where
  "password_body body =
     (if body \<noteq> [] \<and> last body = 0 \<and> 0 \<notin> set (butlast body) then Inr (butlast body) else Inl body)"

text \<open>\<open>position\<close> of the first NUL, \<open>split_to\<close> and \<open>advance\<close>; a length that is negative as an \<open>i32\<close> has no \<open>usize\<close>.\<close>

definition sasl_initial_body :: "bytes \<Rightarrow> bytes + SaslInitialResponse" where
  "sasl_initial_body body =
     (if 0 \<notin> set body then Inl body
      else let mechanism = takeWhile (\<lambda>b. b \<noteq> 0) body; rest = drop (length mechanism + 1) body in
        if length rest < 4 then Inl body
        else let len = of_be32 (take 4 rest); rest = drop 4 rest in
          if len = - 1 \<and> rest = [] then Inr \<lparr>sir_mechanism = mechanism, sir_response = None\<rparr>
          else if sint len < 0 then Inl body
          else if length rest \<noteq> nat (sint len) then Inl body
          else Inr \<lparr>sir_mechanism = mechanism, sir_response = Some rest\<rparr>)"

definition receive_password :: "'s ServerAuthConn \<Rightarrow> FrontendMessage \<Rightarrow> (bytes, 's) projected" where
  "receive_password c message = (case message of
     F_PasswordResponse body \<Rightarrow>
       if project_external server_authentication Sa_PasswordResponse message = Some SaE_Response
       then (case password_body body of
         Inr secret \<Rightarrow> Inr (into c ServerAuth, secret)
       | Inl body \<Rightarrow> Inl (c, F_PasswordResponse body))
       else Inl (c, message)
   | _ \<Rightarrow> Inl (c, message))"

definition receive_initial :: "'s ServerAuthConn \<Rightarrow> FrontendMessage \<Rightarrow> (SaslInitialResponse, 's) projected" where
  "receive_initial c message = (case message of
     F_PasswordResponse body \<Rightarrow>
       if project_external server_authentication Sa_SaslInitial message = Some SaE_Initial
       then (case sasl_initial_body body of
         Inr initial \<Rightarrow> Inr (into c ServerSasl, initial)
       | Inl body \<Rightarrow> Inl (c, F_PasswordResponse body))
       else Inl (c, message)
   | _ \<Rightarrow> Inl (c, message))"

definition continue_with :: "'s ServerAuthConn \<Rightarrow> bytes \<Rightarrow> io_error + 's ServerAuthConn \<times> Frame" where
  "continue_with c challenge = transition_with_frame c ServerSaslResponse (auth_frame (Auth_SaslContinue challenge))"

definition finish_sasl :: "'s ServerAuthConn \<Rightarrow> bytes \<Rightarrow> io_error + 's ServerAuthConn \<times> Frame" where
  "finish_sasl c server_final = transition_with_frame c ServerAuth (auth_frame (Auth_SaslFinal server_final))"

definition receive_sasl_response :: "'s ServerAuthConn \<Rightarrow> FrontendMessage \<Rightarrow> (bytes, 's) projected" where
  "receive_sasl_response c message = (case message of
     F_PasswordResponse response \<Rightarrow>
       if project_external server_authentication Sa_SaslResponse message = Some SaE_Response
       then Inr (into c ServerSasl, response) else Inl (c, message)
   | _ \<Rightarrow> Inl (c, message))"

definition receive_token_response :: "'s ServerAuthConn \<Rightarrow> FrontendMessage \<Rightarrow> (bytes, 's) projected" where
  "receive_token_response c message = (case message of
     F_PasswordResponse response \<Rightarrow>
       if project_external server_authentication Sa_TokenResponse message = Some SaE_Response
       then Inr (into c ServerAuthPolicy, response) else Inl (c, message)
   | _ \<Rightarrow> Inl (c, message))"

definition continue_gss :: "'s ServerAuthConn \<Rightarrow> bytes \<Rightarrow> io_error + 's ServerAuthConn \<times> Frame" where
  "continue_gss c token = transition_with_frame c ServerAuthResponse (auth_frame (Auth_GssContinue token))"

definition token_verified :: "'s ServerAuthConn \<Rightarrow> 's ServerAuthConn" where
  "token_verified c = into c ServerAuth"

section \<open>Startup completion\<close>

definition parameter_status :: "'s ServerAuthConn \<Rightarrow> bytes \<Rightarrow> bytes \<Rightarrow> io_error + 's ServerAuthConn \<times> Frame" where
  "parameter_status c name v = result_map (\<lambda>f. (c, f)) (BackendMessage_to_frame (B_ParameterStatus name v))"

definition backend_key_data :: "'s ServerAuthConn \<Rightarrow> u32 \<Rightarrow> bytes \<Rightarrow> io_error + 's ServerAuthConn \<times> Frame" where
  "backend_key_data c process_id secret_key =
     (if \<not> (4 \<le> length secret_key \<and> length secret_key \<le> 256)
      then Inl (invalid_input ''cancellation key length is outside 4..=256'')
      else result_map (\<lambda>f. (c, f)) (BackendMessage_to_frame (B_BackendKeyData process_id secret_key)))"

definition negotiate_protocol ::
  "'s ServerAuthConn \<Rightarrow> ProtocolVersion \<Rightarrow> bytes list \<Rightarrow> io_error + 's ServerAuthConn \<times> Frame" where
  "negotiate_protocol c version unsupported = result_map (\<lambda>f. (c, f)) (BackendMessage_to_frame
     (B_NegotiateProtocolVersion \<lparr>newest = version, unsupported_options = unsupported\<rparr>))"

definition startup_ready :: "'s ServerAuthConn \<Rightarrow> io_error + 's ServerAuthConn \<times> Frame" where
  "startup_ready c = result_map (\<lambda>f. (into c Sv_Ready, f)) (BackendMessage_to_frame (B_ReadyForQuery Idle))"

text \<open>The associations of \<open>src/grammar.rs\<close>.\<close>

fun sa_phase :: "server_auth_phase \<Rightarrow> server_authentication_state" where
  "sa_phase Sv_Startup = Sa_Startup"
| "sa_phase ServerStartupValidated = Sa_Startup"
| "sa_phase ServerStartupRejected = Sa_Startup"
| "sa_phase ServerAuth = Sa_Auth"
| "sa_phase ServerPassword = Sa_PasswordResponse"
| "sa_phase ServerSaslInitial = Sa_SaslInitial"
| "sa_phase ServerSasl = Sa_Sasl"
| "sa_phase ServerSaslResponse = Sa_SaslResponse"
| "sa_phase ServerAuthResponse = Sa_TokenResponse"
| "sa_phase ServerAuthPolicy = Sa_TokenPolicy"
| "sa_phase ServerStartupReady = Sa_StartupReady"
| "sa_phase Sv_Ready = Sa_Ready"
| "sa_phase Sv_Terminated = Sa_Terminated"

end
