(* ===== verification/Auth_Laws.thy ===== *)
theory Auth_Laws
  imports Server_Auth
begin

text \<open>
  The bodies of password messages on both sides, and the typed authentication operations against the grammars.
\<close>

section \<open>Password bodies\<close>

lemma password_body_iff: "(password_body body = Inr secret) = (0 \<notin> set secret \<and> body = secret @ [0])"
proof
  assume "password_body body = Inr secret"
  then have body: "body \<noteq> []" "last body = 0" "0 \<notin> set secret" "secret = butlast body"
    by (auto simp: password_body_def split: if_splits)
  then show "0 \<notin> set secret \<and> body = secret @ [0]"
    using append_butlast_last_id [of body] by simp
qed (auto simp: password_body_def)

text \<open>What the initial response of a mechanism looks like on the wire.\<close>

definition initial_response_bytes :: "SaslInitialResponse \<Rightarrow> bytes" where
  "initial_response_bytes r = sir_mechanism r @ [0] @ (case sir_response r of
     None \<Rightarrow> be32 (- 1)
   | Some v \<Rightarrow> be32 (word_of_nat (length v)) @ v)"

definition initial_response_ok :: "SaslInitialResponse \<Rightarrow> bool" where
  "initial_response_ok r =
     (0 \<notin> set (sir_mechanism r) \<and> (case sir_response r of None \<Rightarrow> True | Some v \<Rightarrow> length v \<le> i32_max))"

lemma split_at_nul: "0 \<in> set body \<Longrightarrow> body = takeWhile (\<lambda>b. b \<noteq> 0) body @ 0 # drop (length (takeWhile (\<lambda>b. b \<noteq> (0::u8)) body) + 1) body"
proof (induction body)
  case (Cons b body)
  then show ?case by (cases "b = 0") auto
qed simp

lemma takeWhile_nul: "0 \<notin> set m \<Longrightarrow> takeWhile (\<lambda>b. b \<noteq> (0::u8)) (m @ 0 # r) = m"
  by (induction m) auto

lemma sasl_initial_body_bytes:
  assumes "initial_response_ok r"
  shows "sasl_initial_body (initial_response_bytes r) = Inr r"
proof (cases "sir_response r")
  case None
  then show ?thesis
    using assms by (cases r) (simp add: sasl_initial_body_def initial_response_bytes_def initial_response_ok_def takeWhile_nul Let_def)
next
  case (Some v)
  then show ?thesis
    using assms i32_length_word [of "length v"]
    by (cases r) (simp add: sasl_initial_body_def initial_response_bytes_def initial_response_ok_def takeWhile_nul Let_def)
qed

lemma sasl_initial_body_Inr:
  assumes "sasl_initial_body body = Inr r"
  shows "initial_response_ok r \<and> body = initial_response_bytes r"
proof -
  define m where "m = takeWhile (\<lambda>b. b \<noteq> (0::u8)) body"
  define rest where "rest = drop (length m + 1) body"
  define len where "len = of_be32 (take 4 rest)"
  from assms have nul: "0 \<in> set body" and four: "4 \<le> length rest"
    by (auto simp: sasl_initial_body_def Let_def m_def rest_def split: if_splits)
  have body: "body = m @ 0 # rest" using split_at_nul [OF nul] by (simp add: m_def rest_def)
  have m: "0 \<notin> set m" unfolding m_def by (auto dest: set_takeWhileD)
  define tail where "tail = drop 4 rest"
  have rest: "rest = be32 len @ tail"
    using four by (simp add: len_def tail_def be32_of_be32)
  have eq: "sasl_initial_body body =
      (if len = - 1 \<and> tail = [] then Inr \<lparr>sir_mechanism = m, sir_response = None\<rparr>
       else if sint len < 0 then Inl body
       else if length tail \<noteq> nat (sint len) then Inl body
       else Inr \<lparr>sir_mechanism = m, sir_response = Some tail\<rparr>)"
    unfolding sasl_initial_body_def Let_def m_def [symmetric] rest_def [symmetric] len_def [symmetric] tail_def [symmetric]
    using nul four by (simp only: not_less [symmetric] if_False if_True not_not not_True_eq_False)
  consider (none) "len = - 1" "tail = []" "r = \<lparr>sir_mechanism = m, sir_response = None\<rparr>"
    | (some) "0 \<le> sint len" "length tail = nat (sint len)" "r = \<lparr>sir_mechanism = m, sir_response = Some tail\<rparr>"
    using assms unfolding eq by (auto simp: not_less split: if_splits)
  then show ?thesis
  proof cases
    case none
    then show ?thesis
      by (simp add: body rest m initial_response_bytes_def initial_response_ok_def)
  next
    case some
    with i32_word_length [OF some(1)] show ?thesis
      by (simp add: body rest m initial_response_bytes_def initial_response_ok_def)
  qed
qed

lemma sasl_initial_body_iff:
  "(sasl_initial_body body = Inr r) = (initial_response_ok r \<and> body = initial_response_bytes r)"
  using sasl_initial_body_Inr sasl_initial_body_bytes by blast

section \<open>The client against its grammar\<close>

fun offer_conn :: "'s AuthOffer \<Rightarrow> 's AuthConn" where
  "offer_conn (Offer_Ok c) = c" | "offer_conn (Offer_Cleartext c) = c" | "offer_conn (Offer_Md5 c _) = c"
| "offer_conn (Offer_Sasl c _) = c" | "offer_conn (Offer_Gss c) = c" | "offer_conn (Offer_Sspi c) = c"
| "offer_conn (Offer_KerberosV5 c) = c"

fun auth_event_conn :: "'s AuthEvent \<Rightarrow> 's AuthConn" where
  "auth_event_conn (AuthEvent_Authentication offer) = offer_conn offer"
| "auth_event_conn (AuthEvent_Negotiate c _) = c" | "auth_event_conn (AuthEvent_Error c _) = c"

fun sasl_event_conn :: "'s SaslEvent \<Rightarrow> 's AuthConn" where
  "sasl_event_conn (SaslEvent_Continue c _) = c" | "sasl_event_conn (SaslEvent_Final c _) = c"
| "sasl_event_conn (SaslEvent_Error c _) = c"

fun token_event_conn :: "'s TokenAuthEvent \<Rightarrow> 's AuthConn" where
  "token_event_conn (TokenEvent_Continue c _) = c" | "token_event_conn (TokenEvent_Ok c) = c"
| "token_event_conn (TokenEvent_Error c _) = c"

fun completion_conn :: "'s AuthCompletion \<Rightarrow> 's AuthConn" where
  "completion_conn (AuthCompletion_Ok c) = c" | "completion_conn (AuthCompletion_Error c _) = c"

text \<open>The operation that receives a backend message in each phase; \<open>None\<close> when it refuses the message or there is none.\<close>

definition auth_receive :: "'s AuthConn \<Rightarrow> BackendMessage \<Rightarrow> 's AuthConn option exec" where
  "auth_receive c m = (case tc_phase c of
     Au_Auth \<Rightarrow> (case auth_offer_backend c m of
       Panic \<Rightarrow> Panic | Done (Inl _) \<Rightarrow> Done None | Done (Inr e) \<Rightarrow> Done (Some (auth_event_conn e)))
   | Au_TokenChallenge \<Rightarrow> Done (case token_offer c m of Inl _ \<Rightarrow> None | Inr e \<Rightarrow> Some (token_event_conn e))
   | Au_Sasl \<Rightarrow> Done (case sasl_offer_backend c m of Inl _ \<Rightarrow> None | Inr e \<Rightarrow> Some (sasl_event_conn e))
   | Au_AwaitingAuthOk \<Rightarrow> Done (case auth_ok_offer c m of Inl _ \<Rightarrow> None | Inr e \<Rightarrow> Some (completion_conn e))
   | _ \<Rightarrow> Done None)"

lemmas auth_offer_defs = auth_offer_backend_def auth_offer_def token_offer_def sasl_offer_backend_def sasl_offer_def
  auth_ok_offer_def project_authentication_def Let_def authentication_is_def

lemma auth_receive_phase:
  assumes "tc_phase c \<noteq> Au_AwaitingStartupReady"
  shows "\<exists>r. auth_receive c m = Done r \<and> map_option tc_phase r = receives authentication (tc_phase c) m"
proof (cases m)
  case (B_Authentication a)
  with assms show ?thesis
    by (cases "tc_phase c"; cases a) (simp_all add: auth_receive_def auth_offer_defs)
qed (use assms in \<open>cases "tc_phase c"; simp add: auth_receive_def auth_offer_defs; fail\<close>)+

text \<open>The operations that send.\<close>

datatype client_auth_call =
    Call_password bytes | Call_sasl bytes bytes | Call_scram bytes | Call_scram_plus bytes
  | Call_sasl_respond bytes | Call_token_respond bytes

fun auth_call :: "'s AuthConn \<Rightarrow> client_auth_call \<Rightarrow> (io_error + 's AuthConn \<times> Frame) option" where
  "auth_call c (Call_password secret) = (if tc_phase c = Au_PasswordResponse then Some (password c secret) else None)"
| "auth_call c (Call_sasl mechanism initial) = (if tc_phase c = Au_SaslInitial then Some (sasl c mechanism initial) else None)"
| "auth_call c (Call_scram initial) = (if tc_phase c = Au_SaslInitial then Some (scram_sha_256 c initial) else None)"
| "auth_call c (Call_scram_plus initial) = (if tc_phase c = Au_SaslInitial then Some (scram_sha_256_plus c initial) else None)"
| "auth_call c (Call_sasl_respond response) =
     (if tc_phase c = Au_SaslChallenge then Some (Inr (sasl_respond c response)) else None)"
| "auth_call c (Call_token_respond token) =
     (if tc_phase c = Au_TokenResponse then Some (Inr (token_respond c token)) else None)"

lemmas auth_send_defs = password_def sasl_def scram_sha_256_def scram_sha_256_plus_def sasl_initial_def sasl_respond_def
  token_respond_def

lemma decode_password_response: "Frontend_decode (frame 112 body) = Inr (F_PasswordResponse body)"
  by (simp add: Frontend_decode_iff)

text \<open>The server operation that receives a frontend message in each phase.\<close>

definition server_auth_receive :: "'s ServerAuthConn \<Rightarrow> FrontendMessage \<Rightarrow> 's ServerAuthConn option" where
  "server_auth_receive c m = (case tc_phase c of
     ServerPassword \<Rightarrow> (case receive_password c m of Inl _ \<Rightarrow> None | Inr (c', _) \<Rightarrow> Some c')
   | ServerSaslInitial \<Rightarrow> (case receive_initial c m of Inl _ \<Rightarrow> None | Inr (c', _) \<Rightarrow> Some c')
   | ServerSaslResponse \<Rightarrow> (case receive_sasl_response c m of Inl _ \<Rightarrow> None | Inr (c', _) \<Rightarrow> Some c')
   | ServerAuthResponse \<Rightarrow> (case receive_token_response c m of Inl _ \<Rightarrow> None | Inr (c', _) \<Rightarrow> Some c')
   | _ \<Rightarrow> None)"

lemmas server_receive_defs = server_auth_receive_def receive_password_def receive_initial_def receive_sasl_response_def
  receive_token_response_def

text \<open>The bodies the server refuses although its grammar takes every password message.\<close>

definition malformed_body :: "server_auth_phase \<Rightarrow> bytes \<Rightarrow> bool" where
  "malformed_body p body = (p = ServerPassword \<and> \<not> is_ok (password_body body) \<or>
     p = ServerSaslInitial \<and> \<not> is_ok (sasl_initial_body body))"

lemma server_receive_phase:
  "map_option (sa_phase \<circ> tc_phase) (server_auth_receive c m) =
    (if \<exists>body. m = F_PasswordResponse body \<and> malformed_body (tc_phase c) body then None
     else receives server_authentication (sa_phase (tc_phase c)) m)"
  by (cases m; cases "tc_phase c")
    (auto simp: server_receive_defs malformed_body_def is_ok_iff split: sum.splits)

section \<open>The server against its grammar\<close>

datatype server_auth_request =
    Req_cleartext | Req_md5 "u8 \<times> u8 \<times> u8 \<times> u8" | Req_sasl "bytes list" | Req_kerberos | Req_gss | Req_sspi
  | Req_ok | Req_reject DiagnosticResponse | Req_continue bytes | Req_finish bytes | Req_continue_gss bytes
  | Req_parameter bytes bytes | Req_key u32 bytes | Req_negotiate ProtocolVersion "bytes list" | Req_ready

abbreviation in_phase :: "'s ServerAuthConn \<Rightarrow> server_auth_phase \<Rightarrow> 'r \<Rightarrow> 'r option" where
  "in_phase c p r \<equiv> (if tc_phase c = p then Some r else None)"

fun server_auth_call :: "'s ServerAuthConn \<Rightarrow> server_auth_request \<Rightarrow> (io_error + 's ServerAuthConn \<times> Frame) option" where
  "server_auth_call c Req_cleartext = in_phase c ServerAuth (request_cleartext c)"
| "server_auth_call c (Req_md5 salt) = in_phase c ServerAuth (request_md5 c salt)"
| "server_auth_call c (Req_sasl mechanisms) = in_phase c ServerAuth (request_sasl c mechanisms)"
| "server_auth_call c Req_kerberos = in_phase c ServerAuth (request_kerberos_v5 c)"
| "server_auth_call c Req_gss = in_phase c ServerAuth (request_gss c)"
| "server_auth_call c Req_sspi = in_phase c ServerAuth (request_sspi c)"
| "server_auth_call c Req_ok = in_phase c ServerAuth (authentication_ok c)"
| "server_auth_call c (Req_reject response) = in_phase c ServerStartupRejected (rejected_error c response)"
| "server_auth_call c (Req_continue challenge) = in_phase c ServerSasl (continue_with c challenge)"
| "server_auth_call c (Req_finish v) = in_phase c ServerSasl (finish_sasl c v)"
| "server_auth_call c (Req_continue_gss token) = in_phase c ServerAuthPolicy (continue_gss c token)"
| "server_auth_call c (Req_parameter name v) = in_phase c ServerStartupReady (parameter_status c name v)"
| "server_auth_call c (Req_key pid secret) = in_phase c ServerStartupReady (backend_key_data c pid secret)"
| "server_auth_call c (Req_negotiate v options) = in_phase c ServerStartupReady (negotiate_protocol c v options)"
| "server_auth_call c Req_ready = in_phase c ServerStartupReady (startup_ready c)"

lemmas server_send_defs = request_cleartext_def request_md5_def request_sasl_def request_kerberos_v5_def request_gss_def
  request_sspi_def authentication_ok_def rejected_error_def continue_with_def finish_sasl_def continue_gss_def
  parameter_status_def backend_key_data_def negotiate_protocol_def startup_ready_def transition_with_frame_def auth_frame_def

fun call_sends_message :: "server_auth_request \<Rightarrow> BackendMessage" where
  "call_sends_message Req_cleartext = B_Authentication Auth_CleartextPassword"
| "call_sends_message (Req_md5 salt) = B_Authentication (Auth_Md5Password salt)"
| "call_sends_message (Req_sasl mechanisms) = B_Authentication (Auth_Sasl mechanisms)"
| "call_sends_message Req_kerberos = B_Authentication Auth_KerberosV5"
| "call_sends_message Req_gss = B_Authentication Auth_Gss"
| "call_sends_message Req_sspi = B_Authentication Auth_Sspi"
| "call_sends_message Req_ok = B_Authentication Auth_Ok"
| "call_sends_message (Req_reject response) = B_ErrorResponse response"
| "call_sends_message (Req_continue challenge) = B_Authentication (Auth_SaslContinue challenge)"
| "call_sends_message (Req_finish v) = B_Authentication (Auth_SaslFinal v)"
| "call_sends_message (Req_continue_gss token) = B_Authentication (Auth_GssContinue token)"
| "call_sends_message (Req_parameter name v) = B_ParameterStatus name v"
| "call_sends_message (Req_key pid secret) = B_BackendKeyData pid secret"
| "call_sends_message (Req_negotiate v options) = B_NegotiateProtocolVersion \<lparr>newest = v, unsupported_options = options\<rparr>"
| "call_sends_message Req_ready = B_ReadyForQuery Idle"

lemma server_call_sends:
  assumes "server_auth_call c call = Some (Inr (c', f))"
  shows "BackendMessage_to_frame (call_sends_message call) = Inr f \<and>
    (if \<exists>v options. call = Req_negotiate v options then c' = c \<and> sends server_authentication (sa_phase (tc_phase c)) (call_sends_message call) = None
     else sends server_authentication (sa_phase (tc_phase c)) (call_sends_message call) = Some (sa_phase (tc_phase c')))"
  using assms by (cases call) (auto simp: server_send_defs authentication_is_def split: if_splits)

section \<open>Properties\<close>

text \<open>
  The bodies of credential messages are exact: the server reads a secret out of a password body precisely when
  the body is that secret, without NUL bytes, and a terminator; and it reads a mechanism and an initial response out
  of a body precisely when the body is their encoding, with a response of at most \<open>2^31 - 1\<close> bytes or none.  All
  other bodies (missing or early terminators, truncated or wrong lengths, negative lengths) are refused.
\<close>

theorem credential_bodies_exact:
  "(password_body body = Inr secret) = (0 \<notin> set secret \<and> body = secret @ [0]) \<and>
   (sasl_initial_body body = Inr r) = (initial_response_ok r \<and> body = initial_response_bytes r)"
  by (simp add: password_body_iff sasl_initial_body_iff)

text \<open>
  The server operation in a phase takes whatever the client operation of the dual phase sends: the frame decodes
  to a password message, and the server reads from it the password, the mechanism and initial response, or the token
  that the client was given.  For an initial response the mechanism must have no NUL byte, which the client does
  not check.
\<close>

theorem credentials_received:
  "(password c secret = Inr (c', f) \<longrightarrow>
     (\<exists>m. Frontend_decode f = Inr m \<and> receive_password s m = Inr (into s ServerAuth, secret))) \<and>
   (sasl c mechanism initial = Inr (c', f) \<and> 0 \<notin> set mechanism \<longrightarrow>
     (\<exists>m. Frontend_decode f = Inr m \<and>
       receive_initial s m = Inr (into s ServerSasl, \<lparr>sir_mechanism = mechanism, sir_response = Some initial\<rparr>))) \<and>
   (sasl_respond c token = (c', f) \<longrightarrow>
     (\<exists>m. Frontend_decode f = Inr m \<and> receive_sasl_response s m = Inr (into s ServerSasl, token))) \<and>
   (token_respond c token = (c', f) \<longrightarrow>
     (\<exists>m. Frontend_decode f = Inr m \<and> receive_token_response s m = Inr (into s ServerAuthPolicy, token)))"
proof -
  have "sasl_initial_body (mechanism @ 0 # be32 (word_of_nat (length initial)) @ initial) =
      Inr \<lparr>sir_mechanism = mechanism, sir_response = Some initial\<rparr>" if "length initial \<le> i32_max" "0 \<notin> set mechanism"
    using sasl_initial_body_bytes [of "\<lparr>sir_mechanism = mechanism, sir_response = Some initial\<rparr>"] that
    by (simp add: initial_response_ok_def initial_response_bytes_def)
  moreover have "password_body (secret @ [0]) = Inr secret" if "0 \<notin> set secret"
    using that by (simp add: password_body_iff)
  ultimately show ?thesis
    by (auto simp: auth_send_defs decode_password_response receive_password_def receive_initial_def
        receive_sasl_response_def receive_token_response_def not_less split: if_splits)
qed

theorem credentials_received_witness:
  "\<exists>f c' m. password \<lparr>tc_transport = (), tc_phase = Au_PasswordResponse, tc_cleanliness = Pristine\<rparr> [115, 51] = Inr (c', f) \<and>
    Frontend_decode f = Inr m \<and>
    receive_password \<lparr>tc_transport = (), tc_phase = ServerPassword, tc_cleanliness = Pristine\<rparr> m =
      Inr (\<lparr>tc_transport = (), tc_phase = ServerAuth, tc_cleanliness = Pristine\<rparr>, [115, 51])"
proof -
  let ?c = "\<lparr>tc_transport = (), tc_phase = Au_PasswordResponse, tc_cleanliness = Pristine\<rparr>"
  let ?s = "\<lparr>tc_transport = (), tc_phase = ServerPassword, tc_cleanliness = Pristine\<rparr>"
  have "password ?c [115, 51] = Inr (into ?c Au_AwaitingAuthOk, frame 112 [115, 51, 0])"
    by (simp add: password_def)
  then show ?thesis
    using credentials_received [where c = ?c and s = ?s and secret = "[115, 51]"] by (simp add: into_def)
qed

text \<open>A mechanism with a NUL byte reaches the server as another mechanism.\<close>

lemma sasl_nul_mechanism:
  "\<exists>f body s'. sasl c [83, 0, 0, 0, 0, 5] [] = Inr (into c Au_Sasl, f) \<and> Frontend_decode f = Inr (F_PasswordResponse body) \<and>
    receive_initial s (F_PasswordResponse body) = Inr (s', \<lparr>sir_mechanism = [83], sir_response = Some [0, 0, 0, 0, 0]\<rparr>)"
  by (simp add: sasl_def sasl_initial_def decode_password_response receive_initial_def sasl_initial_body_def eval_defs)



end
