(* ===== verification/Backend_Tables.thy ===== *)
theory Backend_Tables
  imports Auth_Tables
begin

text \<open>
  The \<open>backend\<close> grammar as tables, one equation per phase.
\<close>

lemmas backend_table_defs = backend_project backend_phase_defs internal_arms_def external_arms_def choice_of_def grammar_defs

lemma backend_internal_table:
  "project_internal backend Be_Ready m = None"
  "project_internal backend Be_Simple m = (if is_B_RowDescription m \<or>
         is_B_DataRow m \<or>
         is_B_CommandComplete m \<or>
         m = B_EmptyQueryResponse
       then Some BeE_Continue
     else if is_B_CopyInResponse m
       then Some BeE_CopyIn
     else if is_B_CopyOutResponse m
       then Some BeE_CopyOut
     else if is_B_CopyBothResponse m
       then Some BeE_CopyBoth
     else if is_B_ReadyForQuery m
       then Some BeE_Ready
     else if is_B_ErrorResponse m
       then Some BeE_Error
     else None)"
  "project_internal backend Be_SimpleError m = (if is_B_ReadyForQuery m
       then Some BeE_Ready
     else None)"
  "project_internal backend Be_Building m = None"
  "project_internal backend Be_ParseResponse m = (if m = B_ParseComplete
       then Some BeE_Complete
     else if is_B_ErrorResponse m
       then Some BeE_Error
     else None)"
  "project_internal backend Be_BindResponse m = (if m = B_BindComplete
       then Some BeE_Complete
     else if is_B_ErrorResponse m
       then Some BeE_Error
     else None)"
  "project_internal backend Be_DescribeResponse m = (if is_B_ParameterDescription m
       then Some BeE_ParameterDescription
     else if is_B_RowDescription m
       then Some BeE_RowDescription
     else if m = B_NoData
       then Some BeE_NoData
     else if is_B_ErrorResponse m
       then Some BeE_Error
     else None)"
  "project_internal backend Be_ExecuteResponse m = (if is_B_RowDescription m \<or> is_B_DataRow m \<or> m = B_EmptyQueryResponse
       then Some BeE_Continue
     else if is_B_CopyInResponse m
       then Some BeE_CopyIn
     else if is_B_CopyOutResponse m
       then Some BeE_CopyOut
     else if is_B_CopyBothResponse m
       then Some BeE_CopyBoth
     else if is_B_CommandComplete m
       then Some BeE_CommandComplete
     else if m = B_PortalSuspended
       then Some BeE_PortalSuspended
     else if is_B_ErrorResponse m
       then Some BeE_Error
     else None)"
  "project_internal backend Be_CloseResponse m = (if m = B_CloseComplete
       then Some BeE_Complete
     else if is_B_ErrorResponse m
       then Some BeE_Error
     else None)"
  "project_internal backend Be_ExtendedError m = None"
  "project_internal backend Be_SyncResponse m = (if is_B_ReadyForQuery m
       then Some BeE_Ready
     else None)"
  "project_internal backend Be_FunctionResponse m = (if is_B_FunctionCallResponse m
       then Some BeE_Result
     else if is_B_ErrorResponse m
       then Some BeE_Error
     else None)"
  "project_internal backend Be_FunctionReady m = (if is_B_ReadyForQuery m
       then Some BeE_Ready
     else None)"
  "project_internal backend Be_SimpleCopyIn m = None"
  "project_internal backend Be_SimpleCopyInDone m = (if is_B_CommandComplete m
       then Some BeE_CommandComplete
     else if is_B_ErrorResponse m
       then Some BeE_Error
     else None)"
  "project_internal backend Be_SimpleCopyInFailed m = (if is_B_ErrorResponse m
       then Some BeE_Error
     else None)"
  "project_internal backend Be_SimpleCopyOut m = (if is_B_CopyData m
       then Some BeE_Data
     else if m = B_CopyDone
       then Some BeE_Done
     else if is_B_ErrorResponse m
       then Some BeE_Error
     else None)"
  "project_internal backend Be_SimpleCopyOutDone m = (if is_B_CommandComplete m
       then Some BeE_CommandComplete
     else None)"
  "project_internal backend Be_SimpleCopyReady m = (if is_B_ReadyForQuery m
       then Some BeE_Ready
     else None)"
  "project_internal backend Be_ExtendedCopyIn m = None"
  "project_internal backend Be_ExtendedCopyInDone m = (if is_B_CommandComplete m
       then Some BeE_CommandComplete
     else if is_B_ErrorResponse m
       then Some BeE_Error
     else None)"
  "project_internal backend Be_ExtendedCopyInFailed m = (if is_B_ErrorResponse m
       then Some BeE_Error
     else None)"
  "project_internal backend Be_ExtendedCopyOut m = (if is_B_CopyData m
       then Some BeE_Data
     else if m = B_CopyDone
       then Some BeE_Done
     else if is_B_ErrorResponse m
       then Some BeE_Error
     else None)"
  "project_internal backend Be_ExtendedCopyOutDone m = (if is_B_CommandComplete m
       then Some BeE_CommandComplete
     else None)"
  "project_internal backend Be_SimpleCopyBoth m = (if is_B_CopyData m
       then Some BeE_SendData
     else if m = B_CopyDone
       then Some BeE_SendDone
     else if is_B_ErrorResponse m
       then Some BeE_Error
     else None)"
  "project_internal backend Be_SimpleCopyBothClientDone m = (if is_B_CopyData m
       then Some BeE_SendData
     else if m = B_CopyDone
       then Some BeE_SendDone
     else if is_B_ErrorResponse m
       then Some BeE_Error
     else None)"
  "project_internal backend Be_SimpleCopyBothServerDone m = None"
  "project_internal backend Be_SimpleCopyBothDone m = (if is_B_CommandComplete m
       then Some BeE_CommandComplete
     else None)"
  "project_internal backend Be_SimpleCopyBothFailed m = (if is_B_ErrorResponse m
       then Some BeE_Error
     else None)"
  "project_internal backend Be_ExtendedCopyBoth m = (if is_B_CopyData m
       then Some BeE_SendData
     else if m = B_CopyDone
       then Some BeE_SendDone
     else if is_B_ErrorResponse m
       then Some BeE_Error
     else None)"
  "project_internal backend Be_ExtendedCopyBothClientDone m = (if is_B_CopyData m
       then Some BeE_SendData
     else if m = B_CopyDone
       then Some BeE_SendDone
     else if is_B_ErrorResponse m
       then Some BeE_Error
     else None)"
  "project_internal backend Be_ExtendedCopyBothServerDone m = None"
  "project_internal backend Be_ExtendedCopyBothDone m = (if is_B_CommandComplete m
       then Some BeE_CommandComplete
     else None)"
  "project_internal backend Be_ExtendedCopyBothFailed m = (if is_B_ErrorResponse m
       then Some BeE_Error
     else None)"
  "project_internal backend Be_Terminated m = None"
  by (simp_all add: backend_table_defs)

lemma backend_external_table [simp]:
  "project_external backend Be_Ready m = (if is_F_Query m
       then Some BeE_Query
     else if is_F_Parse m
       then Some BeE_Parse
     else if is_F_Bind m
       then Some BeE_Bind
     else if is_F_Describe m
       then Some BeE_Describe
     else if is_F_Execute m
       then Some BeE_Execute
     else if is_F_Close m
       then Some BeE_Close
     else if is_F_FunctionCall m
       then Some BeE_FunctionCall
     else if m = F_Terminate
       then Some BeE_Terminate
     else None)"
  "project_external backend Be_Simple m = None"
  "project_external backend Be_SimpleError m = None"
  "project_external backend Be_Building m = (if is_F_Parse m
       then Some BeE_Parse
     else if is_F_Bind m
       then Some BeE_Bind
     else if is_F_Describe m
       then Some BeE_Describe
     else if is_F_Execute m
       then Some BeE_Execute
     else if is_F_Close m
       then Some BeE_Close
     else if m = F_Flush
       then Some BeE_Flush
     else if m = F_Sync
       then Some BeE_Sync
     else None)"
  "project_external backend Be_ParseResponse m = None"
  "project_external backend Be_BindResponse m = None"
  "project_external backend Be_DescribeResponse m = None"
  "project_external backend Be_ExecuteResponse m = None"
  "project_external backend Be_CloseResponse m = None"
  "project_external backend Be_ExtendedError m = (if is_F_Parse m \<or>
         is_F_Bind m \<or>
         is_F_Describe m \<or>
         is_F_Execute m \<or>
         is_F_Close m \<or>
         m = F_Flush \<or>
         is_F_Query m \<or>
         is_F_FunctionCall m \<or>
         m = F_Terminate \<or>
         is_F_CopyData m \<or>
         m = F_CopyDone \<or>
         is_F_CopyFail m \<or>
         is_F_PasswordResponse m
       then Some BeE_Discard
     else if m = F_Sync
       then Some BeE_Sync
     else None)"
  "project_external backend Be_SyncResponse m = None"
  "project_external backend Be_FunctionResponse m = None"
  "project_external backend Be_FunctionReady m = None"
  "project_external backend Be_SimpleCopyIn m = (if is_F_CopyData m
       then Some BeE_Data
     else if m = F_CopyDone
       then Some BeE_Done
     else if is_F_CopyFail m
       then Some BeE_Fail
     else None)"
  "project_external backend Be_SimpleCopyInDone m = None"
  "project_external backend Be_SimpleCopyInFailed m = None"
  "project_external backend Be_SimpleCopyOut m = None"
  "project_external backend Be_SimpleCopyOutDone m = None"
  "project_external backend Be_SimpleCopyReady m = None"
  "project_external backend Be_ExtendedCopyIn m = (if is_F_CopyData m
       then Some BeE_Data
     else if m = F_CopyDone
       then Some BeE_Done
     else if is_F_CopyFail m
       then Some BeE_Fail
     else None)"
  "project_external backend Be_ExtendedCopyInDone m = None"
  "project_external backend Be_ExtendedCopyInFailed m = None"
  "project_external backend Be_ExtendedCopyOut m = None"
  "project_external backend Be_ExtendedCopyOutDone m = None"
  "project_external backend Be_SimpleCopyBoth m = (if is_F_CopyData m
       then Some BeE_ReceiveData
     else if m = F_CopyDone
       then Some BeE_ReceiveDone
     else if is_F_CopyFail m
       then Some BeE_Fail
     else None)"
  "project_external backend Be_SimpleCopyBothClientDone m = None"
  "project_external backend Be_SimpleCopyBothServerDone m = (if is_F_CopyData m
       then Some BeE_ReceiveData
     else if m = F_CopyDone
       then Some BeE_ReceiveDone
     else if is_F_CopyFail m
       then Some BeE_Fail
     else None)"
  "project_external backend Be_SimpleCopyBothDone m = None"
  "project_external backend Be_SimpleCopyBothFailed m = None"
  "project_external backend Be_ExtendedCopyBoth m = (if is_F_CopyData m
       then Some BeE_ReceiveData
     else if m = F_CopyDone
       then Some BeE_ReceiveDone
     else if is_F_CopyFail m
       then Some BeE_Fail
     else None)"
  "project_external backend Be_ExtendedCopyBothClientDone m = None"
  "project_external backend Be_ExtendedCopyBothServerDone m = (if is_F_CopyData m
       then Some BeE_ReceiveData
     else if m = F_CopyDone
       then Some BeE_ReceiveDone
     else if is_F_CopyFail m
       then Some BeE_Fail
     else None)"
  "project_external backend Be_ExtendedCopyBothDone m = None"
  "project_external backend Be_ExtendedCopyBothFailed m = None"
  "project_external backend Be_Terminated m = None"
  by (simp_all add: backend_table_defs)

lemma backend_sends [simp]:
  "sends backend Be_Ready m = None"
  "sends backend Be_Simple m = (if is_B_RowDescription m \<or>
         is_B_DataRow m \<or>
         is_B_CommandComplete m \<or>
         m = B_EmptyQueryResponse
       then Some Be_Simple
     else if is_B_CopyInResponse m
       then Some Be_SimpleCopyIn
     else if is_B_CopyOutResponse m
       then Some Be_SimpleCopyOut
     else if is_B_CopyBothResponse m
       then Some Be_SimpleCopyBoth
     else if is_B_ReadyForQuery m
       then Some Be_Ready
     else if is_B_ErrorResponse m
       then Some Be_SimpleError
     else None)"
  "sends backend Be_SimpleError m = (if is_B_ReadyForQuery m
       then Some Be_Ready
     else None)"
  "sends backend Be_Building m = None"
  "sends backend Be_ParseResponse m = (if m = B_ParseComplete
       then Some Be_Building
     else if is_B_ErrorResponse m
       then Some Be_ExtendedError
     else None)"
  "sends backend Be_BindResponse m = (if m = B_BindComplete
       then Some Be_Building
     else if is_B_ErrorResponse m
       then Some Be_ExtendedError
     else None)"
  "sends backend Be_DescribeResponse m = (if is_B_ParameterDescription m
       then Some Be_DescribeResponse
     else if is_B_RowDescription m
       then Some Be_Building
     else if m = B_NoData
       then Some Be_Building
     else if is_B_ErrorResponse m
       then Some Be_ExtendedError
     else None)"
  "sends backend Be_ExecuteResponse m = (if is_B_RowDescription m \<or> is_B_DataRow m \<or> m = B_EmptyQueryResponse
       then Some Be_ExecuteResponse
     else if is_B_CopyInResponse m
       then Some Be_ExtendedCopyIn
     else if is_B_CopyOutResponse m
       then Some Be_ExtendedCopyOut
     else if is_B_CopyBothResponse m
       then Some Be_ExtendedCopyBoth
     else if is_B_CommandComplete m
       then Some Be_Building
     else if m = B_PortalSuspended
       then Some Be_Building
     else if is_B_ErrorResponse m
       then Some Be_ExtendedError
     else None)"
  "sends backend Be_CloseResponse m = (if m = B_CloseComplete
       then Some Be_Building
     else if is_B_ErrorResponse m
       then Some Be_ExtendedError
     else None)"
  "sends backend Be_ExtendedError m = None"
  "sends backend Be_SyncResponse m = (if is_B_ReadyForQuery m
       then Some Be_Ready
     else None)"
  "sends backend Be_FunctionResponse m = (if is_B_FunctionCallResponse m
       then Some Be_FunctionReady
     else if is_B_ErrorResponse m
       then Some Be_FunctionReady
     else None)"
  "sends backend Be_FunctionReady m = (if is_B_ReadyForQuery m
       then Some Be_Ready
     else None)"
  "sends backend Be_SimpleCopyIn m = None"
  "sends backend Be_SimpleCopyInDone m = (if is_B_CommandComplete m
       then Some Be_SimpleCopyReady
     else if is_B_ErrorResponse m
       then Some Be_SimpleCopyReady
     else None)"
  "sends backend Be_SimpleCopyInFailed m = (if is_B_ErrorResponse m
       then Some Be_SimpleCopyReady
     else None)"
  "sends backend Be_SimpleCopyOut m = (if is_B_CopyData m
       then Some Be_SimpleCopyOut
     else if m = B_CopyDone
       then Some Be_SimpleCopyOutDone
     else if is_B_ErrorResponse m
       then Some Be_SimpleCopyReady
     else None)"
  "sends backend Be_SimpleCopyOutDone m = (if is_B_CommandComplete m
       then Some Be_SimpleCopyReady
     else None)"
  "sends backend Be_SimpleCopyReady m = (if is_B_ReadyForQuery m
       then Some Be_Ready
     else None)"
  "sends backend Be_ExtendedCopyIn m = None"
  "sends backend Be_ExtendedCopyInDone m = (if is_B_CommandComplete m
       then Some Be_Building
     else if is_B_ErrorResponse m
       then Some Be_ExtendedError
     else None)"
  "sends backend Be_ExtendedCopyInFailed m = (if is_B_ErrorResponse m
       then Some Be_ExtendedError
     else None)"
  "sends backend Be_ExtendedCopyOut m = (if is_B_CopyData m
       then Some Be_ExtendedCopyOut
     else if m = B_CopyDone
       then Some Be_ExtendedCopyOutDone
     else if is_B_ErrorResponse m
       then Some Be_ExtendedError
     else None)"
  "sends backend Be_ExtendedCopyOutDone m = (if is_B_CommandComplete m
       then Some Be_Building
     else None)"
  "sends backend Be_SimpleCopyBoth m = (if is_B_CopyData m
       then Some Be_SimpleCopyBoth
     else if m = B_CopyDone
       then Some Be_SimpleCopyBothServerDone
     else if is_B_ErrorResponse m
       then Some Be_SimpleCopyReady
     else None)"
  "sends backend Be_SimpleCopyBothClientDone m = (if is_B_CopyData m
       then Some Be_SimpleCopyBothClientDone
     else if m = B_CopyDone
       then Some Be_SimpleCopyBothDone
     else if is_B_ErrorResponse m
       then Some Be_SimpleCopyReady
     else None)"
  "sends backend Be_SimpleCopyBothServerDone m = None"
  "sends backend Be_SimpleCopyBothDone m = (if is_B_CommandComplete m
       then Some Be_SimpleCopyReady
     else None)"
  "sends backend Be_SimpleCopyBothFailed m = (if is_B_ErrorResponse m
       then Some Be_SimpleCopyReady
     else None)"
  "sends backend Be_ExtendedCopyBoth m = (if is_B_CopyData m
       then Some Be_ExtendedCopyBoth
     else if m = B_CopyDone
       then Some Be_ExtendedCopyBothServerDone
     else if is_B_ErrorResponse m
       then Some Be_ExtendedError
     else None)"
  "sends backend Be_ExtendedCopyBothClientDone m = (if is_B_CopyData m
       then Some Be_ExtendedCopyBothClientDone
     else if m = B_CopyDone
       then Some Be_ExtendedCopyBothDone
     else if is_B_ErrorResponse m
       then Some Be_ExtendedError
     else None)"
  "sends backend Be_ExtendedCopyBothServerDone m = None"
  "sends backend Be_ExtendedCopyBothDone m = (if is_B_CommandComplete m
       then Some Be_Building
     else None)"
  "sends backend Be_ExtendedCopyBothFailed m = (if is_B_ErrorResponse m
       then Some Be_ExtendedError
     else None)"
  "sends backend Be_Terminated m = None"
  by (simp_all add: sends_def backend_internal_table backend_transition backend_phase_defs grammar_defs)

lemma backend_receives [simp]:
  "receives backend Be_Ready m = (if is_F_Query m
       then Some Be_Simple
     else if is_F_Parse m
       then Some Be_ParseResponse
     else if is_F_Bind m
       then Some Be_BindResponse
     else if is_F_Describe m
       then Some Be_DescribeResponse
     else if is_F_Execute m
       then Some Be_ExecuteResponse
     else if is_F_Close m
       then Some Be_CloseResponse
     else if is_F_FunctionCall m
       then Some Be_FunctionResponse
     else if m = F_Terminate
       then Some Be_Terminated
     else None)"
  "receives backend Be_Simple m = None"
  "receives backend Be_SimpleError m = None"
  "receives backend Be_Building m = (if is_F_Parse m
       then Some Be_ParseResponse
     else if is_F_Bind m
       then Some Be_BindResponse
     else if is_F_Describe m
       then Some Be_DescribeResponse
     else if is_F_Execute m
       then Some Be_ExecuteResponse
     else if is_F_Close m
       then Some Be_CloseResponse
     else if m = F_Flush
       then Some Be_Building
     else if m = F_Sync
       then Some Be_SyncResponse
     else None)"
  "receives backend Be_ParseResponse m = None"
  "receives backend Be_BindResponse m = None"
  "receives backend Be_DescribeResponse m = None"
  "receives backend Be_ExecuteResponse m = None"
  "receives backend Be_CloseResponse m = None"
  "receives backend Be_ExtendedError m = (if is_F_Parse m \<or>
         is_F_Bind m \<or>
         is_F_Describe m \<or>
         is_F_Execute m \<or>
         is_F_Close m \<or>
         m = F_Flush \<or>
         is_F_Query m \<or>
         is_F_FunctionCall m \<or>
         m = F_Terminate \<or>
         is_F_CopyData m \<or>
         m = F_CopyDone \<or>
         is_F_CopyFail m \<or>
         is_F_PasswordResponse m
       then Some Be_ExtendedError
     else if m = F_Sync
       then Some Be_SyncResponse
     else None)"
  "receives backend Be_SyncResponse m = None"
  "receives backend Be_FunctionResponse m = None"
  "receives backend Be_FunctionReady m = None"
  "receives backend Be_SimpleCopyIn m = (if is_F_CopyData m
       then Some Be_SimpleCopyIn
     else if m = F_CopyDone
       then Some Be_SimpleCopyInDone
     else if is_F_CopyFail m
       then Some Be_SimpleCopyInFailed
     else None)"
  "receives backend Be_SimpleCopyInDone m = None"
  "receives backend Be_SimpleCopyInFailed m = None"
  "receives backend Be_SimpleCopyOut m = None"
  "receives backend Be_SimpleCopyOutDone m = None"
  "receives backend Be_SimpleCopyReady m = None"
  "receives backend Be_ExtendedCopyIn m = (if is_F_CopyData m
       then Some Be_ExtendedCopyIn
     else if m = F_CopyDone
       then Some Be_ExtendedCopyInDone
     else if is_F_CopyFail m
       then Some Be_ExtendedCopyInFailed
     else None)"
  "receives backend Be_ExtendedCopyInDone m = None"
  "receives backend Be_ExtendedCopyInFailed m = None"
  "receives backend Be_ExtendedCopyOut m = None"
  "receives backend Be_ExtendedCopyOutDone m = None"
  "receives backend Be_SimpleCopyBoth m = (if is_F_CopyData m
       then Some Be_SimpleCopyBoth
     else if m = F_CopyDone
       then Some Be_SimpleCopyBothClientDone
     else if is_F_CopyFail m
       then Some Be_SimpleCopyBothFailed
     else None)"
  "receives backend Be_SimpleCopyBothClientDone m = None"
  "receives backend Be_SimpleCopyBothServerDone m = (if is_F_CopyData m
       then Some Be_SimpleCopyBothServerDone
     else if m = F_CopyDone
       then Some Be_SimpleCopyBothDone
     else if is_F_CopyFail m
       then Some Be_SimpleCopyBothFailed
     else None)"
  "receives backend Be_SimpleCopyBothDone m = None"
  "receives backend Be_SimpleCopyBothFailed m = None"
  "receives backend Be_ExtendedCopyBoth m = (if is_F_CopyData m
       then Some Be_ExtendedCopyBoth
     else if m = F_CopyDone
       then Some Be_ExtendedCopyBothClientDone
     else if is_F_CopyFail m
       then Some Be_ExtendedCopyBothFailed
     else None)"
  "receives backend Be_ExtendedCopyBothClientDone m = None"
  "receives backend Be_ExtendedCopyBothServerDone m = (if is_F_CopyData m
       then Some Be_ExtendedCopyBothServerDone
     else if m = F_CopyDone
       then Some Be_ExtendedCopyBothDone
     else if is_F_CopyFail m
       then Some Be_ExtendedCopyBothFailed
     else None)"
  "receives backend Be_ExtendedCopyBothDone m = None"
  "receives backend Be_ExtendedCopyBothFailed m = None"
  "receives backend Be_Terminated m = None"
  by (simp_all add: receives_def backend_transition backend_phase_defs grammar_defs)

end
