(* ===== verification/Server_Session.thy ===== *)
theory Server_Session
  imports Auth Backend_Tables Replication
begin

text \<open>
  \<open>src/server_session.rs\<close>: the typed server session.  The marker types of the phases are the constructors of
  \<open>server_phase\<close>, with the resumption and the half-close state of a COPY as arguments.  An operation exists for the phases of its \<open>impl\<close> block; where the blocks of
  two phases have the same operation it is one definition.
\<close>

section \<open>Phases\<close>

datatype copy_resume = CopySimple | CopyExtended

datatype both_ends = BothOpen | BothClientDone | BothServerDone | BothDone

datatype server_phase =
    ServerReady | ServerSimpleQuery | ServerSimpleError | ServerFunctionCall | ServerFunctionCallDone | ServerFunctionCallError
  | ServerBuilding | ServerParse | ServerBind | ServerDescribe | ServerExecute | ServerClose | ServerSync | ServerExtendedError
  | ServerCopyIn copy_resume | ServerCopyInDone copy_resume | ServerCopyInFailed copy_resume
  | ServerCopyOut copy_resume | ServerCopyOutDone copy_resume
  | ServerCopyBoth copy_resume both_ends | ServerCopyBothFailed copy_resume
  | ServerTerminated

type_synonym 's ServerConn = "('s, server_phase) TypedConn"

text \<open>The associated states of \<open>CopyResume\<close>.\<close>

fun BOTH_OPEN_STATE :: "copy_resume \<Rightarrow> backend_state" where
  "BOTH_OPEN_STATE CopySimple = Be_SimpleCopyBoth"
| "BOTH_OPEN_STATE CopyExtended = Be_ExtendedCopyBoth"

fun BOTH_SERVER_DONE_STATE :: "copy_resume \<Rightarrow> backend_state" where
  "BOTH_SERVER_DONE_STATE CopySimple = Be_SimpleCopyBothServerDone"
| "BOTH_SERVER_DONE_STATE CopyExtended = Be_ExtendedCopyBothServerDone"

text \<open>The state that the two \<open>offer_frontend\<close> of COPY IN pass.\<close>

fun copy_in_state :: "copy_resume \<Rightarrow> backend_state" where
  "copy_in_state CopySimple = Be_SimpleCopyIn"
| "copy_in_state CopyExtended = Be_ExtendedCopyIn"

section \<open>Choices of the client\<close>

datatype 's ServerExtendedOffer =
    Extended_Parse "'s ServerConn" Parse
  | Extended_Bind "'s ServerConn" Bind
  | Extended_Describe "'s ServerConn" Describe
  | Extended_Execute "'s ServerConn" Execute
  | Extended_Close "'s ServerConn" Close
  | Extended_Flush "'s ServerConn"
  | Extended_Sync "'s ServerConn"

datatype 's ServerReadyOffer =
    ReadyOffer_Query "'s ServerConn" bytes
  | ReadyOffer_FunctionCall "'s ServerConn" FunctionCall
  | ReadyOffer_Extended "'s ServerExtendedOffer"
  | ReadyOffer_Terminate "'s ServerConn"

datatype 's ServerCopyInOffer =
    CopyInOffer_Data "'s ServerConn" bytes
  | CopyInOffer_Done "'s ServerConn"
  | CopyInOffer_Fail "'s ServerConn" bytes

text \<open>\<open>ServerCopyBothOpenOffer\<close> and \<open>ServerCopyBothServerDoneOffer\<close>, which differ in the phases only; likewise the two
  offers of replication.\<close>

datatype 's ServerCopyBothOffer =
    CopyBothOffer_Data "'s ServerConn" bytes
  | CopyBothOffer_Done "'s ServerConn"
  | CopyBothOffer_Fail "'s ServerConn" bytes

datatype 's ServerReplicationOffer =
    ReplicationOffer_Message "'s ServerConn" FrontendReplication
  | ReplicationOffer_Done "'s ServerConn"
  | ReplicationOffer_Fail "'s ServerConn" bytes

datatype 's ServerDiscard = Discard_Continue "'s ServerConn" | Discard_Sync "'s ServerConn"

datatype 's ServerReadyState = ServerReadyState_Ready "'s ServerConn" | ServerReadyState_Dirty "'s ServerConn" TransactionStatus

type_synonym 's sent = "io_error + 's ServerConn \<times> Frame"

section \<open>Shared functions\<close>

text \<open>\<open>Ok((self.transition(), message.to_frame()?))\<close>\<close>

definition transition_sending :: "'s ServerConn \<Rightarrow> server_phase \<Rightarrow> BackendMessage \<Rightarrow> 's sent" where
  "transition_sending c p message = result_map (\<lambda>f. (into c p, f)) (BackendMessage_to_frame message)"

definition server_ready :: "'s ServerConn \<Rightarrow> TransactionStatus \<Rightarrow> io_error + 's ServerReadyState \<times> Frame" where
  "server_ready c status = (case BackendMessage_to_frame (B_ReadyForQuery status) of
     Inl error \<Rightarrow> Inl error
   | Inr f \<Rightarrow> Inr (if status = Idle then ServerReadyState_Ready (into c ServerReady)
                 else ServerReadyState_Dirty (into_dirty c ServerReady) status, f))"

definition extended_error :: "'s ServerConn \<Rightarrow> DiagnosticResponse \<Rightarrow> 's sent" where
  "extended_error c response = transition_sending c ServerExtendedError (B_ErrorResponse response)"

definition project_extended :: "'s ServerConn \<Rightarrow> backend_state \<Rightarrow> FrontendMessage
    \<Rightarrow> 's ServerConn \<times> FrontendMessage + 's ServerExtendedOffer" where
  "project_extended c state message = (let e = project_external backend state message in
     case message of
       F_Parse m \<Rightarrow> if e = Some BeE_Parse then Inr (Extended_Parse (into_dirty c ServerParse) m) else Inl (c, message)
     | F_Bind m \<Rightarrow> if e = Some BeE_Bind then Inr (Extended_Bind (into_dirty c ServerBind) m) else Inl (c, message)
     | F_Describe m \<Rightarrow> if e = Some BeE_Describe then Inr (Extended_Describe (into c ServerDescribe) m) else Inl (c, message)
     | F_Execute m \<Rightarrow> if e = Some BeE_Execute then Inr (Extended_Execute (into c ServerExecute) m) else Inl (c, message)
     | F_Close m \<Rightarrow> if e = Some BeE_Close then Inr (Extended_Close (into c ServerClose) m) else Inl (c, message)
     | F_Flush \<Rightarrow> if e = Some BeE_Flush then Inr (Extended_Flush (into c ServerBuilding)) else Inl (c, message)
     | F_Sync \<Rightarrow> if e = Some BeE_Sync then Inr (Extended_Sync (into c ServerSync)) else Inl (c, message)
     | _ \<Rightarrow> Inl (c, message))"

definition project_copy_in :: "'s ServerConn \<Rightarrow> copy_resume \<Rightarrow> backend_state \<Rightarrow> FrontendMessage
    \<Rightarrow> 's ServerConn \<times> FrontendMessage + 's ServerCopyInOffer" where
  "project_copy_in c resume state message = (let e = project_external backend state message in
     case message of
       F_CopyData data \<Rightarrow> if e = Some BeE_Data then Inr (CopyInOffer_Data c data) else Inl (c, message)
     | F_CopyDone \<Rightarrow> if e = Some BeE_Done then Inr (CopyInOffer_Done (into c (ServerCopyInDone resume))) else Inl (c, message)
     | F_CopyFail reason \<Rightarrow> if e = Some BeE_Fail then Inr (CopyInOffer_Fail (into c (ServerCopyInFailed resume)) reason) else Inl (c, message)
     | _ \<Rightarrow> Inl (c, message))"

section \<open>Ready and function calls\<close>

definition offer_frontend :: "'s ServerConn \<Rightarrow> FrontendMessage
    \<Rightarrow> 's ServerConn \<times> FrontendMessage + 's ServerReadyOffer" where
  "offer_frontend c message = (case project_external backend Be_Ready message of
     None \<Rightarrow> Inl (c, message)
   | Some e \<Rightarrow> (case message of
       F_Query query \<Rightarrow> if e = BeE_Query then Inr (ReadyOffer_Query (into_dirty c ServerSimpleQuery) query)
         else result_map ReadyOffer_Extended (project_extended c Be_Ready message)
     | F_FunctionCall m \<Rightarrow> if e = BeE_FunctionCall then Inr (ReadyOffer_FunctionCall (into_dirty c ServerFunctionCall) m)
         else result_map ReadyOffer_Extended (project_extended c Be_Ready message)
     | F_Terminate \<Rightarrow> if e = BeE_Terminate then Inr (ReadyOffer_Terminate (into c ServerTerminated))
         else result_map ReadyOffer_Extended (project_extended c Be_Ready message)
     | _ \<Rightarrow> result_map ReadyOffer_Extended (project_extended c Be_Ready message)))"

definition accept_stateless_query :: "'s ServerConn \<Rightarrow> bytes \<Rightarrow> 's ServerConn \<times> bytes" where
  "accept_stateless_query c query = (into c ServerSimpleQuery, query)"

definition accept_stateless_function_call :: "'s ServerConn \<Rightarrow> FunctionCall \<Rightarrow> 's ServerConn \<times> FunctionCall" where
  "accept_stateless_function_call c message = (into c ServerFunctionCall, message)"

definition function_respond :: "'s ServerConn \<Rightarrow> bytes \<Rightarrow> 's sent" where
  "function_respond c v = transition_sending c ServerFunctionCallDone (B_FunctionCallResponse v)"

definition function_error :: "'s ServerConn \<Rightarrow> DiagnosticResponse \<Rightarrow> 's sent" where
  "function_error c response = transition_sending c ServerFunctionCallError (B_ErrorResponse response)"

section \<open>Simple queries\<close>

definition state_changing :: io_error where
  "state_changing = invalid_input ''state-changing response requires its typed transition''"

definition simple_send :: "'s ServerConn \<Rightarrow> BackendMessage \<Rightarrow> 's sent" where
  "simple_send c message =
     (if is_B_ErrorResponse message \<or> is_B_ReadyForQuery message \<or> is_B_CopyInResponse message \<or>
         is_B_CopyOutResponse message \<or> is_B_CopyBothResponse message
      then Inl state_changing
      else result_map (\<lambda>f. (c, f)) (BackendMessage_to_frame message))"

definition simple_error :: "'s ServerConn \<Rightarrow> DiagnosticResponse \<Rightarrow> 's sent" where
  "simple_error c response = transition_sending c ServerSimpleError (B_ErrorResponse response)"

definition simple_copy_in :: "'s ServerConn \<Rightarrow> CopyResponse \<Rightarrow> 's sent" where
  "simple_copy_in c response = transition_sending c (ServerCopyIn CopySimple) (B_CopyInResponse response)"

definition simple_copy_out :: "'s ServerConn \<Rightarrow> CopyResponse \<Rightarrow> 's sent" where
  "simple_copy_out c response = transition_sending c (ServerCopyOut CopySimple) (B_CopyOutResponse response)"

definition simple_copy_both :: "'s ServerConn \<Rightarrow> CopyResponse \<Rightarrow> 's sent" where
  "simple_copy_both c response = transition_sending c (ServerCopyBoth CopySimple BothOpen) (B_CopyBothResponse response)"

section \<open>Extended queries\<close>

definition building_offer :: "'s ServerConn \<Rightarrow> FrontendMessage
    \<Rightarrow> 's ServerConn \<times> FrontendMessage + 's ServerExtendedOffer" where
  "building_offer c message = project_extended c Be_Building message"

definition parse_complete :: "'s ServerConn \<Rightarrow> 's sent" where
  "parse_complete c = transition_sending c ServerBuilding B_ParseComplete"

definition bind_complete :: "'s ServerConn \<Rightarrow> 's sent" where
  "bind_complete c = transition_sending c ServerBuilding B_BindComplete"

definition close_complete :: "'s ServerConn \<Rightarrow> 's sent" where
  "close_complete c = transition_sending c ServerBuilding B_CloseComplete"

definition parameter_description :: "'s ServerConn \<Rightarrow> u32 list \<Rightarrow> 's sent" where
  "parameter_description c oids = result_map (\<lambda>f. (c, f)) (BackendMessage_to_frame (B_ParameterDescription oids))"

definition row_description :: "'s ServerConn \<Rightarrow> RowDescription \<Rightarrow> 's sent" where
  "row_description c description = transition_sending c ServerBuilding (B_RowDescription description)"

definition no_data :: "'s ServerConn \<Rightarrow> 's sent" where
  "no_data c = transition_sending c ServerBuilding B_NoData"

definition execute_send :: "'s ServerConn \<Rightarrow> BackendMessage \<Rightarrow> 's sent" where
  "execute_send c message =
     (if is_B_CommandComplete message \<or> message = B_PortalSuspended \<or> is_B_ErrorResponse message \<or>
         is_B_ReadyForQuery message \<or> is_B_CopyInResponse message \<or> is_B_CopyOutResponse message \<or>
         is_B_CopyBothResponse message
      then Inl state_changing
      else result_map (\<lambda>f. (c, f)) (BackendMessage_to_frame message))"

definition execute_command_complete :: "'s ServerConn \<Rightarrow> bytes \<Rightarrow> 's sent" where
  "execute_command_complete c tag = transition_sending c ServerBuilding (B_CommandComplete tag)"

definition portal_suspended :: "'s ServerConn \<Rightarrow> 's sent" where
  "portal_suspended c = transition_sending c ServerBuilding B_PortalSuspended"

definition execute_copy_in :: "'s ServerConn \<Rightarrow> CopyResponse \<Rightarrow> 's sent" where
  "execute_copy_in c response = transition_sending c (ServerCopyIn CopyExtended) (B_CopyInResponse response)"

definition execute_copy_out :: "'s ServerConn \<Rightarrow> CopyResponse \<Rightarrow> 's sent" where
  "execute_copy_out c response = transition_sending c (ServerCopyOut CopyExtended) (B_CopyOutResponse response)"

definition execute_copy_both :: "'s ServerConn \<Rightarrow> CopyResponse \<Rightarrow> 's sent" where
  "execute_copy_both c response = transition_sending c (ServerCopyBoth CopyExtended BothOpen) (B_CopyBothResponse response)"

definition discard :: "'s ServerConn \<Rightarrow> FrontendMessage \<Rightarrow> 's ServerDiscard exec" where
  "discard c message = (case project_external backend Be_ExtendedError message of
     None \<Rightarrow> Done (Discard_Continue c)
   | Some e \<Rightarrow> if e = BeE_Sync then Done (Discard_Sync (into c ServerSync))
       else if e = BeE_Discard then Done (Discard_Continue c)
       else Panic)"

section \<open>COPY\<close>

definition server_copy_in_offer :: "copy_resume \<Rightarrow> 's ServerConn \<Rightarrow> FrontendMessage
    \<Rightarrow> 's ServerConn \<times> FrontendMessage + 's ServerCopyInOffer" where
  "server_copy_in_offer resume c message = project_copy_in c resume (copy_in_state resume) message"

text \<open>\<open>command_complete\<close> after COPY IN, COPY OUT and COPY BOTH.\<close>

definition copy_command_complete :: "copy_resume \<Rightarrow> 's ServerConn \<Rightarrow> bytes \<Rightarrow> 's sent" where
  "copy_command_complete resume c tag =
     transition_sending c (case resume of CopySimple \<Rightarrow> ServerSimpleQuery | CopyExtended \<Rightarrow> ServerBuilding) (B_CommandComplete tag)"

text \<open>\<open>error\<close> after a failed COPY IN and a failed COPY BOTH.\<close>

definition copy_failed_error :: "copy_resume \<Rightarrow> 's ServerConn \<Rightarrow> DiagnosticResponse \<Rightarrow> 's sent" where
  "copy_failed_error resume c response = (case resume of
     CopySimple \<Rightarrow> transition_sending c ServerSimpleError (B_ErrorResponse response)
   | CopyExtended \<Rightarrow> extended_error c response)"

text \<open>\<open>data\<close> and \<open>replication\<close> of COPY OUT and of the two phases of COPY BOTH that can send.\<close>

definition copy_send_data :: "'s ServerConn \<Rightarrow> bytes \<Rightarrow> 's sent" where
  "copy_send_data c data = result_map (\<lambda>f. (c, f)) (BackendMessage_to_frame (B_CopyData data))"

definition copy_send_replication :: "'s ServerConn \<Rightarrow> BackendReplication \<Rightarrow> 's sent" where
  "copy_send_replication c message = copy_send_data c (BackendReplication_encode message)"

definition copy_out_done :: "copy_resume \<Rightarrow> 's ServerConn \<Rightarrow> 's sent" where
  "copy_out_done resume c = transition_sending c (ServerCopyOutDone resume) B_CopyDone"

definition server_copy_both_offer :: "copy_resume \<Rightarrow> 's ServerConn \<Rightarrow> FrontendMessage
    \<Rightarrow> 's ServerConn \<times> FrontendMessage + 's ServerCopyBothOffer" where
  "server_copy_both_offer resume c message = (let e = project_external backend (BOTH_OPEN_STATE resume) message in
     case message of
       F_CopyData data \<Rightarrow> if e = Some BeE_ReceiveData then Inr (CopyBothOffer_Data c data) else Inl (c, message)
     | F_CopyDone \<Rightarrow> if e = Some BeE_ReceiveDone then Inr (CopyBothOffer_Done (into c (ServerCopyBoth resume BothClientDone))) else Inl (c, message)
     | F_CopyFail reason \<Rightarrow> if e = Some BeE_Fail then Inr (CopyBothOffer_Fail (into c (ServerCopyBothFailed resume)) reason) else Inl (c, message)
     | _ \<Rightarrow> Inl (c, message))"

definition copy_both_server_done_offer :: "copy_resume \<Rightarrow> 's ServerConn \<Rightarrow> FrontendMessage
    \<Rightarrow> 's ServerConn \<times> FrontendMessage + 's ServerCopyBothOffer" where
  "copy_both_server_done_offer resume c message = (let e = project_external backend (BOTH_SERVER_DONE_STATE resume) message in
     case message of
       F_CopyData data \<Rightarrow> if e = Some BeE_ReceiveData then Inr (CopyBothOffer_Data c data) else Inl (c, message)
     | F_CopyDone \<Rightarrow> if e = Some BeE_ReceiveDone then Inr (CopyBothOffer_Done (into c (ServerCopyBoth resume BothDone))) else Inl (c, message)
     | F_CopyFail reason \<Rightarrow> if e = Some BeE_Fail then Inr (CopyBothOffer_Fail (into c (ServerCopyBothFailed resume)) reason) else Inl (c, message)
     | _ \<Rightarrow> Inl (c, message))"

definition copy_both_done :: "copy_resume \<Rightarrow> 's ServerConn \<Rightarrow> 's sent" where
  "copy_both_done resume c = transition_sending c (ServerCopyBoth resume BothServerDone) B_CopyDone"

definition copy_both_client_done_done :: "copy_resume \<Rightarrow> 's ServerConn \<Rightarrow> 's sent" where
  "copy_both_client_done_done resume c = transition_sending c (ServerCopyBoth resume BothDone) B_CopyDone"

fun decode_replication :: "'s ServerCopyBothOffer \<Rightarrow> 's ServerConn \<times> io_error + 's ServerReplicationOffer" where
  "decode_replication (CopyBothOffer_Data c data) = (case FrontendReplication_decode data of
     Inr message \<Rightarrow> Inr (ReplicationOffer_Message c message)
   | Inl error \<Rightarrow> Inl (c, error))"
| "decode_replication (CopyBothOffer_Done c) = Inr (ReplicationOffer_Done c)"
| "decode_replication (CopyBothOffer_Fail c reason) = Inr (ReplicationOffer_Fail c reason)"

end
