(* ===== verification/Server_Session_Laws.thy ===== *)
theory Server_Session_Laws
  imports Server_Session Session
begin

text \<open>
  The typed server session against the \<open>backend\<close> grammar: runs of typed operations are runs of the grammar, every
  message of the client is received as the grammar says, and where the two differ.
\<close>

section \<open>Phases of the grammar\<close>

text \<open>The \<open>associate\<close> clauses of the grammar.\<close>

fun associated :: "server_phase \<Rightarrow> backend_state" where
  "associated ServerReady = Be_Ready"
| "associated ServerSimpleQuery = Be_Simple"
| "associated ServerSimpleError = Be_SimpleError"
| "associated ServerFunctionCall = Be_FunctionResponse"
| "associated ServerFunctionCallDone = Be_FunctionReady"
| "associated ServerFunctionCallError = Be_FunctionReady"
| "associated ServerBuilding = Be_Building"
| "associated ServerParse = Be_ParseResponse"
| "associated ServerBind = Be_BindResponse"
| "associated ServerDescribe = Be_DescribeResponse"
| "associated ServerExecute = Be_ExecuteResponse"
| "associated ServerClose = Be_CloseResponse"
| "associated ServerSync = Be_SyncResponse"
| "associated ServerExtendedError = Be_ExtendedError"
| "associated (ServerCopyIn resume) = copy_in_state resume"
| "associated (ServerCopyInDone resume) = (case resume of CopySimple \<Rightarrow> Be_SimpleCopyInDone | CopyExtended \<Rightarrow> Be_ExtendedCopyInDone)"
| "associated (ServerCopyInFailed resume) = (case resume of CopySimple \<Rightarrow> Be_SimpleCopyInFailed | CopyExtended \<Rightarrow> Be_ExtendedCopyInFailed)"
| "associated (ServerCopyOut resume) = (case resume of CopySimple \<Rightarrow> Be_SimpleCopyOut | CopyExtended \<Rightarrow> Be_ExtendedCopyOut)"
| "associated (ServerCopyOutDone resume) = (case resume of CopySimple \<Rightarrow> Be_SimpleCopyOutDone | CopyExtended \<Rightarrow> Be_ExtendedCopyOutDone)"
| "associated (ServerCopyBoth resume BothOpen) = BOTH_OPEN_STATE resume"
| "associated (ServerCopyBoth resume BothClientDone) =
     (case resume of CopySimple \<Rightarrow> Be_SimpleCopyBothClientDone | CopyExtended \<Rightarrow> Be_ExtendedCopyBothClientDone)"
| "associated (ServerCopyBoth resume BothServerDone) = BOTH_SERVER_DONE_STATE resume"
| "associated (ServerCopyBoth resume BothDone) = (case resume of CopySimple \<Rightarrow> Be_SimpleCopyBothDone | CopyExtended \<Rightarrow> Be_ExtendedCopyBothDone)"
| "associated (ServerCopyBothFailed resume) = (case resume of CopySimple \<Rightarrow> Be_SimpleCopyBothFailed | CopyExtended \<Rightarrow> Be_ExtendedCopyBothFailed)"
| "associated ServerTerminated = Be_Terminated"

text \<open>After a COPY of a simple query the grammar has a phase of its own, with no marker type.\<close>

definition corresponds :: "server_phase \<Rightarrow> backend_state \<Rightarrow> bool" where
  "corresponds p s = (s = associated p \<or> p \<in> {ServerSimpleQuery, ServerSimpleError} \<and> s = Be_SimpleCopyReady)"

section \<open>The operations of a phase\<close>

datatype server_operation =
    Sv_respond bytes | Sv_ready TransactionStatus | Sv_send BackendMessage | Sv_error DiagnosticResponse
  | Sv_copy_in CopyResponse | Sv_copy_out CopyResponse | Sv_copy_both CopyResponse | Sv_complete
  | Sv_parameter_description "u32 list" | Sv_row_description RowDescription | Sv_no_data
  | Sv_command_complete bytes | Sv_portal_suspended | Sv_data bytes | Sv_replication BackendReplication | Sv_done

fun ready_conn :: "'s ServerReadyState \<Rightarrow> 's ServerConn" where
  "ready_conn (ServerReadyState_Ready c) = c"
| "ready_conn (ServerReadyState_Dirty c _) = c"

text \<open>What an operation does in a phase; \<open>None\<close> where the phase has no such operation.\<close>

fun server_call :: "'s ServerConn \<Rightarrow> server_operation \<Rightarrow> 's sent option" where
  "server_call c (Sv_respond v) = (if tc_phase c = ServerFunctionCall then Some (function_respond c v) else None)"
| "server_call c (Sv_ready status) =
     (if tc_phase c \<in> {ServerSimpleQuery, ServerSimpleError, ServerFunctionCallDone, ServerFunctionCallError, ServerSync}
      then Some (result_map (map_prod ready_conn id) (server_ready c status)) else None)"
| "server_call c (Sv_send m) = (case tc_phase c of
     ServerSimpleQuery \<Rightarrow> Some (simple_send c m) | ServerExecute \<Rightarrow> Some (execute_send c m) | _ \<Rightarrow> None)"
| "server_call c (Sv_error d) = (case tc_phase c of
     ServerFunctionCall \<Rightarrow> Some (function_error c d)
   | ServerSimpleQuery \<Rightarrow> Some (simple_error c d)
   | ServerCopyInFailed resume \<Rightarrow> Some (copy_failed_error resume c d)
   | ServerCopyBothFailed resume \<Rightarrow> Some (copy_failed_error resume c d)
   | p \<Rightarrow> if p \<in> {ServerParse, ServerBind, ServerClose, ServerDescribe, ServerExecute} then Some (extended_error c d) else None)"
| "server_call c (Sv_copy_in r) = (case tc_phase c of
     ServerSimpleQuery \<Rightarrow> Some (simple_copy_in c r) | ServerExecute \<Rightarrow> Some (execute_copy_in c r) | _ \<Rightarrow> None)"
| "server_call c (Sv_copy_out r) = (case tc_phase c of
     ServerSimpleQuery \<Rightarrow> Some (simple_copy_out c r) | ServerExecute \<Rightarrow> Some (execute_copy_out c r) | _ \<Rightarrow> None)"
| "server_call c (Sv_copy_both r) = (case tc_phase c of
     ServerSimpleQuery \<Rightarrow> Some (simple_copy_both c r) | ServerExecute \<Rightarrow> Some (execute_copy_both c r) | _ \<Rightarrow> None)"
| "server_call c Sv_complete = (case tc_phase c of
     ServerParse \<Rightarrow> Some (parse_complete c) | ServerBind \<Rightarrow> Some (bind_complete c) | ServerClose \<Rightarrow> Some (close_complete c) | _ \<Rightarrow> None)"
| "server_call c (Sv_parameter_description oids) = (if tc_phase c = ServerDescribe then Some (parameter_description c oids) else None)"
| "server_call c (Sv_row_description d) = (if tc_phase c = ServerDescribe then Some (row_description c d) else None)"
| "server_call c Sv_no_data = (if tc_phase c = ServerDescribe then Some (no_data c) else None)"
| "server_call c (Sv_command_complete tag) = (case tc_phase c of
     ServerExecute \<Rightarrow> Some (execute_command_complete c tag)
   | ServerCopyInDone resume \<Rightarrow> Some (copy_command_complete resume c tag)
   | ServerCopyOutDone resume \<Rightarrow> Some (copy_command_complete resume c tag)
   | ServerCopyBoth resume BothDone \<Rightarrow> Some (copy_command_complete resume c tag)
   | _ \<Rightarrow> None)"
| "server_call c Sv_portal_suspended = (if tc_phase c = ServerExecute then Some (portal_suspended c) else None)"
| "server_call c (Sv_data v) = (case tc_phase c of
     ServerCopyOut _ \<Rightarrow> Some (copy_send_data c v)
   | ServerCopyBoth _ BothOpen \<Rightarrow> Some (copy_send_data c v)
   | ServerCopyBoth _ BothClientDone \<Rightarrow> Some (copy_send_data c v)
   | _ \<Rightarrow> None)"
| "server_call c (Sv_replication m) = (case tc_phase c of
     ServerCopyOut _ \<Rightarrow> Some (copy_send_replication c m)
   | ServerCopyBoth _ BothOpen \<Rightarrow> Some (copy_send_replication c m)
   | ServerCopyBoth _ BothClientDone \<Rightarrow> Some (copy_send_replication c m)
   | _ \<Rightarrow> None)"
| "server_call c Sv_done = (case tc_phase c of
     ServerCopyOut resume \<Rightarrow> Some (copy_out_done resume c)
   | ServerCopyBoth resume BothOpen \<Rightarrow> Some (copy_both_done resume c)
   | ServerCopyBoth resume BothClientDone \<Rightarrow> Some (copy_both_client_done_done resume c)
   | _ \<Rightarrow> None)"

text \<open>The message an operation sends.\<close>

fun call_sends_backend :: "server_phase \<Rightarrow> server_operation \<Rightarrow> BackendMessage" where
  "call_sends_backend p (Sv_respond v) = B_FunctionCallResponse v"
| "call_sends_backend p (Sv_ready status) = B_ReadyForQuery status"
| "call_sends_backend p (Sv_send m) = m"
| "call_sends_backend p (Sv_error d) = B_ErrorResponse d"
| "call_sends_backend p (Sv_copy_in r) = B_CopyInResponse r"
| "call_sends_backend p (Sv_copy_out r) = B_CopyOutResponse r"
| "call_sends_backend p (Sv_copy_both r) = B_CopyBothResponse r"
| "call_sends_backend p Sv_complete =
     (if p = ServerParse then B_ParseComplete else if p = ServerBind then B_BindComplete else B_CloseComplete)"
| "call_sends_backend p (Sv_parameter_description oids) = B_ParameterDescription oids"
| "call_sends_backend p (Sv_row_description d) = B_RowDescription d"
| "call_sends_backend p Sv_no_data = B_NoData"
| "call_sends_backend p (Sv_command_complete tag) = B_CommandComplete tag"
| "call_sends_backend p Sv_portal_suspended = B_PortalSuspended"
| "call_sends_backend p (Sv_data v) = B_CopyData v"
| "call_sends_backend p (Sv_replication m) = B_CopyData (BackendReplication_encode m)"
| "call_sends_backend p Sv_done = B_CopyDone"

text \<open>What becomes of a message of the client; \<open>None\<close> where the phase has no projection or it returns the message.\<close>

fun extended_conn :: "'s ServerExtendedOffer \<Rightarrow> 's ServerConn" where
  "extended_conn (Extended_Parse c _) = c"
| "extended_conn (Extended_Bind c _) = c"
| "extended_conn (Extended_Describe c _) = c"
| "extended_conn (Extended_Execute c _) = c"
| "extended_conn (Extended_Close c _) = c"
| "extended_conn (Extended_Flush c) = c"
| "extended_conn (Extended_Sync c) = c"

fun ready_offer_conn :: "'s ServerReadyOffer \<Rightarrow> 's ServerConn" where
  "ready_offer_conn (ReadyOffer_Query c _) = c"
| "ready_offer_conn (ReadyOffer_FunctionCall c _) = c"
| "ready_offer_conn (ReadyOffer_Extended offer) = extended_conn offer"
| "ready_offer_conn (ReadyOffer_Terminate c) = c"

fun copy_in_conn :: "'s ServerCopyInOffer \<Rightarrow> 's ServerConn" where
  "copy_in_conn (CopyInOffer_Data c _) = c"
| "copy_in_conn (CopyInOffer_Done c) = c"
| "copy_in_conn (CopyInOffer_Fail c _) = c"

fun copy_both_conn :: "'s ServerCopyBothOffer \<Rightarrow> 's ServerConn" where
  "copy_both_conn (CopyBothOffer_Data c _) = c"
| "copy_both_conn (CopyBothOffer_Done c) = c"
| "copy_both_conn (CopyBothOffer_Fail c _) = c"

fun discard_conn :: "'s ServerDiscard \<Rightarrow> 's ServerConn" where
  "discard_conn (Discard_Continue c) = c"
| "discard_conn (Discard_Sync c) = c"

definition taken :: "('o \<Rightarrow> 's ServerConn) \<Rightarrow> 'e + 'o \<Rightarrow> 's ServerConn option exec" where
  "taken conn r = Done (case r of Inl _ \<Rightarrow> None | Inr offer \<Rightarrow> Some (conn offer))"

definition server_receive :: "'s ServerConn \<Rightarrow> FrontendMessage \<Rightarrow> 's ServerConn option exec" where
  "server_receive c m = (case tc_phase c of
     ServerReady \<Rightarrow> taken ready_offer_conn (offer_frontend c m)
   | ServerBuilding \<Rightarrow> taken extended_conn (building_offer c m)
   | ServerCopyIn resume \<Rightarrow> taken copy_in_conn (server_copy_in_offer resume c m)
   | ServerCopyBoth resume BothOpen \<Rightarrow> taken copy_both_conn (server_copy_both_offer resume c m)
   | ServerCopyBoth resume BothServerDone \<Rightarrow> taken copy_both_conn (copy_both_server_done_offer resume c m)
   | ServerExtendedError \<Rightarrow> (case discard c m of Panic \<Rightarrow> Panic | Done d \<Rightarrow> Done (Some (discard_conn d)))
   | _ \<Rightarrow> Done None)"

section \<open>Steps\<close>

lemmas server_send_defs = transition_sending_def server_ready_def extended_error_def function_respond_def function_error_def
  simple_send_def simple_error_def simple_copy_in_def simple_copy_out_def simple_copy_both_def parse_complete_def bind_complete_def
  close_complete_def parameter_description_def row_description_def no_data_def execute_send_def execute_command_complete_def
  portal_suspended_def execute_copy_in_def execute_copy_out_def execute_copy_both_def copy_command_complete_def copy_failed_error_def
  copy_send_data_def copy_send_replication_def copy_out_done_def copy_both_done_def copy_both_client_done_done_def

text \<open>
  What the types let a server send beyond the grammar: \<open>send\<close> takes every message that changes no phase, also those the
  grammar does not have there; and after a COPY of a simple query the grammar has readiness only.
\<close>

fun beyond_grammar :: "backend_state \<Rightarrow> server_operation \<Rightarrow> bool" where
  "beyond_grammar s (Sv_ready _) = False"
| "beyond_grammar s (Sv_send m) =
     (s = Be_SimpleCopyReady \<or> \<not> (is_B_RowDescription m \<or> is_B_DataRow m \<or> m = B_EmptyQueryResponse \<or> is_B_CommandComplete m))"
| "beyond_grammar s _ = (s = Be_SimpleCopyReady)"

lemma states_of_resume:
  "copy_in_state resume = (case resume of CopySimple \<Rightarrow> Be_SimpleCopyIn | CopyExtended \<Rightarrow> Be_ExtendedCopyIn)"
  "BOTH_OPEN_STATE resume = (case resume of CopySimple \<Rightarrow> Be_SimpleCopyBoth | CopyExtended \<Rightarrow> Be_ExtendedCopyBoth)"
  "BOTH_SERVER_DONE_STATE resume =
    (case resume of CopySimple \<Rightarrow> Be_SimpleCopyBothServerDone | CopyExtended \<Rightarrow> Be_ExtendedCopyBothServerDone)"
  by (cases resume; simp)+

lemma server_call_frame:
  assumes "server_call c call = Some (Inr (c', f))"
  shows "BackendMessage_to_frame (call_sends_backend (tc_phase c) call) = Inr f"
  using assms
  by (cases call) (auto simp: server_send_defs split: server_phase.splits both_ends.splits copy_resume.splits if_splits sum.splits
      simp del: BackendMessage_to_frame.simps)

lemma server_call_grammar:
  assumes "server_call c call = Some (Inr (c', f))" and "corresponds (tc_phase c) s" and "\<not> beyond_grammar s call"
  shows "\<exists>s'. sends backend s (call_sends_backend (tc_phase c) call) = Some s' \<and> corresponds (tc_phase c') s'"
  using assms
  by (cases call) (auto simp: server_send_defs corresponds_def states_of_resume
      split: server_phase.splits both_ends.splits copy_resume.splits if_splits sum.splits
      simp del: BackendMessage_to_frame.simps)

lemma beyond_grammar_sends:
  assumes "server_call c call = Some (Inr (c', f))" and "corresponds (tc_phase c) s" and "beyond_grammar s call"
  shows "sends backend s (call_sends_backend (tc_phase c) call) = None"
  using assms
  by (cases call) (auto simp: server_send_defs corresponds_def states_of_resume
      split: server_phase.splits both_ends.splits copy_resume.splits if_splits sum.splits
      simp del: BackendMessage_to_frame.simps)

text \<open>The phases in which a server has no typed way to report an error that the grammar allows.\<close>

fun errors_untyped :: "server_phase \<Rightarrow> bool" where
  "errors_untyped (ServerCopyInDone _) = True"
| "errors_untyped (ServerCopyOut _) = True"
| "errors_untyped (ServerCopyBoth _ ends) = (ends \<in> {BothOpen, BothClientDone})"
| "errors_untyped _ = False"

fun call_for :: "server_phase \<Rightarrow> BackendMessage \<Rightarrow> server_operation" where
  "call_for p (B_FunctionCallResponse v) = Sv_respond v"
| "call_for p (B_ReadyForQuery status) = Sv_ready status"
| "call_for p (B_ErrorResponse d) = Sv_error d"
| "call_for p (B_CopyInResponse r) = Sv_copy_in r"
| "call_for p (B_CopyOutResponse r) = Sv_copy_out r"
| "call_for p (B_CopyBothResponse r) = Sv_copy_both r"
| "call_for p (B_ParameterDescription oids) = Sv_parameter_description oids"
| "call_for p B_NoData = Sv_no_data"
| "call_for p B_PortalSuspended = Sv_portal_suspended"
| "call_for p (B_CopyData v) = Sv_data v"
| "call_for p B_CopyDone = Sv_done"
| "call_for p (B_RowDescription d) = (if p = ServerDescribe then Sv_row_description d else Sv_send (B_RowDescription d))"
| "call_for p (B_CommandComplete tag) = (if p = ServerSimpleQuery then Sv_send (B_CommandComplete tag) else Sv_command_complete tag)"
| "call_for p (B_DataRow v) = Sv_send (B_DataRow v)"
| "call_for p B_EmptyQueryResponse = Sv_send B_EmptyQueryResponse"
| "call_for p _ = Sv_complete"

lemmas message_kinds = is_B_RowDescription_def is_B_DataRow_def is_B_CommandComplete_def is_B_CopyInResponse_def is_B_CopyOutResponse_def
  is_B_CopyBothResponse_def is_B_ReadyForQuery_def is_B_ErrorResponse_def is_B_ParameterDescription_def is_B_FunctionCallResponse_def
  is_B_CopyData_def

lemma server_call_complete:
  assumes "sends backend (associated (tc_phase c)) m = Some s'" and "BackendMessage_to_frame m = Inr f"
    and "\<not> (is_B_ErrorResponse m \<and> errors_untyped (tc_phase c))"
  shows "\<exists>c'. server_call c (call_for (tc_phase c) m) = Some (Inr (c', f)) \<and> call_sends_backend (tc_phase c) (call_for (tc_phase c) m) = m"
  using assms
  by (cases "tc_phase c" rule: associated.cases)
    (auto simp: server_send_defs states_of_resume message_kinds split: copy_resume.splits if_splits
      simp del: BackendMessage_to_frame.simps)

text \<open>The cleanliness of the connection after a message of the client.\<close>

fun marks_dirty :: "FrontendMessage \<Rightarrow> bool" where
  "marks_dirty (F_Query _) = True"
| "marks_dirty (F_FunctionCall _) = True"
| "marks_dirty (F_Parse _) = True"
| "marks_dirty (F_Bind _) = True"
| "marks_dirty _ = False"

lemma server_receive_grammar:
  "\<exists>r. server_receive c m = Done r \<and> map_option (associated \<circ> tc_phase) r = receives backend (associated (tc_phase c)) m \<and>
    (\<forall>c'. r = Some c' \<longrightarrow> tc_cleanliness c' =
      (if marks_dirty m \<and> tc_phase c \<in> {ServerReady, ServerBuilding} then Dirty else tc_cleanliness c))"
proof (cases "tc_phase c" rule: associated.cases)
  case 1
  then show ?thesis
    by (cases m) (auto simp: server_receive_def offer_frontend_def project_extended_def taken_def Let_def)
next
  case 7
  then show ?thesis
    by (cases m) (auto simp: server_receive_def building_offer_def project_extended_def taken_def Let_def)
next
  case 14
  then show ?thesis
    by (cases m) (auto simp: server_receive_def discard_def)
qed (cases m; auto simp: server_receive_def taken_def Let_def server_copy_in_offer_def project_copy_in_def server_copy_both_offer_def
    copy_both_server_done_offer_def states_of_resume split: copy_resume.splits)+

lemma server_call_cleanliness:
  assumes "server_call c call = Some (Inr (c', f))"
  shows "tc_cleanliness c' = (case call of Sv_ready status \<Rightarrow> if status = Idle then tc_cleanliness c else Dirty | _ \<Rightarrow> tc_cleanliness c)"
  using assms
  by (cases call) (auto simp: server_send_defs split: server_phase.splits both_ends.splits copy_resume.splits if_splits sum.splits
      simp del: BackendMessage_to_frame.simps)

section \<open>Runs\<close>

datatype server_event = Sv_call server_operation | Sv_receive FrontendMessage

datatype exchanged = Exchanged_sent BackendMessage | Exchanged_received FrontendMessage

text \<open>A run of typed operations, with the messages that were sent and received; \<open>None\<close> when an operation is not
  available in its phase, or fails.\<close>

fun server_run :: "'s ServerConn \<Rightarrow> server_event list \<Rightarrow> ('s ServerConn \<times> exchanged list) option" where
  "server_run c [] = Some (c, [])"
| "server_run c (Sv_call call # events) = (case server_call c call of
     Some (Inr (c', _)) \<Rightarrow> map_option (map_prod id ((#) (Exchanged_sent (call_sends_backend (tc_phase c) call)))) (server_run c' events)
   | _ \<Rightarrow> None)"
| "server_run c (Sv_receive m # events) = (case server_receive c m of
     Done (Some c') \<Rightarrow> map_option (map_prod id ((#) (Exchanged_received m))) (server_run c' events)
   | _ \<Rightarrow> None)"

text \<open>
  The runs of the grammar, in which the phase after a simple COPY is as any other point of a simple query: PostgreSQL
  may go on with the next statement of the query there.
\<close>

fun grammar_step :: "backend_state \<Rightarrow> exchanged \<Rightarrow> backend_state option" where
  "grammar_step s (Exchanged_sent m) = sends backend (if s = Be_SimpleCopyReady then Be_Simple else s) m"
| "grammar_step s (Exchanged_received m) = receives backend s m"

fun grammar_run :: "backend_state \<Rightarrow> exchanged list \<Rightarrow> backend_state option" where
  "grammar_run s [] = Some s"
| "grammar_run s (x # xs) = (case grammar_step s x of None \<Rightarrow> None | Some s' \<Rightarrow> grammar_run s' xs)"

text \<open>A message passed to \<open>send\<close> that is part of a result.\<close>

fun result_send :: "server_event \<Rightarrow> bool" where
  "result_send (Sv_call (Sv_send m)) = (is_B_RowDescription m \<or> is_B_DataRow m \<or> m = B_EmptyQueryResponse \<or> is_B_CommandComplete m)"
| "result_send _ = True"

text \<open>The events after which the connection may hold state of the client: a stateful request that is executed, not
  discarded in recovery, and readiness inside a transaction.\<close>

fun dirty_event :: "backend_state \<Rightarrow> exchanged \<Rightarrow> bool" where
  "dirty_event s (Exchanged_sent m) = (\<exists>status. m = B_ReadyForQuery status \<and> status \<noteq> Idle)"
| "dirty_event s (Exchanged_received m) = (marks_dirty m \<and> s \<in> {Be_Ready, Be_Building})"

fun dirty_run :: "backend_state \<Rightarrow> exchanged list \<Rightarrow> bool" where
  "dirty_run s [] = False"
| "dirty_run s (x # xs) = (dirty_event s x \<or> (case grammar_step s x of None \<Rightarrow> False | Some s' \<Rightarrow> dirty_run s' xs))"

lemma server_call_step:
  assumes "server_call c call = Some (Inr (c', f))" and "corresponds (tc_phase c) s" and "result_send (Sv_call call)"
  shows "\<exists>s'. grammar_step s (Exchanged_sent (call_sends_backend (tc_phase c) call)) = Some s' \<and> corresponds (tc_phase c') s'"
  using assms
  by (cases call) (auto simp: server_send_defs corresponds_def states_of_resume
      split: server_phase.splits both_ends.splits copy_resume.splits if_splits sum.splits
      simp del: BackendMessage_to_frame.simps)

lemma call_marks_dirty:
  assumes "server_call c call = Some (Inr (c', f))"
  shows "tc_cleanliness c' = (if dirty_event s (Exchanged_sent (call_sends_backend (tc_phase c) call)) then Dirty else tc_cleanliness c)"
  using server_call_cleanliness [OF assms] assms
  by (cases call) (auto simp: simple_send_def execute_send_def split: server_phase.splits if_splits)

lemma receive_step:
  assumes "server_receive c m = Done (Some c')" and "corresponds (tc_phase c) s"
  shows "\<exists>s'. grammar_step s (Exchanged_received m) = Some s' \<and> corresponds (tc_phase c') s'"
    and "tc_cleanliness c' = (if marks_dirty m \<and> tc_phase c \<in> {ServerReady, ServerBuilding} then Dirty else tc_cleanliness c)"
proof -
  from server_receive_grammar [of c m] assms(1)
  have g: "receives backend (associated (tc_phase c)) m = Some (associated (tc_phase c'))"
    and d: "tc_cleanliness c' = (if marks_dirty m \<and> tc_phase c \<in> {ServerReady, ServerBuilding} then Dirty else tc_cleanliness c)"
    by auto
  show "tc_cleanliness c' = (if marks_dirty m \<and> tc_phase c \<in> {ServerReady, ServerBuilding} then Dirty else tc_cleanliness c)"
    by (fact d)
  show "\<exists>s'. grammar_step s (Exchanged_received m) = Some s' \<and> corresponds (tc_phase c') s'"
    using g assms(2) by (auto simp: corresponds_def)
qed

lemma corresponds_idle: "corresponds p s \<Longrightarrow> p \<in> {ServerReady, ServerBuilding} \<longleftrightarrow> s \<in> {Be_Ready, Be_Building}"
  by (cases p rule: associated.cases) (auto simp: corresponds_def states_of_resume split: copy_resume.splits)

lemma server_run_grammar:
  "server_run c events = Some (c', trace) \<Longrightarrow> corresponds (tc_phase c) s \<Longrightarrow> list_all result_send events \<Longrightarrow>
    \<exists>s'. grammar_run s trace = Some s' \<and> corresponds (tc_phase c') s' \<and>
      tc_cleanliness c' = (if dirty_run s trace then Dirty else tc_cleanliness c)"
proof (induction events arbitrary: c s trace)
  case (Cons event events)
  show ?case
  proof (cases event)
    case (Sv_call call)
    from Cons.prems(1) Sv_call obtain c1 f rest where call: "server_call c call = Some (Inr (c1, f))"
      and run: "server_run c1 events = Some (c', rest)"
      and trace: "trace = Exchanged_sent (call_sends_backend (tc_phase c) call) # rest"
      by (auto split: option.splits sum.splits prod.splits)
    from server_call_step [OF call Cons.prems(2)] Cons.prems(3) Sv_call obtain s1 where
      s1: "grammar_step s (Exchanged_sent (call_sends_backend (tc_phase c) call)) = Some s1" "corresponds (tc_phase c1) s1" by auto
    from Cons.IH [OF run s1(2)] Cons.prems(3) call_marks_dirty [OF call, of s] s1(1) trace show ?thesis by auto
  next
    case (Sv_receive m)
    from Cons.prems(1) Sv_receive obtain c1 rest where rcv: "server_receive c m = Done (Some c1)"
      and run: "server_run c1 events = Some (c', rest)" and trace: "trace = Exchanged_received m # rest"
      by (auto split: exec.splits option.splits)
    from receive_step [OF rcv Cons.prems(2)] obtain s1 where
      s1: "grammar_step s (Exchanged_received m) = Some s1" "corresponds (tc_phase c1) s1"
      and d: "tc_cleanliness c1 = (if marks_dirty m \<and> tc_phase c \<in> {ServerReady, ServerBuilding} then Dirty else tc_cleanliness c)"
      by auto
    from Cons.IH [OF run s1(2)] Cons.prems(3) d corresponds_idle [OF Cons.prems(2)] s1(1) trace show ?thesis by auto
  qed
qed (simp add: corresponds_def)

section \<open>Properties\<close>



text \<open>
  C30. The typed session is complete for the grammar: it takes a message of the client in a phase precisely when the
  grammar does, without ever reaching its \<open>unreachable!\<close>, and moves to the phase of the grammar; and every message that the
  grammar lets the server send can be sent, except for errors during and right after a COPY.
\<close>

theorem server_session_complete:
  "(\<exists>r. server_receive c m = Done r \<and> map_option (associated \<circ> tc_phase) r = receives backend (associated (tc_phase c)) m) \<and>
   (sends backend (associated (tc_phase c)) n \<noteq> None \<and> BackendMessage_to_frame n = Inr f \<and>
      \<not> (is_B_ErrorResponse n \<and> errors_untyped (tc_phase c)) \<longrightarrow>
    (\<exists>call c'. server_call c call = Some (Inr (c', f)) \<and> call_sends_backend (tc_phase c) call = n))"
  using server_receive_grammar [of c m] server_call_complete [of c n _ f] by blast

theorem server_session_complete_witness:
  "\<exists>call c'. server_call \<lparr>tc_transport = (), tc_phase = ServerParse, tc_cleanliness = Dirty\<rparr> call = Some (Inr (c', empty_message 49)) \<and>
    call_sends_backend ServerParse call = B_ParseComplete"
  using server_session_complete [of "\<lparr>tc_transport = (), tc_phase = ServerParse, tc_cleanliness = Dirty\<rparr>" F_Sync B_ParseComplete
      "empty_message 49"]
  by simp

section \<open>Where the code departs from the protocol\<close>

text \<open>A client may open an extended query and synchronise at once; the server at readiness has no \<open>Sync\<close>.\<close>

lemma empty_pipeline_refused:
  "let (c', f) = push_sync (begin_extended c) in
    Frontend_decode f = Inr F_Sync \<and> sc_phase c' = Fe_AwaitingReady \<and> offer_frontend s F_Sync = Inl (s, F_Sync)"
  by (simp add: push_sync_def begin_extended_def offer_frontend_def empty_frame_def Frontend_decode_iff empty_message_def)

text \<open>\<open>Terminate\<close> is discarded in recovery from an error, where PostgreSQL ends the session.\<close>

lemma terminate_discarded: "discard c F_Terminate = Done (Discard_Continue c)"
  by (simp add: discard_def)

text \<open>The grammar marks \<open>Execute\<close> as stateful; the typed session keeps the cleanliness.\<close>

lemma execute_kept_clean:
  "\<exists>t \<in> set (st_transitions backend_Ready_phase). t_event t = BeE_Execute \<and> t_cleanliness t = Some Dirty"
  "offer_frontend c (F_Execute e) = Inr (ReadyOffer_Extended (Extended_Execute (into c ServerExecute) e))"
  by (simp_all add: backend_Ready_phase_def grammar_defs offer_frontend_def project_extended_def)

end
