(* ===== verification/Scripts.thy ===== *)
theory Scripts
  imports Transport "HOL-Library.Sublist"
begin

text \<open>
  The message-level view of a transport that the drivers of client and server share: a script of what is received,
  messages or errors, whose end is a pending read, and how far a driver has read of it.
\<close>

type_synonym 'm script = "(io_error + 'm) list"

text \<open>A driver waits only at the end of its script, when every message of it has arrived and been used.\<close>

definition waits_at_end :: "'m script \<Rightarrow> ('e + 'r) poll \<times> 'm script \<times> 's \<Rightarrow> bool" where
  "waits_at_end inbound d = (case d of
     (Pending, rest, _) \<Rightarrow> rest = [] \<and> (\<forall>e. Inl e \<notin> set inbound)
   | (Returned (Inl _), rest, _) \<Rightarrow> suffix rest inbound
   | (Returned (Inr _), rest, _) \<Rightarrow> \<exists>ms. inbound = map Inr ms @ rest)"

lemma waits_at_end_simps [simp]:
  "waits_at_end inbound (Pending, rest, r) \<longleftrightarrow> rest = [] \<and> (\<forall>e. Inl e \<notin> set inbound)"
  "waits_at_end inbound (Returned (Inl e), rest, r) \<longleftrightarrow> suffix rest inbound"
  "waits_at_end inbound (Returned (Inr x), rest, r) \<longleftrightarrow> (\<exists>ms. inbound = map Inr ms @ rest)"
  by (simp_all add: waits_at_end_def)

lemma used_one [simp]: "\<exists>ms. [Inr m] = map Inr ms" "\<exists>ms. Inr m # rest = map Inr ms @ rest"
  by (rule exI [of _ "[m]"], simp)+

lemma waits_at_end_append:
  assumes "waits_at_end rest d"
  shows "waits_at_end (map Inr ms @ rest) d"
proof (cases d)
  case (fields p rest' r)
  show ?thesis
  proof (cases p)
    case (Returned x)
    show ?thesis
    proof (cases x)
      case (Inr y)
      with assms fields Returned obtain ms' where "rest = map Inr ms' @ rest'" by auto
      then have "map Inr ms @ rest = map Inr (ms @ ms') @ rest'" by simp
      then show ?thesis using fields Returned Inr by (simp only: waits_at_end_simps) blast
    qed (use assms fields Returned in \<open>simp add: suffix_appendI\<close>)
  qed (use assms fields in auto)
qed

lemma waits_at_end_Cons: "waits_at_end rest d \<Longrightarrow> waits_at_end (Inr m # rest) d"
  using waits_at_end_append [of rest d "[m]"] by simp

end
