(* ===== verification/Credentials.thy ===== *)
theory Credentials
  imports Wire
begin

text \<open>
  \<open>src/credentials.rs\<close> and the error of the built-in credentials.  The MD5 digest is that of the crate
  \<open>postgres-protocol\<close>, a parameter; the comparison in constant time of \<open>subtle\<close> is an equality.
\<close>

datatype StaticCredentialError =
    UnsupportedAuthentication | InvalidChallengeSequence | Scram_Error io_error | AuthenticationFailed

type_synonym md5_hash = "bytes \<Rightarrow> bytes \<Rightarrow> u8 \<times> u8 \<times> u8 \<times> u8 \<Rightarrow> bytes"

definition verify_md5_response :: "md5_hash \<Rightarrow> bytes \<Rightarrow> bytes \<Rightarrow> bytes \<Rightarrow> u8 \<times> u8 \<times> u8 \<times> u8 \<Rightarrow> bool" where
  "verify_md5_response md5 response username password salt = (response = md5 username password salt)"

definition verify_cleartext :: "bytes \<Rightarrow> bytes \<Rightarrow> bool" where
  "verify_cleartext response expected = (response = expected)"

end
