(* ===== verification/Client_Establish.thy ===== *)
theory Client_Establish
  imports Auth Pre_Startup Scripts Credentials
begin

text \<open>
  \<open>src/client_component.rs\<close>: the client's authentication drivers and the establishment of a session.  The
  transport is its message-level view, which the properties of \<open>Transport_Laws\<close> give for every segmentation of the
  byte stream: a script of received messages or errors, whose end is a pending read, and the results of flushes.  A
  driver returns what its future is ready with, the rest of the script and the run, which logs what went to the peer
  and came from it and what the policy answered.  Policy and middleware are parameters; the state of a middleware
  handler is part of the user state.
\<close>

section \<open>Policies and runs\<close>

datatype ClientAuthenticationChallenge =
    Challenge_CleartextPassword | Challenge_Md5Password "u8 \<times> u8 \<times> u8 \<times> u8" | Challenge_Sasl "bytes list"
  | Challenge_SaslContinue bytes | Challenge_SaslFinal bytes | Challenge_Gss | Challenge_Sspi | Challenge_KerberosV5
  | Challenge_TokenContinue bytes

datatype ClientAuthenticationResponse =
    Response_Password bytes | Response_SaslInitial bytes bytes | Response_Sasl bytes | Response_Token bytes
  | Response_Verified

datatype 'e AuthenticationDriveError =
    Drive_Policy 'e | Drive_Rejected | Drive_InvalidResponse | Drive_Protocol io_error

datatype client_event =
    Sent_packet bytes
  | Sent_frame Frame
  | Observed BackendMessage
  | Answered ClientAuthenticationChallenge ClientAuthenticationResponse

text \<open>\<open>push_frame\<close> fails when the frame exceeds the limit of the codec.\<close>

record ('pol, 'st, 'e, 'ev) client_env =
  env_begin :: "'e + 'pol"
  env_respond :: "'pol \<Rightarrow> ClientAuthenticationChallenge \<Rightarrow> ('e + ClientAuthenticationResponse) \<times> 'pol"
  env_authenticated :: "'pol \<Rightarrow> 'e + 'ev"
  env_frontend :: "'st \<Rightarrow> FrontendMessage \<Rightarrow> FrontendMessage \<times> 'st"
  env_backend :: "'st \<Rightarrow> BackendMessage \<Rightarrow> BackendMessage \<times> 'st"
  env_max_frame_len :: nat

record ('pol, 'st) client_run =
  cr_policy :: 'pol
  cr_state :: 'st
  cr_flushes :: "io_error option list"
  cr_log :: "client_event list"

type_synonym ('pol, 'st, 'r) driven = "'r poll \<times> BackendMessage script \<times> ('pol, 'st) client_run"

definition log_event :: "('pol, 'st) client_run \<Rightarrow> client_event \<Rightarrow> ('pol, 'st) client_run" where
  "log_event r e = r\<lparr>cr_log := cr_log r @ [e]\<rparr>"

definition flush_run :: "('pol, 'st) client_run \<Rightarrow> (io_error + unit) \<times> ('pol, 'st) client_run" where
  "flush_run r = (case cr_flushes r of
     [] \<Rightarrow> (Inr (), r)
   | None # rest \<Rightarrow> (Inr (), r\<lparr>cr_flushes := rest\<rparr>)
   | Some error # rest \<Rightarrow> (Inl error, r\<lparr>cr_flushes := rest\<rparr>))"

text \<open>\<open>push_frame(frame)?; flush().await?\<close>\<close>

definition push_and_flush :: "('pol, 'st, 'e, 'ev) client_env \<Rightarrow> ('pol, 'st) client_run \<Rightarrow> Frame
    \<Rightarrow> (io_error + unit) \<times> ('pol, 'st) client_run" where
  "push_and_flush env r f = (case with_max_frame_len (env_max_frame_len env) of
     Inl error \<Rightarrow> (Inl error, r)
   | Inr codec \<Rightarrow> (case PgCodec_encode codec f [] of
       Inl error \<Rightarrow> (Inl error, r)
     | Inr _ \<Rightarrow> flush_run (log_event r (Sent_frame f))))"

definition ask :: "('pol, 'st, 'e, 'ev) client_env \<Rightarrow> ('pol, 'st) client_run \<Rightarrow> ClientAuthenticationChallenge
    \<Rightarrow> ('e + ClientAuthenticationResponse) \<times> ('pol, 'st) client_run" where
  "ask env r challenge = (case env_respond env (cr_policy r) challenge of
     (Inl error, policy) \<Rightarrow> (Inl error, r\<lparr>cr_policy := policy\<rparr>)
   | (Inr response, policy) \<Rightarrow> (Inr response, log_event (r\<lparr>cr_policy := policy\<rparr>) (Answered challenge response)))"

definition observe :: "('pol, 'st, 'e, 'ev) client_env \<Rightarrow> ('pol, 'st) client_run \<Rightarrow> BackendMessage
    \<Rightarrow> BackendMessage \<times> ('pol, 'st) client_run" where
  "observe env r message = (let (message, state) = env_backend env (cr_state r) message in
     (message, log_event (r\<lparr>cr_state := state\<rparr>) (Observed message)))"

definition intercept_auth_response :: "('pol, 'st, 'e, 'ev) client_env \<Rightarrow> ('pol, 'st) client_run \<Rightarrow> bytes
    \<Rightarrow> bytes option \<times> ('pol, 'st) client_run" where
  "intercept_auth_response env r response = (case env_frontend env (cr_state r) (F_PasswordResponse response) of
     (F_PasswordResponse response, state) \<Rightarrow> (Some response, r\<lparr>cr_state := state\<rparr>)
   | (_, state) \<Rightarrow> (None, r\<lparr>cr_state := state\<rparr>))"

section \<open>Drivers\<close>

text \<open>The last step of a password and of a SASL exchange: one message, which must be the outcome.\<close>

definition await_outcome :: "string \<Rightarrow> ('pol, 'st, 'e, 'ev) client_env \<Rightarrow> unit AuthConn \<Rightarrow> BackendMessage script
    \<Rightarrow> ('pol, 'st) client_run \<Rightarrow> ('pol, 'st, 'e AuthenticationDriveError + unit AuthConn) driven" where
  "await_outcome illegal env c inbound r = (case inbound of
     [] \<Rightarrow> (Pending, [], r)
   | Inl error # rest \<Rightarrow> (Returned (Inl (Drive_Protocol error)), rest, r)
   | Inr message # rest \<Rightarrow> (let (message, r) = observe env r message in
       case auth_ok_offer c message of
         Inr (AuthCompletion_Ok c) \<Rightarrow> (Returned (Inr c), rest, r)
       | Inr (AuthCompletion_Error _ _) \<Rightarrow> (Returned (Inl Drive_Rejected), rest, r)
       | Inl _ \<Rightarrow> (Returned (Inl (Drive_Protocol (IoError InvalidData illegal))), rest, r)))"

text \<open>\<open>intercept_auth_response(...)?\<close>, the typed operation, \<open>push_frame(...)?\<close> and \<open>flush().await?\<close>\<close>

definition respond_with :: "('pol, 'st, 'e, 'ev) client_env \<Rightarrow> ('pol, 'st) client_run \<Rightarrow> bytes
    \<Rightarrow> (bytes \<Rightarrow> io_error + unit AuthConn \<times> Frame) \<Rightarrow> ('e AuthenticationDriveError + unit AuthConn) \<times> ('pol, 'st) client_run" where
  "respond_with env r response operation = (case intercept_auth_response env r response of
     (None, r) \<Rightarrow> (Inl Drive_InvalidResponse, r)
   | (Some response, r) \<Rightarrow> (case operation response of
       Inl error \<Rightarrow> (Inl (Drive_Protocol error), r)
     | Inr (c, f) \<Rightarrow> (case push_and_flush env r f of
         (Inl error, r) \<Rightarrow> (Inl (Drive_Protocol error), r)
       | (Inr _, r) \<Rightarrow> (Inr c, r))))"

definition complete_password :: "('pol, 'st, 'e, 'ev) client_env \<Rightarrow> unit AuthConn \<Rightarrow> ClientAuthenticationChallenge
    \<Rightarrow> BackendMessage script \<Rightarrow> ('pol, 'st) client_run
    \<Rightarrow> ('pol, 'st, 'e AuthenticationDriveError + unit AuthConn) driven" where
  "complete_password env c challenge inbound r = (case ask env r challenge of
     (Inl error, r) \<Rightarrow> (Returned (Inl (Drive_Policy error)), inbound, r)
   | (Inr (Response_Password secret), r) \<Rightarrow> (case respond_with env r secret (password c) of
       (Inl error, r) \<Rightarrow> (Returned (Inl error), inbound, r)
     | (Inr c, r) \<Rightarrow> await_outcome ''illegal authentication completion'' env c inbound r)
   | (Inr _, r) \<Rightarrow> (Returned (Inl Drive_InvalidResponse), inbound, r))"

fun sasl_loop :: "('pol, 'st, 'e, 'ev) client_env \<Rightarrow> unit AuthConn \<Rightarrow> BackendMessage script \<Rightarrow> ('pol, 'st) client_run
    \<Rightarrow> ('pol, 'st, 'e AuthenticationDriveError + unit AuthConn) driven" where
  "sasl_loop env c [] r = (Pending, [], r)"
| "sasl_loop env c (Inl error # rest) r = (Returned (Inl (Drive_Protocol error)), rest, r)"
| "sasl_loop env c (Inr message # rest) r = (let (message, r) = observe env r message in
     case sasl_offer_backend c message of
       Inr (SaslEvent_Continue c challenge) \<Rightarrow> (case ask env r (Challenge_SaslContinue challenge) of
         (Inl error, r) \<Rightarrow> (Returned (Inl (Drive_Policy error)), rest, r)
       | (Inr (Response_Sasl response), r) \<Rightarrow> (case respond_with env r response (\<lambda>response. Inr (sasl_respond c response)) of
           (Inl error, r) \<Rightarrow> (Returned (Inl error), rest, r)
         | (Inr c, r) \<Rightarrow> sasl_loop env c rest r)
       | (Inr _, r) \<Rightarrow> (Returned (Inl Drive_InvalidResponse), rest, r))
     | Inr (SaslEvent_Final c server_final) \<Rightarrow> (case ask env r (Challenge_SaslFinal server_final) of
         (Inl error, r) \<Rightarrow> (Returned (Inl (Drive_Policy error)), rest, r)
       | (Inr response, r) \<Rightarrow>
           if response \<noteq> Response_Verified then (Returned (Inl Drive_InvalidResponse), rest, r)
           else await_outcome ''illegal SASL authentication completion'' env (sasl_verified c) rest r)
     | Inr (SaslEvent_Error _ _) \<Rightarrow> (Returned (Inl Drive_Rejected), rest, r)
     | Inl _ \<Rightarrow> (Returned (Inl (Drive_Protocol (IoError InvalidData ''illegal SASL authentication message''))), rest, r))"

definition complete_sasl :: "('pol, 'st, 'e, 'ev) client_env \<Rightarrow> unit AuthConn \<Rightarrow> bytes list \<Rightarrow> BackendMessage script
    \<Rightarrow> ('pol, 'st) client_run \<Rightarrow> ('pol, 'st, 'e AuthenticationDriveError + unit AuthConn) driven" where
  "complete_sasl env c mechanisms inbound r = (case ask env r (Challenge_Sasl mechanisms) of
     (Inl error, r) \<Rightarrow> (Returned (Inl (Drive_Policy error)), inbound, r)
   | (Inr (Response_SaslInitial mechanism response), r) \<Rightarrow> (case respond_with env r response (sasl c mechanism) of
       (Inl error, r) \<Rightarrow> (Returned (Inl error), inbound, r)
     | (Inr c, r) \<Rightarrow> sasl_loop env c inbound r)
   | (Inr _, r) \<Rightarrow> (Returned (Inl Drive_InvalidResponse), inbound, r))"

text \<open>The challenge is answered with a token in the same way on entry and after each continuation.\<close>

definition token_answer :: "('pol, 'st, 'e, 'ev) client_env \<Rightarrow> unit AuthConn \<Rightarrow> ClientAuthenticationChallenge
    \<Rightarrow> ('pol, 'st) client_run \<Rightarrow> ('e AuthenticationDriveError + unit AuthConn) \<times> ('pol, 'st) client_run" where
  "token_answer env c challenge r = (case ask env r challenge of
     (Inl error, r) \<Rightarrow> (Inl (Drive_Policy error), r)
   | (Inr (Response_Token token), r) \<Rightarrow> respond_with env r token (\<lambda>token. Inr (token_respond c token))
   | (Inr _, r) \<Rightarrow> (Inl Drive_InvalidResponse, r))"

fun token_loop :: "('pol, 'st, 'e, 'ev) client_env \<Rightarrow> unit AuthConn \<Rightarrow> BackendMessage script \<Rightarrow> ('pol, 'st) client_run
    \<Rightarrow> ('pol, 'st, 'e AuthenticationDriveError + unit AuthConn) driven" where
  "token_loop env c [] r = (Pending, [], r)"
| "token_loop env c (Inl error # rest) r = (Returned (Inl (Drive_Protocol error)), rest, r)"
| "token_loop env c (Inr message # rest) r = (let (message, r) = observe env r message in
     case token_offer c message of
       Inr (TokenEvent_Continue c token) \<Rightarrow> (case token_answer env c (Challenge_TokenContinue token) r of
         (Inl error, r) \<Rightarrow> (Returned (Inl error), rest, r)
       | (Inr c, r) \<Rightarrow> token_loop env c rest r)
     | Inr (TokenEvent_Ok c) \<Rightarrow> (Returned (Inr c), rest, r)
     | Inr (TokenEvent_Error _ _) \<Rightarrow> (Returned (Inl Drive_Rejected), rest, r)
     | Inl _ \<Rightarrow> (Returned (Inl (Drive_Protocol (IoError InvalidData ''illegal token authentication message''))), rest, r))"

definition complete_token :: "('pol, 'st, 'e, 'ev) client_env \<Rightarrow> unit AuthConn \<Rightarrow> ClientAuthenticationChallenge
    \<Rightarrow> BackendMessage script \<Rightarrow> ('pol, 'st) client_run
    \<Rightarrow> ('pol, 'st, 'e AuthenticationDriveError + unit AuthConn) driven" where
  "complete_token env c challenge inbound r = (case token_answer env c challenge r of
     (Inl error, r) \<Rightarrow> (Returned (Inl error), inbound, r)
   | (Inr c, r) \<Rightarrow> token_loop env c inbound r)"

section \<open>Establishment\<close>

datatype 'e ClientAuthenticationError = Authentication_Policy 'e | Authentication_Rejected | Authentication_InvalidResponse

datatype 'e SessionEstablishError = Establish_Authentication "'e ClientAuthenticationError" | Establish_Protocol io_error

fun session_authentication_error :: "'e AuthenticationDriveError \<Rightarrow> 'e SessionEstablishError" where
  "session_authentication_error (Drive_Policy error) = Establish_Authentication (Authentication_Policy error)"
| "session_authentication_error Drive_Rejected = Establish_Authentication Authentication_Rejected"
| "session_authentication_error Drive_InvalidResponse = Establish_Authentication Authentication_InvalidResponse"
| "session_authentication_error (Drive_Protocol error) = Establish_Protocol error"

fun map_driven :: "('x \<Rightarrow> 'y) \<Rightarrow> ('pol, 'st, 'x + 'a) driven \<Rightarrow> ('pol, 'st, 'y + 'a) driven" where
  "map_driven g (Pending, inbound, r) = (Pending, inbound, r)"
| "map_driven g (Returned (Inl e), inbound, r) = (Returned (Inl (g e)), inbound, r)"
| "map_driven g (Returned (Inr x), inbound, r) = (Returned (Inr x), inbound, r)"

text \<open>The loop until \<open>AuthenticationOk\<close>.  A message that is refused without an error is passed over; the panic
  branch is the \<open>expect\<close> inside \<open>offer_backend\<close>.\<close>

fun authentication_loop :: "('pol, 'st, 'e, 'ev) client_env \<Rightarrow> unit AuthConn \<Rightarrow> BackendMessage script
    \<Rightarrow> ('pol, 'st) client_run \<Rightarrow> ('pol, 'st, 'e SessionEstablishError + unit AuthConn) driven exec" where
  "authentication_loop env c [] r = Done (Pending, [], r)"
| "authentication_loop env c (Inl error # rest) r = Done (Returned (Inl (Establish_Protocol error)), rest, r)"
| "authentication_loop env c (Inr message # rest) r = (let (message, r) = observe env r message in
     case auth_offer_backend c message of
       Panic \<Rightarrow> Panic
     | Done (Inr (AuthEvent_Authentication offer)) \<Rightarrow> (case offer of
         Offer_Ok c \<Rightarrow> Done (Returned (Inr c), rest, r)
       | Offer_Cleartext c \<Rightarrow> Done (map_driven session_authentication_error
           (complete_password env c Challenge_CleartextPassword rest r))
       | Offer_Md5 c salt \<Rightarrow> Done (map_driven session_authentication_error
           (complete_password env c (Challenge_Md5Password salt) rest r))
       | Offer_Sasl c mechanisms \<Rightarrow> Done (map_driven session_authentication_error (complete_sasl env c mechanisms rest r))
       | Offer_Gss c \<Rightarrow> Done (map_driven session_authentication_error (complete_token env c Challenge_Gss rest r))
       | Offer_Sspi c \<Rightarrow> Done (map_driven session_authentication_error (complete_token env c Challenge_Sspi rest r))
       | Offer_KerberosV5 c \<Rightarrow> Done (map_driven session_authentication_error (complete_token env c Challenge_KerberosV5 rest r)))
     | Done (Inr (AuthEvent_Negotiate c _)) \<Rightarrow> authentication_loop env c rest r
     | Done (Inr (AuthEvent_Error _ _)) \<Rightarrow>
         Done (Returned (Inl (Establish_Authentication Authentication_Rejected)), rest, r)
     | Done (Inl (c, _, source)) \<Rightarrow> (case source of
         Some error \<Rightarrow> Done (Returned (Inl (Establish_Protocol error)), rest, r)
       | None \<Rightarrow> authentication_loop env c rest r))"

fun replace_session_item :: "SessionItem \<Rightarrow> BackendMessage \<Rightarrow> SessionItem option" where
  "replace_session_item (Item_Message _) message = Some (Item_Message message)"
| "replace_session_item (Item_ReadyForQuery _ changed) (B_ReadyForQuery status) = Some (Item_ReadyForQuery status changed)"
| "replace_session_item (Item_CommandComplete _ command notices) (B_CommandComplete tag) =
     Some (Item_CommandComplete tag command notices)"
| "replace_session_item _ _ = None"

text \<open>The loop until \<open>ReadyForQuery\<close>: \<open>receive\<close> passes over what the demultiplexer keeps.\<close>

fun ready_loop :: "('pol, 'st, 'e, 'ev) client_env \<Rightarrow> Demux \<Rightarrow> unit AuthConn \<Rightarrow> CancelKey option \<Rightarrow> BackendMessage script
    \<Rightarrow> ('pol, 'st) client_run \<Rightarrow> ('pol, 'st, 'e SessionEstablishError + unit AuthConn \<times> CancelKey option \<times> Demux) driven" where
  "ready_loop env d c key [] r = (Pending, [], r)"
| "ready_loop env d c key (Inl error # rest) r = (Returned (Inl (Establish_Protocol error)), rest, r)"
| "ready_loop env d c key (Inr message # rest) r = (case route d message of
     (None, d) \<Rightarrow> ready_loop env d c key rest r
   | (Some item, d) \<Rightarrow>
       let key = (case into_backend_message item of
           B_BackendKeyData process_id secret_key \<Rightarrow> Some \<lparr>key_process_id = process_id, key_secret = secret_key\<rparr>
         | _ \<Rightarrow> key);
         (replacement, r) = observe env r (into_backend_message item) in
       (case replace_session_item item replacement of
          None \<Rightarrow> (Returned (Inl (Establish_Protocol (IoError InvalidData
            ''middleware replacement during startup readiness is not phase-compatible''))), rest, r)
        | Some item \<Rightarrow> (case offer_ready c item of
            Inr c \<Rightarrow> (Returned (Inr (c, key, d)), rest, r)
          | Inl (c, Item_Message _) \<Rightarrow> ready_loop env d c key rest r
          | Inl _ \<Rightarrow> (Returned (Inl (Establish_Protocol (IoError InvalidData
              ''startup did not reach an idle operational phase''))), rest, r))))"

text \<open>From the startup packet to the operational session.  \<open>Startup\<close> of \<open>src/pre_startup.rs\<close> encodes the packet.\<close>

definition establish_client_session :: "('pol, 'st, 'e, 'ev) client_env \<Rightarrow> StartupMessage \<Rightarrow> BackendMessage script
    \<Rightarrow> ('pol, 'st) client_run
    \<Rightarrow> ('pol, 'st, 'e SessionEstablishError + unit AuthConn \<times> 'ev \<times> CancelKey option \<times> Demux) driven exec" where
  "establish_client_session env message inbound r = (case env_begin env of
     Inl error \<Rightarrow> Done (Returned (Inl (Establish_Authentication (Authentication_Policy error))), inbound, r)
   | Inr policy \<Rightarrow> (case with_max_frame_len (env_max_frame_len env) of
       Inl error \<Rightarrow> Done (Returned (Inl (Establish_Protocol error)), inbound, r)
     | Inr _ \<Rightarrow> (case startup (Conn_new ()) message of
       Inl error \<Rightarrow> Done (Returned (Inl (Establish_Protocol error)), inbound, r)
     | Inr (_, packet) \<Rightarrow>
         (case flush_run (log_event (r\<lparr>cr_policy := policy\<rparr>) (Sent_packet packet)) of
            (Inl error, r) \<Rightarrow> Done (Returned (Inl (Establish_Protocol error)), inbound, r)
          | (Inr _, r) \<Rightarrow>
             (case authentication_loop env \<lparr>tc_transport = (), tc_phase = Au_Auth, tc_cleanliness = Pristine\<rparr> inbound r of
                Panic \<Rightarrow> Panic
              | Done (Pending, rest, r) \<Rightarrow> Done (Pending, rest, r)
              | Done (Returned (Inl error), rest, r) \<Rightarrow> Done (Returned (Inl error), rest, r)
              | Done (Returned (Inr c), rest, r) \<Rightarrow>
                 (case ready_loop env Demux_default c None rest r of
                    (Pending, rest, r) \<Rightarrow> Done (Pending, rest, r)
                  | (Returned (Inl error), rest, r) \<Rightarrow> Done (Returned (Inl error), rest, r)
                  | (Returned (Inr (c, key, d)), rest, r) \<Rightarrow> (case env_authenticated env (cr_policy r) of
                      Inl error \<Rightarrow> Done (Returned (Inl (Establish_Authentication (Authentication_Policy error))), rest, r)
                    | Inr evidence \<Rightarrow> Done (Returned (Inr (c, evidence, key, d)), rest, r))))))))"

section \<open>Built-in policies\<close>

text \<open>\<open>TrustClientAuthentication\<close>\<close>

definition trust_respond :: "unit \<Rightarrow> ClientAuthenticationChallenge \<Rightarrow> ('e + ClientAuthenticationResponse) \<times> unit" where
  "trust_respond p challenge = (Inr Response_Verified, p)"

text \<open>\<open>StaticClientCredentials\<close>; MD5 and the SCRAM client are those of the crate \<open>postgres-protocol\<close>.\<close>

record ('scram) client_crypto =
  md5_response :: md5_hash
  scram_new :: "bytes \<Rightarrow> 'scram"
  scram_message :: "'scram \<Rightarrow> bytes"
  scram_update :: "'scram \<Rightarrow> bytes \<Rightarrow> (io_error + unit) \<times> 'scram"
  scram_finish :: "'scram \<Rightarrow> bytes \<Rightarrow> (io_error + unit) \<times> 'scram"

record 'scram StaticClientCredentialSession =
  static_username :: bytes
  static_password :: bytes
  static_scram :: "'scram option"

fun static_respond :: "'scram client_crypto \<Rightarrow> 'scram StaticClientCredentialSession \<Rightarrow> ClientAuthenticationChallenge
    \<Rightarrow> (StaticCredentialError + ClientAuthenticationResponse) \<times> 'scram StaticClientCredentialSession" where
  "static_respond cr s Challenge_CleartextPassword = (Inr (Response_Password (static_password s)), s)"
| "static_respond cr s (Challenge_Md5Password salt) =
     (Inr (Response_Password (md5_response cr (static_username s) (static_password s) salt)), s)"
| "static_respond cr s (Challenge_Sasl mechanisms) =
     (if bstr ''SCRAM-SHA-256'' \<in> set mechanisms
      then let scram = scram_new cr (static_password s) in
        (Inr (Response_SaslInitial (bstr ''SCRAM-SHA-256'') (scram_message cr scram)), s\<lparr>static_scram := Some scram\<rparr>)
      else (Inl UnsupportedAuthentication, s))"
| "static_respond cr s (Challenge_SaslContinue message) = (case static_scram s of
     None \<Rightarrow> (Inl InvalidChallengeSequence, s)
   | Some scram \<Rightarrow> (case scram_update cr scram message of
       (Inl error, scram) \<Rightarrow> (Inl (Scram_Error error), s\<lparr>static_scram := Some scram\<rparr>)
     | (Inr _, scram) \<Rightarrow> (Inr (Response_Sasl (scram_message cr scram)), s\<lparr>static_scram := Some scram\<rparr>)))"
| "static_respond cr s (Challenge_SaslFinal message) = (case static_scram s of
     None \<Rightarrow> (Inl InvalidChallengeSequence, s)
   | Some scram \<Rightarrow> (case scram_finish cr scram message of
       (Inl error, scram) \<Rightarrow> (Inl (Scram_Error error), s\<lparr>static_scram := Some scram\<rparr>)
     | (Inr _, scram) \<Rightarrow> (Inr Response_Verified, s\<lparr>static_scram := Some scram\<rparr>)))"
| "static_respond cr s _ = (Inl UnsupportedAuthentication, s)"

end
