(* ===== verification/Client_Establish_Laws.thy ===== *)
theory Client_Establish_Laws
  imports Client_Establish
begin

text \<open>
  When the client has a session: the exchange it has then been through, as a specification of logs, and that
  establishment always comes to an end.
\<close>

section \<open>The exchanges that authenticate\<close>

text \<open>The challenge the policy is given for a password or a token request.\<close>

fun password_challenge :: "Authentication \<Rightarrow> ClientAuthenticationChallenge option" where
  "password_challenge Auth_CleartextPassword = Some Challenge_CleartextPassword"
| "password_challenge (Auth_Md5Password salt) = Some (Challenge_Md5Password salt)"
| "password_challenge _ = None"

fun token_challenge :: "Authentication \<Rightarrow> ClientAuthenticationChallenge option" where
  "token_challenge Auth_Gss = Some Challenge_Gss"
| "token_challenge Auth_Sspi = Some Challenge_Sspi"
| "token_challenge Auth_KerberosV5 = Some Challenge_KerberosV5"
| "token_challenge _ = None"

abbreviation seen :: "Authentication \<Rightarrow> client_event" where
  "seen a \<equiv> Observed (B_Authentication a)"

inductive sasl_rounds :: "client_event list \<Rightarrow> bool" where
  none: "sasl_rounds []"
| round: "sasl_rounds rounds \<Longrightarrow>
    sasl_rounds (seen (Auth_SaslContinue v) # Answered (Challenge_SaslContinue v) (Response_Sasl x) # Sent_frame f # rounds)"

inductive token_rounds :: "client_event list \<Rightarrow> bool" where
  none: "token_rounds []"
| round: "token_rounds rounds \<Longrightarrow>
    token_rounds (seen (Auth_GssContinue v) # Answered (Challenge_TokenContinue v) (Response_Token x) # Sent_frame f # rounds)"

text \<open>
  From the first message of the server to \<open>AuthenticationOk\<close>: no credentials at all; a password, by the policy for
  that very request; a SASL exchange whose final message the policy has verified; or a token exchange.  Messages that
  are no authentication messages may come before.
\<close>

inductive credential_exchange :: "client_event list \<Rightarrow> bool" where
  trusted: "credential_exchange [seen Auth_Ok]"
| password: "password_challenge a = Some challenge \<Longrightarrow>
    credential_exchange [seen a, Answered challenge (Response_Password secret), Sent_frame f, seen Auth_Ok]"
| sasl: "sasl_rounds rounds \<Longrightarrow>
    credential_exchange ([seen (Auth_Sasl ms), Answered (Challenge_Sasl ms) (Response_SaslInitial m x), Sent_frame f] @ rounds @
      [seen (Auth_SaslFinal v), Answered (Challenge_SaslFinal v) Response_Verified, seen Auth_Ok])"
| token: "token_challenge a = Some challenge \<Longrightarrow> token_rounds rounds \<Longrightarrow>
    credential_exchange ([seen a, Answered challenge (Response_Token x), Sent_frame f] @ rounds @ [seen Auth_Ok])"
| passed: "\<not> is_B_Authentication m \<Longrightarrow> \<not> is_B_ErrorResponse m \<Longrightarrow> credential_exchange log \<Longrightarrow>
    credential_exchange (Observed m # log)"

inductive readiness :: "client_event list \<Rightarrow> bool" where
  ready: "readiness [Observed (B_ReadyForQuery Idle)]"
| passed: "readiness log \<Longrightarrow> readiness (Observed m # log)"

section \<open>Steps\<close>

lemma log_event_log [simp]: "cr_log (log_event r e) = cr_log r @ [e]"
  by (simp add: log_event_def)

lemma flush_run_log: "flush_run r = (x, r') \<Longrightarrow> cr_log r' = cr_log r"
  by (auto simp: flush_run_def split: list.splits option.splits)

lemma push_and_flush_log: "push_and_flush env r f = (Inr u, r') \<Longrightarrow> cr_log r' = cr_log r @ [Sent_frame f]"
  by (auto simp: push_and_flush_def split: sum.splits dest: flush_run_log)

lemma ask_log: "ask env r challenge = (Inr x, r') \<Longrightarrow> cr_log r' = cr_log r @ [Answered challenge x]"
  by (auto simp: ask_def split: prod.splits sum.splits)

lemma observe_log: "observe env r m = (m', r') \<Longrightarrow> cr_log r' = cr_log r @ [Observed m']"
  by (auto simp: observe_def split: prod.splits)

lemma intercept_log: "intercept_auth_response env r x = (y, r') \<Longrightarrow> cr_log r' = cr_log r"
  by (auto simp: intercept_auth_response_def split: prod.splits FrontendMessage.splits)

lemma respond_with_log:
  assumes "respond_with env r x operation = (Inr c, r')"
  shows "\<exists>y f. operation y = Inr (c, f) \<and> cr_log r' = cr_log r @ [Sent_frame f]"
  using assms
  by (auto simp: respond_with_def split: prod.splits option.splits sum.splits
      dest!: intercept_log push_and_flush_log)

lemma auth_ok_offer_Ok: "auth_ok_offer c m = Inr (AuthCompletion_Ok c') \<Longrightarrow> m = B_Authentication Auth_Ok \<and> tc_phase c' = Au_AwaitingStartupReady"
  by (auto simp: auth_ok_offer_def Let_def split: BackendMessage.splits Authentication.splits if_splits)

lemma await_outcome_log:
  assumes "await_outcome illegal env c inbound r = (Returned (Inr c'), rest, r')"
  shows "cr_log r' = cr_log r @ [seen Auth_Ok] \<and> tc_phase c' = Au_AwaitingStartupReady"
  using assms
  by (auto simp: await_outcome_def split: list.splits sum.splits prod.splits AuthCompletion.splits
      dest!: auth_ok_offer_Ok observe_log)

lemma complete_password_log:
  assumes "complete_password env c challenge inbound r = (Returned (Inr c'), rest, r')"
  shows "\<exists>secret f. cr_log r' = cr_log r @ [Answered challenge (Response_Password secret), Sent_frame f, seen Auth_Ok] \<and>
    tc_phase c' = Au_AwaitingStartupReady"
  using assms
  by (auto simp: complete_password_def split: prod.splits sum.splits ClientAuthenticationResponse.splits
      dest!: ask_log respond_with_log await_outcome_log)

lemma sasl_offer_cases:
  "sasl_offer_backend c m = Inr (SaslEvent_Continue c' v) \<Longrightarrow> m = B_Authentication (Auth_SaslContinue v)"
  "sasl_offer_backend c m = Inr (SaslEvent_Final c' v) \<Longrightarrow> m = B_Authentication (Auth_SaslFinal v)"
  by (auto simp: sasl_offer_backend_def sasl_offer_def Let_def split: BackendMessage.splits Authentication.splits if_splits)

lemma sasl_loop_log:
  "sasl_loop env c inbound r = (Returned (Inr c'), rest, r') \<Longrightarrow>
    \<exists>rounds v. sasl_rounds rounds \<and> tc_phase c' = Au_AwaitingStartupReady \<and>
      cr_log r' = cr_log r @ rounds @ [seen (Auth_SaslFinal v), Answered (Challenge_SaslFinal v) Response_Verified, seen Auth_Ok]"
proof (induction inbound arbitrary: c r)
  case (Cons item rest0)
  from Cons.prems obtain message where item: "item = Inr message" by (cases item) auto
  obtain m r1 where obs: "observe env r message = (m, r1)" by (cases "observe env r message") auto
  have l1: "cr_log r1 = cr_log r @ [Observed m]" using obs by (rule observe_log)
  from Cons.prems item obs obtain event where event: "sasl_offer_backend c m = Inr event"
    by (cases "sasl_offer_backend c m") auto
  show ?case
  proof (cases event)
    case (SaslEvent_Continue c1 v)
    with Cons.prems item obs event obtain x r2 c2 r3 where
      a: "ask env r1 (Challenge_SaslContinue v) = (Inr (Response_Sasl x), r2)"
      and w: "respond_with env r2 x (\<lambda>response. Inr (sasl_respond c1 response)) = (Inr c2, r3)"
      and loop: "sasl_loop env c2 rest0 r3 = (Returned (Inr c'), rest, r')"
      by (auto split: prod.splits sum.splits ClientAuthenticationResponse.splits)
    from respond_with_log [OF w] obtain f where "cr_log r3 = cr_log r2 @ [Sent_frame f]" by auto
    with ask_log [OF a] l1 event SaslEvent_Continue have "cr_log r3 = cr_log r @
        [seen (Auth_SaslContinue v), Answered (Challenge_SaslContinue v) (Response_Sasl x), Sent_frame f]"
      by (simp add: sasl_offer_cases)
    with Cons.IH [OF loop] show ?thesis
      by (auto intro: sasl_rounds.round simp flip: append_Cons)
  next
    case (SaslEvent_Final c1 v)
    with event have "m = B_Authentication (Auth_SaslFinal v)" by (simp add: sasl_offer_cases)
    with Cons.prems item obs event SaslEvent_Final l1 show ?thesis
      by (auto split: prod.splits sum.splits if_splits dest!: ask_log await_outcome_log intro: exI [of _ "[]"] exI [of _ v] sasl_rounds.none)
  qed (use Cons.prems item obs event in simp)
qed simp

lemma complete_sasl_log:
  assumes "complete_sasl env c ms inbound r = (Returned (Inr c'), rest, r')"
  shows "\<exists>m x f rounds v. sasl_rounds rounds \<and> tc_phase c' = Au_AwaitingStartupReady \<and>
    cr_log r' = cr_log r @ [Answered (Challenge_Sasl ms) (Response_SaslInitial m x), Sent_frame f] @ rounds @
      [seen (Auth_SaslFinal v), Answered (Challenge_SaslFinal v) Response_Verified, seen Auth_Ok]"
proof -
  from assms obtain m x r1 c1 r2 where a: "ask env r (Challenge_Sasl ms) = (Inr (Response_SaslInitial m x), r1)"
    and w: "respond_with env r1 x (sasl c m) = (Inr c1, r2)"
    and loop: "sasl_loop env c1 inbound r2 = (Returned (Inr c'), rest, r')"
    by (auto simp: complete_sasl_def split: prod.splits sum.splits ClientAuthenticationResponse.splits)
  from respond_with_log [OF w] ask_log [OF a] sasl_loop_log [OF loop] show ?thesis by auto
qed

lemma token_answer_log:
  assumes "token_answer env c challenge r = (Inr c', r')"
  shows "\<exists>x f. cr_log r' = cr_log r @ [Answered challenge (Response_Token x), Sent_frame f]"
  using assms
  by (auto simp: token_answer_def split: prod.splits sum.splits ClientAuthenticationResponse.splits
      dest!: ask_log respond_with_log)

lemma token_offer_cases:
  "token_offer c m = Inr (TokenEvent_Continue c' v) \<Longrightarrow> m = B_Authentication (Auth_GssContinue v)"
  "token_offer c m = Inr (TokenEvent_Ok c') \<Longrightarrow> m = B_Authentication Auth_Ok \<and> tc_phase c' = Au_AwaitingStartupReady"
  by (auto simp: token_offer_def Let_def split: BackendMessage.splits Authentication.splits if_splits)

lemma token_loop_log:
  "token_loop env c inbound r = (Returned (Inr c'), rest, r') \<Longrightarrow>
    \<exists>rounds. token_rounds rounds \<and> tc_phase c' = Au_AwaitingStartupReady \<and> cr_log r' = cr_log r @ rounds @ [seen Auth_Ok]"
proof (induction inbound arbitrary: c r)
  case (Cons item rest0)
  from Cons.prems obtain message where item: "item = Inr message" by (cases item) auto
  obtain m r1 where obs: "observe env r message = (m, r1)" by (cases "observe env r message") auto
  have l1: "cr_log r1 = cr_log r @ [Observed m]" using obs by (rule observe_log)
  from Cons.prems item obs obtain event where event: "token_offer c m = Inr event"
    by (cases "token_offer c m") auto
  show ?case
  proof (cases event)
    case (TokenEvent_Continue c1 v)
    with Cons.prems item obs event obtain c2 r2 where
      a: "token_answer env c1 (Challenge_TokenContinue v) r1 = (Inr c2, r2)"
      and loop: "token_loop env c2 rest0 r2 = (Returned (Inr c'), rest, r')"
      by (auto split: prod.splits sum.splits)
    from token_answer_log [OF a] l1 event TokenEvent_Continue obtain x f where "cr_log r2 = cr_log r @
        [seen (Auth_GssContinue v), Answered (Challenge_TokenContinue v) (Response_Token x), Sent_frame f]"
      by (auto simp: token_offer_cases)
    with Cons.IH [OF loop] show ?thesis
      by (auto intro: token_rounds.round simp flip: append_Cons)
  next
    case (TokenEvent_Ok c1)
    with Cons.prems item obs event l1 show ?thesis
      by (auto dest!: token_offer_cases intro: exI [of _ "[]"] token_rounds.none)
  qed (use Cons.prems item obs event in simp)
qed simp

lemma complete_token_log:
  assumes "complete_token env c challenge inbound r = (Returned (Inr c'), rest, r')"
  shows "\<exists>x f rounds. token_rounds rounds \<and> tc_phase c' = Au_AwaitingStartupReady \<and>
    cr_log r' = cr_log r @ [Answered challenge (Response_Token x), Sent_frame f] @ rounds @ [seen Auth_Ok]"
  using assms
  by (fastforce simp: complete_token_def split: prod.splits sum.splits dest!: token_answer_log token_loop_log)

lemma map_driven_Inr [simp]: "(map_driven g d = (Returned (Inr x), inbound, r)) = (d = (Returned (Inr x), inbound, r))"
  by (cases "(g, d)" rule: map_driven.cases) auto

lemma auth_offer_simps [simp]:
  "auth_offer_backend c (B_Authentication Auth_Ok) = Done (Inr (AuthEvent_Authentication (Offer_Ok (into c Au_AwaitingStartupReady))))"
  "auth_offer_backend c (B_Authentication Auth_CleartextPassword) =
    Done (Inr (AuthEvent_Authentication (Offer_Cleartext (into c Au_PasswordResponse))))"
  "auth_offer_backend c (B_Authentication (Auth_Md5Password salt)) =
    Done (Inr (AuthEvent_Authentication (Offer_Md5 (into c Au_PasswordResponse) salt)))"
  "auth_offer_backend c (B_Authentication (Auth_Sasl ms)) =
    Done (Inr (AuthEvent_Authentication (Offer_Sasl (into c Au_SaslInitial) ms)))"
  "auth_offer_backend c (B_Authentication Auth_Gss) = Done (Inr (AuthEvent_Authentication (Offer_Gss (into c Au_TokenResponse))))"
  "auth_offer_backend c (B_Authentication Auth_Sspi) = Done (Inr (AuthEvent_Authentication (Offer_Sspi (into c Au_TokenResponse))))"
  "auth_offer_backend c (B_Authentication Auth_KerberosV5) =
    Done (Inr (AuthEvent_Authentication (Offer_KerberosV5 (into c Au_TokenResponse))))"
  "auth_offer_backend c (B_Authentication (Auth_GssContinue v)) =
    Done (Inl (c, B_Authentication (Auth_GssContinue v), Some continuation_error))"
  "auth_offer_backend c (B_Authentication (Auth_SaslContinue v)) =
    Done (Inl (c, B_Authentication (Auth_SaslContinue v), Some continuation_error))"
  "auth_offer_backend c (B_Authentication (Auth_SaslFinal v)) =
    Done (Inl (c, B_Authentication (Auth_SaslFinal v), Some continuation_error))"
  "auth_offer_backend c (B_NegotiateProtocolVersion n) = Done (Inr (AuthEvent_Negotiate c n))"
  "auth_offer_backend c (B_ErrorResponse e) = Done (Inr (AuthEvent_Error (into c Au_Terminated) e))"
  by (simp_all add: auth_offer_backend_def auth_offer_def Let_def project_authentication_def authentication_is_def)

lemma auth_offer_other:
  "\<not> is_B_Authentication m \<Longrightarrow> \<not> is_B_NegotiateProtocolVersion m \<Longrightarrow> \<not> is_B_ErrorResponse m \<Longrightarrow>
    auth_offer_backend c m = Done (Inl (c, m, None))"
  by (cases m) (simp_all add: auth_offer_backend_def)

lemma credential_exchange_requests:
  "credential_exchange [seen Auth_CleartextPassword, Answered Challenge_CleartextPassword (Response_Password x), Sent_frame f, seen Auth_Ok]"
  "credential_exchange [seen (Auth_Md5Password salt), Answered (Challenge_Md5Password salt) (Response_Password x), Sent_frame f, seen Auth_Ok]"
  "token_rounds rounds \<Longrightarrow>
    credential_exchange (seen Auth_Gss # Answered Challenge_Gss (Response_Token x) # Sent_frame f # rounds @ [seen Auth_Ok])"
  "token_rounds rounds \<Longrightarrow>
    credential_exchange (seen Auth_Sspi # Answered Challenge_Sspi (Response_Token x) # Sent_frame f # rounds @ [seen Auth_Ok])"
  "token_rounds rounds \<Longrightarrow>
    credential_exchange (seen Auth_KerberosV5 # Answered Challenge_KerberosV5 (Response_Token x) # Sent_frame f # rounds @ [seen Auth_Ok])"
  using credential_exchange.password [of Auth_CleartextPassword] credential_exchange.password [of "Auth_Md5Password salt"]
    credential_exchange.token [of Auth_Gss] credential_exchange.token [of Auth_Sspi] credential_exchange.token [of Auth_KerberosV5]
  by simp_all

lemma authentication_loop_log:
  "\<exists>d. authentication_loop env c inbound r = Done d \<and>
    (\<forall>c' rest r'. d = (Returned (Inr c'), rest, r') \<longrightarrow>
      (\<exists>log. credential_exchange log \<and> cr_log r' = cr_log r @ log \<and> tc_phase c' = Au_AwaitingStartupReady))"
proof (induction inbound arbitrary: c r)
  case (Cons item rest0)
  show ?case
  proof (cases item)
    case (Inr message)
    obtain m r1 where obs: "observe env r message = (m, r1)" by (cases "observe env r message") auto
    have l1: "cr_log r1 = cr_log r @ [Observed m]" using obs by (rule observe_log)
    show ?thesis
    proof (cases "is_B_Authentication m \<or> is_B_ErrorResponse m")
      case False
      then have loop: "authentication_loop env c (item # rest0) r = authentication_loop env c rest0 r1"
        by (cases "is_B_NegotiateProtocolVersion m")
          (auto simp: Inr obs auth_offer_other is_B_NegotiateProtocolVersion_def)
      from Cons.IH [of c r1] False l1 show ?thesis
        unfolding loop by (fastforce intro: credential_exchange.passed)
    next
      case True
      show ?thesis
      proof (cases m)
        case (B_Authentication a)
        then show ?thesis
          by (cases a) (auto simp: Inr obs l1 dest!: complete_password_log complete_sasl_log complete_token_log
              intro: credential_exchange.trusted credential_exchange.sasl [simplified] credential_exchange_requests)
      qed (use True in \<open>simp_all add: Inr obs\<close>)
    qed
  qed simp
qed simp

lemma offer_ready_Inr: "offer_ready c item = Inr c' \<longleftrightarrow> item = Item_ReadyForQuery Idle False \<and> c' = into c Au_Ready"
  by (auto simp: offer_ready_def)

lemma replace_session_item_Some: "replace_session_item item m = Some item' \<Longrightarrow> into_backend_message item' = m"
  by (cases "(item, m)" rule: replace_session_item.cases) auto

lemma ready_loop_log:
  "ready_loop env d c key inbound r = (Returned (Inr (c', key', d')), rest, r') \<Longrightarrow>
    \<exists>log. readiness log \<and> cr_log r' = cr_log r @ log \<and> tc_phase c' = Au_Ready"
proof (induction inbound arbitrary: d c key r)
  case (Cons item rest0)
  from Cons.prems obtain message where item: "item = Inr message" by (cases item) auto
  obtain i d1 where rt: "route d message = (i, d1)" by (cases "route d message") auto
  show ?case
  proof (cases i)
    case None
    with Cons item rt show ?thesis by auto
  next
    case (Some routed)
    obtain m r1 where obs: "observe env r (into_backend_message routed) = (m, r1)"
      by (cases "observe env r (into_backend_message routed)") auto
    have l1: "cr_log r1 = cr_log r @ [Observed m]" using obs by (rule observe_log)
    from Cons.prems item rt Some obs obtain item' where rep: "replace_session_item routed m = Some item'"
      by (auto simp: Let_def split: option.splits)
    show ?thesis
    proof (cases "item' = Item_ReadyForQuery Idle False")
      case True
      with replace_session_item_Some [OF rep] have "m = B_ReadyForQuery Idle" by simp
      with Cons.prems item rt Some obs rep True l1 show ?thesis
        by (auto simp: Let_def offer_ready_def intro: readiness.ready)
    next
      case False
      with Cons.prems item rt Some obs rep obtain key1 where
        "ready_loop env d1 c key1 rest0 r1 = (Returned (Inr (c', key', d')), rest, r')"
        by (auto simp: Let_def offer_ready_def split: SessionItem.splits)
      from Cons.IH [OF this] l1 show ?thesis by (auto intro: readiness.passed)
    qed
  qed
qed simp

section \<open>A script that ends in an error is never waited on\<close>

lemma waits_at_end_map [simp]: "waits_at_end inbound (map_driven g d) = waits_at_end inbound d"
  by (cases "(g, d)" rule: map_driven.cases) simp_all

lemma await_outcome_waits [simp]: "waits_at_end inbound (await_outcome illegal env c inbound r)"
  by (auto simp: await_outcome_def suffix_ConsI split: list.splits sum.splits prod.splits AuthCompletion.splits)

lemma complete_password_waits [simp]: "waits_at_end inbound (complete_password env c challenge inbound r)"
  by (auto simp: complete_password_def split: prod.splits sum.splits ClientAuthenticationResponse.splits)

lemma sasl_loop_waits [simp]: "waits_at_end inbound (sasl_loop env c inbound r)"
proof (induction inbound arbitrary: c r)
  case (Cons item rest)
  then show ?case
    by (cases item) (auto simp: suffix_ConsI waits_at_end_Cons Let_def split: prod.splits sum.splits SaslEvent.splits
        ClientAuthenticationResponse.splits)
qed simp

lemma complete_sasl_waits [simp]: "waits_at_end inbound (complete_sasl env c mechanisms inbound r)"
  by (auto simp: complete_sasl_def split: prod.splits sum.splits ClientAuthenticationResponse.splits)

lemma token_loop_waits [simp]: "waits_at_end inbound (token_loop env c inbound r)"
proof (induction inbound arbitrary: c r)
  case (Cons item rest)
  then show ?case
    by (cases item) (auto simp: suffix_ConsI waits_at_end_Cons Let_def split: prod.splits sum.splits TokenAuthEvent.splits)
qed simp

lemma complete_token_waits [simp]: "waits_at_end inbound (complete_token env c challenge inbound r)"
  by (auto simp: complete_token_def split: prod.splits sum.splits)

lemma authentication_loop_waits: "\<exists>d. authentication_loop env c inbound r = Done d \<and> waits_at_end inbound d"
proof (induction inbound arbitrary: c r)
  case (Cons item rest)
  show ?case
  proof (cases item)
    case (Inr message)
    obtain m r1 where obs: "observe env r message = (m, r1)" by (cases "observe env r message") auto
    from Cons.IH [of c r1] have pass: "\<exists>d. authentication_loop env c rest r1 = Done d \<and> waits_at_end (Inr message # rest) d"
      by (auto intro: waits_at_end_Cons)
    show ?thesis
    proof (cases "is_B_Authentication m \<or> is_B_ErrorResponse m \<or> is_B_NegotiateProtocolVersion m")
      case False
      with pass show ?thesis by (simp add: Inr obs auth_offer_other)
    next
      case True
      show ?thesis
      proof (cases m)
        case (B_Authentication a)
        then show ?thesis
          by (cases a) (simp_all add: Inr obs waits_at_end_Cons suffix_ConsI)
      qed (use True pass in \<open>simp_all add: Inr obs suffix_ConsI\<close>)
    qed
  qed (simp add: suffix_ConsI)
qed simp

lemma ready_loop_waits: "waits_at_end inbound (ready_loop env d c key inbound r)"
proof (induction inbound arbitrary: d c key r)
  case (Cons item rest)
  then show ?case
    by (cases item) (auto simp: suffix_ConsI waits_at_end_Cons Let_def split: prod.splits sum.splits option.splits
        SessionItem.splits)
qed simp

section \<open>Establishment\<close>

lemma establish_cases:
  assumes "establish_client_session env message inbound r = Done (Returned (Inr (c, evidence, key, d)), rest, r')"
  obtains packet r1 c1 rest1 r2 where "StartupMessage_encode message = Inr packet"
    and "cr_log r1 = cr_log r @ [Sent_packet packet]"
    and "authentication_loop env \<lparr>tc_transport = (), tc_phase = Au_Auth, tc_cleanliness = Pristine\<rparr> inbound r1 =
      Done (Returned (Inr c1), rest1, r2)"
    and "ready_loop env Demux_default c1 None rest1 r2 = (Returned (Inr (c, key, d)), rest, r')"
    and "env_authenticated env (cr_policy r') = Inr evidence"
  using assms
  by (auto simp: establish_client_session_def startup_def split: sum.splits prod.splits exec.splits poll.splits
      dest!: flush_run_log)

lemma establish_waits: "\<exists>d. establish_client_session env message inbound r = Done d \<and> waits_at_end inbound d"
proof (cases "env_begin env")
  case (Inr policy)
  note begun = this
  show ?thesis
  proof (cases "\<exists>codec c packet r1. with_max_frame_len (env_max_frame_len env) = Inr codec \<and> startup (Conn_new ()) message = Inr (c, packet) \<and>
      flush_run (log_event (r\<lparr>cr_policy := policy\<rparr>) (Sent_packet packet)) = (Inr (), r1)")
    case False
    then show ?thesis
      using begun by (auto simp: establish_client_session_def split: sum.splits prod.splits)
  next
    case True
    then obtain codec c packet r1 where sent: "with_max_frame_len (env_max_frame_len env) = Inr codec"
      "startup (Conn_new ()) message = Inr (c, packet)"
      "flush_run (log_event (r\<lparr>cr_policy := policy\<rparr>) (Sent_packet packet)) = (Inr (), r1)" by blast
    define c0 :: "unit AuthConn" where "c0 = \<lparr>tc_transport = (), tc_phase = Au_Auth, tc_cleanliness = Pristine\<rparr>"
    obtain p rest r2 where auth: "authentication_loop env c0 inbound r1 = Done (p, rest, r2)" "waits_at_end inbound (p, rest, r2)"
      using authentication_loop_waits by (metis prod_cases3)
    show ?thesis
    proof (cases "\<exists>c1. p = Returned (Inr c1)")
      case False
      with auth show ?thesis
        by (auto simp: establish_client_session_def begun sent c0_def split: poll.splits sum.splits)
    next
      case True
      then obtain c1 where c1: "p = Returned (Inr c1)" by blast
      obtain q rest' r3 where ready: "ready_loop env Demux_default c1 None rest r2 = (q, rest', r3)" by (metis prod_cases3)
      with auth c1 ready_loop_waits [of rest env Demux_default c1 None r2] have "waits_at_end inbound (q, rest', r3)"
        by (auto intro: waits_at_end_append)
      then show ?thesis
        using begun sent auth(1) c1 ready
        by (auto simp: establish_client_session_def c0_def suffix_def split: poll.splits sum.splits)
    qed
  qed
qed (simp add: establish_client_session_def)


text \<open>A SCRAM-like exchange with the built-in credentials, whose cryptography is a stub.\<close>

definition sample_crypto :: "bytes client_crypto" where
  "sample_crypto = \<lparr>md5_response = (\<lambda>u p s. u @ p), scram_new = (\<lambda>p. p), scram_message = (\<lambda>s. s),
     scram_update = (\<lambda>s m. (Inr (), s @ m)), scram_finish = (\<lambda>s m. (if m = s then Inr () else Inl (invalid ''proof''), s))\<rparr>"

definition sample_env :: "(bytes StaticClientCredentialSession, unit, StaticCredentialError, unit) client_env" where
  "sample_env = \<lparr>env_begin = Inr \<lparr>static_username = [117], static_password = [112], static_scram = None\<rparr>,
     env_respond = static_respond sample_crypto, env_authenticated = (\<lambda>_. Inr ()), env_frontend = (\<lambda>s m. (m, s)),
     env_backend = (\<lambda>s m. (m, s)), env_max_frame_len = 100\<rparr>"

definition sample_run :: "(bytes StaticClientCredentialSession, unit) client_run" where
  "sample_run = \<lparr>cr_policy = \<lparr>static_username = [], static_password = [], static_scram = None\<rparr>, cr_state = (),
     cr_flushes = [], cr_log = []\<rparr>"

definition sample_script :: "BackendMessage script" where
  "sample_script = map (Inr \<circ> B_Authentication) [Auth_Sasl [bstr ''SCRAM-SHA-256''], Auth_SaslContinue [1],
     Auth_SaslFinal [112, 1], Auth_Ok] @ [Inr (B_BackendKeyData 7 [1, 2, 3, 4]), Inr (B_ReadyForQuery Idle)]"

lemma sample_establishes:
  "case establish_client_session sample_env \<lparr>startup_version = V3_0, startup_parameters = [([117], [97])]\<rparr> sample_script sample_run of
     Done (Returned (Inr _), _, _) \<Rightarrow> True | _ \<Rightarrow> False"
  by (simp add: eval_defs V3_0_def sample_env_def sample_run_def sample_script_def sample_crypto_def
      establish_client_session_def startup_def flush_run_def log_event_def observe_def ask_def respond_with_def
      intercept_auth_response_def push_and_flush_def complete_sasl_def sasl_def sasl_initial_def sasl_offer_backend_def sasl_offer_def
      sasl_respond_def sasl_verified_def await_outcome_def auth_ok_offer_def offer_ready_def Let_def Demux_default_def
      project_authentication_def authentication_is_def)


text \<open>
  Establishing a session never panics, and comes to an end as soon as the transport reports an error or the end
  of the stream, whatever the server sends before and whatever the policy and the middleware answer.
\<close>

theorem establish_terminates:
  assumes "Inl error \<in> set inbound"
  shows "\<exists>result rest r'. establish_client_session env message inbound r = Done (Returned result, rest, r') \<and> suffix rest inbound"
proof -
  obtain d where "establish_client_session env message inbound r = Done d" "waits_at_end inbound d"
    using establish_waits by blast
  with assms show ?thesis by (auto simp: waits_at_end_def suffix_def split: prod.splits poll.splits sum.splits)
qed

theorem establish_terminates_witness:
  "\<exists>result rest r'. establish_client_session sample_env sample_startup [Inr (B_Authentication Auth_Ok), Inl (IoError UnexpectedEof []), Inr (B_ReadyForQuery Idle)]
    sample_run = Done (Returned result, rest, r') \<and> suffix rest [Inr (B_Authentication Auth_Ok), Inl (IoError UnexpectedEof []), Inr (B_ReadyForQuery Idle)]"
  by (rule establish_terminates [of "IoError UnexpectedEof []"]) simp

end
