(* ===== verification/Server_Accept.thy ===== *)
theory Server_Accept
  imports Server_Auth Pre_Startup Scripts Credentials
begin

text \<open>
  \<open>src/server_component.rs\<close>: how a server component accepts a connection, from the first packet to the session.  As on
  the client, the transport is its message-level view: scripts of the packets and messages that arrive, whose end is a
  pending read, and the results of flushes.  The packets before and after a TLS handshake are two scripts; the
  handshake itself, with the check that nothing follows the request in plaintext, is a parameter, and so are the
  policy, the middleware and the routing of the application.
\<close>

section \<open>Policies, contexts and runs\<close>

datatype 'id ServerAuthenticationAction =
    Action_Accept 'id | Action_CleartextPassword | Action_Md5Password "u8 \<times> u8 \<times> u8 \<times> u8" | Action_Sasl "bytes list"
  | Action_SaslContinue bytes | Action_SaslFinal bytes 'id | Action_KerberosV5 | Action_Gss | Action_Sspi
  | Action_GssContinue bytes

datatype ServerAuthenticationResponse =
    Given_Password bytes | Given_SaslInitial bytes "bytes option" | Given_Sasl bytes | Given_Token bytes

datatype NegotiatedServerTls = Tls_Plaintext | Tls_Secured bytes

record ('peer, 'id) ServerConnectionContext =
  ctx_peer :: 'peer
  ctx_tls :: "NegotiatedServerTls option"
  ctx_identity :: "'id option"

record 'peer ServerAuthenticationRequest =
  req_startup :: StartupMessage
  req_tls :: NegotiatedServerTls
  req_peer :: 'peer

record CancellationRequest =
  cancel_process_id :: u32
  cancel_secret_key :: bytes

datatype ('t, 'e) AcceptError =
    Accept_Io io_error | Accept_UnsupportedProtocolVersion | Accept_TlsRequired | Accept_TlsIdentity 't
  | Accept_Authentication 'e | Accept_AuthenticationProtocol

datatype ('t, 'e, 're) RoutedAcceptError = Routed_Accept "('t, 'e) AcceptError" | Routed_Route 're

text \<open>The provider of TLS identities of a policy: none when it is disabled, and what resolving one gives.\<close>

record ('pol, 'peer, 'id, 'e, 'st, 't, 're, 'route) server_env =
  se_create :: 'pol
  se_start :: "'pol \<Rightarrow> 'peer ServerAuthenticationRequest \<Rightarrow> ('e + 'id ServerAuthenticationAction) \<times> 'pol"
  se_respond :: "'pol \<Rightarrow> 'peer ServerAuthenticationRequest \<Rightarrow> ServerAuthenticationResponse
    \<Rightarrow> ('e + 'id ServerAuthenticationAction) \<times> 'pol"
  se_pre_startup :: "('peer, 'id) ServerConnectionContext \<Rightarrow> 'st \<Rightarrow> PreStartupMessage \<Rightarrow> PreStartupMessage \<times> 'st"
  se_startup :: "('peer, 'id) ServerConnectionContext \<Rightarrow> 'st \<Rightarrow> StartupMessage \<Rightarrow> StartupMessage \<times> 'st"
  se_cancellation :: "('peer, 'id) ServerConnectionContext \<Rightarrow> 'st \<Rightarrow> CancellationRequest \<Rightarrow> CancellationRequest \<times> 'st"
  se_frontend :: "('peer, 'id) ServerConnectionContext \<Rightarrow> 'st \<Rightarrow> FrontendMessage \<Rightarrow> FrontendMessage \<times> 'st"
  se_backend :: "('peer, 'id) ServerConnectionContext \<Rightarrow> 'st \<Rightarrow> BackendMessage \<Rightarrow> BackendMessage \<times> 'st"
  se_tls_provider :: "('t + unit) option"
  se_tls_required :: bool
  se_resolve :: "StartupMessage \<Rightarrow> ('peer, 'id) ServerConnectionContext \<Rightarrow> 'st \<Rightarrow> ('re + 'route) \<times> 'st"
  se_defer_ready :: bool
  se_max_frame_len :: nat
  se_max_pre_startup_packet_len :: nat

datatype 'id accept_event =
    Ev_Reply u8
  | Ev_Secured
  | Ev_Started "'id ServerAuthenticationAction"
  | Ev_Answered ServerAuthenticationResponse "'id ServerAuthenticationAction"
  | Ev_Pushed Frame
  | Ev_Received FrontendMessage

record ('id, 'st) accept_run =
  ar_state :: 'st
  ar_flushes :: "io_error option list"
  ar_log :: "'id accept_event list"

text \<open>What a future is ready with, the rest of the script and the run.\<close>

type_synonym ('id, 'st, 'r) served = "'r poll \<times> FrontendMessage script \<times> ('id, 'st) accept_run"

text \<open>\<open>.await?\<close>\<close>

definition await_ok :: "('id, 'st, 'e + 'a) served \<Rightarrow> ('a \<Rightarrow> FrontendMessage script \<Rightarrow> ('id, 'st) accept_run \<Rightarrow> ('id, 'st, 'e + 'b) served)
    \<Rightarrow> ('id, 'st, 'e + 'b) served" where
  "await_ok d k = (case d of
     (Pending, inbound, r) \<Rightarrow> (Pending, inbound, r)
   | (Returned (Inl error), inbound, r) \<Rightarrow> (Returned (Inl error), inbound, r)
   | (Returned (Inr x), inbound, r) \<Rightarrow> k x inbound r)"

definition serve_log :: "('id, 'st) accept_run \<Rightarrow> 'id accept_event \<Rightarrow> ('id, 'st) accept_run" where
  "serve_log r e = r\<lparr>ar_log := ar_log r @ [e]\<rparr>"

definition flush_or_abort :: "FrontendMessage script \<Rightarrow> ('id, 'st) accept_run
    \<Rightarrow> ('id, 'st, ('t, 'e) AcceptError + unit) served" where
  "flush_or_abort inbound r = (case ar_flushes r of
     [] \<Rightarrow> (Returned (Inr ()), inbound, r)
   | None # rest \<Rightarrow> (Returned (Inr ()), inbound, r\<lparr>ar_flushes := rest\<rparr>)
   | Some error # rest \<Rightarrow> (Returned (Inl (Accept_Io error)), inbound, r\<lparr>ar_flushes := rest\<rparr>))"

definition push_or_abort :: "('pol, 'peer, 'id, 'e, 'st, 't, 're, 'route) server_env \<Rightarrow> Frame \<Rightarrow> FrontendMessage script
    \<Rightarrow> ('id, 'st) accept_run \<Rightarrow> ('id, 'st, ('t, 'e) AcceptError + unit) served" where
  "push_or_abort env f inbound r = (case with_max_frame_len (se_max_frame_len env) of
     Inl error \<Rightarrow> (Returned (Inl (Accept_Io error)), inbound, r)
   | Inr codec \<Rightarrow> (case PgCodec_encode codec f [] of
       Inl error \<Rightarrow> (Returned (Inl (Accept_Io error)), inbound, r)
     | Inr _ \<Rightarrow> (Returned (Inr ()), inbound, serve_log r (Ev_Pushed f))))"

text \<open>\<open>receive_frontend_or_abort\<close> and the middleware on what was received.\<close>

definition receive_frontend_or_abort :: "('pol, 'peer, 'id, 'e, 'st, 't, 're, 'route) server_env
    \<Rightarrow> ('peer, 'id) ServerConnectionContext \<Rightarrow> FrontendMessage script \<Rightarrow> ('id, 'st) accept_run
    \<Rightarrow> ('id, 'st, ('t, 'e) AcceptError + FrontendMessage) served" where
  "receive_frontend_or_abort env ctx inbound r = (case inbound of
     [] \<Rightarrow> (Pending, [], r)
   | Inl error # rest \<Rightarrow> (Returned (Inl (Accept_Io error)), rest, r)
   | Inr message # rest \<Rightarrow> (let (message, state) = se_frontend env ctx (ar_state r) message in
       (Returned (Inr message), rest, serve_log (r\<lparr>ar_state := state\<rparr>) (Ev_Received message))))"

text \<open>\<open>handler.backend(...).to_frame()\<close>\<close>

definition backend_frame :: "('pol, 'peer, 'id, 'e, 'st, 't, 're, 'route) server_env
    \<Rightarrow> ('peer, 'id) ServerConnectionContext \<Rightarrow> BackendMessage \<Rightarrow> FrontendMessage script \<Rightarrow> ('id, 'st) accept_run
    \<Rightarrow> ('id, 'st, ('t, 'e) AcceptError + Frame) served" where
  "backend_frame env ctx message inbound r = (let (message, state) = se_backend env ctx (ar_state r) message in
     (Returned (map_sum Accept_Io id (BackendMessage_to_frame message)), inbound, r\<lparr>ar_state := state\<rparr>))"

definition intercept_server_backend :: "('pol, 'peer, 'id, 'e, 'st, 't, 're, 'route) server_env
    \<Rightarrow> ('peer, 'id) ServerConnectionContext \<Rightarrow> Frame \<Rightarrow> FrontendMessage script \<Rightarrow> ('id, 'st) accept_run
    \<Rightarrow> ('id, 'st, ('t, 'e) AcceptError + Frame) served" where
  "intercept_server_backend env ctx f inbound r = (case Backend_decode f of
     Inl error \<Rightarrow> (Returned (Inl (Accept_Io error)), inbound, r)
   | Inr message \<Rightarrow> backend_frame env ctx message inbound r)"

definition policy_respond :: "('pol, 'peer, 'id, 'e, 'st, 't, 're, 'route) server_env \<Rightarrow> 'pol
    \<Rightarrow> 'peer ServerAuthenticationRequest \<Rightarrow> ServerAuthenticationResponse \<Rightarrow> FrontendMessage script \<Rightarrow> ('id, 'st) accept_run
    \<Rightarrow> ('id, 'st, ('t, 'e) AcceptError + 'id ServerAuthenticationAction \<times> 'pol) served" where
  "policy_respond env policy request response inbound r = (case se_respond env policy request response of
     (Inl error, _) \<Rightarrow> (Returned (Inl (Accept_Authentication error)), inbound, r)
   | (Inr action, policy) \<Rightarrow> (Returned (Inr (action, policy)), inbound, serve_log r (Ev_Answered response action)))"

section \<open>Authentication drivers\<close>

text \<open>A request to the client: the frame through the middleware, \<open>push_or_abort\<close> and \<open>flush_or_abort\<close>.\<close>

definition send_request :: "('pol, 'peer, 'id, 'e, 'st, 't, 're, 'route) server_env \<Rightarrow> ('peer, 'id) ServerConnectionContext
    \<Rightarrow> io_error + unit ServerAuthConn \<times> Frame \<Rightarrow> FrontendMessage script \<Rightarrow> ('id, 'st) accept_run
    \<Rightarrow> ('id, 'st, ('t, 'e) AcceptError + unit ServerAuthConn) served" where
  "send_request env ctx request inbound r = (case request of
     Inl error \<Rightarrow> (Returned (Inl (Accept_Io error)), inbound, r)
   | Inr (waiting, f) \<Rightarrow>
       await_ok (intercept_server_backend env ctx f inbound r) (\<lambda>f inbound r.
       await_ok (push_or_abort env f inbound r) (\<lambda>_ inbound r.
       await_ok (flush_or_abort inbound r) (\<lambda>_ inbound r.
         (Returned (Inr waiting), inbound, r)))))"

definition authenticate_password :: "('pol, 'peer, 'id, 'e, 'st, 't, 're, 'route) server_env
    \<Rightarrow> ('peer, 'id) ServerConnectionContext \<Rightarrow> 'peer ServerAuthenticationRequest \<Rightarrow> 'pol
    \<Rightarrow> io_error + unit ServerAuthConn \<times> Frame \<Rightarrow> FrontendMessage script \<Rightarrow> ('id, 'st) accept_run
    \<Rightarrow> ('id, 'st, ('t, 'e) AcceptError + unit ServerAuthConn \<times> 'id \<times> Frame option) served" where
  "authenticate_password env ctx request policy asked inbound r =
     await_ok (send_request env ctx asked inbound r) (\<lambda>waiting inbound r.
     await_ok (receive_frontend_or_abort env ctx inbound r) (\<lambda>wire inbound r.
       case receive_password waiting wire of
         Inl _ \<Rightarrow> (Returned (Inl Accept_AuthenticationProtocol), inbound, r)
       | Inr (auth, credential) \<Rightarrow>
           await_ok (policy_respond env policy request (Given_Password credential) inbound r) (\<lambda>decided inbound r.
             case fst decided of
               Action_Accept identity \<Rightarrow> (Returned (Inr (auth, identity, None)), inbound, r)
             | _ \<Rightarrow> (Returned (Inl Accept_AuthenticationProtocol), inbound, r))))"

text \<open>What the steps leave of the script.\<close>

lemma await_ok_cong [fundef_cong]:
  "d = d' \<Longrightarrow> (\<And>x inbound r. d' = (Returned (Inr x), inbound, r) \<Longrightarrow> k x inbound r = k' x inbound r) \<Longrightarrow> await_ok d k = await_ok d' k'"
  by (auto simp: await_ok_def split: prod.splits poll.splits sum.splits)

lemma await_ok_Inr_iff:
  "await_ok d k = (Returned (Inr y), rest, r') \<longleftrightarrow>
    (\<exists>x inbound r. d = (Returned (Inr x), inbound, r) \<and> k x inbound r = (Returned (Inr y), rest, r'))"
  by (auto simp: await_ok_def split: prod.splits poll.splits sum.splits)

lemma receive_frontend_shorter:
  "receive_frontend_or_abort env ctx inbound r = (Returned (Inr m), rest, r') \<Longrightarrow> length rest < length inbound"
  by (auto simp: receive_frontend_or_abort_def split: list.splits sum.splits prod.splits)

lemma flush_script: "flush_or_abort inbound r = (x, rest, r') \<Longrightarrow> rest = inbound"
  by (auto simp: flush_or_abort_def split: list.splits option.splits)

lemma push_script: "push_or_abort env f inbound r = (x, rest, r') \<Longrightarrow> rest = inbound"
  by (auto simp: push_or_abort_def split: sum.splits)

lemma backend_frame_script: "backend_frame env ctx m inbound r = (x, rest, r') \<Longrightarrow> rest = inbound"
  by (auto simp: backend_frame_def split: prod.splits)

lemma intercept_script: "intercept_server_backend env ctx f inbound r = (x, rest, r') \<Longrightarrow> rest = inbound"
  by (auto simp: intercept_server_backend_def split: sum.splits dest: backend_frame_script)

lemma policy_respond_script: "policy_respond env policy request response inbound r = (x, rest, r') \<Longrightarrow> rest = inbound"
  by (auto simp: policy_respond_def split: prod.splits sum.splits)

lemma send_request_script: "send_request env ctx asked inbound r = (Returned (Inr x), rest, r') \<Longrightarrow> rest = inbound"
  by (auto simp: send_request_def await_ok_Inr_iff split: sum.splits dest!: intercept_script push_script flush_script)

text \<open>The loop of \<open>authenticate_sasl\<close>.\<close>

function (sequential) server_sasl_loop :: "('pol, 'peer, 'id, 'e, 'st, 't, 're, 'route) server_env
    \<Rightarrow> ('peer, 'id) ServerConnectionContext \<Rightarrow> 'peer ServerAuthenticationRequest \<Rightarrow> 'pol \<Rightarrow> unit ServerAuthConn
    \<Rightarrow> 'id ServerAuthenticationAction \<Rightarrow> FrontendMessage script \<Rightarrow> ('id, 'st) accept_run
    \<Rightarrow> ('id, 'st, ('t, 'e) AcceptError + unit ServerAuthConn \<times> 'id \<times> Frame option) served" where
  "server_sasl_loop env ctx request policy conn (Action_SaslContinue challenge) inbound r =
     await_ok (send_request env ctx (continue_with conn challenge) inbound r) (\<lambda>waiting inbound r.
     await_ok (receive_frontend_or_abort env ctx inbound r) (\<lambda>wire inbound r.
       case receive_sasl_response waiting wire of
         Inl _ \<Rightarrow> (Returned (Inl Accept_AuthenticationProtocol), inbound, r)
       | Inr (conn, response) \<Rightarrow>
           await_ok (policy_respond env policy request (Given_Sasl response) inbound r) (\<lambda>decided inbound r.
             case decided of (action, policy) \<Rightarrow> server_sasl_loop env ctx request policy conn action inbound r)))"
| "server_sasl_loop env ctx request policy conn (Action_SaslFinal server_final identity) inbound r =
     (case finish_sasl conn server_final of
        Inl error \<Rightarrow> (Returned (Inl (Accept_Io error)), inbound, r)
      | Inr (auth, f) \<Rightarrow> (Returned (Inr (auth, identity, Some f)), inbound, r))"
| "server_sasl_loop env ctx request policy conn _ inbound r = (Returned (Inl Accept_AuthenticationProtocol), inbound, r)"
  by pat_completeness auto
termination
  by (relation "measure (\<lambda>(env, ctx, request, policy, conn, action, inbound, r). length inbound)")
    (auto dest!: send_request_script receive_frontend_shorter policy_respond_script)

definition authenticate_sasl :: "('pol, 'peer, 'id, 'e, 'st, 't, 're, 'route) server_env
    \<Rightarrow> ('peer, 'id) ServerConnectionContext \<Rightarrow> 'peer ServerAuthenticationRequest \<Rightarrow> 'pol \<Rightarrow> unit ServerAuthConn
    \<Rightarrow> bytes list \<Rightarrow> FrontendMessage script \<Rightarrow> ('id, 'st) accept_run
    \<Rightarrow> ('id, 'st, ('t, 'e) AcceptError + unit ServerAuthConn \<times> 'id \<times> Frame option) served" where
  "authenticate_sasl env ctx request policy auth mechanisms inbound r =
     (if \<exists>mechanism \<in> set mechanisms. 0 \<in> set mechanism
      then (Returned (Inl (Accept_Io (invalid_input ''SASL mechanism contains NUL''))), inbound, r)
      else
        await_ok (send_request env ctx (request_sasl auth mechanisms) inbound r) (\<lambda>initial inbound r.
        await_ok (receive_frontend_or_abort env ctx inbound r) (\<lambda>wire inbound r.
          case receive_initial initial wire of
            Inl _ \<Rightarrow> (Returned (Inl Accept_AuthenticationProtocol), inbound, r)
          | Inr (conn, initial) \<Rightarrow>
              await_ok (policy_respond env policy request (Given_SaslInitial (sir_mechanism initial) (sir_response initial)) inbound r)
                (\<lambda>decided inbound r.
                  case decided of (action, policy) \<Rightarrow> server_sasl_loop env ctx request policy conn action inbound r))))"

text \<open>The loop of \<open>authenticate_token\<close>.\<close>

function server_token_loop :: "('pol, 'peer, 'id, 'e, 'st, 't, 're, 'route) server_env
    \<Rightarrow> ('peer, 'id) ServerConnectionContext \<Rightarrow> 'peer ServerAuthenticationRequest \<Rightarrow> 'pol \<Rightarrow> unit ServerAuthConn
    \<Rightarrow> FrontendMessage script \<Rightarrow> ('id, 'st) accept_run
    \<Rightarrow> ('id, 'st, ('t, 'e) AcceptError + unit ServerAuthConn \<times> 'id \<times> Frame option) served" where
  "server_token_loop env ctx request policy waiting inbound r =
     await_ok (receive_frontend_or_abort env ctx inbound r) (\<lambda>wire inbound r.
       case receive_token_response waiting wire of
         Inl _ \<Rightarrow> (Returned (Inl Accept_AuthenticationProtocol), inbound, r)
       | Inr (decision, token) \<Rightarrow>
           await_ok (policy_respond env policy request (Given_Token token) inbound r) (\<lambda>decided inbound r.
             case decided of (action, policy) \<Rightarrow> case action of
               Action_Accept identity \<Rightarrow> (Returned (Inr (token_verified decision, identity, None)), inbound, r)
             | Action_GssContinue token \<Rightarrow>
                 await_ok (send_request env ctx (continue_gss decision token) inbound r) (\<lambda>waiting inbound r.
                   server_token_loop env ctx request policy waiting inbound r)
             | _ \<Rightarrow> (Returned (Inl Accept_AuthenticationProtocol), inbound, r)))"
  by pat_completeness auto
termination
  by (relation "measure (\<lambda>(env, ctx, request, policy, waiting, inbound, r). length inbound)")
    (auto dest!: send_request_script receive_frontend_shorter policy_respond_script)

declare server_token_loop.simps [simp del]

definition authenticate_token :: "('pol, 'peer, 'id, 'e, 'st, 't, 're, 'route) server_env
    \<Rightarrow> ('peer, 'id) ServerConnectionContext \<Rightarrow> 'peer ServerAuthenticationRequest \<Rightarrow> 'pol
    \<Rightarrow> io_error + unit ServerAuthConn \<times> Frame \<Rightarrow> FrontendMessage script \<Rightarrow> ('id, 'st) accept_run
    \<Rightarrow> ('id, 'st, ('t, 'e) AcceptError + unit ServerAuthConn \<times> 'id \<times> Frame option) served" where
  "authenticate_token env ctx request policy asked inbound r =
     await_ok (send_request env ctx asked inbound r) (\<lambda>waiting inbound r.
       server_token_loop env ctx request policy waiting inbound r)"

text \<open>The branch on the first action of the policy.\<close>

definition authenticate :: "('pol, 'peer, 'id, 'e, 'st, 't, 're, 'route) server_env
    \<Rightarrow> ('peer, 'id) ServerConnectionContext \<Rightarrow> 'peer ServerAuthenticationRequest \<Rightarrow> 'pol \<Rightarrow> unit ServerAuthConn
    \<Rightarrow> 'id ServerAuthenticationAction \<Rightarrow> FrontendMessage script \<Rightarrow> ('id, 'st) accept_run
    \<Rightarrow> ('id, 'st, ('t, 'e) AcceptError + unit ServerAuthConn \<times> 'id \<times> Frame option) served" where
  "authenticate env ctx request policy auth action inbound r = (case action of
     Action_Accept identity \<Rightarrow> (Returned (Inr (auth, identity, None)), inbound, r)
   | Action_CleartextPassword \<Rightarrow> authenticate_password env ctx request policy (request_cleartext auth) inbound r
   | Action_Md5Password salt \<Rightarrow> authenticate_password env ctx request policy (request_md5 auth salt) inbound r
   | Action_Sasl mechanisms \<Rightarrow> authenticate_sasl env ctx request policy auth mechanisms inbound r
   | Action_KerberosV5 \<Rightarrow> authenticate_token env ctx request policy (request_kerberos_v5 auth) inbound r
   | Action_Gss \<Rightarrow> authenticate_token env ctx request policy (Server_Auth.request_gss auth) inbound r
   | Action_Sspi \<Rightarrow> authenticate_token env ctx request policy (request_sspi auth) inbound r
   | _ \<Rightarrow> (Returned (Inl Accept_AuthenticationProtocol), inbound, r))"

section \<open>Completing a startup\<close>

definition push_all_or_abort :: "('pol, 'peer, 'id, 'e, 'st, 't, 're, 'route) server_env
    \<Rightarrow> ('peer, 'id) ServerConnectionContext \<Rightarrow> BackendMessage \<Rightarrow> FrontendMessage script \<Rightarrow> ('id, 'st) accept_run
    \<Rightarrow> ('id, 'st, ('t, 'e) AcceptError + unit) served" where
  "push_all_or_abort env ctx message inbound r =
     await_ok (backend_frame env ctx message inbound r) (\<lambda>f inbound r. push_or_abort env f inbound r)"

text \<open>From the accepted identity on: the deferred frame of SASL, \<open>AuthenticationOk\<close> and \<open>ReadyForQuery\<close>.\<close>

definition complete_startup :: "('pol, 'peer, 'id, 'e, 'st, 't, 're, 'route) server_env
    \<Rightarrow> ('peer, 'id) ServerConnectionContext \<Rightarrow> unit ServerAuthConn \<Rightarrow> Frame option \<Rightarrow> FrontendMessage script
    \<Rightarrow> ('id, 'st) accept_run \<Rightarrow> ('id, 'st, ('t, 'e) AcceptError + unit ServerAuthConn) served" where
  "complete_startup env ctx auth final_frame inbound r = (case authentication_ok auth of
     Inl error \<Rightarrow> (Returned (Inl (Accept_Io error)), inbound, r)
   | Inr (waiting, _) \<Rightarrow>
     await_ok (case final_frame of
         None \<Rightarrow> (Returned (Inr ()), inbound, r)
       | Some f \<Rightarrow> await_ok (intercept_server_backend env ctx f inbound r) (\<lambda>f inbound r. push_or_abort env f inbound r))
     (\<lambda>_ inbound r. await_ok (push_all_or_abort env ctx (B_Authentication Auth_Ok) inbound r) (\<lambda>_ inbound r.
       case startup_ready waiting of
         Inl error \<Rightarrow> (Returned (Inl (Accept_Io error)), inbound, r)
       | Inr (conn, _) \<Rightarrow>
         await_ok (if se_defer_ready env then (Returned (Inr ()), inbound, r)
           else push_all_or_abort env ctx (B_ReadyForQuery Idle) inbound r)
         (\<lambda>_ inbound r. await_ok (flush_or_abort inbound r) (\<lambda>_ inbound r. (Returned (Inr conn), inbound, r))))))"

text \<open>\<open>context.tls()\<close> panics when no TLS fact is known.  The context that is returned carries the identity.\<close>

definition complete_auth :: "('pol, 'peer, 'id, 'e, 'st, 't, 're, 'route) server_env
    \<Rightarrow> ('peer, 'id) ServerConnectionContext \<Rightarrow> StartupMessage \<Rightarrow> FrontendMessage script \<Rightarrow> ('id, 'st) accept_run
    \<Rightarrow> ('id, 'st, ('t, 'e) AcceptError + unit ServerAuthConn \<times> ('peer, 'id) ServerConnectionContext) served exec" where
  "complete_auth env ctx message inbound r =
     (case validate_protocol \<lparr>tc_transport = (), tc_phase = Sv_Startup, tc_cleanliness = Pristine\<rparr> message V3_2 of
        Protocol_Rejected _ _ \<Rightarrow> Done (Returned (Inl Accept_UnsupportedProtocolVersion), inbound, r)
      | Protocol_Supported conn _ _ \<Rightarrow> (case ctx_tls ctx of
          None \<Rightarrow> Panic
        | Some tls \<Rightarrow>
          let auth = begin_server_auth conn;
              request = \<lparr>req_startup = message, req_tls = tls, req_peer = ctx_peer ctx\<rparr> in
          Done (case se_start env (se_create env) request of
            (Inl error, _) \<Rightarrow> (Returned (Inl (Accept_Authentication error)), inbound, r)
          | (Inr action, policy) \<Rightarrow>
              await_ok (authenticate env ctx request policy auth action inbound (serve_log r (Ev_Started action)))
                (\<lambda>accepted inbound r. case accepted of (auth, identity, final_frame) \<Rightarrow>
              let ctx = ctx\<lparr>ctx_identity := Some identity\<rparr> in
              await_ok (complete_startup env ctx auth final_frame inbound r) (\<lambda>conn inbound r.
                (Returned (Inr (conn, ctx)), inbound, r))))))"

section \<open>Accepting a connection\<close>

datatype ('peer, 'id, 'route) ServerAccept =
    Accepted_Session "unit ServerAuthConn" "('peer, 'id) ServerConnectionContext" StartupMessage 'route
  | Accepted_Cancellation "('peer, 'id) ServerConnectionContext" CancellationRequest

definition tls_required_diagnostic :: BackendMessage where
  "tls_required_diagnostic = B_ErrorResponse \<lparr>diagnostic_fields =
     [\<lparr>diagnostic_code = byte CHR ''S'', diagnostic_value = bstr ''FATAL''\<rparr>,
      \<lparr>diagnostic_code = byte CHR ''V'', diagnostic_value = bstr ''FATAL''\<rparr>,
      \<lparr>diagnostic_code = byte CHR ''C'', diagnostic_value = bstr ''08001''\<rparr>,
      \<lparr>diagnostic_code = byte CHR ''M'', diagnostic_value = bstr ''Transport Layer Security (TLS) connection is required''\<rparr>]\<rparr>"

text \<open>\<open>map_err(RoutedAcceptError::Accept)\<close>, which \<open>?\<close> applies through \<open>From\<close>.\<close>

fun routed :: "('id, 'st, ('t, 'e) AcceptError + 'a) served \<Rightarrow> ('id, 'st, ('t, 'e, 're) RoutedAcceptError + 'a) served" where
  "routed (Pending, inbound, r) = (Pending, inbound, r)"
| "routed (Returned (Inl error), inbound, r) = (Returned (Inl (Routed_Accept error)), inbound, r)"
| "routed (Returned (Inr x), inbound, r) = (Returned (Inr x), inbound, r)"

text \<open>The \<open>Startup\<close> arm of both loops, from \<open>handler.startup\<close> on.\<close>

definition accept_startup :: "('pol, 'peer, 'id, 'e, 'st, 't, 're, 'route) server_env
    \<Rightarrow> ('peer, 'id) ServerConnectionContext \<Rightarrow> StartupMessage \<Rightarrow> FrontendMessage script \<Rightarrow> ('id, 'st) accept_run
    \<Rightarrow> ('id, 'st, ('t, 'e, 're) RoutedAcceptError + ('peer, 'id, 'route) ServerAccept) served exec" where
  "accept_startup env ctx message inbound r =
     (let (message, state) = se_startup env ctx (ar_state r) message in
      case se_resolve env message ctx state of
        (Inl error, state) \<Rightarrow> Done (Returned (Inl (Routed_Route error)), inbound, r\<lparr>ar_state := state\<rparr>)
      | (Inr way, state) \<Rightarrow> (case complete_auth env ctx message inbound (r\<lparr>ar_state := state\<rparr>) of
          Panic \<Rightarrow> Panic
        | Done d \<Rightarrow> Done (await_ok (routed d) (\<lambda>accepted inbound r. case accepted of (conn, ctx) \<Rightarrow>
            (Returned (Inr (Accepted_Session conn ctx message way)), inbound, r)))))"

text \<open>A declined request for encryption: the reply byte and \<open>flush_or_abort\<close>.\<close>

definition decline :: "FrontendMessage script \<Rightarrow> ('id, 'st) accept_run \<Rightarrow> ('id, 'st, ('t, 'e) AcceptError + unit) served" where
  "decline inbound r = flush_or_abort inbound (serve_log r (Ev_Reply (reply_byte Rejected)))"

definition intercept_pre_startup :: "('pol, 'peer, 'id, 'e, 'st, 't, 're, 'route) server_env
    \<Rightarrow> ('peer, 'id) ServerConnectionContext \<Rightarrow> ('id, 'st) accept_run \<Rightarrow> PreStartupMessage
    \<Rightarrow> unit PreStartupOffer \<times> ('id, 'st) accept_run" where
  "intercept_pre_startup env ctx r message = (let (message, state) = se_pre_startup env ctx (ar_state r) message in
     (offer_pre_startup (Conn_new ()) message, r\<lparr>ar_state := state\<rparr>))"

definition accept_cancellation :: "('pol, 'peer, 'id, 'e, 'st, 't, 're, 'route) server_env
    \<Rightarrow> ('peer, 'id) ServerConnectionContext \<Rightarrow> u32 \<Rightarrow> bytes \<Rightarrow> FrontendMessage script \<Rightarrow> ('id, 'st) accept_run
    \<Rightarrow> ('id, 'st, ('t, 'e, 're) RoutedAcceptError + ('peer, 'id, 'route) ServerAccept) served" where
  "accept_cancellation env ctx process_id secret_key inbound r =
     (let (request, state) = se_cancellation env ctx (ar_state r) \<lparr>cancel_process_id = process_id, cancel_secret_key = secret_key\<rparr> in
      (Returned (Inr (Accepted_Cancellation (ctx\<lparr>ctx_identity := None\<rparr>) request)), inbound, r\<lparr>ar_state := state\<rparr>))"

fun accept_encrypted :: "('pol, 'peer, 'id, 'e, 'st, 't, 're, 'route) server_env
    \<Rightarrow> ('peer, 'id) ServerConnectionContext \<Rightarrow> PreStartupMessage script \<Rightarrow> FrontendMessage script \<Rightarrow> ('id, 'st) accept_run
    \<Rightarrow> ('id, 'st, ('t, 'e, 're) RoutedAcceptError + ('peer, 'id, 'route) ServerAccept) served exec" where
  "accept_encrypted env ctx [] inbound r = Done (Pending, inbound, r)"
| "accept_encrypted env ctx (Inl error # pre) inbound r = Done (Returned (Inl (Routed_Accept (Accept_Io error))), inbound, r)"
| "accept_encrypted env ctx (Inr message # pre) inbound r =
     (case intercept_pre_startup env ctx r message of
        (Offer_Ssl _, r) \<Rightarrow> (case decline inbound r of
            (Returned (Inl error), inbound, r) \<Rightarrow> Done (Returned (Inl (Routed_Accept error)), inbound, r)
          | (_, _, r) \<Rightarrow> accept_encrypted env ctx pre inbound r)
      | (PreStartupOffer.Offer_Gss _, r) \<Rightarrow> (case decline inbound r of
            (Returned (Inl error), inbound, r) \<Rightarrow> Done (Returned (Inl (Routed_Accept error)), inbound, r)
          | (_, _, r) \<Rightarrow> accept_encrypted env ctx pre inbound r)
      | (Offer_Cancel _ process_id secret_key, r) \<Rightarrow> Done (accept_cancellation env ctx process_id secret_key inbound r)
      | (Offer_Startup _ message, r) \<Rightarrow> accept_startup env ctx message inbound r)"

text \<open>
  \<open>accept_routed\<close>: the packets in plaintext, the result of the handshake (the channel binding of the server's
  certificate) and the packets under TLS.
\<close>

fun accept_plaintext :: "('pol, 'peer, 'id, 'e, 'st, 't, 're, 'route) server_env
    \<Rightarrow> ('peer, 'id) ServerConnectionContext \<Rightarrow> io_error + bytes \<Rightarrow> PreStartupMessage script \<Rightarrow> PreStartupMessage script
    \<Rightarrow> FrontendMessage script \<Rightarrow> ('id, 'st) accept_run
    \<Rightarrow> ('id, 'st, ('t, 'e, 're) RoutedAcceptError + ('peer, 'id, 'route) ServerAccept) served exec" where
  "accept_plaintext env ctx handshake encrypted [] inbound r = Done (Pending, inbound, r)"
| "accept_plaintext env ctx handshake encrypted (Inl error # pre) inbound r =
     Done (Returned (Inl (Routed_Accept (Accept_Io error))), inbound, r)"
| "accept_plaintext env ctx handshake encrypted (Inr message # pre) inbound r =
     (case intercept_pre_startup env ctx r message of
        (Offer_Ssl _, r) \<Rightarrow> (case se_tls_provider env of
            None \<Rightarrow> (case decline inbound r of
                (Returned (Inl error), inbound, r) \<Rightarrow> Done (Returned (Inl (Routed_Accept error)), inbound, r)
              | (_, _, r) \<Rightarrow> accept_plaintext env ctx handshake encrypted pre inbound r)
          | Some (Inl error) \<Rightarrow> Done (Returned (Inl (Routed_Accept (Accept_TlsIdentity error))), inbound, r)
          | Some (Inr _) \<Rightarrow> (case flush_or_abort inbound (serve_log r (Ev_Reply (reply_byte Accepted))) of
                (Returned (Inl error), inbound, r) \<Rightarrow> Done (Returned (Inl (Routed_Accept error)), inbound, r)
              | (_, _, r) \<Rightarrow> (case handshake of
                    Inl error \<Rightarrow> Done (Returned (Inl (Routed_Accept (Accept_Io error))), inbound, r)
                  | Inr end_point \<Rightarrow> accept_encrypted env (ctx\<lparr>ctx_tls := Some (Tls_Secured end_point)\<rparr>) encrypted inbound
                      (serve_log r Ev_Secured))))
      | (PreStartupOffer.Offer_Gss _, r) \<Rightarrow> (case decline inbound r of
            (Returned (Inl error), inbound, r) \<Rightarrow> Done (Returned (Inl (Routed_Accept error)), inbound, r)
          | (_, _, r) \<Rightarrow> accept_plaintext env ctx handshake encrypted pre inbound r)
      | (Offer_Cancel _ process_id secret_key, r) \<Rightarrow>
          Done (accept_cancellation env (ctx\<lparr>ctx_tls := Some Tls_Plaintext\<rparr>) process_id secret_key inbound r)
      | (Offer_Startup _ message, r) \<Rightarrow>
          if se_tls_required env
          then (case BackendMessage_to_frame tls_required_diagnostic of
              Inl _ \<Rightarrow> Done (Returned (Inl (Routed_Accept Accept_TlsRequired)), inbound, r)
            | Inr f \<Rightarrow> (case push_or_abort env f inbound r of (_, _, r) \<Rightarrow>
                (case flush_or_abort inbound r :: ('id, 'st, ('t, 'e) AcceptError + unit) served of (_, _, r) \<Rightarrow>
                  Done (Returned (Inl (Routed_Accept Accept_TlsRequired)), inbound, r))))
          else accept_startup env (ctx\<lparr>ctx_tls := Some Tls_Plaintext\<rparr>) message inbound r)"

definition accept_routed :: "('pol, 'peer, 'id, 'e, 'st, 't, 're, 'route) server_env \<Rightarrow> 'peer \<Rightarrow> io_error + bytes
    \<Rightarrow> PreStartupMessage script \<Rightarrow> PreStartupMessage script \<Rightarrow> FrontendMessage script \<Rightarrow> ('id, 'st) accept_run
    \<Rightarrow> ('id, 'st, ('t, 'e, 're) RoutedAcceptError + ('peer, 'id, 'route) ServerAccept) served exec" where
  "accept_routed env peer handshake encrypted pre inbound r =
     (case with_limits_frontend () (se_max_frame_len env) (se_max_pre_startup_packet_len env) of
     Inl error \<Rightarrow> Done (Returned (Inl (Routed_Accept (Accept_Io error))), inbound, r)
   | Inr _ \<Rightarrow> accept_plaintext env \<lparr>ctx_peer = peer, ctx_tls = None, ctx_identity = None\<rparr> handshake encrypted pre inbound r)"

section \<open>Built-in policies\<close>

text \<open>\<open>TrustServerAuthentication\<close>, whose \<open>respond\<close> is \<open>unreachable!\<close>, and \<open>StaticMd5ServerCredentials\<close> with the hash of
  the crate \<open>postgres-protocol\<close> and the random salt of the session.\<close>

definition trust_start :: "unit \<Rightarrow> 'peer ServerAuthenticationRequest \<Rightarrow> ('e + unit ServerAuthenticationAction) \<times> unit" where
  "trust_start policy request = (Inr (Action_Accept ()), policy)"

record StaticMd5ServerCredentialSession =
  md5_username :: bytes
  md5_password :: bytes
  md5_salt :: "u8 \<times> u8 \<times> u8 \<times> u8"

definition static_md5_start :: "StaticMd5ServerCredentialSession \<Rightarrow> 'peer ServerAuthenticationRequest
    \<Rightarrow> (StaticCredentialError + unit ServerAuthenticationAction) \<times> StaticMd5ServerCredentialSession" where
  "static_md5_start s request = (Inr (Action_Md5Password (md5_salt s)), s)"

definition static_md5_respond :: "md5_hash \<Rightarrow> StaticMd5ServerCredentialSession
    \<Rightarrow> 'peer ServerAuthenticationRequest \<Rightarrow> ServerAuthenticationResponse
    \<Rightarrow> (StaticCredentialError + unit ServerAuthenticationAction) \<times> StaticMd5ServerCredentialSession" where
  "static_md5_respond md5 s request response = (case response of
     Given_Password received \<Rightarrow>
       if \<not> verify_md5_response md5 received (md5_username s) (md5_password s) (md5_salt s) then (Inl AuthenticationFailed, s)
       else (Inr (Action_Accept ()), s)
   | _ \<Rightarrow> (Inl AuthenticationFailed, s))"

end
