(* ===== verification/Server_Accept_Laws.thy ===== *)
theory Server_Accept_Laws
  imports Server_Accept Auth_Laws
begin

text \<open>
  What a server has done when it accepts a session, and in which order: the policy has accepted the client before
  \<open>AuthenticationOk\<close> is sent, a policy that requires TLS has it, and accepting comes to an end.
\<close>

section \<open>Exchanges that authenticate\<close>

inductive sasl_decides :: "'id ServerAuthenticationAction \<Rightarrow> 'id \<Rightarrow> 'id accept_event list \<Rightarrow> bool" where
  final: "sasl_decides (Action_SaslFinal server_final identity) identity []"
| round: "sasl_decides action identity rounds \<Longrightarrow>
    sasl_decides (Action_SaslContinue challenge) identity
      (Ev_Pushed f # Ev_Received (F_PasswordResponse response) # Ev_Answered (Given_Sasl response) action # rounds)"

inductive token_decides :: "'id \<Rightarrow> 'id accept_event list \<Rightarrow> bool" where
  accept: "token_decides identity [Ev_Received (F_PasswordResponse token), Ev_Answered (Given_Token token) (Action_Accept identity)]"
| round: "token_decides identity rounds \<Longrightarrow>
    token_decides identity (Ev_Received (F_PasswordResponse token) # Ev_Answered (Given_Token token) (Action_GssContinue v) # Ev_Pushed f # rounds)"

text \<open>
  From the first action of the policy to the identity it gives evidence for.  Each response of the policy is to the
  credential that the client sent in the message received right before.
\<close>

inductive server_exchange :: "'id \<Rightarrow> 'id accept_event list \<Rightarrow> bool" where
  trusted: "server_exchange identity [Ev_Started (Action_Accept identity)]"
| password: "asked = Action_CleartextPassword \<or> asked = Action_Md5Password salt \<Longrightarrow> password_body body = Inr secret \<Longrightarrow>
    server_exchange identity [Ev_Started asked, Ev_Pushed f, Ev_Received (F_PasswordResponse body),
      Ev_Answered (Given_Password secret) (Action_Accept identity)]"
| sasl: "sasl_initial_body body = Inr initial \<Longrightarrow> sasl_decides action identity rounds \<Longrightarrow>
    server_exchange identity ([Ev_Started (Action_Sasl mechanisms), Ev_Pushed f, Ev_Received (F_PasswordResponse body),
      Ev_Answered (Given_SaslInitial (sir_mechanism initial) (sir_response initial)) action] @ rounds)"
| token: "asked \<in> {Action_KerberosV5, Action_Gss, Action_Sspi} \<Longrightarrow> token_decides identity rounds \<Longrightarrow>
    server_exchange identity ([Ev_Started asked, Ev_Pushed f] @ rounds)"

section \<open>Steps\<close>

lemma await_ok_InrE:
  assumes "await_ok d k = (Returned (Inr y), rest, r')"
  obtains x inbound r where "d = (Returned (Inr x), inbound, r)" "k x inbound r = (Returned (Inr y), rest, r')"
  using assms by (auto simp: await_ok_Inr_iff)

lemma serve_log_simps [simp]: "ar_log (serve_log r e) = ar_log r @ [e]" "ar_state (serve_log r e) = ar_state r"
  by (simp_all add: serve_log_def)

lemma flush_or_abort_log: "flush_or_abort inbound r = (x, rest, r') \<Longrightarrow> ar_log r' = ar_log r"
  by (auto simp: flush_or_abort_def split: list.splits option.splits)

lemma push_or_abort_log: "push_or_abort env f inbound r = (Returned (Inr u), rest, r') \<Longrightarrow> ar_log r' = ar_log r @ [Ev_Pushed f]"
  by (auto simp: push_or_abort_def split: sum.splits)

lemma backend_frame_log: "backend_frame env ctx m inbound r = (x, rest, r') \<Longrightarrow> ar_log r' = ar_log r"
  by (auto simp: backend_frame_def split: prod.splits)

lemma intercept_server_backend_log: "intercept_server_backend env ctx f inbound r = (x, rest, r') \<Longrightarrow> ar_log r' = ar_log r"
  by (auto simp: intercept_server_backend_def split: sum.splits dest: backend_frame_log)

lemma receive_frontend_log:
  "receive_frontend_or_abort env ctx inbound r = (Returned (Inr m), rest, r') \<Longrightarrow> ar_log r' = ar_log r @ [Ev_Received m]"
  by (auto simp: receive_frontend_or_abort_def split: list.splits sum.splits prod.splits)

lemma policy_respond_log:
  "policy_respond env policy request response inbound r = (Returned (Inr (action, policy')), rest, r') \<Longrightarrow>
    ar_log r' = ar_log r @ [Ev_Answered response action]"
  by (auto simp: policy_respond_def split: prod.splits sum.splits)

lemma send_request_log:
  "send_request env ctx asked inbound r = (Returned (Inr waiting), rest, r') \<Longrightarrow>
    \<exists>f. ar_log r' = ar_log r @ [Ev_Pushed f]"
  by (auto simp: send_request_def await_ok_Inr_iff split: sum.splits
      dest!: intercept_server_backend_log push_or_abort_log flush_or_abort_log)

lemma received_bodies:
  "receive_password c m = Inr (c', secret) \<Longrightarrow> \<exists>body. m = F_PasswordResponse body \<and> password_body body = Inr secret"
  "receive_initial c m = Inr (c', initial) \<Longrightarrow> \<exists>body. m = F_PasswordResponse body \<and> sasl_initial_body body = Inr initial"
  "receive_sasl_response c m = Inr (c', v) \<Longrightarrow> m = F_PasswordResponse v"
  "receive_token_response c m = Inr (c', v) \<Longrightarrow> m = F_PasswordResponse v"
  by (auto simp: receive_password_def receive_initial_def receive_sasl_response_def receive_token_response_def
      split: FrontendMessage.splits if_splits sum.splits)

lemmas step_logs = send_request_log receive_frontend_log policy_respond_log

lemma authenticate_password_log:
  assumes "authenticate_password env ctx request policy asked inbound r = (Returned (Inr (auth, identity, final)), rest, r')"
  shows "\<exists>f body secret. password_body body = Inr secret \<and>
    ar_log r' = ar_log r @ [Ev_Pushed f, Ev_Received (F_PasswordResponse body), Ev_Answered (Given_Password secret) (Action_Accept identity)]"
  using assms
  by (auto simp: authenticate_password_def elim!: await_ok_InrE split: sum.splits prod.splits ServerAuthenticationAction.splits
      dest!: step_logs received_bodies)

lemma server_sasl_loop_log:
  "server_sasl_loop env ctx request policy conn action inbound r = (Returned (Inr (auth, identity, final)), rest, r') \<Longrightarrow>
    \<exists>rounds. sasl_decides action identity rounds \<and> ar_log r' = ar_log r @ rounds"
proof (induction env ctx request policy conn action inbound r rule: server_sasl_loop.induct)
  case (1 env ctx request policy conn challenge inbound r)
  from "1.prems" obtain waiting inbound1 r1 wire inbound2 r2 conn2 response action2 policy2 inbound3 r3 where
    s: "send_request env ctx (continue_with conn challenge) inbound r = (Returned (Inr waiting), inbound1, r1)"
    and w: "receive_frontend_or_abort env ctx inbound1 r1 = (Returned (Inr wire), inbound2, r2)"
    and rcv: "receive_sasl_response waiting wire = Inr (conn2, response)"
    and p: "policy_respond env policy request (Given_Sasl response) inbound2 r2 = (Returned (Inr (action2, policy2)), inbound3, r3)"
    and loop: "server_sasl_loop env ctx request policy2 conn2 action2 inbound3 r3 = (Returned (Inr (auth, identity, final)), rest, r')"
    by (auto elim!: await_ok_InrE split: sum.splits prod.splits)
  from "1.IH" [OF s w rcv _ p _ loop] obtain rounds where
    "sasl_decides action2 identity rounds" "ar_log r' = ar_log r3 @ rounds" by blast
  with send_request_log [OF s] receive_frontend_log [OF w] policy_respond_log [OF p] received_bodies(3) [OF rcv]
  show ?case by (auto intro: sasl_decides.round)
qed (auto split: sum.splits intro: sasl_decides.final)

lemma authenticate_sasl_log:
  assumes "authenticate_sasl env ctx request policy auth mechanisms inbound r = (Returned (Inr (auth', identity, final)), rest, r')"
  shows "\<exists>f body initial action rounds. sasl_initial_body body = Inr initial \<and> sasl_decides action identity rounds \<and>
    ar_log r' = ar_log r @ [Ev_Pushed f, Ev_Received (F_PasswordResponse body),
      Ev_Answered (Given_SaslInitial (sir_mechanism initial) (sir_response initial)) action] @ rounds"
  using assms
  by (auto simp: authenticate_sasl_def elim!: await_ok_InrE split: if_splits sum.splits prod.splits
      dest!: step_logs received_bodies(2) server_sasl_loop_log)

lemma server_token_loop_log:
  "server_token_loop env ctx request policy waiting inbound r = (Returned (Inr (auth, identity, final)), rest, r') \<Longrightarrow>
    \<exists>rounds. token_decides identity rounds \<and> ar_log r' = ar_log r @ rounds"
proof (induction env ctx request policy waiting inbound r rule: server_token_loop.induct)
  case (1 env ctx request policy waiting inbound r)
  from "1.prems" obtain wire inbound1 r1 decision token action policy1 inbound2 r2 where
    w: "receive_frontend_or_abort env ctx inbound r = (Returned (Inr wire), inbound1, r1)"
    and rcv: "receive_token_response waiting wire = Inr (decision, token)"
    and p: "policy_respond env policy request (Given_Token token) inbound1 r1 = (Returned (Inr (action, policy1)), inbound2, r2)"
    by (auto simp: server_token_loop.simps [of env] elim!: await_ok_InrE split: sum.splits prod.splits)
  note logs = receive_frontend_log [OF w] policy_respond_log [OF p] received_bodies(4) [OF rcv]
  from "1.prems" have "(\<exists>i. action = Action_Accept i) \<or> (\<exists>v. action = Action_GssContinue v)"
    by (auto simp: server_token_loop.simps [of env] await_ok_def w rcv p split: ServerAuthenticationAction.splits)
  then show ?case
  proof (elim disjE exE)
    fix i assume a: "action = Action_Accept i"
    with "1.prems" have "r' = r2 \<and> identity = i"
      by (auto simp: server_token_loop.simps [of env] await_ok_def w rcv p)
    with logs a show ?case by (auto intro: token_decides.accept)
  next
    fix v assume a: "action = Action_GssContinue v"
    from "1.prems" a obtain waiting3 inbound3 r3 where
      s: "send_request env ctx (continue_gss decision v) inbound2 r2 = (Returned (Inr waiting3), inbound3, r3)"
      and loop: "server_token_loop env ctx request policy1 waiting3 inbound3 r3 = (Returned (Inr (auth, identity, final)), rest, r')"
      by (auto simp: server_token_loop.simps [of env ctx request policy waiting] await_ok_def w rcv p split: prod.splits poll.splits sum.splits)
    from "1.IH" [OF w rcv _ p _ a s loop] obtain rounds where
      "token_decides identity rounds" "ar_log r' = ar_log r3 @ rounds" by blast
    with logs a send_request_log [OF s] show ?case by (auto intro: token_decides.round)
  qed
qed

lemma authenticate_token_log:
  assumes "authenticate_token env ctx request policy asked inbound r = (Returned (Inr (auth, identity, final)), rest, r')"
  shows "\<exists>f rounds. token_decides identity rounds \<and> ar_log r' = ar_log r @ [Ev_Pushed f] @ rounds"
  using assms
  by (auto simp: authenticate_token_def elim!: await_ok_InrE dest!: send_request_log server_token_loop_log)

lemma authenticate_log:
  assumes "authenticate env ctx request policy auth action inbound (serve_log r (Ev_Started action)) =
    (Returned (Inr (auth', identity, final)), rest, r')"
  shows "\<exists>log. server_exchange identity log \<and> ar_log r' = ar_log r @ log"
proof (cases action)
  case (Action_Sasl mechanisms)
  with assms show ?thesis
    by (auto simp: authenticate_def dest!: authenticate_sasl_log intro: server_exchange.sasl [simplified])
qed (use assms in \<open>auto simp: authenticate_def dest!: authenticate_password_log authenticate_token_log
    intro: server_exchange.trusted server_exchange.password server_exchange.token [simplified]\<close>)

section \<open>No \<open>AuthenticationOk\<close> before the policy accepts\<close>

definition ok_frame :: Frame where
  "ok_frame = frame 82 [0, 0, 0, 0]"

lemma ok_frame_encodes: "BackendMessage_to_frame (B_Authentication Auth_Ok) = Inr ok_frame"
  by (simp add: ok_frame_def eval_defs)

text \<open>The middleware does not make \<open>AuthenticationOk\<close> out of another message.\<close>

definition forwards_ok :: "('pol, 'peer, 'id, 'e, 'st, 't, 're, 'route) server_env \<Rightarrow> bool" where
  "forwards_ok env = (\<forall>ctx st m. BackendMessage_to_frame (fst (se_backend env ctx st m)) = Inr ok_frame \<longrightarrow> m = B_Authentication Auth_Ok)"

text \<open>Whatever a step returns, all it has added to the log satisfies \<open>P\<close>.\<close>

definition grows :: "('id accept_event \<Rightarrow> bool) \<Rightarrow> ('id, 'st) accept_run \<Rightarrow> ('id, 'st, 'r) served \<Rightarrow> bool" where
  "grows P r d = (\<exists>l. ar_log (snd (snd d)) = ar_log r @ l \<and> list_all P l)"

lemma grows_same: "ar_log (snd (snd d)) = ar_log r \<Longrightarrow> grows P r d"
  by (simp add: grows_def)

lemma grows_returned [simp]: "grows P r (x, inbound, r)"
  by (simp add: grows_same)

lemma grows_trans: "grows P r (x, inbound, r1) \<Longrightarrow> grows P r1 d \<Longrightarrow> grows P r d"
  by (auto simp: grows_def)

lemma grows_await:
  assumes "grows P r d" and "\<And>x inbound r1. d = (Returned (Inr x), inbound, r1) \<Longrightarrow> grows P r1 (k x inbound r1)"
  shows "grows P r (await_ok d k)"
proof (cases d)
  case (fields p inbound r1)
  with assms grows_trans [of P r p inbound r1 "k (projr (case p of Returned x \<Rightarrow> x)) inbound r1"] show ?thesis
    by (auto simp: await_ok_def grows_def split: poll.splits sum.splits)
qed

lemma grows_flush [simp]: "grows P r (flush_or_abort inbound r)"
  by (auto simp: flush_or_abort_def grows_def split: list.splits option.splits)

lemma grows_push [simp]: "P (Ev_Pushed f) \<Longrightarrow> grows P r (push_or_abort env f inbound r)"
  by (auto simp: push_or_abort_def grows_def split: sum.splits)

lemma grows_backend_frame [simp]: "grows P r (backend_frame env ctx m inbound r)"
  by (auto simp: backend_frame_def grows_def split: prod.splits)

lemma grows_intercept [simp]: "grows P r (intercept_server_backend env ctx f inbound r)"
  by (auto simp: intercept_server_backend_def split: sum.splits)

lemma grows_receive [simp]: "(\<And>m. P (Ev_Received m)) \<Longrightarrow> grows P r (receive_frontend_or_abort env ctx inbound r)"
  by (auto simp: receive_frontend_or_abort_def grows_def split: list.splits sum.splits prod.splits)

lemma grows_respond [simp]:
  "(\<And>response action. P (Ev_Answered response action)) \<Longrightarrow> grows P r (policy_respond env policy request response inbound r)"
  by (auto simp: policy_respond_def grows_def split: sum.splits prod.splits)

definition before_ok :: "'id accept_event \<Rightarrow> bool" where
  "before_ok e = (e \<noteq> Ev_Pushed ok_frame)"

lemma before_ok_simps [simp]:
  "before_ok (Ev_Received m)" "before_ok (Ev_Answered response action)" "before_ok (Ev_Started action)"
  "before_ok (Ev_Pushed f) \<longleftrightarrow> f \<noteq> ok_frame"
  by (simp_all add: before_ok_def)

lemma map_error_Inr [simp]: "(map_sum g id x = Inr y) = (x = Inr y)"
  by (cases x) simp_all

lemma intercept_not_ok:
  assumes "forwards_ok env" and "f \<noteq> ok_frame"
    and "intercept_server_backend env ctx f inbound r = (Returned (Inr f'), rest, r')"
  shows "f' \<noteq> ok_frame"
proof
  assume "f' = ok_frame"
  with assms have "Backend_decode f = Inr (B_Authentication Auth_Ok)"
    unfolding forwards_ok_def intercept_server_backend_def backend_frame_def
    by (auto split: sum.splits prod.splits) (metis fst_conv)
  then show False using assms(2) ok_frame_encodes by (simp only: Backend_decode_iff) auto
qed

lemma auth_frame_not_ok: "auth_frame a = Inr f \<Longrightarrow> a \<noteq> Auth_Ok \<Longrightarrow> f \<noteq> ok_frame"
  using authentication_body_kind [of a]
  by (cases a) (auto simp: auth_frame_def authentication_frame_def ok_frame_def frame_of_Inr_iff be32_def to_be_numeral)

text \<open>Requests of the authentication phases.\<close>

definition requests_credentials :: "io_error + unit ServerAuthConn \<times> Frame \<Rightarrow> bool" where
  "requests_credentials asked = (\<forall>c f. asked = Inr (c, f) \<longrightarrow> f \<noteq> ok_frame)"

lemma requests [simp]:
  "requests_credentials (request_cleartext c)" "requests_credentials (request_md5 c salt)"
  "requests_credentials (request_sasl c mechanisms)" "requests_credentials (request_kerberos_v5 c)"
  "requests_credentials (Server_Auth.request_gss c)" "requests_credentials (request_sspi c)"
  "requests_credentials (continue_with c v)" "requests_credentials (continue_gss c v)"
  by (auto simp: requests_credentials_def request_cleartext_def request_md5_def request_sasl_def request_kerberos_v5_def
      Server_Auth.request_gss_def request_sspi_def continue_with_def continue_gss_def transition_with_frame_def
      dest: auth_frame_not_ok)

text \<open>Properties of events that hold for all but \<open>AuthenticationOk\<close>, or for all.\<close>

definition admits :: "('id accept_event \<Rightarrow> bool) \<Rightarrow> ('pol, 'peer, 'id, 'e, 'st, 't, 're, 'route) server_env \<Rightarrow> bool" where
  "admits P env = ((\<forall>m. P (Ev_Received m)) \<and> (\<forall>response action. P (Ev_Answered response action)) \<and>
     (\<forall>f. f \<noteq> ok_frame \<longrightarrow> P (Ev_Pushed f)) \<and> (forwards_ok env \<or> P (Ev_Pushed ok_frame)))"

lemma admits_before: "forwards_ok env \<Longrightarrow> admits before_ok env"
  by (simp add: admits_def)

lemma admits_all: "admits (\<lambda>_. True) env"
  by (simp add: admits_def)

lemma admits_grows [simp]:
  "admits P env \<Longrightarrow> grows P r (receive_frontend_or_abort env ctx inbound r)"
  "admits P env \<Longrightarrow> grows P r (policy_respond env policy request response inbound r)"
  by (simp_all add: admits_def)

lemma grows_request [simp]:
  assumes "admits P env" and "requests_credentials asked"
  shows "grows P r (send_request env ctx asked inbound r)"
proof -
  have "P (Ev_Pushed f')" if "asked = Inr (waiting, f)" "intercept_server_backend env ctx f inbound r = (Returned (Inr f'), rest, r')"
    for waiting f f' rest r'
    using that assms intercept_not_ok [of env f ctx inbound r f' rest r']
    by (cases "f' = ok_frame") (auto simp: admits_def requests_credentials_def)
  then show ?thesis by (auto simp: send_request_def split: sum.splits intro!: grows_await)
qed

lemma grows_password:
  assumes "admits P env" and "requests_credentials asked"
  shows "grows P r (authenticate_password env ctx request policy asked inbound r)"
  using assms unfolding authenticate_password_def
  by (auto intro!: grows_await split: sum.splits ServerAuthenticationAction.splits)

lemma grows_sasl_loop:
  assumes "admits P env"
  shows "grows P r (server_sasl_loop env ctx request policy conn action inbound r)"
  using assms
proof (induction env ctx request policy conn action inbound r rule: server_sasl_loop.induct)
  case (1 env ctx request policy conn challenge inbound r)
  then show ?case by (auto intro!: grows_await split: sum.splits)
qed (auto split: sum.splits)

lemma grows_sasl:
  assumes "admits P env"
  shows "grows P r (authenticate_sasl env ctx request policy auth mechanisms inbound r)"
  using assms unfolding authenticate_sasl_def
  by (auto intro!: grows_await grows_sasl_loop split: sum.splits)

lemma grows_token_loop:
  assumes "admits P env"
  shows "grows P r (server_token_loop env ctx request policy waiting inbound r)"
  using assms
proof (induction env ctx request policy waiting inbound r rule: server_token_loop.induct)
  case (1 env ctx request policy waiting inbound r)
  then show ?case
    by (subst server_token_loop.simps) (auto intro!: grows_await split: sum.splits ServerAuthenticationAction.splits)
qed

lemma grows_authenticate:
  assumes "admits P env"
  shows "grows P r (authenticate env ctx request policy auth action inbound r)"
  using assms unfolding authenticate_def authenticate_token_def
  by (auto intro!: grows_await grows_password grows_sasl grows_token_loop split: ServerAuthenticationAction.splits)

lemma grows_startup: "grows (\<lambda>_. True) r (complete_startup env ctx auth final_frame inbound r)"
  unfolding complete_startup_def push_all_or_abort_def
  by (auto intro!: grows_await split: sum.splits option.splits)

lemma startup_phase:
  "complete_startup env ctx auth final_frame inbound r = (Returned (Inr conn), rest, r') \<Longrightarrow> tc_phase conn = Sv_Ready"
  by (auto simp: complete_startup_def startup_ready_def transition_with_frame_def elim!: await_ok_InrE split: sum.splits prod.splits)

text \<open>How \<open>complete_auth\<close> goes on after the first action of the policy.\<close>

lemma complete_auth_cases:
  assumes "complete_auth env ctx message inbound r = Done d"
  obtains (refused) e where "d = (Returned (Inl e), inbound, r)"
  | (started) action policy request auth where
      "major (startup_version message) = major V3_2" and
      "d = await_ok (authenticate env ctx request policy auth action inbound (serve_log r (Ev_Started action)))
        (\<lambda>accepted inbound r. case accepted of (auth, identity, final_frame) \<Rightarrow>
          let ctx = ctx\<lparr>ctx_identity := Some identity\<rparr> in
          await_ok (complete_startup env ctx auth final_frame inbound r) (\<lambda>conn inbound r. (Returned (Inr (conn, ctx)), inbound, r)))"
  using assms
  by (auto simp: complete_auth_def validate_protocol_def Let_def split: ServerProtocolOffer.splits if_splits option.splits
      prod.splits sum.splits)

definition accepted_by_policy :: "'id \<Rightarrow> 'id accept_event list \<Rightarrow> bool" where
  "accepted_by_policy identity log = (\<exists>exchange rest. log = exchange @ rest \<and> server_exchange identity exchange \<and> list_all before_ok exchange)"

lemma complete_auth_log:
  assumes "forwards_ok env" and d: "complete_auth env ctx message inbound r = Done d"
  shows "\<exists>l. ar_log (snd (snd d)) = ar_log r @ l \<and>
    (\<not> list_all before_ok l \<longrightarrow> (\<exists>identity. accepted_by_policy identity l)) \<and>
    (\<forall>conn ctx'. fst d = Returned (Inr (conn, ctx')) \<longrightarrow>
      (\<exists>identity. ctx' = ctx\<lparr>ctx_identity := Some identity\<rparr> \<and> accepted_by_policy identity l) \<and>
      tc_phase conn = Sv_Ready \<and> major (startup_version message) = major V3_2)"
  using d
proof (cases rule: complete_auth_cases)
  case (started action policy request auth)
  define a where "a = authenticate env ctx request policy auth action inbound (serve_log r (Ev_Started action))"
  obtain p inbound1 r1 where a1: "a = (p, inbound1, r1)" by (cases a)
  have "grows before_ok (serve_log r (Ev_Started action)) a" unfolding a_def using admits_before [OF assms(1)] by (rule grows_authenticate)
  then obtain l1 where l1: "ar_log r1 = ar_log r @ l1" "list_all before_ok l1" by (auto simp: grows_def a1)
  show ?thesis
  proof (cases "\<exists>auth' identity final. p = Returned (Inr (auth', identity, final))")
    case False
    then have "snd (snd d) = r1" and "\<forall>x. fst d \<noteq> Returned (Inr x)"
      using started(2) by (auto simp: a_def [symmetric] a1 await_ok_def split: poll.splits sum.splits)
    with l1 show ?thesis by auto
  next
    case True
    then obtain auth' identity final where p: "p = Returned (Inr (auth', identity, final))" by blast
    have ex: "\<exists>log. server_exchange identity log \<and> ar_log r1 = ar_log r @ log"
      using a1 unfolding a_def p by (rule authenticate_log)
    define s where "s = complete_startup env (ctx\<lparr>ctx_identity := Some identity\<rparr>) auth' final inbound1 r1"
    have ds: "d = await_ok s (\<lambda>conn inbound r. (Returned (Inr (conn, ctx\<lparr>ctx_identity := Some identity\<rparr>)), inbound, r))"
      using started(2) by (simp add: a_def [symmetric] a1 p await_ok_def s_def Let_def)
    have "grows (\<lambda>_. True) r1 d"
      unfolding ds s_def by (rule grows_await [OF grows_startup]) simp
    then obtain l2 where l2: "ar_log (snd (snd d)) = ar_log r1 @ l2" by (auto simp: grows_def)
    from ex l1 l2 have "ar_log (snd (snd d)) = ar_log r @ l1 @ l2" "accepted_by_policy identity (l1 @ l2)"
      by (auto simp: accepted_by_policy_def)
    moreover have "ctx' = ctx\<lparr>ctx_identity := Some identity\<rparr> \<and> tc_phase conn = Sv_Ready" if "fst d = Returned (Inr (conn, ctx'))" for conn ctx'
      using that startup_phase unfolding ds s_def
      by (cases "complete_startup env (ctx\<lparr>ctx_identity := Some identity\<rparr>) auth' final inbound1 r1")
        (auto simp: await_ok_def split: poll.splits sum.splits)
    ultimately show ?thesis using started(1) by blast
  qed
qed simp

section \<open>Negotiation and startup\<close>

fun negotiation :: "'id accept_event \<Rightarrow> bool" where
  "negotiation (Ev_Reply _) = True"
| "negotiation Ev_Secured = True"
| "negotiation _ = False"

text \<open>
  The log of a connection: replies to encryption requests, then what \<open>complete_auth\<close> does; \<open>AuthenticationOk\<close> and a
  session only for an identity that the policy has accepted.
\<close>

definition authorised :: "('id, 'st) accept_run \<Rightarrow> ('id, 'st, 'x + ('peer, 'id, 'route) ServerAccept) served \<Rightarrow> bool" where
  "authorised r d = (\<exists>neg l. ar_log (snd (snd d)) = ar_log r @ neg @ l \<and> list_all negotiation neg \<and>
     (\<not> list_all before_ok l \<longrightarrow> (\<exists>identity. accepted_by_policy identity l)) \<and>
     (\<forall>conn ctx message way. fst d = Returned (Inr (Accepted_Session conn ctx message way)) \<longrightarrow>
       (\<exists>identity. ctx_identity ctx = Some identity \<and> accepted_by_policy identity l) \<and> tc_phase conn = Sv_Ready))"

lemma authorised_later:
  assumes "authorised s d" and "ar_log s = ar_log r @ neg" and "list_all negotiation neg"
  shows "authorised r d"
proof -
  from assms(1) obtain neg1 l where "ar_log (snd (snd d)) = ar_log s @ neg1 @ l" "list_all negotiation neg1"
    "\<not> list_all before_ok l \<longrightarrow> (\<exists>identity. accepted_by_policy identity l)"
    "\<forall>conn ctx message way. fst d = Returned (Inr (Accepted_Session conn ctx message way)) \<longrightarrow>
       (\<exists>identity. ctx_identity ctx = Some identity \<and> accepted_by_policy identity l) \<and> tc_phase conn = Sv_Ready"
    unfolding authorised_def by blast
  with assms(2,3) show ?thesis
    unfolding authorised_def by (intro exI [of _ "neg @ neg1"] exI [of _ l]) simp
qed

lemma authorised_same:
  "ar_log r' = ar_log r \<Longrightarrow> (\<And>conn ctx message way. x \<noteq> Returned (Inr (Accepted_Session conn ctx message way))) \<Longrightarrow> authorised r (x, rest, r')"
  unfolding authorised_def by (intro exI [of _ "[]"]) simp

lemma routed_log [simp]: "snd (snd (routed d)) = snd (snd d)"
  by (cases d rule: routed.cases) simp_all

lemma accept_startup_cases:
  assumes "accept_startup env ctx message inbound r = Done d"
  obtains (unrouted) error state where "d = (Returned (Inl (Routed_Route error)), inbound, r\<lparr>ar_state := state\<rparr>)"
  | (authenticating) message1 state way d1 where "complete_auth env ctx message1 inbound (r\<lparr>ar_state := state\<rparr>) = Done d1"
    and "d = await_ok (routed d1) (\<lambda>accepted inbound r. case accepted of (conn, ctx) \<Rightarrow>
      (Returned (Inr (Accepted_Session conn ctx message1 way)), inbound, r))"
  using assms by (auto simp: accept_startup_def split: prod.splits sum.splits exec.splits)

lemma session_of_routed:
  assumes "d = await_ok (routed d1) (\<lambda>accepted inbound r. case accepted of (conn, ctx) \<Rightarrow>
      (Returned (Inr (Accepted_Session conn ctx message1 way)), inbound, r))"
  shows "snd (snd d) = snd (snd d1)"
    and "fst d = Returned (Inr (Accepted_Session conn ctx' message' way')) \<Longrightarrow> fst d1 = Returned (Inr (conn, ctx'))"
  using assms by (cases d1 rule: routed.cases; auto simp: await_ok_def split: prod.splits)+

lemma accept_startup_authorised:
  assumes "forwards_ok env" and "accept_startup env ctx message inbound r = Done d"
  shows "authorised r d"
  using assms(2)
proof (cases rule: accept_startup_cases)
  case (authenticating message1 state way d1)
  note s = session_of_routed [OF authenticating(2)]
  from complete_auth_log [OF assms(1) authenticating(1)] obtain l1 where l1: "ar_log (snd (snd d1)) = ar_log r @ l1"
    "\<not> list_all before_ok l1 \<longrightarrow> (\<exists>identity. accepted_by_policy identity l1)"
    "\<forall>conn ctx'. fst d1 = Returned (Inr (conn, ctx')) \<longrightarrow>
      (\<exists>identity. ctx' = ctx\<lparr>ctx_identity := Some identity\<rparr> \<and> accepted_by_policy identity l1) \<and> tc_phase conn = Sv_Ready"
    by auto
  show ?thesis
    unfolding authorised_def
  proof (intro exI conjI)
    show "ar_log (snd (snd d)) = ar_log r @ [] @ l1" using s(1) l1(1) by simp
    show "\<forall>conn ctx message way. fst d = Returned (Inr (Accepted_Session conn ctx message way)) \<longrightarrow>
      (\<exists>identity. ctx_identity ctx = Some identity \<and> accepted_by_policy identity l1) \<and> tc_phase conn = Sv_Ready"
      using s(2) l1(3) by fastforce
  qed (use l1(2) in simp_all)
qed (auto intro!: authorised_same)

lemma complete_auth_context:
  assumes "complete_auth env ctx message inbound r = Done (Returned (Inr (conn, ctx')), rest, r')"
  shows "ctx_tls ctx' = ctx_tls ctx"
  using assms
proof (cases rule: complete_auth_cases)
  case (started action policy request auth)
  from started(2) [symmetric] show ?thesis by (auto elim!: await_ok_InrE simp: Let_def split: prod.splits)
qed simp

lemma accept_startup_context:
  assumes "accept_startup env ctx message inbound r = Done d"
    and "fst d = Returned (Inr (Accepted_Session conn ctx' message' way))"
  shows "ctx_tls ctx' = ctx_tls ctx"
  using assms(1)
proof (cases rule: accept_startup_cases)
  case (authenticating message1 state way d1)
  from session_of_routed(2) [OF authenticating(2) assms(2)] authenticating(1) show ?thesis
    by (cases d1) (auto dest: complete_auth_context)
qed (use assms(2) in simp)

lemma accept_startup_no_panic: "ctx_tls ctx = Some tls \<Longrightarrow> accept_startup env ctx message inbound r \<noteq> Panic"
  by (auto simp: accept_startup_def complete_auth_def validate_protocol_def Let_def
      split: prod.splits sum.splits exec.splits ServerProtocolOffer.splits if_splits)

lemma intercept_pre_startup_log [simp]: "intercept_pre_startup env ctx r m = (offer, r') \<Longrightarrow> ar_log r' = ar_log r"
  by (auto simp: intercept_pre_startup_def split: prod.splits)

lemma decline_log: "decline inbound r = (x, rest, r') \<Longrightarrow> ar_log r' = ar_log r @ [Ev_Reply (reply_byte Rejected)] \<and> rest = inbound"
  using flush_or_abort_log flush_script by (fastforce simp: decline_def)

lemma accept_cancellation_authorised:
  "ar_log r1 = ar_log r \<Longrightarrow> authorised r (accept_cancellation env ctx process_id secret_key inbound r1)"
  by (auto simp: accept_cancellation_def intro!: authorised_same split: prod.splits)

lemma authorised_cong: "ar_log r1 = ar_log r \<Longrightarrow> authorised r1 d = authorised r d"
  by (simp add: authorised_def)

lemma authorised_replied:
  "authorised s d \<Longrightarrow> ar_log s = ar_log r @ [Ev_Reply b] \<Longrightarrow> authorised r d"
  using authorised_later [of s d r "[Ev_Reply b]"] by simp

lemma declined_authorised:
  assumes "ar_log r1 = ar_log r"
    and "(case (decline inbound r1 :: ('id, 'st, ('t, 'e) AcceptError + unit) served) of
        (Returned (Inl error), inbound, r) \<Rightarrow> Done (Returned (Inl (Routed_Accept error)), inbound, r)
      | (_, _, r) \<Rightarrow> continue r) = Done d"
    and "\<And>r. continue r = Done d \<Longrightarrow> authorised r d"
  shows "authorised r d"
proof (cases "decline inbound r1 :: ('id, 'st, ('t, 'e) AcceptError + unit) served")
  case (fields x rest r2)
  with assms(1) have l: "ar_log r2 = ar_log r @ [Ev_Reply (reply_byte Rejected)]" using decline_log [OF fields] by simp
  have "authorised r2 d"
    using assms(2,3) by (auto simp: fields split: poll.splits sum.splits intro: authorised_same)
  then show ?thesis using l by (rule authorised_replied)
qed

lemma accept_encrypted_authorised:
  assumes "forwards_ok env"
  shows "accept_encrypted env ctx pre inbound r = Done d \<Longrightarrow> authorised r d"
proof (induction pre arbitrary: r)
  case (Cons item pre)
  show ?case
  proof (cases item)
    case (Inr message)
    obtain offer r1 where i: "intercept_pre_startup env ctx r message = (offer, r1)" by fastforce
    have declined: "authorised r d" if "(case decline inbound r1 of
            (Returned (Inl error), inbound, r) \<Rightarrow> Done (Returned (Inl (Routed_Accept error)), inbound, r)
          | (_, _, r) \<Rightarrow> accept_encrypted env ctx pre inbound r) = Done d"
      using that declined_authorised [OF intercept_pre_startup_log [OF i] that Cons.IH] by blast
    show ?thesis
    proof (cases offer)
      case (Offer_Startup c m)
      with Cons.prems Inr i accept_startup_authorised [OF assms, of ctx m inbound r1 d] show ?thesis
        by (simp add: authorised_cong [of r1 r])
    qed (use Cons.prems Inr i declined in \<open>auto intro: accept_cancellation_authorised\<close>)
  qed (use Cons.prems in \<open>auto intro!: authorised_same\<close>)
qed (auto intro!: authorised_same)

lemma secured_authorised:
  assumes "ar_log r1 = ar_log r"
    and "(case (flush_or_abort inbound (serve_log r1 (Ev_Reply b)) :: ('id, 'st, ('t, 'e) AcceptError + unit) served) of
        (Returned (Inl error), inbound, r) \<Rightarrow> Done (Returned (Inl (Routed_Accept error)), inbound, r)
      | (_, _, r) \<Rightarrow> (case handshake of
          Inl error \<Rightarrow> Done (Returned (Inl (Routed_Accept (Accept_Io error))), inbound, r)
        | Inr end_point \<Rightarrow> continue end_point (serve_log r Ev_Secured))) = Done d"
    and "\<And>end_point r. continue end_point r = Done d \<Longrightarrow> authorised r d"
  shows "authorised r d"
proof (cases "flush_or_abort inbound (serve_log r1 (Ev_Reply b)) :: ('id, 'st, ('t, 'e) AcceptError + unit) served")
  case (fields x rest r2)
  with assms(1) have l: "ar_log r2 = ar_log r @ [Ev_Reply b]" using flush_or_abort_log [OF fields] by simp
  from assms(2) have "authorised r2 d \<or> (\<exists>end_point. continue end_point (serve_log r2 Ev_Secured) = Done d)"
    by (auto simp: fields split: poll.splits sum.splits intro: authorised_same)
  then have "authorised r2 d"
    using assms(3) authorised_later [of "serve_log r2 Ev_Secured" d r2 "[Ev_Secured]"] by auto
  then show ?thesis using l by (rule authorised_replied)
qed

lemma diagnostic_not_ok: "BackendMessage_to_frame tls_required_diagnostic = Inr f \<Longrightarrow> f \<noteq> ok_frame"
  by (auto simp: tls_required_diagnostic_def diagnostic_frame_def frame_of_Inr_iff ok_frame_def)

text \<open>The startup that a policy refuses for want of TLS: at most the diagnostic is sent.\<close>

lemma tls_required_authorised:
  assumes "ar_log r1 = ar_log r"
    and "(case BackendMessage_to_frame tls_required_diagnostic of
        Inl _ \<Rightarrow> Done (Returned (Inl (Routed_Accept Accept_TlsRequired)), inbound, r1)
      | Inr f \<Rightarrow> (case push_or_abort env f inbound r1 of (_, _, r) \<Rightarrow>
          (case flush_or_abort inbound r :: ('id, 'st, ('t, 'e) AcceptError + unit) served of (_, _, r) \<Rightarrow>
            Done (Returned (Inl (Routed_Accept Accept_TlsRequired)), inbound, r)))) = Done d"
  shows "authorised r d" and "\<exists>l. ar_log (snd (snd d)) = ar_log r @ l \<and>
    (\<forall>e \<in> set l. \<exists>f. BackendMessage_to_frame tls_required_diagnostic = Inr f \<and> e = Ev_Pushed f)"
proof -
  obtain l where l: "ar_log (snd (snd d)) = ar_log r @ l \<and> list_all before_ok l \<and> fst d = Returned (Inl (Routed_Accept Accept_TlsRequired)) \<and>
    (\<forall>e \<in> set l. \<exists>f. BackendMessage_to_frame tls_required_diagnostic = Inr f \<and> e = Ev_Pushed f)"
    using assms
    by (auto simp: push_or_abort_def diagnostic_not_ok split: sum.splits prod.splits dest!: flush_or_abort_log)
  then show "\<exists>l. ar_log (snd (snd d)) = ar_log r @ l \<and>
    (\<forall>e \<in> set l. \<exists>f. BackendMessage_to_frame tls_required_diagnostic = Inr f \<and> e = Ev_Pushed f)" by blast
  from l show "authorised r d"
    unfolding authorised_def by (intro exI [of _ "[]"] exI [of _ l]) simp
qed

lemma accept_plaintext_authorised:
  assumes "forwards_ok env"
  shows "accept_plaintext env ctx handshake encrypted pre inbound r = Done d \<Longrightarrow> authorised r d"
proof (induction pre arbitrary: r)
  case (Cons item pre)
  show ?case
  proof (cases item)
    case (Inr message)
    obtain offer r1 where i: "intercept_pre_startup env ctx r message = (offer, r1)" by fastforce
    note declined = declined_authorised [OF intercept_pre_startup_log [OF i] _ Cons.IH]
    show ?thesis
    proof (cases offer)
      case (Offer_Ssl c)
      show ?thesis
      proof (cases "se_tls_provider env")
        case None
        with Cons.prems Inr i Offer_Ssl show ?thesis by (intro declined) simp_all
      next
        case (Some provided)
        show ?thesis
        proof (cases provided)
          case (Inr u)
          show ?thesis
            using Cons.prems Some Inr i Offer_Ssl \<open>item = Inr message\<close>
            by (intro secured_authorised [OF intercept_pre_startup_log [OF i] _ accept_encrypted_authorised [OF assms]]) simp_all
        qed (use Cons.prems Some Inr i Offer_Ssl \<open>item = Inr message\<close> in \<open>auto intro!: authorised_same\<close>)
      qed
    next
      case (Offer_Startup c m)
      show ?thesis
        using Cons.prems Inr i Offer_Startup accept_startup_authorised [OF assms, of _ m inbound r1 d]
          tls_required_authorised(1) [OF intercept_pre_startup_log [OF i]]
        by (cases "se_tls_required env") (simp_all add: authorised_cong [of r1 r])
    qed (use Cons.prems Inr i in \<open>auto intro: accept_cancellation_authorised declined\<close>)
  qed (use Cons.prems in \<open>auto intro!: authorised_same\<close>)
qed (auto intro!: authorised_same)

section \<open>The TLS policy\<close>

lemma grows_serve: "grows P (serve_log r e) d \<Longrightarrow> P e \<Longrightarrow> grows P r d"
  by (auto simp: grows_def)

lemma complete_auth_grows:
  assumes "complete_auth env ctx message inbound r = Done d"
  shows "grows (\<lambda>_. True) r d"
  using assms
proof (cases rule: complete_auth_cases)
  case (started action policy request auth)
  show ?thesis
    unfolding started(2) Let_def
    by (rule grows_serve [where e = "Ev_Started action"], rule grows_await [OF grows_authenticate [OF admits_all]])
      (auto intro!: grows_await [OF grows_startup] split: prod.splits)
qed simp

lemma accept_startup_grows:
  assumes "accept_startup env ctx message inbound r = Done d"
  shows "grows (\<lambda>_. True) r d"
  using assms
proof (cases rule: accept_startup_cases)
  case (authenticating message1 state way d1)
  with complete_auth_grows [OF authenticating(1)] session_of_routed(1) [OF authenticating(2)] show ?thesis
    by (simp add: grows_def)
qed (simp add: grows_def)

definition keeps_tls :: "NegotiatedServerTls option \<Rightarrow> ('id, 'st) accept_run \<Rightarrow> ('id, 'st, 'x + ('peer, 'id, 'route) ServerAccept) served \<Rightarrow> bool" where
  "keeps_tls tls r d = (grows (\<lambda>_. True) r d \<and>
     (\<forall>conn ctx message way. fst d = Returned (Inr (Accepted_Session conn ctx message way)) \<longrightarrow> ctx_tls ctx = tls))"

lemma keeps_tls_later: "keeps_tls tls s d \<Longrightarrow> ar_log s = ar_log r @ l \<Longrightarrow> keeps_tls tls r d"
  by (auto simp: keeps_tls_def grows_def list_all_iff)

lemma keeps_tls_error: "keeps_tls tls r (Returned (Inl e), rest, r)" "keeps_tls tls r (Pending, rest, r)"
  by (simp_all add: keeps_tls_def)

lemma declined_cases:
  assumes "(case (decline inbound r1 :: ('id, 'st, ('t, 'e) AcceptError + unit) served) of
        (Returned (Inl error), inbound, r) \<Rightarrow> Done (Returned (Inl (Routed_Accept error)), inbound, r)
      | (_, _, r) \<Rightarrow> continue r) = Done d"
  obtains s where "ar_log s = ar_log r1 @ [Ev_Reply (reply_byte Rejected)]" "continue s = Done d"
  | s error where "ar_log s = ar_log r1 @ [Ev_Reply (reply_byte Rejected)]" "d = (Returned (Inl (Routed_Accept error)), inbound, s)"
proof (cases "decline inbound r1 :: ('id, 'st, ('t, 'e) AcceptError + unit) served")
  case (fields x rest r2)
  show ?thesis
    using assms that decline_log [OF fields] by (auto simp: fields split: poll.splits sum.splits)
qed

lemma accept_encrypted_keeps_tls: "accept_encrypted env ctx pre inbound r = Done d \<Longrightarrow> keeps_tls (ctx_tls ctx) r d"
proof (induction pre arbitrary: r)
  case (Cons item pre)
  show ?case
  proof (cases item)
    case (Inr message)
    obtain offer r1 where i: "intercept_pre_startup env ctx r message = (offer, r1)" by fastforce
    have l1: "ar_log r1 = ar_log r @ []" using i by simp
    have declined: "keeps_tls (ctx_tls ctx) r1 d" if "(case decline inbound r1 of
          (Returned (Inl error), inbound, r) \<Rightarrow> Done (Returned (Inl (Routed_Accept error)), inbound, r)
        | (_, _, r) \<Rightarrow> accept_encrypted env ctx pre inbound r) = Done d"
      using that by (rule declined_cases) (auto intro: keeps_tls_later [OF Cons.IH] keeps_tls_later [OF keeps_tls_error(1)])
    have "keeps_tls (ctx_tls ctx) r1 d"
    proof (cases offer)
      case (Offer_Startup c m)
      with Cons.prems Inr i have "accept_startup env ctx m inbound r1 = Done d" by simp
      then show ?thesis
        unfolding keeps_tls_def by (blast intro: accept_startup_grows accept_startup_context)
    next
      case (Offer_Cancel c process_id secret_key)
      with Cons.prems Inr i show ?thesis
        by (auto simp: accept_cancellation_def keeps_tls_def grows_def split: prod.splits)
    qed (use Cons.prems Inr i declined in auto)
    then show ?thesis using l1 by (rule keeps_tls_later)
  qed (use Cons.prems in \<open>auto intro: keeps_tls_error\<close>)
qed (auto intro: keeps_tls_error)

text \<open>
  Under a policy that requires TLS, nothing but replies to encryption requests and the refusal comes before the
  handshake, and a session knows the channel binding of that handshake.
\<close>

fun replies :: "'id accept_event \<Rightarrow> bool" where
  "replies (Ev_Reply _) = True"
| "replies _ = False"

definition refusal :: "'id accept_event \<Rightarrow> bool" where
  "refusal e = (case BackendMessage_to_frame tls_required_diagnostic of Inr f \<Rightarrow> e = Ev_Pushed f | Inl _ \<Rightarrow> False)"

definition tls_first :: "io_error + bytes \<Rightarrow> ('id, 'st) accept_run \<Rightarrow> ('id, 'st, 'x + ('peer, 'id, 'route) ServerAccept) served \<Rightarrow> bool" where
  "tls_first handshake r d = (\<exists>neg tail. ar_log (snd (snd d)) = ar_log r @ neg @ tail \<and> list_all replies neg \<and>
     (list_all refusal tail \<and> (\<forall>conn ctx message way. fst d \<noteq> Returned (Inr (Accepted_Session conn ctx message way)))
      \<or> (\<exists>end_point rest. handshake = Inr end_point \<and> tail = Ev_Secured # rest \<and> (\<forall>conn ctx message way.
           fst d = Returned (Inr (Accepted_Session conn ctx message way)) \<longrightarrow> ctx_tls ctx = Some (Tls_Secured end_point)))))"

lemma tls_first_later:
  assumes "tls_first handshake s d" and "ar_log s = ar_log r @ l" and "list_all replies l"
  shows "tls_first handshake r d"
proof -
  from assms(1) obtain neg tail where "ar_log (snd (snd d)) = ar_log s @ neg @ tail" "list_all replies neg"
    "list_all refusal tail \<and> (\<forall>conn ctx message way. fst d \<noteq> Returned (Inr (Accepted_Session conn ctx message way)))
      \<or> (\<exists>end_point rest. handshake = Inr end_point \<and> tail = Ev_Secured # rest \<and> (\<forall>conn ctx message way.
           fst d = Returned (Inr (Accepted_Session conn ctx message way)) \<longrightarrow> ctx_tls ctx = Some (Tls_Secured end_point)))"
    unfolding tls_first_def by blast
  then show ?thesis
    unfolding tls_first_def by (intro exI [of _ "l @ neg"] exI [of _ tail]) (simp add: assms(2,3))
qed

lemma tls_first_none:
  assumes "ar_log (snd (snd d)) = ar_log r @ l" and "list_all refusal l"
    and "\<And>conn ctx message way. fst d \<noteq> Returned (Inr (Accepted_Session conn ctx message way))"
  shows "tls_first handshake r d"
  unfolding tls_first_def by (rule exI [of _ "[]"], rule exI [of _ l]) (simp add: assms)

lemma tls_first_secured:
  assumes "keeps_tls (Some (Tls_Secured end_point)) (serve_log r Ev_Secured) d"
  shows "tls_first (Inr end_point) r d"
proof -
  from assms obtain l where "ar_log (snd (snd d)) = ar_log r @ Ev_Secured # l"
    by (auto simp: keeps_tls_def grows_def)
  with assms show ?thesis
    unfolding tls_first_def keeps_tls_def by (intro exI [of _ "[]"] exI [of _ "Ev_Secured # l"]) auto
qed

lemma secured_cases:
  assumes "(case (flush_or_abort inbound (serve_log r1 (Ev_Reply b)) :: ('id, 'st, ('t, 'e) AcceptError + unit) served) of
        (Returned (Inl error), inbound, r) \<Rightarrow> Done (Returned (Inl (Routed_Accept error)), inbound, r)
      | (_, _, r) \<Rightarrow> (case handshake of
          Inl error \<Rightarrow> Done (Returned (Inl (Routed_Accept (Accept_Io error))), inbound, r)
        | Inr end_point \<Rightarrow> continue end_point (serve_log r Ev_Secured))) = Done d"
  obtains s end_point where "ar_log s = ar_log r1 @ [Ev_Reply b]" "handshake = Inr end_point" "continue end_point (serve_log s Ev_Secured) = Done d"
  | s error where "ar_log s = ar_log r1 @ [Ev_Reply b]" "d = (Returned (Inl (Routed_Accept error)), inbound, s)"
proof (cases "flush_or_abort inbound (serve_log r1 (Ev_Reply b)) :: ('id, 'st, ('t, 'e) AcceptError + unit) served")
  case (fields x rest r2)
  then have "rest = inbound" using flush_script by blast
  then show ?thesis
    using assms that flush_or_abort_log [OF fields] by (auto simp: fields split: poll.splits sum.splits)
qed

lemma accept_plaintext_tls_first:
  assumes "se_tls_required env"
  shows "accept_plaintext env ctx handshake encrypted pre inbound r = Done d \<Longrightarrow> tls_first handshake r d"
proof (induction pre arbitrary: r)
  case (Cons item pre)
  show ?case
  proof (cases item)
    case (Inr message)
    obtain offer r1 where i: "intercept_pre_startup env ctx r message = (offer, r1)" by fastforce
    have l1: "ar_log r1 = ar_log r @ []" using i by simp
    have declined: "tls_first handshake r1 d" if "(case decline inbound r1 of
          (Returned (Inl error), inbound, r) \<Rightarrow> Done (Returned (Inl (Routed_Accept error)), inbound, r)
        | (_, _, r) \<Rightarrow> accept_plaintext env ctx handshake encrypted pre inbound r) = Done d"
      using that by (rule declined_cases)
        (auto intro: tls_first_later [OF Cons.IH] tls_first_later [OF tls_first_none [where l = "[]"]])
    have "tls_first handshake r1 d"
    proof (cases offer)
      case (Offer_Ssl c)
      show ?thesis
      proof (cases "se_tls_provider env")
        case (Some provided)
        show ?thesis
        proof (cases provided)
          case (Inr u)
          have "(case flush_or_abort inbound (serve_log r1 (Ev_Reply (reply_byte Accepted))) of
              (Returned (Inl error), inbound, r) \<Rightarrow> Done (Returned (Inl (Routed_Accept error)), inbound, r)
            | (_, _, r) \<Rightarrow> (case handshake of
                Inl error \<Rightarrow> Done (Returned (Inl (Routed_Accept (Accept_Io error))), inbound, r)
              | Inr end_point \<Rightarrow> accept_encrypted env (ctx\<lparr>ctx_tls := Some (Tls_Secured end_point)\<rparr>) encrypted inbound
                  (serve_log r Ev_Secured))) = Done d"
            using Cons.prems Some Inr i Offer_Ssl \<open>item = Inr message\<close> by simp
          then show ?thesis
            by (rule secured_cases) (auto dest!: accept_encrypted_keeps_tls
                intro: tls_first_later [OF tls_first_secured] tls_first_later [OF tls_first_none [where l = "[]"]])
        qed (use Cons.prems Some i Offer_Ssl \<open>item = Inr message\<close> in \<open>auto intro!: tls_first_none [where l = "[]"]\<close>)
      qed (use Cons.prems Inr i declined Offer_Ssl in simp)
    next
      case (Offer_Startup c m)
      show ?thesis
        using Cons.prems Inr i Offer_Startup assms
        by (auto simp: push_or_abort_def refusal_def split: sum.splits prod.splits dest!: flush_or_abort_log intro!: tls_first_none)
    next
      case (Offer_Cancel c process_id secret_key)
      with Cons.prems Inr i show ?thesis
        by (auto simp: accept_cancellation_def intro!: tls_first_none [where l = "[]"] split: prod.splits)
    qed (use Cons.prems Inr i declined in simp)
    then show ?thesis using l1 by (rule tls_first_later) simp
  qed (use Cons.prems in \<open>auto intro!: tls_first_none [where l = "[]"]\<close>)
qed (auto intro!: tls_first_none [where l = "[]"])

section \<open>Accepting ends\<close>

lemma waits_await:
  assumes "waits_at_end inbound d" and "\<And>x rest r. d = (Returned (Inr x), rest, r) \<Longrightarrow> waits_at_end rest (k x rest r)"
  shows "waits_at_end inbound (await_ok d k)"
proof (cases d)
  case (fields p rest r)
  show ?thesis
  proof (cases "\<exists>x. p = Returned (Inr x)")
    case True
    then obtain x where x: "p = Returned (Inr x)" by blast
    with assms(1) fields obtain ms where "inbound = map Inr ms @ rest" by auto
    with waits_at_end_append [OF assms(2) [OF fields [unfolded x]]] fields x show ?thesis by (simp add: await_ok_def)
  qed (use assms(1) fields in \<open>auto simp: await_ok_def split: poll.splits sum.splits\<close>)
qed

lemma used_none [simp]: "\<exists>ms. inbound = map Inr ms @ inbound" "\<exists>ms. inbound = map Inr ms @ inbound \<and> True"
  by (rule exI [of _ "[]"], simp)+

lemma waits_steps [simp]:
  "waits_at_end inbound (flush_or_abort inbound r)"
  "waits_at_end inbound (push_or_abort env f inbound r)"
  "waits_at_end inbound (backend_frame env ctx m inbound r)"
  "waits_at_end inbound (intercept_server_backend env ctx f inbound r)"
  "waits_at_end inbound (policy_respond env policy request response inbound r)"
  by (auto simp: flush_or_abort_def push_or_abort_def intercept_server_backend_def backend_frame_def policy_respond_def waits_at_end_def
      split: list.splits option.splits sum.splits prod.splits)

lemma waits_receive [simp]: "waits_at_end inbound (receive_frontend_or_abort env ctx inbound r)"
  by (auto simp: receive_frontend_or_abort_def suffix_ConsI split: list.splits sum.splits prod.splits)

lemma waits_request [simp]: "waits_at_end inbound (send_request env ctx asked inbound r)"
  by (auto simp: send_request_def intro!: waits_await split: sum.splits)

lemma waits_password [simp]: "waits_at_end inbound (authenticate_password env ctx request policy asked inbound r)"
  unfolding authenticate_password_def by (auto intro!: waits_await split: sum.splits ServerAuthenticationAction.splits)

lemma waits_sasl_loop [simp]: "waits_at_end inbound (server_sasl_loop env ctx request policy conn action inbound r)"
proof (induction env ctx request policy conn action inbound r rule: server_sasl_loop.induct)
  case (1 env ctx request policy conn challenge inbound r)
  then show ?case by (auto intro!: waits_await split: sum.splits)
qed (auto split: sum.splits)

lemma waits_sasl [simp]: "waits_at_end inbound (authenticate_sasl env ctx request policy auth mechanisms inbound r)"
  unfolding authenticate_sasl_def by (auto intro!: waits_await split: sum.splits)

lemma waits_token_loop [simp]: "waits_at_end inbound (server_token_loop env ctx request policy waiting inbound r)"
proof (induction env ctx request policy waiting inbound r rule: server_token_loop.induct)
  case (1 env ctx request policy waiting inbound r)
  then show ?case
    by (subst server_token_loop.simps) (auto intro!: waits_await split: sum.splits ServerAuthenticationAction.splits)
qed

lemma waits_authenticate [simp]: "waits_at_end inbound (authenticate env ctx request policy auth action inbound r)"
  unfolding authenticate_def authenticate_token_def by (auto intro!: waits_await split: ServerAuthenticationAction.splits)

lemma waits_startup [simp]: "waits_at_end inbound (complete_startup env ctx auth final_frame inbound r)"
  unfolding complete_startup_def push_all_or_abort_def by (auto intro!: waits_await split: sum.splits option.splits)

lemma complete_auth_waits: "complete_auth env ctx message inbound r = Done d \<Longrightarrow> waits_at_end inbound d"
  by (erule complete_auth_cases) (auto intro!: waits_await simp: Let_def split: prod.splits)

lemma waits_routed [simp]: "waits_at_end inbound (routed d) = waits_at_end inbound d"
  by (cases d rule: routed.cases) simp_all

lemma accept_startup_waits: "accept_startup env ctx message inbound r = Done d \<Longrightarrow> waits_at_end inbound d"
  by (auto simp: accept_startup_def split: prod.splits sum.splits exec.splits dest!: complete_auth_waits intro!: waits_await)

text \<open>Neither loop panics: both know whether the connection is encrypted before a startup message is authenticated.\<close>

definition ends :: "FrontendMessage script \<Rightarrow> ('id, 'st, 'r) served exec \<Rightarrow> bool" where
  "ends inbound x = (case x of Done (Returned _, rest, _) \<Rightarrow> suffix rest inbound | _ \<Rightarrow> False)"

lemma ends_simps [simp]: "ends inbound (Done (Returned result, rest, r)) = suffix rest inbound" "\<not> ends inbound Panic"
  by (simp_all add: ends_def)

lemma accept_startup_ends:
  assumes "Inl error \<in> set inbound" and "ctx_tls ctx = Some tls"
  shows "ends inbound (accept_startup env ctx message inbound r)"
proof (cases "accept_startup env ctx message inbound r")
  case (Done d)
  then have "waits_at_end inbound d" by (rule accept_startup_waits)
  then show ?thesis
    using assms(1) Done by (auto simp: ends_def waits_at_end_def suffix_def split: prod.splits poll.splits sum.splits)
qed (use accept_startup_no_panic [OF assms(2)] in blast)

lemma declined_ends:
  assumes "\<And>r. ends inbound (continue r)"
  shows "ends inbound (case (decline inbound r :: ('id, 'st, ('t, 'e) AcceptError + unit) served) of
      (Returned (Inl error), inbound, r) \<Rightarrow> Done (Returned (Inl (Routed_Accept error)), inbound, r)
    | (_, _, r) \<Rightarrow> continue r)"
  using assms by (auto dest!: decline_log split: prod.splits poll.splits sum.splits)

lemma accept_cancellation_ends [simp]: "ends inbound (Done (accept_cancellation env ctx process_id secret_key inbound r))"
  by (simp add: accept_cancellation_def split: prod.splits)

lemma accept_encrypted_ends:
  assumes "Inl error \<in> set inbound" and "ctx_tls ctx = Some tls"
  shows "Inl e \<in> set pre \<Longrightarrow> ends inbound (accept_encrypted env ctx pre inbound r)"
proof (induction pre arbitrary: r)
  case (Cons item pre)
  show ?case
  proof (cases item)
    case (Inr message)
    with Cons.prems have rest: "\<And>r. ends inbound (accept_encrypted env ctx pre inbound r)" by (intro Cons.IH) simp
    show ?thesis
      unfolding Inr accept_encrypted.simps
      by (cases "intercept_pre_startup env ctx r message"; cases "fst (intercept_pre_startup env ctx r message)")
        (auto intro: accept_startup_ends assms declined_ends [OF rest])
  qed simp
qed simp

lemma accept_plaintext_ends:
  assumes "Inl error \<in> set inbound" and "Inl e' \<in> set encrypted"
  shows "Inl e \<in> set pre \<Longrightarrow> ends inbound (accept_plaintext env ctx handshake encrypted pre inbound r)"
proof (induction pre arbitrary: r)
  case (Cons item pre)
  show ?case
  proof (cases item)
    case (Inr message)
    with Cons.prems have rest: "\<And>r. ends inbound (accept_plaintext env ctx handshake encrypted pre inbound r)" by (intro Cons.IH) simp
    obtain offer r1 where i: "intercept_pre_startup env ctx r message = (offer, r1)" by fastforce
    show ?thesis
    proof (cases offer)
      case (Offer_Ssl c)
      show ?thesis
      proof (cases "\<exists>u. se_tls_provider env = Some (Inr u)")
        case True
        then show ?thesis
          using i Offer_Ssl
          by (auto simp: Inr split: prod.splits poll.splits sum.splits dest!: flush_script
              intro: accept_encrypted_ends [OF assms(1) _ assms(2)])
      qed (use i Offer_Ssl declined_ends [OF rest] in \<open>auto simp: Inr split: option.splits sum.splits\<close>)
    next
      case (Offer_Startup c m)
      then show ?thesis
        using i by (auto simp: Inr split: prod.splits sum.splits intro: accept_startup_ends [OF assms(1)])
    qed (use i declined_ends [OF rest] in \<open>auto simp: Inr\<close>)
  qed simp
qed simp

section \<open>Guarantees of a server component\<close>

text \<open>A server with a static MD5 credential, TLS and middleware that forwards.\<close>

definition sample_server :: "bool \<Rightarrow> (StaticMd5ServerCredentialSession, unit, unit, StaticCredentialError, unit, unit, unit, unit) server_env" where
  "sample_server required = \<lparr>se_create = \<lparr>md5_username = [97], md5_password = [98], md5_salt = (1, 2, 3, 4)\<rparr>,
     se_start = static_md5_start, se_respond = static_md5_respond (\<lambda>username password salt. username @ password),
     se_pre_startup = (\<lambda>ctx st m. (m, st)), se_startup = (\<lambda>ctx st m. (m, st)), se_cancellation = (\<lambda>ctx st m. (m, st)),
     se_frontend = (\<lambda>ctx st m. (m, st)), se_backend = (\<lambda>ctx st m. (m, st)), se_tls_provider = Some (Inr ()),
     se_tls_required = required, se_resolve = (\<lambda>m ctx st. (Inr (), st)), se_defer_ready = False,
     se_max_frame_len = 1000, se_max_pre_startup_packet_len = 1000\<rparr>"

definition sample_start :: StartupMessage where
  "sample_start = \<lparr>startup_version = V3_0, startup_parameters = [([117], [97])]\<rparr>"

definition sample_accept :: "(unit, unit, (unit, StaticCredentialError, unit) RoutedAcceptError + (unit, unit, unit) ServerAccept) served exec" where
  "sample_accept = accept_routed (sample_server True) () (Inr [9]) [Inr (P_Startup sample_start)] [Inr P_SslRequest]
     [Inr (F_PasswordResponse [97, 98, 0])] \<lparr>ar_state = (), ar_flushes = [], ar_log = []\<rparr>"

lemma only_ok: "BackendMessage_to_frame m = Inr ok_frame \<Longrightarrow> m = B_Authentication Auth_Ok"
  using BackendMessage_to_frame_tag [of m ok_frame] auth_frame_not_ok
  by (cases m) (auto simp: ok_frame_def auth_frame_def)

lemma forwards_ok_sample: "forwards_ok (sample_server required)"
  by (simp add: forwards_ok_def sample_server_def only_ok)

lemmas accept_eval = eval_defs V3_0_def V3_2_def sample_server_def sample_start_def accept_routed_def accept_startup_def
  with_limits_frontend_def intercept_pre_startup_def flush_or_abort_def complete_auth_def
  validate_protocol_def authenticate_def authenticate_password_def send_request_def await_ok_def push_or_abort_def
  intercept_server_backend_def backend_frame_def static_md5_start_def static_md5_respond_def verify_md5_response_def request_md5_def
  transition_with_frame_def auth_frame_def receive_frontend_or_abort_def receive_password_def policy_respond_def
  complete_startup_def authentication_ok_def push_all_or_abort_def startup_ready_def begin_server_auth_def serve_log_def
  password_body_def

lemma sample_accepts:
  "case sample_accept of Done (Returned (Inr (Accepted_Session conn ctx m way)), rest, r) \<Rightarrow> ctx_identity ctx = Some () | _ \<Rightarrow> False"
  by (simp add: sample_accept_def accept_eval Let_def)



text \<open>
  C26. Under a policy that requires TLS, the server sends nothing but replies to encryption requests and the refusal
  before the handshake is complete, and every session it hands over carries the channel binding of that handshake.
\<close>

theorem tls_policy_enforced:
  assumes "se_tls_required env"
    and "accept_routed env peer handshake encrypted pre inbound r = Done d"
  shows "tls_first handshake r d"
  using assms by (auto simp: accept_routed_def accept_plaintext_tls_first split: sum.splits intro!: tls_first_none [where l = "[]"])

theorem tls_policy_enforced_witness:
  "\<exists>d conn ctx m way. sample_accept = Done d \<and> fst d = Returned (Inr (Accepted_Session conn ctx m way)) \<and>
    tls_first (Inr [9]) \<lparr>ar_state = (), ar_flushes = [], ar_log = []\<rparr> d"
proof -
  from sample_accepts obtain d conn ctx m way where d: "sample_accept = Done d" "fst d = Returned (Inr (Accepted_Session conn ctx m way))"
    by (auto split: exec.splits prod.splits poll.splits sum.splits ServerAccept.splits)
  moreover have "se_tls_required (sample_server True)" by (simp add: sample_server_def)
  ultimately show ?thesis using tls_policy_enforced [OF _ d(1) [unfolded sample_accept_def]] by blast
qed

text \<open>
  C27. Accepting a connection never panics, and comes to an end as soon as the transport reports an error or the end
  of the stream in each phase, whatever the client sends before and whatever policy, middleware and routing answer.
\<close>

theorem accept_terminates:
  assumes "Inl e \<in> set pre" and "Inl e' \<in> set encrypted" and "Inl e'' \<in> set inbound"
  shows "\<exists>result rest r'. accept_routed env peer handshake encrypted pre inbound r = Done (Returned result, rest, r') \<and> suffix rest inbound"
proof -
  have "ends inbound (accept_routed env peer handshake encrypted pre inbound r)"
    unfolding accept_routed_def using assms by (auto split: sum.splits intro: accept_plaintext_ends)
  then show ?thesis by (auto simp: ends_def split: exec.splits prod.splits poll.splits)
qed


theorem accept_terminates_witness:
  "\<exists>result rest r'. accept_routed (sample_server False) () (Inr [9]) [Inl (IoError UnexpectedEof [])] [Inr P_SslRequest, Inl (IoError UnexpectedEof [])]
    [Inl (IoError UnexpectedEof [])] \<lparr>ar_state = (), ar_flushes = [], ar_log = []\<rparr> = Done (Returned result, rest, r') \<and>
    suffix rest [Inl (IoError UnexpectedEof [])]"
  by (rule accept_terminates [of "IoError UnexpectedEof []" _ "IoError UnexpectedEof []" _ "IoError UnexpectedEof []"]) simp_all
end
