(* ===== verification/Login.thy ===== *)
theory Login
  imports Client_Establish_Laws Server_Accept_Laws
begin

text \<open>
  Client and server component against each other: each reads the messages that the other's frames decode to.
\<close>

section \<open>A conversation\<close>

fun sent_frames :: "client_event list \<Rightarrow> Frame list" where
  "sent_frames [] = []"
| "sent_frames (Sent_frame f # log) = f # sent_frames log"
| "sent_frames (_ # log) = sent_frames log"

fun sent_packets :: "client_event list \<Rightarrow> bytes list" where
  "sent_packets [] = []"
| "sent_packets (Sent_packet p # log) = p # sent_packets log"
| "sent_packets (_ # log) = sent_packets log"

fun pushed_frames :: "'id accept_event list \<Rightarrow> Frame list" where
  "pushed_frames [] = []"
| "pushed_frames (Ev_Pushed f # log) = f # pushed_frames log"
| "pushed_frames (_ # log) = pushed_frames log"

text \<open>A packet as the server's buffer hands it out.\<close>

definition read_packet :: "nat \<Rightarrow> bytes \<Rightarrow> io_error + PreStartupMessage" where
  "read_packet limit packet = (case fst (decode_pre_startup_with_limit packet limit) of
     Inl error \<Rightarrow> Inl error
   | Inr None \<Rightarrow> Inl (IoError UnexpectedEof [])
   | Inr (Some message) \<Rightarrow> Inr message)"

text \<open>
  The client has run on the script \<open>inbound_c\<close> and the server on the scripts \<open>pre\<close> and \<open>inbound_s\<close>, in plaintext: what one
  has read is what the other has sent.
\<close>

definition connected_runs :: "nat \<Rightarrow> client_event list \<Rightarrow> 'id accept_event list \<Rightarrow> BackendMessage script
    \<Rightarrow> PreStartupMessage script \<Rightarrow> FrontendMessage script \<Rightarrow> bool" where
  "connected_runs limit client_log server_log inbound_c pre inbound_s = (
     inbound_c = map Backend_decode (pushed_frames server_log) \<and>
     pre = map (read_packet limit) (sent_packets client_log) \<and>
     inbound_s = map Frontend_decode (sent_frames client_log))"

section \<open>Static MD5 credentials on both sides\<close>

definition md5_client :: "md5_hash \<Rightarrow> bytes \<Rightarrow> bytes \<Rightarrow> nat
    \<Rightarrow> (unit StaticClientCredentialSession, unit, StaticCredentialError, unit) client_env" where
  "md5_client digest username secret limit =
     \<lparr>env_begin = Inr \<lparr>static_username = username, static_password = secret, static_scram = None\<rparr>,
      env_respond = static_respond \<lparr>md5_response = digest, scram_new = (\<lambda>_. ()), scram_message = (\<lambda>_. []),
        scram_update = (\<lambda>s m. (Inr (), s)), scram_finish = (\<lambda>s m. (Inr (), s))\<rparr>,
      env_authenticated = (\<lambda>_. Inr ()), env_frontend = (\<lambda>st m. (m, st)), env_backend = (\<lambda>st m. (m, st)),
      env_max_frame_len = limit\<rparr>"

definition md5_server :: "md5_hash \<Rightarrow> bytes \<Rightarrow> bytes \<Rightarrow> u8 \<times> u8 \<times> u8 \<times> u8 \<Rightarrow> nat \<Rightarrow> nat
    \<Rightarrow> (StaticMd5ServerCredentialSession, unit, unit, StaticCredentialError, unit, unit, unit, unit) server_env" where
  "md5_server digest username secret salt limit packet_limit =
     \<lparr>se_create = \<lparr>md5_username = username, md5_password = secret, md5_salt = salt\<rparr>,
      se_start = static_md5_start, se_respond = static_md5_respond digest,
      se_pre_startup = (\<lambda>ctx st m. (m, st)), se_startup = (\<lambda>ctx st m. (m, st)), se_cancellation = (\<lambda>ctx st m. (m, st)),
      se_frontend = (\<lambda>ctx st m. (m, st)), se_backend = (\<lambda>ctx st m. (m, st)), se_tls_provider = None,
      se_tls_required = False, se_resolve = (\<lambda>m ctx st. (Inr (), st)), se_defer_ready = False,
      se_max_frame_len = limit, se_max_pre_startup_packet_len = packet_limit\<rparr>"

definition client_start :: "(unit StaticClientCredentialSession, unit) client_run" where
  "client_start = \<lparr>cr_policy = \<lparr>static_username = [], static_password = [], static_scram = None\<rparr>,
     cr_state = (), cr_flushes = [], cr_log = []\<rparr>"

definition server_start :: "(unit, unit) accept_run" where
  "server_start = \<lparr>ar_state = (), ar_flushes = [], ar_log = []\<rparr>"

lemma encode_fits:
  assumes "length (frame_body f) + 5 \<le> limit" and "limit \<le> MAX_PROTOCOL_FRAME_LEN"
  shows "\<exists>codec out. with_max_frame_len limit = Inr codec \<and> PgCodec_encode codec f [] = Inr out"
  using assms PgCodec_encode_iff [of "\<lparr>max_frame_len = limit\<rparr>" f "[]"]
  by (auto simp: with_max_frame_len_def codec_wf_def fits_def)

lemma push_fits:
  assumes "length (frame_body f) + 5 \<le> se_max_frame_len env" and "se_max_frame_len env \<le> MAX_PROTOCOL_FRAME_LEN"
  shows "push_or_abort env f inbound r = (Returned (Inr ()), inbound, serve_log r (Ev_Pushed f))"
  using encode_fits [OF assms] by (auto simp: push_or_abort_def)

definition md5_requested :: "u8 \<times> u8 \<times> u8 \<times> u8 \<Rightarrow> Frame" where
  "md5_requested salt = (case salt of (a, b, c, d) \<Rightarrow> frame 82 [0, 0, 0, 5, a, b, c, d])"

lemma md5_requested_encodes: "BackendMessage_to_frame (B_Authentication (Auth_Md5Password salt)) = Inr (md5_requested salt)"
proof -
  obtain a b c d where "salt = (a, b, c, d)" by (rule prod_cases4)
  then show ?thesis by (simp add: md5_requested_def eval_defs)
qed

lemma md5_requested_decodes: "Backend_decode (md5_requested salt) = Inr (B_Authentication (Auth_Md5Password salt))"
  using md5_requested_encodes [of salt] by (simp add: Backend_decode_iff)

lemma md5_requested_length [simp]: "length (frame_body (md5_requested salt)) = 8"
  by (cases salt rule: prod_cases4) (simp add: md5_requested_def)

definition ready_frame :: Frame where
  "ready_frame = frame 90 [73]"

lemma ready_frame_encodes: "BackendMessage_to_frame (B_ReadyForQuery Idle) = Inr ready_frame"
  by (simp add: ready_frame_def eval_defs)

lemma password_decodes: "Frontend_decode (frame 112 body) = Inr (F_PasswordResponse body)"
  by (simp add: Frontend_decode_iff eval_defs)

lemmas client_eval = establish_client_session_def startup_def flush_run_def log_event_def observe_def ask_def respond_with_def
  intercept_auth_response_def await_outcome_def auth_ok_offer_def offer_ready_def Let_def Demux_default_def md5_client_def
  client_start_def complete_password_def password_def

text \<open>The client on a server that asks for MD5, and goes on when it gets an outcome.\<close>

lemma md5_client_runs:
  fixes digest :: md5_hash
  assumes "StartupMessage_encode message = Inr packet"
    and "0 \<notin> set (digest username secret salt)" and "length (digest username secret salt) + 6 \<le> limit"
    and "limit \<le> MAX_PROTOCOL_FRAME_LEN"
  defines "log \<equiv> [Sent_packet packet, Observed (B_Authentication (Auth_Md5Password salt)),
      Answered (Challenge_Md5Password salt) (Response_Password (digest username secret salt)),
      Sent_frame (frame (byte CHR ''p'') (digest username secret salt @ [0]))]"
  shows "\<exists>r. establish_client_session (md5_client digest username secret limit) message
        [Inr (B_Authentication (Auth_Md5Password salt))] client_start = Done (Pending, [], r) \<and> cr_log r = log"
    and "\<exists>c d r. establish_client_session (md5_client digest username secret limit) message
        [Inr (B_Authentication (Auth_Md5Password salt)), Inr (B_Authentication Auth_Ok), Inr (B_ReadyForQuery Idle)] client_start =
          Done (Returned (Inr (c, (), None, d)), [], r) \<and> tc_phase c = Au_Ready \<and>
        cr_log r = log @ [Observed (B_Authentication Auth_Ok), Observed (B_ReadyForQuery Idle)]"
  using assms encode_fits [of "frame (byte CHR ''p'') (digest username secret salt @ [0])" limit]
  by (auto simp: client_eval push_and_flush_def)

lemmas server_eval = accept_routed_def with_limits_frontend_def with_max_frame_len_def md5_server_def server_start_def
  intercept_pre_startup_def accept_startup_def complete_auth_def validate_protocol_def V3_2_def static_md5_start_def
  authenticate_def authenticate_password_def request_md5_def send_request_def transition_with_frame_def auth_frame_def
  intercept_server_backend_def md5_requested_decodes push_fits backend_frame_def await_ok_def flush_or_abort_def
  receive_frontend_or_abort_def receive_password_def password_body_def policy_respond_def static_md5_respond_def
  verify_md5_response_def complete_startup_def authentication_ok_def push_all_or_abort_def startup_ready_def
  begin_server_auth_def serve_log_def Let_def ok_frame_def ready_frame_def

text \<open>The server on a client that answers with a password.\<close>

lemma md5_server_runs:
  fixes digest :: md5_hash and username secret :: bytes and handshake :: "io_error + bytes"
    and salt :: "u8 \<times> u8 \<times> u8 \<times> u8"
  assumes "major (startup_version message) = 3" and "0 \<notin> set answer" and "13 \<le> limit" and "limit \<le> MAX_PROTOCOL_FRAME_LEN"
    and "8 \<le> packet_limit" and "packet_limit \<le> i32_max"
  defines "d \<equiv> accept_routed (md5_server digest username secret salt limit packet_limit) () handshake [] [Inr (P_Startup message)]
      [Inr (F_PasswordResponse (answer @ [0]))] server_start"
  shows "answer = digest username secret salt \<Longrightarrow> \<exists>conn ctx r. d = Done (Returned (Inr (Accepted_Session conn ctx message ())), [], r) \<and>
        tc_phase conn = Sv_Ready \<and> ctx_identity ctx = Some () \<and> pushed_frames (ar_log r) = [md5_requested salt, ok_frame, ready_frame]"
    and "answer \<noteq> digest username secret salt \<Longrightarrow>
      \<exists>r. d = Done (Returned (Inl (Routed_Accept (Accept_Authentication AuthenticationFailed))), [], r) \<and>
        pushed_frames (ar_log r) = [md5_requested salt]"
  using assms md5_requested_encodes [of salt] ok_frame_encodes ready_frame_encodes
  by (auto simp: server_eval)

section \<open>Both together\<close>

lemma read_startup:
  assumes "StartupMessage_encode message = Inr packet" and "startup_wf message" and "major (startup_version message) = 3"
    and "length packet \<le> limit" and "limit \<le> i32_max"
  shows "read_packet limit packet = Inr (P_Startup message)"
proof -
  have p: "to_packet (P_Startup message) = Inr packet" using assms(1) by simp
  have "version_code (startup_version message) \<noteq> CANCEL_REQUEST_CODE"
  proof
    assume "version_code (startup_version message) = CANCEL_REQUEST_CODE"
    then have "of_be32 (be16 3 @ be16 (minor (startup_version message))) = CANCEL_REQUEST_CODE"
      by (simp add: version_code_def assms(3))
    then have "be16 3 @ be16 (minor (startup_version message)) = be32 CANCEL_REQUEST_CODE"
      using be32_of_be32 [of "be16 3 @ be16 (minor (startup_version message))"] by simp
    then show False by (simp add: CANCEL_REQUEST_CODE_def be16_def be32_def to_be_numeral)
  qed
  with assms(2) have "decode_packet packet = Inr (Some (P_Startup message))"
    by (intro decode_packet_to_packet [OF p]) simp
  with decode_pre_startup_packet [OF p, of limit "[]"] to_packet_length(1) [OF p] assms(4,5) show ?thesis
    by (simp add: read_packet_def)
qed

text \<open>
  C28. A client and a server with static MD5 credentials, connected to each other, both come to a session when the
  digest the client computes from its credentials and the server's salt is the one the server expects; otherwise the
  server refuses with an authentication failure, having sent nothing but the request, and the client has no session.
  The digest of the crate is documented to be a printable string.
\<close>

theorem md5_login:
  fixes digest :: md5_hash
  assumes "StartupMessage_encode message = Inr packet" and "startup_wf message" and "major (startup_version message) = 3"
    and "length packet \<le> packet_limit" and "packet_limit \<le> i32_max"
    and "0 \<notin> set (digest username secret salt)" and "length (digest username secret salt) + 6 \<le> limit"
    and "13 \<le> limit" and "limit \<le> MAX_PROTOCOL_FRAME_LEN"
  shows "\<exists>inbound_c pre inbound_s c_out crun s_out srun.
    connected_runs packet_limit (cr_log crun) (ar_log srun) inbound_c pre inbound_s \<and>
    establish_client_session (md5_client digest username secret limit) message inbound_c client_start = Done (c_out, [], crun) \<and>
    accept_routed (md5_server digest username' secret' salt limit packet_limit) () handshake [] pre inbound_s server_start =
      Done (s_out, [], srun) \<and>
    (if digest username secret salt = digest username' secret' salt
     then (\<exists>c d conn ctx. c_out = Returned (Inr (c, (), None, d)) \<and> tc_phase c = Au_Ready \<and>
       s_out = Returned (Inr (Accepted_Session conn ctx message ())) \<and> tc_phase conn = Sv_Ready \<and> ctx_identity ctx = Some ())
     else c_out = Pending \<and> s_out = Returned (Inl (Routed_Accept (Accept_Authentication AuthenticationFailed))) \<and>
       pushed_frames (ar_log srun) = [md5_requested salt])"
proof -
  note client = md5_client_runs [where digest = digest and username = username and secret = secret and salt = salt and limit = limit, OF assms(1,6,7,9)]
  have packet: "8 \<le> packet_limit" "read_packet packet_limit packet = Inr (P_Startup message)"
    using to_packet_length(1) [of "P_Startup message" packet] assms(1-5) read_startup by auto
  note server = md5_server_runs [where digest = digest and username = username' and secret = secret' and salt = salt and handshake = handshake,
      OF assms(3,6,8,9) packet(1) assms(5)]
  have ok: "Backend_decode ok_frame = Inr (B_Authentication Auth_Ok)" "Backend_decode ready_frame = Inr (B_ReadyForQuery Idle)"
    using ok_frame_encodes ready_frame_encodes by (auto simp: Backend_decode_iff)
  note script = connected_runs_def md5_requested_decodes password_decodes ok packet(2)
  show ?thesis
  proof (cases "digest username secret salt = digest username' secret' salt")
    case True
    from client(2) obtain c d crun where c: "establish_client_session (md5_client digest username secret limit) message
        [Inr (B_Authentication (Auth_Md5Password salt)), Inr (B_Authentication Auth_Ok), Inr (B_ReadyForQuery Idle)] client_start =
          Done (Returned (Inr (c, (), None, d)), [], crun)" "tc_phase c = Au_Ready"
      "sent_packets (cr_log crun) = [packet]" "sent_frames (cr_log crun) = [frame (byte CHR ''p'') (digest username secret salt @ [0])]"
      by auto
    from server(1) [OF True] obtain conn ctx srun where s: "accept_routed (md5_server digest username' secret' salt limit packet_limit) () handshake []
        [Inr (P_Startup message)] [Inr (F_PasswordResponse (digest username secret salt @ [0]))] server_start =
          Done (Returned (Inr (Accepted_Session conn ctx message ())), [], srun)" "tc_phase conn = Sv_Ready" "ctx_identity ctx = Some ()"
      "pushed_frames (ar_log srun) = [md5_requested salt, ok_frame, ready_frame]" by auto
    show ?thesis
      by (rule exI [of _ "[Inr (B_Authentication (Auth_Md5Password salt)), Inr (B_Authentication Auth_Ok), Inr (B_ReadyForQuery Idle)]"],
          rule exI [of _ "[Inr (P_Startup message)]"], rule exI [of _ "[Inr (F_PasswordResponse (digest username secret salt @ [0]))]"],
          rule exI [of _ "Returned (Inr (c, (), None, d))"], rule exI [of _ crun],
          rule exI [of _ "Returned (Inr (Accepted_Session conn ctx message ()))"], rule exI [of _ srun])
        (use c s True in \<open>simp add: script\<close>)
  next
    case False
    from client(1) obtain crun where c: "establish_client_session (md5_client digest username secret limit) message
        [Inr (B_Authentication (Auth_Md5Password salt))] client_start = Done (Pending, [], crun)"
      "sent_packets (cr_log crun) = [packet]" "sent_frames (cr_log crun) = [frame (byte CHR ''p'') (digest username secret salt @ [0])]"
      by auto
    from server(2) [OF False] obtain srun where s: "accept_routed (md5_server digest username' secret' salt limit packet_limit) () handshake []
        [Inr (P_Startup message)] [Inr (F_PasswordResponse (digest username secret salt @ [0]))] server_start =
          Done (Returned (Inl (Routed_Accept (Accept_Authentication AuthenticationFailed))), [], srun)"
      "pushed_frames (ar_log srun) = [md5_requested salt]" by auto
    show ?thesis
      by (rule exI [of _ "[Inr (B_Authentication (Auth_Md5Password salt))]"],
          rule exI [of _ "[Inr (P_Startup message)]"], rule exI [of _ "[Inr (F_PasswordResponse (digest username secret salt @ [0]))]"],
          rule exI [of _ Pending], rule exI [of _ crun],
          rule exI [of _ "Returned (Inl (Routed_Accept (Accept_Authentication AuthenticationFailed)))"], rule exI [of _ srun])
        (use c s False in \<open>simp add: script\<close>)
  qed
qed

theorem md5_login_witness:
  "\<exists>inbound_c pre inbound_s c d crun conn ctx srun.
    connected_runs 1000 (cr_log crun) (ar_log srun) inbound_c pre inbound_s \<and>
    establish_client_session (md5_client (\<lambda>username secret salt. username @ secret) [97] [98] 1000) sample_start inbound_c client_start =
      Done (Returned (Inr (c, (), None, d)), [], crun) \<and>
    accept_routed (md5_server (\<lambda>username secret salt. username @ secret) [97] [98] (1, 2, 3, 4) 1000 1000) () (Inr []) [] pre inbound_s
      server_start = Done (Returned (Inr (Accepted_Session conn ctx sample_start ())), [], srun)"
proof -
  obtain packet where "StartupMessage_encode sample_start = Inr packet" "length packet \<le> 1000"
    by (simp add: sample_start_def V3_0_def eval_defs)
  moreover have "startup_wf sample_start" "major (startup_version sample_start) = 3"
    by (simp_all add: sample_start_def V3_0_def startup_wf_def btree_wf_def)
  moreover have "1000 \<le> i32_max" "1000 \<le> MAX_PROTOCOL_FRAME_LEN"
    by (simp_all add: i32_max_def MAX_PROTOCOL_FRAME_LEN_def)
  ultimately show ?thesis
    using md5_login [of sample_start packet 1000 "\<lambda>username secret salt. username @ secret" "[97]" "[98]" "(1, 2, 3, 4)" 1000
        "[97]" "[98]" "Inr []"]
    by simp blast
qed

end
