(* ===== verification/Intermediary.thy ===== *)
theory Intermediary
  imports Pipeline Backend_Hold Scripts
begin

text \<open>
  \<open>src/intermediary_component.rs\<close>: the forwarding loop of an established intermediary, between the transport to the
  client (downstream) and the one to PostgreSQL (upstream).  The middleware of the two roles and of the boundary are
  parameters, functions of the state of the application.  A transport is a script of received messages, whose end is
  a pending read, and the results of its flushes; the log lists what went out.
\<close>

section \<open>Decisions of the boundary\<close>

datatype FrontendMiddlewareOutput =
    Frontend_Forward FrontendMessage
  | Frontend_ForwardThenFlush FrontendMessage
  | Frontend_Suppress FrontendMessage
  | Frontend_Respond FrontendMessage "BackendMessage list"

datatype BackendMiddlewareOutput =
    Backend_Forward BackendMessage | Backend_Expand "BackendMessage list" | Backend_Suppress BackendMessage | Backend_Hold

datatype BackendBatchOutput = KeepHolding | ReplaceOneToOne "BackendMessage list"

datatype BackendFlushReason = Reason_Capacity | Reason_ProtocolBarrier | Reason_Explicit | Reason_Teardown

record BackendHoldLimits =
  max_messages :: nat
  max_bytes :: nat

definition BackendHoldLimits_new :: "nat \<Rightarrow> nat \<Rightarrow> BackendHoldLimits option" where
  "BackendHoldLimits_new messages bytes =
     (if messages = 0 \<or> bytes = 0 then None else Some \<lparr>max_messages = messages, max_bytes = bytes\<rparr>)"

datatype ProtocolTransitionDirection = Direction_Frontend | Direction_Backend

record ProtocolTransitionObservation =
  observed_transition :: "(backend_state, backend_event) RuntimeTransition"
  observed_direction :: ProtocolTransitionDirection
  observed_operation :: "OperationId option"

definition is_backend_batch_barrier :: "BackendMessage \<Rightarrow> bool" where
  "is_backend_batch_barrier message = (case message of
     B_CommandComplete _ \<Rightarrow> True
   | B_PortalSuspended \<Rightarrow> True
   | B_EmptyQueryResponse \<Rightarrow> True
   | B_ErrorResponse _ \<Rightarrow> True
   | B_ReadyForQuery _ \<Rightarrow> True
   | B_CopyInResponse _ \<Rightarrow> True
   | B_CopyOutResponse _ \<Rightarrow> True
   | B_CopyBothResponse _ \<Rightarrow> True
   | B_CopyDone \<Rightarrow> True
   | B_NoticeResponse _ \<Rightarrow> True
   | B_NotificationResponse _ _ _ \<Rightarrow> True
   | B_ParameterStatus _ _ \<Rightarrow> True
   | B_BackendKeyData _ _ \<Rightarrow> True
   | _ \<Rightarrow> False)"

section \<open>The connection\<close>

record PreparedFrontendForwarding =
  pf_source :: FrontendMessage
  pf_messages :: "FrontendMessage list"

record PendingLocalResponses =
  local_operation :: OperationId
  local_messages :: "BackendMessage list"

record ('st, 'e) intermediary_env =
  ie_down_frontend :: "'st \<Rightarrow> FrontendMessage \<Rightarrow> FrontendMessage \<times> 'st"
  ie_down_backend :: "'st \<Rightarrow> BackendMessage \<Rightarrow> BackendMessage \<times> 'st"
  ie_up_frontend :: "'st \<Rightarrow> FrontendMessage \<Rightarrow> FrontendMessage \<times> 'st"
  ie_up_backend :: "'st \<Rightarrow> BackendMessage \<Rightarrow> BackendMessage \<times> 'st"
  ie_frontend_operation :: "'st \<Rightarrow> OperationId \<Rightarrow> FrontendMessage \<Rightarrow> ('e + FrontendMiddlewareOutput) \<times> 'st"
  ie_backend_operation :: "'st \<Rightarrow> OperationId option \<Rightarrow> BackendMessage \<Rightarrow> ('e + BackendMiddlewareOutput) \<times> 'st"
  ie_flush_backend :: "'st \<Rightarrow> (OperationId option \<times> BackendMessage) list \<Rightarrow> nat \<Rightarrow> BackendFlushReason
    \<Rightarrow> ('e + BackendBatchOutput) \<times> 'st"
  ie_observe :: "'st \<Rightarrow> ProtocolTransitionObservation \<Rightarrow> 'st"
  ie_hold_limits :: "BackendHoldLimits option"
  ie_down_codec :: PgCodec
  ie_up_codec :: PgCodec

datatype forward_event = Sent_upstream FrontendMessage | Sent_downstream BackendMessage

record 'st IntermediaryConnection =
  im_state :: 'st
  im_pipeline :: Pipeline
  im_pending_frontend :: "PreparedFrontendForwarding option"
  im_hold :: BackendHold
  im_pending_local :: "PendingLocalResponses list"
  im_down_script :: "FrontendMessage script"
  im_up_script :: "BackendMessage script"
  im_down_flushes :: "io_error option list"
  im_up_flushes :: "io_error option list"
  im_log :: "forward_event list"

text \<open>A connection as establishment leaves it.\<close>

definition IntermediaryConnection_new :: "'st \<Rightarrow> PipelinePolicy \<Rightarrow> 'st IntermediaryConnection" where
  "IntermediaryConnection_new st policy = \<lparr>im_state = st, im_pipeline = Pipeline_new policy, im_pending_frontend = None,
     im_hold = BackendHold_default, im_pending_local = [], im_down_script = [], im_up_script = [],
     im_down_flushes = [], im_up_flushes = [], im_log = []\<rparr>"

datatype BackendBatchProjectionError = Batch_Cardinality nat nat | Batch_IllegalSource | Batch_IllegalReplacement | Batch_DifferentSpan

fun batch_error :: "BackendSequenceError \<Rightarrow> BackendBatchProjectionError" where
  "batch_error (Cardinality expected actual) = Batch_Cardinality expected actual"
| "batch_error (Source _) = Batch_IllegalSource"
| "batch_error (Replacement _) = Batch_IllegalReplacement"
| "batch_error DifferentSpan = Batch_DifferentSpan"

datatype 'e ForwardError =
    Forward_Io io_error
  | Forward_Frontend FrontendProjectionError
  | Forward_Backend BackendProjectionError
  | Forward_Deferred BackendMessage
  | Forward_EmptyExpansion BackendMessage
  | Forward_BackendHoldingDisabled BackendMessage
  | Forward_BackendHoldCapacity
  | Forward_BackendHoldRefused
  | Forward_BackendBatch BackendBatchProjectionError "BackendMessage list"
  | Forward_Middleware 'e

datatype FrontendForwarding =
    Frontend_Forwarded FrontendMessage
  | Frontend_Expanded FrontendMessage "FrontendMessage list"
  | Frontend_Suppressed FrontendMessage
  | Frontend_LocallyHandled FrontendMessage

datatype BackendForwarding =
    Backend_Forwarded BackendMessage
  | Backend_Expanded BackendMessage "BackendMessage list"
  | Backend_Suppressed BackendMessage
  | Backend_Held

datatype BackendBatchForwarding = Batch_Released "BackendMessage list" | Batch_Kept | Batch_Empty

section \<open>Running\<close>

text \<open>A future over the connection, \<open>Panic\<close> when an assertion fails in it, and \<open>.await?\<close>.\<close>

type_synonym ('st, 'e, 'a) forwarding =
  "'st IntermediaryConnection \<Rightarrow> (('e ForwardError + 'a) poll \<times> 'st IntermediaryConnection) exec"

definition ok :: "'a \<Rightarrow> ('st, 'e, 'a) forwarding" where
  "ok x s = Done (Returned (Inr x), s)"

definition err :: "'e ForwardError \<Rightarrow> ('st, 'e, 'a) forwarding" where
  "err e s = Done (Returned (Inl e), s)"

definition and_then :: "('st, 'e, 'a) forwarding \<Rightarrow> ('a \<Rightarrow> ('st, 'e, 'b) forwarding) \<Rightarrow> ('st, 'e, 'b) forwarding" where
  "and_then f k s = (case f s of
     Panic \<Rightarrow> Panic
   | Done (Pending, s) \<Rightarrow> Done (Pending, s)
   | Done (Returned (Inl e), s) \<Rightarrow> Done (Returned (Inl e), s)
   | Done (Returned (Inr x), s) \<Rightarrow> k x s)"

text \<open>A function of the middleware on the state, and one of the ledger.\<close>

definition on_state :: "('st \<Rightarrow> 'a \<times> 'st) \<Rightarrow> ('st, 'e, 'a) forwarding" where
  "on_state g s = (case g (im_state s) of (x, st) \<Rightarrow> Done (Returned (Inr x), s\<lparr>im_state := st\<rparr>))"

definition boundary :: "('st \<Rightarrow> ('e + 'a) \<times> 'st) \<Rightarrow> ('st, 'e, 'a) forwarding" where
  "boundary g s = (case g (im_state s) of (x, st) \<Rightarrow> Done (Returned (map_sum Forward_Middleware id x), s\<lparr>im_state := st\<rparr>))"

text \<open>\<open>send_wire_raw\<close> of either core: the frame is pushed and the buffer flushed.\<close>

definition send_downstream :: "('st, 'e) intermediary_env \<Rightarrow> BackendMessage \<Rightarrow> ('st, 'e, unit) forwarding" where
  "send_downstream env message s = (case BackendMessage_to_frame message of
     Inl error \<Rightarrow> Done (Returned (Inl (Forward_Io error)), s)
   | Inr f \<Rightarrow> (case PgCodec_encode (ie_down_codec env) f [] of
       Inl error \<Rightarrow> Done (Returned (Inl (Forward_Io error)), s)
     | Inr _ \<Rightarrow> (let s = s\<lparr>im_log := im_log s @ [Sent_downstream message]\<rparr> in
         case im_down_flushes s of
           [] \<Rightarrow> Done (Returned (Inr ()), s)
         | None # rest \<Rightarrow> Done (Returned (Inr ()), s\<lparr>im_down_flushes := rest\<rparr>)
         | Some error # rest \<Rightarrow> Done (Returned (Inl (Forward_Io error)), s\<lparr>im_down_flushes := rest\<rparr>))))"

definition send_upstream :: "('st, 'e) intermediary_env \<Rightarrow> FrontendMessage \<Rightarrow> ('st, 'e, unit) forwarding" where
  "send_upstream env message s = (case FrontendMessage_to_frame message of
     Inl error \<Rightarrow> Done (Returned (Inl (Forward_Io error)), s)
   | Inr f \<Rightarrow> (case PgCodec_encode (ie_up_codec env) f [] of
       Inl error \<Rightarrow> Done (Returned (Inl (Forward_Io error)), s)
     | Inr _ \<Rightarrow> (let s = s\<lparr>im_log := im_log s @ [Sent_upstream message]\<rparr> in
         case im_up_flushes s of
           [] \<Rightarrow> Done (Returned (Inr ()), s)
         | None # rest \<Rightarrow> Done (Returned (Inr ()), s\<lparr>im_up_flushes := rest\<rparr>)
         | Some error # rest \<Rightarrow> Done (Returned (Inl (Forward_Io error)), s\<lparr>im_up_flushes := rest\<rparr>))))"

definition receive_downstream :: "('st, 'e, FrontendMessage) forwarding" where
  "receive_downstream s = (case im_down_script s of
     [] \<Rightarrow> Done (Pending, s)
   | Inl error # rest \<Rightarrow> Done (Returned (Inl (Forward_Io error)), s\<lparr>im_down_script := rest\<rparr>)
   | Inr message # rest \<Rightarrow> Done (Returned (Inr message), s\<lparr>im_down_script := rest\<rparr>))"

definition receive_upstream :: "('st, 'e, BackendMessage) forwarding" where
  "receive_upstream s = (case im_up_script s of
     [] \<Rightarrow> Done (Pending, s)
   | Inl error # rest \<Rightarrow> Done (Returned (Inl (Forward_Io error)), s\<lparr>im_up_script := rest\<rparr>)
   | Inr message # rest \<Rightarrow> Done (Returned (Inr message), s\<lparr>im_up_script := rest\<rparr>))"

section \<open>Local responses\<close>

definition local_size :: "'st IntermediaryConnection \<Rightarrow> nat" where
  "local_size s = sum_list (map (\<lambda>p. Suc (length (local_messages p))) (im_pending_local s))"

lemma send_downstream_local: "send_downstream env m s = Done (x, s') \<Longrightarrow> im_pending_local s' = im_pending_local s"
  by (auto simp: send_downstream_def Let_def split: sum.splits list.splits option.splits)

function flush_local_responses :: "('st, 'e) intermediary_env \<Rightarrow> ('st, 'e, unit) forwarding" where
  "flush_local_responses env s = (case im_pending_local s of
     [] \<Rightarrow> ok () s
   | queued # rest \<Rightarrow> (case local_messages queued of
       [] \<Rightarrow> flush_local_responses env (s\<lparr>im_pending_local := rest\<rparr>)
     | message # messages \<Rightarrow>
         let s = s\<lparr>im_pending_local := queued\<lparr>local_messages := messages\<rparr> # rest\<rparr> in
         (case try_emit_local (im_pipeline s) (local_operation queued) message of
            Panic \<Rightarrow> Panic
          | Done (Inl error, p) \<Rightarrow> err (Forward_Backend error) (s\<lparr>im_pipeline := p\<rparr>)
          | Done (Inr (Deferred message), p) \<Rightarrow>
              ok () (s\<lparr>im_pipeline := p, im_pending_local := queued\<lparr>local_messages := message # messages\<rparr> # rest\<rparr>)
          | Done (Inr (Emit message), p) \<Rightarrow>
              (case send_downstream env message (s\<lparr>im_pipeline := p\<rparr>) of
                 Done (Returned (Inr _), s) \<Rightarrow> flush_local_responses env s
               | Done (Returned (Inl e), s) \<Rightarrow> err e s
               | Done (Pending, s) \<Rightarrow> Done (Pending, s)
               | Panic \<Rightarrow> Panic))))"
  by pat_completeness auto
termination
  by (relation "measure (\<lambda>(env, s). local_size s)") (auto simp: local_size_def dest!: send_downstream_local)

declare flush_local_responses.simps [simp del]

section \<open>Messages of the client\<close>

definition observe_transition :: "('st, 'e) intermediary_env \<Rightarrow> (backend_state, backend_event) RuntimeTransition option
    \<Rightarrow> ProtocolTransitionDirection \<Rightarrow> OperationId option \<Rightarrow> ('st, 'e, unit) forwarding" where
  "observe_transition env moved direction operation = (case moved of
     None \<Rightarrow> ok ()
   | Some t \<Rightarrow> on_state (\<lambda>st. ((), ie_observe env st
       \<lparr>observed_transition = t, observed_direction = direction, observed_operation = operation\<rparr>)))"

fun send_items :: "('st, 'e) intermediary_env \<Rightarrow> FrontendSequenceItem list \<Rightarrow> FrontendMessage list
    \<Rightarrow> ('st, 'e, FrontendMessage list) forwarding" where
  "send_items env [] messages = ok messages"
| "send_items env (item # items) messages = (case into_action (item_admission item) of
     Action_Forward oid message \<Rightarrow>
       and_then (observe_transition env (item_transition item) Direction_Frontend (Some oid)) (\<lambda>_.
       and_then (send_upstream env message) (\<lambda>_. send_items env items (messages @ [message])))
   | Action_Discard _ \<Rightarrow> send_items env items messages)"

definition forward_prepared_frontend :: "('st, 'e) intermediary_env \<Rightarrow> PreparedFrontendForwarding
    \<Rightarrow> ('st, 'e, FrontendForwarding) forwarding" where
  "forward_prepared_frontend env prepared s =
     (case prepare_frontend_sequence (im_pipeline s) (pf_messages prepared) Forward of
        Panic \<Rightarrow> Panic
      | Done (Inl error) \<Rightarrow> err (Forward_Frontend error) (s\<lparr>im_pending_frontend := Some prepared\<rparr>)
      | Done (Inr projection) \<Rightarrow> (case commit_frontend_sequence (im_pipeline s) projection of (items, p) \<Rightarrow>
          and_then (send_items env items []) (\<lambda>messages.
            if messages = [] then ok (Frontend_Suppressed (pf_source prepared))
            else if length (pf_messages prepared) > 1 then ok (Frontend_Expanded (pf_source prepared) messages)
            else ok (Frontend_Forwarded (last messages))) (s\<lparr>im_pipeline := p\<rparr>)))"

fun intercept_responses :: "('st, 'e) intermediary_env \<Rightarrow> BackendMessage list \<Rightarrow> ('st, 'e, BackendMessage list) forwarding" where
  "intercept_responses env [] = ok []"
| "intercept_responses env (message # messages) =
     and_then (on_state (\<lambda>st. ie_down_backend env st message)) (\<lambda>message.
     and_then (intercept_responses env messages) (\<lambda>messages. ok (message # messages)))"

text \<open>A \<open>Respond\<close> decision; the panic is the \<open>unreachable!\<close> for a local operation that would be forwarded.\<close>

definition respond_locally :: "('st, 'e) intermediary_env \<Rightarrow> FrontendMessage \<Rightarrow> BackendMessage list
    \<Rightarrow> ('st, 'e, FrontendForwarding) forwarding" where
  "respond_locally env request responses s = (case accept_frontend (im_pipeline s) request Local of
     Panic \<Rightarrow> Panic
   | Done (Inl error, p) \<Rightarrow> err (Forward_Frontend error) (s\<lparr>im_pipeline := p\<rparr>)
   | Done (Inr admission, p) \<Rightarrow> (case into_action admission of
       Action_Forward _ _ \<Rightarrow> Panic
     | Action_Discard oid \<Rightarrow>
         and_then (intercept_responses env responses) (\<lambda>messages s.
           and_then (flush_local_responses env) (\<lambda>_. ok (Frontend_LocallyHandled request))
             (s\<lparr>im_pending_local := im_pending_local s @ [\<lparr>local_operation = oid, local_messages = messages\<rparr>]\<rparr>))
           (s\<lparr>im_pipeline := p\<rparr>)))"

definition process_frontend :: "('st, 'e) intermediary_env \<Rightarrow> FrontendMessage \<Rightarrow> ('st, 'e, FrontendForwarding) forwarding" where
  "process_frontend env message =
     and_then (on_state (\<lambda>st. ie_down_frontend env st message)) (\<lambda>message s.
     and_then (boundary (\<lambda>st. ie_frontend_operation env st (next_operation_id (im_pipeline s)) message)) (\<lambda>decision.
       case decision of
         Frontend_Forward message \<Rightarrow>
           and_then (on_state (\<lambda>st. ie_up_frontend env st message)) (\<lambda>message.
             forward_prepared_frontend env \<lparr>pf_source = message, pf_messages = [message]\<rparr>)
       | Frontend_ForwardThenFlush source \<Rightarrow>
           and_then (on_state (\<lambda>st. ie_up_frontend env st source)) (\<lambda>primary.
           and_then (on_state (\<lambda>st. ie_up_frontend env st F_Flush)) (\<lambda>flush.
             forward_prepared_frontend env \<lparr>pf_source = source, pf_messages = [primary, flush]\<rparr>))
       | Frontend_Suppress message \<Rightarrow> ok (Frontend_Suppressed message)
       | Frontend_Respond request responses \<Rightarrow> respond_locally env request responses) s)"

definition forward_frontend :: "('st, 'e) intermediary_env \<Rightarrow> ('st, 'e, FrontendForwarding) forwarding" where
  "forward_frontend env s = (case im_pending_frontend s of
     Some prepared \<Rightarrow> forward_prepared_frontend env prepared (s\<lparr>im_pending_frontend := None\<rparr>)
   | None \<Rightarrow> and_then receive_downstream (process_frontend env) s)"

section \<open>Messages of PostgreSQL\<close>

definition advance_backend :: "BackendMessage \<Rightarrow> ('st, 'e, BackendMessage) forwarding" where
  "advance_backend message s = (case accept_backend (im_pipeline s) message of
     Panic \<Rightarrow> Panic
   | Done (Inl error, p) \<Rightarrow> err (Forward_Backend error) (s\<lparr>im_pipeline := p\<rparr>)
   | Done (Inr (Emit message), p) \<Rightarrow> ok message (s\<lparr>im_pipeline := p\<rparr>)
   | Done (Inr (Deferred message), p) \<Rightarrow> err (Forward_Deferred message) (s\<lparr>im_pipeline := p\<rparr>))"

definition emit_backend :: "('st, 'e) intermediary_env \<Rightarrow> BackendMessage \<Rightarrow> ('st, 'e, BackendMessage) forwarding" where
  "emit_backend env message s =
     (let operation = backend_operation_id (im_pipeline s) message;
          moved = backend_transition_id (im_pipeline s) message in
      and_then (advance_backend message) (\<lambda>message.
      and_then (observe_transition env moved Direction_Backend operation) (\<lambda>_.
      and_then (send_downstream env message) (\<lambda>_. ok message))) s)"

fun emit_all :: "('st, 'e) intermediary_env \<Rightarrow> BackendMessage list \<Rightarrow> ('st, 'e, BackendMessage list) forwarding" where
  "emit_all env [] = ok []"
| "emit_all env (message # messages) =
     and_then (on_state (\<lambda>st. ie_down_backend env st message)) (\<lambda>message.
     and_then (emit_backend env message) (\<lambda>message.
     and_then (emit_all env messages) (\<lambda>messages. ok (message # messages))))"

fun send_all :: "('st, 'e) intermediary_env \<Rightarrow> BackendMessage list \<Rightarrow> ('st, 'e, unit) forwarding" where
  "send_all env [] = ok ()"
| "send_all env (message # messages) = and_then (send_downstream env message) (\<lambda>_. send_all env messages)"

text \<open>The first message of a batch that does not encode.\<close>

fun unencodable :: "BackendMessage list \<Rightarrow> io_error option" where
  "unencodable [] = None"
| "unencodable (message # messages) = (case BackendMessage_to_frame message of Inl error \<Rightarrow> Some error | Inr _ \<Rightarrow> unencodable messages)"

definition release_held :: "('st, 'e) intermediary_env \<Rightarrow> BackendMessage list \<Rightarrow> ('st, 'e, BackendBatchForwarding) forwarding" where
  "release_held env messages s = (case unencodable messages of
     Some error \<Rightarrow> err (Forward_Io error) s
   | None \<Rightarrow> (case prepare_backend_replacements (im_pipeline s) (bh_held (im_hold s)) messages of
       Panic \<Rightarrow> Panic
     | Done (Inl error) \<Rightarrow> err (Forward_BackendBatch (batch_error error) messages) s
     | Done (Inr p) \<Rightarrow>
         and_then (send_all env messages) (\<lambda>_. and_then (flush_local_responses env) (\<lambda>_. ok (Batch_Released messages)))
           (s\<lparr>im_pipeline := p, im_hold := snd (clear_held (im_hold s))\<rparr>)))"

definition flush_backend_hold_for :: "('st, 'e) intermediary_env \<Rightarrow> BackendFlushReason \<Rightarrow> ('st, 'e, BackendBatchForwarding) forwarding" where
  "flush_backend_hold_for env reason s =
     (if bh_held (im_hold s) = [] then ok Batch_Empty s
      else case backend_operation_ids (im_pipeline s) (bh_held (im_hold s)) of
        Panic \<Rightarrow> Panic
      | Done operation_ids \<Rightarrow>
          and_then (boundary (\<lambda>st. ie_flush_backend env st (zip operation_ids (bh_held (im_hold s))) (bh_held_bytes (im_hold s)) reason))
            (\<lambda>decision. case decision of
               KeepHolding \<Rightarrow> ok Batch_Kept
             | ReplaceOneToOne messages \<Rightarrow> and_then (intercept_responses env messages) (release_held env)) s)"

definition flush_backend_hold :: "('st, 'e) intermediary_env \<Rightarrow> ('st, 'e, BackendBatchForwarding) forwarding" where
  "flush_backend_hold env = flush_backend_hold_for env Reason_Explicit"

definition prepare_backend_teardown :: "('st, 'e) intermediary_env \<Rightarrow> ('st, 'e, BackendBatchForwarding) forwarding" where
  "prepare_backend_teardown env = and_then (flush_backend_hold_for env Reason_Teardown) (\<lambda>outcome.
     if outcome = Batch_Kept then err Forward_BackendHoldRefused else ok outcome)"

definition backend_hold_is_full :: "('st, 'e) intermediary_env \<Rightarrow> 'st IntermediaryConnection \<Rightarrow> bool" where
  "backend_hold_is_full env s = (case ie_hold_limits env of
     None \<Rightarrow> False
   | Some limits \<Rightarrow> length (bh_held (im_hold s)) \<ge> max_messages limits \<or> bh_held_bytes (im_hold s) \<ge> max_bytes limits)"

text \<open>The decision of the boundary on the pending message.\<close>

definition forget_pending :: "('st, 'e, unit) forwarding" where
  "forget_pending s = ok () (s\<lparr>im_hold := snd (take_pending (im_hold s))\<rparr>)"

definition decide_backend :: "('st, 'e) intermediary_env \<Rightarrow> BackendMessage \<Rightarrow> BackendMiddlewareOutput
    \<Rightarrow> ('st, 'e, BackendForwarding) forwarding" where
  "decide_backend env source decision = (case decision of
     Backend_Forward message \<Rightarrow>
       and_then forget_pending (\<lambda>_.
       and_then (on_state (\<lambda>st. ie_down_backend env st message)) (\<lambda>message.
       and_then (emit_backend env message) (\<lambda>message. ok (Backend_Forwarded message))))
   | Backend_Suppress message \<Rightarrow>
       and_then forget_pending (\<lambda>_. and_then (advance_backend message) (\<lambda>message. ok (Backend_Suppressed message)))
   | Backend_Expand messages \<Rightarrow>
       if messages = [] then err (Forward_EmptyExpansion source)
       else and_then forget_pending (\<lambda>_. and_then (emit_all env messages) (\<lambda>emitted. ok (Backend_Expanded source emitted)))
   | Backend_Hold \<Rightarrow>
       if ie_hold_limits env = None then err (Forward_BackendHoldingDisabled source)
       else (\<lambda>s. case hold_pending (im_hold s) of Panic \<Rightarrow> Panic | Done h \<Rightarrow> ok Backend_Held (s\<lparr>im_hold := h\<rparr>)))"

definition process_pending_backend :: "('st, 'e) intermediary_env \<Rightarrow> ('st, 'e, BackendForwarding) forwarding" where
  "process_pending_backend env s = (case pending (im_hold s) of
     None \<Rightarrow> Panic
   | Some source \<Rightarrow>
       and_then (boundary (\<lambda>st. ie_backend_operation env st (backend_operation_id (im_pipeline s) source) source)) (\<lambda>decision.
       and_then (decide_backend env source decision) (\<lambda>outcome.
       and_then (flush_local_responses env) (\<lambda>_. ok outcome))) s)"

text \<open>A flush that must succeed: before a barrier, and at capacity.\<close>

definition must_flush :: "('st, 'e) intermediary_env \<Rightarrow> BackendFlushReason \<Rightarrow> 'e ForwardError \<Rightarrow> ('st, 'e, unit) forwarding" where
  "must_flush env reason refused = and_then (flush_backend_hold_for env reason) (\<lambda>outcome.
     if outcome = Batch_Kept then err refused else ok ())"

definition process_backend :: "('st, 'e) intermediary_env \<Rightarrow> BackendMessage \<Rightarrow> ('st, 'e, BackendForwarding) forwarding" where
  "process_backend env message =
     and_then (on_state (\<lambda>st. ie_up_backend env st message)) (\<lambda>message s.
       case set_pending (im_hold s) message of
         Panic \<Rightarrow> Panic
       | Done h \<Rightarrow>
           and_then (if is_backend_batch_barrier message \<and> bh_held h \<noteq> []
             then must_flush env Reason_ProtocolBarrier Forward_BackendHoldRefused else ok ())
             (\<lambda>_. process_pending_backend env) (s\<lparr>im_hold := h\<rparr>))"

definition make_room :: "('st, 'e) intermediary_env \<Rightarrow> ('st, 'e, unit) forwarding" where
  "make_room env s = (if backend_hold_is_full env s then must_flush env Reason_Capacity Forward_BackendHoldCapacity s else ok () s)"

definition forward_backend :: "('st, 'e) intermediary_env \<Rightarrow> ('st, 'e, BackendForwarding) forwarding" where
  "forward_backend env s =
     (if pending (im_hold s) \<noteq> None then process_pending_backend env s
      else and_then (make_room env) (\<lambda>_. and_then receive_upstream (process_backend env)) s)"

section \<open>Both directions\<close>

datatype ForwardedMessage =
    Fwd_Frontend FrontendMessage
  | Fwd_FrontendExpanded FrontendMessage "FrontendMessage list"
  | Fwd_FrontendSuppressed FrontendMessage
  | Fwd_FrontendLocallyHandled FrontendMessage
  | Fwd_Backend BackendMessage
  | Fwd_BackendExpanded BackendMessage "BackendMessage list"
  | Fwd_BackendSuppressed BackendMessage
  | Fwd_BackendHeld

fun forwarded_frontend :: "FrontendForwarding \<Rightarrow> ForwardedMessage" where
  "forwarded_frontend (Frontend_Forwarded message) = Fwd_Frontend message"
| "forwarded_frontend (Frontend_Expanded source messages) = Fwd_FrontendExpanded source messages"
| "forwarded_frontend (Frontend_Suppressed message) = Fwd_FrontendSuppressed message"
| "forwarded_frontend (Frontend_LocallyHandled message) = Fwd_FrontendLocallyHandled message"

fun forwarded_backend :: "BackendForwarding \<Rightarrow> ForwardedMessage" where
  "forwarded_backend (Backend_Forwarded message) = Fwd_Backend message"
| "forwarded_backend (Backend_Expanded source messages) = Fwd_BackendExpanded source messages"
| "forwarded_backend (Backend_Suppressed message) = Fwd_BackendSuppressed message"
| "forwarded_backend Backend_Held = Fwd_BackendHeld"

text \<open>\<open>select!\<close> takes a side that is ready, either when both are.\<close>

definition await_either :: "('st, 'e) intermediary_env \<Rightarrow> bool \<Rightarrow> ('st, 'e, ForwardedMessage) forwarding" where
  "await_either env downstream_first s =
     (if im_down_script s \<noteq> [] \<and> (downstream_first \<or> im_up_script s = [])
      then and_then receive_downstream (\<lambda>message.
        and_then (process_frontend env message) (\<lambda>outcome. ok (forwarded_frontend outcome))) s
      else and_then receive_upstream (\<lambda>message.
        and_then (process_backend env message) (\<lambda>outcome. ok (forwarded_backend outcome))) s)"

definition await_next :: "('st, 'e) intermediary_env \<Rightarrow> bool \<Rightarrow> ('st, 'e, ForwardedMessage) forwarding" where
  "await_next env downstream_first s =
     (if im_pending_frontend s \<noteq> None
      then and_then receive_upstream (\<lambda>message.
        and_then (process_backend env message) (\<lambda>outcome. ok (forwarded_backend outcome))) s
      else await_either env downstream_first s)"

definition forward_next :: "('st, 'e) intermediary_env \<Rightarrow> bool \<Rightarrow> ('st, 'e, ForwardedMessage) forwarding" where
  "forward_next env downstream_first s =
     (if pending (im_hold s) \<noteq> None
      then and_then (process_pending_backend env) (\<lambda>outcome. ok (forwarded_backend outcome)) s
      else and_then (make_room env) (\<lambda>_ s. case im_pending_frontend s of
          None \<Rightarrow> await_next env downstream_first s
        | Some prepared \<Rightarrow> (case forward_prepared_frontend env prepared (s\<lparr>im_pending_frontend := None\<rparr>) of
            Done (Returned (Inl (Forward_Frontend (Capacity _))), s) \<Rightarrow> await_next env downstream_first s
          | Done (Returned (Inl error), s) \<Rightarrow> err error s
          | Done (Returned (Inr outcome), s) \<Rightarrow> ok (forwarded_frontend outcome) s
          | Done (Pending, s) \<Rightarrow> Done (Pending, s)
          | Panic \<Rightarrow> Panic)) s)"

definition teardown :: "'st IntermediaryConnection \<Rightarrow> 'st exec" where
  "teardown s = (if bh_held (im_hold s) = [] \<and> pending (im_hold s) = None then Done (im_state s) else Panic)"

end
