(* ===== verification/Intermediary_Laws.thy ===== *)
theory Intermediary_Laws
  imports Intermediary Pipeline_Laws
begin

text \<open>
  What an intermediary sends is what its ledger releases, in that order, whatever the middleware decides.
\<close>

section \<open>The ledger without its waiters\<close>

text \<open>Ledgers that differ at most in the count of notifications behave alike.\<close>

definition alike :: "Pipeline \<Rightarrow> Pipeline \<Rightarrow> bool" where
  "alike p q = (pl_policy p = pl_policy q \<and> pl_operations p = pl_operations q \<and> pl_request_state p = pl_request_state q \<and>
     pl_response_state p = pl_response_state q \<and> pl_next_id p = pl_next_id q)"

lemma alike_refl [simp]: "alike p p"
  by (simp add: alike_def)

lemma alike_sym: "alike p q \<Longrightarrow> alike q p"
  by (simp add: alike_def)

lemma alike_trans: "alike p q \<Longrightarrow> alike q r \<Longrightarrow> alike p r"
  by (simp add: alike_def)

lemma alike_changed [simp]: "alike (p\<lparr>pl_changed := n\<rparr>) q = alike p q" "alike p (q\<lparr>pl_changed := n\<rparr>) = alike p q"
  by (simp_all add: alike_def)

fun agree :: "('r \<times> Pipeline) exec \<Rightarrow> ('r \<times> Pipeline) exec \<Rightarrow> bool" where
  "agree Panic Panic = True"
| "agree (Done (r, p)) (Done (r', q)) = (r = r' \<and> alike p q)"
| "agree _ _ = False"

lemma alikeE:
  assumes "alike p q"
  obtains n where "p = q\<lparr>pl_changed := n\<rparr>"
proof
  show "p = q\<lparr>pl_changed := pl_changed p\<rparr>" using assms by (simp add: alike_def)
qed

lemma agree_refl [simp]: "agree x x"
  by (cases x) auto

lemma pipeline_state_changed [simp]: "pipeline_state (p\<lparr>pl_changed := n\<rparr>) = pipeline_state p"
  by (simp add: pipeline_state_def split: option.split)

lemma prepare_frontend_changed [simp]: "prepare_frontend (p\<lparr>pl_changed := n\<rparr>) m = prepare_frontend p m"
  by (simp add: prepare_frontend_def front_kind_def split: exec.split)

lemma commit_frontend_changed: "agree (commit_frontend (p\<lparr>pl_changed := n\<rparr>) prepared m h) (commit_frontend p prepared m h)"
  by (cases "classify_frontend (prepared_request_state prepared) m") (auto simp: commit_frontend_def Let_def alike_def)

lemma accept_frontend_alike:
  assumes "alike p q"
  shows "agree (accept_frontend p m h) (accept_frontend q m h)"
proof -
  from assms obtain n where p: "p = q\<lparr>pl_changed := n\<rparr>" by (rule alikeE)
  show ?thesis
  proof (cases "\<exists>prepared. prepare_frontend q m = Done (Inr prepared)")
    case True
    then obtain prepared where prep: "prepare_frontend q m = Done (Inr prepared)" by blast
    show ?thesis
      using commit_frontend_changed [where p = q and n = n and prepared = prepared and m = m and h = h]
      by (cases "commit_frontend p prepared m h"; cases "commit_frontend q prepared m h")
        (auto simp: accept_frontend_def p prep split: prod.splits)
  qed (auto simp: accept_frontend_def p split: exec.splits sum.splits)
qed

lemma prepare_response_changed [simp]: "prepare_response (p\<lparr>pl_changed := n\<rparr>) l m = prepare_response p l m"
  by (simp add: prepare_response_def)

lemma commit_emit_changed: "alike (commit_emit (p\<lparr>pl_changed := n\<rparr>) head s m) (commit_emit p head s m)"
  by (cases "response_copy_state s") (simp_all add: alike_def commit_emit_def Let_def)

lemma commit_response_changed: "agree (commit_response (p\<lparr>pl_changed := n\<rparr>) prepared m) (commit_response p prepared m)"
proof (cases prepared)
  case (Prepared_Emit head s)
  then show ?thesis by (simp add: commit_response_def commit_emit_changed split: option.splits)
qed (simp_all add: commit_response_def)

lemma project_deferred_changed:
  "project_deferred_local_error (p\<lparr>pl_changed := n\<rparr>) oid = (project_deferred_local_error p oid)\<lparr>pl_changed := n\<rparr>"
  by (simp add: project_deferred_local_error_def Let_def case_prod_unfold split: option.splits)

lemma accept_response_alike:
  assumes "alike p q"
  shows "agree (accept_response p l m) (accept_response q l m)"
proof -
  from assms obtain n where p: "p = q\<lparr>pl_changed := n\<rparr>" by (rule alikeE)
  show ?thesis
    by (cases l) (simp_all add: p accept_response_def Let_def commit_response_changed project_deferred_changed)
qed

section \<open>What a ledger releases\<close>

fun released :: "FrontendAction \<Rightarrow> forward_event list" where
  "released (Action_Forward _ m) = [Sent_upstream m]"
| "released (Action_Discard _) = []"

fun ledger_out :: "Pipeline \<Rightarrow> ledger_input list \<Rightarrow> forward_event list" where
  "ledger_out p [] = []"
| "ledger_out p (Client m h # inputs) = (case accept_frontend p m h of
     Panic \<Rightarrow> []
   | Done (Inl _, p') \<Rightarrow> ledger_out p' inputs
   | Done (Inr a, p') \<Rightarrow> released (into_action a) @ ledger_out p' inputs)"
| "ledger_out p (Response l m # inputs) = (case accept_response p l m of
     Panic \<Rightarrow> []
   | Done (Inr (Emit m), p') \<Rightarrow> Sent_downstream m # ledger_out p' inputs
   | Done (_, p') \<Rightarrow> ledger_out p' inputs)"

lemma ledger_run_append:
  "ledger_run p (xs @ ys) = (case ledger_run p xs of Panic \<Rightarrow> Panic | Done p' \<Rightarrow> ledger_run p' ys)"
  by (induction p xs rule: ledger_run.induct) (auto split: exec.splits prod.splits)

lemma ledger_out_append:
  "ledger_run p xs = Done p' \<Longrightarrow> ledger_out p (xs @ ys) = ledger_out p xs @ ledger_out p' ys"
  by (induction p xs rule: ledger_run.induct) (auto split: exec.splits prod.splits sum.splits BackendAction.splits)

fun matches :: "Pipeline exec \<Rightarrow> Pipeline exec \<Rightarrow> bool" where
  "matches Panic Panic = True"
| "matches (Done p) (Done q) = alike p q"
| "matches _ _ = False"

lemma matches_iff [simp]:
  "matches x Panic \<longleftrightarrow> x = Panic" "matches Panic x \<longleftrightarrow> x = Panic"
  "matches x (Done q) \<longleftrightarrow> (\<exists>p. x = Done p \<and> alike p q)"
  by (cases x; simp)+

lemma ledger_alike: "alike p q \<Longrightarrow> ledger_out p xs = ledger_out q xs \<and> matches (ledger_run p xs) (ledger_run q xs)"
proof (induction xs arbitrary: p q)
  case (Cons x xs)
  show ?case
  proof (cases x)
    case (Client m h)
    from accept_frontend_alike [OF Cons.prems, of m h] show ?thesis
      using Cons.IH Client
      by (cases "(accept_frontend p m h, accept_frontend q m h)" rule: agree.cases)
        (simp_all split: sum.split)
  next
    case (Response l m)
    from accept_response_alike [OF Cons.prems, of l m] show ?thesis
      using Cons.IH Response
      by (cases "(accept_response p l m, accept_response q l m)" rule: agree.cases)
        (simp_all split: sum.split BackendAction.split)
  qed
qed simp

text \<open>
  A step from \<open>s\<close> to \<open>s'\<close> with the events \<open>c\<close> released but not sent yet, after which \<open>c'\<close> are: what was sent is what was
  released, in order, up to events that are dropped.
\<close>

definition moves :: "forward_event list \<Rightarrow> 'st IntermediaryConnection \<Rightarrow> forward_event list \<Rightarrow> 'st IntermediaryConnection \<Rightarrow> bool" where
  "moves c s c' s' = (\<exists>inputs p l. ledger_run (im_pipeline s) inputs = Done p \<and> alike p (im_pipeline s') \<and>
     im_log s' = im_log s @ l \<and> subseq (l @ c') (c @ ledger_out (im_pipeline s) inputs))"

definition follows :: "forward_event list \<Rightarrow> 'st IntermediaryConnection \<Rightarrow> (('e + 'a) poll \<times> 'st IntermediaryConnection) exec
    \<Rightarrow> ('a \<Rightarrow> forward_event list) \<Rightarrow> bool" where
  "follows c s x after = (case x of
     Panic \<Rightarrow> \<exists>inputs. ledger_run (im_pipeline s) inputs = Panic
   | Done (Returned (Inr v), s') \<Rightarrow> moves c s (after v) s'
   | Done (_, s') \<Rightarrow> moves c s [] s')"

lemma follows_simps [simp]:
  "follows c s Panic after \<longleftrightarrow> (\<exists>inputs. ledger_run (im_pipeline s) inputs = Panic)"
  "follows c s (Done (Returned (Inr v), s')) after \<longleftrightarrow> moves c s (after v) s'"
  "follows c s (Done (Returned (Inl e), s')) after \<longleftrightarrow> moves c s [] s'"
  "follows c s (Done (Pending, s')) after \<longleftrightarrow> moves c s [] s'"
  by (simp_all add: follows_def)

lemma moves_same: "im_pipeline s' = im_pipeline s \<Longrightarrow> im_log s' = im_log s \<Longrightarrow> subseq c' c \<Longrightarrow> moves c s c' s'"
  unfolding moves_def by (intro exI [of _ "[]"]) simp

lemma moves_trans:
  assumes "moves c s c' s'" and "moves c' s' c'' s''"
  shows "moves c s c'' s''"
proof -
  from assms(1) obtain xs p l where 1: "ledger_run (im_pipeline s) xs = Done p" "alike p (im_pipeline s')"
    "im_log s' = im_log s @ l" "subseq (l @ c') (c @ ledger_out (im_pipeline s) xs)" by (auto simp: moves_def)
  from assms(2) obtain ys q k where 2: "ledger_run (im_pipeline s') ys = Done q" "alike q (im_pipeline s'')"
    "im_log s'' = im_log s' @ k" "subseq (k @ c'') (c' @ ledger_out (im_pipeline s') ys)" by (auto simp: moves_def)
  from ledger_alike [OF 1(2), of ys] 2(1) obtain r where r: "ledger_run p ys = Done r" "alike r q"
    "ledger_out p ys = ledger_out (im_pipeline s') ys" by auto
  have "ledger_run (im_pipeline s) (xs @ ys) = Done r" by (simp add: ledger_run_append 1(1) r(1))
  moreover have "alike r (im_pipeline s'')" using r(2) 2(2) by (rule alike_trans)
  moreover have "subseq ((l @ k) @ c'') (c @ ledger_out (im_pipeline s) (xs @ ys))"
  proof -
    have "subseq (l @ k @ c'') (l @ c' @ ledger_out (im_pipeline s') ys)"
      using 2(4) by (rule list_emb_append_mono [OF subseq_order.refl])
    also have "subseq \<dots> (c @ ledger_out (im_pipeline s) (xs @ ys))"
      using list_emb_append_mono [OF 1(4) subseq_order.refl [of "ledger_out p ys"]] r(3)
      by (simp add: ledger_out_append [OF 1(1)])
    finally show ?thesis by simp
  qed
  ultimately show ?thesis using 1(3) 2(3) unfolding moves_def by force
qed

lemma moves_panic:
  assumes "moves c s c' s'" and "ledger_run (im_pipeline s') ys = Panic"
  shows "\<exists>inputs. ledger_run (im_pipeline s) inputs = Panic"
proof -
  from assms(1) obtain xs p where 1: "ledger_run (im_pipeline s) xs = Done p" "alike p (im_pipeline s')" by (auto simp: moves_def)
  from ledger_alike [OF 1(2), of ys] assms(2) have "ledger_run p ys = Panic" by simp
  with 1(1) show ?thesis by (intro exI [of _ "xs @ ys"]) (simp add: ledger_run_append)
qed

lemma follows_later:
  assumes "moves c s c' s'" and "follows c' s' x after"
  shows "follows c s x after"
  using assms moves_trans [OF assms(1)] moves_panic [OF assms(1)]
  by (auto simp: follows_def split: exec.splits prod.splits poll.splits sum.splits)

lemma outcome_cases:
  fixes x :: "(('e + 'a) poll \<times> 's) exec"
  obtains (panic) "x = Panic" | (wait) s where "x = Done (Pending, s)" | (fail) e s where "x = Done (Returned (Inl e), s)" | (result) v s where "x = Done (Returned (Inr v), s)"
  by (cases x; metis poll.exhaust sum.exhaust surj_pair)

lemma then_forward_simps [simp]:
  "f s = Panic \<Longrightarrow> and_then f k s = Panic"
  "f s = Done (Pending, s') \<Longrightarrow> and_then f k s = Done (Pending, s')"
  "f s = Done (Returned (Inl e), s') \<Longrightarrow> and_then f k s = Done (Returned (Inl e), s')"
  "f s = Done (Returned (Inr v), s') \<Longrightarrow> and_then f k s = k v s'"
  by (simp_all add: and_then_def)

lemma and_then_result:
  "and_then f k s = Done (Returned (Inr w), s'') \<longleftrightarrow>
    (\<exists>v s'. f s = Done (Returned (Inr v), s') \<and> k v s' = Done (Returned (Inr w), s''))"
  by (cases "f s" rule: outcome_cases) auto

lemma follows_and_then:
  assumes "follows c s (f s) between" and "\<And>v s'. f s = Done (Returned (Inr v), s') \<Longrightarrow> follows (between v) s' (k v s') after"
  shows "follows c s (and_then f k s) after"
proof (cases "f s" rule: outcome_cases)
  case (result v s')
  then show ?thesis using assms follows_later [of c s "between v" s'] by simp
qed (use assms(1) in simp_all)

section \<open>Steps\<close>

lemma follows_ok: "subseq (after v) c \<Longrightarrow> follows c s (ok v s) after"
  by (simp add: ok_def moves_same)

lemma follows_err [simp]: "follows c s (err e s) after"
  by (simp add: err_def moves_same)

lemma follows_on_state: "follows c s (on_state g s) (\<lambda>_. c)"
  by (simp add: on_state_def moves_same split: prod.splits)

lemma follows_boundary: "follows c s (boundary g s) (\<lambda>_. c)"
  by (auto simp: boundary_def follows_def moves_same split: prod.splits sum.splits)

lemma follows_observe: "follows c s (observe_transition env moved direction operation s) (\<lambda>_. c)"
  by (cases moved) (simp_all add: observe_transition_def follows_ok follows_on_state)

lemma follows_receive:
  "follows c s (receive_downstream s) (\<lambda>_. c)" "follows c s (receive_upstream s) (\<lambda>_. c)"
  by (auto simp: receive_downstream_def receive_upstream_def moves_same split: list.splits sum.splits)

lemma moves_sent: "im_pipeline s' = im_pipeline s \<Longrightarrow> im_log s' = im_log s @ [e] \<Longrightarrow> subseq c' c \<Longrightarrow> moves (e # c) s c' s'"
  unfolding moves_def by (intro exI [of _ "[]"] exI [of _ "im_pipeline s"] exI [of _ "[e]"]) simp

lemma follows_send_downstream: "follows (Sent_downstream m # c) s (send_downstream env m s) (\<lambda>_. c)"
  by (auto simp: send_downstream_def Let_def split: sum.splits list.splits option.splits intro: moves_same moves_sent)

lemma follows_send_upstream: "follows (Sent_upstream m # c) s (send_upstream env m s) (\<lambda>_. c)"
  by (auto simp: send_upstream_def Let_def split: sum.splits list.splits option.splits intro: moves_same moves_sent)

text \<open>One input of the ledger.\<close>

lemma moves_response:
  assumes "accept_response (im_pipeline s) l m = Done (r, p)" and "im_pipeline s' = p" and "im_log s' = im_log s"
  shows "moves [] s (case r of Inr (Emit m') \<Rightarrow> [Sent_downstream m'] | _ \<Rightarrow> []) s'"
  unfolding moves_def using assms
  by (intro exI [of _ "[Response l m]"] exI [of _ p] exI [of _ "[]"]) (auto split: sum.splits BackendAction.splits)

lemma panic_response: "accept_response p l m = Panic \<Longrightarrow> \<exists>inputs. ledger_run p inputs = Panic"
  by (intro exI [of _ "[Response l m]"]) simp

lemma moves_client:
  assumes "accept_frontend (im_pipeline s) m h = Done (r, p)" and "im_pipeline s' = p" and "im_log s' = im_log s"
  shows "moves [] s (case r of Inr a \<Rightarrow> released (into_action a) | _ \<Rightarrow> []) s'"
  unfolding moves_def using assms
  by (intro exI [of _ "[Client m h]"] exI [of _ p] exI [of _ "[]"]) (auto split: sum.splits)

lemma panic_client: "accept_frontend p m h = Panic \<Longrightarrow> \<exists>inputs. ledger_run p inputs = Panic"
  by (intro exI [of _ "[Client m h]"]) simp

lemma follows_advance: "follows [] s (advance_backend m s) (\<lambda>m'. [Sent_downstream m'])"
  using moves_response [of s None m] panic_response [of "im_pipeline s" None m]
  by (auto simp: advance_backend_def accept_backend_def ok_def err_def split: exec.splits prod.splits sum.splits BackendAction.splits)
    fastforce+

lemma follows_emit: "follows [] s (emit_backend env m s) (\<lambda>_. [])"
  unfolding emit_backend_def Let_def
  by (rule follows_and_then [OF follows_advance], rule follows_and_then [OF follows_observe],
      rule follows_and_then [OF follows_send_downstream], rule follows_ok) simp

section \<open>Messages of the client\<close>

definition items_out :: "FrontendSequenceItem list \<Rightarrow> forward_event list" where
  "items_out items = concat (map (\<lambda>item. released (into_action (item_admission item))) items)"

lemma items_out_simps [simp]:
  "items_out [] = []" "items_out (item # items) = released (into_action (item_admission item)) @ items_out items"
  "items_out (xs @ ys) = items_out xs @ items_out ys"
  by (simp_all add: items_out_def)

lemma follows_send_items: "follows (items_out items) s (send_items env items messages s) (\<lambda>_. [])"
proof (induction items arbitrary: s messages)
  case (Cons item items)
  show ?case
  proof (cases "into_action (item_admission item)")
    case (Action_Forward oid m)
    show ?thesis
      using Cons.IH
      by (simp add: Action_Forward)
        (rule follows_and_then [OF follows_observe], rule follows_and_then [OF follows_send_upstream], assumption)
  qed (simp add: Cons.IH)
qed (simp add: follows_ok)

lemma prepare_items_ledger:
  "prepare_frontend_items p ms h items = Done (Inr projection) \<Longrightarrow>
    \<exists>inputs new. ledger_run p inputs = Done (sequence_pipeline projection) \<and> sequence_items projection = items @ new \<and>
      ledger_out p inputs = items_out new"
  "prepare_frontend_items p ms h items = Panic \<Longrightarrow> \<exists>inputs. ledger_run p inputs = Panic"
proof (induction p ms h items rule: prepare_frontend_items.induct)
  case (1 p h items)
  {
    case 1
    then show ?case by (intro exI [of _ "[]"]) auto
  next
    case 2
    then show ?case by simp
  }
next
  case (2 p m ms h items)
  {
    case 1
    then obtain a p' where a: "accept_frontend p m h = Done (Inr a, p')" "frontend_is_reconstructable m"
      and rest: "prepare_frontend_items p' ms h (items @ [\<lparr>item_transition = frontend_transition_id p m, item_admission = a\<rparr>]) =
        Done (Inr projection)"
      by (auto split: if_splits exec.splits prod.splits sum.splits)
    from "2.IH"(1) [OF _ a(1) _ _ rest] a(2) obtain inputs new where
      "ledger_run p' inputs = Done (sequence_pipeline projection)"
      "sequence_items projection = (items @ [\<lparr>item_transition = frontend_transition_id p m, item_admission = a\<rparr>]) @ new"
      "ledger_out p' inputs = items_out new" by auto
    with a(1) show ?case by (intro exI [of _ "Client m h # inputs"]) auto
  next
    case 2
    show ?case
    proof (cases "accept_frontend p m h")
      case Panic
      then show ?thesis by (rule panic_client)
    next
      case (Done x)
      with 2 obtain a p' where a: "accept_frontend p m h = Done (Inr a, p')" "frontend_is_reconstructable m"
        and rest: "prepare_frontend_items p' ms h (items @ [\<lparr>item_transition = frontend_transition_id p m, item_admission = a\<rparr>]) = Panic"
        by (auto split: if_splits exec.splits prod.splits sum.splits)
      from "2.IH"(2) [OF _ a(1) _ _ rest] a(2) obtain inputs where "ledger_run p' inputs = Panic" by auto
      with a(1) show ?thesis by (intro exI [of _ "Client m h # inputs"]) simp
    qed
  }
qed

lemma follows_forward_prepared: "follows [] s (forward_prepared_frontend env prepared s) (\<lambda>_. [])"
proof (cases "prepare_frontend_sequence (im_pipeline s) (pf_messages prepared) Forward")
  case Panic
  with prepare_items_ledger(2) obtain inputs where "ledger_run (im_pipeline s\<lparr>pl_changed := 0\<rparr>) inputs = Panic"
    unfolding prepare_frontend_sequence_def by blast
  with ledger_alike [of "im_pipeline s" "im_pipeline s\<lparr>pl_changed := 0\<rparr>" inputs] Panic show ?thesis
    by (auto simp: forward_prepared_frontend_def)
next
  case (Done x)
  show ?thesis
  proof (cases x)
    case (Inl e)
    with Done show ?thesis by (simp add: forward_prepared_frontend_def err_def moves_same)
  next
    case (Inr projection)
    let ?s = "s\<lparr>im_pipeline := (sequence_pipeline projection)\<lparr>pl_changed := pl_changed (im_pipeline s)\<rparr>\<rparr>"
    from Done Inr obtain inputs where run: "ledger_run (im_pipeline s\<lparr>pl_changed := 0\<rparr>) inputs = Done (sequence_pipeline projection)"
      and out: "ledger_out (im_pipeline s\<lparr>pl_changed := 0\<rparr>) inputs = items_out (sequence_items projection)"
      using prepare_items_ledger(1) unfolding prepare_frontend_sequence_def by (metis append_Nil)
    have "moves [] s (items_out (sequence_items projection)) ?s"
      using ledger_alike [of "im_pipeline s" "im_pipeline s\<lparr>pl_changed := 0\<rparr>" inputs] run out
      unfolding moves_def by (intro exI [of _ inputs]) auto
    moreover have "follows (items_out (sequence_items projection)) ?s (and_then (send_items env (sequence_items projection) [])
        (\<lambda>messages. if messages = [] then ok (Frontend_Suppressed (pf_source prepared))
          else if length (pf_messages prepared) > 1 then ok (Frontend_Expanded (pf_source prepared) messages)
          else ok (Frontend_Forwarded (last messages))) ?s) (\<lambda>_. [])"
      by (rule follows_and_then [OF follows_send_items]) (simp add: follows_ok)
    ultimately show ?thesis
      using follows_later Done Inr by (fastforce simp: forward_prepared_frontend_def commit_frontend_sequence_def)
  qed
qed

lemma follows_intercept_responses: "follows c s (intercept_responses env ms s) (\<lambda>_. c)"
proof (induction ms arbitrary: s)
  case (Cons m ms)
  show ?case
    by simp (rule follows_and_then [OF follows_on_state], rule follows_and_then [OF Cons.IH], simp add: follows_ok)
qed (simp add: follows_ok)

lemma follows_local: "follows [] s (flush_local_responses env s) (\<lambda>_. [])"
proof (induction env s rule: flush_local_responses.induct)
  case (1 env s)
  show ?case
  proof (cases "im_pending_local s")
    case Nil
    then show ?thesis by (subst flush_local_responses.simps) (simp add: follows_ok)
  next
    case (Cons queued rest)
    show ?thesis
    proof (cases "local_messages queued")
      case Nil
      have "moves [] s [] (s\<lparr>im_pending_local := rest\<rparr>)" by (simp add: moves_same)
      from follows_later [OF this "1.IH"(1) [OF Cons Nil]] show ?thesis
        by (subst flush_local_responses.simps) (simp add: Cons Nil)
    next
      case (Cons message messages)
      note local = \<open>im_pending_local s = queued # rest\<close> \<open>local_messages queued = message # messages\<close>
      let ?s = "s\<lparr>im_pending_local := queued\<lparr>local_messages := messages\<rparr> # rest\<rparr>"
      show ?thesis
      proof (cases "try_emit_local (im_pipeline s) (local_operation queued) message")
        case Panic
        with panic_response show ?thesis
          by (subst flush_local_responses.simps) (simp add: local try_emit_local_def)
      next
        case (Done x)
        obtain r p where x: "x = (r, p)" by (cases x)
        note moved = moves_response [OF Done [unfolded x try_emit_local_def]]
        show ?thesis
        proof (cases "\<exists>m. r = Inr (Emit m)")
          case True
          then obtain m where m: "r = Inr (Emit m)" by blast
          have "follows [] s (and_then (send_downstream env m) (\<lambda>_. flush_local_responses env) (?s\<lparr>im_pipeline := p\<rparr>)) (\<lambda>_. [])"
          proof (rule follows_later)
            show "moves [] s [Sent_downstream m] (?s\<lparr>im_pipeline := p\<rparr>)" using moved [of "?s\<lparr>im_pipeline := p\<rparr>"] m by simp
            show "follows [Sent_downstream m] (?s\<lparr>im_pipeline := p\<rparr>)
                (and_then (send_downstream env m) (\<lambda>_. flush_local_responses env) (?s\<lparr>im_pipeline := p\<rparr>)) (\<lambda>_. [])"
              using "1.IH"(2) [OF local] Done x m
              by (intro follows_and_then [OF follows_send_downstream]) simp
          qed
          then show ?thesis
            by (subst flush_local_responses.simps)
              (cases "send_downstream env m (?s\<lparr>im_pipeline := p\<rparr>)" rule: outcome_cases, simp_all add: local Done x m err_def)
        next
          case False
          then consider e where "r = Inl e" | m where "r = Inr (Deferred m)"
            by (metis BackendAction.exhaust sum.exhaust)
          then show ?thesis
            by cases (use moved in \<open>simp_all add: flush_local_responses.simps [of env s] local Done x ok_def err_def\<close>)
        qed
      qed
    qed
  qed
qed

lemma follows_respond: "follows [] s (respond_locally env request responses s) (\<lambda>_. [])"
proof (cases "accept_frontend (im_pipeline s) request Local")
  case Panic
  with panic_client show ?thesis by (simp add: respond_locally_def)
next
  case (Done x)
  obtain r p where x: "x = (r, p)" by (cases x)
  note accepted = Done [unfolded x]
  show ?thesis
  proof (cases rule: accept_frontend_cases [OF accepted])
    case (1 e)
    then show ?thesis using moves_client [OF accepted] by (simp add: respond_locally_def accepted err_def)
  next
    case (2 kind next_state a)
    have act: "into_action a = Action_Discard (pl_next_id (im_pipeline s))" using 2(10) by simp
    let ?s = "s\<lparr>im_pipeline := p\<rparr>"
    let ?queued = "\<lambda>messages s. s\<lparr>im_pending_local := im_pending_local s @
      [\<lparr>local_operation = pl_next_id (im_pipeline s), local_messages = messages\<rparr>]\<rparr>"
    have moved: "moves [] s [] ?s" using moves_client [OF accepted] 2(2) act by simp
    have queue: "follows [] s' (and_then (flush_local_responses env) (\<lambda>_. ok v) (s'\<lparr>im_pending_local := q\<rparr>)) (\<lambda>_. [])" for v s' q
      by (rule follows_later [of _ _ "[]" "s'\<lparr>im_pending_local := q\<rparr>"])
        (simp_all add: moves_same follows_and_then [OF follows_local] follows_ok)
    show ?thesis
      by (rule follows_later [OF moved])
        (simp add: respond_locally_def accepted 2(2) act follows_and_then [OF follows_intercept_responses] queue)
  qed
qed

lemma follows_process_frontend: "follows [] s (process_frontend env m s) (\<lambda>_. [])"
  unfolding process_frontend_def
  apply (rule follows_and_then [OF follows_on_state], rule follows_and_then [OF follows_boundary])
  subgoal for message s' decision s''
    by (cases decision)
      (simp_all add: follows_and_then [OF follows_on_state] follows_forward_prepared follows_respond follows_ok)
  done

lemma follows_forward_frontend: "follows [] s (forward_frontend env s) (\<lambda>_. [])"
proof (cases "im_pending_frontend s")
  case (Some prepared)
  have "moves [] s [] (s\<lparr>im_pending_frontend := None\<rparr>)" by (simp add: moves_same)
  from follows_later [OF this follows_forward_prepared] Some show ?thesis by (simp add: forward_frontend_def)
qed (simp add: forward_frontend_def follows_and_then [OF follows_receive(1)] follows_process_frontend)

section \<open>Messages of PostgreSQL\<close>

lemma follows_emit_all: "follows [] s (emit_all env ms s) (\<lambda>_. [])"
proof (induction ms arbitrary: s)
  case (Cons m ms)
  show ?case
    by simp (rule follows_and_then [OF follows_on_state], rule follows_and_then [OF follows_emit],
        rule follows_and_then [OF Cons.IH], simp add: follows_ok)
qed (simp add: follows_ok)

lemma follows_send_all: "follows (map Sent_downstream ms) s (send_all env ms s) (\<lambda>_. [])"
proof (induction ms arbitrary: s)
  case (Cons m ms)
  show ?case by simp (rule follows_and_then [OF follows_send_downstream], rule Cons.IH)
qed (simp add: follows_ok)

lemma accept_backend_emits: "accept_backend p m = Done (Inr (Emit m'), p') \<Longrightarrow> m' = m"
  by (auto simp: accept_backend_def accept_response_def commit_response_def Let_def
      split: exec.splits PreparedResponse.splits option.splits)

lemma project_replacements_ledger:
  "project_replacements p ms = Done (Inr p') \<Longrightarrow>
    \<exists>inputs. ledger_run p inputs = Done p' \<and> ledger_out p inputs = map Sent_downstream ms"
proof (induction ms arbitrary: p)
  case (Cons m ms)
  from Cons.prems obtain q where q: "accept_backend p m = Done (Inr (Emit m), q)" "project_replacements q ms = Done (Inr p')"
    by (auto split: if_splits exec.splits prod.splits sum.splits BackendAction.splits BackendProjectionError.splits
        dest: accept_backend_emits)
  from Cons.IH [OF q(2)] obtain inputs where "ledger_run q inputs = Done p'" "ledger_out q inputs = map Sent_downstream ms"
    by blast
  with q(1) show ?case by (intro exI [of _ "Response None m # inputs"]) (simp add: accept_backend_def)
qed (auto intro: exI [of _ "[]"])

lemma accept_backend_then_panic:
  assumes "accept_backend p m = Done (r, q)" and "\<exists>inputs. ledger_run q inputs = Panic"
  shows "\<exists>inputs. ledger_run p inputs = Panic"
proof -
  from assms(2) obtain inputs where "ledger_run q inputs = Panic" by blast
  with assms(1) show ?thesis by (intro exI [of _ "Response None m # inputs"]) (simp add: accept_backend_def)
qed

lemma accept_backend_panic: "accept_backend p m = Panic \<Longrightarrow> \<exists>inputs. ledger_run p inputs = Panic"
  unfolding accept_backend_def by (rule panic_response)

lemma projection_panics:
  "project_replacements p ms = Panic \<Longrightarrow> \<exists>inputs. ledger_run p inputs = Panic"
  "project_sources p ms = Panic \<Longrightarrow> \<exists>inputs. ledger_run p inputs = Panic"
  "backend_operation_ids p ms = Panic \<Longrightarrow> \<exists>inputs. ledger_run p inputs = Panic"
proof (induction ms arbitrary: p)
  case (Cons m ms)
  note split = if_splits exec.splits prod.splits sum.splits BackendAction.splits BackendProjectionError.splits
  {
    case 1
    then show ?case by (auto split: split intro: accept_backend_panic accept_backend_then_panic [OF _ Cons.IH(1)])
  next
    case 2
    then show ?case by (auto split: split intro: accept_backend_panic accept_backend_then_panic [OF _ Cons.IH(2)])
  next
    case 3
    then show ?case by (auto split: split intro: accept_backend_panic accept_backend_then_panic [OF _ Cons.IH(3)])
  }
qed auto

lemma follows_release: "follows [] s (release_held env ms s) (\<lambda>_. [])"
proof (cases "unencodable ms")
  case None
  show ?thesis
  proof (cases "prepare_backend_replacements (im_pipeline s) (bh_held (im_hold s)) ms")
    case Panic
    have "matches (ledger_run (im_pipeline s) inputs) (ledger_run (im_pipeline s\<lparr>pl_changed := n\<rparr>) inputs)" for n inputs
      by (rule ledger_alike [THEN conjunct2]) simp
    with Panic projection_panics(1,2) have "\<exists>inputs. ledger_run (im_pipeline s) inputs = Panic"
      by (auto simp: prepare_backend_replacements_def split: if_splits exec.splits sum.splits) (metis matches_iff(1))
    with None Panic show ?thesis by (simp add: release_held_def)
  next
    case (Done x)
    show ?thesis
    proof (cases x)
      case (Inr p)
      let ?s = "s\<lparr>im_pipeline := p, im_hold := snd (clear_held (im_hold s))\<rparr>"
      from Done Inr obtain n where "project_replacements (im_pipeline s\<lparr>pl_changed := n\<rparr>) ms = Done (Inr p)"
        by (auto simp: prepare_backend_replacements_def split: if_splits exec.splits sum.splits)
      from project_replacements_ledger [OF this] obtain inputs where
        inputs: "ledger_run (im_pipeline s\<lparr>pl_changed := n\<rparr>) inputs = Done p"
          "ledger_out (im_pipeline s\<lparr>pl_changed := n\<rparr>) inputs = map Sent_downstream ms" by blast
      have "moves [] s (map Sent_downstream ms) ?s"
        using ledger_alike [of "im_pipeline s" "im_pipeline s\<lparr>pl_changed := n\<rparr>" inputs] inputs
        unfolding moves_def by (intro exI [of _ inputs]) auto
      moreover have "follows (map Sent_downstream ms) ?s
          (and_then (send_all env ms) (\<lambda>_. and_then (flush_local_responses env) (\<lambda>_. ok (Batch_Released ms))) ?s) (\<lambda>_. [])"
        by (rule follows_and_then [OF follows_send_all], rule follows_and_then [OF follows_local]) (simp add: follows_ok)
      ultimately show ?thesis using None Done Inr follows_later by (fastforce simp: release_held_def)
    qed (use None Done in \<open>simp add: release_held_def\<close>)
  qed
qed (simp add: release_held_def)

lemma follows_flush: "follows [] s (flush_backend_hold_for env reason s) (\<lambda>_. [])"
proof (cases "backend_operation_ids (im_pipeline s) (bh_held (im_hold s))")
  case Panic
  with projection_panics(3) show ?thesis by (auto simp: flush_backend_hold_for_def follows_ok)
next
  case (Done ids)
  show ?thesis
  proof (cases "bh_held (im_hold s) = []")
    case False
    with Done show ?thesis
      apply (simp add: flush_backend_hold_for_def)
      apply (rule follows_and_then [OF follows_boundary])
      subgoal for decision
        by (cases decision) (simp_all add: follows_and_then [OF follows_intercept_responses] follows_release follows_ok)
      done
  qed (simp add: flush_backend_hold_for_def follows_ok)
qed

lemma follows_must_flush: "follows [] s (must_flush env reason refused s) (\<lambda>_. [])"
  unfolding must_flush_def by (rule follows_and_then [OF follows_flush]) (simp add: follows_ok)

lemma follows_prepare_teardown: "follows [] s (prepare_backend_teardown env s) (\<lambda>_. [])"
  unfolding prepare_backend_teardown_def by (rule follows_and_then [OF follows_flush]) (simp add: follows_ok)

lemma follows_make_room: "follows [] s (make_room env s) (\<lambda>_. [])"
  by (simp add: make_room_def follows_must_flush follows_ok)

section \<open>What a step leaves alone\<close>

definition keeps :: "('st IntermediaryConnection \<Rightarrow> 'g) \<Rightarrow> 'st IntermediaryConnection \<Rightarrow> ('r \<times> 'st IntermediaryConnection) exec \<Rightarrow> bool" where
  "keeps g s x = (\<forall>r s'. x = Done (r, s') \<longrightarrow> g s' = g s)"

lemma keepsD: "keeps g s x \<Longrightarrow> x = Done (r, s') \<Longrightarrow> g s' = g s"
  by (simp add: keeps_def)

lemma keeps_and_then:
  assumes "keeps g s (f s)" and "\<And>v s'. keeps g s' (k v s')"
  shows "keeps g s (and_then f k s)"
proof (cases "f s" rule: outcome_cases)
  case (result v s')
  with assms(2) [of s' v] keepsD [OF assms(1) result] show ?thesis by (simp add: keeps_def)
qed (use assms(1) in \<open>simp_all add: keeps_def\<close>)

lemma keeps_ok: "keeps g s (ok v s)" and keeps_err: "keeps g s (err e s)"
  by (simp_all add: keeps_def ok_def err_def)

lemma keeps_later: "g s' = g s \<Longrightarrow> keeps g s' x \<Longrightarrow> keeps g s x"
  by (simp add: keeps_def)

lemma keeps_and_then_at:
  assumes "g s' = g s" and "keeps g s' (f s')" and "\<And>v s'. keeps g s' (k v s')"
  shows "keeps g s (and_then f k s')"
  by (rule keeps_later [OF assms(1)], rule keeps_and_then) (use assms in simp_all)

text \<open>A part of the connection that neither the middleware nor the ledger nor a write reaches.\<close>

locale untouched =
  fixes g :: "'st IntermediaryConnection \<Rightarrow> 'g"
  assumes g_state: "g (s\<lparr>im_state := st\<rparr>) = g s"
    and g_pipeline: "g (s\<lparr>im_pipeline := p\<rparr>) = g s"
    and g_local: "g (s\<lparr>im_pending_local := q\<rparr>) = g s"
    and g_flushes: "g (s\<lparr>im_down_flushes := fs\<rparr>) = g s" "g (s\<lparr>im_up_flushes := fs\<rparr>) = g s"
    and g_log: "g (s\<lparr>im_log := l\<rparr>) = g s"
begin

lemmas g_simps [simp] = g_state g_pipeline g_local g_flushes g_log

lemma keeps_on_state: "keeps g s (on_state f s)" and keeps_boundary: "keeps g s (boundary f' s)"
  by (auto simp: keeps_def on_state_def boundary_def split: prod.splits)

lemma keeps_observe: "keeps g s (observe_transition env moved direction operation s)"
  by (simp add: observe_transition_def keeps_ok keeps_on_state split: option.split)

lemma keeps_send: "keeps g s (send_downstream env m s)" "keeps g s (send_upstream env m' s)"
  by (auto simp: keeps_def send_downstream_def send_upstream_def Let_def split: sum.splits list.splits option.splits)

lemma keeps_intercept: "keeps g s (intercept_responses env ms s)"
  by (induction ms arbitrary: s) (auto intro!: keeps_ok keeps_and_then keeps_on_state)

lemma keeps_local: "keeps g s (flush_local_responses env s)"
proof (induction env s rule: flush_local_responses.induct)
  case (1 env s)
  note send = keepsD [OF keeps_send(1)]
  show ?case
    using "1.IH"
    by (subst flush_local_responses.simps)
      (auto simp: ok_def err_def Let_def keeps_def dest!: send
        split: list.splits exec.splits prod.splits sum.splits BackendAction.splits poll.splits)
qed

lemma keeps_items: "keeps g s (send_items env items messages s)"
  by (induction env items messages arbitrary: s rule: send_items.induct)
    (auto intro!: keeps_ok keeps_and_then keeps_observe keeps_send split: FrontendAction.split)

lemma keeps_respond: "keeps g s (respond_locally env request responses s)"
  by (auto simp: respond_locally_def keeps_def [of _ _ Panic] keeps_def [of _ _ "Done _"] err_def
      intro!: keeps_and_then_at keeps_intercept keeps_local keeps_ok
      split: exec.split prod.split sum.split FrontendAction.split)

lemma keeps_advance: "keeps g s (advance_backend m s)"
  by (auto simp: keeps_def advance_backend_def ok_def err_def split: exec.splits prod.splits sum.splits BackendAction.splits)

lemma keeps_emit: "keeps g s (emit_backend env m s)"
  unfolding emit_backend_def Let_def
  by (intro keeps_and_then keeps_advance keeps_observe keeps_send keeps_ok)

lemma keeps_emit_all: "keeps g s (emit_all env ms s)"
  by (induction ms arbitrary: s) (auto intro!: keeps_ok keeps_and_then keeps_on_state keeps_emit)

lemma keeps_send_all: "keeps g s (send_all env ms s)"
  by (induction ms arbitrary: s) (auto intro!: keeps_ok keeps_and_then keeps_send)

end

interpretation hold: untouched im_hold
  by unfold_locales simp_all

interpretation waiting: untouched im_pending_frontend
  by unfold_locales simp_all

interpretation from_client: untouched im_down_script
  by unfold_locales simp_all

interpretation from_server: untouched im_up_script
  by unfold_locales simp_all

lemma hold_receive: "keeps im_hold s (receive_downstream s)" "keeps im_hold s (receive_upstream s)"
  by (auto simp: keeps_def receive_downstream_def receive_upstream_def split: list.splits sum.splits)

lemma hold_forward_prepared: "keeps im_hold s (forward_prepared_frontend env prepared s)"
  by (auto simp: forward_prepared_frontend_def commit_frontend_sequence_def keeps_def [of _ _ Panic] keeps_def [of _ _ "Done _"] err_def
      intro!: keeps_and_then_at hold.keeps_items keeps_ok split: exec.split sum.split)

lemma hold_process_frontend: "keeps im_hold s (process_frontend env m s)"
  unfolding process_frontend_def
  by (intro keeps_and_then hold.keeps_on_state hold.keeps_boundary)
    (auto intro!: keeps_and_then hold.keeps_on_state hold_forward_prepared hold.keeps_respond keeps_ok
      split: FrontendMiddlewareOutput.split)

lemma hold_forward_frontend: "keeps im_hold s (forward_frontend env s)"
proof (cases "im_pending_frontend s")
  case (Some prepared)
  with keeps_later [of im_hold "s\<lparr>im_pending_frontend := None\<rparr>" s, OF _ hold_forward_prepared] show ?thesis
    by (simp add: forward_frontend_def)
qed (simp add: forward_frontend_def keeps_and_then hold_receive hold_process_frontend)

abbreviation pending_of :: "'st IntermediaryConnection \<Rightarrow> (BackendMessage \<times> nat) option" where
  "pending_of s \<equiv> bh_pending (im_hold s)"

lemma keeps_part: "keeps im_hold s x \<Longrightarrow> keeps (\<lambda>s. g (im_hold s)) s x"
  by (simp add: keeps_def)

lemma pending_release: "keeps pending_of s (release_held env ms s)"
  by (auto simp: release_held_def clear_held_def keeps_def [of _ _ Panic] keeps_err
      intro!: keeps_and_then_at keeps_part [OF hold.keeps_send_all] keeps_part [OF hold.keeps_local] keeps_ok split: option.split exec.split sum.split)

lemma pending_flush: "keeps pending_of s (flush_backend_hold_for env reason s)"
  unfolding flush_backend_hold_for_def
  by (auto simp: keeps_def [of _ _ Panic]
      intro!: keeps_and_then keeps_part [OF hold.keeps_boundary] keeps_part [OF hold.keeps_intercept] pending_release keeps_ok
      split: exec.split BackendBatchOutput.split)

lemma pending_must_flush: "keeps pending_of s (must_flush env reason refused s)"
  unfolding must_flush_def by (auto intro!: keeps_and_then pending_flush keeps_ok keeps_err)

lemma pending_make_room: "keeps pending_of s (make_room env s)"
  by (simp add: make_room_def pending_must_flush keeps_ok)

lemma follows_forget: "follows c s (forget_pending s) (\<lambda>_. c)"
  by (simp add: forget_pending_def ok_def moves_same)

lemma follows_decide:
  assumes "pending_of s \<noteq> None"
  shows "follows [] s (decide_backend env source decision s) (\<lambda>_. [])"
proof (cases decision)
  case (Backend_Forward m)
  then show ?thesis
    by (simp add: decide_backend_def)
      (rule follows_and_then [OF follows_forget], rule follows_and_then [OF follows_on_state],
        rule follows_and_then [OF follows_emit], simp add: follows_ok)
next
  case (Backend_Expand ms)
  then show ?thesis
    by (simp add: decide_backend_def follows_and_then [OF follows_forget] follows_and_then [OF follows_emit_all] follows_ok)
next
  case (Backend_Suppress m)
  then show ?thesis
    by (simp add: decide_backend_def)
      (rule follows_and_then [OF follows_forget], rule follows_and_then [OF follows_advance], simp add: follows_ok)
next
  case Backend_Hold
  with assms show ?thesis by (auto simp: decide_backend_def hold_pending_def ok_def moves_same)
qed

lemma follows_process_pending:
  assumes "pending_of s \<noteq> None"
  shows "follows [] s (process_pending_backend env s) (\<lambda>_. [])"
proof -
  from assms obtain source where source: "pending (im_hold s) = Some source" by (auto simp: pending_def)
  show ?thesis
    using assms
    by (simp add: process_pending_backend_def source)
      (rule follows_and_then [OF follows_boundary], rule follows_and_then [OF follows_decide],
        simp add: keepsD [OF hold.keeps_boundary], rule follows_and_then [OF follows_local], simp add: follows_ok)
qed

lemma follows_process_backend:
  assumes "pending_of s = None"
  shows "follows [] s (process_backend env m s) (\<lambda>_. [])"
proof -
  have arrival: "follows [] s' (case set_pending (im_hold s') m of Panic \<Rightarrow> Panic
       | Done h \<Rightarrow> and_then (if is_backend_batch_barrier m \<and> bh_held h \<noteq> []
             then must_flush env Reason_ProtocolBarrier Forward_BackendHoldRefused else ok ())
             (\<lambda>_. process_pending_backend env) (s'\<lparr>im_hold := h\<rparr>)) (\<lambda>_. [])"
    if free: "pending_of s' = None" for m s'
  proof -
    let ?s = "s'\<lparr>im_hold := (im_hold s')\<lparr>bh_pending := Some (m, retained_bytes m)\<rparr>\<rparr>"
    let ?flush = "if is_backend_batch_barrier m \<and> bh_held (im_hold s') \<noteq> []
             then must_flush env Reason_ProtocolBarrier Forward_BackendHoldRefused else ok ()"
    have "moves [] s' [] ?s" by (simp add: moves_same)
    moreover have "follows [] ?s (and_then ?flush (\<lambda>_. process_pending_backend env) ?s) (\<lambda>_. [])"
    proof (rule follows_and_then [where between = "\<lambda>_. []"])
      show "follows [] ?s (?flush ?s) (\<lambda>_. [])" by (simp add: follows_must_flush follows_ok)
      fix v s''
      assume "?flush ?s = Done (Returned (Inr v), s'')"
      moreover have "keeps pending_of ?s (?flush ?s)" by (simp add: pending_must_flush keeps_ok)
      ultimately have "pending_of s'' = Some (m, retained_bytes m)" by (simp add: keeps_def)
      then show "follows [] s'' (process_pending_backend env s'') (\<lambda>_. [])" by (simp add: follows_process_pending)
    qed
    ultimately show ?thesis using free follows_later by (fastforce simp: set_pending_def)
  qed
  show ?thesis
    unfolding process_backend_def
    by (rule follows_and_then [OF follows_on_state], rule arrival) (simp add: assms keepsD [OF hold.keeps_on_state])
qed

lemma follows_backend_arrival:
  assumes "pending_of s = None"
  shows "follows [] s (and_then receive_upstream (process_backend env) s) (\<lambda>_. [])"
  by (rule follows_and_then [OF follows_receive(2)], rule follows_process_backend)
    (simp add: assms keepsD [OF hold_receive(2)])

lemma follows_forward_backend: "follows [] s (forward_backend env s) (\<lambda>_. [])"
proof (cases "pending_of s")
  case None
  then show ?thesis
    by (simp add: forward_backend_def pending_def)
      (rule follows_and_then [OF follows_make_room], rule follows_backend_arrival, simp add: keepsD [OF pending_make_room])
qed (simp add: forward_backend_def pending_def follows_process_pending)

lemma follows_await_next:
  assumes "pending_of s = None"
  shows "follows [] s (await_next env downstream_first s) (\<lambda>_. [])"
proof -
  have backend: "follows [] s (and_then receive_upstream (\<lambda>m. and_then (process_backend env m) (\<lambda>v. ok (k v))) s) (\<lambda>_. [])" for k
    by (rule follows_and_then [OF follows_receive(2)], rule follows_and_then [OF follows_process_backend])
      (simp_all add: assms keepsD [OF hold_receive(2)] follows_ok)
  have frontend: "follows [] s (and_then receive_downstream (\<lambda>m. and_then (process_frontend env m) (\<lambda>v. ok (k v))) s) (\<lambda>_. [])" for k
    by (rule follows_and_then [OF follows_receive(1)], rule follows_and_then [OF follows_process_frontend])
      (simp add: follows_ok)
  show ?thesis by (simp add: await_next_def await_either_def backend frontend)
qed

lemma follows_forward_next: "follows [] s (forward_next env downstream_first s) (\<lambda>_. [])"
proof (cases "pending_of s")
  case None
  have "follows [] s' (case im_pending_frontend s' of
          None \<Rightarrow> await_next env downstream_first s'
        | Some prepared \<Rightarrow> (case forward_prepared_frontend env prepared (s'\<lparr>im_pending_frontend := None\<rparr>) of
            Done (Returned (Inl (Forward_Frontend (Capacity _))), s) \<Rightarrow> await_next env downstream_first s
          | Done (Returned (Inl error), s) \<Rightarrow> err error s
          | Done (Returned (Inr outcome), s) \<Rightarrow> ok (forwarded_frontend outcome) s
          | Done (Pending, s) \<Rightarrow> Done (Pending, s)
          | Panic \<Rightarrow> Panic)) (\<lambda>_. [])" if free: "pending_of s' = None" for s'
  proof (cases "im_pending_frontend s'")
    case (Some prepared)
    let ?s = "s'\<lparr>im_pending_frontend := None\<rparr>"
    have start: "moves [] s' [] ?s" by (simp add: moves_same)
    note sent = follows_later [OF start follows_forward_prepared [of ?s env prepared]]
    show ?thesis
    proof (cases "forward_prepared_frontend env prepared ?s" rule: outcome_cases)
      case (fail e s'')
      from sent fail have moved: "moves [] s' [] s''" by simp
      from free keepsD [OF hold_forward_prepared fail] have "pending_of s'' = None" by simp
      from follows_later [OF moved follows_await_next [OF this]] moved show ?thesis
        by (auto simp: Some fail err_def split: ForwardError.split FrontendProjectionError.split)
    qed (use sent Some in \<open>simp_all add: ok_def\<close>)
  qed (simp add: follows_await_next free)
  with None show ?thesis
    by (simp add: forward_next_def pending_def)
      (rule follows_and_then [OF follows_make_room], simp add: keepsD [OF pending_make_room])
qed (auto simp: forward_next_def pending_def intro!: follows_and_then [OF follows_process_pending] follows_ok)

section \<open>Runs\<close>

text \<open>
  A run of an established intermediary: what the transports deliver and the calls of the application, in any order.  A
  call that errs or waits leaves a connection on which the application goes on.
\<close>

datatype forward_call =
    Client_sends "io_error + FrontendMessage" | Server_sends "io_error + BackendMessage"
  | Call_forward_frontend | Call_forward_backend | Call_forward_next bool
  | Call_flush_backend_hold | Call_prepare_backend_teardown

datatype forward_outcome =
    Arrived | Frontend_outcome FrontendForwarding | Backend_outcome BackendForwarding | Batch_outcome BackendBatchForwarding

fun next_outcome :: "ForwardedMessage \<Rightarrow> forward_outcome" where
  "next_outcome (Fwd_Frontend m) = Frontend_outcome (Frontend_Forwarded m)"
| "next_outcome (Fwd_FrontendExpanded m ms) = Frontend_outcome (Frontend_Expanded m ms)"
| "next_outcome (Fwd_FrontendSuppressed m) = Frontend_outcome (Frontend_Suppressed m)"
| "next_outcome (Fwd_FrontendLocallyHandled m) = Frontend_outcome (Frontend_LocallyHandled m)"
| "next_outcome (Fwd_Backend m') = Backend_outcome (Backend_Forwarded m')"
| "next_outcome (Fwd_BackendExpanded m' ms') = Backend_outcome (Backend_Expanded m' ms')"
| "next_outcome (Fwd_BackendSuppressed m') = Backend_outcome (Backend_Suppressed m')"
| "next_outcome Fwd_BackendHeld = Backend_outcome Backend_Held"

lemma next_outcome_of [simp]:
  "next_outcome (forwarded_frontend v) = Frontend_outcome v" "next_outcome (forwarded_backend v') = Backend_outcome v'"
  by (cases v; simp) (cases v'; simp)

fun forward_step :: "('st, 'e) intermediary_env \<Rightarrow> forward_call \<Rightarrow> ('st, 'e, forward_outcome) forwarding" where
  "forward_step env (Client_sends m) = (\<lambda>s. ok Arrived (s\<lparr>im_down_script := im_down_script s @ [m]\<rparr>))"
| "forward_step env (Server_sends m) = (\<lambda>s. ok Arrived (s\<lparr>im_up_script := im_up_script s @ [m]\<rparr>))"
| "forward_step env Call_forward_frontend = and_then (forward_frontend env) (\<lambda>v. ok (Frontend_outcome v))"
| "forward_step env Call_forward_backend = and_then (forward_backend env) (\<lambda>v. ok (Backend_outcome v))"
| "forward_step env (Call_forward_next first) = and_then (forward_next env first) (\<lambda>v. ok (next_outcome v))"
| "forward_step env Call_flush_backend_hold = and_then (flush_backend_hold env) (\<lambda>v. ok (Batch_outcome v))"
| "forward_step env Call_prepare_backend_teardown = and_then (prepare_backend_teardown env) (\<lambda>v. ok (Batch_outcome v))"

fun forward_run :: "('st, 'e) intermediary_env \<Rightarrow> 'st IntermediaryConnection \<Rightarrow> forward_call list
    \<Rightarrow> (('e ForwardError + forward_outcome) poll list \<times> 'st IntermediaryConnection) exec" where
  "forward_run env s [] = Done ([], s)"
| "forward_run env s (call # calls) = (case forward_step env call s of
     Panic \<Rightarrow> Panic
   | Done (r, s') \<Rightarrow> (case forward_run env s' calls of Panic \<Rightarrow> Panic | Done (rs, s'') \<Rightarrow> Done (r # rs, s'')))"

lemma follows_step: "follows [] s (forward_step env call s) (\<lambda>_. [])"
proof (cases call)
  case (Client_sends m)
  then show ?thesis by (simp add: ok_def moves_same)
next
  case (Server_sends m)
  then show ?thesis by (simp add: ok_def moves_same)
qed (auto simp: flush_backend_hold_def intro!: follows_ok
    follows_and_then [OF follows_forward_frontend] follows_and_then [OF follows_forward_backend]
    follows_and_then [OF follows_forward_next] follows_and_then [OF follows_flush] follows_and_then [OF follows_prepare_teardown])

lemma follows_run:
  "case forward_run env s calls of
     Panic \<Rightarrow> \<exists>inputs. ledger_run (im_pipeline s) inputs = Panic
   | Done (_, s') \<Rightarrow> moves [] s [] s'"
proof (induction calls arbitrary: s)
  case (Cons call calls)
  show ?case
  proof (cases "forward_step env call s")
    case (Done x)
    obtain r s' where x: "x = (r, s')" by (cases x)
    have "moves [] s [] s'" using follows_step [of s env call] Done x by (auto simp: follows_def split: poll.splits sum.splits)
    from moves_trans [OF this] moves_panic [OF this] Cons.IH [of s'] Done x show ?thesis
      by (auto split: exec.splits)
  qed (use follows_step [of s env call] in simp)
qed (simp add: moves_same)


end
