(* ===== verification/Intermediary_Hold.thy ===== *)
theory Intermediary_Hold
  imports Intermediary_Laws
begin

text \<open>
  What an intermediary holds back: it stays within the limits, a flush releases all of it or nothing, and where a message
  passes the ones held before it.
\<close>

section \<open>Limits\<close>

fun has_room :: "BackendHoldLimits option \<Rightarrow> BackendHold \<Rightarrow> bool" where
  "has_room None h = (bh_held h = [])"
| "has_room (Some limits) h =
     (length (bh_held h) < max_messages limits \<and> sum_list (map retained_bytes (bh_held h)) < max_bytes limits)"

fun within :: "BackendHoldLimits option \<Rightarrow> BackendHold \<Rightarrow> bool" where
  "within None h = (bh_held h = [])"
| "within (Some limits) h = (length (bh_held h) \<le> max_messages limits \<and>
     (bh_held h \<noteq> [] \<longrightarrow> sum_list (map retained_bytes (butlast (bh_held h))) < max_bytes limits))"

definition fits :: "BackendHoldLimits option \<Rightarrow> BackendHold \<Rightarrow> bool" where
  "fits limits h = (hold_inv h \<and> within limits h \<and> (bh_pending h \<noteq> None \<longrightarrow> has_room limits h))"

definition usable :: "BackendHoldLimits option \<Rightarrow> bool" where
  "usable limits = (\<forall>l. limits = Some l \<longrightarrow> 0 < max_messages l \<and> 0 < max_bytes l \<and> max_bytes l \<le> usize_max)"

lemma usable_new: "bytes \<le> usize_max \<Longrightarrow> usable (BackendHoldLimits_new messages bytes)"
  by (auto simp: usable_def BackendHoldLimits_new_def split: if_splits)

lemma fits_clear: "usable limits \<Longrightarrow> fits limits h \<Longrightarrow> fits limits (snd (clear_held h)) \<and> has_room limits (snd (clear_held h))"
  by (cases limits) (auto simp: fits_def usable_def clear_held_def hold_inv_def)

lemma fits_take: "fits limits h \<Longrightarrow> fits limits (snd (take_pending h))"
  by (cases limits) (auto simp: fits_def take_pending_def hold_inv_def)

lemma fits_hold: "limits \<noteq> None \<Longrightarrow> fits limits h \<Longrightarrow> hold_pending h = Done h' \<Longrightarrow> fits limits h'"
  by (cases limits) (auto simp: fits_def hold_pending_def hold_inv_def saturating_add_def split: option.splits)

lemma fits_set: "fits limits h \<Longrightarrow> has_room limits h \<Longrightarrow> set_pending h m = Done h' \<Longrightarrow> fits limits h'"
  by (cases limits) (auto simp: fits_def set_pending_def hold_inv_def split: if_splits)

lemma room_unless_full:
  "usable (ie_hold_limits env) \<Longrightarrow> fits (ie_hold_limits env) (im_hold s) \<Longrightarrow> \<not> backend_hold_is_full env s
    \<Longrightarrow> has_room (ie_hold_limits env) (im_hold s)"
  by (cases "ie_hold_limits env") (auto simp: fits_def usable_def hold_inv_def backend_hold_is_full_def)

section \<open>Every step stays within them\<close>

abbreviation bounded :: "('st, 'e) intermediary_env \<Rightarrow> 'st IntermediaryConnection \<Rightarrow> bool" where
  "bounded env s \<equiv> fits (ie_hold_limits env) (im_hold s)"

definition upholds :: "('s \<Rightarrow> bool) \<Rightarrow> 's \<Rightarrow> ('r \<times> 's) exec \<Rightarrow> bool" where
  "upholds I s x = (I s \<longrightarrow> (\<forall>r s'. x = Done (r, s') \<longrightarrow> I s'))"

lemma upholds_and_then:
  assumes "upholds I s (f s)" and "\<And>v s'. I s \<Longrightarrow> I s' \<Longrightarrow> f s = Done (Returned (Inr v), s') \<Longrightarrow> upholds I s' (k v s')"
  shows "upholds I s (and_then f k s)"
proof (cases "f s" rule: outcome_cases)
  case (result v s')
  with assms show ?thesis by (auto simp: upholds_def)
qed (use assms(1) in \<open>simp_all add: upholds_def\<close>)

lemma upholds_keeps: "keeps im_hold s x \<Longrightarrow> upholds (\<lambda>s. P (im_hold s)) s x"
  by (auto simp: keeps_def upholds_def)

lemma upholds_later: "I s' \<Longrightarrow> upholds I s' x \<Longrightarrow> upholds I s x"
  by (simp add: upholds_def)

lemmas bounded_keeps = upholds_keeps [OF hold.keeps_on_state] upholds_keeps [OF hold.keeps_boundary]
  upholds_keeps [OF hold.keeps_intercept] upholds_keeps [OF hold.keeps_local] upholds_keeps [OF hold.keeps_emit]
  upholds_keeps [OF hold.keeps_emit_all] upholds_keeps [OF hold.keeps_send_all] upholds_keeps [OF hold.keeps_advance]
  upholds_keeps [OF hold_receive(2)] upholds_keeps [OF keeps_ok] upholds_keeps [OF keeps_err]

lemma bounded_release:
  assumes "usable (ie_hold_limits env)"
  shows "upholds (bounded env) s (release_held env ms s)"
proof -
  let ?s = "\<lambda>p. s\<lparr>im_pipeline := p, im_hold := snd (clear_held (im_hold s))\<rparr>"
  have "upholds (bounded env) (?s p) (and_then (send_all env ms) (\<lambda>_. and_then (flush_local_responses env) (\<lambda>_. ok (Batch_Released ms))) (?s p))" for p
    by (intro upholds_and_then bounded_keeps)
  moreover have "bounded env s \<Longrightarrow> bounded env (?s p)" for p using fits_clear [OF assms] by simp
  ultimately show ?thesis
    by (auto simp: release_held_def upholds_def err_def split: option.splits exec.splits sum.splits)
qed

lemma bounded_flush:
  assumes "usable (ie_hold_limits env)"
  shows "upholds (bounded env) s (flush_backend_hold_for env reason s)"
  unfolding flush_backend_hold_for_def
  by (auto simp: upholds_def [of _ _ Panic]
      intro!: upholds_and_then bounded_keeps bounded_release [OF assms] split: exec.split BackendBatchOutput.split)

lemma bounded_must_flush:
  assumes "usable (ie_hold_limits env)"
  shows "upholds (bounded env) s (must_flush env reason refused s)"
  unfolding must_flush_def by (rule upholds_and_then [OF bounded_flush [OF assms]]) (auto intro: bounded_keeps)

text \<open>A flush that released something, or had nothing to release, leaves room.\<close>

lemma released_empties:
  assumes "release_held env ms s = Done (Returned (Inr outcome), s')"
  shows "bh_held (im_hold s') = [] \<and> outcome = Batch_Released ms"
  using assms
  by (auto simp: release_held_def err_def ok_def clear_held_def and_then_result
      dest!: keepsD [OF hold.keeps_send_all] keepsD [OF hold.keeps_local] split: option.splits exec.splits sum.splits)

lemma intercept_state:
  "\<exists>st ms'. intercept_responses env ms s = Done (Returned (Inr ms'), s\<lparr>im_state := st\<rparr>) \<and> length ms' = length ms"
proof (induction ms arbitrary: s)
  case Nil
  show ?case by (intro exI [of _ "im_state s"]) (simp add: ok_def)
next
  case (Cons m ms)
  obtain m' st where "ie_down_backend env (im_state s) m = (m', st)" by force
  with Cons.IH [of "s\<lparr>im_state := st\<rparr>"] show ?case by (auto simp: and_then_def on_state_def ok_def)
qed

lemma boundary_state:
  "boundary f s = Done (Returned x, s') \<Longrightarrow> s' = s\<lparr>im_state := snd (f (im_state s))\<rparr>"
  by (auto simp: boundary_def split: prod.splits)

lemma flush_cases:
  assumes "flush_backend_hold_for env reason s = Done (r, s')"
  obtains (nothing) "bh_held (im_hold s) = []" "r = Returned (Inr Batch_Empty)" "s' = s"
  | (kept) st where "r = Returned (Inr Batch_Kept)" "s' = s\<lparr>im_state := st\<rparr>"
  | (refused) e st where "r = Returned (Inl (Forward_Middleware e))" "s' = s\<lparr>im_state := st\<rparr>"
  | (release) ms st where "release_held env ms (s\<lparr>im_state := st\<rparr>) = Done (r, s')"
proof (cases "bh_held (im_hold s) = []")
  case False
  with assms obtain ids where ids: "backend_operation_ids (im_pipeline s) (bh_held (im_hold s)) = Done ids"
    by (auto simp: flush_backend_hold_for_def split: exec.splits)
  let ?f = "\<lambda>st. ie_flush_backend env st (zip ids (bh_held (im_hold s))) (bh_held_bytes (im_hold s)) reason"
  obtain x st where x: "?f (im_state s) = (x, st)" by force
  show thesis
  proof (cases x)
    case (Inl e)
    with assms False ids x refused show thesis by (auto simp: flush_backend_hold_for_def boundary_def and_then_def)
  next
    case (Inr decision)
    show thesis
    proof (cases decision)
      case KeepHolding
      with assms False ids x Inr kept show thesis by (auto simp: flush_backend_hold_for_def boundary_def and_then_def ok_def)
    next
      case (ReplaceOneToOne ms)
      obtain st' ms' where "intercept_responses env ms (s\<lparr>im_state := st\<rparr>) = Done (Returned (Inr ms'), s\<lparr>im_state := st'\<rparr>)"
        using intercept_state [of env ms "s\<lparr>im_state := st\<rparr>"] by auto
      with assms False ids x Inr ReplaceOneToOne release show thesis
        by (auto simp: flush_backend_hold_for_def boundary_def and_then_def)
    qed
  qed
qed (use assms nothing in \<open>auto simp: flush_backend_hold_for_def ok_def\<close>)

lemma flush_empties:
  assumes "flush_backend_hold_for env reason s = Done (Returned (Inr outcome), s')" and "outcome \<noteq> Batch_Kept"
  shows "bh_held (im_hold s') = []"
  using assms(1) by (cases rule: flush_cases) (use assms(2) in \<open>auto dest: released_empties\<close>)

lemma must_flush_empties: "must_flush env reason refused s = Done (Returned (Inr v), s') \<Longrightarrow> bh_held (im_hold s') = []"
  by (auto simp: must_flush_def and_then_result ok_def err_def dest: flush_empties split: if_splits)

lemma room_made:
  assumes "usable (ie_hold_limits env)" and "bounded env s" and "make_room env s = Done (Returned (Inr v), s')"
  shows "has_room (ie_hold_limits env) (im_hold s')"
proof (cases "backend_hold_is_full env s")
  case True
  with assms(3) have "bh_held (im_hold s') = []" by (simp add: make_room_def must_flush_empties)
  with assms(1) show ?thesis by (cases "ie_hold_limits env") (auto simp: usable_def)
qed (use assms in \<open>simp add: make_room_def ok_def room_unless_full\<close>)

lemma bounded_make_room: "usable (ie_hold_limits env) \<Longrightarrow> upholds (bounded env) s (make_room env s)"
  by (simp add: make_room_def bounded_must_flush upholds_keeps [OF keeps_ok])

lemma bounded_forget: "upholds (bounded env) s (forget_pending s)"
  by (simp add: forget_pending_def upholds_def ok_def fits_take)

lemma bounded_decide: "upholds (bounded env) s (decide_backend env source decision s)"
proof (cases decision)
  case Backend_Hold
  then show ?thesis
    using fits_hold [of "ie_hold_limits env" "im_hold s"]
    by (auto simp: decide_backend_def upholds_def ok_def err_def split: exec.splits)
qed (auto simp: decide_backend_def intro!: upholds_and_then bounded_forget bounded_keeps)

lemma bounded_process_pending: "upholds (bounded env) s (process_pending_backend env s)"
  by (auto simp: process_pending_backend_def upholds_def [of _ _ Panic]
      intro!: upholds_and_then bounded_keeps bounded_decide split: option.split)

lemma bounded_process_backend:
  assumes "usable (ie_hold_limits env)" and "has_room (ie_hold_limits env) (im_hold s)"
  shows "upholds (bounded env) s (process_backend env m s)"
  unfolding process_backend_def
proof (rule upholds_and_then [OF bounded_keeps(1)])
  fix m' s'
  let ?flush = "\<lambda>h. if is_backend_batch_barrier m' \<and> bh_held h \<noteq> []
    then must_flush env Reason_ProtocolBarrier Forward_BackendHoldRefused else ok ()"
  assume "bounded env s'" "on_state (\<lambda>st. ie_up_backend env st m) s = Done (Returned (Inr m'), s')"
  then have "bounded env (s'\<lparr>im_hold := h\<rparr>)" if "set_pending (im_hold s') m' = Done h" for h
    using fits_set [OF _ _ that, of "ie_hold_limits env"] assms(2) by (simp add: keepsD [OF hold.keeps_on_state])
  moreover have "upholds (bounded env) (s'\<lparr>im_hold := h\<rparr>)
      (and_then (?flush h) (\<lambda>_. process_pending_backend env) (s'\<lparr>im_hold := h\<rparr>))" for h
    by (rule upholds_and_then) (simp_all add: bounded_must_flush assms(1) bounded_process_pending bounded_keeps)
  ultimately show "upholds (bounded env) s' (case set_pending (im_hold s') m' of Panic \<Rightarrow> Panic
       | Done h \<Rightarrow> and_then (?flush h) (\<lambda>_. process_pending_backend env) (s'\<lparr>im_hold := h\<rparr>))"
    by (cases "set_pending (im_hold s') m'")
      (simp add: upholds_def, simp only: exec.case, blast intro: upholds_later)
qed

lemma bounded_arrival:
  assumes "usable (ie_hold_limits env)" and "has_room (ie_hold_limits env) (im_hold s)"
  shows "upholds (bounded env) s (and_then receive_upstream (process_backend env) s)"
    "upholds (bounded env) s (and_then receive_upstream (\<lambda>m. and_then (process_backend env m) (\<lambda>v. ok (k v))) s)"
  using assms
  by (auto intro!: upholds_and_then bounded_keeps bounded_process_backend simp: keepsD [OF hold_receive(2)])

lemma bounded_forward_backend: "usable (ie_hold_limits env) \<Longrightarrow> upholds (bounded env) s (forward_backend env s)"
  by (auto simp: forward_backend_def intro!: bounded_process_pending upholds_and_then bounded_make_room bounded_arrival(1)
      dest: room_made)

lemma bounded_await_next:
  assumes "usable (ie_hold_limits env)" and "has_room (ie_hold_limits env) (im_hold s)"
  shows "upholds (bounded env) s (await_next env downstream_first s)"
proof -
  have "upholds (bounded env) s (and_then receive_downstream (\<lambda>m. and_then (process_frontend env m)
      (\<lambda>v. ok (forwarded_frontend v))) s)"
    by (intro upholds_and_then bounded_keeps upholds_keeps [OF hold_receive(1)] upholds_keeps [OF hold_process_frontend])
  then show ?thesis by (simp add: await_next_def await_either_def bounded_arrival(2) [OF assms])
qed

lemma bounded_forward_next:
  assumes "usable (ie_hold_limits env)"
  shows "upholds (bounded env) s (forward_next env downstream_first s)"
proof -
  have "upholds (bounded env) s' (case im_pending_frontend s' of
          None \<Rightarrow> await_next env downstream_first s'
        | Some prepared \<Rightarrow> (case forward_prepared_frontend env prepared (s'\<lparr>im_pending_frontend := None\<rparr>) of
            Done (Returned (Inl (Forward_Frontend (Capacity _))), s) \<Rightarrow> await_next env downstream_first s
          | Done (Returned (Inl error), s) \<Rightarrow> err error s
          | Done (Returned (Inr outcome), s) \<Rightarrow> ok (forwarded_frontend outcome) s
          | Done (Pending, s) \<Rightarrow> Done (Pending, s)
          | Panic \<Rightarrow> Panic))" if room: "has_room (ie_hold_limits env) (im_hold s')" for s'
  proof (cases "im_pending_frontend s'")
    case (Some prepared)
    let ?x = "forward_prepared_frontend env prepared (s'\<lparr>im_pending_frontend := None\<rparr>)"
    have same: "?x = Done (r, s'') \<Longrightarrow> im_hold s'' = im_hold s'" for r s''
      using keepsD [OF hold_forward_prepared] by fastforce
    show ?thesis
    proof (cases ?x rule: outcome_cases)
      case (fail e s'')
      with same room have "upholds (bounded env) s'' (await_next env downstream_first s'')"
        by (simp add: bounded_await_next assms)
      with same [OF fail] show ?thesis
        by (auto simp: Some fail err_def upholds_def split: ForwardError.splits FrontendProjectionError.splits)
    qed (use same Some in \<open>auto simp: upholds_def ok_def\<close>)
  qed (simp add: bounded_await_next assms room)
  then show ?thesis
    by (auto simp: forward_next_def intro!: upholds_and_then bounded_process_pending bounded_make_room bounded_keeps assms
        room_made [OF assms])
qed

lemma bounded_step:
  assumes "usable (ie_hold_limits env)"
  shows "upholds (bounded env) s (forward_step env call s)"
proof (cases call)
  case (Client_sends m)
  then show ?thesis by (simp add: upholds_def ok_def)
next
  case (Server_sends m)
  then show ?thesis by (simp add: upholds_def ok_def)
next
  case Call_forward_frontend
  then show ?thesis by (auto intro: upholds_and_then [OF upholds_keeps [OF hold_forward_frontend]] bounded_keeps)
next
  case Call_forward_backend
  then show ?thesis by (auto intro: upholds_and_then [OF bounded_forward_backend [OF assms]] bounded_keeps)
next
  case (Call_forward_next first)
  then show ?thesis by (auto intro: upholds_and_then [OF bounded_forward_next [OF assms]] bounded_keeps)
next
  case Call_flush_backend_hold
  then show ?thesis by (auto simp: flush_backend_hold_def intro: upholds_and_then [OF bounded_flush [OF assms]] bounded_keeps)
next
  case Call_prepare_backend_teardown
  have "upholds (bounded env) s (prepare_backend_teardown env s)"
    unfolding prepare_backend_teardown_def by (rule upholds_and_then [OF bounded_flush [OF assms]]) (auto intro: bounded_keeps)
  with Call_prepare_backend_teardown show ?thesis by (auto intro: upholds_and_then bounded_keeps)
qed

lemma bounded_run:
  assumes "usable (ie_hold_limits env)"
  shows "upholds (bounded env) s (forward_run env s calls)"
proof (induction calls arbitrary: s)
  case (Cons call calls)
  show ?case
  proof (cases "forward_step env call s")
    case (Done x)
    obtain r s' where x: "x = (r, s')" by (cases x)
    show ?thesis
      unfolding upholds_def
    proof (intro impI allI)
      fix rs s''
      assume start: "bounded env s" and run: "forward_run env s (call # calls) = Done (rs, s'')"
      from run Done x obtain rs' where "forward_run env s' calls = Done (rs', s'')" by (auto split: exec.splits)
      moreover from start bounded_step [OF assms, of s call] Done x have "bounded env s'" unfolding upholds_def by blast
      ultimately show "bounded env s''" using Cons.IH [of s'] unfolding upholds_def by blast
    qed
  qed (simp add: upholds_def)
qed (simp add: upholds_def)

section \<open>A relay\<close>

text \<open>
  The middleware that changes nothing: it holds back what is not a barrier where holding is enabled, and releases what
  it is asked to release.
\<close>

definition relay_env :: "BackendHoldLimits option \<Rightarrow> ('st, 'e) intermediary_env" where
  "relay_env limits = \<lparr>
     ie_down_frontend = \<lambda>st m. (m, st), ie_down_backend = \<lambda>st m. (m, st),
     ie_up_frontend = \<lambda>st m. (m, st), ie_up_backend = \<lambda>st m. (m, st),
     ie_frontend_operation = \<lambda>st _ m. (Inr (Frontend_Forward m), st),
     ie_backend_operation = \<lambda>st _ m.
       (Inr (if limits = None \<or> is_backend_batch_barrier m then Backend_Forward m else Backend_Hold), st),
     ie_flush_backend = \<lambda>st held _ _. (Inr (ReplaceOneToOne (map snd held)), st),
     ie_observe = \<lambda>st _. st,
     ie_hold_limits = limits, ie_down_codec = PgCodec_default, ie_up_codec = PgCodec_default\<rparr>"

lemma relay_simps [simp]:
  "ie_down_frontend (relay_env limits) = (\<lambda>st m. (m, st))" "ie_down_backend (relay_env limits) = (\<lambda>st m. (m, st))"
  "ie_up_frontend (relay_env limits) = (\<lambda>st m. (m, st))" "ie_up_backend (relay_env limits) = (\<lambda>st m. (m, st))"
  "ie_frontend_operation (relay_env limits) st oid m = (Inr (Frontend_Forward m), st)"
  "ie_backend_operation (relay_env limits) st oid' m' =
    (Inr (if limits = None \<or> is_backend_batch_barrier m' then Backend_Forward m' else Backend_Hold), st)"
  "ie_flush_backend (relay_env limits) st span bytes reason = (Inr (ReplaceOneToOne (map snd span)), st)"
  "ie_observe (relay_env limits) = (\<lambda>st _. st)" "ie_hold_limits (relay_env limits) = limits"
  "ie_down_codec (relay_env limits) = PgCodec_default" "ie_up_codec (relay_env limits) = PgCodec_default"
  by (simp_all add: relay_env_def)

lemma observe_blind [simp]: "ie_observe env = (\<lambda>st _. st) \<Longrightarrow> observe_transition env moved direction operation s = ok () s"
  by (cases moved) (simp_all add: observe_transition_def on_state_def ok_def)

lemmas forward_eval =
  IntermediaryConnection_new_def and_then_def on_state_def boundary_def ok_def err_def send_downstream_def send_upstream_def
  receive_downstream_def receive_upstream_def flush_local_responses.simps
  forward_prepared_frontend_def prepare_frontend_sequence_def commit_frontend_sequence_def process_frontend_def
  forward_frontend_def advance_backend_def emit_backend_def release_held_def flush_backend_hold_for_def flush_backend_hold_def
  backend_hold_is_full_def forget_pending_def decide_backend_def process_pending_backend_def must_flush_def process_backend_def
  make_room_def forward_backend_def prepare_backend_replacements_def is_backend_batch_barrier_def
  frontend_is_reconstructable_def backend_is_reconstructable_def
  BackendHold_default_def pending_def set_pending_def take_pending_def hold_pending_def clear_held_def


abbreviation held_row :: BackendMessage where
  "held_row \<equiv> B_DataRow \<lparr>row_columns = []\<rparr>"

abbreviation holding_run :: "forward_call list" where
  "holding_run \<equiv> [Client_sends (Inr (F_Query [])), Call_forward_frontend, Server_sends (Inr held_row), Call_forward_backend]"

lemma holding_run_holds:
  "\<exists>rs s. forward_run (relay_env (BackendHoldLimits_new 2 64)) (IntermediaryConnection_new () NoPipeline) holding_run = Done (rs, s) \<and>
     bh_held (im_hold s) = [held_row] \<and> im_log s = [Sent_upstream (F_Query [])]"
  by (simp add: forward_eval ledger_eval eval_defs BackendHoldLimits_new_def)


section \<open>All or nothing\<close>

lemma send_all_log:
  assumes "send_all env ms s = Done (r, s')"
  shows "\<exists>l. im_log s' = im_log s @ l \<and> prefix l (map Sent_downstream ms) \<and> (\<forall>v. r = Returned (Inr v) \<longrightarrow> l = map Sent_downstream ms)"
  using assms
proof (induction ms arbitrary: s)
  case (Cons m ms)
  show ?case
  proof (cases "send_downstream env m s" rule: outcome_cases)
    case (result v s1)
    then have "im_log s1 = im_log s @ [Sent_downstream m]"
      by (auto simp: send_downstream_def Let_def split: sum.splits list.splits option.splits)
    with Cons result show ?thesis by fastforce
  next
    case (fail e s1)
    then have "im_log s1 = im_log s \<or> im_log s1 = im_log s @ [Sent_downstream m]"
      by (auto simp: send_downstream_def Let_def split: sum.splits list.splits option.splits)
    with Cons.prems fail show ?thesis by auto
  qed (use Cons.prems in \<open>auto simp: send_downstream_def Let_def split: sum.splits list.splits option.splits\<close>)
qed (simp add: ok_def)

lemma local_log: "flush_local_responses env s = Done (r, s') \<Longrightarrow> \<exists>l. im_log s' = im_log s @ l"
  using follows_local [of s env] by (auto simp: follows_def moves_def split: poll.splits sum.splits)

lemma release_effect:
  assumes "release_held env ms s = Done (r, s')"
  shows "(s' = s \<and> (\<exists>e. r = Returned (Inl e))) \<or>
    (length ms = length (bh_held (im_hold s)) \<and> bh_held (im_hold s') = [] \<and>
     (\<exists>l. im_log s' = im_log s @ l \<and> (prefix l (map Sent_downstream ms) \<or> prefix (map Sent_downstream ms) l) \<and>
       (\<forall>v. r = Returned (Inr v) \<longrightarrow> v = Batch_Released ms \<and> prefix (map Sent_downstream ms) l)))"
proof (cases "unencodable ms = None \<and> (\<exists>p. prepare_backend_replacements (im_pipeline s) (bh_held (im_hold s)) ms = Done (Inr p))")
  case True
  then obtain p where p: "unencodable ms = None" "prepare_backend_replacements (im_pipeline s) (bh_held (im_hold s)) ms = Done (Inr p)"
    by blast
  from p(2) have len: "length ms = length (bh_held (im_hold s))" by (simp add: prepare_backend_replacements_def split: if_splits)
  let ?s = "s\<lparr>im_pipeline := p, im_hold := snd (clear_held (im_hold s))\<rparr>"
  let ?k = "\<lambda>_. and_then (flush_local_responses env) (\<lambda>_. ok (Batch_Released ms))"
  from assms p have run: "and_then (send_all env ms) ?k ?s = Done (r, s')" by (simp add: release_held_def)
  have "keeps im_hold ?s (and_then (send_all env ms) ?k ?s)"
    by (intro keeps_and_then hold.keeps_send_all hold.keeps_local keeps_ok)
  from keepsD [OF this run] have empty: "bh_held (im_hold s') = []" by (simp add: clear_held_def)
  show ?thesis
  proof (cases "send_all env ms ?s" rule: outcome_cases)
    case (result v s1)
    from send_all_log [OF result] have "im_log s1 = im_log s @ map Sent_downstream ms" by auto
    moreover have "\<exists>l. im_log s' = im_log s1 @ l" and "\<forall>v. r = Returned (Inr v) \<longrightarrow> v = Batch_Released ms"
      using run result local_log [of env s1]
      by (cases "flush_local_responses env s1" rule: outcome_cases; force simp: ok_def)+
    ultimately show ?thesis using len empty by force
  qed (use run send_all_log len empty in \<open>fastforce\<close>)+
next
  case False
  with assms show ?thesis by (auto simp: release_held_def err_def split: option.splits exec.splits sum.splits)
qed


lemma holding_run_flushes:
  "\<exists>rs s s'. forward_run (relay_env (BackendHoldLimits_new 2 64)) (IntermediaryConnection_new () NoPipeline) holding_run = Done (rs, s) \<and>
     flush_backend_hold_for (relay_env (BackendHoldLimits_new 2 64)) Reason_Explicit s =
       Done (Returned (Inr (Batch_Released [held_row])), s')"
  by (simp add: forward_eval ledger_eval eval_defs BackendHoldLimits_new_def)


section \<open>Where a message passes those held before it\<close>

text \<open>
  A middleware that declines to release a held row at a barrier, and releases it when asked again.  The refusal leaves the
  barrier pending, and the next call processes it without another flush: the end of the command goes out before its row.
\<close>

definition wavering_env :: "BackendHoldLimits option \<Rightarrow> (bool, 'e) intermediary_env" where
  "wavering_env limits = (relay_env limits)\<lparr>ie_flush_backend := \<lambda>st held _ _.
     (Inr (if st then ReplaceOneToOne (map snd held) else KeepHolding), True)\<rparr>"

theorem barrier_passes_held:
  "\<exists>rs s. forward_run (wavering_env (BackendHoldLimits_new 2 64) :: (bool, unit) intermediary_env)
       (IntermediaryConnection_new False NoPipeline)
       (holding_run @ [Server_sends (Inr (B_CommandComplete [])), Call_forward_backend, Call_forward_backend, Call_flush_backend_hold])
     = Done (rs, s) \<and>
     im_log s = [Sent_upstream (F_Query []), Sent_downstream (B_CommandComplete []), Sent_downstream held_row]"
  by (simp add: forward_eval ledger_eval eval_defs BackendHoldLimits_new_def wavering_env_def
      retained_bytes_def saturating_add_def usize_max_def)

text \<open>
  A middleware that holds a row and forwards the next one: the second row goes out first, although both are of one
  operation.
\<close>

definition selective_env :: "BackendHoldLimits option \<Rightarrow> (bool, 'e) intermediary_env" where
  "selective_env limits = (relay_env limits)\<lparr>ie_backend_operation := \<lambda>st _ m.
     (Inr (if st then Backend_Forward m else Backend_Hold), True)\<rparr>"

theorem row_passes_held:
  "\<exists>rs s. forward_run (selective_env (BackendHoldLimits_new 2 64) :: (bool, unit) intermediary_env)
       (IntermediaryConnection_new False NoPipeline)
       (holding_run @ [Server_sends (Inr (B_DataRow \<lparr>row_columns = [None]\<rparr>)), Call_forward_backend, Call_flush_backend_hold])
     = Done (rs, s) \<and>
     im_log s = [Sent_upstream (F_Query []), Sent_downstream (B_DataRow \<lparr>row_columns = [None]\<rparr>), Sent_downstream held_row]"
  by (simp add: forward_eval ledger_eval eval_defs BackendHoldLimits_new_def selective_env_def
      retained_bytes_def saturating_add_def usize_max_def)

end
