(* ===== verification/Intermediary_Relay.thy ===== *)
theory Intermediary_Relay
  imports Intermediary_Hold
begin

text \<open>
  An intermediary whose middleware changes nothing is transparent: what comes in on one side goes out on the other, in
  order, whether or not it holds messages back on the way.
\<close>

section \<open>Middleware that changes nothing\<close>

definition relaying :: "('st, 'e) intermediary_env \<Rightarrow> bool" where
  "relaying env = (
     (\<forall>st m. fst (ie_down_frontend env st m) = m) \<and> (\<forall>st m. fst (ie_up_frontend env st m) = m) \<and>
     (\<forall>st m. fst (ie_down_backend env st m) = m) \<and> (\<forall>st m. fst (ie_up_backend env st m) = m) \<and>
     (\<forall>st oid m. fst (ie_frontend_operation env st oid m) = Inr (Frontend_Forward m)) \<and>
     (\<forall>st oid m. fst (ie_backend_operation env st oid m) =
        Inr (if ie_hold_limits env = None \<or> is_backend_batch_barrier m then Backend_Forward m else Backend_Hold)) \<and>
     (\<forall>st span bytes reason. fst (ie_flush_backend env st span bytes reason) = Inr (ReplaceOneToOne (map snd span))))"

lemma relaying_relay: "relaying (relay_env limits)"
  by (simp add: relaying_def)

text \<open>From \<open>s\<close> to \<open>s'\<close> the events \<open>l\<close> were sent, and nothing else happened that a peer could notice.\<close>

definition sent :: "'st IntermediaryConnection \<Rightarrow> forward_event list \<Rightarrow> 'st IntermediaryConnection \<Rightarrow> bool" where
  "sent s l s' = (im_log s' = im_log s @ l \<and> im_hold s' = im_hold s \<and> im_pending_frontend s' = im_pending_frontend s \<and>
     im_pending_local s' = im_pending_local s \<and> im_down_script s' = im_down_script s \<and> im_up_script s' = im_up_script s)"

lemma sent_refl [simp]: "sent s [] s" "sent s [] (s\<lparr>im_state := st\<rparr>)" "sent s [] (s\<lparr>im_pipeline := p\<rparr>)"
  by (simp_all add: sent_def)

lemma sent_trans: "sent s l s' \<Longrightarrow> sent s' k s'' \<Longrightarrow> sent s (l @ k) s''"
  by (simp add: sent_def)

lemma on_state_iff [simp]:
  "on_state g s = Done (Returned (Inr v), s') \<longleftrightarrow> v = fst (g (im_state s)) \<and> s' = s\<lparr>im_state := snd (g (im_state s))\<rparr>"
  by (auto simp: on_state_def split: prod.splits)

lemma boundary_iff [simp]:
  "boundary g s = Done (Returned (Inr v), s') \<longleftrightarrow> Inr v = fst (g (im_state s)) \<and> s' = s\<lparr>im_state := snd (g (im_state s))\<rparr>"
  by (cases "fst (g (im_state s))") (auto simp: boundary_def split: prod.splits)

lemma ok_iff [simp]: "ok v s = Done (Returned (Inr w), s') \<longleftrightarrow> w = v \<and> s' = s"
  by (auto simp: ok_def)

lemma err_iff [simp]: "err e s \<noteq> Done (Returned (Inr w), s')"
  by (simp add: err_def)

section \<open>Writes\<close>

lemma sent_downstream: "send_downstream env m s = Done (Returned (Inr v), s') \<Longrightarrow> sent s [Sent_downstream m] s'"
  by (auto simp: send_downstream_def sent_def Let_def split: sum.splits list.splits option.splits)

lemma sent_upstream: "send_upstream env m s = Done (Returned (Inr v), s') \<Longrightarrow> sent s [Sent_upstream m] s'"
  by (auto simp: send_upstream_def sent_def Let_def split: sum.splits list.splits option.splits)

lemma sent_observe: "observe_transition env moved direction operation s = Done (Returned (Inr v), s') \<Longrightarrow> sent s [] s'"
  by (cases moved) (auto simp: observe_transition_def)

lemma sent_all: "send_all env ms s = Done (Returned (Inr v), s') \<Longrightarrow> sent s (map Sent_downstream ms) s'"
proof (induction ms arbitrary: s)
  case (Cons m ms)
  then obtain s1 where "send_downstream env m s = Done (Returned (Inr ()), s1)" "send_all env ms s1 = Done (Returned (Inr v), s')"
    by (auto simp: and_then_result)
  from sent_trans [OF sent_downstream [OF this(1)] Cons.IH [OF this(2)]] show ?case by simp
qed (auto simp: sent_def)

lemma local_empty: "im_pending_local s = [] \<Longrightarrow> flush_local_responses env s = ok () s"
  by (simp add: flush_local_responses.simps)

section \<open>Messages of PostgreSQL\<close>

lemma sent_advance: "advance_backend m s = Done (Returned (Inr m'), s') \<Longrightarrow> m' = m \<and> sent s [] s'"
  by (auto simp: advance_backend_def dest: accept_backend_emits split: exec.splits sum.splits BackendAction.splits)

lemma sent_emit:
  assumes "emit_backend env m s = Done (Returned (Inr m'), s')"
  shows "m' = m \<and> sent s [Sent_downstream m] s'"
  using assms
  by (auto simp: emit_backend_def Let_def and_then_result sent_def dest!: sent_advance sent_observe sent_downstream)

lemma intercept_relay:
  "relaying env \<Longrightarrow> intercept_responses env ms s = Done (Returned (Inr ms'), s') \<Longrightarrow> ms' = ms \<and> sent s [] s'"
proof (induction ms arbitrary: s ms')
  case (Cons m ms)
  then obtain k where "intercept_responses env ms (s\<lparr>im_state := snd (ie_down_backend env (im_state s) m)\<rparr>) = Done (Returned (Inr k), s')"
    "ms' = m # k"
    by (auto simp: and_then_result relaying_def)
  from Cons.IH [OF Cons.prems(1) this(1)] this(2) show ?case by (simp add: sent_def)
qed simp

lemma backend_operation_ids_length: "backend_operation_ids p ms = Done ids \<Longrightarrow> length ids = length ms"
  by (induction ms arbitrary: p ids) (auto split: exec.splits)

lemma release_relay:
  assumes "release_held env ms s = Done (Returned (Inr v), s')" and "im_pending_local s = []"
  shows "v = Batch_Released ms \<and> sent (s\<lparr>im_hold := snd (clear_held (im_hold s))\<rparr>) (map Sent_downstream ms) s'"
proof -
  from assms(1) obtain p a b where all: "send_all env ms (s\<lparr>im_pipeline := p, im_hold := snd (clear_held (im_hold s))\<rparr>) = Done (Returned (Inr a), b)"
    and local: "flush_local_responses env b = Done (Returned (Inr ()), s')" and v: "v = Batch_Released ms"
    by (auto simp: release_held_def and_then_result split: option.splits exec.splits sum.splits)
  from sent_all [OF all] assms(2) have "im_pending_local b = []" by (simp add: sent_def)
  with local have "s' = b" by (simp add: local_empty)
  with sent_all [OF all] v show ?thesis by (simp add: sent_def)
qed

text \<open>What was read from PostgreSQL: sent to the client, or held.\<close>

fun downs :: "forward_event list \<Rightarrow> BackendMessage list" where
  "downs [] = []"
| "downs (Sent_downstream m # l) = m # downs l"
| "downs (_ # l) = downs l"

fun ups :: "forward_event list \<Rightarrow> FrontendMessage list" where
  "ups [] = []"
| "ups (Sent_upstream m # l) = m # ups l"
| "ups (_ # l) = ups l"

lemma downs_append [simp]: "downs (xs @ ys) = downs xs @ downs ys"
  by (induction xs rule: downs.induct) simp_all

lemma ups_append [simp]: "ups (xs @ ys) = ups xs @ ups ys"
  by (induction xs rule: ups.induct) simp_all

lemma events_down [simp]: "downs (map Sent_downstream ms) = ms" "ups (map Sent_downstream ms) = []"
  by (induction ms) simp_all

definition passed :: "'st IntermediaryConnection \<Rightarrow> BackendMessage list" where
  "passed s = downs (im_log s) @ bh_held (im_hold s)"

definition settled :: "('st, 'e) intermediary_env \<Rightarrow> 'st IntermediaryConnection \<Rightarrow> bool" where
  "settled env s = (im_pending_local s = [] \<and> pending_of s = None \<and> (ie_hold_limits env = None \<longrightarrow> bh_held (im_hold s) = []))"

text \<open>A step that is of no concern to the client's side.\<close>

definition upward_same :: "'st IntermediaryConnection \<Rightarrow> 'st IntermediaryConnection \<Rightarrow> bool" where
  "upward_same s s' = (ups (im_log s') = ups (im_log s) \<and> im_pending_frontend s' = im_pending_frontend s \<and>
     im_down_script s' = im_down_script s \<and> im_pending_local s' = im_pending_local s)"

lemma upward_trans: "upward_same s s' \<Longrightarrow> upward_same s' s'' \<Longrightarrow> upward_same s s''"
  by (simp add: upward_same_def)

lemma flush_relay:
  assumes "relaying env" and "im_pending_local s = []"
    and "flush_backend_hold_for env reason s = Done (Returned (Inr v), s')"
  shows "v \<noteq> Batch_Kept \<and> bh_held (im_hold s') = [] \<and> pending_of s' = pending_of s \<and> passed s' = passed s \<and> im_up_script s' = im_up_script s \<and> upward_same s s'"
proof (cases "bh_held (im_hold s) = []")
  case False
  with assms obtain ids ms a where ids: "backend_operation_ids (im_pipeline s) (bh_held (im_hold s)) = Done ids"
    and ms: "intercept_responses env (map snd (zip ids (bh_held (im_hold s)))) (s\<lparr>im_state := snd (ie_flush_backend env (im_state s)
        (zip ids (bh_held (im_hold s))) (bh_held_bytes (im_hold s)) reason)\<rparr>) = Done (Returned (Inr ms), a)"
    and release: "release_held env ms a = Done (Returned (Inr v), s')"
    by (auto simp: flush_backend_hold_for_def and_then_result relaying_def split: exec.splits)
  from backend_operation_ids_length [OF ids] have "map snd (zip ids (bh_held (im_hold s))) = bh_held (im_hold s)" by simp
  with intercept_relay [OF assms(1) ms] have a: "ms = bh_held (im_hold s)" "sent s [] a"
    by (simp_all add: sent_def)
  from a(2) assms(2) have "im_pending_local a = []" by (simp add: sent_def)
  from release_relay [OF release this] a show ?thesis
    by (auto simp: sent_def clear_held_def passed_def upward_same_def)
qed (use assms in \<open>auto simp: flush_backend_hold_for_def upward_same_def\<close>)

lemma must_flush_relay:
  assumes "relaying env" and "im_pending_local s = []" and "must_flush env reason refused s = Done (Returned (Inr v), s')"
  shows "bh_held (im_hold s') = [] \<and> pending_of s' = pending_of s \<and> passed s' = passed s \<and> im_up_script s' = im_up_script s \<and> upward_same s s'"
  using assms by (auto simp: must_flush_def and_then_result split: if_splits dest: flush_relay)

lemma pending_relay:
  assumes "relaying env" and "im_pending_local s = []" and "pending_of s = Some (m, n)"
    and "ie_hold_limits env = None \<or> is_backend_batch_barrier m \<Longrightarrow> bh_held (im_hold s) = []"
    and "process_pending_backend env s = Done (Returned (Inr v), s')"
  shows "settled env s' \<and> passed s' = passed s @ [m] \<and> im_up_script s' = im_up_script s \<and> upward_same s s'"
proof (cases "ie_hold_limits env = None \<or> is_backend_batch_barrier m")
  case True
  let ?s = "s\<lparr>im_hold := (im_hold s)\<lparr>bh_pending := None\<rparr>\<rparr>"
  from True assms(1) have decision: "fst (ie_backend_operation env st oid m) = Inr (Backend_Forward m)" for st oid
    by (auto simp: relaying_def)
  have down: "fst (ie_down_backend env st m) = m" for st using assms(1) by (simp add: relaying_def)
  from assms(3,5) decision down obtain st b m' where emit: "emit_backend env m (?s\<lparr>im_state := st\<rparr>) = Done (Returned (Inr m'), b)"
    and local: "flush_local_responses env b = Done (Returned (Inr ()), s')"
    by (force simp: process_pending_backend_def pending_def and_then_result decide_backend_def forget_pending_def take_pending_def)
  from sent_emit [OF emit] local assms(2) have "sent ?s [Sent_downstream m] s'" by (simp add: sent_def local_empty)
  with assms(2) assms(4) [OF True] show ?thesis
    by (auto simp: sent_def settled_def passed_def upward_same_def)
next
  case False
  with assms(1) have decision: "fst (ie_backend_operation env st oid m) = Inr Backend_Hold" for st oid
    by (auto simp: relaying_def)
  from False assms(2,3,5) decision show ?thesis
    by (auto simp: process_pending_backend_def pending_def and_then_result decide_backend_def hold_pending_def local_empty
        settled_def passed_def upward_same_def)
qed

lemma process_backend_relay:
  assumes "relaying env" and "settled env s" and "process_backend env m s = Done (Returned (Inr v), s')"
  shows "settled env s' \<and> passed s' = passed s @ [m] \<and> im_up_script s' = im_up_script s \<and> upward_same s s'"
proof -
  let ?s = "s\<lparr>im_state := snd (ie_up_backend env (im_state s) m), im_hold := (im_hold s)\<lparr>bh_pending := Some (m, retained_bytes m)\<rparr>\<rparr>"
  let ?flush = "is_backend_batch_barrier m \<and> bh_held (im_hold s) \<noteq> []"
  from assms obtain a where flush: "(if ?flush then must_flush env Reason_ProtocolBarrier Forward_BackendHoldRefused else ok ()) ?s
      = Done (Returned (Inr ()), a)"
    and process: "process_pending_backend env a = Done (Returned (Inr v), s')"
    by (auto simp: process_backend_def and_then_result relaying_def settled_def set_pending_def)
  have a: "im_pending_local a = []" "pending_of a = Some (m, retained_bytes m)" "passed a = passed s" "upward_same s a"
      "im_up_script a = im_up_script s" "ie_hold_limits env = None \<or> is_backend_batch_barrier m \<Longrightarrow> bh_held (im_hold a) = []"
    using assms(2) flush must_flush_relay [OF assms(1), of ?s Reason_ProtocolBarrier Forward_BackendHoldRefused]
    by (auto simp: settled_def passed_def upward_same_def split: if_splits)
  from pending_relay [OF assms(1) a(1,2,6) process] a upward_trans [OF a(4)] show ?thesis by simp
qed

section \<open>Only a read waits\<close>

text \<open>A step that neither waits nor fails for the ledger's objection to a request.\<close>

definition clean :: "(('e ForwardError + 'a) poll \<times> 's) exec \<Rightarrow> bool" where
  "clean x = (\<forall>s. x \<noteq> Done (Pending, s) \<and> (\<forall>e. x \<noteq> Done (Returned (Inl (Forward_Frontend e)), s)))"

lemma cleanD:
  "clean x \<Longrightarrow> x \<noteq> Done (Pending, s)" "clean x \<Longrightarrow> x \<noteq> Done (Returned (Inl (Forward_Frontend e)), s)"
  by (simp_all add: clean_def)

lemma and_then_waits:
  "and_then f k s = Done (Pending, s'') \<longleftrightarrow> f s = Done (Pending, s'') \<or>
    (\<exists>v s'. f s = Done (Returned (Inr v), s') \<and> k v s' = Done (Pending, s''))"
  by (cases "f s" rule: outcome_cases) auto

lemma and_then_fails:
  "and_then f k s = Done (Returned (Inl e), s'') \<longleftrightarrow> f s = Done (Returned (Inl e), s'') \<or>
    (\<exists>v s'. f s = Done (Returned (Inr v), s') \<and> k v s' = Done (Returned (Inl e), s''))"
  by (cases "f s" rule: outcome_cases) auto

lemma clean_and_then: "clean (f s) \<Longrightarrow> (\<And>v s'. clean (k v s')) \<Longrightarrow> clean (and_then f k s)"
  by (cases "f s" rule: outcome_cases) (auto simp: clean_def)

lemma clean_simple:
  "clean (ok v s)" "\<forall>e'. e \<noteq> Forward_Frontend e' \<Longrightarrow> clean (err e s)" "clean (on_state g s)"
  "clean (send_downstream env m s)" "clean (send_upstream env m' s)" "clean (advance_backend m s)" "clean (forget_pending s)"
  by (auto simp: clean_def ok_def err_def on_state_def send_downstream_def send_upstream_def advance_backend_def
      forget_pending_def Let_def split: prod.splits sum.splits list.splits option.splits exec.splits BackendAction.splits)

lemma clean_boundary: "clean (boundary g s)"
  by (cases "fst (g (im_state s))") (auto simp: clean_def boundary_def split: prod.splits)

lemma clean_observe: "clean (observe_transition env moved direction operation s)"
  by (cases moved) (simp_all add: observe_transition_def clean_simple)

lemma clean_local: "clean (flush_local_responses env s)"
proof (induction env s rule: flush_local_responses.induct)
  case (1 env s)
  note send = clean_simple(4) [unfolded clean_def, rule_format]
  show ?case
    using "1.IH"
    by (subst flush_local_responses.simps)
      (auto simp: send clean_def Let_def ok_def err_def split: list.splits exec.splits prod.splits sum.splits BackendAction.splits poll.splits)
qed

lemma clean_emit: "clean (emit_backend env m s)"
  unfolding emit_backend_def Let_def by (intro clean_and_then clean_simple clean_observe)

lemma clean_lists: "clean (send_all env ms s)" "clean (intercept_responses env ms s)" "clean (emit_all env ms s)"
  by (induction ms arbitrary: s) (auto intro!: clean_and_then clean_simple clean_emit)

lemma clean_items: "clean (send_items env items ms s)"
  by (induction env items ms arbitrary: s rule: send_items.induct)
    (auto intro!: clean_and_then clean_simple clean_observe split: FrontendAction.split)

lemma clean_release: "clean (release_held env ms s)"
  by (auto simp: release_held_def clean_def [of Panic] intro!: clean_and_then clean_simple clean_lists clean_local
      split: option.split exec.split sum.split)

lemma clean_flush: "clean (flush_backend_hold_for env reason s)"
  by (auto simp: flush_backend_hold_for_def clean_def [of Panic] intro!: clean_and_then clean_simple clean_boundary clean_lists clean_release
      split: exec.split BackendBatchOutput.split)

lemma clean_must_flush: "\<forall>e. refused \<noteq> Forward_Frontend e \<Longrightarrow> clean (must_flush env reason refused s)"
  by (auto simp: must_flush_def intro!: clean_and_then clean_flush clean_simple)

lemma clean_teardown: "clean (prepare_backend_teardown env s)"
  by (auto simp: prepare_backend_teardown_def intro!: clean_and_then clean_flush clean_simple)

lemma clean_make_room: "clean (make_room env s)"
  by (simp add: make_room_def clean_must_flush clean_simple)

lemma clean_decide: "clean (decide_backend env source decision s)"
  by (cases decision)
    (auto simp: decide_backend_def clean_def [of Panic] intro!: clean_and_then clean_simple clean_emit clean_lists split: exec.split)

lemma clean_process_pending: "clean (process_pending_backend env s)"
  by (auto simp: process_pending_backend_def clean_def [of Panic] intro!: clean_and_then clean_simple clean_boundary clean_decide clean_local
      split: option.split)

lemma clean_process_backend: "clean (process_backend env m s)"
  unfolding process_backend_def
  by (intro clean_and_then clean_simple)
    (auto simp: clean_def [of Panic] intro!: clean_and_then clean_simple clean_must_flush clean_process_pending split: exec.split)

section \<open>Messages of the client\<close>

definition single :: "'st IntermediaryConnection \<Rightarrow> bool" where
  "single s = (\<forall>prepared. im_pending_frontend s = Some prepared \<longrightarrow> pf_messages prepared = [pf_source prepared])"

definition awaited :: "'st IntermediaryConnection \<Rightarrow> FrontendMessage list" where
  "awaited s = (case im_pending_frontend s of None \<Rightarrow> [] | Some prepared \<Rightarrow> [pf_source prepared])"

text \<open>The client's message that a call reports, as sent to PostgreSQL or as dropped.\<close>

fun forwarded_by :: "FrontendForwarding \<Rightarrow> FrontendMessage list" where
  "forwarded_by (Frontend_Forwarded m) = [m]"
| "forwarded_by _ = []"

fun taken_by :: "FrontendForwarding \<Rightarrow> FrontendMessage list" where
  "taken_by (Frontend_Forwarded m) = [m]"
| "taken_by (Frontend_Suppressed m) = [m]"
| "taken_by _ = []"

text \<open>A step that is of no concern to the server's side.\<close>

definition downward_same :: "'st IntermediaryConnection \<Rightarrow> 'st IntermediaryConnection \<Rightarrow> bool" where
  "downward_same s s' = (passed s' = passed s \<and> im_hold s' = im_hold s \<and> im_up_script s' = im_up_script s \<and>
     im_pending_local s' = im_pending_local s)"

lemma prepare_single:
  assumes "prepare_frontend_sequence p [m] Forward = Done (Inr projection)"
  obtains item where "sequence_items projection = [item]"
    "\<And>oid m'. into_action (item_admission item) = Action_Forward oid m' \<Longrightarrow> m' = m"
proof -
  from assms obtain a q where a: "accept_frontend (p\<lparr>pl_changed := 0\<rparr>) m Forward = Done (Inr a, q)"
    and items: "\<exists>t. sequence_items projection = [\<lparr>item_transition = t, item_admission = a\<rparr>]"
    by (auto simp: prepare_frontend_sequence_def split: if_splits exec.splits sum.splits)
  from a have "into_action a = Action_Forward oid m' \<Longrightarrow> m' = m" for oid m'
    by (cases rule: accept_frontend_cases) (auto split: if_splits)
  with items that show thesis by auto
qed

lemma prepared_relay:
  assumes single: "pf_messages prepared = [pf_source prepared]"
    and run: "forward_prepared_frontend env prepared s = Done (Returned (Inr v), s')"
  shows "downward_same s s' \<and> ups (im_log s') = ups (im_log s) @ forwarded_by v \<and> taken_by v = [pf_source prepared] \<and>
    im_pending_frontend s' = im_pending_frontend s \<and> im_down_script s' = im_down_script s"
proof -
  from run obtain projection where
    prep: "prepare_frontend_sequence (im_pipeline s) (pf_messages prepared) Forward = Done (Inr projection)"
    by (auto simp: forward_prepared_frontend_def split: exec.splits sum.splits)
  then obtain item where item: "sequence_items projection = [item]"
    "\<And>oid m'. into_action (item_admission item) = Action_Forward oid m' \<Longrightarrow> m' = pf_source prepared"
    unfolding single by (rule prepare_single) blast
  show ?thesis
  proof (cases "into_action (item_admission item)")
    case (Action_Forward oid m)
    then have "m = pf_source prepared" by (rule item(2))
    with Action_Forward run prep item(1) single show ?thesis
      by (auto simp: forward_prepared_frontend_def commit_frontend_sequence_def and_then_result downward_same_def passed_def sent_def
          dest!: sent_observe sent_upstream)
  next
    case (Action_Discard oid)
    with run prep item(1) single show ?thesis
      by (auto simp: forward_prepared_frontend_def commit_frontend_sequence_def and_then_result downward_same_def passed_def)
  qed
qed

lemma prepared_refused:
  assumes "forward_prepared_frontend env prepared s = Done (Returned (Inl (Forward_Frontend e)), s')"
  shows "s' = s\<lparr>im_pending_frontend := Some prepared\<rparr>"
  using assms
  by (auto simp: forward_prepared_frontend_def commit_frontend_sequence_def err_def ok_def and_then_fails cleanD [OF clean_items]
      split: exec.splits sum.splits if_splits)

lemma prepared_prompt: "forward_prepared_frontend env prepared s \<noteq> Done (Pending, s')"
  by (auto simp: forward_prepared_frontend_def commit_frontend_sequence_def err_def ok_def and_then_waits cleanD [OF clean_items]
      split: exec.splits sum.splits if_splits)

lemma process_frontend_relay:
  assumes "relaying env"
  shows "\<exists>s1. process_frontend env m s = forward_prepared_frontend env \<lparr>pf_source = m, pf_messages = [m]\<rparr> s1 \<and> sent s [] s1"
proof -
  have "\<exists>st. on_state (\<lambda>st. ie_down_frontend env st m) s = Done (Returned (Inr m), s\<lparr>im_state := st\<rparr>)"
    "\<exists>st. on_state (\<lambda>st. ie_up_frontend env st m) s = Done (Returned (Inr m), s\<lparr>im_state := st\<rparr>)"
    "\<exists>st. boundary (\<lambda>st. ie_frontend_operation env st oid m) s = Done (Returned (Inr (Frontend_Forward m)), s\<lparr>im_state := st\<rparr>)"
    for s oid
    using assms by (auto simp: relaying_def)
  note run = this
  obtain a where a: "on_state (\<lambda>st. ie_down_frontend env st m) s = Done (Returned (Inr m), s\<lparr>im_state := a\<rparr>)" using run(1) by blast
  obtain b where b: "boundary (\<lambda>st. ie_frontend_operation env st (next_operation_id (im_pipeline s)) m) (s\<lparr>im_state := a\<rparr>)
      = Done (Returned (Inr (Frontend_Forward m)), s\<lparr>im_state := a\<rparr>\<lparr>im_state := b\<rparr>)" using run(3) by blast
  obtain c where c: "on_state (\<lambda>st. ie_up_frontend env st m) (s\<lparr>im_state := b\<rparr>) = Done (Returned (Inr m), s\<lparr>im_state := b\<rparr>\<lparr>im_state := c\<rparr>)"
    using run(2) by blast
  have "process_frontend env m s = forward_prepared_frontend env \<lparr>pf_source = m, pf_messages = [m]\<rparr> (s\<lparr>im_state := c\<rparr>)"
    using a b c by (simp add: process_frontend_def)
  then show ?thesis by (intro exI [of _ "s\<lparr>im_state := c\<rparr>"]) simp
qed

text \<open>What a call did to both directions, when it ended well or was held back by the capacity of the ledger.\<close>

definition benign :: "('e ForwardError + 'a) poll \<Rightarrow> bool" where
  "benign r = (\<forall>e. r = Returned (Inl e) \<longrightarrow> (\<exists>m. e = Forward_Frontend (Capacity m)))"

definition accounts :: "('st, 'e) intermediary_env \<Rightarrow> 'st IntermediaryConnection \<Rightarrow> FrontendMessage list \<Rightarrow> FrontendMessage list
    \<Rightarrow> 'st IntermediaryConnection \<Rightarrow> bool" where
  "accounts env s forwarded taken s' = (settled env s' \<and> single s' \<and>
     map Inr (passed s') @ im_up_script s' = map Inr (passed s) @ im_up_script s \<and>
     ups (im_log s') = ups (im_log s) @ forwarded \<and>
     map Inr (taken @ awaited s') @ im_down_script s' = map Inr (awaited s) @ im_down_script s)"

lemma accounts_refl: "settled env s \<Longrightarrow> single s \<Longrightarrow> accounts env s [] [] s"
  by (simp add: accounts_def)

lemma accounts_trans: "accounts env s f t s' \<Longrightarrow> accounts env s' f' t' s'' \<Longrightarrow> accounts env s (f @ f') (t @ t') s''"
  by (simp add: accounts_def)

fun on_value :: "('a \<Rightarrow> 'b list) \<Rightarrow> ('e + 'a) poll \<Rightarrow> 'b list" where
  "on_value f (Returned (Inr v)) = f v"
| "on_value f _ = []"

lemma prepared_accounts:
  assumes "settled env s" and "im_pending_frontend s = None" and "pf_messages prepared = [pf_source prepared]"
    and run: "forward_prepared_frontend env prepared s = Done (r, s')" and "benign r"
  shows "settled env s' \<and> single s' \<and> passed s' = passed s \<and> im_up_script s' = im_up_script s \<and>
    ups (im_log s') = ups (im_log s) @ on_value forwarded_by r \<and> on_value taken_by r @ awaited s' = [pf_source prepared] \<and>
    im_down_script s' = im_down_script s"
proof (cases "Done (r, s')" rule: outcome_cases)
  case (result v s'')
  with prepared_relay [OF assms(3), of env s v s'] assms(1,2) run show ?thesis
    by (auto simp: downward_same_def settled_def single_def awaited_def)
next
  case (fail e s'')
  with assms(5) obtain x where "e = Forward_Frontend (Capacity x)" by (auto simp: benign_def)
  with prepared_refused [of env prepared s] run fail assms(1,3) show ?thesis
    by (auto simp: settled_def single_def awaited_def passed_def)
qed (use prepared_prompt run in auto)

lemma process_frontend_accounts:
  assumes "relaying env" and "settled env s" and "im_pending_frontend s = None"
    and "process_frontend env m s = Done (r, s')" and "benign r"
  shows "settled env s' \<and> single s' \<and> passed s' = passed s \<and> im_up_script s' = im_up_script s \<and>
    ups (im_log s') = ups (im_log s) @ on_value forwarded_by r \<and> on_value taken_by r @ awaited s' = [m] \<and>
    im_down_script s' = im_down_script s"
proof -
  from process_frontend_relay [OF assms(1), of m s] assms(4) obtain s1 where
    s1: "forward_prepared_frontend env \<lparr>pf_source = m, pf_messages = [m]\<rparr> s1 = Done (r, s')" "sent s [] s1" by auto
  with assms(2,3) have "settled env s1" "im_pending_frontend s1 = None" by (auto simp: settled_def sent_def)
  from prepared_accounts [OF this _ s1(1) assms(5)] s1(2) show ?thesis by (simp add: sent_def passed_def)
qed

lemma forward_frontend_accounts:
  assumes "relaying env" and "settled env s" and "single s" and run: "forward_frontend env s = Done (r, s')" and "benign r"
  shows "accounts env s (on_value forwarded_by r) (on_value taken_by r) s'"
proof (cases "im_pending_frontend s")
  case (Some prepared)
  let ?s = "s\<lparr>im_pending_frontend := None\<rparr>"
  have "settled env ?s" using assms(2) by (simp add: settled_def)
  from prepared_accounts [OF this _ _ _ assms(5), of prepared s'] Some run assms(3) show ?thesis
    by (simp add: forward_frontend_def single_def accounts_def awaited_def passed_def)
next
  case None
  show ?thesis
  proof (cases "im_down_script s")
    case Nil
    with run None assms(2,3) show ?thesis by (auto simp: forward_frontend_def receive_downstream_def and_then_def accounts_refl)
  next
    case (Cons x rest)
    show ?thesis
    proof (cases x)
      case (Inr m)
      let ?s = "s\<lparr>im_down_script := rest\<rparr>"
      have "settled env ?s" using assms(2) by (simp add: settled_def)
      moreover have "process_frontend env m ?s = Done (r, s')"
        using run None Cons Inr by (simp add: forward_frontend_def receive_downstream_def and_then_def)
      ultimately show ?thesis
        using process_frontend_accounts [OF assms(1) _ _ _ assms(5), of ?s m s'] None Cons Inr
        by (simp add: accounts_def awaited_def passed_def)
    qed (use run None Cons assms(5) in \<open>auto simp: forward_frontend_def receive_downstream_def and_then_def benign_def\<close>)
  qed
qed

lemma clean_benign:
  assumes "clean x" and "x = Done (r, s')" and "benign r"
  obtains v where "x = Done (Returned (Inr v), s')"
  using assms by (cases x rule: outcome_cases) (auto simp: benign_def clean_def)

lemma arrival_accounts:
  assumes "relaying env" and "settled env s" and "single s"
    and run: "and_then receive_upstream (process_backend env) s = Done (r, s')" and "benign r"
  shows "accounts env s [] [] s'"
proof (cases "im_up_script s")
  case Nil
  with run assms(2,3) show ?thesis by (auto simp: receive_upstream_def and_then_def accounts_refl)
next
  case (Cons x rest)
  show ?thesis
  proof (cases x)
    case (Inr m)
    let ?s = "s\<lparr>im_up_script := rest\<rparr>"
    have process: "process_backend env m ?s = Done (r, s')"
      using run Cons Inr by (simp add: receive_upstream_def and_then_def)
    then obtain v where "process_backend env m ?s = Done (Returned (Inr v), s')"
      using clean_benign [OF clean_process_backend _ assms(5)] by blast
    from process_backend_relay [OF assms(1) _ this] assms(2,3) Cons Inr show ?thesis
      by (simp add: settled_def accounts_def upward_same_def passed_def single_def awaited_def)
  qed (use run Cons assms(5) in \<open>auto simp: receive_upstream_def and_then_def benign_def\<close>)
qed

lemma flush_accounts:
  assumes "relaying env" and "settled env s" and "single s" and "flush_backend_hold_for env reason s = Done (Returned (Inr v), s')"
  shows "v \<noteq> Batch_Kept \<and> accounts env s [] [] s'"
  using flush_relay [OF assms(1) _ assms(4)] assms(2,3)
  by (auto simp: accounts_def settled_def single_def awaited_def upward_same_def)

lemma make_room_accounts:
  assumes "relaying env" and "settled env s" and "single s" and "make_room env s = Done (Returned (Inr v), s')"
  shows "accounts env s [] [] s'"
  using assms
  by (auto simp: make_room_def must_flush_def and_then_result accounts_refl dest: flush_accounts split: if_splits)

lemma accounts_settled: "accounts env s f t s' \<Longrightarrow> settled env s' \<and> single s'"
  by (simp add: accounts_def)

lemma make_room_then:
  assumes "relaying env" and "settled env s" and "single s" and "and_then (make_room env) k s = Done (r, s')" and "benign r"
  obtains v s1 where "accounts env s [] [] s1" "k v s1 = Done (r, s')"
proof (cases "make_room env s" rule: outcome_cases)
  case (result v s1)
  with make_room_accounts [OF assms(1-3) result] assms(4) that show thesis by simp
qed (use assms(4,5) in \<open>auto simp: benign_def cleanD [OF clean_make_room]\<close>)

lemma forward_backend_accounts:
  assumes "relaying env" and "settled env s" and "single s" and "forward_backend env s = Done (r, s')" and "benign r"
  shows "accounts env s [] [] s'"
proof -
  have "pending (im_hold s) = None" using assms(2) by (simp add: settled_def pending_def)
  with assms(4) have "and_then (make_room env) (\<lambda>_. and_then receive_upstream (process_backend env)) s = Done (r, s')"
    by (simp add: forward_backend_def)
  then obtain s1 where s1: "accounts env s [] [] s1" "and_then receive_upstream (process_backend env) s1 = Done (r, s')"
    using make_room_then [OF assms(1-3) _ assms(5)] by metis
  from arrival_accounts [OF assms(1) _ _ s1(2) assms(5)] accounts_settled [OF s1(1)] accounts_trans [OF s1(1)] show ?thesis
    by fastforce
qed

text \<open>The value of a call wrapped by the caller.\<close>

lemma and_then_ok:
  "and_then f (\<lambda>v. ok (g v)) s = Done (r, s') \<Longrightarrow>
    \<exists>x. f s = Done (x, s') \<and> benign x = benign r \<and> on_value h r = on_value (\<lambda>v. h (g v)) x"
  by (cases "f s" rule: outcome_cases) (auto simp: ok_def benign_def)

lemma and_then_assoc: "and_then f (\<lambda>v. and_then (g v) h) s = and_then (and_then f g) h s"
  by (cases "f s" rule: outcome_cases) (auto simp: and_then_def)

fun of_outcome :: "(FrontendForwarding \<Rightarrow> 'b list) \<Rightarrow> forward_outcome \<Rightarrow> 'b list" where
  "of_outcome f (Frontend_outcome v) = f v"
| "of_outcome f _ = []"

definition of_next :: "(FrontendForwarding \<Rightarrow> 'b list) \<Rightarrow> ForwardedMessage \<Rightarrow> 'b list" where
  "of_next f v = of_outcome f (next_outcome v)"

lemma of_next_simps [simp]: "of_next f (forwarded_frontend v) = f v" "of_next f (forwarded_backend v') = []"
  by (simp_all add: of_next_def)

lemma on_value_none: "on_value (\<lambda>_. []) r = []"
proof (cases r)
  case (Returned x)
  then show ?thesis by (cases x) simp_all
qed simp

lemma await_backend_accounts:
  assumes "relaying env" and "settled env s" and "single s" and "benign r"
    and "and_then receive_upstream (\<lambda>m. and_then (process_backend env m) (\<lambda>v. ok (forwarded_backend v))) s = Done (r, s')"
  shows "accounts env s (on_value (of_next forwarded_by) r) (on_value (of_next taken_by) r) s'"
proof -
  note run = assms(5) [unfolded and_then_assoc]
  from and_then_ok [OF run, of "of_next forwarded_by"] obtain x where
    x: "and_then receive_upstream (process_backend env) s = Done (x, s')" "benign x"
      "on_value (of_next forwarded_by) r = []" using assms(4) by (auto simp: on_value_none)
  from and_then_ok [OF run, of "of_next taken_by"] have "on_value (of_next taken_by) r = []" by (auto simp: on_value_none)
  with arrival_accounts [OF assms(1-3) x(1,2)] x(3) show ?thesis by simp
qed

lemma await_next_accounts:
  assumes "relaying env" and "settled env s" and "single s" and "await_next env downstream_first s = Done (r, s')" and "benign r"
  shows "accounts env s (on_value (of_next forwarded_by) r) (on_value (of_next taken_by) r) s'"
proof (cases "im_pending_frontend s = None \<and> im_down_script s \<noteq> [] \<and> (downstream_first \<or> im_up_script s = [])")
  case True
  with assms(4) have run: "and_then (forward_frontend env) (\<lambda>v. ok (forwarded_frontend v)) s = Done (r, s')"
    by (simp add: await_next_def await_either_def and_then_assoc and_then_def [of "forward_frontend env"] forward_frontend_def
        and_then_def [of "and_then _ _"])
  from and_then_ok [OF run, of "of_next forwarded_by"] and_then_ok [OF run, of "of_next taken_by"] assms(5) obtain x where
    "forward_frontend env s = Done (x, s')" "benign x"
    "on_value (of_next forwarded_by) r = on_value forwarded_by x" "on_value (of_next taken_by) r = on_value taken_by x"
    by auto
  with forward_frontend_accounts [OF assms(1-3)] show ?thesis by metis
next
  case False
  with assms show ?thesis
    by (auto simp: await_next_def await_either_def intro: await_backend_accounts split: if_splits)
qed

lemma forward_next_accounts:
  assumes "relaying env" and "settled env s" and "single s" and "forward_next env downstream_first s = Done (r, s')" and "benign r"
  shows "accounts env s (on_value (of_next forwarded_by) r) (on_value (of_next taken_by) r) s'"
proof -
  have "pending (im_hold s) = None" using assms(2) by (simp add: settled_def pending_def)
  with assms(4) obtain s1 where start: "accounts env s [] [] s1" and run: "(case im_pending_frontend s1 of
          None \<Rightarrow> await_next env downstream_first s1
        | Some prepared \<Rightarrow> (case forward_prepared_frontend env prepared (s1\<lparr>im_pending_frontend := None\<rparr>) of
            Done (Returned (Inl (Forward_Frontend (Capacity _))), s) \<Rightarrow> await_next env downstream_first s
          | Done (Returned (Inl error), s) \<Rightarrow> err error s
          | Done (Returned (Inr outcome), s) \<Rightarrow> ok (forwarded_frontend outcome) s
          | Done (Pending, s) \<Rightarrow> Done (Pending, s)
          | Panic \<Rightarrow> Panic)) = Done (r, s')"
    by (auto simp: forward_next_def elim: make_room_then [OF assms(1-3) _ assms(5)])
  note s1 = accounts_settled [OF start]
  note await = await_next_accounts [OF assms(1), of s1 downstream_first r s']
  have "accounts env s1 (on_value (of_next forwarded_by) r) (on_value (of_next taken_by) r) s'"
  proof (cases "im_pending_frontend s1")
    case None
    with run await s1 assms(5) show ?thesis by simp
  next
    case (Some prepared)
    let ?s = "s1\<lparr>im_pending_frontend := None\<rparr>"
    have lifted: "settled env ?s" "pf_messages prepared = [pf_source prepared]"
      using s1 Some by (simp_all add: settled_def single_def)
    show ?thesis
    proof (cases "forward_prepared_frontend env prepared ?s" rule: outcome_cases)
      case (fail e s2)
      show ?thesis
      proof (cases "\<exists>x. e = Forward_Frontend (Capacity x)")
        case True
        with prepared_refused [of env prepared ?s] fail Some have "s2 = s1" by auto
        with True run await s1 assms(5) Some fail show ?thesis by auto
      qed (use run Some fail assms(5) in \<open>auto simp: err_def benign_def split: ForwardError.splits FrontendProjectionError.splits\<close>)
    next
      case (result v s2)
      have "awaited s1 = [pf_source prepared]" using Some by (simp add: awaited_def)
      with prepared_accounts [OF lifted(1) _ lifted(2) result] run result Some show ?thesis
        by (auto simp: ok_def benign_def accounts_def passed_def simp del: map_append)
    qed (use run Some prepared_prompt in auto)
  qed
  from accounts_trans [OF start this] show ?thesis by simp
qed

section \<open>Transparency\<close>

fun from_client :: "forward_call \<Rightarrow> FrontendMessage script" where
  "from_client (Client_sends m) = [m]"
| "from_client _ = []"

fun from_server :: "forward_call \<Rightarrow> BackendMessage script" where
  "from_server (Server_sends m) = [m]"
| "from_server _ = []"

lemma calls_account:
  assumes "relaying env" and "settled env s" and "single s" and run: "forward_step env call s = Done (r, s')" and "benign r"
    and "from_client call = []" and "from_server call = []"
  shows "accounts env s (on_value (of_outcome forwarded_by) r) (on_value (of_outcome taken_by) r) s'"
proof (cases call)
  case Call_forward_frontend
  with run have run': "and_then (forward_frontend env) (\<lambda>v. ok (Frontend_outcome v)) s = Done (r, s')" by simp
  from and_then_ok [OF run', of "of_outcome forwarded_by"] and_then_ok [OF run', of "of_outcome taken_by"] assms(5)
    forward_frontend_accounts [OF assms(1-3)] show ?thesis by auto
next
  case Call_forward_backend
  with run have run': "and_then (forward_backend env) (\<lambda>v. ok (Backend_outcome v)) s = Done (r, s')" by simp
  from and_then_ok [OF run', of "of_outcome forwarded_by"] and_then_ok [OF run', of "of_outcome taken_by"] assms(5)
    forward_backend_accounts [OF assms(1-3)] show ?thesis by (auto simp: on_value_none)
next
  case (Call_forward_next first)
  with run have run': "and_then (forward_next env first) (\<lambda>v. ok (next_outcome v)) s = Done (r, s')" by simp
  from and_then_ok [OF run', of "of_outcome forwarded_by"] and_then_ok [OF run', of "of_outcome taken_by"] assms(5)
    forward_next_accounts [OF assms(1-3)] show ?thesis by (auto simp flip: of_next_def)
next
  case Call_flush_backend_hold
  with run have run': "and_then (flush_backend_hold env) (\<lambda>v. ok (Batch_outcome v)) s = Done (r, s')" by simp
  then obtain x where x: "flush_backend_hold_for env Reason_Explicit s = Done (x, s')" "benign x"
    using and_then_ok [OF run', of "of_outcome forwarded_by"] assms(5) by (auto simp: flush_backend_hold_def)
  obtain v where "flush_backend_hold_for env Reason_Explicit s = Done (Returned (Inr v), s')"
    by (rule clean_benign [OF clean_flush x])
  with flush_accounts [OF assms(1-3) this] run' show ?thesis by (auto simp: flush_backend_hold_def ok_def)
next
  case Call_prepare_backend_teardown
  with run have run': "and_then (prepare_backend_teardown env) (\<lambda>v. ok (Batch_outcome v)) s = Done (r, s')" by simp
  then obtain x where x: "prepare_backend_teardown env s = Done (x, s')" "benign x"
    using and_then_ok [OF run', of "of_outcome forwarded_by"] assms(5) by auto
  obtain v where v: "prepare_backend_teardown env s = Done (Returned (Inr v), s')" by (rule clean_benign [OF clean_teardown x])
  then have "flush_backend_hold_for env Reason_Teardown s = Done (Returned (Inr v), s')"
    by (auto simp: prepare_backend_teardown_def and_then_result split: if_splits)
  from flush_accounts [OF assms(1-3) this] run' v show ?thesis by (auto simp: ok_def)
qed (use assms(6,7) in simp_all)

lemma run_accounts:
  assumes "relaying env"
  shows "forward_run env s calls = Done (rs, s') \<Longrightarrow> list_all benign rs \<Longrightarrow> settled env s \<Longrightarrow> single s \<Longrightarrow>
    map Inr (passed s') @ im_up_script s' = map Inr (passed s) @ im_up_script s @ concat (map from_server calls) \<and>
    ups (im_log s') = ups (im_log s) @ concat (map (on_value (of_outcome forwarded_by)) rs) \<and>
    map Inr (concat (map (on_value (of_outcome taken_by)) rs) @ awaited s') @ im_down_script s' =
      map Inr (awaited s) @ im_down_script s @ concat (map from_client calls)"
proof (induction calls arbitrary: s rs)
  case (Cons call calls)
  from Cons.prems(1) obtain r s1 rs1 where step: "forward_step env call s = Done (r, s1)" "forward_run env s1 calls = Done (rs1, s')"
    "rs = r # rs1" by (auto split: exec.splits)
  show ?case
  proof (cases "from_client call = [] \<and> from_server call = []")
    case True
    with calls_account [OF assms Cons.prems(3,4) step(1)] Cons.prems(2) step(3)
    have acc: "accounts env s (on_value (of_outcome forwarded_by) r) (on_value (of_outcome taken_by) r) s1" by simp
    have chain: "a @ e = d @ f" if "a @ b @ c = d" "e = b @ c @ f" for a b c d e f :: "FrontendMessage script"
      using that by auto
    have later: "map Inr (passed s') @ im_up_script s' = map Inr (passed s1) @ im_up_script s1 @ concat (map from_server calls)"
      "ups (im_log s') = ups (im_log s1) @ concat (map (on_value (of_outcome forwarded_by)) rs1)"
      "map Inr (concat (map (on_value (of_outcome taken_by)) rs1) @ awaited s') @ im_down_script s' =
        map Inr (awaited s1) @ im_down_script s1 @ concat (map from_client calls)"
      using Cons.IH [OF step(2)] accounts_settled [OF acc] Cons.prems(2) step(3) by simp_all
    have now: "map Inr (passed s1) @ im_up_script s1 = map Inr (passed s) @ im_up_script s"
      "ups (im_log s1) = ups (im_log s) @ on_value (of_outcome forwarded_by) r"
      "map Inr (on_value (of_outcome taken_by) r) @ map Inr (awaited s1) @ im_down_script s1 = map Inr (awaited s) @ im_down_script s"
      using acc by (simp_all add: accounts_def)
    from chain [OF now(3) later(3)] later(1,2) now(1,2) True step(3) show ?thesis
      by (simp flip: append_assoc)
  next
    case False
    then consider m where "call = Client_sends m" | m where "call = Server_sends m" by (cases call) auto
    then show ?thesis
    proof cases
      case (1 m)
      with step(1) have s1: "s1 = s\<lparr>im_down_script := im_down_script s @ [m]\<rparr>" "r = Returned (Inr Arrived)"
        by (auto simp: ok_def)
      from s1 Cons.prems(3,4) have "settled env s1" "single s1" by (simp_all add: settled_def single_def)
      with Cons.IH [OF step(2)] Cons.prems(2) step(3) s1 1 show ?thesis by (simp add: passed_def awaited_def)
    next
      case (2 m)
      with step(1) have s1: "s1 = s\<lparr>im_up_script := im_up_script s @ [m]\<rparr>" "r = Returned (Inr Arrived)"
        by (auto simp: ok_def)
      from s1 Cons.prems(3,4) have "settled env s1" "single s1" by (simp_all add: settled_def single_def)
      with Cons.IH [OF step(2)] Cons.prems(2) step(3) s1 2 show ?thesis by (simp add: passed_def awaited_def)
    qed
  qed
qed simp


lemma relay_run:
  "\<exists>rs s. forward_run (relay_env (BackendHoldLimits_new 2 64)) (IntermediaryConnection_new () NoPipeline)
     (holding_run @ [Server_sends (Inr (B_CommandComplete [])), Call_forward_backend]) = Done (rs, s) \<and> list_all benign rs \<and>
     im_log s = [Sent_upstream (F_Query []), Sent_downstream held_row, Sent_downstream (B_CommandComplete [])]"
  by (simp add: forward_eval ledger_eval eval_defs BackendHoldLimits_new_def
      retained_bytes_def saturating_add_def usize_max_def benign_def)


end
