(* ===== verification/Client_Connect.thy ===== *)
theory Client_Connect
  imports Client_Establish Utf8
begin

text \<open>
  \<open>src/client_component.rs\<close>: startup parameters, TLS negotiation, how a client connects and how it cancels.  What the
  application's connector, the transport before TLS, the TLS provider and the handshake give for one attempt are
  parameters, and so is what the server sends afterwards.
\<close>

section \<open>Startup parameters\<close>

text \<open>A \<open>String\<close> is its bytes, which are UTF-8; strings are ordered as their bytes.\<close>

record StartupParameters =
  sp_user :: "bytes option"
  sp_database :: "bytes option"
  sp_extensions :: "(bytes, bytes) btree"

datatype StartupParameterError = ReservedExtension bytes | MissingUser

definition StartupParameters_default :: StartupParameters where
  "StartupParameters_default = \<lparr>sp_user = None, sp_database = None, sp_extensions = []\<rparr>"

definition StartupParameters_new :: "bytes \<Rightarrow> StartupParameters" where
  "StartupParameters_new user = StartupParameters_default\<lparr>sp_user := Some user\<rparr>"

fun take_wire :: "(bytes \<times> bytes) list \<Rightarrow> StartupParameters \<Rightarrow> io_error + StartupParameters" where
  "take_wire [] parameters = Inr parameters"
| "take_wire ((name, value) # rest) parameters =
     (if \<not> utf8 name then Inl (invalid ''startup parameter name is not UTF-8'')
      else if \<not> utf8 value then Inl (invalid ''startup parameter value is not UTF-8'')
      else take_wire rest
        (if name = bstr ''user'' then parameters\<lparr>sp_user := Some value\<rparr>
         else if name = bstr ''database'' then parameters\<lparr>sp_database := Some value\<rparr>
         else parameters\<lparr>sp_extensions := snd (btree_insert name value (sp_extensions parameters))\<rparr>))"

definition from_wire :: "StartupMessage \<Rightarrow> io_error + StartupParameters" where
  "from_wire message = take_wire (startup_parameters message) StartupParameters_default"

definition with_database :: "StartupParameters \<Rightarrow> bytes \<Rightarrow> StartupParameters" where
  "with_database parameters database = parameters\<lparr>sp_database := Some database\<rparr>"

definition extension :: "StartupParameters \<Rightarrow> bytes \<Rightarrow> bytes \<Rightarrow> StartupParameterError + StartupParameters" where
  "extension parameters name value =
     (if name = bstr ''user'' \<or> name = bstr ''database'' then Inl (ReservedExtension name)
      else Inr (parameters\<lparr>sp_extensions := snd (btree_insert name value (sp_extensions parameters))\<rparr>))"

definition merged_with :: "StartupParameters \<Rightarrow> StartupParameters \<Rightarrow> StartupParameters" where
  "merged_with parameters overrides = \<lparr>
     sp_user = (if sp_user overrides \<noteq> None then sp_user overrides else sp_user parameters),
     sp_database = (if sp_database overrides \<noteq> None then sp_database overrides else sp_database parameters),
     sp_extensions = fold (\<lambda>(name, value) m. snd (btree_insert name value m)) (sp_extensions overrides) (sp_extensions parameters)\<rparr>"

definition into_message :: "StartupParameters \<Rightarrow> StartupParameterError + StartupMessage" where
  "into_message parameters = (case sp_user parameters of
     None \<Rightarrow> Inl MissingUser
   | Some user \<Rightarrow>
       let parameters' = snd (btree_insert (bstr ''user'') user (sp_extensions parameters));
           parameters' = (case sp_database parameters of
             None \<Rightarrow> parameters' | Some database \<Rightarrow> snd (btree_insert (bstr ''database'') database parameters')) in
       Inr \<lparr>startup_version = V3_2, startup_parameters = parameters'\<rparr>)"

section \<open>Attempts\<close>

datatype ClientTlsStatus = Status_Plaintext | Status_Encrypted

record ('target, 'ev) ClientConnectionContext =
  cc_target :: 'target
  cc_tls :: "ClientTlsStatus option"
  cc_identity :: "'ev option"
  cc_backend_key :: "CancelKey option"

datatype 'pe ClientTlsError = Tls_Provider 'pe | Tls_Handshake io_error

datatype ('ce, 'pe, 'e) ConnectError =
    Connect_Connector 'ce | Connect_Tls "'pe ClientTlsError" | Connect_Authentication "'e ClientAuthenticationError"
  | Connect_Startup StartupParameterError | Connect_Protocol io_error

datatype 'ce CancelError = Cancel_Connector 'ce | Cancel_Protocol io_error

text \<open>
  One call of the connector and what its transport does: writing and flushing the request for TLS, the byte read after
  it (none while the read is pending), the provider and the handshake, then the session.
\<close>

record ('ce, 'pe) attempt =
  at_open :: "'ce + unit"
  at_write :: "io_error option"
  at_flush :: "io_error option"
  at_reply :: "(io_error + u8) option"
  at_provider :: "'pe + unit"
  at_handshake :: "io_error + unit"
  at_inbound :: "BackendMessage script"
  at_flushes :: "io_error option list"

datatype connect_event = Opened | Wrote bytes | Secured | In_session client_event

text \<open>The connector, policies and middleware of a client; \<open>cn_idle\<close> stands for the policy before it begins.\<close>

record ('target, 'pol, 'st, 'e, 'ev) connect_env =
  cn_defaults :: StartupParameters
  cn_tls :: "SslMode option"
  cn_pre_startup :: "('target, 'ev) ClientConnectionContext \<Rightarrow> 'st \<Rightarrow> PreStartupMessage \<Rightarrow> PreStartupMessage \<times> 'st"
  cn_startup :: "('target, 'ev) ClientConnectionContext \<Rightarrow> 'st \<Rightarrow> StartupMessage \<Rightarrow> StartupMessage \<times> 'st"
  cn_session :: "('target, 'ev) ClientConnectionContext \<Rightarrow> ('pol, 'st, 'e, 'ev) client_env"
  cn_idle :: 'pol

text \<open>What a call is ready with, the state of the application and the log.\<close>

type_synonym ('st, 'r) connecting = "'r poll \<times> 'st \<times> connect_event list"

section \<open>TLS\<close>

definition negotiate_client_tls :: "('target, 'pol, 'st, 'e, 'ev) connect_env \<Rightarrow> ('ce, 'pe) attempt \<Rightarrow> SslMode
    \<Rightarrow> ('target, 'ev) ClientConnectionContext \<Rightarrow> 'st \<Rightarrow> connect_event list
    \<Rightarrow> ('st, 'pe ClientTlsError + ('target, 'ev) ClientConnectionContext) connecting" where
  "negotiate_client_tls env at mode context st log =
     (if \<not> request_on_first_connection (strategy mode)
      then (Returned (Inr (context\<lparr>cc_tls := Some Status_Plaintext\<rparr>)), st, log)
      else case cn_pre_startup env context st P_SslRequest of (request, st) \<Rightarrow>
        if request \<noteq> P_SslRequest
        then (Returned (Inl (Tls_Handshake (invalid ''middleware replaced SSLRequest with an incompatible packet''))), st, log)
        else let log = log @ [Wrote [0, 0, 0, 8, 4, 210, 22, 47]] in
          (case at_write at of
             Some error \<Rightarrow> (Returned (Inl (Tls_Handshake error)), st, log)
           | None \<Rightarrow> (case at_flush at of
               Some error \<Rightarrow> (Returned (Inl (Tls_Handshake error)), st, log)
             | None \<Rightarrow> (case at_reply at of
                 None \<Rightarrow> (Pending, st, log)
               | Some (Inl error) \<Rightarrow> (Returned (Inl (Tls_Handshake error)), st, log)
               | Some (Inr reply) \<Rightarrow>
                   if reply = byte CHR ''S'' then
                     (case at_provider at of
                        Inl error \<Rightarrow> (Returned (Inl (Tls_Provider error)), st, log)
                      | Inr _ \<Rightarrow> (case at_handshake at of
                          Inl error \<Rightarrow> (Returned (Inl (Tls_Handshake error)), st, log)
                        | Inr _ \<Rightarrow> (Returned (Inr (context\<lparr>cc_tls := Some Status_Encrypted\<rparr>)), st, log @ [Secured])))
                   else if reply = byte CHR ''N'' then
                     (if allow_server_rejection (strategy mode)
                      then (Returned (Inr (context\<lparr>cc_tls := Some Status_Plaintext\<rparr>)), st, log)
                      else (Returned (Inl (Tls_Handshake (IoError PermissionDenied ''server rejected required TLS''))), st, log))
                   else if reply = byte CHR ''E'' then
                     (Returned (Inl (Tls_Handshake (IoError ConnectionAborted ''server terminated TLS negotiation''))), st, log)
                   else (Returned (Inl (Tls_Handshake (invalid ''invalid TLS negotiation response''))), st, log)))))"

section \<open>Connecting\<close>

fun map_session_error :: "'e SessionEstablishError \<Rightarrow> ('ce, 'pe, 'e) ConnectError" where
  "map_session_error (Establish_Authentication error) = Connect_Authentication error"
| "map_session_error (Establish_Protocol error) = Connect_Protocol error"

text \<open>\<open>handler.startup\<close> and \<open>establish_client_session\<close> on the transport of an attempt.\<close>

definition establish_on :: "('target, 'pol, 'st, 'e, 'ev) connect_env \<Rightarrow> ('ce, 'pe) attempt
    \<Rightarrow> ('target, 'ev) ClientConnectionContext \<Rightarrow> StartupMessage \<Rightarrow> 'st \<Rightarrow> connect_event list
    \<Rightarrow> ('st, 'e SessionEstablishError +
        (unit AuthConn \<times> 'ev \<times> CancelKey option \<times> Demux) \<times> BackendMessage script \<times> io_error option list) connecting exec" where
  "establish_on env at context message st log = (case cn_startup env context st message of (message, st) \<Rightarrow>
     (case establish_client_session (cn_session env context) message (at_inbound at)
         \<lparr>cr_policy = cn_idle env, cr_state = st, cr_flushes = at_flushes at, cr_log = []\<rparr> of
        Panic \<Rightarrow> Panic
      | Done (Pending, _, r) \<Rightarrow> Done (Pending, cr_state r, log @ map In_session (cr_log r))
      | Done (Returned (Inl error), _, r) \<Rightarrow> Done (Returned (Inl error), cr_state r, log @ map In_session (cr_log r))
      | Done (Returned (Inr session), rest, r) \<Rightarrow> Done (Returned (Inr (session, rest, cr_flushes r)), cr_state r, log @ map In_session (cr_log r))))"

text \<open>The transport of a connector, TLS under a mode and the context it leaves.\<close>

definition open_transport :: "('target, 'pol, 'st, 'e, 'ev) connect_env \<Rightarrow> ('ce, 'pe) attempt \<Rightarrow> SslMode option
    \<Rightarrow> ('target, 'ev) ClientConnectionContext \<Rightarrow> 'st \<Rightarrow> connect_event list
    \<Rightarrow> ('st, ('ce, 'pe, 'e) ConnectError + ('target, 'ev) ClientConnectionContext) connecting" where
  "open_transport env at mode context st log = (case at_open at of
     Inl error \<Rightarrow> (Returned (Inl (Connect_Connector error)), st, log)
   | Inr _ \<Rightarrow>
       let log = log @ [Opened] in
       (case mode of
          None \<Rightarrow> (Returned (Inr (context\<lparr>cc_tls := Some Status_Plaintext\<rparr>)), st, log)
        | Some mode \<Rightarrow> (case negotiate_client_tls env at mode context st log of
            (Pending, st, log) \<Rightarrow> (Pending, st, log)
          | (Returned (Inl error), st, log) \<Rightarrow> (Returned (Inl (Connect_Tls error)), st, log)
          | (Returned (Inr context), st, log) \<Rightarrow> (Returned (Inr context), st, log))))"

record ('target, 'ev) ClientConnectionCore =
  core_connection :: "unit AuthConn"
  core_demux :: Demux
  core_context :: "('target, 'ev) ClientConnectionContext"
  core_unread :: "BackendMessage script"
  core_flushes :: "io_error option list"

definition connected_core :: "('target, 'ev) ClientConnectionContext
    \<Rightarrow> (unit AuthConn \<times> 'ev \<times> CancelKey option \<times> Demux) \<times> BackendMessage script \<times> io_error option list
    \<Rightarrow> ('target, 'ev) ClientConnectionCore" where
  "connected_core context session = (case session of ((connection, identity, backend_key, demux), unread, flushes) \<Rightarrow>
     \<lparr>core_connection = connection, core_demux = demux,
      core_context = context\<lparr>cc_identity := Some identity, cc_backend_key := backend_key\<rparr>, core_unread = unread,
      core_flushes = flushes\<rparr>)"

definition connect_core :: "('target, 'pol, 'st, 'e, 'ev) connect_env \<Rightarrow> 'target \<Rightarrow> StartupParameters
    \<Rightarrow> ('ce, 'pe) attempt \<Rightarrow> ('ce, 'pe) attempt \<Rightarrow> 'st
    \<Rightarrow> ('st, ('ce, 'pe, 'e) ConnectError + ('target, 'ev) ClientConnectionCore) connecting exec" where
  "connect_core env target overrides first retry st = (case into_message (merged_with (cn_defaults env) overrides) of
     Inl error \<Rightarrow> Done (Returned (Inl (Connect_Startup error)), st, [])
   | Inr message \<Rightarrow>
       (case open_transport env first (cn_tls env)
           \<lparr>cc_target = target, cc_tls = None, cc_identity = None, cc_backend_key = None\<rparr> st [] of
          (Pending, st, log) \<Rightarrow> Done (Pending, st, log)
        | (Returned (Inl error), st, log) \<Rightarrow> Done (Returned (Inl error), st, log)
        | (Returned (Inr context), st, log) \<Rightarrow> (case establish_on env first context message st log of
            Panic \<Rightarrow> Panic
          | Done (Pending, st, log) \<Rightarrow> Done (Pending, st, log)
          | Done (Returned (Inr session), st, log) \<Rightarrow> Done (Returned (Inr (connected_core context session)), st, log)
          | Done (Returned (Inl error), st, log) \<Rightarrow>
              if cn_tls env \<noteq> Some Allow then Done (Returned (Inl (map_session_error error)), st, log)
              else (case open_transport env retry (Some Require) (context\<lparr>cc_tls := None\<rparr>) st log of
                (Pending, st, log) \<Rightarrow> Done (Pending, st, log)
              | (Returned (Inl error), st, log) \<Rightarrow> Done (Returned (Inl error), st, log)
              | (Returned (Inr context), st, log) \<Rightarrow> (case establish_on env retry context message st log of
                  Panic \<Rightarrow> Panic
                | Done (Pending, st, log) \<Rightarrow> Done (Pending, st, log)
                | Done (Returned (Inr session), st, log) \<Rightarrow> Done (Returned (Inr (connected_core context session)), st, log)
                | Done (Returned (Inl error), st, log) \<Rightarrow> Done (Returned (Inl (map_session_error error)), st, log))))))"

section \<open>Cancelling\<close>

text \<open>A fresh transport, the packet and the shutdown; the bytes written are returned as well.\<close>

definition cancel :: "'ce + unit \<Rightarrow> io_error option \<Rightarrow> io_error option \<Rightarrow> CancelKey \<Rightarrow> ('ce CancelError + unit) \<times> bytes" where
  "cancel opened write shutdown key = (case opened of
     Inl error \<Rightarrow> (Inl (Cancel_Connector error), [])
   | Inr _ \<Rightarrow> (case to_packet (P_CancelRequest (key_process_id key) (key_secret key)) of
       Inl error \<Rightarrow> (Inl (Cancel_Protocol error), [])
     | Inr packet \<Rightarrow> (case write of
         Some error \<Rightarrow> (Inl (Cancel_Protocol error), [])
       | None \<Rightarrow> (case shutdown of
           Some error \<Rightarrow> (Inl (Cancel_Protocol error), packet)
         | None \<Rightarrow> (Inr (), packet)))))"

end
