(* ===== verification/Intermediary_Accept.thy ===== *)
theory Intermediary_Accept
  imports Intermediary Server_Accept Client_Connect
begin

text \<open>
  \<open>src/intermediary_component.rs\<close>: how an intermediary accepts a connection.  It accepts the client with the server
  component, routes it, connects to PostgreSQL with the client component, registers the cancellation key and completes
  the startup of the client, or it forwards a cancellation.  The registry and the routing policies of the application
  are parameters; the registries of the crate are modelled.
\<close>

section \<open>Policies\<close>

datatype CancellationPolicy = Cancellation_Reject | Cancellation_Forward

datatype EstablishmentFailurePolicy = Failure_Close | Failure_SafeDiagnostic

definition safe_establishment_diagnostic :: BackendMessage where
  "safe_establishment_diagnostic = B_ErrorResponse \<lparr>diagnostic_fields =
     [\<lparr>diagnostic_code = byte CHR ''S'', diagnostic_value = bstr ''ERROR''\<rparr>,
      \<lparr>diagnostic_code = byte CHR ''M'', diagnostic_value = bstr ''connection establishment failed''\<rparr>]\<rparr>"

section \<open>Cancellation routes\<close>

record 'target CancellationRoute =
  route_target :: 'target
  route_upstream :: CancelKey

text \<open>The trait \<open>IntermediaryCancellationRegistry\<close>, whose methods may change the state behind \<open>&self\<close>.\<close>

record ('reg, 'target, 'ke) cancellation_registry =
  rg_register :: "'reg \<Rightarrow> 'target CancellationRoute \<Rightarrow> (('ke + CancelKey) \<times> 'reg) exec"
  rg_resolve :: "'reg \<Rightarrow> CancelKey \<Rightarrow> 'target CancellationRoute option"
  rg_detach :: "'reg \<Rightarrow> CancelKey \<Rightarrow> 'target CancellationRoute option \<times> 'reg"

text \<open>\<open>InMemoryCancellationRegistry\<close>: the map and whether its lock is poisoned.\<close>

record 'target InMemoryCancellationRegistry =
  mem_routes :: "CancelKey \<Rightarrow> 'target CancellationRoute option"
  mem_poisoned :: bool

datatype InMemoryCancellationRegistryError = DuplicateKey | Poisoned

definition in_memory_register :: "'target InMemoryCancellationRegistry \<Rightarrow> 'target CancellationRoute
    \<Rightarrow> ((InMemoryCancellationRegistryError + CancelKey) \<times> 'target InMemoryCancellationRegistry) exec" where
  "in_memory_register registry way = (let client_key = route_upstream way in
     Done (if mem_poisoned registry then (Inl Poisoned, registry)
       else if mem_routes registry client_key \<noteq> None then (Inl DuplicateKey, registry)
       else (Inr client_key, registry\<lparr>mem_routes := (mem_routes registry)(client_key \<mapsto> way)\<rparr>)))"

definition in_memory_resolve :: "'target InMemoryCancellationRegistry \<Rightarrow> CancelKey \<Rightarrow> 'target CancellationRoute option" where
  "in_memory_resolve registry client = (if mem_poisoned registry then None else mem_routes registry client)"

definition in_memory_detach :: "'target InMemoryCancellationRegistry \<Rightarrow> CancelKey
    \<Rightarrow> 'target CancellationRoute option \<times> 'target InMemoryCancellationRegistry" where
  "in_memory_detach registry client = (if mem_poisoned registry then (None, registry)
     else (mem_routes registry client, registry\<lparr>mem_routes := (mem_routes registry)(client := None)\<rparr>))"

definition in_memory_registry :: "('target InMemoryCancellationRegistry, 'target, InMemoryCancellationRegistryError) cancellation_registry" where
  "in_memory_registry = \<lparr>rg_register = in_memory_register, rg_resolve = in_memory_resolve, rg_detach = in_memory_detach\<rparr>"

text \<open>\<open>RejectCancellation\<close>, whose \<open>register\<close> is \<open>unreachable!\<close>.\<close>

definition reject_registry :: "(unit, 'target, 'ke) cancellation_registry" where
  "reject_registry = \<lparr>rg_register = (\<lambda>_ _. Panic), rg_resolve = (\<lambda>_ _. None), rg_detach = (\<lambda>registry _. (None, registry))\<rparr>"

section \<open>Startup routes\<close>

datatype 'rr StartupResolutionError = Resolution_Parameters io_error | Resolution_Resolver 'rr

text \<open>The adapter of \<open>StartupRouteResolver\<close>; a panic of its \<open>expect\<close> is the error \<open>Panic\<close>.\<close>

definition resolve_startup :: "(StartupParameters \<Rightarrow> 'peer \<Rightarrow> NegotiatedServerTls \<Rightarrow> 'rr + 'target) \<Rightarrow> StartupMessage
    \<Rightarrow> ('peer, 'id) ServerConnectionContext \<Rightarrow> 'st \<Rightarrow> ('rr StartupResolutionError exec + 'target) \<times> 'st" where
  "resolve_startup resolver message ctx st = (case from_wire message of
     Inl error \<Rightarrow> (Inl (Done (Resolution_Parameters error)), st)
   | Inr parameters \<Rightarrow> (case ctx_tls ctx of
       None \<Rightarrow> (Inl Panic, st)
     | Some tls \<Rightarrow> (case resolver parameters (ctx_peer ctx) tls of
         Inl error \<Rightarrow> (Inl (Done (Resolution_Resolver error)), st)
       | Inr target \<Rightarrow> (Inr target, st))))"

section \<open>The intermediary and its runs\<close>

datatype ('se, 'rr, 'ae, 'ce, 'ke, 'xe, 'me) IntermediaryAcceptError =
    Accept_Server 'se
  | Accept_StartupRoute "'rr StartupResolutionError"
  | Accept_CancellationRejected
  | Accept_AuthenticatedRoute 'ae
  | Accept_Client 'ce
  | Accept_CancellationRegistry 'ke
  | Accept_ServerOutput io_error
  | Accept_Cancellation 'xe
  | Accept_Middleware 'me

text \<open>
  The components and policies of an intermediary, and what the connector gives for a target: the attempts of a
  connection, and opening, writing and shutting down for a cancellation.
\<close>

record ('pol, 'peer, 'id, 'e, 'st, 't, 'rr, 'target, 'cpol, 'cle, 'ev, 'ce, 'pe, 'ae, 'me, 'reg, 'ke) intermediary =
  in_server :: "('pol, 'peer, 'id, 'e, 'st, 't, 'rr StartupResolutionError exec, 'target) server_env"
  in_resolver :: "StartupParameters \<Rightarrow> 'peer \<Rightarrow> NegotiatedServerTls \<Rightarrow> 'rr + 'target"
  in_route :: "'target \<Rightarrow> 'peer \<Rightarrow> 'id \<Rightarrow> 'ae + 'target"
  in_client :: "('target, 'cpol, 'st, 'cle, 'ev) connect_env"
  in_attempts :: "'target \<Rightarrow> ('ce, 'pe) attempt \<times> ('ce, 'pe) attempt"
  in_cancel_attempt :: "'target \<Rightarrow> ('ce + unit) \<times> io_error option \<times> io_error option"
  in_boundary_backend :: "('peer, 'id) ServerConnectionContext \<Rightarrow> ('target, 'ev) ClientConnectionContext \<Rightarrow> 'st
    \<Rightarrow> BackendMessage \<Rightarrow> ('me + BackendMiddlewareOutput) \<times> 'st"
  in_cancellation :: CancellationPolicy
  in_failure_policy :: EstablishmentFailurePolicy
  in_pipeline :: PipelinePolicy
  in_registry :: "('reg, 'target, 'ke) cancellation_registry"

text \<open>What happens while a connection is accepted, on either side and in the registry.\<close>

datatype ('id, 'target) establish_event =
    Down "'id accept_event"
  | Up connect_event
  | Registered CancelKey "'target CancellationRoute"
  | Detached CancelKey
  | Down_sent BackendMessage
  | Cancel_sent 'target bytes

record ('id, 'st, 'target, 'reg) establishing =
  eg_state :: 'st
  eg_flushes :: "io_error option list"
  eg_registry :: 'reg
  eg_log :: "('id, 'target) establish_event list"

definition eg_event :: "('id, 'target) establish_event \<Rightarrow> ('id, 'st, 'target, 'reg) establishing
    \<Rightarrow> ('id, 'st, 'target, 'reg) establishing" where
  "eg_event e g = g\<lparr>eg_log := eg_log g @ [e]\<rparr>"

text \<open>The established connection with the parts that forwarding does not use.\<close>

record ('peer, 'id, 'st, 'target, 'ev) established =
  es_connection :: "'st IntermediaryConnection"
  es_server_context :: "('peer, 'id) ServerConnectionContext"
  es_client_context :: "('target, 'ev) ClientConnectionContext"
  es_demux :: Demux
  es_target :: 'target
  es_client_cancel_key :: "CancelKey option"

datatype ('peer, 'id, 'st, 'target, 'ev) IntermediaryAccept =
    Session_established "('peer, 'id, 'st, 'target, 'ev) established" | CancellationForwarded

section \<open>The client's side\<close>

text \<open>\<open>ServerConnectionCore::send_wire_raw\<close>\<close>

definition send_wire_raw :: "nat \<Rightarrow> BackendMessage \<Rightarrow> ('id, 'st, 'target, 'reg) establishing
    \<Rightarrow> (io_error + unit) \<times> ('id, 'st, 'target, 'reg) establishing" where
  "send_wire_raw limit message g = (case BackendMessage_to_frame message of
     Inl error \<Rightarrow> (Inl error, g)
   | Inr f \<Rightarrow> (case with_max_frame_len limit of
       Inl error \<Rightarrow> (Inl error, g)
     | Inr codec \<Rightarrow> (case PgCodec_encode codec f [] of
         Inl error \<Rightarrow> (Inl error, g)
       | Inr _ \<Rightarrow>
           let g = eg_event (Down_sent message) g in
           (case eg_flushes g of
              [] \<Rightarrow> (Inr (), g)
            | None # rest \<Rightarrow> (Inr (), g\<lparr>eg_flushes := rest\<rparr>)
            | Some error # rest \<Rightarrow> (Inl error, g\<lparr>eg_flushes := rest\<rparr>)))))"

definition intercept_backend :: "('pol, 'peer, 'id, 'e, 'st, 't, 're, 'route) server_env \<Rightarrow> ('peer, 'id) ServerConnectionContext
    \<Rightarrow> BackendMessage \<Rightarrow> ('id, 'st, 'target, 'reg) establishing \<Rightarrow> BackendMessage \<times> ('id, 'st, 'target, 'reg) establishing" where
  "intercept_backend env ctx message g =
     (let (message, state) = se_backend env ctx (eg_state g) message in (message, g\<lparr>eg_state := state\<rparr>))"

definition send_generated_error :: "('pol, 'peer, 'id, 'e, 'st, 't, 're, 'route) server_env \<Rightarrow> ('peer, 'id) ServerConnectionContext
    \<Rightarrow> BackendMessage \<Rightarrow> ('id, 'st, 'target, 'reg) establishing \<Rightarrow> (io_error + unit) \<times> ('id, 'st, 'target, 'reg) establishing" where
  "send_generated_error env ctx message g = (case intercept_backend env ctx message g of (message, g) \<Rightarrow>
     if \<not> is_B_ErrorResponse message then (Inl (invalid ''middleware rejected generated diagnostic''), g)
     else send_wire_raw (se_max_frame_len env) message g)"

text \<open>The handling of a failure, whose own result is ignored, before both sides are dropped.\<close>

definition report_failure :: "EstablishmentFailurePolicy \<Rightarrow> ('pol, 'peer, 'id, 'e, 'st, 't, 're, 'route) server_env
    \<Rightarrow> ('peer, 'id) ServerConnectionContext \<Rightarrow> ('id, 'st, 'target, 'reg) establishing \<Rightarrow> ('id, 'st, 'target, 'reg) establishing" where
  "report_failure policy env ctx g =
     (if policy = Failure_SafeDiagnostic then snd (send_generated_error env ctx safe_establishment_diagnostic g) else g)"

section \<open>Completing the startup of the client\<close>

definition detach_cancellation :: "('reg, 'target, 'ke) cancellation_registry \<Rightarrow> CancelKey option
    \<Rightarrow> ('id, 'st, 'target, 'reg) establishing \<Rightarrow> 'target CancellationRoute option \<times> ('id, 'st, 'target, 'reg) establishing" where
  "detach_cancellation registry client_cancel_key g = (case client_cancel_key of
     None \<Rightarrow> (None, g)
   | Some key \<Rightarrow> (case rg_detach registry (eg_registry g) key of (way, reg) \<Rightarrow>
       (way, eg_event (Detached key) (g\<lparr>eg_registry := reg\<rparr>))))"

text \<open>\<open>while let Some(message) = pop_parameter_status()\<close>\<close>

function relay_parameters :: "nat \<Rightarrow> Demux \<Rightarrow> ('id, 'st, 'target, 'reg) establishing
    \<Rightarrow> (io_error + Demux) \<times> ('id, 'st, 'target, 'reg) establishing" where
  "relay_parameters limit demux g = (case pop_parameter_status demux of
     (None, demux) \<Rightarrow> (Inr demux, g)
   | (Some status, demux) \<Rightarrow> (case send_wire_raw limit (B_ParameterStatus (status_name status) (status_value status)) g of
       (Inl error, g) \<Rightarrow> (Inl error, g)
     | (Inr _, g) \<Rightarrow> relay_parameters limit demux g))"
  by pat_completeness auto

termination relay_parameters
  by (relation "measure (\<lambda>(_, demux, _). length (dx_parameter_statuses demux))")
    (auto simp: pop_parameter_status_def Let_def split: prod.splits elim: pop_front.elims)

declare relay_parameters.simps [simp del]

definition send_backend_key :: "('pol, 'peer, 'id, 'e, 'st, 't, 'rr, 'target, 'cpol, 'cle, 'ev, 'ce, 'pe, 'ae, 'me, 'reg, 'ke) intermediary
    \<Rightarrow> ('peer, 'id) ServerConnectionContext \<Rightarrow> ('target, 'ev) ClientConnectionContext \<Rightarrow> CancelKey
    \<Rightarrow> ('id, 'st, 'target, 'reg) establishing
    \<Rightarrow> (('se, 'rr, 'ae, 'che, 'ke, 'xe, 'me) IntermediaryAcceptError + unit) \<times> ('id, 'st, 'target, 'reg) establishing" where
  "send_backend_key env ctx up_ctx key g =
     (let expected = B_BackendKeyData (key_process_id key) (key_secret key) in
      case in_boundary_backend env ctx up_ctx (eg_state g) expected of
        (Inl error, state) \<Rightarrow> (Inl (Accept_Middleware error), g\<lparr>eg_state := state\<rparr>)
      | (Inr (Backend_Forward message), state) \<Rightarrow>
          (case intercept_backend (in_server env) ctx message (g\<lparr>eg_state := state\<rparr>) of (message, g) \<Rightarrow>
             if message \<noteq> expected
             then (Inl (Accept_ServerOutput (invalid ''middleware rejected generated cancellation key'')), g)
             else (case send_wire_raw (se_max_frame_len (in_server env)) message g of
                 (Inl error, g) \<Rightarrow> (Inl (Accept_ServerOutput error), g)
               | (Inr _, g) \<Rightarrow> (Inr (), g)))
      | (Inr _, state) \<Rightarrow>
          (Inl (Accept_ServerOutput (invalid ''middleware suppressed or expanded generated cancellation key'')), g\<lparr>eg_state := state\<rparr>))"

definition send_ready :: "('pol, 'peer, 'id, 'e, 'st, 't, 're, 'route) server_env \<Rightarrow> ('peer, 'id) ServerConnectionContext
    \<Rightarrow> ('id, 'st, 'target, 'reg) establishing \<Rightarrow> (io_error + unit) \<times> ('id, 'st, 'target, 'reg) establishing" where
  "send_ready env ctx g = (case intercept_backend env ctx (B_ReadyForQuery Idle) g of (ready, g) \<Rightarrow>
     if \<not> is_B_ReadyForQuery ready then (Inl (invalid ''middleware rejected generated readiness''), g)
     else send_wire_raw (se_max_frame_len env) ready g)"

text \<open>The part of \<open>accept\<close> behind the connection to PostgreSQL, without the registration.\<close>

definition announce :: "('pol, 'peer, 'id, 'e, 'st, 't, 'rr, 'target, 'cpol, 'cle, 'ev, 'ce, 'pe, 'ae, 'me, 'reg, 'ke) intermediary
    \<Rightarrow> ('peer, 'id) ServerConnectionContext \<Rightarrow> ('target, 'ev) ClientConnectionCore \<Rightarrow> CancelKey option
    \<Rightarrow> ('id, 'st, 'target, 'reg) establishing
    \<Rightarrow> (('se, 'rr, 'ae, 'che, 'ke, 'xe, 'me) IntermediaryAcceptError + Demux) \<times> ('id, 'st, 'target, 'reg) establishing" where
  "announce env ctx core client_cancel_key g = (case relay_parameters (se_max_frame_len (in_server env)) (core_demux core) g of
     (Inl error, g) \<Rightarrow> (Inl (Accept_ServerOutput error), g)
   | (Inr demux, g) \<Rightarrow>
       (case (case client_cancel_key of
            None \<Rightarrow> (Inr (), g)
          | Some key \<Rightarrow> send_backend_key env ctx (core_context core) key g) of
          (Inl error, g) \<Rightarrow> (Inl error, g)
        | (Inr _, g) \<Rightarrow> (case send_ready (in_server env) ctx g of
            (Inl error, g) \<Rightarrow> (Inl (Accept_ServerOutput error), g)
          | (Inr _, g) \<Rightarrow> (Inr demux, g))))"

section \<open>Accepting a connection\<close>

text \<open>\<open>detach_cancellation\<close> and \<open>teardown\<close>, which finds no key any more, or the connection as it starts to forward.\<close>

definition conclude :: "('pol, 'peer, 'id, 'e, 'st, 't, 'rr, 'target, 'cpol, 'cle, 'ev, 'ce, 'pe, 'ae, 'me, 'reg, 'ke) intermediary
    \<Rightarrow> FrontendMessage script \<Rightarrow> ('peer, 'id) ServerConnectionContext \<Rightarrow> 'target \<Rightarrow> ('target, 'ev) ClientConnectionCore
    \<Rightarrow> CancelKey option \<Rightarrow> ('id, 'st, 'target, 'reg) establishing
    \<Rightarrow> (('se, 'rr, 'ae, 'che, 'ke, 'xe, 'me) IntermediaryAcceptError + ('peer, 'id, 'st, 'target, 'ev) IntermediaryAccept) poll
      \<times> ('id, 'st, 'target, 'reg) establishing" where
  "conclude env inbound ctx target core client_cancel_key g = (case announce env ctx core client_cancel_key g of
     (Inl error, g) \<Rightarrow> (Returned (Inl error), snd (detach_cancellation (in_registry env) client_cancel_key g))
   | (Inr demux, g) \<Rightarrow> (Returned (Inr (Session_established
       \<lparr>es_connection = (IntermediaryConnection_new (eg_state g) (in_pipeline env))
          \<lparr>im_down_script := inbound, im_up_script := core_unread core, im_down_flushes := eg_flushes g, im_up_flushes := core_flushes core\<rparr>,
        es_server_context = ctx, es_client_context = core_context core, es_demux = demux, es_target = target,
        es_client_cancel_key = client_cancel_key\<rparr>)), g))"

definition register_route :: "('pol, 'peer, 'id, 'e, 'st, 't, 'rr, 'target, 'cpol, 'cle, 'ev, 'ce, 'pe, 'ae, 'me, 'reg, 'ke) intermediary
    \<Rightarrow> FrontendMessage script \<Rightarrow> ('peer, 'id) ServerConnectionContext \<Rightarrow> 'target \<Rightarrow> ('target, 'ev) ClientConnectionCore
    \<Rightarrow> ('id, 'st, 'target, 'reg) establishing
    \<Rightarrow> ((('se, 'rr, 'ae, 'che, 'ke, 'xe, 'me) IntermediaryAcceptError + ('peer, 'id, 'st, 'target, 'ev) IntermediaryAccept) poll
      \<times> ('id, 'st, 'target, 'reg) establishing) exec" where
  "register_route env inbound ctx target core g = (case (in_cancellation env, cc_backend_key (core_context core)) of
     (Cancellation_Forward, Some upstream_key) \<Rightarrow>
       let way = \<lparr>route_target = target, route_upstream = upstream_key\<rparr> in
       (case rg_register (in_registry env) (eg_registry g) way of
          Panic \<Rightarrow> Panic
        | Done (Inl error, reg) \<Rightarrow> Done (Returned (Inl (Accept_CancellationRegistry error)),
            report_failure (in_failure_policy env) (in_server env) ctx (g\<lparr>eg_registry := reg\<rparr>))
        | Done (Inr client_key, reg) \<Rightarrow> Done (conclude env inbound ctx target core (Some client_key)
            (eg_event (Registered client_key way) (g\<lparr>eg_registry := reg\<rparr>))))
   | _ \<Rightarrow> Done (conclude env inbound ctx target core None g))"

text \<open>
  The \<open>Session\<close> arm of \<open>accept\<close>.  The route that \<open>accept_routed\<close> selected is present for every session; \<open>identity()\<close>
  panics without one.
\<close>

definition relay_session :: "('pol, 'peer, 'id, 'e, 'st, 't, 'rr, 'target, 'cpol, 'cle, 'ev, 'ce, 'pe, 'ae, 'me, 'reg, 'ke) intermediary
    \<Rightarrow> FrontendMessage script \<Rightarrow> ('peer, 'id) ServerConnectionContext \<Rightarrow> StartupMessage \<Rightarrow> 'target
    \<Rightarrow> ('id, 'st, 'target, 'reg) establishing
    \<Rightarrow> ((('se, 'rr, 'ae, ('ce, 'pe, 'cle) ConnectError, 'ke, 'xe, 'me) IntermediaryAcceptError
        + ('peer, 'id, 'st, 'target, 'ev) IntermediaryAccept) poll \<times> ('id, 'st, 'target, 'reg) establishing) exec" where
  "relay_session env inbound ctx message selected g =
     (let fails = report_failure (in_failure_policy env) (in_server env) ctx in
      case from_wire message of
        Inl error \<Rightarrow> Done (Returned (Inl (Accept_StartupRoute (Resolution_Parameters error))), fails g)
      | Inr parameters \<Rightarrow> (case ctx_identity ctx of
          None \<Rightarrow> Panic
        | Some identity \<Rightarrow> (case in_route env selected (ctx_peer ctx) identity of
            Inl error \<Rightarrow> Done (Returned (Inl (Accept_AuthenticatedRoute error)), fails g)
          | Inr target \<Rightarrow> (case in_attempts env target of (first, retry) \<Rightarrow>
              (case connect_core (in_client env) target parameters first retry (eg_state g) of
                 Panic \<Rightarrow> Panic
               | Done (x, state, log) \<Rightarrow>
                   let g = g\<lparr>eg_state := state, eg_log := eg_log g @ map Up log\<rparr> in
                   (case x of
                      Pending \<Rightarrow> Done (Pending, g)
                    | Returned (Inl error) \<Rightarrow> Done (Returned (Inl (Accept_Client error)), fails g)
                    | Returned (Inr core) \<Rightarrow> register_route env inbound ctx target core g))))))"

text \<open>The \<open>Cancellation\<close> arm of \<open>accept\<close>; the bytes written upstream are logged.\<close>

definition forward_cancellation :: "('pol, 'peer, 'id, 'e, 'st, 't, 'rr, 'target, 'cpol, 'cle, 'ev, 'ce, 'pe, 'ae, 'me, 'reg, 'ke) intermediary
    \<Rightarrow> CancellationRequest \<Rightarrow> ('id, 'st, 'target, 'reg) establishing
    \<Rightarrow> (('se, 'rr, 'ae, 'che, 'ke, 'ce CancelError, 'me) IntermediaryAcceptError
        + ('peer, 'id, 'st, 'target, 'ev) IntermediaryAccept) \<times> ('id, 'st, 'target, 'reg) establishing" where
  "forward_cancellation env request g =
     (if in_cancellation env = Cancellation_Reject then (Inl Accept_CancellationRejected, g)
      else case rg_resolve (in_registry env) (eg_registry g)
          \<lparr>key_process_id = cancel_process_id request, key_secret = cancel_secret_key request\<rparr> of
        None \<Rightarrow> (Inl Accept_CancellationRejected, g)
      | Some way \<Rightarrow> (case in_cancel_attempt env (route_target way) of (opened, written, shutdown) \<Rightarrow>
          (case cancel opened written shutdown (route_upstream way) of
             (Inl error, packet) \<Rightarrow> (Inl (Accept_Cancellation error), eg_event (Cancel_sent (route_target way) packet) g)
           | (Inr _, packet) \<Rightarrow> (Inr CancellationForwarded, eg_event (Cancel_sent (route_target way) packet) g))))"

definition intermediary_accept :: "('pol, 'peer, 'id, 'e, 'st, 't, 'rr, 'target, 'cpol, 'cle, 'ev, 'ce, 'pe, 'ae, 'me, 'reg, 'ke) intermediary
    \<Rightarrow> 'peer \<Rightarrow> io_error + bytes \<Rightarrow> PreStartupMessage script \<Rightarrow> PreStartupMessage script \<Rightarrow> FrontendMessage script
    \<Rightarrow> ('id, 'st, 'target, 'reg) establishing
    \<Rightarrow> (((('t, 'e) AcceptError, 'rr, 'ae, ('ce, 'pe, 'cle) ConnectError, 'ke, 'ce CancelError, 'me) IntermediaryAcceptError
        + ('peer, 'id, 'st, 'target, 'ev) IntermediaryAccept) poll \<times> ('id, 'st, 'target, 'reg) establishing) exec" where
  "intermediary_accept env peer handshake encrypted pre inbound g =
     (case accept_routed ((in_server env)\<lparr>se_resolve := resolve_startup (in_resolver env), se_defer_ready := True\<rparr>)
         peer handshake encrypted pre inbound \<lparr>ar_state = eg_state g, ar_flushes = eg_flushes g, ar_log = []\<rparr> of
        Panic \<Rightarrow> Panic
      | Done (x, inbound, r) \<Rightarrow>
          let g = g\<lparr>eg_state := ar_state r, eg_flushes := ar_flushes r, eg_log := eg_log g @ map Down (ar_log r)\<rparr> in
          (case x of
             Pending \<Rightarrow> Done (Pending, g)
           | Returned (Inl (Routed_Accept error)) \<Rightarrow> Done (Returned (Inl (Accept_Server error)), g)
           | Returned (Inl (Routed_Route Panic)) \<Rightarrow> Panic
           | Returned (Inl (Routed_Route (Done error))) \<Rightarrow> Done (Returned (Inl (Accept_StartupRoute error)), g)
           | Returned (Inr (Accepted_Cancellation _ request)) \<Rightarrow>
               (case forward_cancellation env request g of (y, g) \<Rightarrow> Done (Returned y, g))
           | Returned (Inr (Accepted_Session _ ctx message selected)) \<Rightarrow> relay_session env inbound ctx message selected g))"

end
