(* ===== verification/Client_Connect_Laws.thy ===== *)
theory Client_Connect_Laws
  imports Client_Connect Client_Establish_Laws
begin

text \<open>
  A client that connects keeps to its TLS mode, reports the security of its transport truthfully, and sends the startup
  parameters it was configured with.
\<close>

section \<open>TLS modes\<close>

text \<open>Nothing of a session is on the wire before the handshake of its transport, only the request for TLS.\<close>

fun shielded :: "bool \<Rightarrow> connect_event list \<Rightarrow> bool" where
  "shielded secure [] = True"
| "shielded secure (Opened # l) = shielded False l"
| "shielded secure (Secured # l) = shielded True l"
| "shielded secure (Wrote b # l) = (b = ssl_request_packet \<and> shielded secure l)"
| "shielded secure (In_session e # l) = (secure \<and> shielded secure l)"

text \<open>Whether the transport of the last attempt is secured.\<close>

fun ends_secure :: "bool \<Rightarrow> connect_event list \<Rightarrow> bool" where
  "ends_secure secure [] = secure"
| "ends_secure secure (Opened # l) = ends_secure False l"
| "ends_secure secure (Secured # l) = ends_secure True l"
| "ends_secure secure (_ # l) = ends_secure secure l"

fun attempts :: "connect_event list \<Rightarrow> nat" where
  "attempts [] = 0"
| "attempts (Opened # l) = Suc (attempts l)"
| "attempts (_ # l) = attempts l"

lemma shielded_append: "shielded secure (xs @ ys) = (shielded secure xs \<and> shielded (ends_secure secure xs) ys)"
  by (induction secure xs rule: shielded.induct) auto

lemma ends_secure_append [simp]: "ends_secure secure (xs @ ys) = ends_secure (ends_secure secure xs) ys"
  by (induction secure xs rule: ends_secure.induct) auto

lemma attempts_append [simp]: "attempts (xs @ ys) = attempts xs + attempts ys"
  by (induction xs rule: attempts.induct) auto

lemma session_events [simp]:
  "shielded secure (map In_session l) = (secure \<or> l = [])" "ends_secure secure (map In_session l) = secure" "attempts (map In_session l) = 0"
  by (induction l) auto

lemma ssl_request_written: "[0, 0, 0, 8, 4, 210, 22, 47] = ssl_request_packet"
  by (simp add: eval_defs ssl_request_packet_def request_packet_def SSL_REQUEST_CODE_def)

definition requires_tls :: "SslMode option \<Rightarrow> bool" where
  "requires_tls mode = (mode = Some Require \<or> mode = Some VerifyCa \<or> mode = Some VerifyFull)"

lemma requires_tls_iff:
  "requires_tls (Some m) = (request_on_first_connection (strategy m) \<and> \<not> allow_server_rejection (strategy m))"
  by (cases m) (simp_all add: requires_tls_def)

lemma asks_for_tls_iff: "request_on_first_connection (strategy m) = (m \<noteq> Disable \<and> m \<noteq> Allow)"
  by (cases m) simp_all

lemma negotiate_log:
  assumes "negotiate_client_tls env at mode ctx st log = (r, st', log')"
  shows "(log' = log \<and> (\<forall>ctx'. r = Returned (Inr ctx') \<longrightarrow>
        \<not> request_on_first_connection (strategy mode) \<and> cc_tls ctx' = Some Status_Plaintext)) \<or>
    (request_on_first_connection (strategy mode) \<and> log' = log @ [Wrote ssl_request_packet] \<and> (\<forall>ctx'. r = Returned (Inr ctx') \<longrightarrow>
        allow_server_rejection (strategy mode) \<and> cc_tls ctx' = Some Status_Plaintext)) \<or>
    (request_on_first_connection (strategy mode) \<and> log' = log @ [Wrote ssl_request_packet, Secured] \<and>
      (\<exists>ctx'. r = Returned (Inr ctx') \<and> cc_tls ctx' = Some Status_Encrypted))"
proof -
  obtain request st1 where request: "cn_pre_startup env ctx st P_SslRequest = (request, st1)" by force
  consider (c_plain) "\<not> request_on_first_connection (strategy mode)"
    | (c_replaced) "request_on_first_connection (strategy mode)" "request \<noteq> P_SslRequest"
    | (c_write) e where "request_on_first_connection (strategy mode)" "request = P_SslRequest" "at_write at = Some e"
    | (c_flush) e where "request_on_first_connection (strategy mode)" "request = P_SslRequest" "at_write at = None" "at_flush at = Some e"
    | (c_wait) "request_on_first_connection (strategy mode)" "request = P_SslRequest" "at_write at = None" "at_flush at = None" "at_reply at = None"
    | (c_lost) e where "request_on_first_connection (strategy mode)" "request = P_SslRequest" "at_write at = None" "at_flush at = None"
        "at_reply at = Some (Inl e)"
    | (c_reply) b where "request_on_first_connection (strategy mode)" "request = P_SslRequest" "at_write at = None" "at_flush at = None"
        "at_reply at = Some (Inr b)"
    by (metis not_Some_eq sum.exhaust)
  then show ?thesis
  proof cases
    case (c_reply b)
    with request assms show ?thesis
      by (simp add: negotiate_client_tls_def ssl_request_written Let_def split: if_splits sum.splits) auto
  qed (use request assms in \<open>auto simp: negotiate_client_tls_def ssl_request_written Let_def\<close>)
qed

lemma open_transport_log:
  assumes "open_transport env at mode ctx st log = (r, st', log')"
  obtains l where "log' = log @ l" "\<And>secure. shielded secure l" "attempts l \<le> 1"
    "\<And>secure ctx'. r = Returned (Inr ctx') \<Longrightarrow>
      cc_tls ctx' = Some (if ends_secure secure l then Status_Encrypted else Status_Plaintext) \<and>
      (requires_tls mode \<longrightarrow> ends_secure secure l)"
    "mode = None \<or> mode = Some Disable \<or> mode = Some Allow \<Longrightarrow> set l \<subseteq> {Opened}"
proof (cases "at_open at")
  case (Inl error)
  with assms that [of "[]"] show thesis by (auto simp: open_transport_def)
next
  case (Inr u)
  show thesis
  proof (cases mode)
    case None
    with assms Inr that [of "[Opened]"] show thesis by (auto simp: open_transport_def requires_tls_def)
  next
    case (Some m)
    obtain r0 st0 log0 where run: "negotiate_client_tls env at m ctx st (log @ [Opened]) = (r0, st0, log0)"
      by (metis prod_cases3)
    with assms Inr Some have r: "log' = log0" "\<And>ctx'. r = Returned (Inr ctx') \<Longrightarrow> r0 = Returned (Inr ctx')"
      by (auto simp: open_transport_def Let_def split: poll.splits sum.splits)
    from negotiate_log [OF run] r(1) consider (silent) "log' = log @ [Opened]"
        "\<And>ctx'. r0 = Returned (Inr ctx') \<Longrightarrow> \<not> request_on_first_connection (strategy m) \<and> cc_tls ctx' = Some Status_Plaintext"
      | (asked) "log' = log @ [Opened, Wrote ssl_request_packet]" "request_on_first_connection (strategy m)"
        "\<And>ctx'. r0 = Returned (Inr ctx') \<Longrightarrow> allow_server_rejection (strategy m) \<and> cc_tls ctx' = Some Status_Plaintext"
      | (secured) ctx' where "log' = log @ [Opened, Wrote ssl_request_packet, Secured]" "request_on_first_connection (strategy m)"
        "r0 = Returned (Inr ctx')" "cc_tls ctx' = Some Status_Encrypted"
      by (elim disjE conjE exE) simp_all
    then show thesis
    proof cases
      case silent
      then show thesis
        by (intro that [of "[Opened]"]) (use r(2) Some in \<open>auto simp: requires_tls_iff asks_for_tls_iff\<close>)
    next
      case asked
      then show thesis
        by (intro that [of "[Opened, Wrote ssl_request_packet]"]) (use r(2) Some in \<open>auto simp: requires_tls_iff asks_for_tls_iff\<close>)
    next
      case secured
      then show thesis
        by (intro that [of "[Opened, Wrote ssl_request_packet, Secured]"]) (use r(2) Some in \<open>auto simp: requires_tls_iff asks_for_tls_iff\<close>)
    qed
  qed
qed

lemma establish_on_log:
  assumes "establish_on env at ctx message st log = Done (r, st', log')"
  obtains l where "log' = log @ map In_session l"
  using assms by (auto simp: establish_on_def split: prod.splits exec.splits poll.splits sum.splits)

lemma connected_core_tls [simp]: "cc_tls (core_context (connected_core ctx session)) = cc_tls ctx"
  by (simp add: connected_core_def split: prod.split)

lemma connect_cases:
  assumes "connect_core env target overrides first retry st = Done (r, st', log)"
  obtains (invalid) "log = []" "\<And>core. r \<noteq> Returned (Inr core)"
  | (unopened) ctx x where "open_transport env first (cn_tls env) ctx st [] = (x, st', log)" "\<And>core. r \<noteq> Returned (Inr core)"
  | (session) ctx0 ctx message s1 log1 x where
      "open_transport env first (cn_tls env) ctx0 st [] = (Returned (Inr ctx), s1, log1)"
      "establish_on env first ctx message s1 log1 = Done (x, st', log)"
      "\<And>core. r = Returned (Inr core) \<Longrightarrow> cc_tls (core_context core) = cc_tls ctx"
  | (unreopened) ctx0 ctx message s1 log1 e s2 log2 ctx1 x where "cn_tls env = Some Allow"
      "open_transport env first (cn_tls env) ctx0 st [] = (Returned (Inr ctx), s1, log1)"
      "establish_on env first ctx message s1 log1 = Done (Returned (Inl e), s2, log2)"
      "open_transport env retry (Some Require) ctx1 s2 log2 = (x, st', log)" "\<And>core. r \<noteq> Returned (Inr core)"
  | (retried) ctx0 ctx message s1 log1 e s2 log2 ctx1 ctx2 s3 log3 x where "cn_tls env = Some Allow"
      "open_transport env first (cn_tls env) ctx0 st [] = (Returned (Inr ctx), s1, log1)"
      "establish_on env first ctx message s1 log1 = Done (Returned (Inl e), s2, log2)"
      "open_transport env retry (Some Require) ctx1 s2 log2 = (Returned (Inr ctx2), s3, log3)"
      "establish_on env retry ctx2 message s3 log3 = Done (x, st', log)"
      "\<And>core. r = Returned (Inr core) \<Longrightarrow> cc_tls (core_context core) = cc_tls ctx2"
proof (cases "into_message (merged_with (cn_defaults env) overrides)")
  case (Inl e)
  then show thesis by (intro invalid) (use assms in \<open>auto simp: connect_core_def\<close>)
next
  case (Inr message)
  let ?ctx = "\<lparr>cc_target = target, cc_tls = None, cc_identity = None, cc_backend_key = None\<rparr>"
  obtain x s1 log1 where opened: "open_transport env first (cn_tls env) ?ctx st [] = (x, s1, log1)" by (metis prod_cases3)
  show thesis
  proof (cases "\<exists>ctx. x = Returned (Inr ctx)")
    case False
    with assms Inr opened have "log1 = log \<and> s1 = st' \<and> (\<forall>core. r \<noteq> Returned (Inr core))"
      by (auto simp: connect_core_def split: poll.splits sum.splits)
    with opened unopened show thesis by blast
  next
    case True
    then obtain ctx where x: "x = Returned (Inr ctx)" by blast
    from assms Inr opened x obtain y s2 log2 where est: "establish_on env first ctx message s1 log1 = Done (y, s2, log2)"
      by (cases "establish_on env first ctx message s1 log1") (auto simp: connect_core_def)
    show thesis
    proof (cases "cn_tls env = Some Allow \<and> (\<exists>e. y = Returned (Inl e))")
      case False
      with est assms Inr opened x have "log2 = log \<and> s2 = st' \<and> (\<forall>core. r = Returned (Inr core) \<longrightarrow> cc_tls (core_context core) = cc_tls ctx)"
        by (auto simp: connect_core_def split: poll.splits sum.splits if_splits)
      with session [OF opened [unfolded x]] est show thesis by blast
    next
      case True
      then obtain e where y: "y = Returned (Inl e)" and allow: "cn_tls env = Some Allow" by blast
      obtain z s3 log3 where again: "open_transport env retry (Some Require) (ctx\<lparr>cc_tls := None\<rparr>) s2 log2 = (z, s3, log3)"
        by (metis prod_cases3)
      show thesis
      proof (cases "\<exists>ctx. z = Returned (Inr ctx)")
        case False
        with again assms Inr opened x est y allow have "log3 = log \<and> s3 = st' \<and> (\<forall>core. r \<noteq> Returned (Inr core))"
          by (auto simp: connect_core_def split: poll.splits sum.splits)
        with unreopened [OF allow opened [unfolded x] est [unfolded y]] again show thesis by blast
      next
        case True
        then obtain ctx2 where z: "z = Returned (Inr ctx2)" by blast
        from assms Inr opened x est y allow again z obtain w s4 log4 where est2: "establish_on env retry ctx2 message s3 log3 = Done (w, s4, log4)"
          by (cases "establish_on env retry ctx2 message s3 log3") (auto simp: connect_core_def)
        with assms Inr opened x est y allow again z
        have "log4 = log \<and> s4 = st' \<and> (\<forall>core. r = Returned (Inr core) \<longrightarrow> cc_tls (core_context core) = cc_tls ctx2)"
          by (auto simp: connect_core_def split: poll.splits sum.splits)
        with retried [OF allow opened [unfolded x] est [unfolded y] again [unfolded z]] est2 show thesis by blast
      qed
    qed
  qed
qed

lemma plain_then_tls:
  assumes "attempts plain \<le> 1" "Secured \<notin> set plain" "attempts tls \<le> 1" "shielded False tls"
  shows "\<exists>plain' tls'. plain @ tls = plain' @ tls' \<and> attempts plain' \<le> 1 \<and> Secured \<notin> set plain' \<and>
    attempts tls' \<le> 1 \<and> shielded False tls'"
  using assms by blast

lemmas plain_only = plain_then_tls [where tls = "[]", simplified]


text \<open>A server that accepts TLS, then authenticates with SCRAM.\<close>

definition sample_connect :: "(unit, bytes StaticClientCredentialSession, unit, StaticCredentialError, unit) connect_env" where
  "sample_connect = \<lparr>cn_defaults = StartupParameters_new [117], cn_tls = Some Require, cn_pre_startup = (\<lambda>_ s m. (m, s)),
     cn_startup = (\<lambda>_ s m. (m, s)), cn_session = (\<lambda>_. sample_env), cn_idle = cr_policy sample_run\<rparr>"

definition sample_attempt :: "(unit, unit) attempt" where
  "sample_attempt = \<lparr>at_open = Inr (), at_write = None, at_flush = None, at_reply = Some (Inr 83), at_provider = Inr (),
     at_handshake = Inr (), at_inbound = sample_script, at_flushes = []\<rparr>"

lemma sample_connects:
  "case connect_core sample_connect () StartupParameters_default sample_attempt sample_attempt () of
     Done (Returned (Inr _), _, _) \<Rightarrow> True | _ \<Rightarrow> False"
  by (simp add: eval_defs V3_2_def sample_connect_def sample_attempt_def connect_core_def open_transport_def
      negotiate_client_tls_def establish_on_def merged_with_def into_message_def StartupParameters_new_def
      StartupParameters_default_def sample_env_def sample_run_def sample_script_def sample_crypto_def
      establish_client_session_def startup_def flush_run_def log_event_def observe_def ask_def respond_with_def
      intercept_auth_response_def push_and_flush_def complete_sasl_def sasl_def sasl_initial_def sasl_offer_backend_def sasl_offer_def
      sasl_respond_def sasl_verified_def await_outcome_def auth_ok_offer_def offer_ready_def Let_def Demux_default_def
      project_authentication_def authentication_is_def)


section \<open>Startup parameters\<close>

definition or_else :: "'a option \<Rightarrow> 'a option \<Rightarrow> 'a option" where
  "or_else x y = (if x = None then y else x)"

definition reserved :: "bytes \<Rightarrow> bool" where
  "reserved name = (name = bstr ''user'' \<or> name = bstr ''database'')"

text \<open>What the types and the constructors of \<open>StartupParameters\<close> promise.\<close>

definition params_ok :: "StartupParameters \<Rightarrow> bool" where
  "params_ok p = (btree_wf (sp_extensions p) \<and>
     (\<forall>(name, value) \<in> set (sp_extensions p). utf8 name \<and> utf8 value \<and> \<not> reserved name) \<and>
     pred_option utf8 (sp_user p) \<and> pred_option utf8 (sp_database p))"

lemma names_utf8 [simp]: "utf8 (bstr ''user'')" "utf8 (bstr ''database'')"
  by (simp_all add: eval_defs utf8_width_def)

lemma names_distinct [simp]: "bstr ''user'' \<noteq> bstr ''database''" "bstr ''database'' \<noteq> bstr ''user''"
  by (simp_all add: eval_defs)

lemma btree_insert_set: "set (snd (btree_insert k v m)) \<subseteq> insert (k, v) (set m)"
  by (induction k v m rule: btree_insert.induct) (auto simp: Let_def split: prod.splits)

lemma collect_set: "set (btree.collect kvs m) \<subseteq> set kvs \<union> set m"
proof (induction kvs arbitrary: m)
  case (Cons kv kvs)
  obtain k v where "kv = (k, v)" by (cases kv)
  then show ?case using Cons [of "snd (btree_insert k v m)"] btree_insert_set [of k v m]
    by (auto simp: btree.collect_def)
qed (simp add: btree.collect_def)

lemma params_ok_default [simp]: "params_ok StartupParameters_default"
  by (simp add: params_ok_def StartupParameters_default_def btree.wf_Nil)

lemma params_ok_new: "utf8 user \<Longrightarrow> params_ok (StartupParameters_new user)"
  by (simp add: params_ok_def StartupParameters_new_def StartupParameters_default_def btree.wf_Nil)

lemma params_ok_with_database: "params_ok p \<Longrightarrow> utf8 database \<Longrightarrow> params_ok (with_database p database)"
  by (simp add: params_ok_def with_database_def)

lemma params_ok_insert:
  assumes "params_ok p" "utf8 name" "utf8 val" "\<not> reserved name"
  shows "params_ok (p\<lparr>sp_extensions := snd (btree_insert name val (sp_extensions p))\<rparr>)"
  using assms btree_insert_set [of name val "sp_extensions p"] by (auto simp: params_ok_def btree.wf_insert)

lemma params_ok_extension:
  "params_ok p \<Longrightarrow> utf8 name \<Longrightarrow> utf8 val \<Longrightarrow> extension p name val = Inr p' \<Longrightarrow> params_ok p'"
  by (auto simp: extension_def reserved_def params_ok_insert split: if_splits)

lemma params_ok_take_wire: "params_ok p \<Longrightarrow> take_wire kvs p = Inr p' \<Longrightarrow> params_ok p'"
proof (induction kvs p rule: take_wire.induct)
  case (2 name val rest p)
  from 2(3) have text_utf8: "utf8 name" "utf8 val" by (simp_all split: if_splits)
  have "params_ok (if name = bstr ''user'' then p\<lparr>sp_user := Some val\<rparr>
    else if name = bstr ''database'' then p\<lparr>sp_database := Some val\<rparr>
    else p\<lparr>sp_extensions := snd (btree_insert name val (sp_extensions p))\<rparr>)"
    using 2(2) text_utf8 params_ok_insert [OF 2(2) text_utf8] by (auto simp: params_ok_def reserved_def)
  from 2(1) [OF _ _ this] 2(3) text_utf8 show ?case by simp
qed simp

lemma merged_with_collect:
  "sp_extensions (merged_with p q) = btree.collect (sp_extensions q) (sp_extensions p)"
  by (simp add: merged_with_def btree.collect_def)

lemma params_ok_merged: "params_ok p \<Longrightarrow> params_ok q \<Longrightarrow> params_ok (merged_with p q)"
  using collect_set [of "sp_extensions q" "sp_extensions p"]
  by (auto simp: params_ok_def merged_with_collect btree.wf_collect) (auto simp: merged_with_def)

lemma get_rev: "btree_wf m \<Longrightarrow> map_of (rev m) = btree_get m"
  by (simp add: map_of_rev_distinct btree_wf_distinct btree_get_def fun_eq_iff)

lemma get_empty: "btree_get [] = Map.empty"
  by (simp add: btree_get_def fun_eq_iff)

lemma or_else_add: "or_else ((f ++ g) x) y = or_else (g x) (or_else (f x) y)"
  by (auto simp: or_else_def map_add_def split: option.splits)

lemma restrict_add: "(f ++ g) |` A = (f |` A) ++ (g |` A)"
  by (auto simp: restrict_map_def map_add_def fun_eq_iff)

lemma rev_pair: "map_of (rev ((k, v) # kvs)) = [k \<mapsto> v] ++ map_of (rev kvs)"
  by (simp add: map_of_append)

text \<open>The fields are taken from the last pairs of their names, the extensions from all the others.\<close>

lemma take_wire_result:
  assumes "\<forall>(name, val) \<in> set kvs. utf8 name \<and> utf8 val" "btree_wf (sp_extensions p)"
  shows "\<exists>p'. take_wire kvs p = Inr p' \<and> btree_wf (sp_extensions p') \<and>
    sp_user p' = or_else (map_of (rev kvs) (bstr ''user'')) (sp_user p) \<and>
    sp_database p' = or_else (map_of (rev kvs) (bstr ''database'')) (sp_database p) \<and>
    btree_get (sp_extensions p') = btree_get (sp_extensions p) ++ (map_of (rev kvs) |` {name. \<not> reserved name})"
  using assms
proof (induction kvs p rule: take_wire.induct)
  case (2 name val rest p)
  let ?q = "if name = bstr ''user'' then p\<lparr>sp_user := Some val\<rparr>
    else if name = bstr ''database'' then p\<lparr>sp_database := Some val\<rparr>
    else p\<lparr>sp_extensions := snd (btree_insert name val (sp_extensions p))\<rparr>"
  from 2(2) have text_utf8: "utf8 name" "utf8 val" by simp_all
  have wf: "btree_wf (sp_extensions ?q)" using 2(3) by (simp add: btree.wf_insert)
  have user: "sp_user ?q = or_else ([name \<mapsto> val] (bstr ''user'')) (sp_user p)"
    and database: "sp_database ?q = or_else ([name \<mapsto> val] (bstr ''database'')) (sp_database p)"
    by (simp_all add: or_else_def)
  have get: "btree_get (sp_extensions ?q) = btree_get (sp_extensions p) ++ ([name \<mapsto> val] |` {name. \<not> reserved name})"
    by (auto simp: reserved_def btree.get_insert [OF 2(3)] restrict_map_insert map_add_def fun_eq_iff)
  from 2(1) [OF _ _ _ wf] 2(2) text_utf8 obtain p' where p': "take_wire rest ?q = Inr p'" "btree_wf (sp_extensions p')"
    "sp_user p' = or_else (map_of (rev rest) (bstr ''user'')) (sp_user ?q)"
    "sp_database p' = or_else (map_of (rev rest) (bstr ''database'')) (sp_database ?q)"
    "btree_get (sp_extensions p') = btree_get (sp_extensions ?q) ++ (map_of (rev rest) |` {name. \<not> reserved name})"
    by auto
  have "take_wire ((name, val) # rest) p = Inr p'" using p'(1) text_utf8 by simp
  with p'(2-5) show ?case
    unfolding user database get rev_pair by (simp add: or_else_add restrict_add)
qed (simp_all add: or_else_def restrict_map_def map_add_def fun_eq_iff)

lemma into_message_roundtrip:
  assumes "params_ok p" "sp_user p = Some user"
  shows "\<exists>message. into_message p = Inr message \<and> startup_version message = V3_2 \<and>
    btree_wf (startup_parameters message) \<and> btree_get (startup_parameters message) (bstr ''user'') = Some user \<and>
    from_wire message = Inr p"
proof -
  let ?named = "(bstr ''user'', user) # (case sp_database p of None \<Rightarrow> [] | Some database \<Rightarrow> [(bstr ''database'', database)])"
  define m where "m = btree.collect ?named (sp_extensions p)"
  have message: "into_message p = Inr \<lparr>startup_version = V3_2, startup_parameters = m\<rparr>"
    using assms(2) by (simp add: into_message_def m_def btree.collect_def split: option.split)
  have wf: "btree_wf (sp_extensions p)" using assms(1) by (simp add: params_ok_def)
  then have wf_m: "btree_wf m" unfolding m_def by (rule btree.wf_collect)
  have get: "btree_get m = btree_get (sp_extensions p) ++ map_of (rev ?named)"
    unfolding m_def using wf by (rule btree.get_collect)
  have absent: "btree_get (sp_extensions p) name = None" if "reserved name" for name
    using assms(1) that by (auto simp: params_ok_def btree_get_def map_of_eq_None_iff)
  have "\<forall>(name, val) \<in> set m. utf8 name \<and> utf8 val"
    using assms collect_set [of ?named "sp_extensions p"] unfolding m_def params_ok_def
    by (auto split: option.splits)
  from take_wire_result [OF this, of StartupParameters_default] obtain p' where p': "take_wire m StartupParameters_default = Inr p'"
    "btree_wf (sp_extensions p')" "sp_user p' = or_else (btree_get m (bstr ''user'')) None"
    "sp_database p' = or_else (btree_get m (bstr ''database'')) None"
    "btree_get (sp_extensions p') = btree_get m |` {name. \<not> reserved name}"
    by (auto simp: StartupParameters_default_def btree.wf_Nil get_rev [OF wf_m] get_empty)
  have "sp_user p' = sp_user p" "sp_database p' = sp_database p"
    using p'(3,4) assms(2) absent [of "bstr ''database''"]
    by (auto simp: get or_else_def map_add_def reserved_def split: option.splits)
  moreover have "sp_extensions p' = sp_extensions p"
    using p'(2) wf
  proof (rule btree.wf_ext)
    show "btree_get (sp_extensions p') = btree_get (sp_extensions p)"
      using absent by (auto simp: p'(5) get restrict_map_def map_add_def reserved_def fun_eq_iff split: option.splits)
  qed
  ultimately have "p' = p" by simp
  with message wf_m p'(1) show ?thesis by (auto simp: from_wire_def get map_add_def split: option.split)
qed

text \<open>
  C33. A client sends the startup parameters it was configured with.  When the defaults or the overrides of a call have
  a user, the startup message of version 3.2 made of them reads back as the merged parameters: an override wins over a
  default field by field and extension by extension, and no extension takes the place of the user or the database.
  Without a user the call fails before it connects.
\<close>

theorem startup_parameters_roundtrip:
  assumes "params_ok defaults" "params_ok overrides"
  shows "(case sp_user (merged_with defaults overrides) of
      None \<Rightarrow> into_message (merged_with defaults overrides) = Inl MissingUser
    | Some user \<Rightarrow> \<exists>message. into_message (merged_with defaults overrides) = Inr message \<and>
        startup_version message = V3_2 \<and> btree_wf (startup_parameters message) \<and>
        btree_get (startup_parameters message) (bstr ''user'') = Some user \<and>
        from_wire message = Inr (merged_with defaults overrides)) \<and>
    sp_user (merged_with defaults overrides) = or_else (sp_user overrides) (sp_user defaults) \<and>
    sp_database (merged_with defaults overrides) = or_else (sp_database overrides) (sp_database defaults) \<and>
    btree_get (sp_extensions (merged_with defaults overrides)) =
      btree_get (sp_extensions defaults) ++ btree_get (sp_extensions overrides)"
proof -
  let ?p = "merged_with defaults overrides"
  have ok: "params_ok ?p" using assms by (rule params_ok_merged)
  have roundtrip: "\<exists>message. into_message ?p = Inr message \<and>
        startup_version message = V3_2 \<and> btree_wf (startup_parameters message) \<and>
        btree_get (startup_parameters message) (bstr ''user'') = Some user \<and> from_wire message = Inr ?p"
    if "sp_user ?p = Some user" for user
    using ok that by (rule into_message_roundtrip)
  have "btree_get (sp_extensions ?p) = btree_get (sp_extensions defaults) ++ btree_get (sp_extensions overrides)"
    using assms by (simp add: merged_with_collect btree.get_collect get_rev params_ok_def)
  with roundtrip show ?thesis
    by (auto simp: into_message_def merged_with_def or_else_def split: option.splits)
qed

theorem startup_parameters_roundtrip_witness:
  "\<exists>message. into_message (merged_with (StartupParameters_new [97]) (with_database (StartupParameters_new [98]) [100])) = Inr message \<and>
    from_wire message = Inr (with_database (StartupParameters_new [98]) [100])"
proof -
  have "merged_with (StartupParameters_new [97]) (with_database (StartupParameters_new [98]) [100]) =
      with_database (StartupParameters_new [98]) [100]"
    "sp_user (with_database (StartupParameters_new [98]) [100]) = Some [98]"
    by (simp_all add: merged_with_def with_database_def StartupParameters_new_def StartupParameters_default_def)
  moreover have "params_ok (StartupParameters_new [97])" "params_ok (with_database (StartupParameters_new [98]) [100])"
    by (simp_all add: params_ok_new params_ok_with_database utf8_width_def)
  ultimately show ?thesis
    using startup_parameters_roundtrip [of "StartupParameters_new [97]" "with_database (StartupParameters_new [98]) [100]"] by auto
qed

end
