(* ===== verification/Intermediary_Accept_Laws.thy ===== *)
theory Intermediary_Accept_Laws
  imports Intermediary_Accept Server_Accept_Laws Client_Connect_Laws
begin

text \<open>
  What an intermediary promises while it accepts a connection: it fails no assertion, completes the startup of the
  client only when the connection to PostgreSQL exists, leaves no cancellation route behind when it fails, forwards a
  cancellation to the route of its key and to nothing else, and tells a client nothing about a failure but a fixed
  diagnostic.
\<close>

section \<open>Accepting the client\<close>

text \<open>Routes are resolved when TLS is settled; a session carries an identity and the message that was routed.\<close>

definition resolves :: "('pol, 'peer, 'id, 'e, 'st, 't, 're, 'route) server_env \<Rightarrow> StartupMessage \<Rightarrow> 're + 'route \<Rightarrow> bool" where
  "resolves env message x = (\<exists>ctx st. ctx_tls ctx \<noteq> None \<and> fst (se_resolve env message ctx st) = x)"

definition routed_ok :: "('pol, 'peer, 'id, 'e, 'st, 't, 're, 'route) server_env
    \<Rightarrow> ('id, 'st, ('t, 'e, 're) RoutedAcceptError + ('peer, 'id, 'route) ServerAccept) served exec \<Rightarrow> bool" where
  "routed_ok env d = (case d of
     Panic \<Rightarrow> False
   | Done (Returned (Inl (Routed_Route error)), _, _) \<Rightarrow>
       \<exists>message. resolves env message (Inl error)
   | Done (Returned (Inr (Accepted_Session _ ctx message way)), _, _) \<Rightarrow>
       ctx_identity ctx \<noteq> None \<and> resolves env message (Inr way)
   | _ \<Rightarrow> True)"

lemma routed_ok_simps [simp]:
  "\<not> routed_ok env Panic"
  "routed_ok env (Done (Pending, inbound, r))"
  "routed_ok env (Done (Returned (Inl (Routed_Accept error)), inbound, r))"
  "routed_ok env (Done (accept_cancellation env ctx process_id secret_key inbound r))"
  by (simp_all add: routed_ok_def accept_cancellation_def split: prod.split)

lemma complete_auth_identity:
  "complete_auth env ctx message inbound r = Done (Returned (Inr (conn, ctx')), rest, r') \<Longrightarrow> ctx_identity ctx' \<noteq> None"
  by (auto simp: complete_auth_def Let_def elim!: await_ok_InrE split: ServerProtocolOffer.splits option.splits prod.splits sum.splits)

lemma accept_startup_routed:
  assumes "ctx_tls ctx = Some tls"
  shows "routed_ok env (accept_startup env ctx message inbound r)"
proof -
  obtain message' state where m: "se_startup env ctx (ar_state r) message = (message', state)" by force
  obtain x state' where x: "se_resolve env message' ctx state = (x, state')" by force
  with assms have fst_x: "resolves env message' x" by (auto simp: resolves_def intro!: exI [of _ ctx] exI [of _ state])
  show ?thesis
  proof (cases x)
    case (Inl error)
    with m x fst_x assms show ?thesis by (auto simp: accept_startup_def routed_ok_def)
  next
    case (Inr way)
    from accept_startup_no_panic [OF assms, of env message inbound r] m x Inr
    obtain p rest r1 where d: "complete_auth env ctx message' inbound (r\<lparr>ar_state := state'\<rparr>) = Done (p, rest, r1)"
      by (auto simp: accept_startup_def split: exec.splits)
    with m x Inr fst_x assms complete_auth_identity [of env ctx message' inbound "r\<lparr>ar_state := state'\<rparr>"] show ?thesis
      by (cases "(p, rest, r1)" rule: routed.cases) (auto simp: accept_startup_def await_ok_def routed_ok_def)
  qed
qed

lemma accept_encrypted_routed:
  assumes "ctx_tls ctx = Some tls"
  shows "routed_ok env (accept_encrypted env ctx pre inbound r)"
proof (induction pre arbitrary: inbound r)
  case (Cons x pre)
  show ?case
  proof (cases x)
    case (Inr message)
    obtain y r1 where i: "intercept_pre_startup env ctx r message = (y, r1)" by force
    with Inr Cons.IH accept_startup_routed [OF assms] show ?thesis
      by (cases y) (simp_all split: prod.split poll.split sum.split)
  qed simp
qed simp

lemma accept_plaintext_routed: "routed_ok env (accept_plaintext env ctx handshake encrypted pre inbound r)"
proof (induction pre arbitrary: inbound r)
  case (Cons x pre)
  show ?case
  proof (cases x)
    case (Inr message)
    obtain y r1 where i: "intercept_pre_startup env ctx r message = (y, r1)" by force
    with Inr Cons.IH show ?thesis
      by (cases y; cases handshake) (simp_all add: accept_startup_routed accept_encrypted_routed split: prod.split poll.split sum.split option.split)
  qed simp
qed simp

lemma accept_routed_ok: "routed_ok env (accept_routed env peer handshake encrypted pre inbound r)"
  by (simp add: accept_routed_def accept_plaintext_routed split: sum.split)

section \<open>Cancellation registries\<close>

text \<open>
  The contract of \<open>IntermediaryCancellationRegistry\<close> an intermediary relies on: a key it is given resolves to its route,
  other keys resolve as before, and detaching a key takes back its registration.
\<close>

locale route_registry =
  fixes registry :: "('reg, 'target, 'ke) cancellation_registry"
  assumes register_resolves: "rg_register registry reg way = Done (Inr key, reg') \<Longrightarrow>
      rg_resolve registry reg' = (rg_resolve registry reg)(key \<mapsto> way)"
    and register_fresh: "rg_register registry reg way = Done (Inr key, reg') \<Longrightarrow> rg_resolve registry reg key = None"
    and register_refused: "rg_register registry reg way = Done (Inl error, reg') \<Longrightarrow> reg' = reg"
    and detach_registered: "rg_register registry reg way = Done (Inr key, reg') \<Longrightarrow> snd (rg_detach registry reg' key) = reg"
    and detach_resolves: "rg_resolve registry (snd (rg_detach registry reg key)) = (rg_resolve registry reg)(key := None)"

interpretation in_memory: route_registry in_memory_registry
  by unfold_locales
    (auto simp: in_memory_registry_def in_memory_register_def in_memory_resolve_def in_memory_detach_def Let_def fun_upd_idem_iff
      split: if_splits)

interpretation rejecting: route_registry reject_registry
  by unfold_locales (simp_all add: reject_registry_def)

section \<open>What goes to the client\<close>

text \<open>The state of a run changed by nothing but what was sent.\<close>

definition sent_only :: "('id, 'st, 'target, 'reg) establishing \<Rightarrow> BackendMessage list \<Rightarrow> ('id, 'st, 'target, 'reg) establishing \<Rightarrow> bool" where
  "sent_only g ms g' = (eg_registry g' = eg_registry g \<and> eg_log g' = eg_log g @ map Down_sent ms)"

lemma sent_only_trans: "sent_only g xs g1 \<Longrightarrow> sent_only g1 ys g2 \<Longrightarrow> sent_only g (xs @ ys) g2"
  by (simp add: sent_only_def)

lemma sent_only_state [simp]: "sent_only g [] (g\<lparr>eg_state := state\<rparr>)" "sent_only g [] g" "sent_only (g\<lparr>eg_state := state\<rparr>) ms g' = sent_only g ms g'"
  by (simp_all add: sent_only_def)

lemma send_wire_raw_sends:
  "send_wire_raw limit message g = (x, g') \<Longrightarrow> sent_only g [message] g' \<or> (sent_only g [] g' \<and> (\<exists>error. x = Inl error))"
  by (auto simp: send_wire_raw_def eg_event_def sent_only_def Let_def split: sum.splits list.splits option.splits)

lemma intercept_backend_state: "intercept_backend env ctx message g = (m, g') \<Longrightarrow> sent_only g [] g'"
  by (auto simp: intercept_backend_def split: prod.splits)

text \<open>A diagnostic the policy allows, as the middleware of the server leaves it.\<close>

definition diagnosed :: "EstablishmentFailurePolicy \<Rightarrow> ('pol, 'peer, 'id, 'e, 'st, 't, 're, 'route) server_env \<Rightarrow> BackendMessage list \<Rightarrow> bool" where
  "diagnosed policy env ms = (ms = [] \<or> (policy = Failure_SafeDiagnostic \<and>
     (\<exists>ctx st. ms = [fst (se_backend env ctx st safe_establishment_diagnostic)] \<and> is_B_ErrorResponse (hd ms))))"

lemma report_failure_sends: "\<exists>ms. sent_only g ms (report_failure policy env ctx g) \<and> diagnosed policy env ms"
proof (cases "policy = Failure_SafeDiagnostic")
  case True
  obtain m st where m: "se_backend env ctx (eg_state g) safe_establishment_diagnostic = (m, st)" by force
  then have i: "intercept_backend env ctx safe_establishment_diagnostic g = (m, g\<lparr>eg_state := st\<rparr>)" by (simp add: intercept_backend_def)
  show ?thesis
  proof (cases "is_B_ErrorResponse m")
    case error: True
    obtain x g' where s: "send_wire_raw (se_max_frame_len env) m (g\<lparr>eg_state := st\<rparr>) = (x, g')" by force
    then have "sent_only g [m] g' \<or> sent_only g [] g'" using send_wire_raw_sends by fastforce
    moreover have "report_failure policy env ctx g = g'" using True i s error by (simp add: report_failure_def send_generated_error_def)
    moreover have "diagnosed policy env [m]" using True error m by (auto simp: diagnosed_def intro!: exI [of _ ctx] exI [of _ "eg_state g"])
    moreover have "diagnosed policy env []" by (simp add: diagnosed_def)
    ultimately show ?thesis by metis
  next
    case False
    with True i show ?thesis by (auto simp: report_failure_def send_generated_error_def diagnosed_def intro!: exI [of _ "[]"])
  qed
qed (auto simp: report_failure_def diagnosed_def)

definition status_message :: "ParameterStatus \<Rightarrow> BackendMessage" where
  "status_message status = B_ParameterStatus (status_name status) (status_value status)"

lemma relay_parameters_sends:
  "relay_parameters limit demux g = (x, g') \<Longrightarrow>
    \<exists>ms. sent_only g ms g' \<and> prefix ms (map status_message (dx_parameter_statuses demux)) \<and>
      (\<forall>demux'. x = Inr demux' \<longrightarrow> ms = map status_message (dx_parameter_statuses demux))"
proof (induction limit demux g rule: relay_parameters.induct)
  case (1 limit demux g)
  show ?case
  proof (cases "dx_parameter_statuses demux")
    case Nil
    with 1(2) show ?thesis by (auto simp: relay_parameters.simps [of limit demux g] pop_parameter_status_def intro!: exI [of _ "[]"])
  next
    case (Cons status rest)
    let ?demux = "demux\<lparr>dx_parameter_statuses := rest\<rparr>"
    obtain y g1 where s: "send_wire_raw limit (status_message status) g = (y, g1)" by force
    show ?thesis
    proof (cases y)
      case (Inl error)
      with s have "(\<exists>ms. sent_only g ms g1 \<and> (ms = [] \<or> ms = [status_message status]))" by (blast dest: send_wire_raw_sends)
      with 1(2) Cons s Inl show ?thesis by (auto simp: relay_parameters.simps [of limit demux g] pop_parameter_status_def status_message_def)
    next
      case (Inr u)
      with s have one: "sent_only g [status_message status] g1" by (auto dest!: send_wire_raw_sends)
      have "relay_parameters limit ?demux g1 = (x, g')"
        using 1(2) Cons s Inr by (simp add: relay_parameters.simps [of limit demux g] pop_parameter_status_def status_message_def)
      moreover have "(Some status, ?demux) = pop_parameter_status demux" using Cons by (simp add: pop_parameter_status_def)
      moreover have "(Inr u, g1) = send_wire_raw limit (B_ParameterStatus (status_name status) (status_value status)) g"
        using s Inr by (simp add: status_message_def)
      ultimately obtain ms where "sent_only g1 ms g'"
        "prefix ms (map status_message rest)" "\<forall>demux'. x = Inr demux' \<longrightarrow> ms = map status_message rest"
        using 1(1) [of "Some status" ?demux status "Inr u" g1] by auto
      with sent_only_trans [OF one] Cons show ?thesis by (auto intro!: exI [of _ "status_message status # ms"])
    qed
  qed
qed

definition key_message :: "CancelKey \<Rightarrow> BackendMessage" where
  "key_message key = B_BackendKeyData (key_process_id key) (key_secret key)"

lemma send_backend_key_sends:
  "send_backend_key env ctx up_ctx key g = (x, g') \<Longrightarrow> sent_only g [key_message key] g' \<or> (sent_only g [] g' \<and> (\<exists>error. x = Inl error))"
  by (auto simp: send_backend_key_def Let_def key_message_def split: prod.splits sum.splits BackendMiddlewareOutput.splits if_splits
      dest!: intercept_backend_state send_wire_raw_sends intro: sent_only_trans [where xs = "[]", simplified])

lemma send_ready_sends:
  "send_ready env ctx g = (x, g') \<Longrightarrow> (\<exists>status. sent_only g [B_ReadyForQuery status] g') \<or> (sent_only g [] g' \<and> (\<exists>error. x = Inl error))"
  by (auto simp: send_ready_def is_B_ReadyForQuery_def split: prod.splits if_splits
      dest!: intercept_backend_state send_wire_raw_sends intro: sent_only_trans [where xs = "[]", simplified])

text \<open>The startup transcript of a client: the parameters of the upstream session, the key and readiness.\<close>

definition startup_transcript :: "ParameterStatus list \<Rightarrow> CancelKey option \<Rightarrow> TransactionStatus \<Rightarrow> BackendMessage list" where
  "startup_transcript statuses key status = map status_message statuses @
     (case key of None \<Rightarrow> [] | Some key \<Rightarrow> [key_message key]) @ [B_ReadyForQuery status]"

definition output_error :: "('se, 'rr, 'ae, 'che, 'ke, 'xe, 'me) IntermediaryAcceptError \<Rightarrow> bool" where
  "output_error error = ((\<exists>e. error = Accept_ServerOutput e) \<or> (\<exists>e. error = Accept_Middleware e))"

lemma send_backend_key_error: "send_backend_key env ctx up_ctx key g = (Inl error, g') \<Longrightarrow> output_error error"
  by (auto simp: send_backend_key_def Let_def output_error_def split: prod.splits sum.splits BackendMiddlewareOutput.splits if_splits)

lemma announce_sends:
  fixes x :: "('se, 'rr, 'ae, 'che, 'ke, 'xe, 'me) IntermediaryAcceptError + Demux"
  assumes "announce env ctx core key g = (x, g')"
  shows "\<exists>ms status. sent_only g ms g' \<and> prefix ms (startup_transcript (dx_parameter_statuses (core_demux core)) key status) \<and>
    (\<forall>demux. x = Inr demux \<longrightarrow> ms = startup_transcript (dx_parameter_statuses (core_demux core)) key status) \<and> (\<forall>error. x = Inl error \<longrightarrow> output_error error)"
proof -
  let ?statuses = "map status_message (dx_parameter_statuses (core_demux core))"
  let ?keys = "case key of None \<Rightarrow> [] | Some key \<Rightarrow> [key_message key]"
  obtain y g1 where y: "relay_parameters (se_max_frame_len (in_server env)) (core_demux core) g = (y, g1)" by force
  from relay_parameters_sends [OF y] obtain ms where ms: "sent_only g ms g1" "prefix ms ?statuses"
    "\<And>demux. y = Inr demux \<Longrightarrow> ms = ?statuses" by blast
  show ?thesis
  proof (cases y)
    case (Inl error)
    with y assms ms show ?thesis by (auto simp: announce_def startup_transcript_def output_error_def)
  next
    case (Inr demux)
    obtain z :: "('se, 'rr, 'ae, 'che, 'ke, 'xe, 'me) IntermediaryAcceptError + unit" and g2
      where z: "(case key of None \<Rightarrow> (Inr (), g1) | Some key \<Rightarrow> send_backend_key env ctx (core_context core) key g1) = (z, g2)"
      by force
    then have keys: "\<exists>ks. sent_only g1 ks g2 \<and> (ks = [] \<or> ks = ?keys) \<and> (z = Inr () \<longrightarrow> ks = ?keys)"
      by (auto split: option.splits dest!: send_backend_key_sends)
    show ?thesis
    proof (cases z)
      case (Inl error)
      with z have "output_error error" by (auto split: option.splits dest: send_backend_key_error)
      moreover have "x = Inl error" "g' = g2" using y Inr z Inl assms by (simp_all add: announce_def)
      moreover from keys obtain ks where "sent_only g1 ks g2" "ks = [] \<or> ks = ?keys" by blast
      then have "sent_only g (?statuses @ ks) g2" "prefix (?statuses @ ks) (startup_transcript (dx_parameter_statuses (core_demux core)) key Idle)"
        using sent_only_trans [OF ms(1)] ms(3) [OF Inr] by (auto simp: startup_transcript_def)
      ultimately show ?thesis by blast
    next
      case ok: (Inr u)
      obtain w g3 where w: "send_ready (in_server env) ctx g2 = (w, g3)" by force
      have two: "sent_only g (?statuses @ ?keys) g2" using keys sent_only_trans [OF ms(1)] ms(3) [OF Inr] ok by auto
      have "g' = g3" "x = (case w of Inl error \<Rightarrow> Inl (Accept_ServerOutput error) | Inr _ \<Rightarrow> Inr demux)"
        using y Inr z ok w assms by (auto simp: announce_def split: sum.splits)
      moreover from send_ready_sends [OF w] consider (ready) status where "sent_only g (?statuses @ ?keys @ [B_ReadyForQuery status]) g3"
        | (failed) error where "sent_only g (?statuses @ ?keys) g3" "w = Inl error"
        using sent_only_trans [OF two] by fastforce
      then have "\<exists>ms status. sent_only g ms g3 \<and> prefix ms (startup_transcript (dx_parameter_statuses (core_demux core)) key status) \<and>
        (\<forall>u. w = Inr u \<longrightarrow> ms = startup_transcript (dx_parameter_statuses (core_demux core)) key status)"
      proof cases
        case (ready status)
        then show ?thesis by (intro exI [of _ "startup_transcript (dx_parameter_statuses (core_demux core)) key status"] exI [of _ status]) (simp add: startup_transcript_def)
      next
        case (failed error)
        then show ?thesis by (intro exI [of _ "?statuses @ ?keys"] exI [of _ Idle]) (simp add: startup_transcript_def)
      qed
      ultimately show ?thesis by (auto simp: output_error_def split: sum.splits)
    qed
  qed
qed

section \<open>The cases of accepting\<close>

text \<open>The registry is untouched and the log has grown by the events of one side.\<close>

definition logged :: "('id, 'st, 'target, 'reg) establishing \<Rightarrow> ('id, 'target) establish_event list
    \<Rightarrow> ('id, 'st, 'target, 'reg) establishing \<Rightarrow> bool" where
  "logged g l g' = (eg_registry g' = eg_registry g \<and> eg_log g' = eg_log g @ l)"

lemma sent_only_logged: "sent_only g ms g' = logged g (map Down_sent ms) g'"
  by (simp add: sent_only_def logged_def)

lemma logged_trans: "logged g xs g1 \<Longrightarrow> logged g1 ys g2 \<Longrightarrow> logged g (xs @ ys) g2"
  by (simp add: logged_def)

lemma resolve_startup_parameters:
  "fst (resolve_startup resolver message ctx st) = Inr target \<Longrightarrow> \<exists>parameters. from_wire message = Inr parameters"
  by (cases "from_wire message") (auto simp: resolve_startup_def)

lemma resolve_startup_no_panic: "ctx_tls ctx \<noteq> None \<Longrightarrow> fst (resolve_startup resolver message ctx st) \<noteq> Inl Panic"
  by (auto simp: resolve_startup_def split: sum.splits)

lemma accept_cases:
  assumes "intermediary_accept env peer handshake encrypted pre inbound g = Done (p, g')"
  obtains (unaccepted) l where "logged g (map Down l) g'"
      "p = Pending \<or> (\<exists>e. p = Returned (Inl (Accept_Server e))) \<or> (\<exists>e. p = Returned (Inl (Accept_StartupRoute e)))"
  | (cancellation) l request g1 y where "logged g (map Down l) g1" "forward_cancellation env request g1 = (y, g')" "p = Returned y"
  | (routed) l ctx message selected rest parameters identity g1 where "logged g (map Down l) g1" "from_wire message = Inr parameters"
      "ctx_identity ctx = Some identity" "relay_session env rest ctx message selected g1 = Done (p, g')"
proof -
  let ?server = "(in_server env)\<lparr>se_resolve := resolve_startup (in_resolver env), se_defer_ready := True\<rparr>"
  let ?run = "\<lparr>ar_state = eg_state g, ar_flushes = eg_flushes g, ar_log = []\<rparr>"
  from accept_routed_ok [of ?server peer handshake encrypted pre inbound ?run]
  obtain x rest r where d: "accept_routed ?server peer handshake encrypted pre inbound ?run = Done (x, rest, r)"
    by (cases "accept_routed ?server peer handshake encrypted pre inbound ?run") auto
  let ?g = "g\<lparr>eg_state := ar_state r, eg_flushes := ar_flushes r, eg_log := eg_log g @ map Down (ar_log r)\<rparr>"
  have l: "logged g (map Down (ar_log r)) ?g" by (simp add: logged_def)
  show thesis
  proof (cases x)
    case Pending
    with d assms l unaccepted show thesis by (auto simp: intermediary_accept_def Let_def)
  next
    case (Returned y)
    show thesis
    proof (cases y)
      case (Inl error)
      with d assms Returned l unaccepted show thesis
        by (auto simp: intermediary_accept_def Let_def split: RoutedAcceptError.splits exec.splits)
    next
      case (Inr accepted)
      show thesis
      proof (cases accepted)
        case (Accepted_Session conn ctx message selected)
        with accept_routed_ok [of ?server peer handshake encrypted pre inbound ?run] d Returned Inr
        obtain identity where identity: "ctx_identity ctx = Some identity" and "resolves ?server message (Inr selected)"
          by (auto simp: routed_ok_def)
        then obtain parameters where "from_wire message = Inr parameters"
          by (auto simp: resolves_def dest: resolve_startup_parameters)
        moreover have "relay_session env rest ctx message selected ?g = Done (p, g')"
          using d assms Returned Inr Accepted_Session by (simp add: intermediary_accept_def Let_def)
        ultimately show thesis using routed [OF l _ identity] by blast
      next
        case (Accepted_Cancellation ctx request)
        with d assms Returned Inr have "(case forward_cancellation env request ?g of (y, g) \<Rightarrow> Done (Returned y, g)) = Done (p, g')"
          by (simp add: intermediary_accept_def Let_def)
        then show thesis using cancellation [OF l, of request] by (auto split: prod.splits)
      qed
    qed
  qed
qed

lemma relay_cases:
  assumes "relay_session env inbound ctx message selected g = Done (p, g')" "from_wire message = Inr parameters"
    "ctx_identity ctx = Some identity"
  obtains (failed) clog error g1 where "logged g (map Up clog) g1" "p = Returned (Inl error)" "\<not> output_error error"
      "g' = report_failure (in_failure_policy env) (in_server env) ctx g1"
  | (waiting) clog where "logged g (map Up clog) g'" "p = Pending"
  | (connected) target clog core g1 where "logged g (map Up clog) g1" "in_route env selected (ctx_peer ctx) identity = Inr target"
      "connect_core (in_client env) target parameters (fst (in_attempts env target)) (snd (in_attempts env target)) (eg_state g) =
        Done (Returned (Inr core), eg_state g1, clog)"
      "register_route env inbound ctx target core g1 = Done (p, g')"
proof (cases "in_route env selected (ctx_peer ctx) identity")
  case (Inl error)
  have "logged g (map Up []) g" by (simp add: logged_def)
  then show thesis by (rule failed) (use assms Inl in \<open>auto simp: relay_session_def Let_def output_error_def\<close>)
next
  case (Inr target)
  obtain first retry where tries: "in_attempts env target = (first, retry)" by force
  from assms Inr tries obtain x state clog where d: "connect_core (in_client env) target parameters first retry (eg_state g) = Done (x, state, clog)"
    by (auto simp: relay_session_def Let_def split: exec.splits)
  let ?g = "g\<lparr>eg_state := state, eg_log := eg_log g @ map Up clog\<rparr>"
  have l: "logged g (map Up clog) ?g" by (simp add: logged_def)
  show thesis
  proof (cases x)
    case Pending
    with l assms Inr tries d waiting show thesis by (auto simp: relay_session_def Let_def)
  next
    case (Returned y)
    show thesis
    proof (cases y)
      case e: (Inl error)
      show thesis by (rule failed [OF l]) (use assms Inr tries d Returned e in \<open>auto simp: relay_session_def Let_def output_error_def\<close>)
    next
      case core: (Inr core)
      show thesis by (rule connected [OF l Inr]) (use assms Inr tries d Returned core in \<open>auto simp: relay_session_def Let_def\<close>)
    qed
  qed
qed

section \<open>Outcomes\<close>

fun down_sent :: "('id, 'target) establish_event list \<Rightarrow> BackendMessage list" where
  "down_sent [] = []"
| "down_sent (Down_sent message # l) = message # down_sent l"
| "down_sent (_ # l) = down_sent l"

lemma down_sent_append [simp]: "down_sent (xs @ ys) = down_sent xs @ down_sent ys"
  by (induction xs rule: down_sent.induct) simp_all

lemma down_sent_map [simp]: "down_sent (map Down l) = []" "down_sent (map Up clog) = []" "down_sent (map Down_sent ms) = ms"
proof -
  show "down_sent (map Down l) = []" by (induction l) simp_all
  show "down_sent (map Up clog) = []" by (induction clog) simp_all
  show "down_sent (map Down_sent ms) = ms" by (induction ms) simp_all
qed

text \<open>
  A failure leaves the registry as it was.  The client has been sent at most the diagnostic of the policy or, when
  sending to it is what failed, a part of its startup transcript.
\<close>

definition failed_clean :: "('pol, 'peer, 'id, 'e, 'st, 't, 'rr, 'target, 'cpol, 'cle, 'ev, 'ce, 'pe, 'ae, 'me, 'reg, 'ke) intermediary
    \<Rightarrow> ('id, 'st, 'target, 'reg) establishing \<Rightarrow> ('se, 'rr, 'ae, 'che, 'ke, 'xe, 'me) IntermediaryAcceptError
    \<Rightarrow> ('id, 'st, 'target, 'reg) establishing \<Rightarrow> bool" where
  "failed_clean env g error g' = (\<exists>l. logged g l g' \<and>
     (if output_error error
      then \<exists>statuses key status. prefix (down_sent l) (startup_transcript statuses key status)
      else diagnosed (in_failure_policy env) (in_server env) (down_sent l)))"

text \<open>
  A session has the startup transcript of the upstream connection behind it.  Its key, when cancellations are forwarded
  and PostgreSQL gave one, is registered for its target before the client learns it.
\<close>

definition announced :: "('pol, 'peer, 'id, 'e, 'st, 't, 'rr, 'target, 'cpol, 'cle, 'ev, 'ce, 'pe, 'ae, 'me, 'reg, 'ke) intermediary
    \<Rightarrow> ('target, 'ev) ClientConnectionCore \<Rightarrow> ('id, 'st, 'target, 'reg) establishing
    \<Rightarrow> ('peer, 'id, 'st, 'target, 'ev) established \<Rightarrow> ('id, 'st, 'target, 'reg) establishing \<Rightarrow> bool" where
  "announced env core g es g' = (es_client_context es = core_context core \<and> (\<exists>status.
     case es_client_cancel_key es of
       None \<Rightarrow> (in_cancellation env = Cancellation_Reject \<or> cc_backend_key (core_context core) = None) \<and>
         logged g (map Down_sent (startup_transcript (dx_parameter_statuses (core_demux core)) None status)) g'
     | Some key \<Rightarrow> in_cancellation env = Cancellation_Forward \<and> (\<exists>upstream way.
         cc_backend_key (core_context core) = Some upstream \<and> way = \<lparr>route_target = es_target es, route_upstream = upstream\<rparr> \<and>
         rg_resolve (in_registry env) (eg_registry g) key = None \<and>
         rg_resolve (in_registry env) (eg_registry g') = (rg_resolve (in_registry env) (eg_registry g))(key \<mapsto> way) \<and>
         eg_log g' = eg_log g @ Registered key way # map Down_sent (startup_transcript (dx_parameter_statuses (core_demux core)) (Some key) status))))"

text \<open>
  A session is the end of this sequence: the client is accepted, its route is selected, and the connection to
  PostgreSQL is established with the startup parameters of the client before anything is announced.
\<close>

definition relayed :: "('pol, 'peer, 'id, 'e, 'st, 't, 'rr, 'target, 'cpol, 'cle, 'ev, 'ce, 'pe, 'ae, 'me, 'reg, 'ke) intermediary
    \<Rightarrow> ('id, 'st, 'target, 'reg) establishing \<Rightarrow> ('peer, 'id, 'st, 'target, 'ev) established
    \<Rightarrow> ('id, 'st, 'target, 'reg) establishing \<Rightarrow> bool" where
  "relayed env g es g' = (\<exists>l clog message parameters selected identity core g1 g2.
     logged g (map Down l) g1 \<and> logged g1 (map Up clog) g2 \<and> from_wire message = Inr parameters \<and>
     ctx_identity (es_server_context es) = Some identity \<and>
     in_route env selected (ctx_peer (es_server_context es)) identity = Inr (es_target es) \<and>
     connect_core (in_client env) (es_target es) parameters (fst (in_attempts env (es_target es))) (snd (in_attempts env (es_target es)))
       (eg_state g1) = Done (Returned (Inr core), eg_state g2, clog) \<and> announced env core g2 es g')"

lemma conclude_unregistered:
  fixes p :: "(('se, 'rr, 'ae, 'che, 'ke, 'xe, 'me) IntermediaryAcceptError + ('peer, 'id, 'st, 'target, 'ev) IntermediaryAccept) poll"
  assumes "conclude env inbound ctx target core None g = (p, g')"
    "in_cancellation env = Cancellation_Reject \<or> cc_backend_key (core_context core) = None"
  shows "(\<exists>error. p = Returned (Inl error) \<and> failed_clean env g error g') \<or>
    (\<exists>es. p = Returned (Inr (Session_established es)) \<and> es_target es = target \<and> es_server_context es = ctx \<and> announced env core g es g')"
proof -
  obtain x :: "('se, 'rr, 'ae, 'che, 'ke, 'xe, 'me) IntermediaryAcceptError + Demux" and g1
    where x: "announce env ctx core None g = (x, g1)" by force
  from announce_sends [OF x] obtain ms status where ms: "logged g (map Down_sent ms) g1" "prefix ms (startup_transcript (dx_parameter_statuses (core_demux core)) None status)"
    "\<And>demux. x = Inr demux \<Longrightarrow> ms = startup_transcript (dx_parameter_statuses (core_demux core)) None status" "\<And>error. x = Inl error \<Longrightarrow> output_error error"
    by (auto simp: sent_only_logged)
  show ?thesis
  proof (cases x)
    case (Inl error)
    with x assms have "p = Returned (Inl error)" "g' = g1" by (auto simp: conclude_def detach_cancellation_def)
    moreover have "failed_clean env g error g1"
      using ms(1,2) ms(4) [OF Inl] unfolding failed_clean_def
      by (intro exI [of _ "map Down_sent ms"]) (auto intro!: exI [of _ "dx_parameter_statuses (core_demux core)"] exI [of _ None] exI [of _ status])
    ultimately show ?thesis by blast
  next
    case (Inr demux)
    with x assms ms(1) ms(3) [OF Inr] show ?thesis by (auto simp: conclude_def announced_def)
  qed
qed

lemma failed_clean_later:
  assumes "logged g l g1" "down_sent l = []" "failed_clean env g1 error g'"
  shows "failed_clean env g error g'"
proof -
  from assms(3) obtain l' where l': "logged g1 l' g'" "if output_error error
    then \<exists>statuses key status. prefix (down_sent l') (startup_transcript statuses key status)
    else diagnosed (in_failure_policy env) (in_server env) (down_sent l')" unfolding failed_clean_def by blast
  then show ?thesis unfolding failed_clean_def using logged_trans [OF assms(1) l'(1)] assms(2)
    by (intro exI [of _ "l @ l'"]) simp
qed

lemma forward_cancellation_cases:
  assumes "forward_cancellation env request g = (y, g')"
  obtains (refused) "g' = g" "y = Inl Accept_CancellationRejected"
  | (forwarded) way packet where "in_cancellation env = Cancellation_Forward"
      "rg_resolve (in_registry env) (eg_registry g) \<lparr>key_process_id = cancel_process_id request, key_secret = cancel_secret_key request\<rparr> = Some way"
      "logged g [Cancel_sent (route_target way) packet] g'" "y = Inr CancellationForwarded \<or> (\<exists>error. y = Inl (Accept_Cancellation error))"
  using assms
  by (cases "in_cancellation env")
    (auto simp: forward_cancellation_def eg_event_def logged_def split: option.splits prod.splits sum.splits)

lemma forward_cancellation_logged:
  assumes "forward_cancellation env request g = (y, g')"
  shows "\<exists>l. logged g l g' \<and> down_sent l = [] \<and> (\<forall>error. y = Inl error \<longrightarrow> \<not> output_error error) \<and> (\<forall>es. y \<noteq> Inr (Session_established es))"
  using assms
proof (cases rule: forward_cancellation_cases)
  case refused
  then show ?thesis by (auto simp: logged_def output_error_def)
next
  case (forwarded way packet)
  then show ?thesis by (auto simp: output_error_def intro!: exI [of _ "[Cancel_sent (route_target way) packet]"])
qed

lemma failed_clean_unanswered:
  "logged g l g' \<Longrightarrow> down_sent l = [] \<Longrightarrow> \<not> output_error error \<Longrightarrow> failed_clean env g error g'"
  by (auto simp: failed_clean_def diagnosed_def)

context route_registry
begin

lemma conclude_registered:
  fixes p :: "(('se, 'rr, 'ae, 'che, 'ke, 'xe, 'me) IntermediaryAcceptError + ('peer, 'id, 'st, 'target, 'ev) IntermediaryAccept) poll"
  assumes "in_registry env = registry" "rg_register registry (eg_registry g) way = Done (Inr key, reg)"
    "conclude env inbound ctx target core (Some key) (eg_event (Registered key way) (g\<lparr>eg_registry := reg\<rparr>)) = (p, g')"
    "in_cancellation env = Cancellation_Forward" "cc_backend_key (core_context core) = Some upstream"
    "way = \<lparr>route_target = target, route_upstream = upstream\<rparr>"
  shows "(\<exists>error. p = Returned (Inl error) \<and> failed_clean env g error g') \<or>
    (\<exists>es. p = Returned (Inr (Session_established es)) \<and> es_target es = target \<and> es_server_context es = ctx \<and> announced env core g es g')"
proof -
  let ?g = "eg_event (Registered key way) (g\<lparr>eg_registry := reg\<rparr>)"
  obtain x :: "('se, 'rr, 'ae, 'che, 'ke, 'xe, 'me) IntermediaryAcceptError + Demux" and g1
    where x: "announce env ctx core (Some key) ?g = (x, g1)" by force
  from announce_sends [OF x] obtain ms status where ms: "eg_registry g1 = reg" "eg_log g1 = eg_log g @ Registered key way # map Down_sent ms"
    "prefix ms (startup_transcript (dx_parameter_statuses (core_demux core)) (Some key) status)" "\<And>demux. x = Inr demux \<Longrightarrow> ms = startup_transcript (dx_parameter_statuses (core_demux core)) (Some key) status"
    "\<And>error. x = Inl error \<Longrightarrow> output_error error"
    by (auto simp: sent_only_def eg_event_def)
  show ?thesis
  proof (cases x)
    case (Inl error)
    obtain old reg' where detach: "rg_detach registry reg key = (old, reg')" by force
    with detach_registered [OF assms(2)] have "reg' = eg_registry g" by simp
    with x Inl assms detach ms have "p = Returned (Inl error)" "logged g (Registered key way # map Down_sent ms @ [Detached key]) g'"
      by (auto simp: conclude_def detach_cancellation_def logged_def eg_event_def)
    moreover from this ms(3) ms(5) [OF Inl] have "failed_clean env g error g'" unfolding failed_clean_def
      by (intro exI [of _ "Registered key way # map Down_sent ms @ [Detached key]"])
        (auto intro!: exI [of _ "dx_parameter_statuses (core_demux core)"] exI [of _ "Some key"] exI [of _ status])
    ultimately show ?thesis by blast
  next
    case (Inr demux)
    with x assms ms register_resolves [OF assms(2)] register_fresh [OF assms(2)] show ?thesis by (auto simp: conclude_def announced_def)
  qed
qed

lemma register_outcome:
  fixes p :: "(('se, 'rr, 'ae, 'che, 'ke, 'xe, 'me) IntermediaryAcceptError + ('peer, 'id, 'st, 'target, 'ev) IntermediaryAccept) poll"
  assumes "in_registry env = registry" "register_route env inbound ctx target core g = Done (p, g')"
  shows "(\<exists>error. p = Returned (Inl error) \<and> failed_clean env g error g') \<or>
    (\<exists>es. p = Returned (Inr (Session_established es)) \<and> es_target es = target \<and> es_server_context es = ctx \<and> announced env core g es g')"
proof (cases "in_cancellation env = Cancellation_Forward \<and> cc_backend_key (core_context core) \<noteq> None")
  case False
  then have "conclude env inbound ctx target core None g = (p, g')"
    using assms(2) by (cases "in_cancellation env") (auto simp: register_route_def)
  moreover have "in_cancellation env = Cancellation_Reject \<or> cc_backend_key (core_context core) = None"
    using False CancellationPolicy.exhaust [of "in_cancellation env"] by blast
  ultimately show ?thesis by (rule conclude_unregistered)
next
  case True
  then obtain upstream where forward: "in_cancellation env = Cancellation_Forward" "cc_backend_key (core_context core) = Some upstream" by blast
  let ?way = "\<lparr>route_target = target, route_upstream = upstream\<rparr>"
  from assms forward obtain x reg where x: "rg_register registry (eg_registry g) ?way = Done (x, reg)"
    by (auto simp: register_route_def Let_def split: exec.splits)
  show ?thesis
  proof (cases x)
    case (Inl error)
    with register_refused x have same: "reg = eg_registry g" by blast
    with assms forward x Inl have p: "p = Returned (Inl (Accept_CancellationRegistry error))"
      and g': "g' = report_failure (in_failure_policy env) (in_server env) ctx g"
      by (auto simp: register_route_def Let_def)
    from report_failure_sends [of g "in_failure_policy env" "in_server env" ctx] obtain ms where
      "sent_only g ms g'" "diagnosed (in_failure_policy env) (in_server env) ms" unfolding g' by blast
    then have "failed_clean env g (Accept_CancellationRegistry error) g'"
      by (auto simp: failed_clean_def sent_only_logged output_error_def intro!: exI [of _ "map Down_sent ms"])
    with p show ?thesis by blast
  next
    case (Inr key)
    with assms forward x have "conclude env inbound ctx target core (Some key) (eg_event (Registered key ?way) (g\<lparr>eg_registry := reg\<rparr>)) = (p, g')"
      by (simp add: register_route_def Let_def)
    with assms(1) x Inr forward show ?thesis by (intro conclude_registered) auto
  qed
qed

lemma accept_outcome:
  assumes "in_registry env = registry" "intermediary_accept env peer handshake encrypted pre inbound g = Done (p, g')"
  shows "case p of
      Pending \<Rightarrow> \<exists>l. logged g l g' \<and> down_sent l = []
    | Returned (Inl error) \<Rightarrow> failed_clean env g error g'
    | Returned (Inr CancellationForwarded) \<Rightarrow> \<exists>l. logged g l g' \<and> down_sent l = []
    | Returned (Inr (Session_established es)) \<Rightarrow> relayed env g es g'"
  using assms(2)
proof (cases rule: accept_cases)
  case (unaccepted l)
  then show ?thesis by (auto simp: output_error_def intro!: failed_clean_unanswered exI [of _ "map Down l"])
next
  case (cancellation l request g1 y)
  from forward_cancellation_logged [OF cancellation(2)] obtain m where m: "logged g1 m g'" "down_sent m = []"
    "\<And>error. y = Inl error \<Longrightarrow> \<not> output_error error" "\<And>es. y \<noteq> Inr (Session_established es)" by blast
  with logged_trans [OF cancellation(1)] have "logged g (map Down l @ m) g'" by blast
  with m cancellation(3) show ?thesis
    by (auto split: sum.split IntermediaryAccept.split intro!: failed_clean_unanswered exI [of _ "map Down l @ m"])
next
  case (routed l ctx message selected rest parameters identity g1)
  from routed(4,2,3) show ?thesis
  proof (cases rule: relay_cases)
    case (failed clog error g2)
    from report_failure_sends [of g2 "in_failure_policy env" "in_server env" ctx] obtain ms where
      "logged g2 (map Down_sent ms) g'" "diagnosed (in_failure_policy env) (in_server env) ms"
      unfolding failed(4) sent_only_logged by blast
    with failed(3) have "failed_clean env g2 error g'" by (auto simp: failed_clean_def intro!: exI [of _ "map Down_sent ms"])
    with failed_clean_later [OF logged_trans [OF routed(1) failed(1)]] failed(2) show ?thesis by simp
  next
    case (waiting clog)
    with logged_trans [OF routed(1) waiting(1)] show ?thesis by (auto intro!: exI [of _ "map Down l @ map Up clog"])
  next
    case (connected target clog core g2)
    from register_outcome [OF assms(1) connected(4)] show ?thesis
    proof (elim disjE exE conjE)
      fix error
      assume "p = Returned (Inl error)" "failed_clean env g2 error g'"
      with failed_clean_later [OF logged_trans [OF routed(1) connected(1)]] show ?thesis by simp
    next
      fix es
      assume "p = Returned (Inr (Session_established es))" "es_target es = target" "es_server_context es = ctx" "announced env core g2 es g'"
      moreover from this routed(1,2,3) connected(1-3) have "relayed env g es g'" unfolding relayed_def by blast
      ultimately show ?thesis by simp
    qed
  qed
qed

end

lemma establish_on_no_panic: "establish_on env at ctx message st log \<noteq> Panic"
  using establish_waits [of "cn_session env ctx" "fst (cn_startup env ctx st message)" "at_inbound at"
    "\<lparr>cr_policy = cn_idle env, cr_state = snd (cn_startup env ctx st message), cr_flushes = at_flushes at, cr_log = []\<rparr>"]
  by (auto simp: establish_on_def split: prod.splits exec.splits poll.splits sum.splits)

lemma connect_core_no_panic: "connect_core env target overrides first retry st \<noteq> Panic"
  by (auto simp: connect_core_def establish_on_no_panic split: sum.splits prod.splits poll.splits exec.splits if_splits)

lemma relay_no_panic:
  assumes "in_registry env = in_memory_registry" "from_wire message = Inr parameters" "ctx_identity ctx = Some identity"
  shows "relay_session env inbound ctx message selected g \<noteq> Panic"
proof -
  have "register_route env inbound ctx target core g \<noteq> Panic" for target core g
    using assms(1)
    by (auto simp: register_route_def in_memory_registry_def in_memory_register_def Let_def
        split: prod.splits CancellationPolicy.splits option.splits sum.splits)
  then show ?thesis
    by (auto simp: relay_session_def Let_def assms(2,3) connect_core_no_panic split: sum.splits prod.splits exec.splits poll.splits)
qed

lemma accept_no_panic:
  assumes "in_registry env = in_memory_registry"
  shows "intermediary_accept env peer handshake encrypted pre inbound g \<noteq> Panic"
proof
  assume panic: "intermediary_accept env peer handshake encrypted pre inbound g = Panic"
  let ?server = "(in_server env)\<lparr>se_resolve := resolve_startup (in_resolver env), se_defer_ready := True\<rparr>"
  let ?run = "\<lparr>ar_state = eg_state g, ar_flushes = eg_flushes g, ar_log = []\<rparr>"
  have ok: "routed_ok ?server (accept_routed ?server peer handshake encrypted pre inbound ?run)" by (rule accept_routed_ok)
  then obtain x rest r where d: "accept_routed ?server peer handshake encrypted pre inbound ?run = Done (x, rest, r)"
    by (cases "accept_routed ?server peer handshake encrypted pre inbound ?run") auto
  have "\<exists>identity parameters. ctx_identity ctx = Some identity \<and> from_wire message = Inr parameters"
    if "x = Returned (Inr (Accepted_Session conn ctx message selected))" for conn ctx message selected
    using ok d that by (auto simp: routed_ok_def resolves_def dest!: resolve_startup_parameters)
  with relay_no_panic [OF assms] have session: "relay_session env rest ctx message selected g1 \<noteq> Panic"
    if "x = Returned (Inr (Accepted_Session conn ctx message selected))" for conn ctx message selected g1 using that by blast
  have "x \<noteq> Returned (Inl (Routed_Route Panic))"
    using ok d by (auto simp: routed_ok_def resolves_def resolve_startup_no_panic)
  with panic d show False
    by (auto simp: intermediary_accept_def Let_def relay_no_panic [OF assms] dest!: session
        split: exec.splits prod.splits poll.splits sum.splits RoutedAcceptError.splits ServerAccept.splits)
qed

section \<open>Serving\<close>

text \<open>The routes of the sessions of an intermediary.\<close>

definition session_route :: "('peer, 'id, 'st, 'target, 'ev) established \<Rightarrow> (CancelKey \<times> 'target CancellationRoute) list" where
  "session_route es = (case (es_client_cancel_key es, cc_backend_key (es_client_context es)) of
     (Some key, Some upstream) \<Rightarrow> [(key, \<lparr>route_target = es_target es, route_upstream = upstream\<rparr>)] | _ \<Rightarrow> [])"

definition live_routes :: "('peer, 'id, 'st, 'target, 'ev) established list \<Rightarrow> (CancelKey \<times> 'target CancellationRoute) list" where
  "live_routes live = concat (map session_route live)"

lemma live_routes_simps [simp]: "live_routes [] = []" "live_routes (es # live) = session_route es @ live_routes live"
  "live_routes (xs @ ys) = live_routes xs @ live_routes ys"
  by (simp_all add: live_routes_def)

text \<open>An intermediary that accepts connections one after the other and tears sessions down, in any order.\<close>

inductive serving :: "('pol, 'peer, 'id, 'e, 'st, 't, 'rr, 'target, 'cpol, 'cle, 'ev, 'ce, 'pe, 'ae, 'me, 'reg, 'ke) intermediary
    \<Rightarrow> 'reg \<Rightarrow> 'reg \<Rightarrow> ('peer, 'id, 'st, 'target, 'ev) established list \<Rightarrow> bool" for env reg0 where
  serving_start: "serving env reg0 reg0 []"
| serving_accept: "serving env reg0 (eg_registry g) live \<Longrightarrow>
    intermediary_accept env peer handshake encrypted pre inbound g = Done (p, g') \<Longrightarrow>
    serving env reg0 (eg_registry g') (case p of Returned (Inr (Session_established es)) \<Rightarrow> es # live | _ \<Rightarrow> live)"
| serving_teardown: "serving env reg0 (eg_registry (g :: ('id, 'st, 'target, 'reg) establishing)) (xs @ es # ys) \<Longrightarrow>
    detach_cancellation (in_registry env) (es_client_cancel_key es) g = (way, g') \<Longrightarrow>
    serving env reg0 (eg_registry g') (xs @ ys)"

lemma map_of_remove:
  "distinct (map fst (xs @ (k, v) # ys)) \<Longrightarrow> (map_of (xs @ (k, v) # ys))(k := None) = map_of (xs @ ys)"
proof -
  assume "distinct (map fst (xs @ (k, v) # ys))"
  then have "map_of xs k = None" "map_of ys k = None" by (auto simp: map_of_eq_None_iff)
  then show ?thesis by (auto simp: fun_eq_iff map_add_def split: option.splits)
qed

context route_registry
begin

lemma serving_routes:
  assumes "serving env reg0 reg live" "in_registry env = registry" "rg_resolve registry reg0 = Map.empty"
  shows "rg_resolve registry reg = map_of (live_routes live) \<and> distinct (map fst (live_routes live)) \<and>
    (\<forall>es \<in> set live. es_client_cancel_key es \<noteq> None \<longrightarrow> session_route es \<noteq> [])"
  using assms(1)
proof (induction rule: serving.induct)
  case serving_start
  then show ?case using assms(3) by simp
next
  case (serving_accept g live peer handshake encrypted pre inbound p g')
  note outcome = accept_outcome [OF assms(2) serving_accept(2)]
  show ?case
  proof (cases "\<exists>es. p = Returned (Inr (Session_established es))")
    case False
    with outcome have "eg_registry g' = eg_registry g"
      by (auto simp: failed_clean_def logged_def split: poll.splits sum.splits IntermediaryAccept.splits)
    with False serving_accept(3) show ?thesis by (auto split: poll.splits sum.splits IntermediaryAccept.splits)
  next
    case True
    then obtain es where es: "p = Returned (Inr (Session_established es))" by blast
    with outcome obtain core g2 where a: "announced env core g2 es g'" and same: "eg_registry g2 = eg_registry g"
      by (auto simp: relayed_def logged_def)
    show ?thesis
    proof (cases "es_client_cancel_key es")
      case None
      with a es same serving_accept(3) show ?thesis by (auto simp: announced_def logged_def session_route_def)
    next
      case (Some key)
      with a assms(2) obtain upstream where up: "session_route es = [(key, \<lparr>route_target = es_target es, route_upstream = upstream\<rparr>)]"
        and fresh: "rg_resolve registry (eg_registry g2) key = None"
        and now: "rg_resolve registry (eg_registry g') = (rg_resolve registry (eg_registry g2))(key \<mapsto> \<lparr>route_target = es_target es, route_upstream = upstream\<rparr>)"
        by (auto simp: announced_def session_route_def)
      with serving_accept(3) same es show ?thesis by (auto simp: map_of_eq_None_iff)
    qed
  qed
next
  case (serving_teardown g xs es ys way g')
  show ?case
  proof (cases "es_client_cancel_key es")
    case None
    with serving_teardown show ?thesis by (auto simp: detach_cancellation_def session_route_def)
  next
    case (Some key)
    with serving_teardown(3) obtain route where r: "session_route es = [(key, route)]"
      by (auto simp: session_route_def split: option.splits)
    from serving_teardown(2) Some assms(2) have "eg_registry g' = snd (rg_detach registry (eg_registry g) key)"
      by (auto simp: detach_cancellation_def eg_event_def split: prod.splits)
    with detach_resolves have "rg_resolve registry (eg_registry g') = (rg_resolve registry (eg_registry g))(key := None)" by simp
    with serving_teardown(3) r map_of_remove [of "live_routes xs" key route "live_routes ys"] show ?thesis by auto
  qed
qed

end

section \<open>Guarantees of an intermediary\<close>

text \<open>An intermediary that trusts its clients and routes all of them to one server, which answers at once.\<close>

definition sample_upstream :: "BackendMessage script" where
  "sample_upstream = [Inr (B_Authentication Auth_Ok), Inr (B_ParameterStatus [1] [2]), Inr (B_BackendKeyData 7 [1, 2, 3, 4]), Inr (B_ReadyForQuery Idle)]"

definition sample_intermediary :: "(unit, unit, unit, unit, unit, unit, unit, nat, bytes StaticClientCredentialSession, StaticCredentialError, unit,
    unit, unit, unit, unit, nat InMemoryCancellationRegistry, InMemoryCancellationRegistryError) intermediary" where
  "sample_intermediary = \<lparr>in_server = \<lparr>se_create = (), se_start = trust_start, se_respond = (\<lambda>policy request response. (Inl (), policy)),
       se_pre_startup = (\<lambda>ctx st m. (m, st)), se_startup = (\<lambda>ctx st m. (m, st)), se_cancellation = (\<lambda>ctx st m. (m, st)),
       se_frontend = (\<lambda>ctx st m. (m, st)), se_backend = (\<lambda>ctx st m. (m, st)), se_tls_provider = None,
       se_tls_required = False, se_resolve = (\<lambda>m ctx st. (Inl Panic, st)), se_defer_ready = False,
       se_max_frame_len = 1000, se_max_pre_startup_packet_len = 1000\<rparr>,
     in_resolver = (\<lambda>parameters peer tls. Inr 5), in_route = (\<lambda>target peer identity. Inr target),
     in_client = \<lparr>cn_defaults = StartupParameters_default, cn_tls = None, cn_pre_startup = (\<lambda>_ s m. (m, s)),
       cn_startup = (\<lambda>_ s m. (m, s)), cn_session = (\<lambda>_. sample_env), cn_idle = cr_policy sample_run\<rparr>,
     in_attempts = (\<lambda>_. (sample_attempt\<lparr>at_inbound := sample_upstream\<rparr>, sample_attempt\<lparr>at_inbound := sample_upstream\<rparr>)),
     in_cancel_attempt = (\<lambda>_. (Inr (), None, None)), in_boundary_backend = (\<lambda>_ _ s m. (Inr (Backend_Forward m), s)),
     in_cancellation = Cancellation_Forward, in_failure_policy = Failure_Close, in_pipeline = NoPipeline,
     in_registry = in_memory_registry\<rparr>"

definition sample_establishing :: "(unit, unit, nat, nat InMemoryCancellationRegistry) establishing" where
  "sample_establishing = \<lparr>eg_state = (), eg_flushes = [], eg_registry = \<lparr>mem_routes = Map.empty, mem_poisoned = False\<rparr>, eg_log = []\<rparr>"

definition sample_client :: StartupMessage where
  "sample_client = \<lparr>startup_version = V3_2, startup_parameters = [(bstr ''user'', [97])]\<rparr>"

lemma sample_registry: "in_registry sample_intermediary = in_memory_registry"
  by (simp add: sample_intermediary_def)

lemmas relay_eval = accept_eval sample_intermediary_def sample_establishing_def sample_client_def sample_upstream_def sample_attempt_def
  intermediary_accept_def resolve_startup_def from_wire_def relay_session_def register_route_def conclude_def announce_def
  relay_parameters.simps send_backend_key_def send_ready_def send_wire_raw_def intercept_backend_def eg_event_def
  in_memory_registry_def in_memory_register_def in_memory_resolve_def trust_start_def pop_parameter_status_def
  connect_core_def open_transport_def establish_on_def merged_with_def into_message_def StartupParameters_default_def
  sample_env_def sample_run_def establish_client_session_def startup_def flush_run_def log_event_def observe_def
  auth_ok_offer_def offer_ready_def Demux_default_def project_authentication_def authentication_is_def connected_core_def push_async_def utf8_width_def

lemma sample_relays:
  "case intermediary_accept sample_intermediary () (Inl (invalid [])) [] [Inr (P_Startup sample_client)] [] sample_establishing of
     Done (Returned (Inr (Session_established es)), g') \<Rightarrow> es_client_cancel_key es = Some \<lparr>key_process_id = 7, key_secret = [1, 2, 3, 4]\<rparr> \<and> es_target es = 5 \<and>
       cc_backend_key (es_client_context es) = es_client_cancel_key es
   | _ \<Rightarrow> False"
  by (simp add: relay_eval Let_def)





text \<open>How a cancellation request arrives: its key is resolved, and the packet of the upstream key goes to the target.\<close>

lemma accept_cancel_request:
  assumes "with_limits_frontend () (se_max_frame_len (in_server env)) (se_max_pre_startup_packet_len (in_server env)) = Inr transport"
    and "\<And>ctx st m. fst (se_pre_startup (in_server env) ctx st m) = m"
    and "\<And>ctx st request. fst (se_cancellation (in_server env) ctx st request) = request"
  shows "\<exists>g1. logged g [] g1 \<and>
    intermediary_accept env peer handshake encrypted (Inr (P_CancelRequest (key_process_id key) (key_secret key)) # pre) inbound g =
      (case forward_cancellation env \<lparr>cancel_process_id = key_process_id key, cancel_secret_key = key_secret key\<rparr> g1 of
         (y, g') \<Rightarrow> Done (Returned y, g'))"
proof -
  let ?server = "(in_server env)\<lparr>se_resolve := resolve_startup (in_resolver env), se_defer_ready := True\<rparr>"
  let ?run = "\<lparr>ar_state = eg_state g, ar_flushes = eg_flushes g, ar_log = []\<rparr>"
  let ?ctx = "\<lparr>ctx_peer = peer, ctx_tls = None, ctx_identity = None\<rparr>"
  obtain state where pre: "se_pre_startup (in_server env) ?ctx (eg_state g) (P_CancelRequest (key_process_id key) (key_secret key)) =
      (P_CancelRequest (key_process_id key) (key_secret key), state)" using assms(2) by (metis prod.collapse)
  let ?request = "\<lparr>cancel_process_id = key_process_id key, cancel_secret_key = key_secret key\<rparr>"
  obtain state' where request: "se_cancellation (in_server env) (?ctx\<lparr>ctx_tls := Some Tls_Plaintext\<rparr>) state ?request = (?request, state')"
    using assms(3) by (metis prod.collapse)
  from assms(1) pre request
  have "accept_routed ?server peer handshake encrypted (Inr (P_CancelRequest (key_process_id key) (key_secret key)) # pre) inbound ?run =
    Done (Returned (Inr (Accepted_Cancellation (?ctx\<lparr>ctx_tls := Some Tls_Plaintext\<rparr>) ?request)), inbound, ?run\<lparr>ar_state := state'\<rparr>)"
    by (simp add: accept_routed_def intercept_pre_startup_def accept_cancellation_def Let_def)
  then show ?thesis
    by (intro exI [of _ "g\<lparr>eg_state := state', eg_flushes := eg_flushes g, eg_log := eg_log g @ map Down []\<rparr>"])
      (simp add: intermediary_accept_def Let_def logged_def)
qed

text \<open>
  C8. A cancellation reaches the session it names and no other.  However connections were accepted and sessions torn
  down before, in any order and with any failures, a request with the key of a live session is forwarded as exactly one
  packet, to the target of that session and with the key PostgreSQL issued for it, and a key that has no packet is an
  error with nothing written; a request with any other key is rejected and nothing is sent.
\<close>

theorem cancellation_exact:
  assumes "in_registry env = in_memory_registry"
    and "serving env \<lparr>mem_routes = Map.empty, mem_poisoned = False\<rparr> (eg_registry g) live"
    and "in_cancellation env = Cancellation_Forward"
    and "with_limits_frontend () (se_max_frame_len (in_server env)) (se_max_pre_startup_packet_len (in_server env)) = Inr transport"
    and "\<And>ctx st m. fst (se_pre_startup (in_server env) ctx st m) = m"
    and "\<And>ctx st request. fst (se_cancellation (in_server env) ctx st request) = request"
    and "\<And>target. in_cancel_attempt env target = (Inr (), None, None)"
  shows "\<exists>p g'. intermediary_accept env peer handshake encrypted
      (Inr (P_CancelRequest (key_process_id key) (key_secret key)) # pre) inbound g = Done (Returned p, g') \<and>
    (case map_of (live_routes live) key of
       None \<Rightarrow> p = Inl Accept_CancellationRejected \<and> logged g [] g'
     | Some way \<Rightarrow> (case to_packet (P_CancelRequest (key_process_id (route_upstream way)) (key_secret (route_upstream way))) of
         Inl error \<Rightarrow> p = Inl (Accept_Cancellation (Cancel_Protocol error)) \<and> logged g [Cancel_sent (route_target way) []] g'
       | Inr packet \<Rightarrow> p = Inr CancellationForwarded \<and> logged g [Cancel_sent (route_target way) packet] g'))"
proof -
  have routes: "in_memory_resolve (eg_registry g) = map_of (live_routes live)"
    using in_memory.serving_routes [OF assms(2,1)] by (simp add: in_memory_registry_def in_memory_resolve_def fun_eq_iff)
  from accept_cancel_request [OF assms(4-6)] obtain g1 where g1: "logged g [] g1"
    "intermediary_accept env peer handshake encrypted (Inr (P_CancelRequest (key_process_id key) (key_secret key)) # pre) inbound g =
      (case forward_cancellation env \<lparr>cancel_process_id = key_process_id key, cancel_secret_key = key_secret key\<rparr> g1 of
         (y, g') \<Rightarrow> Done (Returned y, g'))" by blast
  from g1(1) routes have "in_memory_resolve (eg_registry g1) = map_of (live_routes live)" by (simp add: logged_def)
  with g1 show ?thesis using assms(1,3,7)
    by (cases key) (auto simp: forward_cancellation_def in_memory_registry_def cancel_def eg_event_def logged_def split: option.splits sum.splits)
qed

theorem cancellation_exact_witness:
  "\<exists>es g' g'' packet. intermediary_accept sample_intermediary () (Inl (invalid [])) [] [Inr (P_Startup sample_client)] [] sample_establishing =
      Done (Returned (Inr (Session_established es)), g') \<and>
    intermediary_accept sample_intermediary () (Inl (invalid [])) [] [Inr (P_CancelRequest 7 [1, 2, 3, 4])] [] g' =
      Done (Returned (Inr CancellationForwarded), g'') \<and> logged g' [Cancel_sent 5 packet] g''"
proof -
  let ?key = "\<lparr>key_process_id = 7, key_secret = [1, 2, 3, 4]\<rparr> :: CancelKey"
  from sample_relays obtain es g' where es:
    "intermediary_accept sample_intermediary () (Inl (invalid [])) [] [Inr (P_Startup sample_client)] [] sample_establishing =
      Done (Returned (Inr (Session_established es)), g')" and "es_client_cancel_key es = Some ?key" "es_target es = 5"
      "cc_backend_key (es_client_context es) = Some ?key"
    by (auto split: exec.splits prod.splits poll.splits sum.splits IntermediaryAccept.splits)
  then have route: "map_of (live_routes [es]) ?key = Some \<lparr>route_target = 5, route_upstream = ?key\<rparr>"
    by (simp add: session_route_def)
  have "serving sample_intermediary \<lparr>mem_routes = Map.empty, mem_poisoned = False\<rparr> (eg_registry g') [es]"
    using serving_accept [OF _ es] serving_start [of sample_intermediary] by (simp add: sample_establishing_def)
  moreover have "to_packet (P_CancelRequest 7 [1, 2, 3, 4]) = Inr [0, 0, 0, 16, 4, 210, 22, 46, 0, 0, 0, 7, 1, 2, 3, 4]"
    by (simp add: eval_defs cancel_packet_def CANCEL_REQUEST_CODE_def)
  moreover obtain transport where "with_limits_frontend () (se_max_frame_len (in_server sample_intermediary))
      (se_max_pre_startup_packet_len (in_server sample_intermediary)) = Inr transport"
    by (simp add: sample_intermediary_def with_limits_frontend_def eval_defs)
  ultimately show ?thesis
    using cancellation_exact [OF sample_registry, of g' "[es]" _ "()" "Inl (invalid [])" "[]" ?key "[]" "[]"] es route
    by (fastforce simp: sample_intermediary_def)
qed

end
