(* ===== verification/Spec2Isabelle.thy ===== *)
theory Spec2Isabelle
  imports Grammar_Laws Pipeline_Queue Transport_Laws Session_Laws Scram_Laws Cancel Backend_Hold Resources_Laws Auth_Laws
    Server_Session_Laws Login Intermediary_Relay Intermediary_Accept_Laws
begin

text \<open>
  \<^bold>\<open>A verification development for pg-proto\<close>, a Rust implementation of the PostgreSQL frontend/backend
  protocol for clients, servers and intermediaries (proxies).

  \<^bold>\<open>The program.\<close>  A peer encodes messages into frames and pushes them into a buffered transport
  (\<open>codec.rs\<close>, \<open>transport.rs\<close>); the other peer decodes them from whatever pieces the stream delivers.
  Before frames there are untagged packets that negotiate encryption and start the session
  (\<open>pre_startup.rs\<close>, \<open>startup.rs\<close>), then an authentication exchange (\<open>auth.rs\<close>, \<open>server_auth.rs\<close>,
  \<open>scram.rs\<close>), which the components drive with the policy of the application (\<open>client_component.rs\<close>,
  \<open>server_component.rs\<close>).  On the client,
  asynchronous traffic is separated from the session by a demultiplexer (\<open>demux.rs\<close>), and the session is
  a typestate (\<open>session.rs\<close>, on the server \<open>server_session.rs\<close>) that follows one of six grammars (\<open>grammar.rs\<close>), which the macro of
  \<open>pg-proto-fsm\<close> turns into a runtime state machine.  Middleware may inspect and replace messages
  (\<open>middleware.rs\<close>).  An intermediary relates requests and responses with a ledger (\<open>pipeline.rs\<close>), holds
  messages back (\<open>backend_hold.rs\<close>), translates cancellation keys (\<open>cancel.rs\<close>) and forwards between the two
  connections under the decisions of the application (\<open>intermediary_component.rs\<close>).

  \<^bold>\<open>Conventions.\<close>  Bytes are \<^typ>\<open>8 word\<close> lists, fixed-width integers are words, \<open>usize\<close> is \<^typ>\<open>nat\<close>
  with the 64-bit bound written out where it is checked.  \<open>io::Result\<close> is a sum with \<open>io_error\<close> on the
  left.  A function that mutates its argument returns it, also on errors.  A panic is the value \<open>Panic\<close> of
  \<open>exec\<close>.  An \<open>async\<close> operation runs over a script of what the stream returns; it is \<open>Pending\<close> when the script
  ends first, with its effects kept as they are when the caller drops the future.  A typestate is a record
  with the phase as a field; the operations exist for the phases of their \<open>impl\<close> block.

  \<^bold>\<open>The theories.\<close>

  \<^item> \<open>Prelude\<close>: integers, results, the operations of the \<open>bytes\<close> crate, readers and writers.  \<open>Utf8\<close>: well-formed strings.  \<open>Wire\<close>: the
    field codecs of \<open>codec.rs\<close>; the locale \<open>wire_item\<close> is the contract between a writer and its reader,
    interpreted for every field type.  \<open>Btree\<close>: \<open>BTreeMap\<close> as a sorted association list, with the locale
    \<open>ordered_map\<close>.
  \<^item> \<open>Codec_Frontend\<close>, \<open>Codec_Backend\<close>: every message with its encoder and decoder.  A decoder accepts a
    frame with a message exactly when the message encodes to that frame.
  \<^item> \<open>Framing\<close>: tagged frames and their limits.  Decoding is exact and incremental: it asks for more on
    every proper prefix and consumes nothing then.
  \<^item> \<open>Startup\<close>, \<open>Pre_Startup\<close>: startup packets, encryption requests and replies, SSL modes.  Round trips,
    incremental decoding, no silent continuation in plaintext.
  \<^item> \<open>Fsm\<close>: grammars as data, the checks of the macro and the runtime it generates; the locale \<open>grammar\<close>
    states what an accepted grammar gives.  \<open>Grammar\<close>: the six grammars, each an interpretation.
    \<open>Grammar_Laws\<close>: the two sides of a session stay in lockstep, of authentication and of pre-startup
    correspond, and no phase is a dead end.  \<open>Respond\<close>, \<open>Frontend_Tables\<close>: the session grammars as tables.
  \<^item> \<open>Demux\<close>: \<open>route\<close> and its state.  The session stream is the wire stream without the asynchronous
    traffic, which is kept losslessly, in order and attributed to its command.
  \<^item> \<open>Middleware\<close>: handlers, chains, checked and typed interception.
  \<^item> \<open>Pipeline\<close>: the ledger with admission, responses, recovery from errors and spans.  \<open>Pipeline_Laws\<close>:
    responses are released in request order in every run; concrete runs that show where the ledger departs
    from PostgreSQL.  \<open>Pipeline_Queue\<close>: outside COPY the ledger refines the response queue of a server,
    never panics and stays within its limit.
  \<^item> \<open>Transport\<close>: the buffered transport; the locales \<open>incremental_decoder\<close> and \<open>framed_decoder\<close> are what its
    loops rely on, interpreted on the decoders of frames and packets.  \<open>Transport_Laws\<close>: exact flushing,
    receives that can be dropped and tried again, end-to-end delivery in both directions through codec,
    framing, transport and demultiplexer, and no plaintext across a TLS upgrade.
  \<^item> \<open>Replication\<close>: walsender payloads.  \<open>Session\<close>, \<open>Session_Laws\<close>: the typed client session; it sends
    exactly what the grammar allows, follows it on what it receives, and releases to a pool only
    connections without session state.
  \<^item> \<open>Resources\<close>, \<open>Resources_Laws\<close>: statements and portals of \<open>resources.rs\<close>.  The locale \<open>token_lifetime\<close> is the
    contract of one kind of token, interpreted for both kinds: a token is accepted exactly during the
    life of its resource; client names are isolated and mirror the names on the server.
  \<^item> \<open>Auth_Tables\<close>, \<open>Backend_Tables\<close>: the other grammars as tables.  \<open>Auth\<close>, \<open>Server_Auth\<close>: the typed
    operations of both authentication roles.  \<open>Auth_Laws\<close>: credential bodies are read exactly, what the client
    sends the server receives, and both roles keep to their grammars.
  \<^item> \<open>Server_Session\<close>: the typed server session.  \<open>Server_Session_Laws\<close>: its runs are runs of the backend
    grammar, with exact cleanliness, and it can do what the grammar allows but for errors around COPY.
  \<^item> \<open>Scripts\<close>, \<open>Credentials\<close>: the message-level view of a transport that the drivers share, and the
    verification of static credentials.
  \<^item> \<open>Client_Establish\<close>: the drivers of \<open>client_component.rs\<close> from the startup packet to the session.
    \<open>Client_Establish_Laws\<close>: a session exists only after a complete credential exchange, and
    establishment comes to an end on every script that does.
  \<^item> \<open>Client_Connect\<close>: startup parameters, TLS negotiation, the attempts of a connection and cancelling, of the same
    file.  \<open>Client_Connect_Laws\<close>: a client keeps to its TLS mode and reports it truthfully, and the server reads the
    parameters the client was configured with.
  \<^item> \<open>Server_Accept\<close>: the acceptance of a connection in \<open>server_component.rs\<close> from the first packet to the
    session.  \<open>Server_Accept_Laws\<close>: no AuthenticationOk and no session without the acceptance of the policy, a
    TLS requirement is kept, and accepting comes to an end.  \<open>Login\<close>: both components against each other
    with static MD5 credentials.
  \<^item> \<open>Scram\<close>, \<open>Scram_Laws\<close>: the server side of SCRAM; completeness for clients of RFC 5802, soundness, no
    replay, no downgrade.  The cryptographic primitives are a record of functions; \<open>primitives_ok\<close> is what
    their documentation promises.
  \<^item> \<open>Cancel\<close>: the registry of cancellation keys, an interpretation of the locale
    \<open>cancel_key_registry\<close>.  \<open>Backend_Hold\<close>: held messages and their accounting.
  \<^item> \<open>Intermediary\<close>: the forwarding loop of \<open>intermediary_component.rs\<close> in both directions, with local responses,
    held messages and teardown, for any middleware.  \<open>Intermediary_Laws\<close>: what is sent is what the ledger
    releases, in its order, and the loop fails no assertion of its own; the locale \<open>untouched\<close> is a part of the
    connection that a forwarding step leaves alone, interpreted for the hold, the waiting request and both inputs.
    \<open>Intermediary_Hold\<close>: the hold stays within its limits, a flush releases everything or nothing, and runs in which
    a message passes one held before it.  \<open>Intermediary_Relay\<close>: middleware that changes nothing makes the
    intermediary transparent.
  \<^item> \<open>Intermediary_Accept\<close>: how an intermediary accepts a connection, composed of \<open>Server_Accept\<close> and
    \<open>Client_Connect\<close>, with the registries of cancellation routes.  \<open>Intermediary_Accept_Laws\<close>: the locale
    \<open>route_registry\<close> is the contract of a registry, interpreted for both registries of the crate; a client is ready only
    behind an established upstream connection, a failure leaves no route and discloses nothing, and over every sequence
    of accepts and teardowns a cancellation reaches the live session it names and nothing else.

  \<^bold>\<open>Bounds.\<close>  No fuel is used: loops over input recurse on the script or on the bytes left
  (\<open>receive_projected\<close> consumes a frame in every round), and what a run does is quantified over all
  lists of steps.  Counters saturate as in the source.

  \<^bold>\<open>Not modelled.\<close>  The parser of the macro and the Rust types it generates; the hooks by which typed
  middleware enters the ledger, and the wake-up of waiting tasks; TLS, sockets and name resolution, which enter as parameters or not at all;
  the builders, accessors and operational calls of the connections of \<open>client_component.rs\<close> and
  \<open>server_component.rs\<close>, which wrap the modelled transport; the builders of \<open>intermediary_component.rs\<close>; an accept whose
  future is dropped while a send to the client is pending, since a flush returns at once in the scripts; the burn-in tool.
\<close>

end
